(* ===== verification/Prelude.thy ===== *)
theory Prelude
  imports Main "HOL-Library.Word"
begin

unbundle bit_operations_syntax

text \<open>
  Shared vocabulary of the development: the machine integers of the eBPF programs
  (\<^verbatim>\<open>__u8\<close> to \<^verbatim>\<open>__u64\<close>), little-endian byte strings as the BPF target and the userspace
  controller exchange them, the byte swap of \<^verbatim>\<open>bpf_ntohs\<close>, alignment arithmetic, and
  slices of byte lists.  The collection \<open>layout_simps\<close> holds the rewrite rules that evaluate
  C layouts, \<open>bytes_simps\<close> those that evaluate byte strings.
\<close>

named_theorems layout_simps \<open>evaluation of C type layouts\<close>
named_theorems bytes_simps \<open>evaluation of byte strings\<close>

type_synonym u8 = "8 word"
type_synonym u16 = "16 word"
type_synonym u32 = "32 word"
type_synonym u64 = "64 word"
type_synonym bytes = "u8 list"

section \<open>Little-endian byte strings\<close>

fun le_nat :: "bytes \<Rightarrow> nat" where
  "le_nat [] = 0"
| "le_nat (b # bs) = unat b + 256 * le_nat bs"

fun le_bytes :: "nat \<Rightarrow> nat \<Rightarrow> bytes" where
  "le_bytes 0 x = []"
| "le_bytes (Suc n) x = word_of_nat x # le_bytes n (x div 256)"

definition enc8 :: "u8 \<Rightarrow> bytes" where
  "enc8 w = le_bytes 1 (unat w)"

definition enc16 :: "u16 \<Rightarrow> bytes" where
  "enc16 w = le_bytes 2 (unat w)"

definition enc32 :: "u32 \<Rightarrow> bytes" where
  "enc32 w = le_bytes 4 (unat w)"

definition enc64 :: "u64 \<Rightarrow> bytes" where
  "enc64 w = le_bytes 8 (unat w)"

definition slice :: "nat \<Rightarrow> nat \<Rightarrow> 'a list \<Rightarrow> 'a list" where
  "slice off n xs = take n (drop off xs)"

definition dec8 :: "nat \<Rightarrow> bytes \<Rightarrow> u8" where
  "dec8 off bs = word_of_nat (le_nat (slice off 1 bs))"

definition dec16 :: "nat \<Rightarrow> bytes \<Rightarrow> u16" where
  "dec16 off bs = word_of_nat (le_nat (slice off 2 bs))"

definition dec32 :: "nat \<Rightarrow> bytes \<Rightarrow> u32" where
  "dec32 off bs = word_of_nat (le_nat (slice off 4 bs))"

definition dec64 :: "nat \<Rightarrow> bytes \<Rightarrow> u64" where
  "dec64 off bs = word_of_nat (le_nat (slice off 8 bs))"

definition put :: "nat \<Rightarrow> 'a list \<Rightarrow> 'a list \<Rightarrow> 'a list" where
  "put off v bs = take off bs @ v @ drop (off + length v) bs"

lemma length_le_bytes [simp]: "length (le_bytes n x) = n"
  by (induction n arbitrary: x) auto

lemma length_enc [simp, bytes_simps]:
  "length (enc8 a) = 1" "length (enc16 b) = 2" "length (enc32 c) = 4" "length (enc64 d) = 8"
  by (simp_all add: enc8_def enc16_def enc32_def enc64_def)

lemma le_nat_le_bytes: "le_nat (le_bytes n x) = x mod 256 ^ n"
proof (induction n arbitrary: x)
  case (Suc n)
  have "le_nat (le_bytes (Suc n) x) = x mod 256 + 256 * (x div 256 mod 256 ^ n)"
    by (simp add: Suc.IH unsigned_of_nat take_bit_eq_mod)
  also have "\<dots> = x mod (256 * 256 ^ n)"
    by (simp add: mod_mult2_eq)
  finally show ?case by simp
qed simp

lemma le_nat_bound: "le_nat bs < 256 ^ length bs"
proof (induction bs)
  case (Cons b bs)
  have "unat b < 256" using unsigned_less [of b, where ?'a = nat] by simp
  with Cons.IH show ?case by simp
qed simp

lemma le_bytes_le_nat: "le_bytes (length bs) (le_nat bs) = bs"
proof (induction bs)
  case (Cons b bs)
  have b: "unat b < 256" using unsigned_less [of b, where ?'a = nat] by simp
  then have "(unat b + 256 * le_nat bs) div 256 = le_nat bs" by simp
  moreover have "(word_of_nat (unat b + 256 * le_nat bs) :: u8) = b"
  proof (rule word_unat_eq_iff [THEN iffD2])
    have "(unat b + 256 * le_nat bs) mod 2 ^ 8 = unat b" using b by simp
    then show "unat (word_of_nat (unat b + 256 * le_nat bs) :: u8) = unat b"
      by (simp only: unsigned_of_nat take_bit_eq_mod) simp
  qed
  ultimately show ?case using Cons.IH by simp
qed simp

lemma le_nat_replicate_0 [simp, bytes_simps]: "le_nat (replicate n 0) = 0"
  by (induction n) auto

lemma le_nat_enc [simp, bytes_simps]:
  "le_nat (enc8 a) = unat a" "le_nat (enc16 b) = unat b"
  "le_nat (enc32 c) = unat c" "le_nat (enc64 d) = unat d"
  using unsigned_less [of a, where ?'a = nat] unsigned_less [of b, where ?'a = nat]
    unsigned_less [of c, where ?'a = nat] unsigned_less [of d, where ?'a = nat]
  by (simp_all add: enc8_def enc16_def enc32_def enc64_def le_nat_le_bytes)

section \<open>Slices and patches of lists\<close>

lemma length_slice: "length (slice off n xs) = min n (length xs - off)"
  by (simp add: slice_def min.commute)

lemma slice_replicate: "slice off n (replicate k x) = replicate (min n (k - off)) x"
  by (simp add: slice_def min.commute)

lemma length_put [simp]: "off + length v \<le> length bs \<Longrightarrow> length (put off v bs) = length bs"
  by (simp add: put_def)

lemma slice_put_same:
  "off + length v \<le> length bs \<Longrightarrow> n = length v \<Longrightarrow> slice off n (put off v bs) = v"
  by (simp add: slice_def put_def)

lemma nth_put:
  assumes "off + length v \<le> length bs" and "i < length bs"
  shows "put off v bs ! i = (if off \<le> i \<and> i < off + length v then v ! (i - off) else bs ! i)"
  using assms by (auto simp: put_def nth_append min_def)

lemma nth_slice: "i < n \<Longrightarrow> off + n \<le> length xs \<Longrightarrow> slice off n xs ! i = xs ! (off + i)"
  by (simp add: slice_def)

lemma slice_put_other:
  assumes "off + length v \<le> length bs" and "o2 + n \<le> length bs"
    and "o2 + n \<le> off \<or> off + length v \<le> o2"
  shows "slice o2 n (put off v bs) = slice o2 n bs"
proof (rule nth_equalityI)
  show "length (slice o2 n (put off v bs)) = length (slice o2 n bs)"
    using assms(1) by (simp add: length_slice)
next
  fix i assume "i < length (slice o2 n (put off v bs))"
  then have "i < n" by (simp add: length_slice)
  with assms show "slice o2 n (put off v bs) ! i = slice o2 n bs ! i"
    by (auto simp: nth_slice nth_put)
qed

lemma dec_put_same [bytes_simps]:
  "off + 1 \<le> length bs \<Longrightarrow> dec8 off (put off (enc8 a) bs) = a"
  "off + 2 \<le> length bs \<Longrightarrow> dec16 off (put off (enc16 b) bs) = b"
  "off + 4 \<le> length bs \<Longrightarrow> dec32 off (put off (enc32 c) bs) = c"
  "off + 8 \<le> length bs \<Longrightarrow> dec64 off (put off (enc64 d) bs) = d"
  by (simp_all add: dec8_def dec16_def dec32_def dec64_def slice_put_same)

lemma dec_put_other [bytes_simps]:
  "off + length v \<le> length bs \<Longrightarrow> o2 + 1 \<le> length bs \<Longrightarrow> o2 + 1 \<le> off \<or> off + length v \<le> o2 \<Longrightarrow>
     dec8 o2 (put off v bs) = dec8 o2 bs"
  "off + length v \<le> length bs \<Longrightarrow> o2 + 2 \<le> length bs \<Longrightarrow> o2 + 2 \<le> off \<or> off + length v \<le> o2 \<Longrightarrow>
     dec16 o2 (put off v bs) = dec16 o2 bs"
  "off + length v \<le> length bs \<Longrightarrow> o2 + 4 \<le> length bs \<Longrightarrow> o2 + 4 \<le> off \<or> off + length v \<le> o2 \<Longrightarrow>
     dec32 o2 (put off v bs) = dec32 o2 bs"
  "off + length v \<le> length bs \<Longrightarrow> o2 + 8 \<le> length bs \<Longrightarrow> o2 + 8 \<le> off \<or> off + length v \<le> o2 \<Longrightarrow>
     dec64 o2 (put off v bs) = dec64 o2 bs"
  by (simp_all add: dec8_def dec16_def dec32_def dec64_def slice_put_other)

lemma dec_zeros [bytes_simps]:
  "dec8 off (replicate n 0) = 0" "dec16 off (replicate n 0) = 0"
  "dec32 off (replicate n 0) = 0" "dec64 off (replicate n 0) = 0"
  by (simp_all add: dec8_def dec16_def dec32_def dec64_def slice_replicate)

section \<open>Byte order\<close>

text \<open>\<^verbatim>\<open>bpf_ntohs\<close> on the little-endian BPF target swaps the two bytes.\<close>

definition bpf_ntohs :: "u16 \<Rightarrow> u16" where
  "bpf_ntohs x = push_bit 8 x OR drop_bit 8 x"

definition bpf_htons :: "u16 \<Rightarrow> u16" where
  "bpf_htons x = bpf_ntohs x"

lemma bpf_ntohs_involutive [simp]: "bpf_ntohs (bpf_ntohs x) = x"
  by (rule bit_word_eqI) (auto simp: bpf_ntohs_def bit_simps)

lemma bpf_ntohs_inj [simp]: "bpf_ntohs x = bpf_ntohs y \<longleftrightarrow> x = y"
  by (metis bpf_ntohs_involutive)

lemma bpf_ntohs_eq_0_iff [simp]: "bpf_ntohs x = 0 \<longleftrightarrow> x = 0"
  using bpf_ntohs_inj [of x 0] by (simp add: bpf_ntohs_def)

section \<open>Alignment\<close>

definition align_up :: "nat \<Rightarrow> nat \<Rightarrow> nat" where
  "align_up x a = (x + a - 1) div a * a"

definition pow2 :: "nat \<Rightarrow> bool" where
  "pow2 a \<longleftrightarrow> a \<in> {1, 2, 4, 8, 16, 32, 64}"

lemma align_up_ge: "0 < a \<Longrightarrow> x \<le> align_up x a"
proof -
  assume "0 < a"
  then have "x + a - 1 < (x + a - 1) div a * a + a"
    by (metis add.commute dividend_less_div_times)
  then show ?thesis by (simp add: align_up_def)
qed

lemma align_up_less: "0 < a \<Longrightarrow> align_up x a < x + a"
  unfolding align_up_def
  by (rule le_less_trans [OF div_times_less_eq_dividend]) simp

lemma align_up_dvd: "a dvd align_up x a"
  by (simp add: align_up_def)

lemma align_up_dvd_other: "b dvd a \<Longrightarrow> b dvd align_up x a"
  using align_up_dvd dvd_trans by blast

lemma align_up_1 [simp]: "align_up x 1 = x" "align_up x (Suc 0) = x"
  by (simp_all add: align_up_def)

lemma align_up_id: "0 < a \<Longrightarrow> a dvd x \<Longrightarrow> align_up x a = x"
  using align_up_ge [of a x] align_up_less [of a x] align_up_dvd [of a x]
  by (metis dvd_add_times_triv_right_iff dvd_diff_nat dvd_imp_le diff_add_inverse le_add_diff_inverse
      less_diff_conv2 add.commute linorder_not_less nat_less_le zero_less_diff)

lemma pow2_pos: "pow2 a \<Longrightarrow> 0 < a"
  by (auto simp: pow2_def)

lemma pow2_dvd_max: "pow2 a \<Longrightarrow> pow2 b \<Longrightarrow> a dvd max a b \<and> b dvd max a b \<and> pow2 (max a b)"
  by (auto simp: pow2_def max_def)

end
