(* ===== verification/CLayout.thy ===== *)
theory CLayout
  imports Prelude
begin

text \<open>
  The memory layout of C types on the BPF target (LP64, little endian): sizes, alignments and
  member offsets of scalars, pointers, enumerations, arrays, structures with bit-fields and
  unions, as clang lays out the declarations of \<^verbatim>\<open>vmlinux.h\<close> and of the eBPF programs.
  Pointers are eight bytes whatever they point to, so the pointee is not recorded.
  The generic lemmas show that every member lies inside its aggregate, at a multiple of its
  alignment, and that members declared one after the other do not overlap.
\<close>

datatype ctype =
    CInt bool nat                     \<comment> \<open>signed?, bytes\<close>
  | CPtr
  | CEnum "(string \<times> int) list"
  | CArray nat ctype
  | CStruct "cfield list"
  | CUnion "cfield list"
and cfield =
    Field string ctype                \<comment> \<open>anonymous members have the empty name\<close>
  | BitField string ctype nat         \<comment> \<open>declared type and width\<close>

abbreviation c_char :: ctype where "c_char \<equiv> CInt True 1"
abbreviation c_uchar :: ctype where "c_uchar \<equiv> CInt False 1"
abbreviation c_bool :: ctype where "c_bool \<equiv> CInt False 1"
abbreviation c_short :: ctype where "c_short \<equiv> CInt True 2"
abbreviation c_ushort :: ctype where "c_ushort \<equiv> CInt False 2"
abbreviation c_int :: ctype where "c_int \<equiv> CInt True 4"
abbreviation c_uint :: ctype where "c_uint \<equiv> CInt False 4"
abbreviation c_long :: ctype where "c_long \<equiv> CInt True 8"
abbreviation c_ulong :: ctype where "c_ulong \<equiv> CInt False 8"

section \<open>Alignment, size, members\<close>

fun calign :: "ctype \<Rightarrow> nat" and falign :: "cfield list \<Rightarrow> nat" where
  "calign (CInt s n) = n"
| "calign CPtr = 8"
| "calign (CEnum es) = 4"
| "calign (CArray n t) = calign t"
| "calign (CStruct fs) = falign fs"
| "calign (CUnion fs) = falign fs"
| "falign [] = 1"
| "falign (Field m t # fs) = max (calign t) (falign fs)"
| "falign (BitField m t w # fs) = (if m = [] then falign fs else max (calign t) (falign fs))"

text \<open>A bit-field that would straddle a storage unit of its type starts in the next unit;
  a width of zero closes the current unit.  Positions are in bits.\<close>

definition bit_place :: "nat \<Rightarrow> nat \<Rightarrow> nat \<Rightarrow> nat" where
  "bit_place p unit w =
     (if w = 0 then align_up p unit
      else if p div unit \<noteq> (p + w - 1) div unit then align_up p unit else p)"

fun csize :: "ctype \<Rightarrow> nat" and fend :: "nat \<Rightarrow> cfield list \<Rightarrow> nat" and usize :: "cfield list \<Rightarrow> nat" where
  "csize (CInt s n) = n"
| "csize CPtr = 8"
| "csize (CEnum es) = 4"
| "csize (CArray n t) = n * csize t"
| "csize (CStruct fs) = align_up ((fend 0 fs + 7) div 8) (falign fs)"
| "csize (CUnion fs) = align_up (usize fs) (falign fs)"
| "fend p [] = p"
| "fend p (Field m t # fs) = fend (align_up p (8 * calign t) + 8 * csize t) fs"
| "fend p (BitField m t w # fs) = fend (bit_place p (8 * csize t) w + w) fs"
| "usize [] = 0"
| "usize (Field m t # fs) = max (csize t) (usize fs)"
| "usize (BitField m t w # fs) = max ((w + 7) div 8) (usize fs)"

text \<open>\<open>member n t\<close> is the byte offset and the type of member \<open>n\<close>, looking through
  anonymous structures and unions as C does; bit-fields have no address.\<close>

fun member :: "string \<Rightarrow> ctype \<Rightarrow> (nat \<times> ctype) option"
  and fmember :: "string \<Rightarrow> nat \<Rightarrow> cfield list \<Rightarrow> (nat \<times> ctype) option"
  and umember :: "string \<Rightarrow> cfield list \<Rightarrow> (nat \<times> ctype) option" where
  "member n (CStruct fs) = fmember n 0 fs"
| "member n (CUnion fs) = umember n fs"
| "member n (CInt s k) = None"
| "member n CPtr = None"
| "member n (CEnum es) = None"
| "member n (CArray k t) = None"
| "fmember n p [] = None"
| "fmember n p (Field m t # fs) =
     (if m = n then Some (align_up p (8 * calign t) div 8, t)
      else case (if m = [] then member n t else None) of
        Some (d, u) \<Rightarrow> Some (align_up p (8 * calign t) div 8 + d, u)
      | None \<Rightarrow> fmember n (align_up p (8 * calign t) + 8 * csize t) fs)"
| "fmember n p (BitField m t w # fs) = fmember n (bit_place p (8 * csize t) w + w) fs"
| "umember n [] = None"
| "umember n (Field m t # fs) =
     (if m = n then Some (0, t)
      else case (if m = [] then member n t else None) of
        Some r \<Rightarrow> Some r
      | None \<Rightarrow> umember n fs)"
| "umember n (BitField m t w # fs) = umember n fs"

text \<open>The offset of a path of members, as in \<^verbatim>\<open>offsetof(struct sock, __sk_common.skc_net.net)\<close>.\<close>

fun offsetof :: "ctype \<Rightarrow> string list \<Rightarrow> nat option" where
  "offsetof t [] = Some 0"
| "offsetof t (n # ns) =
     (case member n t of None \<Rightarrow> None
      | Some (d, u) \<Rightarrow> map_option (\<lambda>e. d + e) (offsetof u ns))"

definition field_off :: "ctype \<Rightarrow> string \<Rightarrow> nat" where
  "field_off t n = the (offsetof t [n])"

section \<open>Well-formed types\<close>

fun wf_ctype :: "ctype \<Rightarrow> bool" and wf_fields :: "cfield list \<Rightarrow> bool" where
  "wf_ctype (CInt s n) = pow2 n"
| "wf_ctype CPtr = True"
| "wf_ctype (CEnum es) = True"
| "wf_ctype (CArray n t) = wf_ctype t"
| "wf_ctype (CStruct fs) = wf_fields fs"
| "wf_ctype (CUnion fs) = wf_fields fs"
| "wf_fields [] = True"
| "wf_fields (Field m t # fs) = (wf_ctype t \<and> wf_fields fs)"
| "wf_fields (BitField m t w # fs) = (wf_ctype t \<and> w \<le> 8 * csize t \<and> 0 < csize t \<and> wf_fields fs)"

lemma wf_fields_append [layout_simps]: "wf_fields (xs @ ys) = (wf_fields xs \<and> wf_fields ys)"
proof (induction xs)
  case (Cons f fs)
  then show ?case by (cases f) auto
qed simp

lemma calign_pow2:
  "wf_ctype t \<Longrightarrow> pow2 (calign t)"
  "wf_fields fs \<Longrightarrow> pow2 (falign fs)"
  by (induction t and fs rule: calign_falign.induct) (auto simp: pow2_dvd_max, auto simp: pow2_def)

lemma calign_dvd_csize: "wf_ctype t \<Longrightarrow> calign t dvd csize t"
proof (induction t)
  case (CArray n t)
  then show ?case by simp
qed (auto simp: align_up_dvd)

lemma falign_cons:
  assumes "wf_ctype t" and "wf_fields fs"
  shows "calign t dvd max (calign t) (falign fs)" "falign fs dvd max (calign t) (falign fs)"
  using pow2_dvd_max [OF calign_pow2(1) [OF assms(1)] calign_pow2(2) [OF assms(2)]] by auto

lemma bit_place_ge: "0 < u \<Longrightarrow> p \<le> bit_place p u w"
  by (simp add: bit_place_def align_up_ge)

lemma fend_ge: "wf_fields fs \<Longrightarrow> p \<le> fend p fs"
proof (induction fs arbitrary: p)
  case (Cons f fs)
  show ?case
  proof (cases f)
    case (Field m t)
    with Cons.prems have "0 < 8 * calign t" by (simp add: calign_pow2(1) pow2_pos)
    then have "p \<le> align_up p (8 * calign t) + 8 * csize t"
      using align_up_ge trans_le_add1 by blast
    also have "\<dots> \<le> fend (align_up p (8 * calign t) + 8 * csize t) fs"
      using Cons Field by auto
    finally show ?thesis using Field by simp
  next
    case (BitField m t w)
    with Cons.prems have "p \<le> bit_place p (8 * csize t) w + w"
      by (simp add: trans_le_add1 [OF bit_place_ge])
    also have "\<dots> \<le> fend (bit_place p (8 * csize t) w + w) fs"
      using Cons BitField by auto
    finally show ?thesis using BitField by simp
  qed
qed simp

lemma fend_append: "fend p (xs @ ys) = fend (fend p xs) ys"
proof (induction xs arbitrary: p)
  case (Cons f fs)
  then show ?case by (cases f) auto
qed simp

lemma fmember_append:
  "fmember n p (xs @ ys) =
     (case fmember n p xs of None \<Rightarrow> fmember n (fend p xs) ys | Some r \<Rightarrow> Some r)"
proof (induction xs arbitrary: p)
  case (Cons f fs)
  then show ?case by (cases f) (auto split: option.splits)
qed simp

lemma falign_append: "falign (xs @ ys) = max (falign xs) (falign ys)"
proof (induction xs)
  case Nil
  have "0 < falign ys \<or> falign ys = 0" by auto
  moreover have "1 \<le> falign ys"
  proof (induction ys)
    case (Cons f fs)
    then show ?case by (cases f) auto
  qed simp
  ultimately show ?case by simp
next
  case (Cons f fs)
  then show ?case by (cases f) auto
qed

section \<open>Members lie inside their aggregate, aligned\<close>

lemma align_up_8_cases: obtains k where "align_up p (8 * a) = 8 * (a * k)"
proof -
  from align_up_dvd [of "8 * a" p] obtain k where "align_up p (8 * a) = 8 * a * k" by (rule dvdE)
  then show thesis by (intro that [of k]) simp
qed

lemma align_up_div8: "8 * (align_up p (8 * a) div 8) = align_up p (8 * a)"
  by (rule align_up_8_cases [of p a]) simp

lemma dvd_align_up_div8: "b dvd a \<Longrightarrow> b dvd align_up p (8 * a) div 8"
  by (rule align_up_8_cases [of p a]) simp

text \<open>What \<open>fmember\<close> returns lies between the start position and the end of the fields.\<close>

definition placed :: "nat \<Rightarrow> nat \<Rightarrow> nat \<Rightarrow> nat \<times> ctype \<Rightarrow> bool" where
  "placed lo hi al r = (lo \<le> 8 * fst r \<and> 8 * (fst r + csize (snd r)) \<le> hi
     \<and> calign (snd r) dvd fst r \<and> calign (snd r) dvd al)"

lemma placed_mono: "placed lo hi al r \<Longrightarrow> lo' \<le> lo \<Longrightarrow> hi \<le> hi' \<Longrightarrow> al dvd al' \<Longrightarrow> placed lo' hi' al' r"
  using dvd_trans [of "calign (snd r)" al al'] by (simp add: placed_def)

lemma placed_shift:
  "placed 0 (8 * n) al (d, u) \<Longrightarrow> al dvd o1 \<Longrightarrow> placed (8 * o1) (8 * (o1 + n)) al (o1 + d, u)"
  using dvd_trans [of "calign u" al o1] by (simp add: placed_def)

lemma struct_placed:
  assumes "wf_fields fs" and "placed 0 (fend 0 fs) (falign fs) r"
  shows "placed 0 (8 * csize (CStruct fs)) (calign (CStruct fs)) r"
proof (rule placed_mono [OF assms(2)])
  have "(fend 0 fs + 7) div 8 \<le> align_up ((fend 0 fs + 7) div 8) (falign fs)"
    using align_up_ge [OF pow2_pos [OF calign_pow2(2) [OF assms(1)]]] .
  then show "fend 0 fs \<le> 8 * csize (CStruct fs)" by simp
qed simp_all

lemma union_placed:
  assumes "wf_fields fs" and "placed 0 (8 * usize fs) (falign fs) r"
  shows "placed 0 (8 * csize (CUnion fs)) (calign (CUnion fs)) r"
  using align_up_ge [OF pow2_pos [OF calign_pow2(2) [OF assms(1)]], of "usize fs"]
  by (intro placed_mono [OF assms(2)]) auto

lemma field_placed:
  assumes "wf_ctype t" and "wf_fields fs"
  shows "placed p (fend p (Field m t # fs)) (falign (Field m t # fs)) (align_up p (8 * calign t) div 8, t)"
proof -
  have "align_up p (8 * calign t) + 8 * csize t \<le> fend (align_up p (8 * calign t) + 8 * csize t) fs"
    by (rule fend_ge [OF assms(2)])
  moreover have "p \<le> align_up p (8 * calign t)"
    using pow2_pos [OF calign_pow2(1) [OF assms(1)]] by (simp add: align_up_ge)
  moreover have "calign t dvd align_up p (8 * calign t) div 8"
    by (rule dvd_align_up_div8) simp
  ultimately show ?thesis
    using align_up_div8 [of p "calign t"] falign_cons(1) [OF assms] by (simp add: placed_def algebra_simps)
qed

lemma member_placed_mutual:
  "member n t = Some r \<Longrightarrow> wf_ctype t \<Longrightarrow> placed 0 (8 * csize t) (calign t) r"
  "fmember n p fs = Some r \<Longrightarrow> wf_fields fs \<Longrightarrow> placed p (fend p fs) (falign fs) r"
  "umember n fs = Some r \<Longrightarrow> wf_fields fs \<Longrightarrow> placed 0 (8 * usize fs) (falign fs) r"
proof (induction n t and n p fs and n fs arbitrary: r and r and r rule: member_fmember_umember.induct)
  case (1 n fs)
  then show ?case using struct_placed by simp
next
  case (2 n fs)
  then show ?case using union_placed by simp
next
  case (8 n p m t fs)
  let ?o = "align_up p (8 * calign t)"
  have wf: "wf_ctype t" "wf_fields fs" using "8.prems"(2) by auto
  have hd: "placed p (fend p (Field m t # fs)) (falign (Field m t # fs)) (?o div 8, t)"
    by (rule field_placed [OF wf])
  show ?case
  proof (cases "m = n")
    case True
    with "8.prems"(1) hd show ?thesis by simp
  next
    case neq: False
    show ?thesis
    proof (cases "if m = [] then member n t else None")
      case None
      with neq "8.prems"(1) have "fmember n (?o + 8 * csize t) fs = Some r" by simp
      from "8.IH"(2) [OF neq None this wf(2)] show ?thesis
        by (rule placed_mono)
          (use hd falign_cons(2) [OF wf] align_up_div8 [of p "calign t"] in \<open>auto simp: placed_def\<close>)
    next
      case (Some q)
      then have m: "m = []" and q: "member n t = Some q" by (auto split: if_splits)
      obtain d u where du: "q = (d, u)" by (cases q)
      from "8.IH"(1) [OF neq m q wf(1)] have "placed 0 (8 * csize t) (calign t) (d, u)" by (simp add: du)
      then have "placed (8 * (?o div 8)) (8 * (?o div 8 + csize t)) (calign t) (?o div 8 + d, u)"
        by (rule placed_shift) (simp add: dvd_align_up_div8)
      moreover have "r = (?o div 8 + d, u)" using "8.prems"(1) neq m q du by simp
      ultimately show ?thesis
        by (auto elim!: placed_mono) (use hd in \<open>auto simp: placed_def\<close>)
    qed
  qed
next
  case (9 n p m t w fs)
  then have wf: "wf_ctype t" "0 < csize t" "wf_fields fs" by auto
  have "placed (bit_place p (8 * csize t) w + w) (fend (bit_place p (8 * csize t) w + w) fs) (falign fs) r"
    using 9 by simp
  then show ?case
    by (rule placed_mono)
      (use wf bit_place_ge [of "8 * csize t" p w] falign_cons(2) [OF wf(1,3)] in \<open>auto simp: trans_le_add1\<close>)
next
  case (11 n m t fs)
  then have wf: "wf_ctype t" "wf_fields fs" by auto
  show ?case
  proof (cases "m = n")
    case True
    with "11.prems"(1) falign_cons(1) [OF wf] show ?thesis by (auto simp: placed_def)
  next
    case neq: False
    show ?thesis
    proof (cases "if m = [] then member n t else None")
      case None
      with neq "11.prems"(1) have "umember n fs = Some r" by simp
      from "11.IH"(2) [OF neq None this wf(2)] show ?thesis
        by (rule placed_mono) (use falign_cons(2) [OF wf] in auto)
    next
      case (Some q)
      then have m: "m = []" and q: "member n t = Some q" by (auto split: if_splits)
      from "11.IH"(1) [OF neq m q wf(1)] "11.prems"(1) neq m q
      have "placed 0 (8 * csize t) (calign t) r" by simp
      then show ?thesis
        by (rule placed_mono) (use falign_cons(1) [OF wf] in auto)
    qed
  qed
next
  case (12 n m t w fs)
  then have wf: "wf_ctype t" "wf_fields fs" by auto
  have "placed 0 (8 * usize fs) (falign fs) r" using 12 by simp
  then show ?case
    by (rule placed_mono) (use falign_cons(2) [OF wf] in auto)
qed auto

lemma member_inside:
  assumes "wf_ctype t" and "member n t = Some (d, u)"
  shows "d + csize u \<le> csize t" and "calign u dvd d"
  using member_placed_mutual(1) [OF assms(2,1)] by (auto simp: placed_def)

lemma fields_disjoint:
  assumes "wf_fields (xs @ ys)"
    and "fmember n p xs = Some (d, u)" and "fmember m (fend p xs) ys = Some (e, v)"
  shows "d + csize u \<le> e"
  using assms member_placed_mutual(2) [OF assms(2)] member_placed_mutual(2) [OF assms(3)]
  by (auto simp: placed_def wf_fields_append)

section \<open>Evaluation\<close>

text \<open>
  The simplifier evaluates a layout field by field.  The congruence rules keep it from
  descending into the fields that are still to come, so that a structure of two hundred members
  evaluates in two hundred steps.
\<close>

lemma fend_cong: "p = q \<Longrightarrow> fend p fs = fend q fs"
  by simp

lemma fmember_cong: "p = q \<Longrightarrow> fmember n p fs = fmember n q fs"
  by simp

lemma falign_cong: "falign fs = falign fs"
  by simp

lemma usize_cong: "usize fs = usize fs"
  by simp

lemma umember_cong: "umember n fs = umember n fs"
  by simp

lemma wf_fields_cong: "wf_fields fs = wf_fields fs"
  by simp

lemmas layout_cong = fend_cong fmember_cong falign_cong usize_cong umember_cong wf_fields_cong

lemma pow2_sizes [layout_simps]:
  "pow2 (Suc 0)" "pow2 1" "pow2 2" "pow2 4" "pow2 8" "pow2 16"
  by (simp_all add: pow2_def)


lemma align_up_small: "0 < a \<Longrightarrow> align_up 0 a = 0" "0 < a \<Longrightarrow> align_up 1 a = a"
  by (simp_all add: align_up_def)

lemma align_up_numeral [layout_simps]:
  "align_up (numeral x) (numeral a) = (numeral x + numeral a - 1) div numeral a * numeral a"
  "align_up 0 (numeral a) = 0" "align_up 1 (numeral a) = numeral a"
  by (simp add: align_up_def, rule align_up_small, simp, rule align_up_small, simp)

lemma bit_place_numeral [layout_simps]:
  "bit_place (numeral x) (numeral u) (numeral w) =
     (if numeral x div numeral u = (numeral x + numeral w - (1::nat)) div numeral u then numeral x
      else align_up (numeral x) (numeral u))"
  "bit_place 0 (numeral u) (numeral w) =
     (if (numeral w - (1::nat)) div numeral u = 0 then 0 else align_up 0 (numeral u))"
  "bit_place p q 1 = p" "bit_place p q (Suc 0) = p"
  "bit_place p q 0 = align_up p q"
  by (auto simp: bit_place_def)

lemma max_one_numeral [layout_simps]:
  "max (Suc 0) (numeral k) = numeral k" "max (numeral k) (Suc 0) = numeral k"
  "max (1::nat) (numeral k) = numeral k" "max (numeral k) (1::nat) = numeral k"
  using one_le_numeral [of k, where ?'a = nat] by (simp_all add: max_def)

declare max_Suc_numeral [simp del] max_numeral_Suc [simp del]

lemmas layout_eval [layout_simps] = fend_append fmember_append falign_append

end
