(* ===== verification/Vmlinux_Base.thy ===== *)
theory Vmlinux_Base
  imports CLayout
begin

text \<open>
  The declarations of \<^verbatim>\<open>src/controller/src/bpf/vmlinux.h\<close> that several kernel structures share: the integer typedefs,
  list heads, locks, reference counts, wait queues, timers and radix trees.

  Each constant is one declaration of the header, member by member; \<open>struct_\<close>, \<open>union_\<close>, \<open>enum_\<close> and \<open>typ_\<close>
  stand for the C name spaces.  The lemma after it is its size, its alignment and its
  well-formedness, which the declarations that embed it use.
\<close>

definition typ___u8 :: ctype where
  "typ___u8 = c_uchar"

lemma typ___u8_layout [layout_simps]:
  "csize typ___u8 = 1" "calign typ___u8 = 1" "wf_ctype typ___u8"
  by (simp_all add: typ___u8_def layout_simps cong: layout_cong)

definition typ___u16 :: ctype where
  "typ___u16 = c_ushort"

lemma typ___u16_layout [layout_simps]:
  "csize typ___u16 = 2" "calign typ___u16 = 2" "wf_ctype typ___u16"
  by (simp_all add: typ___u16_def layout_simps cong: layout_cong)

definition typ___u32 :: ctype where
  "typ___u32 = c_uint"

lemma typ___u32_layout [layout_simps]:
  "csize typ___u32 = 4" "calign typ___u32 = 4" "wf_ctype typ___u32"
  by (simp_all add: typ___u32_def layout_simps cong: layout_cong)

definition typ___s64 :: ctype where
  "typ___s64 = c_long"

lemma typ___s64_layout [layout_simps]:
  "csize typ___s64 = 8" "calign typ___s64 = 8" "wf_ctype typ___s64"
  by (simp_all add: typ___s64_def layout_simps cong: layout_cong)

definition typ___u64 :: ctype where
  "typ___u64 = c_ulong"

lemma typ___u64_layout [layout_simps]:
  "csize typ___u64 = 8" "calign typ___u64 = 8" "wf_ctype typ___u64"
  by (simp_all add: typ___u64_def layout_simps cong: layout_cong)

definition typ_u8 :: ctype where
  "typ_u8 = typ___u8"

lemma typ_u8_layout [layout_simps]:
  "csize typ_u8 = 1" "calign typ_u8 = 1" "wf_ctype typ_u8"
  by (simp_all add: typ_u8_def layout_simps cong: layout_cong)

definition typ_u16 :: ctype where
  "typ_u16 = typ___u16"

lemma typ_u16_layout [layout_simps]:
  "csize typ_u16 = 2" "calign typ_u16 = 2" "wf_ctype typ_u16"
  by (simp_all add: typ_u16_def layout_simps cong: layout_cong)

definition typ_u32 :: ctype where
  "typ_u32 = typ___u32"

lemma typ_u32_layout [layout_simps]:
  "csize typ_u32 = 4" "calign typ_u32 = 4" "wf_ctype typ_u32"
  by (simp_all add: typ_u32_def layout_simps cong: layout_cong)

definition typ_s64 :: ctype where
  "typ_s64 = typ___s64"

lemma typ_s64_layout [layout_simps]:
  "csize typ_s64 = 8" "calign typ_s64 = 8" "wf_ctype typ_s64"
  by (simp_all add: typ_s64_def layout_simps cong: layout_cong)

definition typ_u64 :: ctype where
  "typ_u64 = typ___u64"

lemma typ_u64_layout [layout_simps]:
  "csize typ_u64 = 8" "calign typ_u64 = 8" "wf_ctype typ_u64"
  by (simp_all add: typ_u64_def layout_simps cong: layout_cong)

definition typ___kernel_ulong_t :: ctype where
  "typ___kernel_ulong_t = c_ulong"

lemma typ___kernel_ulong_t_layout [layout_simps]:
  "csize typ___kernel_ulong_t = 8" "calign typ___kernel_ulong_t = 8" "wf_ctype typ___kernel_ulong_t"
  by (simp_all add: typ___kernel_ulong_t_def layout_simps cong: layout_cong)

definition typ___kernel_uid32_t :: ctype where
  "typ___kernel_uid32_t = c_uint"

lemma typ___kernel_uid32_t_layout [layout_simps]:
  "csize typ___kernel_uid32_t = 4" "calign typ___kernel_uid32_t = 4" "wf_ctype typ___kernel_uid32_t"
  by (simp_all add: typ___kernel_uid32_t_def layout_simps cong: layout_cong)

definition typ___kernel_size_t :: ctype where
  "typ___kernel_size_t = typ___kernel_ulong_t"

lemma typ___kernel_size_t_layout [layout_simps]:
  "csize typ___kernel_size_t = 8" "calign typ___kernel_size_t = 8" "wf_ctype typ___kernel_size_t"
  by (simp_all add: typ___kernel_size_t_def layout_simps cong: layout_cong)

definition typ_bool :: ctype where
  "typ_bool = c_bool"

lemma typ_bool_layout [layout_simps]:
  "csize typ_bool = 1" "calign typ_bool = 1" "wf_ctype typ_bool"
  by (simp_all add: typ_bool_def layout_simps cong: layout_cong)

definition typ_uid_t :: ctype where
  "typ_uid_t = typ___kernel_uid32_t"

lemma typ_uid_t_layout [layout_simps]:
  "csize typ_uid_t = 4" "calign typ_uid_t = 4" "wf_ctype typ_uid_t"
  by (simp_all add: typ_uid_t_def layout_simps cong: layout_cong)

definition typ_size_t :: ctype where
  "typ_size_t = typ___kernel_size_t"

lemma typ_size_t_layout [layout_simps]:
  "csize typ_size_t = 8" "calign typ_size_t = 8" "wf_ctype typ_size_t"
  by (simp_all add: typ_size_t_def layout_simps cong: layout_cong)

definition typ_gfp_t :: ctype where
  "typ_gfp_t = c_uint"

lemma typ_gfp_t_layout [layout_simps]:
  "csize typ_gfp_t = 4" "calign typ_gfp_t = 4" "wf_ctype typ_gfp_t"
  by (simp_all add: typ_gfp_t_def layout_simps cong: layout_cong)

definition typ_atomic_t :: ctype where
  "typ_atomic_t = CStruct [
      Field ''counter'' c_int]"

lemma typ_atomic_t_layout [layout_simps]:
  "csize typ_atomic_t = 4" "calign typ_atomic_t = 4" "wf_ctype typ_atomic_t"
  by (simp_all add: typ_atomic_t_def layout_simps cong: layout_cong)

definition typ_atomic64_t :: ctype where
  "typ_atomic64_t = CStruct [
      Field ''counter'' typ_s64]"

lemma typ_atomic64_t_layout [layout_simps]:
  "csize typ_atomic64_t = 8" "calign typ_atomic64_t = 8" "wf_ctype typ_atomic64_t"
  by (simp_all add: typ_atomic64_t_def layout_simps cong: layout_cong)

definition struct_list_head :: ctype where
  "struct_list_head = CStruct [
      Field ''next'' CPtr,
      Field ''prev'' CPtr]"

lemma struct_list_head_layout [layout_simps]:
  "csize struct_list_head = 16" "calign struct_list_head = 8" "wf_ctype struct_list_head"
  by (simp_all add: struct_list_head_def layout_simps cong: layout_cong)

definition struct_hlist_node :: ctype where
  "struct_hlist_node = CStruct [
      Field ''next'' CPtr,
      Field ''pprev'' CPtr]"

lemma struct_hlist_node_layout [layout_simps]:
  "csize struct_hlist_node = 16" "calign struct_hlist_node = 8" "wf_ctype struct_hlist_node"
  by (simp_all add: struct_hlist_node_def layout_simps cong: layout_cong)

definition struct_callback_head :: ctype where
  "struct_callback_head = CStruct [
      Field ''next'' CPtr,
      Field ''func'' CPtr]"

lemma struct_callback_head_layout [layout_simps]:
  "csize struct_callback_head = 16" "calign struct_callback_head = 8" "wf_ctype struct_callback_head"
  by (simp_all add: struct_callback_head_def layout_simps cong: layout_cong)

definition struct_qspinlock :: ctype where
  "struct_qspinlock = CStruct [
      Field '''' (CUnion [
        Field ''val'' typ_atomic_t,
        Field '''' (CStruct [
          Field ''locked'' typ_u8,
          Field ''pending'' typ_u8]),
        Field '''' (CStruct [
          Field ''locked_pending'' typ_u16,
          Field ''tail'' typ_u16])])]"

lemma struct_qspinlock_layout [layout_simps]:
  "csize struct_qspinlock = 4" "calign struct_qspinlock = 4" "wf_ctype struct_qspinlock"
  by (simp_all add: struct_qspinlock_def layout_simps cong: layout_cong)

definition typ_arch_spinlock_t :: ctype where
  "typ_arch_spinlock_t = struct_qspinlock"

lemma typ_arch_spinlock_t_layout [layout_simps]:
  "csize typ_arch_spinlock_t = 4" "calign typ_arch_spinlock_t = 4" "wf_ctype typ_arch_spinlock_t"
  by (simp_all add: typ_arch_spinlock_t_def layout_simps cong: layout_cong)

definition struct_lockdep_map :: ctype where
  "struct_lockdep_map = CStruct [
      Field ''key'' CPtr,
      Field ''class_cache'' (CArray 2 CPtr),
      Field ''name'' CPtr,
      Field ''wait_type_outer'' c_short,
      Field ''wait_type_inner'' c_short]"

lemma struct_lockdep_map_layout [layout_simps]:
  "csize struct_lockdep_map = 40" "calign struct_lockdep_map = 8" "wf_ctype struct_lockdep_map"
  by (simp_all add: struct_lockdep_map_def layout_simps cong: layout_cong)

definition struct_raw_spinlock :: ctype where
  "struct_raw_spinlock = CStruct [
      Field ''raw_lock'' typ_arch_spinlock_t,
      Field ''magic'' c_uint,
      Field ''owner_cpu'' c_uint,
      Field ''owner'' CPtr,
      Field ''dep_map'' struct_lockdep_map]"

lemma struct_raw_spinlock_layout [layout_simps]:
  "csize struct_raw_spinlock = 64" "calign struct_raw_spinlock = 8" "wf_ctype struct_raw_spinlock"
  by (simp_all add: struct_raw_spinlock_def layout_simps cong: layout_cong)

definition struct_spinlock :: ctype where
  "struct_spinlock = CStruct [
      Field '''' (CUnion [
        Field ''rlock'' struct_raw_spinlock,
        Field '''' (CStruct [
          Field ''__padding'' (CArray 24 typ_u8),
          Field ''dep_map'' struct_lockdep_map])])]"

lemma struct_spinlock_layout [layout_simps]:
  "csize struct_spinlock = 64" "calign struct_spinlock = 8" "wf_ctype struct_spinlock"
  by (simp_all add: struct_spinlock_def layout_simps cong: layout_cong)

definition typ_spinlock_t :: ctype where
  "typ_spinlock_t = struct_spinlock"

lemma typ_spinlock_t_layout [layout_simps]:
  "csize typ_spinlock_t = 64" "calign typ_spinlock_t = 8" "wf_ctype typ_spinlock_t"
  by (simp_all add: typ_spinlock_t_def layout_simps cong: layout_cong)

definition typ_atomic_long_t :: ctype where
  "typ_atomic_long_t = typ_atomic64_t"

lemma typ_atomic_long_t_layout [layout_simps]:
  "csize typ_atomic_long_t = 8" "calign typ_atomic_long_t = 8" "wf_ctype typ_atomic_long_t"
  by (simp_all add: typ_atomic_long_t_def layout_simps cong: layout_cong)

definition struct_refcount_struct :: ctype where
  "struct_refcount_struct = CStruct [
      Field ''refs'' typ_atomic_t]"

lemma struct_refcount_struct_layout [layout_simps]:
  "csize struct_refcount_struct = 4" "calign struct_refcount_struct = 4" "wf_ctype struct_refcount_struct"
  by (simp_all add: struct_refcount_struct_def layout_simps cong: layout_cong)

definition typ_refcount_t :: ctype where
  "typ_refcount_t = struct_refcount_struct"

lemma typ_refcount_t_layout [layout_simps]:
  "csize typ_refcount_t = 4" "calign typ_refcount_t = 4" "wf_ctype typ_refcount_t"
  by (simp_all add: typ_refcount_t_def layout_simps cong: layout_cong)

definition struct_llist_node :: ctype where
  "struct_llist_node = CStruct [
      Field ''next'' CPtr]"

lemma struct_llist_node_layout [layout_simps]:
  "csize struct_llist_node = 8" "calign struct_llist_node = 8" "wf_ctype struct_llist_node"
  by (simp_all add: struct_llist_node_def layout_simps cong: layout_cong)

definition struct_rb_node :: ctype where
  "struct_rb_node = CStruct [
      Field ''__rb_parent_color'' c_ulong,
      Field ''rb_right'' CPtr,
      Field ''rb_left'' CPtr]"

lemma struct_rb_node_layout [layout_simps]:
  "csize struct_rb_node = 24" "calign struct_rb_node = 8" "wf_ctype struct_rb_node"
  by (simp_all add: struct_rb_node_def layout_simps cong: layout_cong)

definition typ_ktime_t :: ctype where
  "typ_ktime_t = typ_s64"

lemma typ_ktime_t_layout [layout_simps]:
  "csize typ_ktime_t = 8" "calign typ_ktime_t = 8" "wf_ctype typ_ktime_t"
  by (simp_all add: typ_ktime_t_def layout_simps cong: layout_cong)

definition struct_timerqueue_node :: ctype where
  "struct_timerqueue_node = CStruct [
      Field ''node'' struct_rb_node,
      Field ''expires'' typ_ktime_t]"

lemma struct_timerqueue_node_layout [layout_simps]:
  "csize struct_timerqueue_node = 32" "calign struct_timerqueue_node = 8" "wf_ctype struct_timerqueue_node"
  by (simp_all add: struct_timerqueue_node_def layout_simps cong: layout_cong)

definition struct_hrtimer :: ctype where
  "struct_hrtimer = CStruct [
      Field ''node'' struct_timerqueue_node,
      Field ''_softexpires'' typ_ktime_t,
      Field ''function'' CPtr,
      Field ''base'' CPtr,
      Field ''state'' typ_u8,
      Field ''is_rel'' typ_u8,
      Field ''is_soft'' typ_u8,
      Field ''is_hard'' typ_u8]"

lemma struct_hrtimer_layout [layout_simps]:
  "csize struct_hrtimer = 64" "calign struct_hrtimer = 8" "wf_ctype struct_hrtimer"
  by (simp_all add: struct_hrtimer_def layout_simps cong: layout_cong)

definition typ_raw_spinlock_t :: ctype where
  "typ_raw_spinlock_t = struct_raw_spinlock"

lemma typ_raw_spinlock_t_layout [layout_simps]:
  "csize typ_raw_spinlock_t = 64" "calign typ_raw_spinlock_t = 8" "wf_ctype typ_raw_spinlock_t"
  by (simp_all add: typ_raw_spinlock_t_def layout_simps cong: layout_cong)

definition struct_seqcount :: ctype where
  "struct_seqcount = CStruct [
      Field ''sequence'' c_uint,
      Field ''dep_map'' struct_lockdep_map]"

lemma struct_seqcount_layout [layout_simps]:
  "csize struct_seqcount = 48" "calign struct_seqcount = 8" "wf_ctype struct_seqcount"
  by (simp_all add: struct_seqcount_def layout_simps cong: layout_cong)

definition struct_rb_root :: ctype where
  "struct_rb_root = CStruct [
      Field ''rb_node'' CPtr]"

lemma struct_rb_root_layout [layout_simps]:
  "csize struct_rb_root = 8" "calign struct_rb_root = 8" "wf_ctype struct_rb_root"
  by (simp_all add: struct_rb_root_def layout_simps cong: layout_cong)

definition typ_kuid_t :: ctype where
  "typ_kuid_t = CStruct [
      Field ''val'' typ_uid_t]"

lemma typ_kuid_t_layout [layout_simps]:
  "csize typ_kuid_t = 4" "calign typ_kuid_t = 4" "wf_ctype typ_kuid_t"
  by (simp_all add: typ_kuid_t_def layout_simps cong: layout_cong)

definition struct_optimistic_spin_queue :: ctype where
  "struct_optimistic_spin_queue = CStruct [
      Field ''tail'' typ_atomic_t]"

lemma struct_optimistic_spin_queue_layout [layout_simps]:
  "csize struct_optimistic_spin_queue = 4" "calign struct_optimistic_spin_queue = 4" "wf_ctype struct_optimistic_spin_queue"
  by (simp_all add: struct_optimistic_spin_queue_def layout_simps cong: layout_cong)

definition struct_mutex :: ctype where
  "struct_mutex = CStruct [
      Field ''owner'' typ_atomic_long_t,
      Field ''wait_lock'' typ_spinlock_t,
      Field ''osq'' struct_optimistic_spin_queue,
      Field ''wait_list'' struct_list_head,
      Field ''magic'' CPtr,
      Field ''dep_map'' struct_lockdep_map]"

lemma struct_mutex_layout [layout_simps]:
  "csize struct_mutex = 144" "calign struct_mutex = 8" "wf_ctype struct_mutex"
  by (simp_all add: struct_mutex_def layout_simps cong: layout_cong)

definition struct_page_frag :: ctype where
  "struct_page_frag = CStruct [
      Field ''page'' CPtr,
      Field ''offset'' typ___u32,
      Field ''size'' typ___u32]"

lemma struct_page_frag_layout [layout_simps]:
  "csize struct_page_frag = 16" "calign struct_page_frag = 8" "wf_ctype struct_page_frag"
  by (simp_all add: struct_page_frag_def layout_simps cong: layout_cong)

definition typ_work_func_t :: ctype where
  "typ_work_func_t = CPtr"

lemma typ_work_func_t_layout [layout_simps]:
  "csize typ_work_func_t = 8" "calign typ_work_func_t = 8" "wf_ctype typ_work_func_t"
  by (simp_all add: typ_work_func_t_def layout_simps cong: layout_cong)

definition struct_work_struct :: ctype where
  "struct_work_struct = CStruct [
      Field ''data'' typ_atomic_long_t,
      Field ''entry'' struct_list_head,
      Field ''func'' typ_work_func_t,
      Field ''lockdep_map'' struct_lockdep_map]"

lemma struct_work_struct_layout [layout_simps]:
  "csize struct_work_struct = 72" "calign struct_work_struct = 8" "wf_ctype struct_work_struct"
  by (simp_all add: struct_work_struct_def layout_simps cong: layout_cong)

definition struct_qrwlock :: ctype where
  "struct_qrwlock = CStruct [
      Field '''' (CUnion [
        Field ''cnts'' typ_atomic_t,
        Field '''' (CStruct [
          Field ''wlocked'' typ_u8,
          Field ''__lstate'' (CArray 3 typ_u8)])]),
      Field ''wait_lock'' typ_arch_spinlock_t]"

lemma struct_qrwlock_layout [layout_simps]:
  "csize struct_qrwlock = 8" "calign struct_qrwlock = 4" "wf_ctype struct_qrwlock"
  by (simp_all add: struct_qrwlock_def layout_simps cong: layout_cong)

definition typ_arch_rwlock_t :: ctype where
  "typ_arch_rwlock_t = struct_qrwlock"

lemma typ_arch_rwlock_t_layout [layout_simps]:
  "csize typ_arch_rwlock_t = 8" "calign typ_arch_rwlock_t = 4" "wf_ctype typ_arch_rwlock_t"
  by (simp_all add: typ_arch_rwlock_t_def layout_simps cong: layout_cong)

definition typ_rwlock_t :: ctype where
  "typ_rwlock_t = CStruct [
      Field ''raw_lock'' typ_arch_rwlock_t,
      Field ''magic'' c_uint,
      Field ''owner_cpu'' c_uint,
      Field ''owner'' CPtr,
      Field ''dep_map'' struct_lockdep_map]"

lemma typ_rwlock_t_layout [layout_simps]:
  "csize typ_rwlock_t = 64" "calign typ_rwlock_t = 8" "wf_ctype typ_rwlock_t"
  by (simp_all add: typ_rwlock_t_def layout_simps cong: layout_cong)

definition struct_wait_queue_head :: ctype where
  "struct_wait_queue_head = CStruct [
      Field ''lock'' typ_spinlock_t,
      Field ''head'' struct_list_head]"

lemma struct_wait_queue_head_layout [layout_simps]:
  "csize struct_wait_queue_head = 80" "calign struct_wait_queue_head = 8" "wf_ctype struct_wait_queue_head"
  by (simp_all add: struct_wait_queue_head_def layout_simps cong: layout_cong)

definition typ_wait_queue_head_t :: ctype where
  "typ_wait_queue_head_t = struct_wait_queue_head"

lemma typ_wait_queue_head_t_layout [layout_simps]:
  "csize typ_wait_queue_head_t = 80" "calign typ_wait_queue_head_t = 8" "wf_ctype typ_wait_queue_head_t"
  by (simp_all add: typ_wait_queue_head_t_def layout_simps cong: layout_cong)

definition struct_timer_list :: ctype where
  "struct_timer_list = CStruct [
      Field ''entry'' struct_hlist_node,
      Field ''expires'' c_ulong,
      Field ''function'' CPtr,
      Field ''flags'' typ_u32,
      Field ''lockdep_map'' struct_lockdep_map]"

lemma struct_timer_list_layout [layout_simps]:
  "csize struct_timer_list = 80" "calign struct_timer_list = 8" "wf_ctype struct_timer_list"
  by (simp_all add: struct_timer_list_def layout_simps cong: layout_cong)

definition enum_bpf_map_type :: ctype where
  "enum_bpf_map_type = CEnum [
      (''BPF_MAP_TYPE_UNSPEC'', 0),
      (''BPF_MAP_TYPE_HASH'', 1),
      (''BPF_MAP_TYPE_ARRAY'', 2),
      (''BPF_MAP_TYPE_PROG_ARRAY'', 3),
      (''BPF_MAP_TYPE_PERF_EVENT_ARRAY'', 4),
      (''BPF_MAP_TYPE_PERCPU_HASH'', 5),
      (''BPF_MAP_TYPE_PERCPU_ARRAY'', 6),
      (''BPF_MAP_TYPE_STACK_TRACE'', 7),
      (''BPF_MAP_TYPE_CGROUP_ARRAY'', 8),
      (''BPF_MAP_TYPE_LRU_HASH'', 9),
      (''BPF_MAP_TYPE_LRU_PERCPU_HASH'', 10),
      (''BPF_MAP_TYPE_LPM_TRIE'', 11),
      (''BPF_MAP_TYPE_ARRAY_OF_MAPS'', 12),
      (''BPF_MAP_TYPE_HASH_OF_MAPS'', 13),
      (''BPF_MAP_TYPE_DEVMAP'', 14),
      (''BPF_MAP_TYPE_SOCKMAP'', 15),
      (''BPF_MAP_TYPE_CPUMAP'', 16),
      (''BPF_MAP_TYPE_XSKMAP'', 17),
      (''BPF_MAP_TYPE_SOCKHASH'', 18),
      (''BPF_MAP_TYPE_CGROUP_STORAGE'', 19),
      (''BPF_MAP_TYPE_REUSEPORT_SOCKARRAY'', 20),
      (''BPF_MAP_TYPE_PERCPU_CGROUP_STORAGE'', 21),
      (''BPF_MAP_TYPE_QUEUE'', 22),
      (''BPF_MAP_TYPE_STACK'', 23),
      (''BPF_MAP_TYPE_SK_STORAGE'', 24),
      (''BPF_MAP_TYPE_DEVMAP_HASH'', 25),
      (''BPF_MAP_TYPE_STRUCT_OPS'', 26),
      (''BPF_MAP_TYPE_RINGBUF'', 27)]"

lemma enum_bpf_map_type_layout [layout_simps]:
  "csize enum_bpf_map_type = 4" "calign enum_bpf_map_type = 4" "wf_ctype enum_bpf_map_type"
  by (simp_all add: enum_bpf_map_type_def layout_simps cong: layout_cong)

definition typ___be16 :: ctype where
  "typ___be16 = typ___u16"

lemma typ___be16_layout [layout_simps]:
  "csize typ___be16 = 2" "calign typ___be16 = 2" "wf_ctype typ___be16"
  by (simp_all add: typ___be16_def layout_simps cong: layout_cong)

definition typ___be32 :: ctype where
  "typ___be32 = typ___u32"

lemma typ___be32_layout [layout_simps]:
  "csize typ___be32 = 4" "calign typ___be32 = 4" "wf_ctype typ___be32"
  by (simp_all add: typ___be32_def layout_simps cong: layout_cong)

definition typ___kernel_sa_family_t :: ctype where
  "typ___kernel_sa_family_t = c_ushort"

lemma typ___kernel_sa_family_t_layout [layout_simps]:
  "csize typ___kernel_sa_family_t = 2" "calign typ___kernel_sa_family_t = 2" "wf_ctype typ___kernel_sa_family_t"
  by (simp_all add: typ___kernel_sa_family_t_def layout_simps cong: layout_cong)

end
