(* ===== verification/Vmlinux_Task.thy ===== *)
theory Vmlinux_Task
  imports Vmlinux_Base
begin

text \<open>
  \<^verbatim>\<open>struct task_struct\<close> of \<^verbatim>\<open>vmlinux.h\<close> with the structures it embeds.  The syscall probe follows its member
  \<^verbatim>\<open>nsproxy\<close>, whose offset depends on every member declared before it.

  Each constant is one declaration of the header, member by member; \<open>struct_\<close>, \<open>union_\<close>, \<open>enum_\<close> and \<open>typ_\<close>
  stand for the C name spaces.  The lemma after it is its size, its alignment and its
  well-formedness, which the declarations that embed it use.
\<close>

definition typ___kernel_pid_t :: ctype where
  "typ___kernel_pid_t = c_int"

lemma typ___kernel_pid_t_layout [layout_simps]:
  "csize typ___kernel_pid_t = 4" "calign typ___kernel_pid_t = 4" "wf_ctype typ___kernel_pid_t"
  by (simp_all add: typ___kernel_pid_t_def layout_simps cong: layout_cong)

definition typ___kernel_clockid_t :: ctype where
  "typ___kernel_clockid_t = c_int"

lemma typ___kernel_clockid_t_layout [layout_simps]:
  "csize typ___kernel_clockid_t = 4" "calign typ___kernel_clockid_t = 4" "wf_ctype typ___kernel_clockid_t"
  by (simp_all add: typ___kernel_clockid_t_def layout_simps cong: layout_cong)

definition typ_pid_t :: ctype where
  "typ_pid_t = typ___kernel_pid_t"

lemma typ_pid_t_layout [layout_simps]:
  "csize typ_pid_t = 4" "calign typ_pid_t = 4" "wf_ctype typ_pid_t"
  by (simp_all add: typ_pid_t_def layout_simps cong: layout_cong)

definition typ_clockid_t :: ctype where
  "typ_clockid_t = typ___kernel_clockid_t"

lemma typ_clockid_t_layout [layout_simps]:
  "csize typ_clockid_t = 4" "calign typ_clockid_t = 4" "wf_ctype typ_clockid_t"
  by (simp_all add: typ_clockid_t_def layout_simps cong: layout_cong)

definition enum_timespec_type :: ctype where
  "enum_timespec_type = CEnum [
      (''TT_NONE'', 0),
      (''TT_NATIVE'', 1),
      (''TT_COMPAT'', 2)]"

lemma enum_timespec_type_layout [layout_simps]:
  "csize enum_timespec_type = 4" "calign enum_timespec_type = 4" "wf_ctype enum_timespec_type"
  by (simp_all add: enum_timespec_type_def layout_simps cong: layout_cong)

definition struct_restart_block :: ctype where
  "struct_restart_block = CStruct [
      Field ''fn'' CPtr,
      Field '''' (CUnion [
        Field ''futex'' (CStruct [
          Field ''uaddr'' CPtr,
          Field ''val'' typ_u32,
          Field ''flags'' typ_u32,
          Field ''bitset'' typ_u32,
          Field ''time'' typ_u64,
          Field ''uaddr2'' CPtr]),
        Field ''nanosleep'' (CStruct [
          Field ''clockid'' typ_clockid_t,
          Field ''type'' enum_timespec_type,
          Field '''' (CUnion [
            Field ''rmtp'' CPtr,
            Field ''compat_rmtp'' CPtr]),
          Field ''expires'' typ_u64]),
        Field ''poll'' (CStruct [
          Field ''ufds'' CPtr,
          Field ''nfds'' c_int,
          Field ''has_timeout'' c_int,
          Field ''tv_sec'' c_ulong,
          Field ''tv_nsec'' c_ulong])])]"

lemma struct_restart_block_layout [layout_simps]:
  "csize struct_restart_block = 48" "calign struct_restart_block = 8" "wf_ctype struct_restart_block"
  by (simp_all add: struct_restart_block_def layout_simps cong: layout_cong)

definition struct_thread_info :: ctype where
  "struct_thread_info = CStruct [
      Field ''flags'' c_ulong,
      Field ''status'' typ_u32]"

lemma struct_thread_info_layout [layout_simps]:
  "csize struct_thread_info = 16" "calign struct_thread_info = 8" "wf_ctype struct_thread_info"
  by (simp_all add: struct_thread_info_def layout_simps cong: layout_cong)

definition struct_load_weight :: ctype where
  "struct_load_weight = CStruct [
      Field ''weight'' c_ulong,
      Field ''inv_weight'' typ_u32]"

lemma struct_load_weight_layout [layout_simps]:
  "csize struct_load_weight = 16" "calign struct_load_weight = 8" "wf_ctype struct_load_weight"
  by (simp_all add: struct_load_weight_def layout_simps cong: layout_cong)

definition struct_sched_statistics :: ctype where
  "struct_sched_statistics = CStruct []"

lemma struct_sched_statistics_layout [layout_simps]:
  "csize struct_sched_statistics = 0" "calign struct_sched_statistics = 1" "wf_ctype struct_sched_statistics"
  by (simp_all add: struct_sched_statistics_def layout_simps cong: layout_cong)

definition struct_util_est :: ctype where
  "struct_util_est = CStruct [
      Field ''enqueued'' c_uint,
      Field ''ewma'' c_uint]"

lemma struct_util_est_layout [layout_simps]:
  "csize struct_util_est = 8" "calign struct_util_est = 4" "wf_ctype struct_util_est"
  by (simp_all add: struct_util_est_def layout_simps cong: layout_cong)

definition struct_sched_avg :: ctype where
  "struct_sched_avg = CStruct [
      Field ''last_update_time'' typ_u64,
      Field ''load_sum'' typ_u64,
      Field ''runnable_sum'' typ_u64,
      Field ''util_sum'' typ_u32,
      Field ''period_contrib'' typ_u32,
      Field ''load_avg'' c_ulong,
      Field ''runnable_avg'' c_ulong,
      Field ''util_avg'' c_ulong,
      Field ''util_est'' struct_util_est]"

lemma struct_sched_avg_layout [layout_simps]:
  "csize struct_sched_avg = 64" "calign struct_sched_avg = 8" "wf_ctype struct_sched_avg"
  by (simp_all add: struct_sched_avg_def layout_simps cong: layout_cong)

definition struct_sched_entity :: ctype where
  "struct_sched_entity = CStruct [
      Field ''load'' struct_load_weight,
      Field ''run_node'' struct_rb_node,
      Field ''group_node'' struct_list_head,
      Field ''on_rq'' c_uint,
      Field ''exec_start'' typ_u64,
      Field ''sum_exec_runtime'' typ_u64,
      Field ''vruntime'' typ_u64,
      Field ''prev_sum_exec_runtime'' typ_u64,
      Field ''nr_migrations'' typ_u64,
      Field ''statistics'' struct_sched_statistics,
      Field ''depth'' c_int,
      Field ''parent'' CPtr,
      Field ''cfs_rq'' CPtr,
      Field ''my_q'' CPtr,
      Field ''runnable_weight'' c_ulong,
      BitField '''' c_long 64,
      BitField '''' c_long 64,
      BitField '''' c_long 64,
      BitField '''' c_long 64,
      BitField '''' c_long 64,
      BitField '''' c_long 64,
      Field ''avg'' struct_sched_avg]"

lemma struct_sched_entity_layout [layout_simps]:
  "csize struct_sched_entity = 256" "calign struct_sched_entity = 8" "wf_ctype struct_sched_entity"
  by (simp_all add: struct_sched_entity_def layout_simps cong: layout_cong)

definition struct_sched_rt_entity :: ctype where
  "struct_sched_rt_entity = CStruct [
      Field ''run_list'' struct_list_head,
      Field ''timeout'' c_ulong,
      Field ''watchdog_stamp'' c_ulong,
      Field ''time_slice'' c_uint,
      Field ''on_rq'' c_ushort,
      Field ''on_list'' c_ushort,
      Field ''back'' CPtr]"

lemma struct_sched_rt_entity_layout [layout_simps]:
  "csize struct_sched_rt_entity = 48" "calign struct_sched_rt_entity = 8" "wf_ctype struct_sched_rt_entity"
  by (simp_all add: struct_sched_rt_entity_def layout_simps cong: layout_cong)

definition struct_sched_dl_entity :: ctype where
  "struct_sched_dl_entity = CStruct [
      Field ''rb_node'' struct_rb_node,
      Field ''dl_runtime'' typ_u64,
      Field ''dl_deadline'' typ_u64,
      Field ''dl_period'' typ_u64,
      Field ''dl_bw'' typ_u64,
      Field ''dl_density'' typ_u64,
      Field ''runtime'' typ_s64,
      Field ''deadline'' typ_u64,
      Field ''flags'' c_uint,
      BitField ''dl_throttled'' c_uint 1,
      BitField ''dl_boosted'' c_uint 1,
      BitField ''dl_yielded'' c_uint 1,
      BitField ''dl_non_contending'' c_uint 1,
      BitField ''dl_overrun'' c_uint 1,
      Field ''dl_timer'' struct_hrtimer,
      Field ''inactive_timer'' struct_hrtimer]"

lemma struct_sched_dl_entity_layout [layout_simps]:
  "csize struct_sched_dl_entity = 216" "calign struct_sched_dl_entity = 8" "wf_ctype struct_sched_dl_entity"
  by (simp_all add: struct_sched_dl_entity_def layout_simps cong: layout_cong)

definition struct_cpumask :: ctype where
  "struct_cpumask = CStruct [
      Field ''bits'' (CArray 4 c_ulong)]"

lemma struct_cpumask_layout [layout_simps]:
  "csize struct_cpumask = 32" "calign struct_cpumask = 8" "wf_ctype struct_cpumask"
  by (simp_all add: struct_cpumask_def layout_simps cong: layout_cong)

definition typ_cpumask_t :: ctype where
  "typ_cpumask_t = struct_cpumask"

lemma typ_cpumask_t_layout [layout_simps]:
  "csize typ_cpumask_t = 32" "calign typ_cpumask_t = 8" "wf_ctype typ_cpumask_t"
  by (simp_all add: typ_cpumask_t_def layout_simps cong: layout_cong)

definition struct_sched_info :: ctype where
  "struct_sched_info = CStruct []"

lemma struct_sched_info_layout [layout_simps]:
  "csize struct_sched_info = 0" "calign struct_sched_info = 1" "wf_ctype struct_sched_info"
  by (simp_all add: struct_sched_info_def layout_simps cong: layout_cong)

definition struct_plist_node :: ctype where
  "struct_plist_node = CStruct [
      Field ''prio'' c_int,
      Field ''prio_list'' struct_list_head,
      Field ''node_list'' struct_list_head]"

lemma struct_plist_node_layout [layout_simps]:
  "csize struct_plist_node = 40" "calign struct_plist_node = 8" "wf_ctype struct_plist_node"
  by (simp_all add: struct_plist_node_def layout_simps cong: layout_cong)

definition struct_vmacache :: ctype where
  "struct_vmacache = CStruct [
      Field ''seqnum'' typ_u64,
      Field ''vmas'' (CArray 4 CPtr)]"

lemma struct_vmacache_layout [layout_simps]:
  "csize struct_vmacache = 40" "calign struct_vmacache = 8" "wf_ctype struct_vmacache"
  by (simp_all add: struct_vmacache_def layout_simps cong: layout_cong)

definition struct_task_rss_stat :: ctype where
  "struct_task_rss_stat = CStruct [
      Field ''events'' c_int,
      Field ''count'' (CArray 4 c_int)]"

lemma struct_task_rss_stat_layout [layout_simps]:
  "csize struct_task_rss_stat = 20" "calign struct_task_rss_stat = 4" "wf_ctype struct_task_rss_stat"
  by (simp_all add: struct_task_rss_stat_def layout_simps cong: layout_cong)

definition struct_prev_cputime :: ctype where
  "struct_prev_cputime = CStruct [
      Field ''utime'' typ_u64,
      Field ''stime'' typ_u64,
      Field ''lock'' typ_raw_spinlock_t]"

lemma struct_prev_cputime_layout [layout_simps]:
  "csize struct_prev_cputime = 80" "calign struct_prev_cputime = 8" "wf_ctype struct_prev_cputime"
  by (simp_all add: struct_prev_cputime_def layout_simps cong: layout_cong)

definition typ_seqcount_t :: ctype where
  "typ_seqcount_t = struct_seqcount"

lemma typ_seqcount_t_layout [layout_simps]:
  "csize typ_seqcount_t = 48" "calign typ_seqcount_t = 8" "wf_ctype typ_seqcount_t"
  by (simp_all add: typ_seqcount_t_def layout_simps cong: layout_cong)

definition enum_vtime_state :: ctype where
  "enum_vtime_state = CEnum [
      (''VTIME_INACTIVE'', 0),
      (''VTIME_IDLE'', 1),
      (''VTIME_SYS'', 2),
      (''VTIME_USER'', 3),
      (''VTIME_GUEST'', 4)]"

lemma enum_vtime_state_layout [layout_simps]:
  "csize enum_vtime_state = 4" "calign enum_vtime_state = 4" "wf_ctype enum_vtime_state"
  by (simp_all add: enum_vtime_state_def layout_simps cong: layout_cong)

definition struct_vtime :: ctype where
  "struct_vtime = CStruct [
      Field ''seqcount'' typ_seqcount_t,
      Field ''starttime'' c_ulong,
      Field ''state'' enum_vtime_state,
      Field ''cpu'' c_uint,
      Field ''utime'' typ_u64,
      Field ''stime'' typ_u64,
      Field ''gtime'' typ_u64]"

lemma struct_vtime_layout [layout_simps]:
  "csize struct_vtime = 88" "calign struct_vtime = 8" "wf_ctype struct_vtime"
  by (simp_all add: struct_vtime_def layout_simps cong: layout_cong)

definition struct_rb_root_cached :: ctype where
  "struct_rb_root_cached = CStruct [
      Field ''rb_root'' struct_rb_root,
      Field ''rb_leftmost'' CPtr]"

lemma struct_rb_root_cached_layout [layout_simps]:
  "csize struct_rb_root_cached = 16" "calign struct_rb_root_cached = 8" "wf_ctype struct_rb_root_cached"
  by (simp_all add: struct_rb_root_cached_def layout_simps cong: layout_cong)

definition struct_timerqueue_head :: ctype where
  "struct_timerqueue_head = CStruct [
      Field ''rb_root'' struct_rb_root_cached]"

lemma struct_timerqueue_head_layout [layout_simps]:
  "csize struct_timerqueue_head = 16" "calign struct_timerqueue_head = 8" "wf_ctype struct_timerqueue_head"
  by (simp_all add: struct_timerqueue_head_def layout_simps cong: layout_cong)

definition struct_posix_cputimer_base :: ctype where
  "struct_posix_cputimer_base = CStruct [
      Field ''nextevt'' typ_u64,
      Field ''tqhead'' struct_timerqueue_head]"

lemma struct_posix_cputimer_base_layout [layout_simps]:
  "csize struct_posix_cputimer_base = 24" "calign struct_posix_cputimer_base = 8" "wf_ctype struct_posix_cputimer_base"
  by (simp_all add: struct_posix_cputimer_base_def layout_simps cong: layout_cong)

definition struct_posix_cputimers :: ctype where
  "struct_posix_cputimers = CStruct [
      Field ''bases'' (CArray 3 struct_posix_cputimer_base),
      Field ''timers_active'' c_uint,
      Field ''expiry_active'' c_uint]"

lemma struct_posix_cputimers_layout [layout_simps]:
  "csize struct_posix_cputimers = 80" "calign struct_posix_cputimers = 8" "wf_ctype struct_posix_cputimers"
  by (simp_all add: struct_posix_cputimers_def layout_simps cong: layout_cong)

definition struct_sysv_sem :: ctype where
  "struct_sysv_sem = CStruct [
      Field ''undo_list'' CPtr]"

lemma struct_sysv_sem_layout [layout_simps]:
  "csize struct_sysv_sem = 8" "calign struct_sysv_sem = 8" "wf_ctype struct_sysv_sem"
  by (simp_all add: struct_sysv_sem_def layout_simps cong: layout_cong)

definition struct_sysv_shm :: ctype where
  "struct_sysv_shm = CStruct [
      Field ''shm_clist'' struct_list_head]"

lemma struct_sysv_shm_layout [layout_simps]:
  "csize struct_sysv_shm = 16" "calign struct_sysv_shm = 8" "wf_ctype struct_sysv_shm"
  by (simp_all add: struct_sysv_shm_def layout_simps cong: layout_cong)

definition typ_sigset_t :: ctype where
  "typ_sigset_t = CStruct [
      Field ''sig'' (CArray 1 c_ulong)]"

lemma typ_sigset_t_layout [layout_simps]:
  "csize typ_sigset_t = 8" "calign typ_sigset_t = 8" "wf_ctype typ_sigset_t"
  by (simp_all add: typ_sigset_t_def layout_simps cong: layout_cong)

definition struct_sigpending :: ctype where
  "struct_sigpending = CStruct [
      Field ''list'' struct_list_head,
      Field ''signal'' typ_sigset_t]"

lemma struct_sigpending_layout [layout_simps]:
  "csize struct_sigpending = 24" "calign struct_sigpending = 8" "wf_ctype struct_sigpending"
  by (simp_all add: struct_sigpending_def layout_simps cong: layout_cong)

definition struct_seccomp :: ctype where
  "struct_seccomp = CStruct [
      Field ''mode'' c_int,
      Field ''filter'' CPtr]"

lemma struct_seccomp_layout [layout_simps]:
  "csize struct_seccomp = 16" "calign struct_seccomp = 8" "wf_ctype struct_seccomp"
  by (simp_all add: struct_seccomp_def layout_simps cong: layout_cong)

definition struct_wake_q_node :: ctype where
  "struct_wake_q_node = CStruct [
      Field ''next'' CPtr]"

lemma struct_wake_q_node_layout [layout_simps]:
  "csize struct_wake_q_node = 8" "calign struct_wake_q_node = 8" "wf_ctype struct_wake_q_node"
  by (simp_all add: struct_wake_q_node_def layout_simps cong: layout_cong)

definition struct_held_lock :: ctype where
  "struct_held_lock = CStruct [
      Field ''prev_chain_key'' typ_u64,
      Field ''acquire_ip'' c_ulong,
      Field ''instance'' CPtr,
      Field ''nest_lock'' CPtr,
      BitField ''class_idx'' c_uint 13,
      BitField ''irq_context'' c_uint 2,
      BitField ''trylock'' c_uint 1,
      BitField ''read'' c_uint 2,
      BitField ''check'' c_uint 1,
      BitField ''hardirqs_off'' c_uint 1,
      BitField ''references'' c_uint 12,
      Field ''pin_count'' c_uint]"

lemma struct_held_lock_layout [layout_simps]:
  "csize struct_held_lock = 40" "calign struct_held_lock = 8" "wf_ctype struct_held_lock"
  by (simp_all add: struct_held_lock_def layout_simps cong: layout_cong)

definition struct_task_io_accounting :: ctype where
  "struct_task_io_accounting = CStruct []"

lemma struct_task_io_accounting_layout [layout_simps]:
  "csize struct_task_io_accounting = 0" "calign struct_task_io_accounting = 1" "wf_ctype struct_task_io_accounting"
  by (simp_all add: struct_task_io_accounting_def layout_simps cong: layout_cong)

definition typ_nodemask_t :: ctype where
  "typ_nodemask_t = CStruct [
      Field ''bits'' (CArray 1 c_ulong)]"

lemma typ_nodemask_t_layout [layout_simps]:
  "csize typ_nodemask_t = 8" "calign typ_nodemask_t = 8" "wf_ctype typ_nodemask_t"
  by (simp_all add: typ_nodemask_t_def layout_simps cong: layout_cong)

definition struct_arch_tlbflush_unmap_batch :: ctype where
  "struct_arch_tlbflush_unmap_batch = CStruct [
      Field ''cpumask'' struct_cpumask]"

lemma struct_arch_tlbflush_unmap_batch_layout [layout_simps]:
  "csize struct_arch_tlbflush_unmap_batch = 32" "calign struct_arch_tlbflush_unmap_batch = 8" "wf_ctype struct_arch_tlbflush_unmap_batch"
  by (simp_all add: struct_arch_tlbflush_unmap_batch_def layout_simps cong: layout_cong)

definition struct_tlbflush_unmap_batch :: ctype where
  "struct_tlbflush_unmap_batch = CStruct [
      Field ''arch'' struct_arch_tlbflush_unmap_batch,
      Field ''flush_required'' typ_bool,
      Field ''writable'' typ_bool]"

lemma struct_tlbflush_unmap_batch_layout [layout_simps]:
  "csize struct_tlbflush_unmap_batch = 40" "calign struct_tlbflush_unmap_batch = 8" "wf_ctype struct_tlbflush_unmap_batch"
  by (simp_all add: struct_tlbflush_unmap_batch_def layout_simps cong: layout_cong)

definition struct_desc_struct :: ctype where
  "struct_desc_struct = CStruct [
      Field ''limit0'' typ_u16,
      Field ''base0'' typ_u16,
      BitField ''base1'' typ_u16 8,
      BitField ''type'' typ_u16 4,
      BitField ''s'' typ_u16 1,
      BitField ''dpl'' typ_u16 2,
      BitField ''p'' typ_u16 1,
      BitField ''limit1'' typ_u16 4,
      BitField ''avl'' typ_u16 1,
      BitField ''l'' typ_u16 1,
      BitField ''d'' typ_u16 1,
      BitField ''g'' typ_u16 1,
      BitField ''base2'' typ_u16 8]"

lemma struct_desc_struct_layout [layout_simps]:
  "csize struct_desc_struct = 8" "calign struct_desc_struct = 2" "wf_ctype struct_desc_struct"
  by (simp_all add: struct_desc_struct_def layout_simps cong: layout_cong)

definition typ_mm_segment_t :: ctype where
  "typ_mm_segment_t = CStruct [
      Field ''seg'' c_ulong]"

lemma typ_mm_segment_t_layout [layout_simps]:
  "csize typ_mm_segment_t = 8" "calign typ_mm_segment_t = 8" "wf_ctype typ_mm_segment_t"
  by (simp_all add: typ_mm_segment_t_def layout_simps cong: layout_cong)

definition struct_fregs_state :: ctype where
  "struct_fregs_state = CStruct [
      Field ''cwd'' typ_u32,
      Field ''swd'' typ_u32,
      Field ''twd'' typ_u32,
      Field ''fip'' typ_u32,
      Field ''fcs'' typ_u32,
      Field ''foo'' typ_u32,
      Field ''fos'' typ_u32,
      Field ''st_space'' (CArray 20 typ_u32),
      Field ''status'' typ_u32]"

lemma struct_fregs_state_layout [layout_simps]:
  "csize struct_fregs_state = 112" "calign struct_fregs_state = 4" "wf_ctype struct_fregs_state"
  by (simp_all add: struct_fregs_state_def layout_simps cong: layout_cong)

definition struct_fxregs_state :: ctype where
  "struct_fxregs_state = CStruct [
      Field ''cwd'' typ_u16,
      Field ''swd'' typ_u16,
      Field ''twd'' typ_u16,
      Field ''fop'' typ_u16,
      Field '''' (CUnion [
        Field '''' (CStruct [
          Field ''rip'' typ_u64,
          Field ''rdp'' typ_u64]),
        Field '''' (CStruct [
          Field ''fip'' typ_u32,
          Field ''fcs'' typ_u32,
          Field ''foo'' typ_u32,
          Field ''fos'' typ_u32])]),
      Field ''mxcsr'' typ_u32,
      Field ''mxcsr_mask'' typ_u32,
      Field ''st_space'' (CArray 32 typ_u32),
      Field ''xmm_space'' (CArray 64 typ_u32),
      Field ''padding'' (CArray 12 typ_u32),
      Field '''' (CUnion [
        Field ''padding1'' (CArray 12 typ_u32),
        Field ''sw_reserved'' (CArray 12 typ_u32)])]"

lemma struct_fxregs_state_layout [layout_simps]:
  "csize struct_fxregs_state = 512" "calign struct_fxregs_state = 8" "wf_ctype struct_fxregs_state"
  by (simp_all add: struct_fxregs_state_def layout_simps cong: layout_cong)

definition struct_swregs_state :: ctype where
  "struct_swregs_state = CStruct [
      Field ''cwd'' typ_u32,
      Field ''swd'' typ_u32,
      Field ''twd'' typ_u32,
      Field ''fip'' typ_u32,
      Field ''fcs'' typ_u32,
      Field ''foo'' typ_u32,
      Field ''fos'' typ_u32,
      Field ''st_space'' (CArray 20 typ_u32),
      Field ''ftop'' typ_u8,
      Field ''changed'' typ_u8,
      Field ''lookahead'' typ_u8,
      Field ''no_update'' typ_u8,
      Field ''rm'' typ_u8,
      Field ''alimit'' typ_u8,
      Field ''info'' CPtr,
      Field ''entry_eip'' typ_u32]"

lemma struct_swregs_state_layout [layout_simps]:
  "csize struct_swregs_state = 136" "calign struct_swregs_state = 8" "wf_ctype struct_swregs_state"
  by (simp_all add: struct_swregs_state_def layout_simps cong: layout_cong)

definition struct_xstate_header :: ctype where
  "struct_xstate_header = CStruct [
      Field ''xfeatures'' typ_u64,
      Field ''xcomp_bv'' typ_u64,
      Field ''reserved'' (CArray 6 typ_u64)]"

lemma struct_xstate_header_layout [layout_simps]:
  "csize struct_xstate_header = 64" "calign struct_xstate_header = 8" "wf_ctype struct_xstate_header"
  by (simp_all add: struct_xstate_header_def layout_simps cong: layout_cong)

definition struct_xregs_state :: ctype where
  "struct_xregs_state = CStruct [
      Field ''i387'' struct_fxregs_state,
      Field ''header'' struct_xstate_header,
      Field ''extended_state_area'' (CArray 0 typ_u8)]"

lemma struct_xregs_state_layout [layout_simps]:
  "csize struct_xregs_state = 576" "calign struct_xregs_state = 8" "wf_ctype struct_xregs_state"
  by (simp_all add: struct_xregs_state_def layout_simps cong: layout_cong)

definition union_fpregs_state :: ctype where
  "union_fpregs_state = CUnion [
      Field ''fsave'' struct_fregs_state,
      Field ''fxsave'' struct_fxregs_state,
      Field ''soft'' struct_swregs_state,
      Field ''xsave'' struct_xregs_state,
      Field ''__padding'' (CArray 4096 typ_u8)]"

lemma union_fpregs_state_layout [layout_simps]:
  "csize union_fpregs_state = 4096" "calign union_fpregs_state = 8" "wf_ctype union_fpregs_state"
  by (simp_all add: union_fpregs_state_def layout_simps cong: layout_cong)

definition struct_fpu :: ctype where
  "struct_fpu = CStruct [
      Field ''last_cpu'' c_uint,
      Field ''avx512_timestamp'' c_ulong,
      BitField '''' c_long 64,
      BitField '''' c_long 64,
      BitField '''' c_long 64,
      BitField '''' c_long 64,
      BitField '''' c_long 64,
      BitField '''' c_long 64,
      Field ''state'' union_fpregs_state]"

lemma struct_fpu_layout [layout_simps]:
  "csize struct_fpu = 4160" "calign struct_fpu = 8" "wf_ctype struct_fpu"
  by (simp_all add: struct_fpu_def layout_simps cong: layout_cong)

definition struct_thread_struct :: ctype where
  "struct_thread_struct = CStruct [
      Field ''tls_array'' (CArray 3 struct_desc_struct),
      Field ''sp'' c_ulong,
      Field ''es'' c_ushort,
      Field ''ds'' c_ushort,
      Field ''fsindex'' c_ushort,
      Field ''gsindex'' c_ushort,
      Field ''fsbase'' c_ulong,
      Field ''gsbase'' c_ulong,
      Field ''ptrace_bps'' (CArray 4 CPtr),
      Field ''debugreg6'' c_ulong,
      Field ''ptrace_dr7'' c_ulong,
      Field ''cr2'' c_ulong,
      Field ''trap_nr'' c_ulong,
      Field ''error_code'' c_ulong,
      Field ''io_bitmap'' CPtr,
      Field ''iopl_emul'' c_ulong,
      Field ''addr_limit'' typ_mm_segment_t,
      BitField ''sig_on_uaccess_err'' c_uint 1,
      BitField '''' c_long 63,
      BitField '''' c_long 64,
      BitField '''' c_long 64,
      BitField '''' c_long 64,
      BitField '''' c_long 64,
      Field ''fpu'' struct_fpu]"

lemma struct_thread_struct_layout [layout_simps]:
  "csize struct_thread_struct = 4352" "calign struct_thread_struct = 8" "wf_ctype struct_thread_struct"
  by (simp_all add: struct_thread_struct_def layout_simps cong: layout_cong)

definition struct_pid_link :: ctype where
  "struct_pid_link = CStruct [
      Field ''node'' struct_hlist_node,
      Field ''pid'' CPtr]"

lemma struct_pid_link_layout [layout_simps]:
  "csize struct_pid_link = 24" "calign struct_pid_link = 8" "wf_ctype struct_pid_link"
  by (simp_all add: struct_pid_link_def layout_simps cong: layout_cong)

definition struct_task_struct_fields1 :: "cfield list" where
  "struct_task_struct_fields1 = [
    Field ''thread_info'' struct_thread_info,
    Field ''state'' c_long,
    Field ''stack'' CPtr,
    Field ''usage'' typ_refcount_t,
    Field ''flags'' c_uint,
    Field ''ptrace'' c_uint,
    Field ''wake_entry'' struct_llist_node,
    Field ''wake_entry_type'' c_uint,
    Field ''on_cpu'' c_int,
    Field ''cpu'' c_uint,
    Field ''wakee_flips'' c_uint,
    Field ''wakee_flip_decay_ts'' c_ulong,
    Field ''last_wakee'' CPtr,
    Field ''recent_used_cpu'' c_int,
    Field ''wake_cpu'' c_int,
    Field ''on_rq'' c_int,
    Field ''prio'' c_int,
    Field ''static_prio'' c_int,
    Field ''normal_prio'' c_int,
    Field ''rt_priority'' c_uint,
    Field ''sched_class'' CPtr,
    Field ''se'' struct_sched_entity,
    Field ''rt'' struct_sched_rt_entity,
    Field ''sched_task_group'' CPtr,
    Field ''dl'' struct_sched_dl_entity,
    Field ''policy'' c_uint,
    Field ''nr_cpus_allowed'' c_int,
    Field ''cpus_ptr'' CPtr,
    Field ''cpus_mask'' typ_cpumask_t,
    Field ''sched_info'' struct_sched_info,
    Field ''tasks'' struct_list_head,
    Field ''pushable_tasks'' struct_plist_node,
    Field ''pushable_dl_tasks'' struct_rb_node,
    Field ''mm'' CPtr,
    Field ''active_mm'' CPtr,
    Field ''vmacache'' struct_vmacache,
    Field ''rss_stat'' struct_task_rss_stat,
    Field ''exit_state'' c_int,
    Field ''exit_code'' c_int,
    Field ''exit_signal'' c_int,
    Field ''pdeath_signal'' c_int,
    Field ''jobctl'' c_ulong,
    Field ''personality'' c_uint,
    BitField ''sched_reset_on_fork'' c_uint 1,
    BitField ''sched_contributes_to_load'' c_uint 1,
    BitField ''sched_migrated'' c_uint 1,
    BitField ''sched_remote_wakeup'' c_uint 1,
    BitField '''' c_int 28,
    BitField ''in_execve'' c_uint 1,
    BitField ''in_iowait'' c_uint 1,
    BitField ''restore_sigmask'' c_uint 1,
    BitField ''in_user_fault'' c_uint 1,
    BitField ''no_cgroup_migration'' c_uint 1,
    BitField ''frozen'' c_uint 1,
    BitField ''use_memdelay'' c_uint 1,
    Field ''atomic_flags'' c_ulong]"

lemma struct_task_struct_fields1_layout [layout_simps]:
  "fend 0 struct_task_struct_fields1 = 7296" "falign struct_task_struct_fields1 = 8" "wf_fields struct_task_struct_fields1"
  unfolding struct_task_struct_fields1_def by (simp_all add: layout_simps cong: layout_cong)

definition struct_task_struct_fields2 :: "cfield list" where
  "struct_task_struct_fields2 = [
    Field ''restart_block'' struct_restart_block,
    Field ''pid'' typ_pid_t,
    Field ''tgid'' typ_pid_t,
    Field ''stack_canary'' c_ulong,
    Field ''real_parent'' CPtr,
    Field ''parent'' CPtr,
    Field ''children'' struct_list_head,
    Field ''sibling'' struct_list_head,
    Field ''group_leader'' CPtr,
    Field ''ptraced'' struct_list_head,
    Field ''ptrace_entry'' struct_list_head,
    Field ''thread_pid'' CPtr,
    Field ''pids'' (CArray 4 struct_pid_link),
    Field ''pid_links'' (CArray 4 struct_hlist_node),
    Field ''thread_group'' struct_list_head,
    Field ''thread_node'' struct_list_head,
    Field ''vfork_done'' CPtr,
    Field ''set_child_tid'' CPtr,
    Field ''clear_child_tid'' CPtr,
    Field ''utime'' typ_u64,
    Field ''stime'' typ_u64,
    Field ''gtime'' typ_u64,
    Field ''prev_cputime'' struct_prev_cputime,
    Field ''vtime'' struct_vtime,
    Field ''tick_dep_mask'' typ_atomic_t,
    Field ''nvcsw'' c_ulong,
    Field ''nivcsw'' c_ulong,
    Field ''start_time'' typ_u64,
    Field ''start_boottime'' typ_u64,
    Field ''min_flt'' c_ulong,
    Field ''maj_flt'' c_ulong,
    Field ''posix_cputimers'' struct_posix_cputimers,
    Field ''ptracer_cred'' CPtr,
    Field ''real_cred'' CPtr,
    Field ''cred'' CPtr,
    Field ''comm'' (CArray 16 c_char),
    Field ''nameidata'' CPtr,
    Field ''sysvsem'' struct_sysv_sem,
    Field ''sysvshm'' struct_sysv_shm,
    Field ''fs'' CPtr,
    Field ''files'' CPtr,
    Field ''nsproxy'' CPtr,
    Field ''signal'' CPtr,
    Field ''sighand'' CPtr,
    Field ''blocked'' typ_sigset_t,
    Field ''real_blocked'' typ_sigset_t,
    Field ''saved_sigmask'' typ_sigset_t,
    Field ''pending'' struct_sigpending,
    Field ''sas_ss_sp'' c_ulong,
    Field ''sas_ss_size'' typ_size_t,
    Field ''sas_ss_flags'' c_uint,
    Field ''task_works'' CPtr,
    Field ''audit_context'' CPtr,
    Field ''audit'' CPtr,
    Field ''loginuid'' typ_kuid_t,
    Field ''sessionid'' c_uint,
    Field ''seccomp'' struct_seccomp,
    Field ''parent_exec_id'' typ_u64,
    Field ''self_exec_id'' typ_u64,
    Field ''alloc_lock'' typ_spinlock_t,
    Field ''pi_lock'' typ_raw_spinlock_t,
    Field ''wake_q'' struct_wake_q_node,
    Field ''pi_waiters'' struct_rb_root_cached,
    Field ''pi_top_task'' CPtr,
    Field ''pi_blocked_on'' CPtr,
    Field ''blocked_on'' CPtr,
    Field ''non_block_count'' c_int,
    Field ''irq_events'' c_uint,
    Field ''hardirq_threaded'' c_uint,
    Field ''hardirq_enable_ip'' c_ulong,
    Field ''hardirq_disable_ip'' c_ulong,
    Field ''hardirq_enable_event'' c_uint,
    Field ''hardirq_disable_event'' c_uint]"

lemma struct_task_struct_fields2_layout [layout_simps]:
  "fend 7296 struct_task_struct_fields2 = 16640" "falign struct_task_struct_fields2 = 8" "wf_fields struct_task_struct_fields2"
  unfolding struct_task_struct_fields2_def by (simp_all add: layout_simps cong: layout_cong)

definition struct_task_struct_fields3 :: "cfield list" where
  "struct_task_struct_fields3 = [
    Field ''hardirqs_enabled'' c_int,
    Field ''hardirq_context'' c_int,
    Field ''hardirq_chain_key'' typ_u64,
    Field ''softirq_disable_ip'' c_ulong,
    Field ''softirq_enable_ip'' c_ulong,
    Field ''softirq_disable_event'' c_uint,
    Field ''softirq_enable_event'' c_uint,
    Field ''softirqs_enabled'' c_int,
    Field ''softirq_context'' c_int,
    Field ''irq_config'' c_int,
    Field ''curr_chain_key'' typ_u64,
    Field ''lockdep_depth'' c_int,
    Field ''lockdep_recursion'' c_uint,
    Field ''held_locks'' (CArray 48 struct_held_lock),
    Field ''journal_info'' CPtr,
    Field ''bio_list'' CPtr,
    Field ''plug'' CPtr,
    Field ''reclaim_state'' CPtr,
    Field ''backing_dev_info'' CPtr,
    Field ''io_context'' CPtr,
    Field ''capture_control'' CPtr,
    Field ''ptrace_message'' c_ulong,
    Field ''last_siginfo'' CPtr,
    Field ''ioac'' struct_task_io_accounting,
    Field ''mems_allowed'' typ_nodemask_t,
    Field ''mems_allowed_seq'' typ_seqcount_t,
    Field ''cpuset_mem_spread_rotor'' c_int,
    Field ''cpuset_slab_spread_rotor'' c_int,
    Field ''cgroups'' CPtr,
    Field ''cg_list'' struct_list_head,
    Field ''robust_list'' CPtr,
    Field ''pi_state_list'' struct_list_head,
    Field ''pi_state_cache'' CPtr,
    Field ''futex_exit_mutex'' struct_mutex,
    Field ''futex_state'' c_uint,
    Field ''perf_event_ctxp'' (CArray 2 CPtr),
    Field ''perf_event_mutex'' struct_mutex,
    Field ''perf_event_list'' struct_list_head,
    Field ''rseq'' CPtr,
    Field ''rseq_sig'' typ_u32,
    Field ''rseq_event_mask'' c_ulong,
    Field ''tlb_ubc'' struct_tlbflush_unmap_batch,
    Field '''' (CUnion [
      Field ''rcu_users'' typ_refcount_t,
      Field ''rcu'' struct_callback_head]),
    Field ''splice_pipe'' CPtr,
    Field ''task_frag'' struct_page_frag,
    Field ''nr_dirtied'' c_int,
    Field ''nr_dirtied_pause'' c_int,
    Field ''dirty_paused_when'' c_ulong,
    Field ''timer_slack_ns'' typ_u64,
    Field ''default_timer_slack_ns'' typ_u64,
    Field ''trace'' c_ulong,
    Field ''trace_recursion'' c_ulong,
    Field ''memcg_in_oom'' CPtr,
    Field ''memcg_oom_gfp_mask'' typ_gfp_t,
    Field ''memcg_oom_order'' c_int,
    Field ''memcg_nr_pages_over_high'' c_uint,
    Field ''active_memcg'' CPtr,
    Field ''throttle_queue'' CPtr,
    Field ''utask'' CPtr,
    Field ''task_state_change'' c_ulong,
    Field ''pagefault_disabled'' c_int,
    Field ''oom_reaper_list'' CPtr,
    Field ''stack_vm_area'' CPtr,
    Field ''stack_refcount'' typ_refcount_t,
    Field ''security'' CPtr,
    Field ''thread'' struct_thread_struct]"

lemma struct_task_struct_fields3_layout [layout_simps]:
  "fend 16640 struct_task_struct_fields3 = 73536" "falign struct_task_struct_fields3 = 8" "wf_fields struct_task_struct_fields3"
  unfolding struct_task_struct_fields3_def by (simp_all add: layout_simps cong: layout_cong)

definition struct_task_struct :: ctype where
  "struct_task_struct = CStruct (struct_task_struct_fields1 @ struct_task_struct_fields2 @ struct_task_struct_fields3)"

lemma struct_task_struct_layout [layout_simps]:
  "csize struct_task_struct = 9192" "calign struct_task_struct = 8" "wf_ctype struct_task_struct"
  by (simp_all add: struct_task_struct_def layout_simps cong: layout_cong)

end
