(* ===== verification/Vmlinux_Net.thy ===== *)
theory Vmlinux_Net
  imports Vmlinux_Base
begin

text \<open>
  \<^verbatim>\<open>struct net\<close>, \<^verbatim>\<open>struct nsproxy\<close> and the other namespaces of \<^verbatim>\<open>vmlinux.h\<close> with the structures they embed.
  The probes identify a pod by the inode number in the \<^verbatim>\<open>ns_common\<close> of its network namespace.

  Each constant is one declaration of the header, member by member; \<open>struct_\<close>, \<open>union_\<close>, \<open>enum_\<close> and \<open>typ_\<close>
  stand for the C name spaces.  The lemma after it is its size, its alignment and its
  well-formedness, which the declarations that embed it use.
\<close>

definition typ___kernel_gid32_t :: ctype where
  "typ___kernel_gid32_t = c_uint"

lemma typ___kernel_gid32_t_layout [layout_simps]:
  "csize typ___kernel_gid32_t = 4" "calign typ___kernel_gid32_t = 4" "wf_ctype typ___kernel_gid32_t"
  by (simp_all add: typ___kernel_gid32_t_def layout_simps cong: layout_cong)

definition typ_gid_t :: ctype where
  "typ_gid_t = typ___kernel_gid32_t"

lemma typ_gid_t_layout [layout_simps]:
  "csize typ_gid_t = 4" "calign typ_gid_t = 4" "wf_ctype typ_gid_t"
  by (simp_all add: typ_gid_t_def layout_simps cong: layout_cong)

definition struct_hlist_head :: ctype where
  "struct_hlist_head = CStruct [
      Field ''first'' CPtr]"

lemma struct_hlist_head_layout [layout_simps]:
  "csize struct_hlist_head = 8" "calign struct_hlist_head = 8" "wf_ctype struct_hlist_head"
  by (simp_all add: struct_hlist_head_def layout_simps cong: layout_cong)

definition struct_atomic_notifier_head :: ctype where
  "struct_atomic_notifier_head = CStruct [
      Field ''lock'' typ_spinlock_t,
      Field ''head'' CPtr]"

lemma struct_atomic_notifier_head_layout [layout_simps]:
  "csize struct_atomic_notifier_head = 72" "calign struct_atomic_notifier_head = 8" "wf_ctype struct_atomic_notifier_head"
  by (simp_all add: struct_atomic_notifier_head_def layout_simps cong: layout_cong)

definition typ_time64_t :: ctype where
  "typ_time64_t = typ___s64"

lemma typ_time64_t_layout [layout_simps]:
  "csize typ_time64_t = 8" "calign typ_time64_t = 8" "wf_ctype typ_time64_t"
  by (simp_all add: typ_time64_t_def layout_simps cong: layout_cong)

definition struct_timespec64 :: ctype where
  "struct_timespec64 = CStruct [
      Field ''tv_sec'' typ_time64_t,
      Field ''tv_nsec'' c_long]"

lemma struct_timespec64_layout [layout_simps]:
  "csize struct_timespec64 = 16" "calign struct_timespec64 = 8" "wf_ctype struct_timespec64"
  by (simp_all add: struct_timespec64_def layout_simps cong: layout_cong)

definition struct_rw_semaphore :: ctype where
  "struct_rw_semaphore = CStruct [
      Field ''count'' typ_atomic_long_t,
      Field ''owner'' typ_atomic_long_t,
      Field ''osq'' struct_optimistic_spin_queue,
      Field ''wait_lock'' typ_raw_spinlock_t,
      Field ''wait_list'' struct_list_head,
      Field ''magic'' CPtr,
      Field ''dep_map'' struct_lockdep_map]"

lemma struct_rw_semaphore_layout [layout_simps]:
  "csize struct_rw_semaphore = 152" "calign struct_rw_semaphore = 8" "wf_ctype struct_rw_semaphore"
  by (simp_all add: struct_rw_semaphore_def layout_simps cong: layout_cong)

definition struct_kref :: ctype where
  "struct_kref = CStruct [
      Field ''refcount'' typ_refcount_t]"

lemma struct_kref_layout [layout_simps]:
  "csize struct_kref = 4" "calign struct_kref = 4" "wf_ctype struct_kref"
  by (simp_all add: struct_kref_def layout_simps cong: layout_cong)

definition typ_seqlock_t :: ctype where
  "typ_seqlock_t = CStruct [
      Field ''seqcount'' struct_seqcount,
      Field ''lock'' typ_spinlock_t]"

lemma typ_seqlock_t_layout [layout_simps]:
  "csize typ_seqlock_t = 112" "calign typ_seqlock_t = 8" "wf_ctype typ_seqlock_t"
  by (simp_all add: typ_seqlock_t_def layout_simps cong: layout_cong)

definition typ_notifier_fn_t :: ctype where
  "typ_notifier_fn_t = CPtr"

lemma typ_notifier_fn_t_layout [layout_simps]:
  "csize typ_notifier_fn_t = 8" "calign typ_notifier_fn_t = 8" "wf_ctype typ_notifier_fn_t"
  by (simp_all add: typ_notifier_fn_t_def layout_simps cong: layout_cong)

definition struct_notifier_block :: ctype where
  "struct_notifier_block = CStruct [
      Field ''notifier_call'' typ_notifier_fn_t,
      Field ''next'' CPtr,
      Field ''priority'' c_int]"

lemma struct_notifier_block_layout [layout_simps]:
  "csize struct_notifier_block = 24" "calign struct_notifier_block = 8" "wf_ctype struct_notifier_block"
  by (simp_all add: struct_notifier_block_def layout_simps cong: layout_cong)

definition struct_xarray :: ctype where
  "struct_xarray = CStruct [
      Field ''xa_lock'' typ_spinlock_t,
      Field ''xa_flags'' typ_gfp_t,
      Field ''xa_head'' CPtr]"

lemma struct_xarray_layout [layout_simps]:
  "csize struct_xarray = 80" "calign struct_xarray = 8" "wf_ctype struct_xarray"
  by (simp_all add: struct_xarray_def layout_simps cong: layout_cong)

definition typ_kgid_t :: ctype where
  "typ_kgid_t = CStruct [
      Field ''val'' typ_gid_t]"

lemma typ_kgid_t_layout [layout_simps]:
  "csize typ_kgid_t = 4" "calign typ_kgid_t = 4" "wf_ctype typ_kgid_t"
  by (simp_all add: typ_kgid_t_def layout_simps cong: layout_cong)

definition struct_percpu_counter :: ctype where
  "struct_percpu_counter = CStruct [
      Field ''lock'' typ_raw_spinlock_t,
      Field ''count'' typ_s64,
      Field ''list'' struct_list_head,
      Field ''counters'' CPtr]"

lemma struct_percpu_counter_layout [layout_simps]:
  "csize struct_percpu_counter = 96" "calign struct_percpu_counter = 8" "wf_ctype struct_percpu_counter"
  by (simp_all add: struct_percpu_counter_def layout_simps cong: layout_cong)

definition struct_idr :: ctype where
  "struct_idr = CStruct [
      Field ''idr_rt'' struct_xarray,
      Field ''idr_base'' c_uint,
      Field ''idr_next'' c_uint]"

lemma struct_idr_layout [layout_simps]:
  "csize struct_idr = 88" "calign struct_idr = 8" "wf_ctype struct_idr"
  by (simp_all add: struct_idr_def layout_simps cong: layout_cong)

definition struct_uid_gid_extent :: ctype where
  "struct_uid_gid_extent = CStruct [
      Field ''first'' typ_u32,
      Field ''lower_first'' typ_u32,
      Field ''count'' typ_u32]"

lemma struct_uid_gid_extent_layout [layout_simps]:
  "csize struct_uid_gid_extent = 12" "calign struct_uid_gid_extent = 4" "wf_ctype struct_uid_gid_extent"
  by (simp_all add: struct_uid_gid_extent_def layout_simps cong: layout_cong)

definition struct_uid_gid_map :: ctype where
  "struct_uid_gid_map = CStruct [
      Field ''nr_extents'' typ_u32,
      Field '''' (CUnion [
        Field ''extent'' (CArray 5 struct_uid_gid_extent),
        Field '''' (CStruct [
          Field ''forward'' CPtr,
          Field ''reverse'' CPtr])])]"

lemma struct_uid_gid_map_layout [layout_simps]:
  "csize struct_uid_gid_map = 72" "calign struct_uid_gid_map = 8" "wf_ctype struct_uid_gid_map"
  by (simp_all add: struct_uid_gid_map_def layout_simps cong: layout_cong)

definition struct_ns_common :: ctype where
  "struct_ns_common = CStruct [
      Field ''stashed'' typ_atomic_long_t,
      Field ''ops'' CPtr,
      Field ''inum'' c_uint]"

lemma struct_ns_common_layout [layout_simps]:
  "csize struct_ns_common = 24" "calign struct_ns_common = 8" "wf_ctype struct_ns_common"
  by (simp_all add: struct_ns_common_def layout_simps cong: layout_cong)

definition struct_ctl_table_header :: ctype where
  "struct_ctl_table_header = CStruct [
      Field '''' (CUnion [
        Field '''' (CStruct [
          Field ''ctl_table'' CPtr,
          Field ''used'' c_int,
          Field ''count'' c_int,
          Field ''nreg'' c_int]),
        Field ''rcu'' struct_callback_head]),
      Field ''unregistering'' CPtr,
      Field ''ctl_table_arg'' CPtr,
      Field ''root'' CPtr,
      Field ''set'' CPtr,
      Field ''parent'' CPtr,
      Field ''node'' CPtr,
      Field ''inodes'' struct_hlist_head]"

lemma struct_ctl_table_header_layout [layout_simps]:
  "csize struct_ctl_table_header = 80" "calign struct_ctl_table_header = 8" "wf_ctype struct_ctl_table_header"
  by (simp_all add: struct_ctl_table_header_def layout_simps cong: layout_cong)

definition struct_ctl_dir :: ctype where
  "struct_ctl_dir = CStruct [
      Field ''header'' struct_ctl_table_header,
      Field ''root'' struct_rb_root]"

lemma struct_ctl_dir_layout [layout_simps]:
  "csize struct_ctl_dir = 88" "calign struct_ctl_dir = 8" "wf_ctype struct_ctl_dir"
  by (simp_all add: struct_ctl_dir_def layout_simps cong: layout_cong)

definition struct_ctl_table_set :: ctype where
  "struct_ctl_table_set = CStruct [
      Field ''is_seen'' CPtr,
      Field ''dir'' struct_ctl_dir]"

lemma struct_ctl_table_set_layout [layout_simps]:
  "csize struct_ctl_table_set = 96" "calign struct_ctl_table_set = 8" "wf_ctype struct_ctl_table_set"
  by (simp_all add: struct_ctl_table_set_def layout_simps cong: layout_cong)

definition struct_user_namespace :: ctype where
  "struct_user_namespace = CStruct [
      Field ''uid_map'' struct_uid_gid_map,
      Field ''gid_map'' struct_uid_gid_map,
      Field ''projid_map'' struct_uid_gid_map,
      Field ''count'' typ_atomic_t,
      Field ''parent'' CPtr,
      Field ''level'' c_int,
      Field ''owner'' typ_kuid_t,
      Field ''group'' typ_kgid_t,
      Field ''ns'' struct_ns_common,
      Field ''flags'' c_ulong,
      Field ''work'' struct_work_struct,
      Field ''set'' struct_ctl_table_set,
      Field ''sysctls'' CPtr,
      Field ''ucounts'' CPtr,
      Field ''ucount_max'' (CArray 10 c_int)]"

lemma struct_user_namespace_layout [layout_simps]:
  "csize struct_user_namespace = 504" "calign struct_user_namespace = 8" "wf_ctype struct_user_namespace"
  by (simp_all add: struct_user_namespace_def layout_simps cong: layout_cong)

definition struct_delayed_work :: ctype where
  "struct_delayed_work = CStruct [
      Field ''work'' struct_work_struct,
      Field ''timer'' struct_timer_list,
      Field ''wq'' CPtr,
      Field ''cpu'' c_int]"

lemma struct_delayed_work_layout [layout_simps]:
  "csize struct_delayed_work = 168" "calign struct_delayed_work = 8" "wf_ctype struct_delayed_work"
  by (simp_all add: struct_delayed_work_def layout_simps cong: layout_cong)

definition struct_pid_namespace :: ctype where
  "struct_pid_namespace = CStruct [
      Field ''kref'' struct_kref,
      Field ''idr'' struct_idr,
      Field ''rcu'' struct_callback_head,
      Field ''pid_allocated'' c_uint,
      Field ''child_reaper'' CPtr,
      Field ''pid_cachep'' CPtr,
      Field ''level'' c_uint,
      Field ''parent'' CPtr,
      Field ''user_ns'' CPtr,
      Field ''ucounts'' CPtr,
      Field ''reboot'' c_int,
      Field ''ns'' struct_ns_common]"

lemma struct_pid_namespace_layout [layout_simps]:
  "csize struct_pid_namespace = 200" "calign struct_pid_namespace = 8" "wf_ctype struct_pid_namespace"
  by (simp_all add: struct_pid_namespace_def layout_simps cong: layout_cong)

definition struct_nsproxy :: ctype where
  "struct_nsproxy = CStruct [
      Field ''count'' typ_atomic_t,
      Field ''uts_ns'' CPtr,
      Field ''ipc_ns'' CPtr,
      Field ''mnt_ns'' CPtr,
      Field ''pid_ns_for_children'' CPtr,
      Field ''net_ns'' CPtr,
      Field ''time_ns'' CPtr,
      Field ''time_ns_for_children'' CPtr,
      Field ''cgroup_ns'' CPtr]"

lemma struct_nsproxy_layout [layout_simps]:
  "csize struct_nsproxy = 72" "calign struct_nsproxy = 8" "wf_ctype struct_nsproxy"
  by (simp_all add: struct_nsproxy_def layout_simps cong: layout_cong)

definition struct_new_utsname :: ctype where
  "struct_new_utsname = CStruct [
      Field ''sysname'' (CArray 65 c_char),
      Field ''nodename'' (CArray 65 c_char),
      Field ''release'' (CArray 65 c_char),
      Field ''version'' (CArray 65 c_char),
      Field ''machine'' (CArray 65 c_char),
      Field ''domainname'' (CArray 65 c_char)]"

lemma struct_new_utsname_layout [layout_simps]:
  "csize struct_new_utsname = 390" "calign struct_new_utsname = 1" "wf_ctype struct_new_utsname"
  by (simp_all add: struct_new_utsname_def layout_simps cong: layout_cong)

definition struct_uts_namespace :: ctype where
  "struct_uts_namespace = CStruct [
      Field ''kref'' struct_kref,
      Field ''name'' struct_new_utsname,
      Field ''user_ns'' CPtr,
      Field ''ucounts'' CPtr,
      Field ''ns'' struct_ns_common]"

lemma struct_uts_namespace_layout [layout_simps]:
  "csize struct_uts_namespace = 440" "calign struct_uts_namespace = 8" "wf_ctype struct_uts_namespace"
  by (simp_all add: struct_uts_namespace_def layout_simps cong: layout_cong)

definition struct_cgroup_namespace :: ctype where
  "struct_cgroup_namespace = CStruct [
      Field ''count'' typ_refcount_t,
      Field ''ns'' struct_ns_common,
      Field ''user_ns'' CPtr,
      Field ''ucounts'' CPtr,
      Field ''root_cset'' CPtr]"

lemma struct_cgroup_namespace_layout [layout_simps]:
  "csize struct_cgroup_namespace = 56" "calign struct_cgroup_namespace = 8" "wf_ctype struct_cgroup_namespace"
  by (simp_all add: struct_cgroup_namespace_def layout_simps cong: layout_cong)

definition struct_raw_notifier_head :: ctype where
  "struct_raw_notifier_head = CStruct [
      Field ''head'' CPtr]"

lemma struct_raw_notifier_head_layout [layout_simps]:
  "csize struct_raw_notifier_head = 8" "calign struct_raw_notifier_head = 8" "wf_ctype struct_raw_notifier_head"
  by (simp_all add: struct_raw_notifier_head_def layout_simps cong: layout_cong)

definition typ_rht_hashfn_t :: ctype where
  "typ_rht_hashfn_t = CPtr"

lemma typ_rht_hashfn_t_layout [layout_simps]:
  "csize typ_rht_hashfn_t = 8" "calign typ_rht_hashfn_t = 8" "wf_ctype typ_rht_hashfn_t"
  by (simp_all add: typ_rht_hashfn_t_def layout_simps cong: layout_cong)

definition typ_rht_obj_hashfn_t :: ctype where
  "typ_rht_obj_hashfn_t = CPtr"

lemma typ_rht_obj_hashfn_t_layout [layout_simps]:
  "csize typ_rht_obj_hashfn_t = 8" "calign typ_rht_obj_hashfn_t = 8" "wf_ctype typ_rht_obj_hashfn_t"
  by (simp_all add: typ_rht_obj_hashfn_t_def layout_simps cong: layout_cong)

definition typ_rht_obj_cmpfn_t :: ctype where
  "typ_rht_obj_cmpfn_t = CPtr"

lemma typ_rht_obj_cmpfn_t_layout [layout_simps]:
  "csize typ_rht_obj_cmpfn_t = 8" "calign typ_rht_obj_cmpfn_t = 8" "wf_ctype typ_rht_obj_cmpfn_t"
  by (simp_all add: typ_rht_obj_cmpfn_t_def layout_simps cong: layout_cong)

definition struct_rhashtable_params :: ctype where
  "struct_rhashtable_params = CStruct [
      Field ''nelem_hint'' typ_u16,
      Field ''key_len'' typ_u16,
      Field ''key_offset'' typ_u16,
      Field ''head_offset'' typ_u16,
      Field ''max_size'' c_uint,
      Field ''min_size'' typ_u16,
      Field ''automatic_shrinking'' typ_bool,
      Field ''hashfn'' typ_rht_hashfn_t,
      Field ''obj_hashfn'' typ_rht_obj_hashfn_t,
      Field ''obj_cmpfn'' typ_rht_obj_cmpfn_t]"

lemma struct_rhashtable_params_layout [layout_simps]:
  "csize struct_rhashtable_params = 40" "calign struct_rhashtable_params = 8" "wf_ctype struct_rhashtable_params"
  by (simp_all add: struct_rhashtable_params_def layout_simps cong: layout_cong)

definition struct_rhashtable :: ctype where
  "struct_rhashtable = CStruct [
      Field ''tbl'' CPtr,
      Field ''key_len'' c_uint,
      Field ''max_elems'' c_uint,
      Field ''p'' struct_rhashtable_params,
      Field ''rhlist'' typ_bool,
      Field ''run_work'' struct_work_struct,
      Field ''mutex'' struct_mutex,
      Field ''lock'' typ_spinlock_t,
      Field ''nelems'' typ_atomic_t]"

lemma struct_rhashtable_layout [layout_simps]:
  "csize struct_rhashtable = 352" "calign struct_rhashtable = 8" "wf_ctype struct_rhashtable"
  by (simp_all add: struct_rhashtable_def layout_simps cong: layout_cong)

definition struct_netns_core :: ctype where
  "struct_netns_core = CStruct [
      Field ''sysctl_hdr'' CPtr,
      Field ''sysctl_somaxconn'' c_int,
      Field ''sock_inuse'' CPtr,
      Field ''prot_inuse'' CPtr]"

lemma struct_netns_core_layout [layout_simps]:
  "csize struct_netns_core = 32" "calign struct_netns_core = 8" "wf_ctype struct_netns_core"
  by (simp_all add: struct_netns_core_def layout_simps cong: layout_cong)

definition struct_netns_mib :: ctype where
  "struct_netns_mib = CStruct [
      Field ''tcp_statistics'' CPtr,
      Field ''ip_statistics'' CPtr,
      Field ''net_statistics'' CPtr,
      Field ''udp_statistics'' CPtr,
      Field ''udplite_statistics'' CPtr,
      Field ''icmp_statistics'' CPtr,
      Field ''icmpmsg_statistics'' CPtr,
      Field ''proc_net_devsnmp6'' CPtr,
      Field ''udp_stats_in6'' CPtr,
      Field ''udplite_stats_in6'' CPtr,
      Field ''ipv6_statistics'' CPtr,
      Field ''icmpv6_statistics'' CPtr,
      Field ''icmpv6msg_statistics'' CPtr,
      Field ''tls_statistics'' CPtr]"

lemma struct_netns_mib_layout [layout_simps]:
  "csize struct_netns_mib = 112" "calign struct_netns_mib = 8" "wf_ctype struct_netns_mib"
  by (simp_all add: struct_netns_mib_def layout_simps cong: layout_cong)

definition struct_netns_packet :: ctype where
  "struct_netns_packet = CStruct [
      Field ''sklist_lock'' struct_mutex,
      Field ''sklist'' struct_hlist_head]"

lemma struct_netns_packet_layout [layout_simps]:
  "csize struct_netns_packet = 152" "calign struct_netns_packet = 8" "wf_ctype struct_netns_packet"
  by (simp_all add: struct_netns_packet_def layout_simps cong: layout_cong)

definition struct_netns_unix :: ctype where
  "struct_netns_unix = CStruct [
      Field ''sysctl_max_dgram_qlen'' c_int,
      Field ''ctl'' CPtr]"

lemma struct_netns_unix_layout [layout_simps]:
  "csize struct_netns_unix = 16" "calign struct_netns_unix = 8" "wf_ctype struct_netns_unix"
  by (simp_all add: struct_netns_unix_def layout_simps cong: layout_cong)

definition struct_netns_nexthop :: ctype where
  "struct_netns_nexthop = CStruct [
      Field ''rb_root'' struct_rb_root,
      Field ''devhash'' CPtr,
      Field ''seq'' c_uint,
      Field ''last_id_allocated'' typ_u32,
      Field ''notifier_chain'' struct_atomic_notifier_head]"

lemma struct_netns_nexthop_layout [layout_simps]:
  "csize struct_netns_nexthop = 96" "calign struct_netns_nexthop = 8" "wf_ctype struct_netns_nexthop"
  by (simp_all add: struct_netns_nexthop_def layout_simps cong: layout_cong)

definition struct_local_ports :: ctype where
  "struct_local_ports = CStruct [
      Field ''lock'' typ_seqlock_t,
      Field ''range'' (CArray 2 c_int),
      Field ''warned'' typ_bool]"

lemma struct_local_ports_layout [layout_simps]:
  "csize struct_local_ports = 128" "calign struct_local_ports = 8" "wf_ctype struct_local_ports"
  by (simp_all add: struct_local_ports_def layout_simps cong: layout_cong)

definition struct_inet_timewait_death_row :: ctype where
  "struct_inet_timewait_death_row = CStruct [
      Field ''tw_count'' typ_atomic_t,
      BitField '''' c_long 32,
      BitField '''' c_long 64,
      BitField '''' c_long 64,
      BitField '''' c_long 64,
      BitField '''' c_long 64,
      BitField '''' c_long 64,
      BitField '''' c_long 64,
      BitField '''' c_long 64,
      Field ''hashinfo'' CPtr,
      Field ''sysctl_max_tw_buckets'' c_int,
      BitField '''' c_long 32,
      BitField '''' c_long 64,
      BitField '''' c_long 64,
      BitField '''' c_long 64,
      BitField '''' c_long 64,
      BitField '''' c_long 64,
      BitField '''' c_long 64]"

lemma struct_inet_timewait_death_row_layout [layout_simps]:
  "csize struct_inet_timewait_death_row = 128" "calign struct_inet_timewait_death_row = 8" "wf_ctype struct_inet_timewait_death_row"
  by (simp_all add: struct_inet_timewait_death_row_def layout_simps cong: layout_cong)

definition struct_ping_group_range :: ctype where
  "struct_ping_group_range = CStruct [
      Field ''lock'' typ_seqlock_t,
      Field ''range'' (CArray 2 typ_kgid_t)]"

lemma struct_ping_group_range_layout [layout_simps]:
  "csize struct_ping_group_range = 120" "calign struct_ping_group_range = 8" "wf_ctype struct_ping_group_range"
  by (simp_all add: struct_ping_group_range_def layout_simps cong: layout_cong)

definition typ_siphash_key_t :: ctype where
  "typ_siphash_key_t = CStruct [
      Field ''key'' (CArray 2 typ_u64)]"

lemma typ_siphash_key_t_layout [layout_simps]:
  "csize typ_siphash_key_t = 16" "calign typ_siphash_key_t = 8" "wf_ctype typ_siphash_key_t"
  by (simp_all add: typ_siphash_key_t_def layout_simps cong: layout_cong)

definition struct_netns_ipv4 :: ctype where
  "struct_netns_ipv4 = CStruct [
      Field ''forw_hdr'' CPtr,
      Field ''frags_hdr'' CPtr,
      Field ''ipv4_hdr'' CPtr,
      Field ''route_hdr'' CPtr,
      Field ''xfrm4_hdr'' CPtr,
      Field ''devconf_all'' CPtr,
      Field ''devconf_dflt'' CPtr,
      Field ''ra_chain'' CPtr,
      Field ''ra_mutex'' struct_mutex,
      Field ''fib_has_custom_local_routes'' typ_bool,
      Field ''fib_num_tclassid_users'' c_int,
      Field ''fib_table_hash'' CPtr,
      Field ''fib_offload_disabled'' typ_bool,
      Field ''fibnl'' CPtr,
      Field ''icmp_sk'' CPtr,
      Field ''mc_autojoin_sk'' CPtr,
      Field ''peers'' CPtr,
      Field ''tcp_sk'' CPtr,
      Field ''fqdir'' CPtr,
      Field ''iptable_filter'' CPtr,
      Field ''iptable_mangle'' CPtr,
      Field ''iptable_raw'' CPtr,
      Field ''arptable_filter'' CPtr,
      Field ''iptable_security'' CPtr,
      Field ''nat_table'' CPtr,
      Field ''sysctl_icmp_echo_ignore_all'' c_int,
      Field ''sysctl_icmp_echo_ignore_broadcasts'' c_int,
      Field ''sysctl_icmp_ignore_bogus_error_responses'' c_int,
      Field ''sysctl_icmp_ratelimit'' c_int,
      Field ''sysctl_icmp_ratemask'' c_int,
      Field ''sysctl_icmp_errors_use_inbound_ifaddr'' c_int,
      Field ''ip_local_ports'' struct_local_ports,
      Field ''sysctl_tcp_ecn'' c_int,
      Field ''sysctl_tcp_ecn_fallback'' c_int,
      Field ''sysctl_ip_default_ttl'' c_int,
      Field ''sysctl_ip_no_pmtu_disc'' c_int,
      Field ''sysctl_ip_fwd_use_pmtu'' c_int,
      Field ''sysctl_ip_fwd_update_priority'' c_int,
      Field ''sysctl_ip_nonlocal_bind'' c_int,
      Field ''sysctl_ip_autobind_reuse'' c_int,
      Field ''sysctl_ip_dynaddr'' c_int,
      Field ''sysctl_ip_early_demux'' c_int,
      Field ''sysctl_tcp_early_demux'' c_int,
      Field ''sysctl_udp_early_demux'' c_int,
      Field ''sysctl_nexthop_compat_mode'' c_int,
      Field ''sysctl_fwmark_reflect'' c_int,
      Field ''sysctl_tcp_fwmark_accept'' c_int,
      Field ''sysctl_tcp_mtu_probing'' c_int,
      Field ''sysctl_tcp_mtu_probe_floor'' c_int,
      Field ''sysctl_tcp_base_mss'' c_int,
      Field ''sysctl_tcp_min_snd_mss'' c_int,
      Field ''sysctl_tcp_probe_threshold'' c_int,
      Field ''sysctl_tcp_probe_interval'' typ_u32,
      Field ''sysctl_tcp_keepalive_time'' c_int,
      Field ''sysctl_tcp_keepalive_probes'' c_int,
      Field ''sysctl_tcp_keepalive_intvl'' c_int,
      Field ''sysctl_tcp_syn_retries'' c_int,
      Field ''sysctl_tcp_synack_retries'' c_int,
      Field ''sysctl_tcp_syncookies'' c_int,
      Field ''sysctl_tcp_reordering'' c_int,
      Field ''sysctl_tcp_retries1'' c_int,
      Field ''sysctl_tcp_retries2'' c_int,
      Field ''sysctl_tcp_orphan_retries'' c_int,
      Field ''sysctl_tcp_fin_timeout'' c_int,
      Field ''sysctl_tcp_notsent_lowat'' c_uint,
      Field ''sysctl_tcp_tw_reuse'' c_int,
      Field ''sysctl_tcp_sack'' c_int,
      Field ''sysctl_tcp_window_scaling'' c_int,
      Field ''sysctl_tcp_timestamps'' c_int,
      Field ''sysctl_tcp_early_retrans'' c_int,
      Field ''sysctl_tcp_recovery'' c_int,
      Field ''sysctl_tcp_thin_linear_timeouts'' c_int,
      Field ''sysctl_tcp_slow_start_after_idle'' c_int,
      Field ''sysctl_tcp_retrans_collapse'' c_int,
      Field ''sysctl_tcp_stdurg'' c_int,
      Field ''sysctl_tcp_rfc1337'' c_int,
      Field ''sysctl_tcp_abort_on_overflow'' c_int,
      Field ''sysctl_tcp_fack'' c_int,
      Field ''sysctl_tcp_max_reordering'' c_int,
      Field ''sysctl_tcp_dsack'' c_int,
      Field ''sysctl_tcp_app_win'' c_int,
      Field ''sysctl_tcp_adv_win_scale'' c_int,
      Field ''sysctl_tcp_frto'' c_int,
      Field ''sysctl_tcp_nometrics_save'' c_int,
      Field ''sysctl_tcp_no_ssthresh_metrics_save'' c_int,
      Field ''sysctl_tcp_moderate_rcvbuf'' c_int,
      Field ''sysctl_tcp_tso_win_divisor'' c_int,
      Field ''sysctl_tcp_workaround_signed_windows'' c_int,
      Field ''sysctl_tcp_limit_output_bytes'' c_int,
      Field ''sysctl_tcp_challenge_ack_limit'' c_int,
      Field ''sysctl_tcp_min_tso_segs'' c_int,
      Field ''sysctl_tcp_min_rtt_wlen'' c_int,
      Field ''sysctl_tcp_autocorking'' c_int,
      Field ''sysctl_tcp_invalid_ratelimit'' c_int,
      Field ''sysctl_tcp_pacing_ss_ratio'' c_int,
      Field ''sysctl_tcp_pacing_ca_ratio'' c_int,
      Field ''sysctl_tcp_wmem'' (CArray 3 c_int),
      Field ''sysctl_tcp_rmem'' (CArray 3 c_int),
      Field ''sysctl_tcp_comp_sack_nr'' c_int,
      Field ''sysctl_tcp_comp_sack_delay_ns'' c_ulong,
      Field ''sysctl_tcp_comp_sack_slack_ns'' c_ulong,
      BitField '''' c_long 64,
      BitField '''' c_long 64,
      BitField '''' c_long 64,
      BitField '''' c_long 64,
      BitField '''' c_long 64,
      BitField '''' c_long 64,
      Field ''tcp_death_row'' struct_inet_timewait_death_row,
      Field ''sysctl_max_syn_backlog'' c_int,
      Field ''sysctl_tcp_fastopen'' c_int,
      Field ''tcp_congestion_control'' CPtr,
      Field ''tcp_fastopen_ctx'' CPtr,
      Field ''tcp_fastopen_ctx_lock'' typ_spinlock_t,
      Field ''sysctl_tcp_fastopen_blackhole_timeout'' c_uint,
      Field ''tfo_active_disable_times'' typ_atomic_t,
      Field ''tfo_active_disable_stamp'' c_ulong,
      Field ''sysctl_udp_wmem_min'' c_int,
      Field ''sysctl_udp_rmem_min'' c_int,
      Field ''sysctl_igmp_max_memberships'' c_int,
      Field ''sysctl_igmp_max_msf'' c_int,
      Field ''sysctl_igmp_llm_reports'' c_int,
      Field ''sysctl_igmp_qrv'' c_int,
      Field ''ping_group_range'' struct_ping_group_range,
      Field ''dev_addr_genid'' typ_atomic_t,
      Field ''sysctl_local_reserved_ports'' CPtr,
      Field ''sysctl_ip_prot_sock'' c_int,
      Field ''notifier_ops'' CPtr,
      Field ''fib_seq'' c_uint,
      Field ''ipmr_notifier_ops'' CPtr,
      Field ''ipmr_seq'' c_uint,
      Field ''rt_genid'' typ_atomic_t,
      Field ''ip_id_key'' typ_siphash_key_t]"

lemma struct_netns_ipv4_layout [layout_simps]:
  "csize struct_netns_ipv4 = 1280" "calign struct_netns_ipv4 = 8" "wf_ctype struct_netns_ipv4"
  by (simp_all add: struct_netns_ipv4_def layout_simps cong: layout_cong)

definition struct_netns_sysctl_ipv6 :: ctype where
  "struct_netns_sysctl_ipv6 = CStruct [
      Field ''hdr'' CPtr,
      Field ''route_hdr'' CPtr,
      Field ''icmp_hdr'' CPtr,
      Field ''frags_hdr'' CPtr,
      Field ''xfrm6_hdr'' CPtr,
      Field ''bindv6only'' c_int,
      Field ''flush_delay'' c_int,
      Field ''ip6_rt_max_size'' c_int,
      Field ''ip6_rt_gc_min_interval'' c_int,
      Field ''ip6_rt_gc_timeout'' c_int,
      Field ''ip6_rt_gc_interval'' c_int,
      Field ''ip6_rt_gc_elasticity'' c_int,
      Field ''ip6_rt_mtu_expires'' c_int,
      Field ''ip6_rt_min_advmss'' c_int,
      Field ''multipath_hash_policy'' c_int,
      Field ''flowlabel_consistency'' c_int,
      Field ''auto_flowlabels'' c_int,
      Field ''icmpv6_time'' c_int,
      Field ''icmpv6_echo_ignore_all'' c_int,
      Field ''icmpv6_echo_ignore_multicast'' c_int,
      Field ''icmpv6_echo_ignore_anycast'' c_int,
      Field ''icmpv6_ratemask'' (CArray 4 c_ulong),
      Field ''icmpv6_ratemask_ptr'' CPtr,
      Field ''anycast_src_echo_reply'' c_int,
      Field ''ip_nonlocal_bind'' c_int,
      Field ''fwmark_reflect'' c_int,
      Field ''idgen_retries'' c_int,
      Field ''idgen_delay'' c_int,
      Field ''flowlabel_state_ranges'' c_int,
      Field ''flowlabel_reflect'' c_int,
      Field ''max_dst_opts_cnt'' c_int,
      Field ''max_hbh_opts_cnt'' c_int,
      Field ''max_dst_opts_len'' c_int,
      Field ''max_hbh_opts_len'' c_int,
      Field ''seg6_flowlabel'' c_int,
      Field ''skip_notify_on_dev_down'' typ_bool]"

lemma struct_netns_sysctl_ipv6_layout [layout_simps]:
  "csize struct_netns_sysctl_ipv6 = 200" "calign struct_netns_sysctl_ipv6 = 8" "wf_ctype struct_netns_sysctl_ipv6"
  by (simp_all add: struct_netns_sysctl_ipv6_def layout_simps cong: layout_cong)

definition struct_dst_ops :: ctype where
  "struct_dst_ops = CStruct [
      Field ''family'' c_ushort,
      Field ''gc_thresh'' c_uint,
      Field ''gc'' CPtr,
      Field ''check'' CPtr,
      Field ''default_advmss'' CPtr,
      Field ''mtu'' CPtr,
      Field ''cow_metrics'' CPtr,
      Field ''destroy'' CPtr,
      Field ''ifdown'' CPtr,
      Field ''negative_advice'' CPtr,
      Field ''link_failure'' CPtr,
      Field ''update_pmtu'' CPtr,
      Field ''redirect'' CPtr,
      Field ''local_out'' CPtr,
      Field ''neigh_lookup'' CPtr,
      Field ''confirm_neigh'' CPtr,
      Field ''kmem_cachep'' CPtr,
      Field ''pcpuc_entries'' struct_percpu_counter,
      BitField '''' c_long 64,
      BitField '''' c_long 64,
      BitField '''' c_long 64,
      BitField '''' c_long 64]"

lemma struct_dst_ops_layout [layout_simps]:
  "csize struct_dst_ops = 256" "calign struct_dst_ops = 8" "wf_ctype struct_dst_ops"
  by (simp_all add: struct_dst_ops_def layout_simps cong: layout_cong)

definition struct_netns_ipv6 :: ctype where
  "struct_netns_ipv6 = CStruct [
      Field ''sysctl'' struct_netns_sysctl_ipv6,
      Field ''devconf_all'' CPtr,
      Field ''devconf_dflt'' CPtr,
      Field ''peers'' CPtr,
      Field ''fqdir'' CPtr,
      Field ''ip6table_filter'' CPtr,
      Field ''ip6table_mangle'' CPtr,
      Field ''ip6table_raw'' CPtr,
      Field ''ip6table_security'' CPtr,
      Field ''ip6table_nat'' CPtr,
      Field ''fib6_null_entry'' CPtr,
      Field ''ip6_null_entry'' CPtr,
      Field ''rt6_stats'' CPtr,
      Field ''ip6_fib_timer'' struct_timer_list,
      Field ''fib_table_hash'' CPtr,
      Field ''fib6_main_tbl'' CPtr,
      Field ''fib6_walkers'' struct_list_head,
      BitField '''' c_long 64,
      BitField '''' c_long 64,
      BitField '''' c_long 64,
      BitField '''' c_long 64,
      BitField '''' c_long 64,
      Field ''ip6_dst_ops'' struct_dst_ops,
      Field ''fib6_walker_lock'' typ_rwlock_t,
      Field ''fib6_gc_lock'' typ_spinlock_t,
      Field ''ip6_rt_gc_expire'' c_uint,
      Field ''ip6_rt_last_gc'' c_ulong,
      Field ''icmp_sk'' CPtr,
      Field ''ndisc_sk'' CPtr,
      Field ''tcp_sk'' CPtr,
      Field ''igmp_sk'' CPtr,
      Field ''mc_autojoin_sk'' CPtr,
      Field ''dev_addr_genid'' typ_atomic_t,
      Field ''fib6_sernum'' typ_atomic_t,
      Field ''seg6_data'' CPtr,
      Field ''notifier_ops'' CPtr,
      Field ''ip6mr_notifier_ops'' CPtr,
      Field ''ipmr_seq'' c_uint,
      Field ''ip6addrlbl_table'' (CStruct [
        Field ''head'' struct_hlist_head,
        Field ''lock'' typ_spinlock_t,
        Field ''seq'' typ_u32]),
      BitField '''' c_long 64,
      BitField '''' c_long 64]"

lemma struct_netns_ipv6_layout [layout_simps]:
  "csize struct_netns_ipv6 = 1024" "calign struct_netns_ipv6 = 8" "wf_ctype struct_netns_ipv6"
  by (simp_all add: struct_netns_ipv6_def layout_simps cong: layout_cong)

definition struct_netns_nf :: ctype where
  "struct_netns_nf = CStruct [
      Field ''proc_netfilter'' CPtr,
      Field ''queue_handler'' CPtr,
      Field ''nf_loggers'' (CArray 13 CPtr),
      Field ''nf_log_dir_header'' CPtr,
      Field ''hooks_ipv4'' (CArray 5 CPtr),
      Field ''hooks_ipv6'' (CArray 5 CPtr),
      Field ''hooks_arp'' (CArray 3 CPtr),
      Field ''defrag_ipv4'' typ_bool,
      Field ''defrag_ipv6'' typ_bool]"

lemma struct_netns_nf_layout [layout_simps]:
  "csize struct_netns_nf = 240" "calign struct_netns_nf = 8" "wf_ctype struct_netns_nf"
  by (simp_all add: struct_netns_nf_def layout_simps cong: layout_cong)

definition struct_netns_xt :: ctype where
  "struct_netns_xt = CStruct [
      Field ''tables'' (CArray 13 struct_list_head),
      Field ''notrack_deprecated_warning'' typ_bool,
      Field ''clusterip_deprecated_warning'' typ_bool]"

lemma struct_netns_xt_layout [layout_simps]:
  "csize struct_netns_xt = 216" "calign struct_netns_xt = 8" "wf_ctype struct_netns_xt"
  by (simp_all add: struct_netns_xt_def layout_simps cong: layout_cong)

definition struct_nf_generic_net :: ctype where
  "struct_nf_generic_net = CStruct [
      Field ''timeout'' c_uint]"

lemma struct_nf_generic_net_layout [layout_simps]:
  "csize struct_nf_generic_net = 4" "calign struct_nf_generic_net = 4" "wf_ctype struct_nf_generic_net"
  by (simp_all add: struct_nf_generic_net_def layout_simps cong: layout_cong)

definition struct_nf_tcp_net :: ctype where
  "struct_nf_tcp_net = CStruct [
      Field ''timeouts'' (CArray 14 c_uint),
      Field ''tcp_loose'' c_int,
      Field ''tcp_be_liberal'' c_int,
      Field ''tcp_max_retrans'' c_int]"

lemma struct_nf_tcp_net_layout [layout_simps]:
  "csize struct_nf_tcp_net = 68" "calign struct_nf_tcp_net = 4" "wf_ctype struct_nf_tcp_net"
  by (simp_all add: struct_nf_tcp_net_def layout_simps cong: layout_cong)

definition struct_nf_udp_net :: ctype where
  "struct_nf_udp_net = CStruct [
      Field ''timeouts'' (CArray 2 c_uint)]"

lemma struct_nf_udp_net_layout [layout_simps]:
  "csize struct_nf_udp_net = 8" "calign struct_nf_udp_net = 4" "wf_ctype struct_nf_udp_net"
  by (simp_all add: struct_nf_udp_net_def layout_simps cong: layout_cong)

definition struct_nf_icmp_net :: ctype where
  "struct_nf_icmp_net = CStruct [
      Field ''timeout'' c_uint]"

lemma struct_nf_icmp_net_layout [layout_simps]:
  "csize struct_nf_icmp_net = 4" "calign struct_nf_icmp_net = 4" "wf_ctype struct_nf_icmp_net"
  by (simp_all add: struct_nf_icmp_net_def layout_simps cong: layout_cong)

definition struct_nf_dccp_net :: ctype where
  "struct_nf_dccp_net = CStruct [
      Field ''dccp_loose'' c_int,
      Field ''dccp_timeout'' (CArray 10 c_uint)]"

lemma struct_nf_dccp_net_layout [layout_simps]:
  "csize struct_nf_dccp_net = 44" "calign struct_nf_dccp_net = 4" "wf_ctype struct_nf_dccp_net"
  by (simp_all add: struct_nf_dccp_net_def layout_simps cong: layout_cong)

definition struct_nf_sctp_net :: ctype where
  "struct_nf_sctp_net = CStruct [
      Field ''timeouts'' (CArray 10 c_uint)]"

lemma struct_nf_sctp_net_layout [layout_simps]:
  "csize struct_nf_sctp_net = 40" "calign struct_nf_sctp_net = 4" "wf_ctype struct_nf_sctp_net"
  by (simp_all add: struct_nf_sctp_net_def layout_simps cong: layout_cong)

definition struct_nf_gre_net :: ctype where
  "struct_nf_gre_net = CStruct [
      Field ''keymap_list'' struct_list_head,
      Field ''timeouts'' (CArray 2 c_uint)]"

lemma struct_nf_gre_net_layout [layout_simps]:
  "csize struct_nf_gre_net = 24" "calign struct_nf_gre_net = 8" "wf_ctype struct_nf_gre_net"
  by (simp_all add: struct_nf_gre_net_def layout_simps cong: layout_cong)

definition struct_nf_ip_net :: ctype where
  "struct_nf_ip_net = CStruct [
      Field ''generic'' struct_nf_generic_net,
      Field ''tcp'' struct_nf_tcp_net,
      Field ''udp'' struct_nf_udp_net,
      Field ''icmp'' struct_nf_icmp_net,
      Field ''icmpv6'' struct_nf_icmp_net,
      Field ''dccp'' struct_nf_dccp_net,
      Field ''sctp'' struct_nf_sctp_net,
      Field ''gre'' struct_nf_gre_net]"

lemma struct_nf_ip_net_layout [layout_simps]:
  "csize struct_nf_ip_net = 200" "calign struct_nf_ip_net = 8" "wf_ctype struct_nf_ip_net"
  by (simp_all add: struct_nf_ip_net_def layout_simps cong: layout_cong)

definition struct_netns_ct :: ctype where
  "struct_netns_ct = CStruct [
      Field ''count'' typ_atomic_t,
      Field ''expect_count'' c_uint,
      Field ''ecache_dwork'' struct_delayed_work,
      Field ''ecache_dwork_pending'' typ_bool,
      Field ''auto_assign_helper_warned'' typ_bool,
      Field ''sysctl_header'' CPtr,
      Field ''sysctl_log_invalid'' c_uint,
      Field ''sysctl_events'' c_int,
      Field ''sysctl_acct'' c_int,
      Field ''sysctl_auto_assign_helper'' c_int,
      Field ''sysctl_tstamp'' c_int,
      Field ''sysctl_checksum'' c_int,
      Field ''pcpu_lists'' CPtr,
      Field ''stat'' CPtr,
      Field ''nf_conntrack_event_cb'' CPtr,
      Field ''nf_expect_event_cb'' CPtr,
      Field ''nf_ct_proto'' struct_nf_ip_net,
      Field ''labels_used'' c_uint]"

lemma struct_netns_ct_layout [layout_simps]:
  "csize struct_netns_ct = 456" "calign struct_netns_ct = 8" "wf_ctype struct_netns_ct"
  by (simp_all add: struct_netns_ct_def layout_simps cong: layout_cong)

definition struct_netns_nf_frag :: ctype where
  "struct_netns_nf_frag = CStruct [
      Field ''fqdir'' CPtr]"

lemma struct_netns_nf_frag_layout [layout_simps]:
  "csize struct_netns_nf_frag = 8" "calign struct_netns_nf_frag = 8" "wf_ctype struct_netns_nf_frag"
  by (simp_all add: struct_netns_nf_frag_def layout_simps cong: layout_cong)

definition struct_netns_bpf :: ctype where
  "struct_netns_bpf = CStruct [
      Field ''progs'' (CArray 1 CPtr),
      Field ''links'' (CArray 1 CPtr)]"

lemma struct_netns_bpf_layout [layout_simps]:
  "csize struct_netns_bpf = 16" "calign struct_netns_bpf = 8" "wf_ctype struct_netns_bpf"
  by (simp_all add: struct_netns_bpf_def layout_simps cong: layout_cong)

definition struct_xfrm_policy_hash :: ctype where
  "struct_xfrm_policy_hash = CStruct [
      Field ''table'' CPtr,
      Field ''hmask'' c_uint,
      Field ''dbits4'' typ_u8,
      Field ''sbits4'' typ_u8,
      Field ''dbits6'' typ_u8,
      Field ''sbits6'' typ_u8]"

lemma struct_xfrm_policy_hash_layout [layout_simps]:
  "csize struct_xfrm_policy_hash = 16" "calign struct_xfrm_policy_hash = 8" "wf_ctype struct_xfrm_policy_hash"
  by (simp_all add: struct_xfrm_policy_hash_def layout_simps cong: layout_cong)

definition struct_xfrm_policy_hthresh :: ctype where
  "struct_xfrm_policy_hthresh = CStruct [
      Field ''work'' struct_work_struct,
      Field ''lock'' typ_seqlock_t,
      Field ''lbits4'' typ_u8,
      Field ''rbits4'' typ_u8,
      Field ''lbits6'' typ_u8,
      Field ''rbits6'' typ_u8]"

lemma struct_xfrm_policy_hthresh_layout [layout_simps]:
  "csize struct_xfrm_policy_hthresh = 192" "calign struct_xfrm_policy_hthresh = 8" "wf_ctype struct_xfrm_policy_hthresh"
  by (simp_all add: struct_xfrm_policy_hthresh_def layout_simps cong: layout_cong)

definition struct_netns_xfrm :: ctype where
  "struct_netns_xfrm = CStruct [
      Field ''state_all'' struct_list_head,
      Field ''state_bydst'' CPtr,
      Field ''state_bysrc'' CPtr,
      Field ''state_byspi'' CPtr,
      Field ''state_hmask'' c_uint,
      Field ''state_num'' c_uint,
      Field ''state_hash_work'' struct_work_struct,
      Field ''policy_all'' struct_list_head,
      Field ''policy_byidx'' CPtr,
      Field ''policy_idx_hmask'' c_uint,
      Field ''policy_inexact'' (CArray 3 struct_hlist_head),
      Field ''policy_bydst'' (CArray 3 struct_xfrm_policy_hash),
      Field ''policy_count'' (CArray 6 c_uint),
      Field ''policy_hash_work'' struct_work_struct,
      Field ''policy_hthresh'' struct_xfrm_policy_hthresh,
      Field ''inexact_bins'' struct_list_head,
      Field ''nlsk'' CPtr,
      Field ''nlsk_stash'' CPtr,
      Field ''sysctl_aevent_etime'' typ_u32,
      Field ''sysctl_aevent_rseqth'' typ_u32,
      Field ''sysctl_larval_drop'' c_int,
      Field ''sysctl_acq_expires'' typ_u32,
      Field ''sysctl_hdr'' CPtr,
      BitField '''' c_long 64,
      Field ''xfrm4_dst_ops'' struct_dst_ops,
      Field ''xfrm6_dst_ops'' struct_dst_ops,
      Field ''xfrm_state_lock'' typ_spinlock_t,
      Field ''xfrm_policy_lock'' typ_spinlock_t,
      Field ''xfrm_cfg_mutex'' struct_mutex,
      BitField '''' c_long 64,
      BitField '''' c_long 64,
      BitField '''' c_long 64,
      BitField '''' c_long 64,
      BitField '''' c_long 64,
      BitField '''' c_long 64]"

lemma struct_netns_xfrm_layout [layout_simps]:
  "csize struct_netns_xfrm = 1408" "calign struct_netns_xfrm = 8" "wf_ctype struct_netns_xfrm"
  by (simp_all add: struct_netns_xfrm_def layout_simps cong: layout_cong)

definition struct_netns_xdp :: ctype where
  "struct_netns_xdp = CStruct [
      Field ''lock'' struct_mutex,
      Field ''list'' struct_hlist_head]"

lemma struct_netns_xdp_layout [layout_simps]:
  "csize struct_netns_xdp = 152" "calign struct_netns_xdp = 8" "wf_ctype struct_netns_xdp"
  by (simp_all add: struct_netns_xdp_def layout_simps cong: layout_cong)

definition struct_net :: ctype where
  "struct_net = CStruct [
      Field ''passive'' typ_refcount_t,
      Field ''count'' typ_refcount_t,
      Field ''rules_mod_lock'' typ_spinlock_t,
      Field ''dev_unreg_count'' c_uint,
      Field ''dev_base_seq'' c_uint,
      Field ''ifindex'' c_int,
      Field ''nsid_lock'' typ_spinlock_t,
      Field ''fnhe_genid'' typ_atomic_t,
      Field ''list'' struct_list_head,
      Field ''exit_list'' struct_list_head,
      Field ''cleanup_list'' struct_llist_node,
      Field ''user_ns'' CPtr,
      Field ''ucounts'' CPtr,
      Field ''netns_ids'' struct_idr,
      Field ''ns'' struct_ns_common,
      Field ''dev_base_head'' struct_list_head,
      Field ''proc_net'' CPtr,
      Field ''proc_net_stat'' CPtr,
      Field ''sysctls'' struct_ctl_table_set,
      Field ''rtnl'' CPtr,
      Field ''genl_sock'' CPtr,
      Field ''uevent_sock'' CPtr,
      Field ''dev_name_head'' CPtr,
      Field ''dev_index_head'' CPtr,
      Field ''netdev_chain'' struct_raw_notifier_head,
      Field ''hash_mix'' typ_u32,
      Field ''loopback_dev'' CPtr,
      Field ''rules_ops'' struct_list_head,
      Field ''core'' struct_netns_core,
      Field ''mib'' struct_netns_mib,
      Field ''packet'' struct_netns_packet,
      Field ''unx'' struct_netns_unix,
      Field ''nexthop'' struct_netns_nexthop,
      BitField '''' c_long 64,
      BitField '''' c_long 64,
      Field ''ipv4'' struct_netns_ipv4,
      Field ''ipv6'' struct_netns_ipv6,
      Field ''nf'' struct_netns_nf,
      Field ''xt'' struct_netns_xt,
      Field ''ct'' struct_netns_ct,
      Field ''nf_frag'' struct_netns_nf_frag,
      Field ''nf_frag_frags_hdr'' CPtr,
      Field ''nfnl'' CPtr,
      Field ''nfnl_stash'' CPtr,
      Field ''nfnl_acct_list'' struct_list_head,
      Field ''nfct_timeout_list'' struct_list_head,
      Field ''gen'' CPtr,
      Field ''bpf'' struct_netns_bpf,
      BitField '''' c_long 64,
      BitField '''' c_long 64,
      BitField '''' c_long 64,
      Field ''xfrm'' struct_netns_xfrm,
      Field ''net_cookie'' typ_atomic64_t,
      Field ''ipvs'' CPtr,
      Field ''xdp'' struct_netns_xdp,
      Field ''diag_nlsk'' CPtr,
      BitField '''' c_long 64,
      BitField '''' c_long 64]"

lemma struct_net_layout [layout_simps]:
  "csize struct_net = 5888" "calign struct_net = 8" "wf_ctype struct_net"
  by (simp_all add: struct_net_def layout_simps cong: layout_cong)

definition struct_timens_offsets :: ctype where
  "struct_timens_offsets = CStruct [
      Field ''monotonic'' struct_timespec64,
      Field ''boottime'' struct_timespec64]"

lemma struct_timens_offsets_layout [layout_simps]:
  "csize struct_timens_offsets = 32" "calign struct_timens_offsets = 8" "wf_ctype struct_timens_offsets"
  by (simp_all add: struct_timens_offsets_def layout_simps cong: layout_cong)

definition struct_time_namespace :: ctype where
  "struct_time_namespace = CStruct [
      Field ''kref'' struct_kref,
      Field ''user_ns'' CPtr,
      Field ''ucounts'' CPtr,
      Field ''ns'' struct_ns_common,
      Field ''offsets'' struct_timens_offsets,
      Field ''vvar_page'' CPtr,
      Field ''frozen_offsets'' typ_bool]"

lemma struct_time_namespace_layout [layout_simps]:
  "csize struct_time_namespace = 96" "calign struct_time_namespace = 8" "wf_ctype struct_time_namespace"
  by (simp_all add: struct_time_namespace_def layout_simps cong: layout_cong)

definition struct_ipc_ids :: ctype where
  "struct_ipc_ids = CStruct [
      Field ''in_use'' c_int,
      Field ''seq'' c_ushort,
      Field ''rwsem'' struct_rw_semaphore,
      Field ''ipcs_idr'' struct_idr,
      Field ''max_idx'' c_int,
      Field ''last_idx'' c_int,
      Field ''key_ht'' struct_rhashtable]"

lemma struct_ipc_ids_layout [layout_simps]:
  "csize struct_ipc_ids = 608" "calign struct_ipc_ids = 8" "wf_ctype struct_ipc_ids"
  by (simp_all add: struct_ipc_ids_def layout_simps cong: layout_cong)

definition struct_ipc_namespace :: ctype where
  "struct_ipc_namespace = CStruct [
      Field ''count'' typ_refcount_t,
      Field ''ids'' (CArray 3 struct_ipc_ids),
      Field ''sem_ctls'' (CArray 4 c_int),
      Field ''used_sems'' c_int,
      Field ''msg_ctlmax'' c_uint,
      Field ''msg_ctlmnb'' c_uint,
      Field ''msg_ctlmni'' c_uint,
      Field ''msg_bytes'' typ_atomic_t,
      Field ''msg_hdrs'' typ_atomic_t,
      Field ''shm_ctlmax'' typ_size_t,
      Field ''shm_ctlall'' typ_size_t,
      Field ''shm_tot'' c_ulong,
      Field ''shm_ctlmni'' c_int,
      Field ''shm_rmid_forced'' c_int,
      Field ''ipcns_nb'' struct_notifier_block,
      Field ''mq_mnt'' CPtr,
      Field ''mq_queues_count'' c_uint,
      Field ''mq_queues_max'' c_uint,
      Field ''mq_msg_max'' c_uint,
      Field ''mq_msgsize_max'' c_uint,
      Field ''mq_msg_default'' c_uint,
      Field ''mq_msgsize_default'' c_uint,
      Field ''user_ns'' CPtr,
      Field ''ucounts'' CPtr,
      Field ''mnt_llist'' struct_llist_node,
      Field ''ns'' struct_ns_common]"

lemma struct_ipc_namespace_layout [layout_simps]:
  "csize struct_ipc_namespace = 2008" "calign struct_ipc_namespace = 8" "wf_ctype struct_ipc_namespace"
  by (simp_all add: struct_ipc_namespace_def layout_simps cong: layout_cong)

definition struct_mnt_namespace :: ctype where
  "struct_mnt_namespace = CStruct [
      Field ''count'' typ_atomic_t,
      Field ''ns'' struct_ns_common,
      Field ''root'' CPtr,
      Field ''list'' struct_list_head,
      Field ''ns_lock'' typ_spinlock_t,
      Field ''user_ns'' CPtr,
      Field ''ucounts'' CPtr,
      Field ''seq'' typ_u64,
      Field ''poll'' typ_wait_queue_head_t,
      Field ''event'' typ_u64,
      Field ''mounts'' c_uint,
      Field ''pending_mounts'' c_uint]"

lemma struct_mnt_namespace_layout [layout_simps]:
  "csize struct_mnt_namespace = 240" "calign struct_mnt_namespace = 8" "wf_ctype struct_mnt_namespace"
  by (simp_all add: struct_mnt_namespace_def layout_simps cong: layout_cong)

end
