(* ===== verification/Vmlinux_Sock.thy ===== *)
theory Vmlinux_Sock
  imports Vmlinux_Base
begin

text \<open>
  \<^verbatim>\<open>struct sock_common\<close>, \<^verbatim>\<open>struct sock\<close> and the sockets built on them (\<^verbatim>\<open>tcp_sock\<close>, \<^verbatim>\<open>udp_sock\<close>, request and
  time-wait sockets), the other structures the probes receive, and the BPF map types.

  Each constant is one declaration of the header, member by member; \<open>struct_\<close>, \<open>union_\<close>, \<open>enum_\<close> and \<open>typ_\<close>
  stand for the C name spaces.  The lemma after it is its size, its alignment and its
  well-formedness, which the declarations that embed it use.
\<close>

definition typ___s32 :: ctype where
  "typ___s32 = c_int"

lemma typ___s32_layout [layout_simps]:
  "csize typ___s32 = 4" "calign typ___s32 = 4" "wf_ctype typ___s32"
  by (simp_all add: typ___s32_def layout_simps cong: layout_cong)

definition typ_s32 :: ctype where
  "typ_s32 = typ___s32"

lemma typ_s32_layout [layout_simps]:
  "csize typ_s32 = 4" "calign typ_s32 = 4" "wf_ctype typ_s32"
  by (simp_all add: typ_s32_def layout_simps cong: layout_cong)

definition typ___kernel_loff_t :: ctype where
  "typ___kernel_loff_t = c_long"

lemma typ___kernel_loff_t_layout [layout_simps]:
  "csize typ___kernel_loff_t = 8" "calign typ___kernel_loff_t = 8" "wf_ctype typ___kernel_loff_t"
  by (simp_all add: typ___kernel_loff_t_def layout_simps cong: layout_cong)

definition typ_loff_t :: ctype where
  "typ_loff_t = typ___kernel_loff_t"

lemma typ_loff_t_layout [layout_simps]:
  "csize typ_loff_t = 8" "calign typ_loff_t = 8" "wf_ctype typ_loff_t"
  by (simp_all add: typ_loff_t_def layout_simps cong: layout_cong)

definition struct_pt_regs_x86 :: ctype where
  "struct_pt_regs_x86 = CStruct [
      Field ''r15'' c_ulong,
      Field ''r14'' c_ulong,
      Field ''r13'' c_ulong,
      Field ''r12'' c_ulong,
      Field ''bp'' c_ulong,
      Field ''bx'' c_ulong,
      Field ''r11'' c_ulong,
      Field ''r10'' c_ulong,
      Field ''r9'' c_ulong,
      Field ''r8'' c_ulong,
      Field ''ax'' c_ulong,
      Field ''cx'' c_ulong,
      Field ''dx'' c_ulong,
      Field ''si'' c_ulong,
      Field ''di'' c_ulong,
      Field ''orig_ax'' c_ulong,
      Field ''ip'' c_ulong,
      Field ''cs'' c_ulong,
      Field ''flags'' c_ulong,
      Field ''sp'' c_ulong,
      Field ''ss'' c_ulong]"

lemma struct_pt_regs_x86_layout [layout_simps]:
  "csize struct_pt_regs_x86 = 168" "calign struct_pt_regs_x86 = 8" "wf_ctype struct_pt_regs_x86"
  by (simp_all add: struct_pt_regs_x86_def layout_simps cong: layout_cong)

definition struct_user_pt_regs :: ctype where
  "struct_user_pt_regs = CStruct [
      Field ''regs'' (CArray 31 typ___u64),
      Field ''sp'' typ___u64,
      Field ''pc'' typ___u64,
      Field ''pstate'' typ___u64]"

lemma struct_user_pt_regs_layout [layout_simps]:
  "csize struct_user_pt_regs = 272" "calign struct_user_pt_regs = 8" "wf_ctype struct_user_pt_regs"
  by (simp_all add: struct_user_pt_regs_def layout_simps cong: layout_cong)

definition struct_pt_regs_arm64 :: ctype where
  "struct_pt_regs_arm64 = CStruct [
      Field '''' (CUnion [
        Field ''user_regs'' struct_user_pt_regs,
        Field '''' (CStruct [
          Field ''regs'' (CArray 31 typ_u64),
          Field ''sp'' typ_u64,
          Field ''pc'' typ_u64,
          Field ''pstate'' typ_u64])]),
      Field ''orig_x0'' typ_u64,
      Field ''syscallno'' typ_s32,
      Field ''unused2'' typ_u32,
      Field ''sdei_ttbr1'' typ_u64,
      Field ''pmr_save'' typ_u64,
      Field ''stackframe'' (CArray 2 typ_u64),
      Field ''lockdep_hardirqs'' typ_u64,
      Field ''exit_rcu'' typ_u64]"

lemma struct_pt_regs_arm64_layout [layout_simps]:
  "csize struct_pt_regs_arm64 = 336" "calign struct_pt_regs_arm64 = 8" "wf_ctype struct_pt_regs_arm64"
  by (simp_all add: struct_pt_regs_arm64_def layout_simps cong: layout_cong)

definition typ___s16 :: ctype where
  "typ___s16 = c_short"

lemma typ___s16_layout [layout_simps]:
  "csize typ___s16 = 2" "calign typ___s16 = 2" "wf_ctype typ___s16"
  by (simp_all add: typ___s16_def layout_simps cong: layout_cong)

definition struct_trace_entry :: ctype where
  "struct_trace_entry = CStruct [
      Field ''type'' c_ushort,
      Field ''flags'' c_uchar,
      Field ''preempt_count'' c_uchar,
      Field ''pid'' c_int]"

lemma struct_trace_entry_layout [layout_simps]:
  "csize struct_trace_entry = 8" "calign struct_trace_entry = 4" "wf_ctype struct_trace_entry"
  by (simp_all add: struct_trace_entry_def layout_simps cong: layout_cong)

definition typ___le16 :: ctype where
  "typ___le16 = typ___u16"

lemma typ___le16_layout [layout_simps]:
  "csize typ___le16 = 2" "calign typ___le16 = 2" "wf_ctype typ___le16"
  by (simp_all add: typ___le16_def layout_simps cong: layout_cong)

definition typ___be64 :: ctype where
  "typ___be64 = typ___u64"

lemma typ___be64_layout [layout_simps]:
  "csize typ___be64 = 8" "calign typ___be64 = 8" "wf_ctype typ___be64"
  by (simp_all add: typ___be64_def layout_simps cong: layout_cong)

definition typ___wsum :: ctype where
  "typ___wsum = typ___u32"

lemma typ___wsum_layout [layout_simps]:
  "csize typ___wsum = 4" "calign typ___wsum = 4" "wf_ctype typ___wsum"
  by (simp_all add: typ___wsum_def layout_simps cong: layout_cong)

definition typ___addrpair :: ctype where
  "typ___addrpair = typ___u64"

lemma typ___addrpair_layout [layout_simps]:
  "csize typ___addrpair = 8" "calign typ___addrpair = 8" "wf_ctype typ___addrpair"
  by (simp_all add: typ___addrpair_def layout_simps cong: layout_cong)

definition typ___portpair :: ctype where
  "typ___portpair = typ___u32"

lemma typ___portpair_layout [layout_simps]:
  "csize typ___portpair = 4" "calign typ___portpair = 4" "wf_ctype typ___portpair"
  by (simp_all add: typ___portpair_def layout_simps cong: layout_cong)

definition typ_possible_net_t :: ctype where
  "typ_possible_net_t = CStruct [
      Field ''net'' CPtr]"

lemma typ_possible_net_t_layout [layout_simps]:
  "csize typ_possible_net_t = 8" "calign typ_possible_net_t = 8" "wf_ctype typ_possible_net_t"
  by (simp_all add: typ_possible_net_t_def layout_simps cong: layout_cong)

definition struct_in6_addr :: ctype where
  "struct_in6_addr = CStruct [
      Field ''in6_u'' (CUnion [
        Field ''u6_addr8'' (CArray 16 typ___u8),
        Field ''u6_addr16'' (CArray 8 typ___be16),
        Field ''u6_addr32'' (CArray 4 typ___be32)])]"

lemma struct_in6_addr_layout [layout_simps]:
  "csize struct_in6_addr = 16" "calign struct_in6_addr = 4" "wf_ctype struct_in6_addr"
  by (simp_all add: struct_in6_addr_def layout_simps cong: layout_cong)

definition struct_hlist_nulls_node :: ctype where
  "struct_hlist_nulls_node = CStruct [
      Field ''next'' CPtr,
      Field ''pprev'' CPtr]"

lemma struct_hlist_nulls_node_layout [layout_simps]:
  "csize struct_hlist_nulls_node = 16" "calign struct_hlist_nulls_node = 8" "wf_ctype struct_hlist_nulls_node"
  by (simp_all add: struct_hlist_nulls_node_def layout_simps cong: layout_cong)

definition struct_sock_common :: ctype where
  "struct_sock_common = CStruct [
      Field '''' (CUnion [
        Field ''skc_addrpair'' typ___addrpair,
        Field '''' (CStruct [
          Field ''skc_daddr'' typ___be32,
          Field ''skc_rcv_saddr'' typ___be32])]),
      Field '''' (CUnion [
        Field ''skc_hash'' c_uint,
        Field ''skc_u16hashes'' (CArray 2 typ___u16)]),
      Field '''' (CUnion [
        Field ''skc_portpair'' typ___portpair,
        Field '''' (CStruct [
          Field ''skc_dport'' typ___be16,
          Field ''skc_num'' typ___u16])]),
      Field ''skc_family'' c_ushort,
      Field ''skc_state'' c_uchar,
      BitField ''skc_reuse'' c_uchar 4,
      BitField ''skc_reuseport'' c_uchar 1,
      BitField ''skc_ipv6only'' c_uchar 1,
      BitField ''skc_net_refcnt'' c_uchar 1,
      Field ''skc_bound_dev_if'' c_int,
      Field '''' (CUnion [
        Field ''skc_bind_node'' struct_hlist_node,
        Field ''skc_portaddr_node'' struct_hlist_node]),
      Field ''skc_prot'' CPtr,
      Field ''skc_net'' typ_possible_net_t,
      Field ''skc_v6_daddr'' struct_in6_addr,
      Field ''skc_v6_rcv_saddr'' struct_in6_addr,
      Field ''skc_cookie'' typ_atomic64_t,
      Field '''' (CUnion [
        Field ''skc_flags'' c_ulong,
        Field ''skc_listener'' CPtr,
        Field ''skc_tw_dr'' CPtr]),
      Field ''skc_dontcopy_begin'' (CArray 0 c_int),
      Field '''' (CUnion [
        Field ''skc_node'' struct_hlist_node,
        Field ''skc_nulls_node'' struct_hlist_nulls_node]),
      Field ''skc_tx_queue_mapping'' c_ushort,
      Field ''skc_rx_queue_mapping'' c_ushort,
      Field '''' (CUnion [
        Field ''skc_incoming_cpu'' c_int,
        Field ''skc_rcv_wnd'' typ_u32,
        Field ''skc_tw_rcv_nxt'' typ_u32]),
      Field ''skc_refcnt'' typ_refcount_t,
      Field ''skc_dontcopy_end'' (CArray 0 c_int),
      Field '''' (CUnion [
        Field ''skc_rxhash'' typ_u32,
        Field ''skc_window_clamp'' typ_u32,
        Field ''skc_tw_snd_nxt'' typ_u32])]"

lemma struct_sock_common_layout [layout_simps]:
  "csize struct_sock_common = 136" "calign struct_sock_common = 8" "wf_ctype struct_sock_common"
  by (simp_all add: struct_sock_common_def layout_simps cong: layout_cong)

definition typ_socket_lock_t :: ctype where
  "typ_socket_lock_t = CStruct [
      Field ''slock'' typ_spinlock_t,
      Field ''owned'' c_int,
      Field ''wq'' typ_wait_queue_head_t,
      Field ''dep_map'' struct_lockdep_map]"

lemma typ_socket_lock_t_layout [layout_simps]:
  "csize typ_socket_lock_t = 192" "calign typ_socket_lock_t = 8" "wf_ctype typ_socket_lock_t"
  by (simp_all add: typ_socket_lock_t_def layout_simps cong: layout_cong)

definition struct_sk_buff_head :: ctype where
  "struct_sk_buff_head = CStruct [
      Field ''next'' CPtr,
      Field ''prev'' CPtr,
      Field ''qlen'' typ___u32,
      Field ''lock'' typ_spinlock_t]"

lemma struct_sk_buff_head_layout [layout_simps]:
  "csize struct_sk_buff_head = 88" "calign struct_sk_buff_head = 8" "wf_ctype struct_sk_buff_head"
  by (simp_all add: struct_sk_buff_head_def layout_simps cong: layout_cong)

definition typ_netdev_features_t :: ctype where
  "typ_netdev_features_t = typ_u64"

lemma typ_netdev_features_t_layout [layout_simps]:
  "csize typ_netdev_features_t = 8" "calign typ_netdev_features_t = 8" "wf_ctype typ_netdev_features_t"
  by (simp_all add: typ_netdev_features_t_def layout_simps cong: layout_cong)

definition struct_sock_cgroup_data :: ctype where
  "struct_sock_cgroup_data = CStruct [
      Field '''' (CUnion [
        Field '''' (CStruct [
          Field ''is_data'' typ_u8,
          Field ''padding'' typ_u8,
          Field ''prioidx'' typ_u16,
          Field ''classid'' typ_u32]),
        Field ''val'' typ_u64])]"

lemma struct_sock_cgroup_data_layout [layout_simps]:
  "csize struct_sock_cgroup_data = 8" "calign struct_sock_cgroup_data = 8" "wf_ctype struct_sock_cgroup_data"
  by (simp_all add: struct_sock_cgroup_data_def layout_simps cong: layout_cong)

definition struct_sock :: ctype where
  "struct_sock = CStruct [
      Field ''__sk_common'' struct_sock_common,
      Field ''sk_lock'' typ_socket_lock_t,
      Field ''sk_drops'' typ_atomic_t,
      Field ''sk_rcvlowat'' c_int,
      Field ''sk_error_queue'' struct_sk_buff_head,
      Field ''sk_rx_skb_cache'' CPtr,
      Field ''sk_receive_queue'' struct_sk_buff_head,
      Field ''sk_backlog'' (CStruct [
        Field ''rmem_alloc'' typ_atomic_t,
        Field ''len'' c_int,
        Field ''head'' CPtr,
        Field ''tail'' CPtr]),
      Field ''sk_forward_alloc'' c_int,
      Field ''sk_ll_usec'' c_uint,
      Field ''sk_napi_id'' c_uint,
      Field ''sk_rcvbuf'' c_int,
      Field ''sk_filter'' CPtr,
      Field '''' (CUnion [
        Field ''sk_wq'' CPtr,
        Field ''sk_wq_raw'' CPtr]),
      Field ''sk_policy'' (CArray 2 CPtr),
      Field ''sk_rx_dst'' CPtr,
      Field ''sk_dst_cache'' CPtr,
      Field ''sk_omem_alloc'' typ_atomic_t,
      Field ''sk_sndbuf'' c_int,
      Field ''sk_wmem_queued'' c_int,
      Field ''sk_wmem_alloc'' typ_refcount_t,
      Field ''sk_tsq_flags'' c_ulong,
      Field '''' (CUnion [
        Field ''sk_send_head'' CPtr,
        Field ''tcp_rtx_queue'' struct_rb_root]),
      Field ''sk_tx_skb_cache'' CPtr,
      Field ''sk_write_queue'' struct_sk_buff_head,
      Field ''sk_peek_off'' typ___s32,
      Field ''sk_write_pending'' c_int,
      Field ''sk_dst_pending_confirm'' typ___u32,
      Field ''sk_pacing_status'' typ_u32,
      Field ''sk_sndtimeo'' c_long,
      Field ''sk_timer'' struct_timer_list,
      Field ''sk_priority'' typ___u32,
      Field ''sk_mark'' typ___u32,
      Field ''sk_pacing_rate'' c_ulong,
      Field ''sk_max_pacing_rate'' c_ulong,
      Field ''sk_frag'' struct_page_frag,
      Field ''sk_route_caps'' typ_netdev_features_t,
      Field ''sk_route_nocaps'' typ_netdev_features_t,
      Field ''sk_route_forced_caps'' typ_netdev_features_t,
      Field ''sk_gso_type'' c_int,
      Field ''sk_gso_max_size'' c_uint,
      Field ''sk_allocation'' typ_gfp_t,
      Field ''sk_txhash'' typ___u32,
      BitField ''sk_padding'' typ_u8 1,
      BitField ''sk_kern_sock'' typ_u8 1,
      BitField ''sk_no_check_tx'' typ_u8 1,
      BitField ''sk_no_check_rx'' typ_u8 1,
      BitField ''sk_userlocks'' typ_u8 4,
      Field ''sk_pacing_shift'' typ_u8,
      Field ''sk_type'' typ_u16,
      Field ''sk_protocol'' typ_u16,
      Field ''sk_gso_max_segs'' typ_u16,
      Field ''sk_lingertime'' c_ulong,
      Field ''sk_prot_creator'' CPtr,
      Field ''sk_callback_lock'' typ_rwlock_t,
      Field ''sk_err'' c_int,
      Field ''sk_err_soft'' c_int,
      Field ''sk_ack_backlog'' typ_u32,
      Field ''sk_max_ack_backlog'' typ_u32,
      Field ''sk_uid'' typ_kuid_t,
      Field ''sk_peer_pid'' CPtr,
      Field ''sk_peer_cred'' CPtr,
      Field ''sk_rcvtimeo'' c_long,
      Field ''sk_stamp'' typ_ktime_t,
      Field ''sk_tsflags'' typ_u16,
      Field ''sk_shutdown'' typ_u8,
      Field ''sk_tskey'' typ_u32,
      Field ''sk_zckey'' typ_atomic_t,
      Field ''sk_clockid'' typ_u8,
      BitField ''sk_txtime_deadline_mode'' typ_u8 1,
      BitField ''sk_txtime_report_errors'' typ_u8 1,
      BitField ''sk_txtime_unused'' typ_u8 6,
      Field ''sk_socket'' CPtr,
      Field ''sk_user_data'' CPtr,
      Field ''sk_security'' CPtr,
      Field ''sk_cgrp_data'' struct_sock_cgroup_data,
      Field ''sk_memcg'' CPtr,
      Field ''sk_state_change'' CPtr,
      Field ''sk_data_ready'' CPtr,
      Field ''sk_write_space'' CPtr,
      Field ''sk_error_report'' CPtr,
      Field ''sk_backlog_rcv'' CPtr,
      Field ''sk_destruct'' CPtr,
      Field ''sk_reuseport_cb'' CPtr,
      Field ''sk_bpf_storage'' CPtr,
      Field ''sk_rcu'' struct_callback_head]"

lemma struct_sock_layout [layout_simps]:
  "csize struct_sock = 1200" "calign struct_sock = 8" "wf_ctype struct_sock"
  by (simp_all add: struct_sock_def layout_simps cong: layout_cong)

definition struct_iov_iter :: ctype where
  "struct_iov_iter = CStruct [
      Field ''iter_type'' typ_u8,
      Field ''nofault'' typ_bool,
      Field ''data_source'' typ_bool,
      Field ''user_backed'' typ_bool,
      Field '''' (CUnion [
        Field ''iov_offset'' typ_size_t,
        Field ''last_offset'' c_int]),
      Field ''count'' typ_size_t,
      Field '''' (CUnion [
        Field ''iov'' CPtr,
        Field ''kvec'' CPtr,
        Field ''bvec'' CPtr,
        Field ''xarray'' CPtr,
        Field ''pipe'' CPtr,
        Field ''ubuf'' CPtr]),
      Field '''' (CUnion [
        Field ''nr_segs'' c_ulong,
        Field '''' (CStruct [
          Field ''head'' c_uint,
          Field ''start_head'' c_uint]),
        Field ''xarray_start'' typ_loff_t])]"

lemma struct_iov_iter_layout [layout_simps]:
  "csize struct_iov_iter = 40" "calign struct_iov_iter = 8" "wf_ctype struct_iov_iter"
  by (simp_all add: struct_iov_iter_def layout_simps cong: layout_cong)

definition typ_sk_buff_data_t :: ctype where
  "typ_sk_buff_data_t = c_uint"

lemma typ_sk_buff_data_t_layout [layout_simps]:
  "csize typ_sk_buff_data_t = 4" "calign typ_sk_buff_data_t = 4" "wf_ctype typ_sk_buff_data_t"
  by (simp_all add: typ_sk_buff_data_t_def layout_simps cong: layout_cong)

definition struct_sk_buff :: ctype where
  "struct_sk_buff = CStruct [
      Field '''' (CUnion [
        Field '''' (CStruct [
          Field ''next'' CPtr,
          Field ''prev'' CPtr,
          Field '''' (CUnion [
            Field ''dev'' CPtr,
            Field ''dev_scratch'' c_ulong])]),
        Field ''rbnode'' struct_rb_node,
        Field ''list'' struct_list_head]),
      Field '''' (CUnion [
        Field ''sk'' CPtr,
        Field ''ip_defrag_offset'' c_int]),
      Field '''' (CUnion [
        Field ''tstamp'' typ_ktime_t,
        Field ''skb_mstamp_ns'' typ_u64]),
      Field ''cb'' (CArray 48 c_char),
      Field '''' (CUnion [
        Field '''' (CStruct [
          Field ''_skb_refdst'' c_ulong,
          Field ''destructor'' CPtr]),
        Field ''tcp_tsorted_anchor'' struct_list_head]),
      Field ''_nfct'' c_ulong,
      Field ''len'' c_uint,
      Field ''data_len'' c_uint,
      Field ''mac_len'' typ___u16,
      Field ''hdr_len'' typ___u16,
      Field ''queue_mapping'' typ___u16,
      Field ''__cloned_offset'' (CArray 0 typ___u8),
      BitField ''cloned'' typ___u8 1,
      BitField ''nohdr'' typ___u8 1,
      BitField ''fclone'' typ___u8 2,
      BitField ''peeked'' typ___u8 1,
      BitField ''head_frag'' typ___u8 1,
      BitField ''pfmemalloc'' typ___u8 1,
      Field ''active_extensions'' typ___u8,
      Field ''headers_start'' (CArray 0 typ___u32),
      Field ''__pkt_type_offset'' (CArray 0 typ___u8),
      BitField ''pkt_type'' typ___u8 3,
      BitField ''ignore_df'' typ___u8 1,
      BitField ''nf_trace'' typ___u8 1,
      BitField ''ip_summed'' typ___u8 2,
      BitField ''ooo_okay'' typ___u8 1,
      BitField ''l4_hash'' typ___u8 1,
      BitField ''sw_hash'' typ___u8 1,
      BitField ''wifi_acked_valid'' typ___u8 1,
      BitField ''wifi_acked'' typ___u8 1,
      BitField ''no_fcs'' typ___u8 1,
      BitField ''encapsulation'' typ___u8 1,
      BitField ''encap_hdr_csum'' typ___u8 1,
      BitField ''csum_valid'' typ___u8 1,
      Field ''__pkt_vlan_present_offset'' (CArray 0 typ___u8),
      BitField ''vlan_present'' typ___u8 1,
      BitField ''csum_complete_sw'' typ___u8 1,
      BitField ''csum_level'' typ___u8 2,
      BitField ''csum_not_inet'' typ___u8 1,
      BitField ''dst_pending_confirm'' typ___u8 1,
      BitField ''ndisc_nodetype'' typ___u8 2,
      BitField ''ipvs_property'' typ___u8 1,
      BitField ''inner_protocol_type'' typ___u8 1,
      BitField ''remcsum_offload'' typ___u8 1,
      BitField ''offload_fwd_mark'' typ___u8 1,
      BitField ''offload_l3_fwd_mark'' typ___u8 1,
      Field ''tc_index'' typ___u16,
      Field '''' (CUnion [
        Field ''csum'' typ___wsum,
        Field '''' (CStruct [
          Field ''csum_start'' typ___u16,
          Field ''csum_offset'' typ___u16])]),
      Field ''priority'' typ___u32,
      Field ''skb_iif'' c_int,
      Field ''hash'' typ___u32,
      Field ''vlan_proto'' typ___be16,
      Field ''vlan_tci'' typ___u16,
      Field '''' (CUnion [
        Field ''napi_id'' c_uint,
        Field ''sender_cpu'' c_uint]),
      Field '''' (CUnion [
        Field ''mark'' typ___u32,
        Field ''reserved_tailroom'' typ___u32]),
      Field '''' (CUnion [
        Field ''inner_protocol'' typ___be16,
        Field ''inner_ipproto'' typ___u8]),
      Field ''inner_transport_header'' typ___u16,
      Field ''inner_network_header'' typ___u16,
      Field ''inner_mac_header'' typ___u16,
      Field ''protocol'' typ___be16,
      Field ''transport_header'' typ___u16,
      Field ''network_header'' typ___u16,
      Field ''mac_header'' typ___u16,
      Field ''headers_end'' (CArray 0 typ___u32),
      Field ''tail'' typ_sk_buff_data_t,
      Field ''end'' typ_sk_buff_data_t,
      Field ''head'' CPtr,
      Field ''data'' CPtr,
      Field ''truesize'' c_uint,
      Field ''users'' typ_refcount_t,
      Field ''extensions'' CPtr]"

lemma struct_sk_buff_layout [layout_simps]:
  "csize struct_sk_buff = 224" "calign struct_sk_buff = 8" "wf_ctype struct_sk_buff"
  by (simp_all add: struct_sk_buff_def layout_simps cong: layout_cong)

definition typ_sa_family_t :: ctype where
  "typ_sa_family_t = typ___kernel_sa_family_t"

lemma typ_sa_family_t_layout [layout_simps]:
  "csize typ_sa_family_t = 2" "calign typ_sa_family_t = 2" "wf_ctype typ_sa_family_t"
  by (simp_all add: typ_sa_family_t_def layout_simps cong: layout_cong)

definition struct_sockaddr :: ctype where
  "struct_sockaddr = CStruct [
      Field ''sa_family'' typ_sa_family_t,
      Field ''sa_data'' (CArray 14 c_char)]"

lemma struct_sockaddr_layout [layout_simps]:
  "csize struct_sockaddr = 16" "calign struct_sockaddr = 2" "wf_ctype struct_sockaddr"
  by (simp_all add: struct_sockaddr_def layout_simps cong: layout_cong)

definition struct_msghdr :: ctype where
  "struct_msghdr = CStruct [
      Field ''msg_name'' CPtr,
      Field ''msg_namelen'' c_int,
      Field ''msg_iter'' struct_iov_iter,
      Field '''' (CUnion [
        Field ''msg_control'' CPtr,
        Field ''msg_control_user'' CPtr]),
      BitField ''msg_control_is_user'' typ_bool 1,
      Field ''msg_controllen'' typ___kernel_size_t,
      Field ''msg_flags'' c_uint,
      Field ''msg_iocb'' CPtr]"

lemma struct_msghdr_layout [layout_simps]:
  "csize struct_msghdr = 96" "calign struct_msghdr = 8" "wf_ctype struct_msghdr"
  by (simp_all add: struct_msghdr_def layout_simps cong: layout_cong)

definition struct_flowi_tunnel :: ctype where
  "struct_flowi_tunnel = CStruct [
      Field ''tun_id'' typ___be64]"

lemma struct_flowi_tunnel_layout [layout_simps]:
  "csize struct_flowi_tunnel = 8" "calign struct_flowi_tunnel = 8" "wf_ctype struct_flowi_tunnel"
  by (simp_all add: struct_flowi_tunnel_def layout_simps cong: layout_cong)

definition struct_flowi_common :: ctype where
  "struct_flowi_common = CStruct [
      Field ''flowic_oif'' c_int,
      Field ''flowic_iif'' c_int,
      Field ''flowic_mark'' typ___u32,
      Field ''flowic_tos'' typ___u8,
      Field ''flowic_scope'' typ___u8,
      Field ''flowic_proto'' typ___u8,
      Field ''flowic_flags'' typ___u8,
      Field ''flowic_secid'' typ___u32,
      Field ''flowic_uid'' typ_kuid_t,
      Field ''flowic_tun_key'' struct_flowi_tunnel,
      Field ''flowic_multipath_hash'' typ___u32]"

lemma struct_flowi_common_layout [layout_simps]:
  "csize struct_flowi_common = 40" "calign struct_flowi_common = 8" "wf_ctype struct_flowi_common"
  by (simp_all add: struct_flowi_common_def layout_simps cong: layout_cong)

definition union_flowi_uli :: ctype where
  "union_flowi_uli = CUnion [
      Field ''ports'' (CStruct [
        Field ''dport'' typ___be16,
        Field ''sport'' typ___be16]),
      Field ''icmpt'' (CStruct [
        Field ''type'' typ___u8,
        Field ''code'' typ___u8]),
      Field ''dnports'' (CStruct [
        Field ''dport'' typ___le16,
        Field ''sport'' typ___le16]),
      Field ''spi'' typ___be32,
      Field ''gre_key'' typ___be32,
      Field ''mht'' (CStruct [
        Field ''type'' typ___u8])]"

lemma union_flowi_uli_layout [layout_simps]:
  "csize union_flowi_uli = 4" "calign union_flowi_uli = 4" "wf_ctype union_flowi_uli"
  by (simp_all add: union_flowi_uli_def layout_simps cong: layout_cong)

definition struct_flowi6 :: ctype where
  "struct_flowi6 = CStruct [
      Field ''__fl_common'' struct_flowi_common,
      Field ''daddr'' struct_in6_addr,
      Field ''saddr'' struct_in6_addr,
      Field ''flowlabel'' typ___be32,
      Field ''uli'' union_flowi_uli,
      Field ''mp_hash'' typ___u32]"

lemma struct_flowi6_layout [layout_simps]:
  "csize struct_flowi6 = 88" "calign struct_flowi6 = 8" "wf_ctype struct_flowi6"
  by (simp_all add: struct_flowi6_def layout_simps cong: layout_cong)

definition enum_tcp_states :: ctype where
  "enum_tcp_states = CEnum [
      (''TCP_ESTABLISHED'', 1),
      (''TCP_SYN_SENT'', 2),
      (''TCP_SYN_RECV'', 3),
      (''TCP_FIN_WAIT1'', 4),
      (''TCP_FIN_WAIT2'', 5),
      (''TCP_TIME_WAIT'', 6),
      (''TCP_CLOSE'', 7),
      (''TCP_CLOSE_WAIT'', 8),
      (''TCP_LAST_ACK'', 9),
      (''TCP_LISTEN'', 10),
      (''TCP_CLOSING'', 11),
      (''TCP_NEW_SYN_RECV'', 12),
      (''TCP_MAX_STATES'', 13)]"

lemma enum_tcp_states_layout [layout_simps]:
  "csize enum_tcp_states = 4" "calign enum_tcp_states = 4" "wf_ctype enum_tcp_states"
  by (simp_all add: enum_tcp_states_def layout_simps cong: layout_cong)

definition struct_request_sock :: ctype where
  "struct_request_sock = CStruct [
      Field ''__req_common'' struct_sock_common,
      Field ''dl_next'' CPtr,
      Field ''mss'' typ_u16,
      Field ''num_retrans'' typ_u8,
      BitField ''cookie_ts'' typ_u8 1,
      BitField ''num_timeout'' typ_u8 7,
      Field ''ts_recent'' typ_u32,
      Field ''rsk_timer'' struct_timer_list,
      Field ''rsk_ops'' CPtr,
      Field ''sk'' CPtr,
      Field ''saved_syn'' CPtr,
      Field ''secid'' typ_u32,
      Field ''peer_secid'' typ_u32]"

lemma struct_request_sock_layout [layout_simps]:
  "csize struct_request_sock = 264" "calign struct_request_sock = 8" "wf_ctype struct_request_sock"
  by (simp_all add: struct_request_sock_def layout_simps cong: layout_cong)

definition struct_trace_event_raw_sys_enter :: ctype where
  "struct_trace_event_raw_sys_enter = CStruct [
      Field ''ent'' struct_trace_entry,
      Field ''id'' c_long,
      Field ''args'' (CArray 6 c_ulong),
      Field ''__data'' (CArray 0 c_char)]"

lemma struct_trace_event_raw_sys_enter_layout [layout_simps]:
  "csize struct_trace_event_raw_sys_enter = 64" "calign struct_trace_event_raw_sys_enter = 8" "wf_ctype struct_trace_event_raw_sys_enter"
  by (simp_all add: struct_trace_event_raw_sys_enter_def layout_simps cong: layout_cong)

definition enum_bpf_update_flags :: ctype where
  "enum_bpf_update_flags = CEnum [
      (''BPF_ANY'', 0),
      (''BPF_NOEXIST'', 1),
      (''BPF_EXIST'', 2),
      (''BPF_F_LOCK'', 4)]"

lemma enum_bpf_update_flags_layout [layout_simps]:
  "csize enum_bpf_update_flags = 4" "calign enum_bpf_update_flags = 4" "wf_ctype enum_bpf_update_flags"
  by (simp_all add: enum_bpf_update_flags_def layout_simps cong: layout_cong)

definition struct_flowi4 :: ctype where
  "struct_flowi4 = CStruct [
      Field ''__fl_common'' struct_flowi_common,
      Field ''saddr'' typ___be32,
      Field ''daddr'' typ___be32,
      Field ''uli'' union_flowi_uli]"

lemma struct_flowi4_layout [layout_simps]:
  "csize struct_flowi4 = 56" "calign struct_flowi4 = 8" "wf_ctype struct_flowi4"
  by (simp_all add: struct_flowi4_def layout_simps cong: layout_cong)

definition struct_flowidn :: ctype where
  "struct_flowidn = CStruct [
      Field ''__fl_common'' struct_flowi_common,
      Field ''daddr'' typ___le16,
      Field ''saddr'' typ___le16,
      Field ''uli'' union_flowi_uli]"

lemma struct_flowidn_layout [layout_simps]:
  "csize struct_flowidn = 48" "calign struct_flowidn = 8" "wf_ctype struct_flowidn"
  by (simp_all add: struct_flowidn_def layout_simps cong: layout_cong)

definition struct_flowi :: ctype where
  "struct_flowi = CStruct [
      Field ''u'' (CUnion [
        Field ''__fl_common'' struct_flowi_common,
        Field ''ip4'' struct_flowi4,
        Field ''ip6'' struct_flowi6,
        Field ''dn'' struct_flowidn])]"

lemma struct_flowi_layout [layout_simps]:
  "csize struct_flowi = 88" "calign struct_flowi = 8" "wf_ctype struct_flowi"
  by (simp_all add: struct_flowi_def layout_simps cong: layout_cong)

definition struct_inet_cork :: ctype where
  "struct_inet_cork = CStruct [
      Field ''flags'' c_uint,
      Field ''addr'' typ___be32,
      Field ''opt'' CPtr,
      Field ''fragsize'' c_uint,
      Field ''length'' c_int,
      Field ''dst'' CPtr,
      Field ''tx_flags'' typ_u8,
      Field ''ttl'' typ___u8,
      Field ''tos'' typ___s16,
      Field ''priority'' c_char,
      Field ''gso_size'' typ___u16,
      Field ''transmit_time'' typ_u64,
      Field ''mark'' typ_u32]"

lemma struct_inet_cork_layout [layout_simps]:
  "csize struct_inet_cork = 56" "calign struct_inet_cork = 8" "wf_ctype struct_inet_cork"
  by (simp_all add: struct_inet_cork_def layout_simps cong: layout_cong)

definition struct_inet_cork_full :: ctype where
  "struct_inet_cork_full = CStruct [
      Field ''base'' struct_inet_cork,
      Field ''fl'' struct_flowi]"

lemma struct_inet_cork_full_layout [layout_simps]:
  "csize struct_inet_cork_full = 144" "calign struct_inet_cork_full = 8" "wf_ctype struct_inet_cork_full"
  by (simp_all add: struct_inet_cork_full_def layout_simps cong: layout_cong)

definition struct_inet_sock :: ctype where
  "struct_inet_sock = CStruct [
      Field ''sk'' struct_sock,
      Field ''pinet6'' CPtr,
      Field ''inet_saddr'' typ___be32,
      Field ''uc_ttl'' typ___s16,
      Field ''cmsg_flags'' typ___u16,
      Field ''inet_sport'' typ___be16,
      Field ''inet_id'' typ___u16,
      Field ''inet_opt'' CPtr,
      Field ''rx_dst_ifindex'' c_int,
      Field ''tos'' typ___u8,
      Field ''min_ttl'' typ___u8,
      Field ''mc_ttl'' typ___u8,
      Field ''pmtudisc'' typ___u8,
      BitField ''recverr'' typ___u8 1,
      BitField ''is_icsk'' typ___u8 1,
      BitField ''freebind'' typ___u8 1,
      BitField ''hdrincl'' typ___u8 1,
      BitField ''mc_loop'' typ___u8 1,
      BitField ''transparent'' typ___u8 1,
      BitField ''mc_all'' typ___u8 1,
      BitField ''nodefrag'' typ___u8 1,
      BitField ''bind_address_no_port'' typ___u8 1,
      BitField ''defer_connect'' typ___u8 1,
      Field ''rcv_tos'' typ___u8,
      Field ''convert_csum'' typ___u8,
      Field ''uc_index'' c_int,
      Field ''mc_index'' c_int,
      Field ''mc_addr'' typ___be32,
      Field ''mc_list'' CPtr,
      Field ''cork'' struct_inet_cork_full]"

lemma struct_inet_sock_layout [layout_simps]:
  "csize struct_inet_sock = 1408" "calign struct_inet_sock = 8" "wf_ctype struct_inet_sock"
  by (simp_all add: struct_inet_sock_def layout_simps cong: layout_cong)

definition struct_minmax_sample :: ctype where
  "struct_minmax_sample = CStruct [
      Field ''t'' typ_u32,
      Field ''v'' typ_u32]"

lemma struct_minmax_sample_layout [layout_simps]:
  "csize struct_minmax_sample = 8" "calign struct_minmax_sample = 4" "wf_ctype struct_minmax_sample"
  by (simp_all add: struct_minmax_sample_def layout_simps cong: layout_cong)

definition struct_minmax :: ctype where
  "struct_minmax = CStruct [
      Field ''s'' (CArray 3 struct_minmax_sample)]"

lemma struct_minmax_layout [layout_simps]:
  "csize struct_minmax = 24" "calign struct_minmax = 4" "wf_ctype struct_minmax"
  by (simp_all add: struct_minmax_def layout_simps cong: layout_cong)

definition struct_fastopen_queue :: ctype where
  "struct_fastopen_queue = CStruct [
      Field ''rskq_rst_head'' CPtr,
      Field ''rskq_rst_tail'' CPtr,
      Field ''lock'' typ_spinlock_t,
      Field ''qlen'' c_int,
      Field ''max_qlen'' c_int,
      Field ''ctx'' CPtr]"

lemma struct_fastopen_queue_layout [layout_simps]:
  "csize struct_fastopen_queue = 96" "calign struct_fastopen_queue = 8" "wf_ctype struct_fastopen_queue"
  by (simp_all add: struct_fastopen_queue_def layout_simps cong: layout_cong)

definition struct_request_sock_queue :: ctype where
  "struct_request_sock_queue = CStruct [
      Field ''rskq_lock'' typ_spinlock_t,
      Field ''rskq_defer_accept'' typ_u8,
      Field ''synflood_warned'' typ_u32,
      Field ''qlen'' typ_atomic_t,
      Field ''young'' typ_atomic_t,
      Field ''rskq_accept_head'' CPtr,
      Field ''rskq_accept_tail'' CPtr,
      Field ''fastopenq'' struct_fastopen_queue]"

lemma struct_request_sock_queue_layout [layout_simps]:
  "csize struct_request_sock_queue = 192" "calign struct_request_sock_queue = 8" "wf_ctype struct_request_sock_queue"
  by (simp_all add: struct_request_sock_queue_def layout_simps cong: layout_cong)

definition struct_inet_connection_sock :: ctype where
  "struct_inet_connection_sock = CStruct [
      Field ''icsk_inet'' struct_inet_sock,
      Field ''icsk_accept_queue'' struct_request_sock_queue,
      Field ''icsk_bind_hash'' CPtr,
      Field ''icsk_timeout'' c_ulong,
      Field ''icsk_retransmit_timer'' struct_timer_list,
      Field ''icsk_delack_timer'' struct_timer_list,
      Field ''icsk_rto'' typ___u32,
      Field ''icsk_pmtu_cookie'' typ___u32,
      Field ''icsk_ca_ops'' CPtr,
      Field ''icsk_af_ops'' CPtr,
      Field ''icsk_ulp_ops'' CPtr,
      Field ''icsk_ulp_data'' CPtr,
      Field ''icsk_clean_acked'' CPtr,
      Field ''icsk_listen_portaddr_node'' struct_hlist_node,
      Field ''icsk_sync_mss'' CPtr,
      BitField ''icsk_ca_state'' typ___u8 6,
      BitField ''icsk_ca_setsockopt'' typ___u8 1,
      BitField ''icsk_ca_dst_locked'' typ___u8 1,
      Field ''icsk_retransmits'' typ___u8,
      Field ''icsk_pending'' typ___u8,
      Field ''icsk_backoff'' typ___u8,
      Field ''icsk_syn_retries'' typ___u8,
      Field ''icsk_probes_out'' typ___u8,
      Field ''icsk_ext_hdr_len'' typ___u16,
      Field ''icsk_ack'' (CStruct [
        Field ''pending'' typ___u8,
        Field ''quick'' typ___u8,
        Field ''pingpong'' typ___u8,
        Field ''blocked'' typ___u8,
        Field ''ato'' typ___u32,
        Field ''timeout'' c_ulong,
        Field ''lrcvtime'' typ___u32,
        Field ''last_seg_size'' typ___u16,
        Field ''rcv_mss'' typ___u16]),
      Field ''icsk_mtup'' (CStruct [
        Field ''enabled'' c_int,
        Field ''search_high'' c_int,
        Field ''search_low'' c_int,
        Field ''probe_size'' c_int,
        Field ''probe_timestamp'' typ_u32]),
      Field ''icsk_user_timeout'' typ_u32,
      Field ''icsk_ca_priv'' (CArray 13 typ_u64)]"

lemma struct_inet_connection_sock_layout [layout_simps]:
  "csize struct_inet_connection_sock = 2008" "calign struct_inet_connection_sock = 8" "wf_ctype struct_inet_connection_sock"
  by (simp_all add: struct_inet_connection_sock_def layout_simps cong: layout_cong)

definition struct_tcp_sack_block :: ctype where
  "struct_tcp_sack_block = CStruct [
      Field ''start_seq'' typ_u32,
      Field ''end_seq'' typ_u32]"

lemma struct_tcp_sack_block_layout [layout_simps]:
  "csize struct_tcp_sack_block = 8" "calign struct_tcp_sack_block = 4" "wf_ctype struct_tcp_sack_block"
  by (simp_all add: struct_tcp_sack_block_def layout_simps cong: layout_cong)

definition struct_tcp_options_received :: ctype where
  "struct_tcp_options_received = CStruct [
      Field ''ts_recent_stamp'' c_int,
      Field ''ts_recent'' typ_u32,
      Field ''rcv_tsval'' typ_u32,
      Field ''rcv_tsecr'' typ_u32,
      BitField ''saw_tstamp'' typ_u16 1,
      BitField ''tstamp_ok'' typ_u16 1,
      BitField ''dsack'' typ_u16 1,
      BitField ''wscale_ok'' typ_u16 1,
      BitField ''sack_ok'' typ_u16 3,
      BitField ''smc_ok'' typ_u16 1,
      BitField ''snd_wscale'' typ_u16 4,
      BitField ''rcv_wscale'' typ_u16 4,
      Field ''num_sacks'' typ_u8,
      Field ''user_mss'' typ_u16,
      Field ''mss_clamp'' typ_u16]"

lemma struct_tcp_options_received_layout [layout_simps]:
  "csize struct_tcp_options_received = 24" "calign struct_tcp_options_received = 4" "wf_ctype struct_tcp_options_received"
  by (simp_all add: struct_tcp_options_received_def layout_simps cong: layout_cong)

definition struct_tcp_rack :: ctype where
  "struct_tcp_rack = CStruct [
      Field ''mstamp'' typ_u64,
      Field ''rtt_us'' typ_u32,
      Field ''end_seq'' typ_u32,
      Field ''last_delivered'' typ_u32,
      Field ''reo_wnd_steps'' typ_u8,
      BitField ''reo_wnd_persist'' typ_u8 5,
      BitField ''dsack_seen'' typ_u8 1,
      BitField ''advanced'' typ_u8 1]"

lemma struct_tcp_rack_layout [layout_simps]:
  "csize struct_tcp_rack = 24" "calign struct_tcp_rack = 8" "wf_ctype struct_tcp_rack"
  by (simp_all add: struct_tcp_rack_def layout_simps cong: layout_cong)

definition struct_tcp_sock :: ctype where
  "struct_tcp_sock = CStruct [
      Field ''inet_conn'' struct_inet_connection_sock,
      Field ''tcp_header_len'' typ_u16,
      Field ''gso_segs'' typ_u16,
      Field ''pred_flags'' typ___be32,
      Field ''bytes_received'' typ_u64,
      Field ''segs_in'' typ_u32,
      Field ''data_segs_in'' typ_u32,
      Field ''rcv_nxt'' typ_u32,
      Field ''copied_seq'' typ_u32,
      Field ''rcv_wup'' typ_u32,
      Field ''snd_nxt'' typ_u32,
      Field ''segs_out'' typ_u32,
      Field ''data_segs_out'' typ_u32,
      Field ''bytes_sent'' typ_u64,
      Field ''bytes_acked'' typ_u64,
      Field ''dsack_dups'' typ_u32,
      Field ''snd_una'' typ_u32,
      Field ''snd_sml'' typ_u32,
      Field ''rcv_tstamp'' typ_u32,
      Field ''lsndtime'' typ_u32,
      Field ''last_oow_ack_time'' typ_u32,
      Field ''compressed_ack_rcv_nxt'' typ_u32,
      Field ''tsoffset'' typ_u32,
      Field ''tsq_node'' struct_list_head,
      Field ''tsorted_sent_queue'' struct_list_head,
      Field ''snd_wl1'' typ_u32,
      Field ''snd_wnd'' typ_u32,
      Field ''max_window'' typ_u32,
      Field ''mss_cache'' typ_u32,
      Field ''window_clamp'' typ_u32,
      Field ''rcv_ssthresh'' typ_u32,
      Field ''rack'' struct_tcp_rack,
      Field ''advmss'' typ_u16,
      Field ''compressed_ack'' typ_u8,
      Field ''dup_ack_counter'' typ_u8,
      Field ''chrono_start'' typ_u32,
      Field ''chrono_stat'' (CArray 3 typ_u32),
      BitField ''chrono_type'' typ_u8 2,
      BitField ''rate_app_limited'' typ_u8 1,
      BitField ''fastopen_connect'' typ_u8 1,
      BitField ''fastopen_no_cookie'' typ_u8 1,
      BitField ''is_sack_reneg'' typ_u8 1,
      BitField ''fastopen_client_fail'' typ_u8 2,
      BitField ''nonagle'' typ_u8 4,
      BitField ''thin_lto'' typ_u8 1,
      BitField ''recvmsg_inq'' typ_u8 1,
      BitField ''repair'' typ_u8 1,
      BitField ''frto'' typ_u8 1,
      Field ''repair_queue'' typ_u8,
      BitField ''syn_data'' typ_u8 1,
      BitField ''syn_fastopen'' typ_u8 1,
      BitField ''syn_fastopen_exp'' typ_u8 1,
      BitField ''syn_fastopen_ch'' typ_u8 1,
      BitField ''syn_data_acked'' typ_u8 1,
      BitField ''save_syn'' typ_u8 1,
      BitField ''is_cwnd_limited'' typ_u8 1,
      BitField ''syn_smc'' typ_u8 1,
      Field ''tlp_high_seq'' typ_u32,
      Field ''tcp_tx_delay'' typ_u32,
      Field ''tcp_wstamp_ns'' typ_u64,
      Field ''tcp_clock_cache'' typ_u64,
      Field ''tcp_mstamp'' typ_u64,
      Field ''srtt_us'' typ_u32,
      Field ''mdev_us'' typ_u32,
      Field ''mdev_max_us'' typ_u32,
      Field ''rttvar_us'' typ_u32,
      Field ''rtt_seq'' typ_u32,
      Field ''rtt_min'' struct_minmax,
      Field ''packets_out'' typ_u32,
      Field ''retrans_out'' typ_u32,
      Field ''max_packets_out'' typ_u32,
      Field ''max_packets_seq'' typ_u32,
      Field ''urg_data'' typ_u16,
      Field ''ecn_flags'' typ_u8,
      Field ''keepalive_probes'' typ_u8,
      Field ''reordering'' typ_u32,
      Field ''reord_seen'' typ_u32,
      Field ''snd_up'' typ_u32,
      Field ''rx_opt'' struct_tcp_options_received,
      Field ''snd_ssthresh'' typ_u32,
      Field ''snd_cwnd'' typ_u32,
      Field ''snd_cwnd_cnt'' typ_u32,
      Field ''snd_cwnd_clamp'' typ_u32,
      Field ''snd_cwnd_used'' typ_u32,
      Field ''snd_cwnd_stamp'' typ_u32,
      Field ''prior_cwnd'' typ_u32,
      Field ''prr_delivered'' typ_u32,
      Field ''prr_out'' typ_u32,
      Field ''delivered'' typ_u32,
      Field ''delivered_ce'' typ_u32,
      Field ''lost'' typ_u32,
      Field ''app_limited'' typ_u32,
      Field ''first_tx_mstamp'' typ_u64,
      Field ''delivered_mstamp'' typ_u64,
      Field ''rate_delivered'' typ_u32,
      Field ''rate_interval_us'' typ_u32,
      Field ''rcv_wnd'' typ_u32,
      Field ''write_seq'' typ_u32,
      Field ''notsent_lowat'' typ_u32,
      Field ''pushed_seq'' typ_u32,
      Field ''lost_out'' typ_u32,
      Field ''sacked_out'' typ_u32,
      Field ''pacing_timer'' struct_hrtimer,
      Field ''compressed_ack_timer'' struct_hrtimer,
      Field ''lost_skb_hint'' CPtr,
      Field ''retransmit_skb_hint'' CPtr,
      Field ''out_of_order_queue'' struct_rb_root,
      Field ''ooo_last_skb'' CPtr,
      Field ''duplicate_sack'' (CArray 1 struct_tcp_sack_block),
      Field ''selective_acks'' (CArray 4 struct_tcp_sack_block),
      Field ''recv_sack_cache'' (CArray 4 struct_tcp_sack_block),
      Field ''highest_sack'' CPtr,
      Field ''lost_cnt_hint'' c_int,
      Field ''prior_ssthresh'' typ_u32,
      Field ''high_seq'' typ_u32,
      Field ''retrans_stamp'' typ_u32,
      Field ''undo_marker'' typ_u32,
      Field ''undo_retrans'' c_int,
      Field ''bytes_retrans'' typ_u64,
      Field ''total_retrans'' typ_u32,
      Field ''urg_seq'' typ_u32,
      Field ''keepalive_time'' c_uint,
      Field ''keepalive_intvl'' c_uint,
      Field ''linger2'' c_int,
      Field ''bpf_sock_ops_cb_flags'' typ_u8,
      Field ''timeout_rehash'' typ_u16,
      Field ''rcv_ooopack'' typ_u32,
      Field ''rcv_rtt_last_tsecr'' typ_u32,
      Field ''rcv_rtt_est'' (CStruct [
        Field ''rtt_us'' typ_u32,
        Field ''seq'' typ_u32,
        Field ''time'' typ_u64]),
      Field ''rcvq_space'' (CStruct [
        Field ''space'' typ_u32,
        Field ''seq'' typ_u32,
        Field ''time'' typ_u64]),
      Field ''mtu_probe'' (CStruct [
        Field ''probe_seq_start'' typ_u32,
        Field ''probe_seq_end'' typ_u32]),
      Field ''mtu_info'' typ_u32,
      Field ''af_specific'' CPtr,
      Field ''md5sig_info'' CPtr,
      Field ''fastopen_req'' CPtr,
      Field ''fastopen_rsk'' CPtr,
      Field ''saved_syn'' CPtr]"

lemma struct_tcp_sock_layout [layout_simps]:
  "csize struct_tcp_sock = 2832" "calign struct_tcp_sock = 8" "wf_ctype struct_tcp_sock"
  by (simp_all add: struct_tcp_sock_def layout_simps cong: layout_cong)

definition struct_inet_request_sock :: ctype where
  "struct_inet_request_sock = CStruct [
      Field ''req'' struct_request_sock,
      BitField ''snd_wscale'' typ_u16 4,
      BitField ''rcv_wscale'' typ_u16 4,
      BitField ''tstamp_ok'' typ_u16 1,
      BitField ''sack_ok'' typ_u16 1,
      BitField ''wscale_ok'' typ_u16 1,
      BitField ''ecn_ok'' typ_u16 1,
      BitField ''acked'' typ_u16 1,
      BitField ''no_srccheck'' typ_u16 1,
      BitField ''smc_ok'' typ_u16 1,
      Field ''ir_mark'' typ_u32,
      Field '''' (CUnion [
        Field ''ireq_opt'' CPtr,
        Field '''' (CStruct [
          Field ''ipv6_opt'' CPtr,
          Field ''pktopts'' CPtr])])]"

lemma struct_inet_request_sock_layout [layout_simps]:
  "csize struct_inet_request_sock = 288" "calign struct_inet_request_sock = 8" "wf_ctype struct_inet_request_sock"
  by (simp_all add: struct_inet_request_sock_def layout_simps cong: layout_cong)

definition struct_tcp_request_sock :: ctype where
  "struct_tcp_request_sock = CStruct [
      Field ''req'' struct_inet_request_sock,
      Field ''af_specific'' CPtr,
      Field ''snt_synack'' typ_u64,
      Field ''tfo_listener'' typ_bool,
      Field ''is_mptcp'' typ_bool,
      Field ''txhash'' typ_u32,
      Field ''rcv_isn'' typ_u32,
      Field ''snt_isn'' typ_u32,
      Field ''ts_off'' typ_u32,
      Field ''last_oow_ack_time'' typ_u32,
      Field ''rcv_nxt'' typ_u32]"

lemma struct_tcp_request_sock_layout [layout_simps]:
  "csize struct_tcp_request_sock = 336" "calign struct_tcp_request_sock = 8" "wf_ctype struct_tcp_request_sock"
  by (simp_all add: struct_tcp_request_sock_def layout_simps cong: layout_cong)

definition struct_inet_timewait_sock :: ctype where
  "struct_inet_timewait_sock = CStruct [
      Field ''__tw_common'' struct_sock_common,
      Field ''tw_mark'' typ___u32,
      Field ''tw_substate'' c_uchar,
      Field ''tw_rcv_wscale'' c_uchar,
      Field ''tw_sport'' typ___be16,
      BitField ''tw_kill'' c_uint 1,
      BitField ''tw_transparent'' c_uint 1,
      BitField ''tw_flowlabel'' c_uint 20,
      BitField ''tw_pad'' c_uint 2,
      BitField ''tw_tos'' c_uint 8,
      Field ''tw_txhash'' typ_u32,
      Field ''tw_priority'' typ_u32,
      Field ''tw_timer'' struct_timer_list,
      Field ''tw_tb'' CPtr]"

lemma struct_inet_timewait_sock_layout [layout_simps]:
  "csize struct_inet_timewait_sock = 248" "calign struct_inet_timewait_sock = 8" "wf_ctype struct_inet_timewait_sock"
  by (simp_all add: struct_inet_timewait_sock_def layout_simps cong: layout_cong)

definition struct_tcp_timewait_sock :: ctype where
  "struct_tcp_timewait_sock = CStruct [
      Field ''tw_sk'' struct_inet_timewait_sock,
      Field ''tw_rcv_wnd'' typ_u32,
      Field ''tw_ts_offset'' typ_u32,
      Field ''tw_ts_recent'' typ_u32,
      Field ''tw_last_oow_ack_time'' typ_u32,
      Field ''tw_ts_recent_stamp'' c_int,
      Field ''tw_tx_delay'' typ_u32,
      Field ''tw_md5_key'' CPtr]"

lemma struct_tcp_timewait_sock_layout [layout_simps]:
  "csize struct_tcp_timewait_sock = 280" "calign struct_tcp_timewait_sock = 8" "wf_ctype struct_tcp_timewait_sock"
  by (simp_all add: struct_tcp_timewait_sock_def layout_simps cong: layout_cong)

definition struct_icmp_filter :: ctype where
  "struct_icmp_filter = CStruct [
      Field ''data'' typ___u32]"

lemma struct_icmp_filter_layout [layout_simps]:
  "csize struct_icmp_filter = 4" "calign struct_icmp_filter = 4" "wf_ctype struct_icmp_filter"
  by (simp_all add: struct_icmp_filter_def layout_simps cong: layout_cong)

definition struct_raw_sock :: ctype where
  "struct_raw_sock = CStruct [
      Field ''inet'' struct_inet_sock,
      Field ''filter'' struct_icmp_filter,
      Field ''ipmr_table'' typ_u32]"

lemma struct_raw_sock_layout [layout_simps]:
  "csize struct_raw_sock = 1416" "calign struct_raw_sock = 8" "wf_ctype struct_raw_sock"
  by (simp_all add: struct_raw_sock_def layout_simps cong: layout_cong)

definition struct_udp_sock :: ctype where
  "struct_udp_sock = CStruct [
      Field ''inet'' struct_inet_sock,
      Field ''pending'' c_int,
      Field ''corkflag'' c_uint,
      Field ''encap_type'' typ___u8,
      BitField ''no_check6_tx'' c_uchar 1,
      BitField ''no_check6_rx'' c_uchar 1,
      BitField ''encap_enabled'' c_uchar 1,
      BitField ''gro_enabled'' c_uchar 1,
      Field ''len'' typ___u16,
      Field ''gso_size'' typ___u16,
      Field ''pcslen'' typ___u16,
      Field ''pcrlen'' typ___u16,
      Field ''pcflag'' typ___u8,
      Field ''unused'' (CArray 3 typ___u8),
      Field ''encap_rcv'' CPtr,
      Field ''encap_err_lookup'' CPtr,
      Field ''encap_destroy'' CPtr,
      Field ''gro_receive'' CPtr,
      Field ''gro_complete'' CPtr,
      Field ''reader_queue'' struct_sk_buff_head,
      Field ''forward_deficit'' c_int,
      BitField '''' c_long 32,
      BitField '''' c_long 64,
      BitField '''' c_long 64,
      BitField '''' c_long 64,
      BitField '''' c_long 64]"

lemma struct_udp_sock_layout [layout_simps]:
  "csize struct_udp_sock = 1600" "calign struct_udp_sock = 8" "wf_ctype struct_udp_sock"
  by (simp_all add: struct_udp_sock_def layout_simps cong: layout_cong)

end
