(* ===== verification/Kmem.thy ===== *)
theory Kmem
  imports Vmlinux_Task Vmlinux_Net Vmlinux_Sock
begin

text \<open>
  Kernel memory as the probes see it.  A probe never dereferences a kernel pointer: every
  read goes through \<^verbatim>\<open>bpf_probe_read_kernel\<close>, which copies the bytes or, when an address
  faults, fills the destination with zeros.  \<^verbatim>\<open>BPF_CORE_READ\<close> and \<^verbatim>\<open>BPF_CORE_READ_INTO\<close>
  (libbpf) chain such reads; the offsets in their access paths are relocated at load time to
  the layout of the running kernel, so they are a parameter \<open>core_offs\<close> of the model, with the
  offsets of \<^verbatim>\<open>vmlinux.h\<close> as the instance the compiler used.  Members of the local copy
  \<^verbatim>\<open>struct sock_common skc\<close> are plain C accesses: they keep the offsets of \<^verbatim>\<open>vmlinux.h\<close>.
\<close>

type_synonym kmem = "u64 \<Rightarrow> u8 option"

definition probe_read :: "kmem \<Rightarrow> u64 \<Rightarrow> nat \<Rightarrow> bytes" where
  "probe_read m a n =
     (let bs = map (\<lambda>i. m (a + word_of_nat i)) [0..<n]
      in if None \<in> set bs then replicate n 0 else map the bs)"

record core_offs =
  off_sk_common :: nat     \<comment> \<open>\<^verbatim>\<open>sock.__sk_common\<close>\<close>
  off_skc_net :: nat       \<comment> \<open>\<^verbatim>\<open>sock.__sk_common.skc_net.net\<close>\<close>
  off_skc_state :: nat     \<comment> \<open>\<^verbatim>\<open>sock.__sk_common.skc_state\<close>\<close>
  off_ns_inum :: nat       \<comment> \<open>\<^verbatim>\<open>net.ns.inum\<close>\<close>
  off_nsproxy :: nat       \<comment> \<open>\<^verbatim>\<open>task_struct.nsproxy\<close>\<close>
  off_net_ns :: nat        \<comment> \<open>\<^verbatim>\<open>nsproxy.net_ns\<close>\<close>

definition vmlinux_offs :: core_offs where
  "vmlinux_offs = \<lparr>
     off_sk_common = the (offsetof struct_sock [''__sk_common'']),
     off_skc_net = the (offsetof struct_sock [''__sk_common'', ''skc_net'', ''net'']),
     off_skc_state = the (offsetof struct_sock [''__sk_common'', ''skc_state'']),
     off_ns_inum = the (offsetof struct_net [''ns'', ''inum'']),
     off_nsproxy = the (offsetof struct_task_struct [''nsproxy'']),
     off_net_ns = the (offsetof struct_nsproxy [''net_ns''])\<rparr>"

text \<open>The members of \<^verbatim>\<open>struct sock_common\<close> that the programs use.\<close>

record sock_common =
  skc_daddr :: u32
  skc_rcv_saddr :: u32
  skc_dport :: u16
  skc_num :: u16
  skc_family :: u16
  skc_state :: u8

definition sock_common_of_bytes :: "bytes \<Rightarrow> sock_common" where
  "sock_common_of_bytes bs = \<lparr>
     skc_daddr = dec32 (field_off struct_sock_common ''skc_daddr'') bs,
     skc_rcv_saddr = dec32 (field_off struct_sock_common ''skc_rcv_saddr'') bs,
     skc_dport = dec16 (field_off struct_sock_common ''skc_dport'') bs,
     skc_num = dec16 (field_off struct_sock_common ''skc_num'') bs,
     skc_family = dec16 (field_off struct_sock_common ''skc_family'') bs,
     skc_state = dec8 (field_off struct_sock_common ''skc_state'') bs\<rparr>"

text \<open>\<^verbatim>\<open>BPF_CORE_READ_INTO(&skc, sk, __sk_common)\<close>\<close>

definition read_sock_common :: "core_offs \<Rightarrow> kmem \<Rightarrow> u64 \<Rightarrow> sock_common" where
  "read_sock_common K m sk =
     sock_common_of_bytes (probe_read m (sk + word_of_nat (off_sk_common K)) (csize struct_sock_common))"

text \<open>\<^verbatim>\<open>BPF_CORE_READ(sk, __sk_common.skc_state)\<close>\<close>

definition read_skc_state :: "core_offs \<Rightarrow> kmem \<Rightarrow> u64 \<Rightarrow> u8" where
  "read_skc_state K m sk = dec8 0 (probe_read m (sk + word_of_nat (off_skc_state K)) 1)"

text \<open>A pointer member: eight bytes.\<close>

definition read_ptr :: "kmem \<Rightarrow> u64 \<Rightarrow> nat \<Rightarrow> u64" where
  "read_ptr m p off = dec64 0 (probe_read m (p + word_of_nat off) 8)"

text \<open>\<^verbatim>\<open>BPF_CORE_READ_INTO(&net_ns_inum, sk, __sk_common.skc_net.net, ns.inum)\<close>\<close>

definition read_sk_inum :: "core_offs \<Rightarrow> kmem \<Rightarrow> u64 \<Rightarrow> u32" where
  "read_sk_inum K m sk =
     dec32 0 (probe_read m (read_ptr m sk (off_skc_net K) + word_of_nat (off_ns_inum K)) 4)"

text \<open>\<^verbatim>\<open>BPF_CORE_READ(task, nsproxy, net_ns, ns.inum)\<close>\<close>

definition read_task_inum :: "core_offs \<Rightarrow> kmem \<Rightarrow> u64 \<Rightarrow> u32" where
  "read_task_inum K m task =
     (let nsproxy = read_ptr m task (off_nsproxy K);
          net_ns = read_ptr m nsproxy (off_net_ns K)
      in dec32 0 (probe_read m (net_ns + word_of_nat (off_ns_inum K)) 4))"

text \<open>
  Arguments of the kprobe programs.  \<^verbatim>\<open>BPF_KPROBE\<close> takes the first argument of the probed
  function from the saved registers, \<^verbatim>\<open>BPF_KRETPROBE\<close> its return value: \<^verbatim>\<open>di\<close> and \<^verbatim>\<open>ax\<close> on
  x86, \<^verbatim>\<open>regs[0]\<close> for both on arm64.
\<close>

datatype target_arch = TARGET_ARCH_x86 | TARGET_ARCH_arm64

definition pt_regs_parm1_off :: "target_arch \<Rightarrow> nat" where
  "pt_regs_parm1_off arch = (case arch of
     TARGET_ARCH_x86 \<Rightarrow> the (offsetof struct_pt_regs_x86 [''di''])
   | TARGET_ARCH_arm64 \<Rightarrow> the (offsetof struct_pt_regs_arm64 [''regs'']))"

definition pt_regs_rc_off :: "target_arch \<Rightarrow> nat" where
  "pt_regs_rc_off arch = (case arch of
     TARGET_ARCH_x86 \<Rightarrow> the (offsetof struct_pt_regs_x86 [''ax''])
   | TARGET_ARCH_arm64 \<Rightarrow> the (offsetof struct_pt_regs_arm64 [''regs'']))"

definition pt_regs_parm1 :: "target_arch \<Rightarrow> bytes \<Rightarrow> u64" where
  "pt_regs_parm1 arch regs = dec64 (pt_regs_parm1_off arch) regs"

definition pt_regs_rc :: "target_arch \<Rightarrow> bytes \<Rightarrow> u64" where
  "pt_regs_rc arch regs = dec64 (pt_regs_rc_off arch) regs"

section \<open>Offsets\<close>

lemma sock_common_off_eval [layout_simps]:
  "field_off struct_sock_common ''skc_daddr'' = 0" "field_off struct_sock_common ''skc_rcv_saddr'' = 4" "field_off struct_sock_common ''skc_dport'' = 12"
  "field_off struct_sock_common ''skc_num'' = 14" "field_off struct_sock_common ''skc_family'' = 16" "field_off struct_sock_common ''skc_state'' = 18"
  by (simp_all add: field_off_def struct_sock_common_def layout_simps cong: layout_cong)


lemma struct_net_ns_layout: "offsetof struct_net [''ns'', ''inum''] = Some 320"
  by (simp add: struct_net_def struct_ns_common_def layout_simps cong: layout_cong)

lemma struct_task_nsproxy_layout: "offsetof struct_task_struct [''nsproxy''] = Some 1704"
proof -
  have "fmember ''nsproxy'' 0 struct_task_struct_fields1 = None"
    unfolding struct_task_struct_fields1_def by (simp add: layout_simps cong: layout_cong)
  moreover have "\<exists>t. fmember ''nsproxy'' 7296 struct_task_struct_fields2 = Some (1704, t)"
    unfolding struct_task_struct_fields2_def by (simp add: layout_simps cong: layout_cong)
  ultimately show ?thesis
    by (auto simp: struct_task_struct_def layout_simps)
qed

lemma struct_sock_paths_layout:
  "offsetof struct_sock [''__sk_common''] = Some 0"
  "offsetof struct_sock [''__sk_common'', ''skc_net'', ''net''] = Some 48"
  "offsetof struct_sock [''__sk_common'', ''skc_state''] = Some 18"
  by (simp_all add: struct_sock_def struct_sock_common_def typ_possible_net_t_def layout_simps cong: layout_cong)

lemma struct_nsproxy_path_layout: "offsetof struct_nsproxy [''net_ns''] = Some 40"
  by (simp add: struct_nsproxy_def layout_simps cong: layout_cong)

lemma vmlinux_offs_eval [layout_simps]:
  "off_sk_common vmlinux_offs = 0" "off_skc_net vmlinux_offs = 48" "off_skc_state vmlinux_offs = 18"
  "off_ns_inum vmlinux_offs = 320" "off_nsproxy vmlinux_offs = 1704" "off_net_ns vmlinux_offs = 40"
  by (simp_all add: vmlinux_offs_def struct_sock_paths_layout struct_net_ns_layout
      struct_task_nsproxy_layout struct_nsproxy_path_layout del: offsetof.simps)

lemma pt_regs_off_eval [layout_simps]:
  "pt_regs_parm1_off TARGET_ARCH_x86 = 112" "pt_regs_rc_off TARGET_ARCH_x86 = 80"
  "pt_regs_parm1_off TARGET_ARCH_arm64 = 0" "pt_regs_rc_off TARGET_ARCH_arm64 = 0"
  by (simp_all add: pt_regs_parm1_off_def pt_regs_rc_off_def struct_pt_regs_x86_def
      struct_pt_regs_arm64_def layout_simps cong: layout_cong)

section \<open>Memory that holds a value\<close>

definition holds :: "kmem \<Rightarrow> u64 \<Rightarrow> bytes \<Rightarrow> bool" where
  "holds m a bs \<longleftrightarrow> map (\<lambda>i. m (a + word_of_nat i)) [0..<length bs] = map Some bs"

lemma length_probe_read [simp]: "length (probe_read m a n) = n"
  by (simp add: probe_read_def Let_def)

lemma probe_read_holds: "holds m a bs \<Longrightarrow> n = length bs \<Longrightarrow> probe_read m a n = bs"
  by (auto simp: holds_def probe_read_def comp_def)

lemma probe_read_fault: "i < n \<Longrightarrow> m (a + word_of_nat i) = None \<Longrightarrow> probe_read m a n = replicate n 0"
  by (force simp: probe_read_def Let_def)

lemma slice_0_length [simp]: "slice 0 (length bs) bs = bs"
  by (simp add: slice_def)

lemma dec_enc [bytes_simps]:
  "dec8 0 (enc8 a) = a" "dec16 0 (enc16 b) = b" "dec32 0 (enc32 c) = c" "dec64 0 (enc64 d) = d"
  using slice_0_length [of "enc8 a"] slice_0_length [of "enc16 b"] slice_0_length [of "enc32 c"]
    slice_0_length [of "enc64 d"]
  by (simp_all add: dec8_def dec16_def dec32_def dec64_def)

text \<open>\<open>store_sock_common skc bg\<close> is the 136-byte image of a \<^verbatim>\<open>sock_common\<close> whose other
  members have the bytes of \<open>bg\<close>.\<close>

definition store_sock_common :: "sock_common \<Rightarrow> bytes \<Rightarrow> bytes" where
  "store_sock_common skc bg =
     put (field_off struct_sock_common ''skc_daddr'') (enc32 (skc_daddr skc))
    (put (field_off struct_sock_common ''skc_rcv_saddr'') (enc32 (skc_rcv_saddr skc))
    (put (field_off struct_sock_common ''skc_dport'') (enc16 (skc_dport skc))
    (put (field_off struct_sock_common ''skc_num'') (enc16 (skc_num skc))
    (put (field_off struct_sock_common ''skc_family'') (enc16 (skc_family skc))
    (put (field_off struct_sock_common ''skc_state'') (enc8 (skc_state skc)) bg)))))"

lemma length_store_sock_common [simp]:
  "length bg = 136 \<Longrightarrow> length (store_sock_common skc bg) = 136"
  by (simp add: store_sock_common_def layout_simps)

lemma sock_common_roundtrip:
  "length bg = 136 \<Longrightarrow> sock_common_of_bytes (store_sock_common skc bg) = skc"
  by (simp add: sock_common_of_bytes_def store_sock_common_def layout_simps bytes_simps)

text \<open>A socket at address \<open>sk\<close>: its \<^verbatim>\<open>sock_common\<close> and the network namespace it points to.\<close>

definition sock_at :: "core_offs \<Rightarrow> kmem \<Rightarrow> u64 \<Rightarrow> sock_common \<Rightarrow> u32 \<Rightarrow> bool" where
  "sock_at K m sk skc inum \<longleftrightarrow>
     (\<exists>bg net. length bg = 136
        \<and> holds m (sk + word_of_nat (off_sk_common K)) (store_sock_common skc bg)
        \<and> holds m (sk + word_of_nat (off_skc_net K)) (enc64 net)
        \<and> holds m (net + word_of_nat (off_ns_inum K)) (enc32 inum))"

lemma read_ptr_holds: "holds m (p + word_of_nat off) (enc64 q) \<Longrightarrow> read_ptr m p off = q"
  by (simp add: read_ptr_def probe_read_holds bytes_simps)

lemma read_sock_common_at:
  assumes "sock_at K m sk skc inum" shows "read_sock_common K m sk = skc"
proof -
  from assms obtain bg where bg: "length bg = 136"
    and h: "holds m (sk + word_of_nat (off_sk_common K)) (store_sock_common skc bg)"
    by (auto simp: sock_at_def)
  from h bg have "probe_read m (sk + word_of_nat (off_sk_common K)) 136 = store_sock_common skc bg"
    by (simp add: probe_read_holds)
  with bg show ?thesis by (simp add: read_sock_common_def sock_common_roundtrip layout_simps)
qed

lemma read_sk_inum_at: "sock_at K m sk skc inum \<Longrightarrow> read_sk_inum K m sk = inum"
  by (auto simp: sock_at_def read_sk_inum_def read_ptr_holds probe_read_holds bytes_simps)

definition zero_sock_common :: sock_common where
  "zero_sock_common = \<lparr>skc_daddr = 0, skc_rcv_saddr = 0, skc_dport = 0, skc_num = 0,
     skc_family = 0, skc_state = 0\<rparr>"

lemma read_sock_common_fault:
  assumes "i < 136" and "m (sk + word_of_nat (off_sk_common K) + word_of_nat i) = None"
  shows "read_sock_common K m sk = zero_sock_common"
  using probe_read_fault [of i 136 m "sk + word_of_nat (off_sk_common K)", OF assms]
  by (simp add: read_sock_common_def sock_common_of_bytes_def zero_sock_common_def layout_simps bytes_simps)

end
