(* ===== verification/Vmlinux_Bpf.thy ===== *)
theory Vmlinux_Bpf
  imports Vmlinux_Base
begin

text \<open>
  The interface of the BPF subsystem in \<^verbatim>\<open>vmlinux.h\<close>: helper functions, program and attach types,
  the kernel side of a map and the header of a ring-buffer record; and the structures behind the
  hooked functions: \<^verbatim>\<open>struct socket\<close> and the operations of a protocol.

  Each constant is one declaration of the header, member by member; \<open>struct_\<close>, \<open>union_\<close>, \<open>enum_\<close> and \<open>typ_\<close>
  stand for the C name spaces.  The lemma after it is its size, its alignment and its
  well-formedness, which the declarations that embed it use.
\<close>

definition enum_bpf_func_id :: ctype where
  "enum_bpf_func_id = CEnum [
      (''BPF_FUNC_unspec'', 0),
      (''BPF_FUNC_map_lookup_elem'', 1),
      (''BPF_FUNC_map_update_elem'', 2),
      (''BPF_FUNC_map_delete_elem'', 3),
      (''BPF_FUNC_probe_read'', 4),
      (''BPF_FUNC_ktime_get_ns'', 5),
      (''BPF_FUNC_trace_printk'', 6),
      (''BPF_FUNC_get_prandom_u32'', 7),
      (''BPF_FUNC_get_smp_processor_id'', 8),
      (''BPF_FUNC_skb_store_bytes'', 9),
      (''BPF_FUNC_l3_csum_replace'', 10),
      (''BPF_FUNC_l4_csum_replace'', 11),
      (''BPF_FUNC_tail_call'', 12),
      (''BPF_FUNC_clone_redirect'', 13),
      (''BPF_FUNC_get_current_pid_tgid'', 14),
      (''BPF_FUNC_get_current_uid_gid'', 15),
      (''BPF_FUNC_get_current_comm'', 16),
      (''BPF_FUNC_get_cgroup_classid'', 17),
      (''BPF_FUNC_skb_vlan_push'', 18),
      (''BPF_FUNC_skb_vlan_pop'', 19),
      (''BPF_FUNC_skb_get_tunnel_key'', 20),
      (''BPF_FUNC_skb_set_tunnel_key'', 21),
      (''BPF_FUNC_perf_event_read'', 22),
      (''BPF_FUNC_redirect'', 23),
      (''BPF_FUNC_get_route_realm'', 24),
      (''BPF_FUNC_perf_event_output'', 25),
      (''BPF_FUNC_skb_load_bytes'', 26),
      (''BPF_FUNC_get_stackid'', 27),
      (''BPF_FUNC_csum_diff'', 28),
      (''BPF_FUNC_skb_get_tunnel_opt'', 29),
      (''BPF_FUNC_skb_set_tunnel_opt'', 30),
      (''BPF_FUNC_skb_change_proto'', 31),
      (''BPF_FUNC_skb_change_type'', 32),
      (''BPF_FUNC_skb_under_cgroup'', 33),
      (''BPF_FUNC_get_hash_recalc'', 34),
      (''BPF_FUNC_get_current_task'', 35),
      (''BPF_FUNC_probe_write_user'', 36),
      (''BPF_FUNC_current_task_under_cgroup'', 37),
      (''BPF_FUNC_skb_change_tail'', 38),
      (''BPF_FUNC_skb_pull_data'', 39),
      (''BPF_FUNC_csum_update'', 40),
      (''BPF_FUNC_set_hash_invalid'', 41),
      (''BPF_FUNC_get_numa_node_id'', 42),
      (''BPF_FUNC_skb_change_head'', 43),
      (''BPF_FUNC_xdp_adjust_head'', 44),
      (''BPF_FUNC_probe_read_str'', 45),
      (''BPF_FUNC_get_socket_cookie'', 46),
      (''BPF_FUNC_get_socket_uid'', 47),
      (''BPF_FUNC_set_hash'', 48),
      (''BPF_FUNC_setsockopt'', 49),
      (''BPF_FUNC_skb_adjust_room'', 50),
      (''BPF_FUNC_redirect_map'', 51),
      (''BPF_FUNC_sk_redirect_map'', 52),
      (''BPF_FUNC_sock_map_update'', 53),
      (''BPF_FUNC_xdp_adjust_meta'', 54),
      (''BPF_FUNC_perf_event_read_value'', 55),
      (''BPF_FUNC_perf_prog_read_value'', 56),
      (''BPF_FUNC_getsockopt'', 57),
      (''BPF_FUNC_override_return'', 58),
      (''BPF_FUNC_sock_ops_cb_flags_set'', 59),
      (''BPF_FUNC_msg_redirect_map'', 60),
      (''BPF_FUNC_msg_apply_bytes'', 61),
      (''BPF_FUNC_msg_cork_bytes'', 62),
      (''BPF_FUNC_msg_pull_data'', 63),
      (''BPF_FUNC_bind'', 64),
      (''BPF_FUNC_xdp_adjust_tail'', 65),
      (''BPF_FUNC_skb_get_xfrm_state'', 66),
      (''BPF_FUNC_get_stack'', 67),
      (''BPF_FUNC_skb_load_bytes_relative'', 68),
      (''BPF_FUNC_fib_lookup'', 69),
      (''BPF_FUNC_sock_hash_update'', 70),
      (''BPF_FUNC_msg_redirect_hash'', 71),
      (''BPF_FUNC_sk_redirect_hash'', 72),
      (''BPF_FUNC_lwt_push_encap'', 73),
      (''BPF_FUNC_lwt_seg6_store_bytes'', 74),
      (''BPF_FUNC_lwt_seg6_adjust_srh'', 75),
      (''BPF_FUNC_lwt_seg6_action'', 76),
      (''BPF_FUNC_rc_repeat'', 77),
      (''BPF_FUNC_rc_keydown'', 78),
      (''BPF_FUNC_skb_cgroup_id'', 79),
      (''BPF_FUNC_get_current_cgroup_id'', 80),
      (''BPF_FUNC_get_local_storage'', 81),
      (''BPF_FUNC_sk_select_reuseport'', 82),
      (''BPF_FUNC_skb_ancestor_cgroup_id'', 83),
      (''BPF_FUNC_sk_lookup_tcp'', 84),
      (''BPF_FUNC_sk_lookup_udp'', 85),
      (''BPF_FUNC_sk_release'', 86),
      (''BPF_FUNC_map_push_elem'', 87),
      (''BPF_FUNC_map_pop_elem'', 88),
      (''BPF_FUNC_map_peek_elem'', 89),
      (''BPF_FUNC_msg_push_data'', 90),
      (''BPF_FUNC_msg_pop_data'', 91),
      (''BPF_FUNC_rc_pointer_rel'', 92),
      (''BPF_FUNC_spin_lock'', 93),
      (''BPF_FUNC_spin_unlock'', 94),
      (''BPF_FUNC_sk_fullsock'', 95),
      (''BPF_FUNC_tcp_sock'', 96),
      (''BPF_FUNC_skb_ecn_set_ce'', 97),
      (''BPF_FUNC_get_listener_sock'', 98),
      (''BPF_FUNC_skc_lookup_tcp'', 99),
      (''BPF_FUNC_tcp_check_syncookie'', 100),
      (''BPF_FUNC_sysctl_get_name'', 101),
      (''BPF_FUNC_sysctl_get_current_value'', 102),
      (''BPF_FUNC_sysctl_get_new_value'', 103),
      (''BPF_FUNC_sysctl_set_new_value'', 104),
      (''BPF_FUNC_strtol'', 105),
      (''BPF_FUNC_strtoul'', 106),
      (''BPF_FUNC_sk_storage_get'', 107),
      (''BPF_FUNC_sk_storage_delete'', 108),
      (''BPF_FUNC_send_signal'', 109),
      (''BPF_FUNC_tcp_gen_syncookie'', 110),
      (''BPF_FUNC_skb_output'', 111),
      (''BPF_FUNC_probe_read_user'', 112),
      (''BPF_FUNC_probe_read_kernel'', 113),
      (''BPF_FUNC_probe_read_user_str'', 114),
      (''BPF_FUNC_probe_read_kernel_str'', 115),
      (''BPF_FUNC_tcp_send_ack'', 116),
      (''BPF_FUNC_send_signal_thread'', 117),
      (''BPF_FUNC_jiffies64'', 118),
      (''BPF_FUNC_read_branch_records'', 119),
      (''BPF_FUNC_get_ns_current_pid_tgid'', 120),
      (''BPF_FUNC_xdp_output'', 121),
      (''BPF_FUNC_get_netns_cookie'', 122),
      (''BPF_FUNC_get_current_ancestor_cgroup_id'', 123),
      (''BPF_FUNC_sk_assign'', 124),
      (''BPF_FUNC_ktime_get_boot_ns'', 125),
      (''BPF_FUNC_seq_printf'', 126),
      (''BPF_FUNC_seq_write'', 127),
      (''BPF_FUNC_sk_cgroup_id'', 128),
      (''BPF_FUNC_sk_ancestor_cgroup_id'', 129),
      (''BPF_FUNC_ringbuf_output'', 130),
      (''BPF_FUNC_ringbuf_reserve'', 131),
      (''BPF_FUNC_ringbuf_submit'', 132),
      (''BPF_FUNC_ringbuf_discard'', 133),
      (''BPF_FUNC_ringbuf_query'', 134),
      (''BPF_FUNC_csum_level'', 135),
      (''BPF_FUNC_skc_to_tcp6_sock'', 136),
      (''BPF_FUNC_skc_to_tcp_sock'', 137),
      (''BPF_FUNC_skc_to_tcp_timewait_sock'', 138),
      (''BPF_FUNC_skc_to_tcp_request_sock'', 139),
      (''BPF_FUNC_skc_to_udp6_sock'', 140),
      (''BPF_FUNC_get_task_stack'', 141),
      (''BPF_FUNC_load_hdr_opt'', 142),
      (''BPF_FUNC_store_hdr_opt'', 143),
      (''BPF_FUNC_reserve_hdr_opt'', 144),
      (''BPF_FUNC_inode_storage_get'', 145),
      (''BPF_FUNC_inode_storage_delete'', 146),
      (''BPF_FUNC_d_path'', 147),
      (''BPF_FUNC_copy_from_user'', 148),
      (''BPF_FUNC_snprintf_btf'', 149),
      (''BPF_FUNC_seq_printf_btf'', 150),
      (''BPF_FUNC_skb_cgroup_classid'', 151),
      (''BPF_FUNC_redirect_neigh'', 152),
      (''BPF_FUNC_per_cpu_ptr'', 153),
      (''BPF_FUNC_this_cpu_ptr'', 154),
      (''BPF_FUNC_redirect_peer'', 155),
      (''BPF_FUNC_task_storage_get'', 156),
      (''BPF_FUNC_task_storage_delete'', 157),
      (''BPF_FUNC_get_current_task_btf'', 158),
      (''BPF_FUNC_bprm_opts_set'', 159),
      (''BPF_FUNC_ktime_get_coarse_ns'', 160),
      (''BPF_FUNC_ima_inode_hash'', 161),
      (''BPF_FUNC_sock_from_file'', 162),
      (''BPF_FUNC_check_mtu'', 163),
      (''BPF_FUNC_for_each_map_elem'', 164),
      (''BPF_FUNC_snprintf'', 165),
      (''BPF_FUNC_sys_bpf'', 166),
      (''BPF_FUNC_btf_find_by_name_kind'', 167),
      (''BPF_FUNC_sys_close'', 168),
      (''BPF_FUNC_timer_init'', 169),
      (''BPF_FUNC_timer_set_callback'', 170),
      (''BPF_FUNC_timer_start'', 171),
      (''BPF_FUNC_timer_cancel'', 172),
      (''BPF_FUNC_get_func_ip'', 173),
      (''BPF_FUNC_get_attach_cookie'', 174),
      (''BPF_FUNC_task_pt_regs'', 175),
      (''BPF_FUNC_get_branch_snapshot'', 176),
      (''BPF_FUNC_trace_vprintk'', 177),
      (''BPF_FUNC_skc_to_unix_sock'', 178),
      (''BPF_FUNC_kallsyms_lookup_name'', 179),
      (''BPF_FUNC_find_vma'', 180),
      (''BPF_FUNC_loop'', 181),
      (''BPF_FUNC_strncmp'', 182),
      (''BPF_FUNC_get_func_arg'', 183),
      (''BPF_FUNC_get_func_ret'', 184),
      (''BPF_FUNC_get_func_arg_cnt'', 185),
      (''BPF_FUNC_get_retval'', 186),
      (''BPF_FUNC_set_retval'', 187),
      (''BPF_FUNC_xdp_get_buff_len'', 188),
      (''BPF_FUNC_xdp_load_bytes'', 189),
      (''BPF_FUNC_xdp_store_bytes'', 190),
      (''BPF_FUNC_copy_from_user_task'', 191),
      (''BPF_FUNC_skb_set_tstamp'', 192),
      (''BPF_FUNC_ima_file_hash'', 193),
      (''BPF_FUNC_kptr_xchg'', 194),
      (''BPF_FUNC_map_lookup_percpu_elem'', 195),
      (''BPF_FUNC_skc_to_mptcp_sock'', 196),
      (''BPF_FUNC_dynptr_from_mem'', 197),
      (''BPF_FUNC_ringbuf_reserve_dynptr'', 198),
      (''BPF_FUNC_ringbuf_submit_dynptr'', 199),
      (''BPF_FUNC_ringbuf_discard_dynptr'', 200),
      (''BPF_FUNC_dynptr_read'', 201),
      (''BPF_FUNC_dynptr_write'', 202),
      (''BPF_FUNC_dynptr_data'', 203),
      (''BPF_FUNC_tcp_raw_gen_syncookie_ipv4'', 204),
      (''BPF_FUNC_tcp_raw_gen_syncookie_ipv6'', 205),
      (''BPF_FUNC_tcp_raw_check_syncookie_ipv4'', 206),
      (''BPF_FUNC_tcp_raw_check_syncookie_ipv6'', 207),
      (''BPF_FUNC_ktime_get_tai_ns'', 208),
      (''BPF_FUNC_user_ringbuf_drain'', 209),
      (''BPF_FUNC_cgrp_storage_get'', 210),
      (''BPF_FUNC_cgrp_storage_delete'', 211),
      (''__BPF_FUNC_MAX_ID'', 212)]"

lemma enum_bpf_func_id_layout [layout_simps]:
  "csize enum_bpf_func_id = 4" "calign enum_bpf_func_id = 4" "wf_ctype enum_bpf_func_id"
  by (simp_all add: enum_bpf_func_id_def layout_simps cong: layout_cong)

definition struct_bpf_map_memory :: ctype where
  "struct_bpf_map_memory = CStruct [
      Field ''pages'' typ_u32,
      Field ''user'' CPtr]"

lemma struct_bpf_map_memory_layout [layout_simps]:
  "csize struct_bpf_map_memory = 16" "calign struct_bpf_map_memory = 8" "wf_ctype struct_bpf_map_memory"
  by (simp_all add: struct_bpf_map_memory_def layout_simps cong: layout_cong)

definition struct_bpf_map :: ctype where
  "struct_bpf_map = CStruct [
      Field ''ops'' CPtr,
      Field ''inner_map_meta'' CPtr,
      Field ''security'' CPtr,
      Field ''map_type'' enum_bpf_map_type,
      Field ''key_size'' typ_u32,
      Field ''value_size'' typ_u32,
      Field ''max_entries'' typ_u32,
      Field ''map_flags'' typ_u32,
      Field ''spin_lock_off'' c_int,
      Field ''id'' typ_u32,
      Field ''numa_node'' c_int,
      Field ''btf_key_type_id'' typ_u32,
      Field ''btf_value_type_id'' typ_u32,
      Field ''btf'' CPtr,
      Field ''memory'' struct_bpf_map_memory,
      Field ''name'' (CArray 16 c_char),
      Field ''btf_vmlinux_value_type_id'' typ_u32,
      Field ''bypass_spec_v1'' typ_bool,
      Field ''frozen'' typ_bool,
      BitField '''' c_long 16,
      BitField '''' c_long 64,
      BitField '''' c_long 64,
      Field ''refcnt'' typ_atomic64_t,
      Field ''usercnt'' typ_atomic64_t,
      Field ''work'' struct_work_struct,
      Field ''freeze_mutex'' struct_mutex,
      Field ''writecnt'' typ_u64,
      BitField '''' c_long 64,
      BitField '''' c_long 64]"

lemma struct_bpf_map_layout [layout_simps]:
  "csize struct_bpf_map = 384" "calign struct_bpf_map = 8" "wf_ctype struct_bpf_map"
  by (simp_all add: struct_bpf_map_def layout_simps cong: layout_cong)

definition enum_bpf_prog_type :: ctype where
  "enum_bpf_prog_type = CEnum [
      (''BPF_PROG_TYPE_UNSPEC'', 0),
      (''BPF_PROG_TYPE_SOCKET_FILTER'', 1),
      (''BPF_PROG_TYPE_KPROBE'', 2),
      (''BPF_PROG_TYPE_SCHED_CLS'', 3),
      (''BPF_PROG_TYPE_SCHED_ACT'', 4),
      (''BPF_PROG_TYPE_TRACEPOINT'', 5),
      (''BPF_PROG_TYPE_XDP'', 6),
      (''BPF_PROG_TYPE_PERF_EVENT'', 7),
      (''BPF_PROG_TYPE_CGROUP_SKB'', 8),
      (''BPF_PROG_TYPE_CGROUP_SOCK'', 9),
      (''BPF_PROG_TYPE_LWT_IN'', 10),
      (''BPF_PROG_TYPE_LWT_OUT'', 11),
      (''BPF_PROG_TYPE_LWT_XMIT'', 12),
      (''BPF_PROG_TYPE_SOCK_OPS'', 13),
      (''BPF_PROG_TYPE_SK_SKB'', 14),
      (''BPF_PROG_TYPE_CGROUP_DEVICE'', 15),
      (''BPF_PROG_TYPE_SK_MSG'', 16),
      (''BPF_PROG_TYPE_RAW_TRACEPOINT'', 17),
      (''BPF_PROG_TYPE_CGROUP_SOCK_ADDR'', 18),
      (''BPF_PROG_TYPE_LWT_SEG6LOCAL'', 19),
      (''BPF_PROG_TYPE_LIRC_MODE2'', 20),
      (''BPF_PROG_TYPE_SK_REUSEPORT'', 21),
      (''BPF_PROG_TYPE_FLOW_DISSECTOR'', 22),
      (''BPF_PROG_TYPE_CGROUP_SYSCTL'', 23),
      (''BPF_PROG_TYPE_RAW_TRACEPOINT_WRITABLE'', 24),
      (''BPF_PROG_TYPE_CGROUP_SOCKOPT'', 25),
      (''BPF_PROG_TYPE_TRACING'', 26),
      (''BPF_PROG_TYPE_STRUCT_OPS'', 27),
      (''BPF_PROG_TYPE_EXT'', 28),
      (''BPF_PROG_TYPE_LSM'', 29),
      (''BPF_PROG_TYPE_SK_LOOKUP'', 30),
      (''BPF_PROG_TYPE_SYSCALL'', 31),
      (''BPF_PROG_TYPE_NETFILTER'', 32)]"

lemma enum_bpf_prog_type_layout [layout_simps]:
  "csize enum_bpf_prog_type = 4" "calign enum_bpf_prog_type = 4" "wf_ctype enum_bpf_prog_type"
  by (simp_all add: enum_bpf_prog_type_def layout_simps cong: layout_cong)

definition enum_bpf_attach_type :: ctype where
  "enum_bpf_attach_type = CEnum [
      (''BPF_CGROUP_INET_INGRESS'', 0),
      (''BPF_CGROUP_INET_EGRESS'', 1),
      (''BPF_CGROUP_INET_SOCK_CREATE'', 2),
      (''BPF_CGROUP_SOCK_OPS'', 3),
      (''BPF_SK_SKB_STREAM_PARSER'', 4),
      (''BPF_SK_SKB_STREAM_VERDICT'', 5),
      (''BPF_CGROUP_DEVICE'', 6),
      (''BPF_SK_MSG_VERDICT'', 7),
      (''BPF_CGROUP_INET4_BIND'', 8),
      (''BPF_CGROUP_INET6_BIND'', 9),
      (''BPF_CGROUP_INET4_CONNECT'', 10),
      (''BPF_CGROUP_INET6_CONNECT'', 11),
      (''BPF_CGROUP_INET4_POST_BIND'', 12),
      (''BPF_CGROUP_INET6_POST_BIND'', 13),
      (''BPF_CGROUP_UDP4_SENDMSG'', 14),
      (''BPF_CGROUP_UDP6_SENDMSG'', 15),
      (''BPF_LIRC_MODE2'', 16),
      (''BPF_FLOW_DISSECTOR'', 17),
      (''BPF_CGROUP_SYSCTL'', 18),
      (''BPF_CGROUP_UDP4_RECVMSG'', 19),
      (''BPF_CGROUP_UDP6_RECVMSG'', 20),
      (''BPF_CGROUP_GETSOCKOPT'', 21),
      (''BPF_CGROUP_SETSOCKOPT'', 22),
      (''BPF_TRACE_RAW_TP'', 23),
      (''BPF_TRACE_FENTRY'', 24),
      (''BPF_TRACE_FEXIT'', 25),
      (''BPF_MODIFY_RETURN'', 26),
      (''BPF_LSM_MAC'', 27),
      (''BPF_TRACE_ITER'', 28),
      (''BPF_CGROUP_INET4_GETPEERNAME'', 29),
      (''BPF_CGROUP_INET6_GETPEERNAME'', 30),
      (''BPF_CGROUP_INET4_GETSOCKNAME'', 31),
      (''BPF_CGROUP_INET6_GETSOCKNAME'', 32),
      (''BPF_XDP_DEVMAP'', 33),
      (''__MAX_BPF_ATTACH_TYPE'', 34)]"

lemma enum_bpf_attach_type_layout [layout_simps]:
  "csize enum_bpf_attach_type = 4" "calign enum_bpf_attach_type = 4" "wf_ctype enum_bpf_attach_type"
  by (simp_all add: enum_bpf_attach_type_def layout_simps cong: layout_cong)

definition typ_slab_flags_t :: ctype where
  "typ_slab_flags_t = c_uint"

lemma typ_slab_flags_t_layout [layout_simps]:
  "csize typ_slab_flags_t = 4" "calign typ_slab_flags_t = 4" "wf_ctype typ_slab_flags_t"
  by (simp_all add: typ_slab_flags_t_def layout_simps cong: layout_cong)

definition typ_socket_state :: ctype where
  "typ_socket_state = CEnum [
      (''SS_FREE'', 0),
      (''SS_UNCONNECTED'', 1),
      (''SS_CONNECTING'', 2),
      (''SS_CONNECTED'', 3),
      (''SS_DISCONNECTING'', 4)]"

lemma typ_socket_state_layout [layout_simps]:
  "csize typ_socket_state = 4" "calign typ_socket_state = 4" "wf_ctype typ_socket_state"
  by (simp_all add: typ_socket_state_def layout_simps cong: layout_cong)

definition struct_socket_wq :: ctype where
  "struct_socket_wq = CStruct [
      Field ''wait'' typ_wait_queue_head_t,
      Field ''fasync_list'' CPtr,
      Field ''flags'' c_ulong,
      Field ''rcu'' struct_callback_head,
      BitField '''' c_long 64,
      BitField '''' c_long 64]"

lemma struct_socket_wq_layout [layout_simps]:
  "csize struct_socket_wq = 128" "calign struct_socket_wq = 8" "wf_ctype struct_socket_wq"
  by (simp_all add: struct_socket_wq_def layout_simps cong: layout_cong)

definition struct_socket :: ctype where
  "struct_socket = CStruct [
      Field ''state'' typ_socket_state,
      Field ''type'' c_short,
      Field ''flags'' c_ulong,
      Field ''file'' CPtr,
      Field ''sk'' CPtr,
      Field ''ops'' CPtr,
      BitField '''' c_long 64,
      BitField '''' c_long 64,
      BitField '''' c_long 64,
      Field ''wq'' struct_socket_wq]"

lemma struct_socket_layout [layout_simps]:
  "csize struct_socket = 192" "calign struct_socket = 8" "wf_ctype struct_socket"
  by (simp_all add: struct_socket_def layout_simps cong: layout_cong)

definition struct_proto :: ctype where
  "struct_proto = CStruct [
      Field ''close'' CPtr,
      Field ''pre_connect'' CPtr,
      Field ''connect'' CPtr,
      Field ''disconnect'' CPtr,
      Field ''accept'' CPtr,
      Field ''ioctl'' CPtr,
      Field ''init'' CPtr,
      Field ''destroy'' CPtr,
      Field ''shutdown'' CPtr,
      Field ''setsockopt'' CPtr,
      Field ''getsockopt'' CPtr,
      Field ''keepalive'' CPtr,
      Field ''sendmsg'' CPtr,
      Field ''recvmsg'' CPtr,
      Field ''sendpage'' CPtr,
      Field ''bind'' CPtr,
      Field ''bind_add'' CPtr,
      Field ''backlog_rcv'' CPtr,
      Field ''release_cb'' CPtr,
      Field ''hash'' CPtr,
      Field ''unhash'' CPtr,
      Field ''rehash'' CPtr,
      Field ''get_port'' CPtr,
      Field ''inuse_idx'' c_uint,
      Field ''stream_memory_free'' CPtr,
      Field ''stream_memory_read'' CPtr,
      Field ''enter_memory_pressure'' CPtr,
      Field ''leave_memory_pressure'' CPtr,
      Field ''memory_allocated'' CPtr,
      Field ''sockets_allocated'' CPtr,
      Field ''memory_pressure'' CPtr,
      Field ''sysctl_mem'' CPtr,
      Field ''sysctl_wmem'' CPtr,
      Field ''sysctl_rmem'' CPtr,
      Field ''sysctl_wmem_offset'' typ_u32,
      Field ''sysctl_rmem_offset'' typ_u32,
      Field ''max_header'' c_int,
      Field ''no_autobind'' typ_bool,
      Field ''slab'' CPtr,
      Field ''obj_size'' c_uint,
      Field ''slab_flags'' typ_slab_flags_t,
      Field ''useroffset'' c_uint,
      Field ''usersize'' c_uint,
      Field ''orphan_count'' CPtr,
      Field ''rsk_prot'' CPtr,
      Field ''twsk_prot'' CPtr,
      Field ''h'' (CUnion [
        Field ''hashinfo'' CPtr,
        Field ''udp_table'' CPtr,
        Field ''raw_hash'' CPtr,
        Field ''smc_hash'' CPtr]),
      Field ''owner'' CPtr,
      Field ''name'' (CArray 32 c_char),
      Field ''node'' struct_list_head,
      Field ''diag_destroy'' CPtr]"

lemma struct_proto_layout [layout_simps]:
  "csize struct_proto = 408" "calign struct_proto = 8" "wf_ctype struct_proto"
  by (simp_all add: struct_proto_def layout_simps cong: layout_cong)

definition struct_bpf_ringbuf_hdr :: ctype where
  "struct_bpf_ringbuf_hdr = CStruct [
      Field ''len'' typ_u32,
      Field ''pg_off'' typ_u32]"

lemma struct_bpf_ringbuf_hdr_layout [layout_simps]:
  "csize struct_bpf_ringbuf_hdr = 8" "calign struct_bpf_ringbuf_hdr = 4" "wf_ctype struct_bpf_ringbuf_hdr"
  by (simp_all add: struct_bpf_ringbuf_hdr_def layout_simps cong: layout_cong)

definition struct_in_addr :: ctype where
  "struct_in_addr = CStruct [
      Field ''s_addr'' typ___be32]"

lemma struct_in_addr_layout [layout_simps]:
  "csize struct_in_addr = 4" "calign struct_in_addr = 4" "wf_ctype struct_in_addr"
  by (simp_all add: struct_in_addr_def layout_simps cong: layout_cong)

definition struct_sockaddr_in :: ctype where
  "struct_sockaddr_in = CStruct [
      Field ''sin_family'' typ___kernel_sa_family_t,
      Field ''sin_port'' typ___be16,
      Field ''sin_addr'' struct_in_addr,
      Field ''__pad'' (CArray 8 c_uchar)]"

lemma struct_sockaddr_in_layout [layout_simps]:
  "csize struct_sockaddr_in = 16" "calign struct_sockaddr_in = 4" "wf_ctype struct_sockaddr_in"
  by (simp_all add: struct_sockaddr_in_def layout_simps cong: layout_cong)

end
