(* ===== verification/Bpf_Runtime.thy ===== *)
theory Bpf_Runtime
  imports Kmem Vmlinux_Bpf
begin

text \<open>
  What the eBPF programs use of the BPF runtime.  A hash map is a partial function; a program
  reads it directly, and a pointer returned by \<^verbatim>\<open>bpf_map_lookup_elem\<close> that the program
  writes through is an update of the map in place.  \<^verbatim>\<open>bpf_map_update_elem\<close> is kernel code
  (it may fail, and on an LRU map it may evict other entries), so it is a parameter of every
  program that calls it; the locale \<open>map_update\<close> states what the kernel documents of it.
  The remaining helpers are the fields of \<open>bpf_env\<close>: the values they return during one run
  of a program.
\<close>

type_synonym ('k, 'v) updater = "('k \<rightharpoonup> 'v) \<Rightarrow> 'k \<Rightarrow> 'v \<Rightarrow> ('k \<rightharpoonup> 'v)"

record bpf_env =
  env_mem :: kmem
  env_offs :: core_offs
  bpf_ktime_get_ns :: u64
  bpf_get_current_pid_tgid :: u64
  bpf_get_current_task :: u64
  env_cpu :: nat
  bpf_ringbuf_reserve :: "nat \<Rightarrow> bytes option"   \<comment> \<open>\<open>None\<close> is \<^verbatim>\<open>NULL\<close>; else the reserved bytes, not cleared\<close>

definition env_ok :: "bpf_env \<Rightarrow> bool" where
  "env_ok e \<longleftrightarrow> (\<forall>n bs. bpf_ringbuf_reserve e n = Some bs \<longrightarrow> length bs = n)"

section \<open>Map definitions\<close>

text \<open>The attributes of a map in a \<^verbatim>\<open>.maps\<close> section.  Ring buffers have no key or value.\<close>

record map_def =
  map_type :: string
  max_entries :: nat
  key_type :: "ctype option"
  value_type :: "ctype option"

text \<open>\<open>enum_value\<close> reads an enumerator of \<^verbatim>\<open>vmlinux.h\<close>.\<close>

fun enum_value :: "ctype \<Rightarrow> string \<Rightarrow> int option" where
  "enum_value (CEnum es) n = map_of es n"
| "enum_value _ n = None"

section \<open>\<^verbatim>\<open>bpf_map_update_elem\<close>\<close>

text \<open>
  The contract of \<^verbatim>\<open>bpf_map_update_elem(\<dots>, BPF_ANY)\<close>: the key has the new value, or the call
  failed and it has the old one; any other key keeps its value, or (LRU) was evicted.
\<close>

locale map_update =
  fixes upd :: "('k \<rightharpoonup> 'v) \<Rightarrow> 'k \<Rightarrow> 'v \<Rightarrow> ('k \<rightharpoonup> 'v)"
  assumes upd_same: "upd m k v k = Some v \<or> upd m k v k = m k"
    and upd_other: "k' \<noteq> k \<Longrightarrow> upd m k v k' = m k' \<or> upd m k v k' = None"
begin

lemma upd_None: "m k' = None \<Longrightarrow> k' \<noteq> k \<Longrightarrow> upd m k v k' = None"
  using upd_other [of k' k m v] by auto

lemma upd_Some: "upd m k v k' = Some w \<Longrightarrow> (k' = k \<and> w = v) \<or> m k' = Some w"
  using upd_same [of m k v] upd_other [of k' k m v] by (cases "k' = k") auto

lemma dom_upd: "dom (upd m k v) \<subseteq> insert k (dom m)"
  using upd_Some by blast

lemma upd_all:
  assumes "\<And>k' w. m k' = Some w \<Longrightarrow> P k' w" and "P k v" and "upd m k v k' = Some w"
  shows "P k' w"
  using upd_Some [OF assms(3)] assms(1,2) by auto

end

text \<open>An update that succeeded: the value is there.\<close>

locale map_update_ok = map_update +
  assumes upd_stored: "upd m k v k = Some v"

text \<open>A hash map that is full refuses new keys; an LRU map evicts instead.  Both models of
  the kernel's maps meet the contract.\<close>

definition hash_update :: "nat \<Rightarrow> ('k, 'v) updater" where
  "hash_update cap m k v = (if m k = None \<and> cap \<le> card (dom m) then m else m(k \<mapsto> v))"

definition lru_update :: "(('k \<rightharpoonup> 'v) \<Rightarrow> 'k \<Rightarrow> 'k list) \<Rightarrow> ('k, 'v) updater" where
  "lru_update evict m k v = (\<lambda>k'. if k' = k then Some v else if k' \<in> set (evict m k) then None else m k')"

interpretation hash: map_update "hash_update cap"
  by unfold_locales (auto simp: hash_update_def)

interpretation lru: map_update_ok "lru_update evict"
  by unfold_locales (auto simp: lru_update_def)

text \<open>\<open>retains upd k\<close>: updates store entries under \<open>k\<close> and never evict them.\<close>

definition retains :: "('k, 'v) updater \<Rightarrow> 'k \<Rightarrow> bool" where
  "retains upd k \<longleftrightarrow> (\<forall>m v. upd m k v k = Some v) \<and> (\<forall>m k' v. k' \<noteq> k \<longrightarrow> upd m k' v k = m k)"

text \<open>A per-CPU map holds one value per CPU under each key; \<open>zero_slot\<close> is what a slot
  holds that no program wrote since the entry was created.\<close>

type_synonym ('k, 'v) percpu = "'k \<rightharpoonup> (nat \<Rightarrow> 'v)"

type_synonym ('k, 'v) percpu_updater = "nat \<Rightarrow> ('k, 'v) percpu \<Rightarrow> 'k \<Rightarrow> 'v \<Rightarrow> ('k, 'v) percpu"

locale percpu_update =
  fixes pupd :: "nat \<Rightarrow> ('k \<rightharpoonup> (nat \<Rightarrow> 'v)) \<Rightarrow> 'k \<Rightarrow> 'v \<Rightarrow> ('k \<rightharpoonup> (nat \<Rightarrow> 'v))"
    and zero_slot :: 'v
  assumes pupd_new: "m k = None \<Longrightarrow> pupd c m k v k = Some ((\<lambda>_. zero_slot)(c := v)) \<or> pupd c m k v k = None"
    and pupd_old: "m k = Some f \<Longrightarrow> pupd c m k v k = Some (f(c := v)) \<or> pupd c m k v k = Some f"
    and pupd_other: "k' \<noteq> k \<Longrightarrow> pupd c m k v k' = m k' \<or> pupd c m k v k' = None"
begin

lemma pupd_slots:
  assumes "pupd c m k v k' = Some f"
  shows "f c' = v \<or> f c' = zero_slot \<or> (\<exists>g. m k' = Some g \<and> f c' = g c')"
proof (cases "k' = k")
  case True
  show ?thesis
  proof (cases "m k")
    case None
    with pupd_new [of m k c v] True assms show ?thesis by auto
  next
    case (Some g)
    with pupd_old [of m k g c v] True assms show ?thesis by auto
  qed
next
  case False
  from pupd_other [OF this, of c m v] assms have "m k' = Some f" by auto
  then show ?thesis by auto
qed

end

locale percpu_update_ok = percpu_update +
  assumes pupd_stored: "\<exists>f. pupd c m k v k = Some f \<and> f c = v"
begin

lemma pupd_elsewhere: "m k = None \<Longrightarrow> c' \<noteq> c \<Longrightarrow> \<exists>f. pupd c m k v k = Some f \<and> f c' = zero_slot"
proof -
  assume "m k = None" and c': "c' \<noteq> c"
  then have "pupd c m k v k = Some ((\<lambda>_. zero_slot)(c := v))"
    using pupd_new [of m k c v] pupd_stored [of c m k v] by auto
  with c' show ?thesis by simp
qed

end

definition percpu_lru_update :: "'v \<Rightarrow> (('k, 'v) percpu \<Rightarrow> 'k \<Rightarrow> 'k list) \<Rightarrow> ('k, 'v) percpu_updater" where
  "percpu_lru_update z evict c m k v =
     lru_update evict m k ((case m k of None \<Rightarrow> (\<lambda>_. z) | Some f \<Rightarrow> f)(c := v))"

interpretation pcpu: percpu_update_ok "percpu_lru_update z evict" z
  by unfold_locales (auto simp: percpu_lru_update_def lru_update_def split: option.splits)

section \<open>Ring buffers\<close>

text \<open>\<^verbatim>\<open>bpf_ringbuf_submit\<close>: the record becomes the youngest one of the buffer.\<close>

definition bpf_ringbuf_submit :: "bytes list \<Rightarrow> bytes \<Rightarrow> bytes list" where
  "bpf_ringbuf_submit ring rec = ring @ [rec]"

end
