(* ===== verification/Helper.thy ===== *)
theory Helper
  imports Bpf_Runtime
begin

text \<open>
  \<^verbatim>\<open>src/controller/src/bpf/helper.h\<close>: the maps every probe object carries (each of the three
  objects has its own instance), the address filter and the namespace check.  A C function
  with an out parameter and a boolean result returns an option.
\<close>

section \<open>Maps\<close>

definition inode_num_map :: map_def where
  "inode_num_map = \<lparr>map_type = ''BPF_MAP_TYPE_LRU_HASH'', max_entries = 10240,
     key_type = Some typ_u64, value_type = Some typ_u32\<rparr>"

definition ignore_ips_map :: map_def where
  "ignore_ips_map = \<lparr>map_type = ''BPF_MAP_TYPE_LRU_HASH'', max_entries = 10240,
     key_type = Some typ_u32, value_type = Some typ_u32\<rparr>"

definition allowed_syscalls_map :: map_def where
  "allowed_syscalls_map = \<lparr>map_type = ''BPF_MAP_TYPE_HASH'', max_entries = 512,
     key_type = Some typ_u32, value_type = Some typ_u32\<rparr>"

record helper_maps =
  inode_num :: "u64 \<rightharpoonup> u32"
  ignore_ips :: "u32 \<rightharpoonup> u32"
  allowed_syscalls :: "u32 \<rightharpoonup> u32"

section \<open>Filtering\<close>

definition localhost :: u32 where
  "localhost = 0x0100007F"

definition should_filter_traffic :: "'a helper_maps_scheme \<Rightarrow> u32 \<Rightarrow> u32 \<Rightarrow> bool" where
  "should_filter_traffic s saddr daddr =
     (if saddr = daddr then True
      else if saddr = localhost \<or> daddr = localhost then True
      else if saddr = 0 \<or> daddr = 0 then True
      else if ignore_ips s saddr \<noteq> None then True
      else if ignore_ips s daddr \<noteq> None then True
      else False)"

definition get_and_validate_inum :: "bpf_env \<Rightarrow> u64 \<Rightarrow> 'a helper_maps_scheme \<Rightarrow> u64 option" where
  "get_and_validate_inum e sk s =
     (if sk = 0 then None
      else
        let net_ns_inum = read_sk_inum (env_offs e) (env_mem e) sk;
            key = ucast net_ns_inum
        in case inode_num s key of None \<Rightarrow> None | Some _ \<Rightarrow> Some key)"

text \<open>What the filter means: the two ends are the same, or one of them is unusable.\<close>

definition unusable_addr :: "'a helper_maps_scheme \<Rightarrow> u32 \<Rightarrow> bool" where
  "unusable_addr s a \<longleftrightarrow> a = 0 \<or> a = localhost \<or> a \<in> dom (ignore_ips s)"

lemma should_filter_iff:
  "should_filter_traffic s saddr daddr \<longleftrightarrow> saddr = daddr \<or> unusable_addr s saddr \<or> unusable_addr s daddr"
  by (auto simp: should_filter_traffic_def unusable_addr_def)

lemma get_and_validate_inum_Some:
  "get_and_validate_inum e sk s = Some i \<longleftrightarrow>
     sk \<noteq> 0 \<and> i = ucast (read_sk_inum (env_offs e) (env_mem e) sk) \<and> i \<in> dom (inode_num s)"
  by (auto simp: get_and_validate_inum_def Let_def split: option.splits)

lemma get_inum_tracked: "get_and_validate_inum e sk s = Some i \<Longrightarrow> i \<in> dom (inode_num s)"
  by (auto simp: get_and_validate_inum_def Let_def split: if_splits option.splits)

lemma get_and_validate_inum_at:
  assumes "sock_at (env_offs e) (env_mem e) sk skc inum"
  shows "get_and_validate_inum e sk s = (if sk \<noteq> 0 \<and> ucast inum \<in> dom (inode_num s) then Some (ucast inum) else None)"
  by (auto simp: get_and_validate_inum_def Let_def read_sk_inum_at [OF assms] split: option.splits)

lemma should_filter_cong: "ignore_ips s = ignore_ips s' \<Longrightarrow> should_filter_traffic s = should_filter_traffic s'"
  by (simp add: fun_eq_iff should_filter_traffic_def)

lemma should_filter_zero: "should_filter_traffic s 0 0"
  by (simp add: should_filter_traffic_def)

end
