(* ===== verification/Network_Probe.thy ===== *)
theory Network_Probe
  imports Helper
begin

text \<open>
  \<^verbatim>\<open>src/controller/src/bpf/network_probe.bpf.c\<close>: the probe that reports TCP and UDP
  connections.  Every program returns 0 on every path, so its model returns the new state of
  the object's maps and ring buffer.  A run of a program sees one snapshot of kernel memory
  (\<open>env_mem\<close>) and is not interleaved with another run.  The parameter \<open>upd\<close> is
  \<^verbatim>\<open>bpf_map_update_elem\<close> on \<^verbatim>\<open>connections\<close>, \<open>pupd\<close> the same helper on the per-CPU map
  \<^verbatim>\<open>tcp_ctx\<close>.
\<close>

section \<open>Data\<close>

record network_event_data =
  ne_inum :: u64
  ne_saddr :: u32
  ne_sport :: u16
  ne_daddr :: u32
  ne_dport :: u16
  ne_kind :: u16     \<comment> \<open>2: ingress, 1: egress, 3: UDP\<close>

definition struct_network_event_data :: ctype where
  "struct_network_event_data = CStruct [
     Field ''inum'' typ___u64,
     Field ''saddr'' typ___u32,
     Field ''sport'' typ___u16,
     Field ''daddr'' typ___u32,
     Field ''dport'' typ___u16,
     Field ''kind'' typ___u16]"

definition network_events_map :: map_def where
  "network_events_map = \<lparr>map_type = ''BPF_MAP_TYPE_RINGBUF'', max_entries = 256 * 1024,
     key_type = None, value_type = None\<rparr>"

record conn_key =
  ck_inum :: u64
  ck_saddr :: u32
  ck_daddr :: u32
  ck_dport :: u16
  ck_protocol :: u8     \<comment> \<open>1: TCP, 2: UDP\<close>
  ck_direction :: u8    \<comment> \<open>1: egress, 2: ingress\<close>

definition struct_conn_key :: ctype where
  "struct_conn_key = CStruct [
     Field ''inum'' typ___u64,
     Field ''saddr'' typ___u32,
     Field ''daddr'' typ___u32,
     Field ''dport'' typ___u16,
     Field ''protocol'' typ___u8,
     Field ''direction'' typ___u8]"

record conn_state =
  cs_first_seen :: u64
  cs_last_seen :: u64
  cs_event_count :: u32

definition struct_conn_state :: ctype where
  "struct_conn_state = CStruct [
     Field ''first_seen'' typ___u64,
     Field ''last_seen'' typ___u64,
     Field ''event_count'' typ___u32]"

definition connections_map :: map_def where
  "connections_map = \<lparr>map_type = ''BPF_MAP_TYPE_LRU_HASH'', max_entries = 65536,
     key_type = Some struct_conn_key, value_type = Some struct_conn_state\<rparr>"

record tcp_connect_ctx =
  tc_sk :: u64
  tc_inum :: u64

definition struct_tcp_connect_ctx :: ctype where
  "struct_tcp_connect_ctx = CStruct [
     Field ''sk'' CPtr,
     Field ''inum'' typ___u64]"

definition tcp_ctx_map :: map_def where
  "tcp_ctx_map = \<lparr>map_type = ''BPF_MAP_TYPE_LRU_PERCPU_HASH'', max_entries = 10240,
     key_type = Some typ___u32, value_type = Some struct_tcp_connect_ctx\<rparr>"

record net_state = helper_maps +
  connections :: "conn_key \<rightharpoonup> conn_state"
  tcp_ctx :: "(u32, tcp_connect_ctx) percpu"
  network_events :: "bytes list"

type_synonym conn_updater = "(conn_key, conn_state) updater"
type_synonym ctx_updater = "(u32, tcp_connect_ctx) percpu_updater"

section \<open>Programs\<close>

definition is_new_connection :: "conn_updater \<Rightarrow> bpf_env \<Rightarrow> conn_key \<Rightarrow> net_state \<Rightarrow> bool \<times> net_state" where
  "is_new_connection upd e key s =
     (let now = bpf_ktime_get_ns e
      in case connections s key of
        None \<Rightarrow>
          (let new_state = \<lparr>cs_first_seen = now, cs_last_seen = now, cs_event_count = 1\<rparr>
           in (True, s\<lparr>connections := upd (connections s) key new_state\<rparr>))
      | Some state \<Rightarrow>
          (False, s\<lparr>connections := (connections s)(key \<mapsto>
             state\<lparr>cs_last_seen := now, cs_event_count := cs_event_count state + 1\<rparr>)\<rparr>))"

definition fill_network_event :: "network_event_data \<Rightarrow> bytes \<Rightarrow> bytes" where
  "fill_network_event ev buf =
     put (field_off struct_network_event_data ''kind'') (enc16 (ne_kind ev))
    (put (field_off struct_network_event_data ''dport'') (enc16 (ne_dport ev))
    (put (field_off struct_network_event_data ''sport'') (enc16 (ne_sport ev))
    (put (field_off struct_network_event_data ''daddr'') (enc32 (ne_daddr ev))
    (put (field_off struct_network_event_data ''saddr'') (enc32 (ne_saddr ev))
    (put (field_off struct_network_event_data ''inum'') (enc64 (ne_inum ev)) buf)))))"

text \<open>The end of all three reporting programs: reserve, fill, submit.\<close>

definition report_network_event :: "bpf_env \<Rightarrow> network_event_data \<Rightarrow> net_state \<Rightarrow> net_state" where
  "report_network_event e ev s =
     (case bpf_ringbuf_reserve e (csize struct_network_event_data) of
        None \<Rightarrow> s
      | Some buf \<Rightarrow>
          s\<lparr>network_events := bpf_ringbuf_submit (network_events s) (fill_network_event ev buf)\<rparr>)"

definition trace_udp_send :: "conn_updater \<Rightarrow> bpf_env \<Rightarrow> u64 \<Rightarrow> net_state \<Rightarrow> net_state" where
  "trace_udp_send upd e sk s =
     (case get_and_validate_inum e sk s of
        None \<Rightarrow> s
      | Some inum \<Rightarrow>
        (let skc = read_sock_common (env_offs e) (env_mem e) sk
         in if should_filter_traffic s (skc_rcv_saddr skc) (skc_daddr skc) then s
            else
              let conn = \<lparr>ck_inum = inum, ck_saddr = skc_rcv_saddr skc, ck_daddr = skc_daddr skc,
                          ck_dport = bpf_ntohs (skc_dport skc), ck_protocol = 2, ck_direction = 1\<rparr>;
                  (isnew, s1) = is_new_connection upd e conn s
              in if \<not> isnew then s1
                 else report_network_event e
                   \<lparr>ne_inum = inum, ne_saddr = skc_rcv_saddr skc, ne_sport = skc_num skc,
                    ne_daddr = skc_daddr skc, ne_dport = bpf_ntohs (skc_dport skc), ne_kind = 3\<rparr> s1))"

definition trace_tcp_state_change :: "conn_updater \<Rightarrow> bpf_env \<Rightarrow> u64 \<Rightarrow> int \<Rightarrow> net_state \<Rightarrow> net_state" where
  "trace_tcp_state_change upd e sk state s =
     (if sk = 0 then s
      else if state \<noteq> 1 then s
      else
        let skc = read_sock_common (env_offs e) (env_mem e) sk
        in if skc_family skc \<noteq> 2 then s
           else case get_and_validate_inum e sk s of
             None \<Rightarrow> s
           | Some inum \<Rightarrow>
               if should_filter_traffic s (skc_rcv_saddr skc) (skc_daddr skc) then s
               else
                 let sport = skc_num skc;
                     dport = bpf_ntohs (skc_dport skc);
                     direction = (if sport > 1024 then 1 else 2) :: u8;
                     conn = \<lparr>ck_inum = inum, ck_saddr = skc_rcv_saddr skc, ck_daddr = skc_daddr skc,
                             ck_dport = dport, ck_protocol = 1, ck_direction = direction\<rparr>;
                     (isnew, s1) = is_new_connection upd e conn s
                 in if \<not> isnew then s1
                    else report_network_event e
                      \<lparr>ne_inum = inum, ne_saddr = skc_rcv_saddr skc, ne_sport = sport,
                       ne_daddr = skc_daddr skc, ne_dport = dport, ne_kind = ucast direction\<rparr> s1)"

definition tcp_accept_entry :: "ctx_updater \<Rightarrow> bpf_env \<Rightarrow> u64 \<Rightarrow> net_state \<Rightarrow> net_state" where
  "tcp_accept_entry pupd e sk s =
     (case get_and_validate_inum e sk s of
        None \<Rightarrow> s
      | Some inum \<Rightarrow>
        (let ctx_data = \<lparr>tc_sk = 0, tc_inum = inum\<rparr>;
             tid = ucast (bpf_get_current_pid_tgid e)
         in s\<lparr>tcp_ctx := pupd (env_cpu e) (tcp_ctx s) tid ctx_data\<rparr>))"

definition tcp_accept_exit :: "conn_updater \<Rightarrow> bpf_env \<Rightarrow> u64 \<Rightarrow> net_state \<Rightarrow> net_state" where
  "tcp_accept_exit upd e new_sk s =
     (let tid = ucast (bpf_get_current_pid_tgid e)
      in case tcp_ctx s tid of
        None \<Rightarrow> s
      | Some slots \<Rightarrow>
        (let inum = tc_inum (slots (env_cpu e));
             s0 = s\<lparr>tcp_ctx := (tcp_ctx s)(tid := None)\<rparr>
         in if new_sk = 0 then s0
            else
              let skc = read_sock_common (env_offs e) (env_mem e) new_sk
              in if should_filter_traffic s0 (skc_rcv_saddr skc) (skc_daddr skc) then s0
                 else
                   let dport = bpf_ntohs (skc_dport skc);
                       conn = \<lparr>ck_inum = inum, ck_saddr = skc_rcv_saddr skc, ck_daddr = skc_daddr skc,
                               ck_dport = dport, ck_protocol = 1, ck_direction = 2\<rparr>;
                       (isnew, s1) = is_new_connection upd e conn s0
                   in if \<not> isnew then s1
                      else report_network_event e
                        \<lparr>ne_inum = inum, ne_saddr = skc_rcv_saddr skc, ne_sport = skc_num skc,
                         ne_daddr = skc_daddr skc, ne_dport = dport, ne_kind = 2\<rparr> s1))"

text \<open>The kprobe wrappers fetch the socket from the saved registers.\<close>

definition kprobe_tcp_accept_entry :: "ctx_updater \<Rightarrow> target_arch \<Rightarrow> bpf_env \<Rightarrow> bytes \<Rightarrow> net_state \<Rightarrow> net_state" where
  "kprobe_tcp_accept_entry pupd arch e regs s = tcp_accept_entry pupd e (pt_regs_parm1 arch regs) s"

definition kretprobe_tcp_accept_exit :: "conn_updater \<Rightarrow> target_arch \<Rightarrow> bpf_env \<Rightarrow> bytes \<Rightarrow> net_state \<Rightarrow> net_state" where
  "kretprobe_tcp_accept_exit upd arch e regs s = tcp_accept_exit upd e (pt_regs_rc arch regs) s"

section \<open>Layouts\<close>

lemma struct_network_event_data_layout [layout_simps]:
  "csize struct_network_event_data = 24" "calign struct_network_event_data = 8"
  "field_off struct_network_event_data ''inum'' = 0" "field_off struct_network_event_data ''saddr'' = 8"
  "field_off struct_network_event_data ''sport'' = 12" "field_off struct_network_event_data ''daddr'' = 16"
  "field_off struct_network_event_data ''dport'' = 20" "field_off struct_network_event_data ''kind'' = 22"
  by (simp_all add: field_off_def struct_network_event_data_def layout_simps cong: layout_cong)

lemma network_map_layouts [layout_simps]:
  "csize struct_conn_key = 24" "calign struct_conn_key = 8"
  "csize struct_conn_state = 24" "calign struct_conn_state = 8"
  "csize struct_tcp_connect_ctx = 16" "calign struct_tcp_connect_ctx = 8"
  by (simp_all add: struct_conn_key_def struct_conn_state_def struct_tcp_connect_ctx_def layout_simps cong: layout_cong)

end
