(* ===== verification/Netpolicy_Drop.thy ===== *)
theory Netpolicy_Drop
  imports Helper
begin

text \<open>
  \<^verbatim>\<open>src/controller/src/bpf/netpolicy_drop.bpf.c\<close>: the probe that infers connections dropped by a
  network policy from repeated SYN retransmissions.  Names that also occur in
  \<^verbatim>\<open>network_probe.bpf.c\<close> carry the prefix \<open>drop_\<close>.  Every program returns 0 on every path; its
  model returns the new state of the object's maps and ring buffer.  The parameter \<open>upd\<close> is
  \<^verbatim>\<open>bpf_map_update_elem\<close> on \<^verbatim>\<open>connection_tracking\<close>.
\<close>

section \<open>Data\<close>

definition TCP_ESTABLISHED :: int where
  "TCP_ESTABLISHED = 1"

definition TCP_SYN_SENT :: u8 where
  "TCP_SYN_SENT = 2"

record conn_attempt =
  ca_inum :: u64
  ca_saddr :: u32
  ca_daddr :: u32
  ca_sport :: u16
  ca_dport :: u16
  ca_protocol :: u8
  ca_pad :: u8        \<comment> \<open>no initializer names it, so it is 0\<close>

definition struct_conn_attempt :: ctype where
  "struct_conn_attempt = CStruct [
     Field ''inum'' typ___u64,
     Field ''saddr'' typ___u32,
     Field ''daddr'' typ___u32,
     Field ''sport'' typ___u16,
     Field ''dport'' typ___u16,
     Field ''protocol'' typ___u8,
     Field ''_pad'' typ___u8]"

record drop_conn_state =
  dc_first_syn_time :: u64
  dc_last_syn_time :: u64
  dc_syn_count :: u32
  dc_established :: u8

definition struct_drop_conn_state :: ctype where
  "struct_drop_conn_state = CStruct [
     Field ''first_syn_time'' typ___u64,
     Field ''last_syn_time'' typ___u64,
     Field ''syn_count'' typ___u32,
     Field ''established'' typ___u8]"

record policy_drop_event =
  pe_timestamp :: u64
  pe_inum :: u64
  pe_saddr :: u32
  pe_daddr :: u32
  pe_sport :: u16
  pe_dport :: u16
  pe_protocol :: u8
  pe_syn_retries :: u32

definition struct_policy_drop_event :: ctype where
  "struct_policy_drop_event = CStruct [
     Field ''timestamp'' typ___u64,
     Field ''inum'' typ___u64,
     Field ''saddr'' typ___u32,
     Field ''daddr'' typ___u32,
     Field ''sport'' typ___u16,
     Field ''dport'' typ___u16,
     Field ''protocol'' typ___u8,
     Field ''_pad'' typ___u8,
     Field ''syn_retries'' typ___u32]"

definition connection_tracking_map :: map_def where
  "connection_tracking_map = \<lparr>map_type = ''BPF_MAP_TYPE_LRU_HASH'', max_entries = 16384,
     key_type = Some struct_conn_attempt, value_type = Some struct_drop_conn_state\<rparr>"

definition policy_drop_events_map :: map_def where
  "policy_drop_events_map = \<lparr>map_type = ''BPF_MAP_TYPE_RINGBUF'', max_entries = 256 * 1024,
     key_type = None, value_type = None\<rparr>"

record drop_state = helper_maps +
  connection_tracking :: "conn_attempt \<rightharpoonup> drop_conn_state"
  policy_drop_events :: "bytes list"

type_synonym attempt_updater = "(conn_attempt, drop_conn_state) updater"

section \<open>Programs\<close>

text \<open>The record is filled in the order of the assignments; \<^verbatim>\<open>_pad\<close> is not written.\<close>

definition fill_policy_drop_event :: "policy_drop_event \<Rightarrow> bytes \<Rightarrow> bytes" where
  "fill_policy_drop_event ev buf =
     put (field_off struct_policy_drop_event ''syn_retries'') (enc32 (pe_syn_retries ev))
    (put (field_off struct_policy_drop_event ''protocol'') (enc8 (pe_protocol ev))
    (put (field_off struct_policy_drop_event ''dport'') (enc16 (pe_dport ev))
    (put (field_off struct_policy_drop_event ''sport'') (enc16 (pe_sport ev))
    (put (field_off struct_policy_drop_event ''daddr'') (enc32 (pe_daddr ev))
    (put (field_off struct_policy_drop_event ''saddr'') (enc32 (pe_saddr ev))
    (put (field_off struct_policy_drop_event ''inum'') (enc64 (pe_inum ev))
    (put (field_off struct_policy_drop_event ''timestamp'') (enc64 (pe_timestamp ev)) buf)))))))"

text \<open>The key that every program of the file builds, with the protocol number it uses.\<close>

definition attempt_key :: "u8 \<Rightarrow> u64 \<Rightarrow> sock_common \<Rightarrow> conn_attempt" where
  "attempt_key protocol inum skc = \<lparr>ca_inum = inum, ca_saddr = skc_rcv_saddr skc, ca_daddr = skc_daddr skc,
     ca_sport = skc_num skc, ca_dport = bpf_ntohs (skc_dport skc), ca_protocol = protocol, ca_pad = 0\<rparr>"

definition trace_tcp_retransmit :: "attempt_updater \<Rightarrow> bpf_env \<Rightarrow> u64 \<Rightarrow> drop_state \<Rightarrow> drop_state" where
  "trace_tcp_retransmit upd e sk s =
     (if sk = 0 then s
      else case get_and_validate_inum e sk s of
        None \<Rightarrow> s
      | Some inum \<Rightarrow>
        (let skc = read_sock_common (env_offs e) (env_mem e) sk
         in if should_filter_traffic s (skc_rcv_saddr skc) (skc_daddr skc) then s
            else if read_skc_state (env_offs e) (env_mem e) sk = TCP_SYN_SENT then
              (let key = attempt_key 6 inum skc;
                   now = bpf_ktime_get_ns e
               in case connection_tracking s key of
                 None \<Rightarrow>
                   s\<lparr>connection_tracking := upd (connection_tracking s) key
                       \<lparr>dc_first_syn_time = now, dc_last_syn_time = now, dc_syn_count = 2, dc_established = 0\<rparr>\<rparr>
               | Some st \<Rightarrow>
                   (let st1 = st\<lparr>dc_last_syn_time := now, dc_syn_count := dc_syn_count st + 1\<rparr>;
                        s1 = s\<lparr>connection_tracking := (connection_tracking s)(key \<mapsto> st1)\<rparr>
                    in if dc_syn_count st1 \<ge> 4 \<and> dc_established st1 = 0 then
                         (case bpf_ringbuf_reserve e (csize struct_policy_drop_event) of
                            None \<Rightarrow> s1
                          | Some buf \<Rightarrow>
                              s1\<lparr>policy_drop_events := bpf_ringbuf_submit (policy_drop_events s1)
                                  (fill_policy_drop_event
                                     \<lparr>pe_timestamp = now, pe_inum = inum, pe_saddr = ca_saddr key,
                                      pe_daddr = ca_daddr key, pe_sport = ca_sport key, pe_dport = ca_dport key,
                                      pe_protocol = 6, pe_syn_retries = dc_syn_count st1\<rparr> buf),
                                 connection_tracking := (connection_tracking s)(key \<mapsto>
                                   st1\<lparr>dc_established := 1\<rparr>)\<rparr>)
                       else s1))
            else s))"

definition trace_tcp_connect :: "attempt_updater \<Rightarrow> bpf_env \<Rightarrow> u64 \<Rightarrow> drop_state \<Rightarrow> drop_state" where
  "trace_tcp_connect upd e sk s =
     (if sk = 0 then s
      else case get_and_validate_inum e sk s of
        None \<Rightarrow> s
      | Some inum \<Rightarrow>
        (let skc = read_sock_common (env_offs e) (env_mem e) sk
         in if should_filter_traffic s (skc_rcv_saddr skc) (skc_daddr skc) then s
            else
              let key = attempt_key 6 inum skc;
                  initial_state = \<lparr>dc_first_syn_time = bpf_ktime_get_ns e, dc_last_syn_time = 0,
                    dc_syn_count = 1, dc_established = 0\<rparr>
              in s\<lparr>connection_tracking := upd (connection_tracking s) key initial_state\<rparr>))"

definition drop_trace_tcp_state_change :: "bpf_env \<Rightarrow> u64 \<Rightarrow> int \<Rightarrow> drop_state \<Rightarrow> drop_state" where
  "drop_trace_tcp_state_change e sk state s =
     (if sk = 0 then s
      else if state = TCP_ESTABLISHED then
        (case get_and_validate_inum e sk s of
           None \<Rightarrow> s
         | Some inum \<Rightarrow>
           (let skc = read_sock_common (env_offs e) (env_mem e) sk;
                key = attempt_key 6 inum skc
            in case connection_tracking s key of
              None \<Rightarrow> s
            | Some st \<Rightarrow>
                s\<lparr>connection_tracking := (connection_tracking s)(key \<mapsto> st\<lparr>dc_established := 1\<rparr>)\<rparr>))
      else s)"

definition drop_trace_udp_send :: "attempt_updater \<Rightarrow> bpf_env \<Rightarrow> u64 \<Rightarrow> drop_state \<Rightarrow> drop_state" where
  "drop_trace_udp_send upd e sk s =
     (if sk = 0 then s
      else case get_and_validate_inum e sk s of
        None \<Rightarrow> s
      | Some inum \<Rightarrow>
        (let skc = read_sock_common (env_offs e) (env_mem e) sk
         in if should_filter_traffic s (skc_rcv_saddr skc) (skc_daddr skc) then s
            else
              let key = attempt_key 17 inum skc;
                  now = bpf_ktime_get_ns e
              in case connection_tracking s key of
                None \<Rightarrow>
                  s\<lparr>connection_tracking := upd (connection_tracking s) key
                      \<lparr>dc_first_syn_time = now, dc_last_syn_time = now, dc_syn_count = 1, dc_established = 0\<rparr>\<rparr>
              | Some st \<Rightarrow>
                  s\<lparr>connection_tracking := (connection_tracking s)(key \<mapsto>
                      st\<lparr>dc_last_syn_time := now, dc_syn_count := dc_syn_count st + 1\<rparr>)\<rparr>))"

section \<open>Layouts\<close>

lemma struct_policy_drop_event_layout [layout_simps]:
  "csize struct_policy_drop_event = 40" "calign struct_policy_drop_event = 8"
  "field_off struct_policy_drop_event ''timestamp'' = 0" "field_off struct_policy_drop_event ''inum'' = 8"
  "field_off struct_policy_drop_event ''saddr'' = 16" "field_off struct_policy_drop_event ''daddr'' = 20"
  "field_off struct_policy_drop_event ''sport'' = 24" "field_off struct_policy_drop_event ''dport'' = 26"
  "field_off struct_policy_drop_event ''protocol'' = 28" "field_off struct_policy_drop_event ''_pad'' = 29"
  "field_off struct_policy_drop_event ''syn_retries'' = 32"
  by (simp_all add: field_off_def struct_policy_drop_event_def layout_simps cong: layout_cong)

lemma drop_map_layouts [layout_simps]:
  "csize struct_conn_attempt = 24" "calign struct_conn_attempt = 8"
  "csize struct_drop_conn_state = 24" "calign struct_drop_conn_state = 8"
  by (simp_all add: struct_conn_attempt_def struct_drop_conn_state_def layout_simps cong: layout_cong)

end
