(* ===== verification/Syscall_Probe.thy ===== *)
theory Syscall_Probe
  imports Helper
begin

text \<open>
  \<^verbatim>\<open>src/controller/src/bpf/syscall.bpf.c\<close>: the tracepoint program on \<^verbatim>\<open>raw_syscalls/sys_enter\<close>.
  The context is the byte image of \<^verbatim>\<open>struct trace_event_raw_sys_enter\<close>; the program returns 0
  on every path, so the result is the new state.
\<close>

definition syscall_events_map :: map_def where
  "syscall_events_map = \<lparr>map_type = ''BPF_MAP_TYPE_RINGBUF'', max_entries = 128 * 1024,
     key_type = None, value_type = None\<rparr>"

definition struct_data_t :: ctype where
  "struct_data_t = CStruct [Field ''inum'' typ___u64, Field ''sysnbr'' typ___u64]"

record syscall_state = helper_maps +
  syscall_events :: "bytes list"

definition sys_enter_id :: "bytes \<Rightarrow> u64" where
  "sys_enter_id ctx = dec64 (field_off struct_trace_event_raw_sys_enter ''id'') ctx"

definition fill_data_t :: "u64 \<Rightarrow> u64 \<Rightarrow> bytes \<Rightarrow> bytes" where
  "fill_data_t inum sysnbr buf =
     put (field_off struct_data_t ''inum'') (enc64 inum)
    (put (field_off struct_data_t ''sysnbr'') (enc64 sysnbr) buf)"

definition trace_execve :: "bpf_env \<Rightarrow> bytes \<Rightarrow> syscall_state \<Rightarrow> syscall_state" where
  "trace_execve e ctx s =
     (let task = bpf_get_current_task e;
          net_ns = ucast (read_task_inum (env_offs e) (env_mem e) task)
      in case inode_num s net_ns of
        None \<Rightarrow> s
      | Some inum \<Rightarrow>
        (let syscall_id = ucast (sys_enter_id ctx) :: u32;
             allowed = allowed_syscalls s syscall_id;
             test = allowed_syscalls s 0
         in if test \<noteq> None \<and> allowed = None then s
            else case bpf_ringbuf_reserve e (csize struct_data_t) of
              None \<Rightarrow> s
            | Some data \<Rightarrow>
                s\<lparr>syscall_events := bpf_ringbuf_submit (syscall_events s)
                    (fill_data_t net_ns (sys_enter_id ctx) data)\<rparr>))"

lemma struct_data_t_layout [layout_simps]:
  "csize struct_data_t = 16" "calign struct_data_t = 8" "wf_ctype struct_data_t"
  "field_off struct_data_t ''inum'' = 0" "field_off struct_data_t ''sysnbr'' = 8"
  by (simp_all add: field_off_def struct_data_t_def layout_simps cong: layout_cong)

lemma sys_enter_id_off [layout_simps]: "field_off struct_trace_event_raw_sys_enter ''id'' = 8"
  by (simp add: field_off_def struct_trace_event_raw_sys_enter_def layout_simps cong: layout_cong)

text \<open>The condition under which an entry of the tracepoint is reported.\<close>

definition syscall_wanted :: "'a helper_maps_scheme \<Rightarrow> u64 \<Rightarrow> u32 \<Rightarrow> bool" where
  "syscall_wanted s net_ns nr \<longleftrightarrow>
     net_ns \<in> dom (inode_num s) \<and> (0 \<in> dom (allowed_syscalls s) \<longrightarrow> nr \<in> dom (allowed_syscalls s))"

lemma trace_execve_cases:
  defines "ns e \<equiv> ucast (read_task_inum (env_offs e) (env_mem e) (bpf_get_current_task e))"
  shows "trace_execve e ctx s =
    (case (if syscall_wanted s (ns e) (ucast (sys_enter_id ctx)) then bpf_ringbuf_reserve e 16 else None) of
       None \<Rightarrow> s
     | Some buf \<Rightarrow> s\<lparr>syscall_events := syscall_events s @ [fill_data_t (ns e) (sys_enter_id ctx) buf]\<rparr>)"
  by (auto simp: trace_execve_def syscall_wanted_def ns_def bpf_ringbuf_submit_def layout_simps Let_def
      split: option.splits)

end
