(* ===== verification/Controller_Feed.thy ===== *)
theory Controller_Feed
  imports Helper
begin

text \<open>
  The userspace side of the maps of \<^verbatim>\<open>helper.h\<close>, from \<^verbatim>\<open>src/controller/src/bpf.rs\<close>: the poll loop
  of \<^verbatim>\<open>ebpf_handle\<close> adds network namespaces and ignored addresses, \<^verbatim>\<open>populate_syscall_allowlist\<close>
  fills the syscall allowlist before the probe is attached.  Keys and values cross as native
  byte strings (\<^verbatim>\<open>to_ne_bytes\<close>), which the kernel reads as integers again.
\<close>

section \<open>Namespaces and ignored addresses\<close>

definition track_inode :: "(u64, u32) updater \<Rightarrow> u64 \<Rightarrow> 'a helper_maps_scheme \<Rightarrow> 'a helper_maps_scheme" where
  "track_inode iupd inum s =
     s\<lparr>inode_num := iupd (inode_num s) (dec64 0 (enc64 inum)) (dec32 0 (enc32 1))\<rparr>"

text \<open>An IPv4 address is its four octets; \<^verbatim>\<open>u32::from\<close> reads them most significant first, and
  \<^verbatim>\<open>to_be\<close> swaps the bytes on a little-endian host.\<close>

type_synonym ipv4 = "u8 \<times> u8 \<times> u8 \<times> u8"

fun u32_from_ipv4 :: "ipv4 \<Rightarrow> u32" where
  "u32_from_ipv4 (a, b, c, d) = word_of_nat (le_nat [d, c, b, a])"

definition to_be :: "u32 \<Rightarrow> u32" where
  "to_be w = word_of_nat (le_nat (rev (enc32 w)))"

definition ignore_key :: "ipv4 \<Rightarrow> u32" where
  "ignore_key ip = dec32 0 (enc32 (to_be (u32_from_ipv4 ip)))"

definition ignore_ip :: "(u32, u32) updater \<Rightarrow> ipv4 \<Rightarrow> 'a helper_maps_scheme \<Rightarrow> 'a helper_maps_scheme" where
  "ignore_ip gupd ip s =
     s\<lparr>ignore_ips := gupd (ignore_ips s) (ignore_key ip) (dec32 0 (enc32 1))\<rparr>"

section \<open>The syscall allowlist\<close>

definition security_syscalls :: "u32 list" where
  "security_syscalls = [59, 322, 57, 58, 56, 231,
     41, 42, 43, 288, 49, 50, 46, 47, 44, 45,
     2, 257, 318, 85, 87, 263, 82, 264, 316, 83, 84, 88, 266,
     105, 106, 117, 119, 114, 113, 157, 101, 155, 165, 166, 167, 168,
     175, 313, 176,
     126,
     321,
     308, 272,
     227, 228,
     248,
     78, 217, 0, 1]"

text \<open>The loop stops at the first update that fails (\<^verbatim>\<open>?\<close>): \<open>Inl\<close> is the error, with the
  entries stored so far.  The update is a parameter: \<open>None\<close> is its failure.\<close>

fun populate :: "((u32 \<rightharpoonup> u32) \<Rightarrow> u32 \<Rightarrow> u32 \<Rightarrow> (u32 \<rightharpoonup> u32) option) \<Rightarrow> u32 list \<Rightarrow> (u32 \<rightharpoonup> u32)
    \<Rightarrow> (u32 \<rightharpoonup> u32) + (u32 \<rightharpoonup> u32)" where
  "populate up [] m = Inr m"
| "populate up (nr # nrs) m =
     (case up m (dec32 0 (enc32 nr)) (dec32 0 (enc32 1)) of
        None \<Rightarrow> Inl m
      | Some m' \<Rightarrow> populate up nrs m')"

definition populate_syscall_allowlist :: "((u32 \<rightharpoonup> u32) \<Rightarrow> u32 \<Rightarrow> u32 \<Rightarrow> (u32 \<rightharpoonup> u32) option)
    \<Rightarrow> (u32 \<rightharpoonup> u32) \<Rightarrow> (u32 \<rightharpoonup> u32) + (u32 \<rightharpoonup> u32)" where
  "populate_syscall_allowlist up m = populate up security_syscalls m"

section \<open>Byte order\<close>

lemma enc32_of_le_nat: "length bs = 4 \<Longrightarrow> enc32 (word_of_nat (le_nat bs)) = bs"
  using le_nat_bound [of bs] le_bytes_le_nat [of bs]
  by (simp add: enc32_def unsigned_of_nat take_bit_eq_mod)

lemma enc32_ignore_key: "enc32 (ignore_key (a, b, c, d)) = [a, b, c, d]"
proof -
  have "ignore_key (a, b, c, d) = to_be (u32_from_ipv4 (a, b, c, d))"
    by (simp only: ignore_key_def dec_enc)
  moreover have "enc32 (u32_from_ipv4 (a, b, c, d)) = [d, c, b, a]"
    by (simp only: u32_from_ipv4.simps, rule enc32_of_le_nat) simp
  ultimately show ?thesis
    by (simp add: to_be_def enc32_of_le_nat del: le_nat.simps)
qed

lemma enc32_bytes:
  "enc32 w = [word_of_nat (unat w), word_of_nat (unat w div 256), word_of_nat (unat w div 256 div 256),
     word_of_nat (unat w div 256 div 256 div 256)]"
proof -
  have "(4 :: nat) = Suc (Suc (Suc (Suc 0)))" by simp
  then show ?thesis by (simp only: enc32_def le_bytes.simps)
qed

lemma enc32_inj: "enc32 x = enc32 y \<Longrightarrow> x = y"
  by (metis dec_enc(3))

lemma track_inode_dom [simp]:
  "ignore_ips (track_inode iupd i s) = ignore_ips s"
  "allowed_syscalls (track_inode iupd i s) = allowed_syscalls s"
  "inode_num (ignore_ip gupd ip s) = inode_num s"
  "allowed_syscalls (ignore_ip gupd ip s) = allowed_syscalls s"
  by (simp_all add: track_inode_def ignore_ip_def)

lemma track_inode_inum: "inode_num (track_inode iupd i s) = iupd (inode_num s) i 1"
  by (simp add: track_inode_def bytes_simps)

lemma ignore_ip_map: "ignore_ips (ignore_ip gupd ip s) = gupd (ignore_ips s) (ignore_key ip) 1"
  by (simp add: ignore_ip_def bytes_simps)

section \<open>What the allowlist holds\<close>

text \<open>An update that never fails stores what it is given.\<close>

lemma populate_ok:
  assumes "\<And>m k v. up m k v = Some (m(k \<mapsto> v))"
  shows "\<exists>m'. populate up nrs m = Inr m' \<and> dom m' = dom m \<union> set nrs"
  using assms
proof (induction nrs arbitrary: m)
  case (Cons nr nrs)
  then obtain m' where "populate up nrs (m(nr \<mapsto> 1)) = Inr m'"
    and "dom m' = dom (m(nr \<mapsto> 1)) \<union> set nrs" by blast
  moreover have "up m nr 1 = Some (m(nr \<mapsto> 1))" by (rule Cons.prems)
  ultimately show ?case by (simp add: bytes_simps)
qed simp

text \<open>A failure leaves a prefix of the list.\<close>

lemma populate_prefix:
  assumes up: "\<And>m k v m'. up m k v = Some m' \<Longrightarrow> m' = m(k \<mapsto> v)"
    and "populate up nrs m = Inl m'"
  shows "\<exists>n < length nrs. dom m' = dom m \<union> set (take n nrs)"
  using assms(2)
proof (induction nrs arbitrary: m)
  case (Cons nr nrs)
  show ?case
  proof (cases "up m nr 1")
    case None
    with Cons.prems show ?thesis by (auto simp: bytes_simps)
  next
    case (Some m1)
    with Cons.prems have "populate up nrs m1 = Inl m'" by (simp add: bytes_simps)
    from Cons.IH [OF this] obtain n where "n < length nrs" "dom m' = dom m1 \<union> set (take n nrs)" by blast
    with up [OF Some] show ?thesis by (intro exI [of _ "Suc n"]) auto
  qed
qed simp

end
