(* ===== verification/Demo.thy ===== *)
theory Demo
  imports Network_Probe Syscall_Probe
begin

text \<open>
  Concrete kernel memory images, environments and states, at which the theorems of the other
  theories are instantiated: one socket at address \<open>0x1000\<close>, its network namespace at
  \<open>0x5000\<close>, and one task at \<open>0x9000\<close>.
\<close>

section \<open>Memory images\<close>

definition mem_region :: "u64 \<Rightarrow> bytes \<Rightarrow> kmem" where
  "mem_region a bs = (\<lambda>x. if unat (x - a) < length bs then Some (bs ! unat (x - a)) else None)"

lemma holds_nth: "holds m a bs \<longleftrightarrow> (\<forall>i < length bs. m (a + word_of_nat i) = Some (bs ! i))"
  unfolding holds_def list_eq_iff_nth_eq [of "map _ [0..<length bs]"] by simp

lemma holds_mem_region:
  assumes "length bs < 2 ^ 64" shows "holds (mem_region a bs) a bs"
  unfolding holds_nth
proof (intro allI impI)
  fix i assume i: "i < length bs"
  with assms have "unat (word_of_nat i :: u64) = i" by (simp add: unsigned_of_nat take_bit_eq_mod)
  with i show "mem_region a bs (a + word_of_nat i) = Some (bs ! i)" by (simp add: mem_region_def)
qed

lemma holds_slice:
  assumes "holds m a bs" and "off + n \<le> length bs"
  shows "holds m (a + word_of_nat off) (slice off n bs)"
  unfolding holds_nth
proof (intro allI impI)
  fix i assume "i < length (slice off n bs)"
  then have i: "i < n" by (simp add: length_slice)
  with assms(2) have "off + i < length bs" by simp
  with assms(1) have "m (a + word_of_nat (off + i)) = Some (bs ! (off + i))" unfolding holds_nth by blast
  with i assms(2) show "m (a + word_of_nat off + word_of_nat i) = Some (slice off n bs ! i)"
    by (simp add: nth_slice add.assoc)
qed

lemma holds_add_right: "holds m2 a bs \<Longrightarrow> holds (m1 ++ m2) a bs"
  by (simp add: holds_nth map_add_def)

lemma holds_add_left:
  "holds m1 a bs \<Longrightarrow> \<forall>i < length bs. m2 (a + word_of_nat i) = None \<Longrightarrow> holds (m1 ++ m2) a bs"
  by (simp add: holds_nth map_add_def)

lemma mem_region_outside:
  assumes "unat a + n \<le> unat b" and "unat b + length bs \<le> 2 ^ 64" and "i < n"
  shows "mem_region b bs (a + word_of_nat i) = None"
proof -
  have i: "unat a + i < unat b" using assms by simp
  have b: "unat b < 2 ^ 64" using unsigned_less [of b, where ?'a = nat] by simp
  have ai: "unat (a + word_of_nat i) = unat a + i"
    using i b by (simp add: unat_word_ariths unsigned_of_nat take_bit_eq_mod)
  have "unat (a + word_of_nat i - b) = 2 ^ 64 + (unat a + i) - unat b"
    using i b by (simp add: unat_sub_if' ai word_le_nat_alt)
  then show ?thesis using assms i by (simp add: mem_region_def)
qed

definition sock_image :: "sock_common \<Rightarrow> u64 \<Rightarrow> bytes" where
  "sock_image skc net = store_sock_common skc (put 48 (enc64 net) (replicate 136 0))"

definition demo_mem :: "sock_common \<Rightarrow> u32 \<Rightarrow> kmem" where
  "demo_mem skc inum = mem_region 0x1000 (sock_image skc 0x5000) ++ mem_region 0x5140 (enc32 inum)"

lemma sock_image_net: "slice 48 8 (sock_image skc net) = enc64 net"
  by (simp add: sock_image_def store_sock_common_def layout_simps slice_put_other slice_put_same)

lemma length_sock_image [simp]: "length (sock_image skc net) = 136"
  by (simp add: sock_image_def)

lemma demo_mem_sock: "holds (demo_mem skc inum) 0x1000 (sock_image skc 0x5000)"
  unfolding demo_mem_def
  by (intro holds_add_left holds_mem_region allI impI mem_region_outside [where n = 136]) auto

lemma demo_sock_at: "sock_at vmlinux_offs (demo_mem skc inum) 0x1000 skc inum"
proof -
  have "holds (demo_mem skc inum) (0x1000 + word_of_nat 48) (enc64 0x5000)"
    using holds_slice [OF demo_mem_sock, of 48 8 skc inum] by (simp add: sock_image_net)
  moreover have "holds (demo_mem skc inum) 0x5140 (enc32 inum)"
    unfolding demo_mem_def by (intro holds_add_right holds_mem_region) simp
  ultimately show ?thesis
    using demo_mem_sock [of skc inum]
    by (auto simp: sock_at_def layout_simps sock_image_def intro!: exI [of _ "0x5000"]
        exI [of _ "put 48 (enc64 0x5000) (replicate 136 0)"])
qed

text \<open>A task at \<open>0x9000\<close> whose \<^verbatim>\<open>nsproxy\<close> is at \<open>0xA000\<close>.\<close>

definition demo_task_mem :: "u32 \<Rightarrow> kmem" where
  "demo_task_mem inum =
     mem_region 0x5140 (enc32 inum) ++ (mem_region 0x96A8 (enc64 0xA000) ++ mem_region 0xA028 (enc64 0x5000))"

lemma demo_task_holds:
  "holds (demo_task_mem inum) (0x9000 + word_of_nat 1704) (enc64 0xA000)"
  "holds (demo_task_mem inum) (0xA000 + word_of_nat 40) (enc64 0x5000)"
  "holds (demo_task_mem inum) (0x5000 + word_of_nat 320) (enc32 inum)"
proof -
  show "holds (demo_task_mem inum) (0x9000 + word_of_nat 1704) (enc64 0xA000)"
    unfolding demo_task_mem_def
    by (intro holds_add_right holds_add_left allI impI mem_region_outside [where n = 8])
      (auto intro: holds_mem_region)
  show "holds (demo_task_mem inum) (0xA000 + word_of_nat 40) (enc64 0x5000)"
    unfolding demo_task_mem_def by (intro holds_add_right) (auto intro: holds_mem_region)
  have "holds (mem_region 0x5140 (enc32 inum)) (0x5000 + word_of_nat 320) (enc32 inum)"
    using holds_mem_region [of "enc32 inum" "0x5140"] by simp
  moreover have "mem_region 0x96A8 (enc64 0xA000) (0x5140 + word_of_nat i) = None"
    "mem_region 0xA028 (enc64 0x5000) (0x5140 + word_of_nat i) = None" if "i < 4" for i
    using that by (intro mem_region_outside [where n = 4]; simp)+
  ultimately show "holds (demo_task_mem inum) (0x5000 + word_of_nat 320) (enc32 inum)"
    unfolding demo_task_mem_def by (intro holds_add_left allI impI) (simp_all add: map_add_def)
qed

section \<open>Environments and states\<close>

definition demo_env :: "sock_common \<Rightarrow> u32 \<Rightarrow> bpf_env" where
  "demo_env skc inum = \<lparr>env_mem = demo_mem skc inum, env_offs = vmlinux_offs, bpf_ktime_get_ns = 7,
     bpf_get_current_pid_tgid = 0x1100000022, bpf_get_current_task = 0x9000, env_cpu = 0,
     bpf_ringbuf_reserve = (\<lambda>n. Some (replicate n 0))\<rparr>"

lemma demo_env_sel [simp]:
  "env_mem (demo_env skc inum) = demo_mem skc inum" "env_offs (demo_env skc inum) = vmlinux_offs"
  "bpf_ktime_get_ns (demo_env skc inum) = 7" "env_cpu (demo_env skc inum) = 0"
  "bpf_get_current_pid_tgid (demo_env skc inum) = 0x1100000022"
  "bpf_get_current_task (demo_env skc inum) = 0x9000"
  "bpf_ringbuf_reserve (demo_env skc inum) = (\<lambda>n. Some (replicate n 0))"
  by (simp_all add: demo_env_def)

lemma demo_env_ok [simp]: "env_ok (demo_env skc inum)"
  by (simp add: env_ok_def)

text \<open>A client: 10.0.0.5, port 40000, to 10.0.0.9, port 443.\<close>

definition demo_client :: sock_common where
  "demo_client = \<lparr>skc_daddr = 0x0900000A, skc_rcv_saddr = 0x0500000A, skc_dport = bpf_htons 443,
     skc_num = 40000, skc_family = 2, skc_state = 2\<rparr>"

definition demo_net :: net_state where
  "demo_net = \<lparr>inode_num = [4026531840 \<mapsto> 1], ignore_ips = Map.empty, allowed_syscalls = Map.empty,
     connections = Map.empty, tcp_ctx = Map.empty, network_events = []\<rparr>"

abbreviation no_evict :: "('k, 'v) updater" where
  "no_evict \<equiv> lru_update (\<lambda>_ _. [])"

lemma no_evict_retains [simp]: "retains no_evict k"
  by (simp add: retains_def lru_update_def)

end
