(* ===== verification/Helper_Props.thy ===== *)
theory Helper_Props
  imports Network_Probe Netpolicy_Drop Syscall_Probe Controller_Feed Demo
begin

text \<open>
  The properties of what all probes share: the kernel layouts their reads rely on, the reads
  themselves, the address filter and the ignore list the controller feeds, the declared maps.
\<close>

section \<open>Layouts\<close>

text \<open>
  the offsets the compiler takes from \<^verbatim>\<open>vmlinux.h\<close> for every access path of the three
  probes, computed from the declarations.
\<close>

lemma kernel_offsets:
  "vmlinux_offs = \<lparr>off_sk_common = 0, off_skc_net = 48, off_skc_state = 18, off_ns_inum = 320,
     off_nsproxy = 1704, off_net_ns = 40\<rparr>"
  by (intro core_offs.equality) (simp_all add: layout_simps)

lemma first_members:
  "member ''__sk_common'' struct_sock = Some (0, struct_sock_common)"
  "member ''sk'' struct_inet_sock = Some (0, struct_sock)"
  "member ''icsk_inet'' struct_inet_connection_sock = Some (0, struct_inet_sock)"
  "member ''inet_conn'' struct_tcp_sock = Some (0, struct_inet_connection_sock)"
  "member ''inet'' struct_udp_sock = Some (0, struct_inet_sock)"
  "member ''inet'' struct_raw_sock = Some (0, struct_inet_sock)"
  "member ''__req_common'' struct_request_sock = Some (0, struct_sock_common)"
  "member ''req'' struct_inet_request_sock = Some (0, struct_request_sock)"
  "member ''req'' struct_tcp_request_sock = Some (0, struct_inet_request_sock)"
  "member ''__tw_common'' struct_inet_timewait_sock = Some (0, struct_sock_common)"
  "member ''tw_sk'' struct_tcp_timewait_sock = Some (0, struct_inet_timewait_sock)"
  unfolding struct_sock_def struct_inet_sock_def struct_inet_connection_sock_def struct_tcp_sock_def
    struct_udp_sock_def struct_raw_sock_def struct_request_sock_def struct_inet_request_sock_def
    struct_tcp_request_sock_def struct_inet_timewait_sock_def struct_tcp_timewait_sock_def
  by (simp_all add: layout_simps)

text \<open>
  the pointer a probe receives as \<^verbatim>\<open>struct sock *\<close> may point to any kind of IPv4 socket: in
  each of them the \<^verbatim>\<open>sock_common\<close> that the probes copy is at offset 0 and lies inside the
  object.
\<close>

theorem sock_common_first:
  "list_all (\<lambda>(t, path). offsetof t path = Some 0 \<and> csize struct_sock_common \<le> csize t)
     [(struct_sock, [''__sk_common'']),
      (struct_inet_sock, [''sk'', ''__sk_common'']),
      (struct_tcp_sock, [''inet_conn'', ''icsk_inet'', ''sk'', ''__sk_common'']),
      (struct_udp_sock, [''inet'', ''sk'', ''__sk_common'']),
      (struct_raw_sock, [''inet'', ''sk'', ''__sk_common'']),
      (struct_tcp_request_sock, [''req'', ''req'', ''__req_common'']),
      (struct_tcp_timewait_sock, [''tw_sk'', ''__tw_common''])]"
  by (simp add: first_members layout_simps)

section \<open>Reads\<close>

text \<open>
  whatever the layout of the running kernel, a probe that reads a socket in memory gets the
  six members and the namespace number that are stored there, and a fault while the
  \<^verbatim>\<open>sock_common\<close> is copied gives all zeros.
\<close>

theorem socket_read_exact:
  "(sock_at K m sk skc inum \<longrightarrow> read_sock_common K m sk = skc \<and> read_sk_inum K m sk = inum)
   \<and> (\<forall>i < csize struct_sock_common. m (sk + word_of_nat (off_sk_common K) + word_of_nat i) = None \<longrightarrow>
        read_sock_common K m sk = \<lparr>skc_daddr = 0, skc_rcv_saddr = 0, skc_dport = 0, skc_num = 0,
          skc_family = 0, skc_state = 0\<rparr>)"
  using read_sock_common_at read_sk_inum_at read_sock_common_fault [of _ m sk K]
  by (auto simp: layout_simps zero_sock_common_def)

theorem socket_read_exact_witness:
  "read_sock_common vmlinux_offs (demo_mem demo_client 4026531840) 0x1000 = demo_client
   \<and> read_sk_inum vmlinux_offs (demo_mem demo_client 4026531840) 0x1000 = 4026531840"
  using socket_read_exact [of vmlinux_offs "demo_mem demo_client 4026531840" "0x1000" demo_client 4026531840]
    demo_sock_at [of demo_client 4026531840]
  by simp

section \<open>The address filter\<close>

text \<open>
  the filter drops a pair of addresses exactly when they are equal or one of them is
  0.0.0.0, 127.0.0.1 (as its bytes stand in memory) or on the ignore list; the order of the two
  does not matter.
\<close>

theorem should_filter_spec:
  "(should_filter_traffic s saddr daddr \<longleftrightarrow> saddr = daddr
      \<or> (\<exists>a \<in> {saddr, daddr}. enc32 a = [0, 0, 0, 0] \<or> enc32 a = [127, 0, 0, 1] \<or> ignore_ips s a \<noteq> None))
   \<and> should_filter_traffic s saddr daddr = should_filter_traffic s daddr saddr"
proof -
  have "enc32 0 = [0, 0, 0, 0]" "enc32 localhost = [127, 0, 0, 1]"
    by (simp_all add: enc32_bytes localhost_def)
  then have "enc32 a = [0, 0, 0, 0] \<longleftrightarrow> a = 0" "enc32 a = [127, 0, 0, 1] \<longleftrightarrow> a = localhost" for a
    by (metis enc32_inj)+
  then show ?thesis by (auto simp: should_filter_iff unusable_addr_def)
qed

theorem should_filter_spec_witness:
  "should_filter_traffic demo_net localhost 0x0900000A"
proof -
  have "enc32 localhost = [127, 0, 0, 1]" by (simp add: enc32_bytes localhost_def)
  then show ?thesis using should_filter_spec [of demo_net localhost "0x0900000A"] by simp
qed

text \<open>
  an address the controller ignores.  After \<open>a.b.c.d\<close> was put on the ignore list, traffic
  from or to the address whose bytes in a packet are \<open>a, b, c, d\<close> is dropped by the filter; and
  nothing else is dropped that was not dropped before.
\<close>

theorem ignored_ip_filtered:
  assumes "map_update_ok gupd" and "enc32 w = [a, b, c, d]"
  shows "should_filter_traffic (ignore_ip gupd (a, b, c, d) s) w x
    \<and> should_filter_traffic (ignore_ip gupd (a, b, c, d) s) x w
    \<and> (should_filter_traffic (ignore_ip gupd (a, b, c, d) s) x y \<longrightarrow>
         should_filter_traffic s x y \<or> x = w \<or> y = w)"
proof -
  have w: "ignore_key (a, b, c, d) = w"
    using assms(2) by (metis enc32_ignore_key enc32_inj)
  let ?m = "gupd (ignore_ips s) w 1"
  have "?m w = Some 1" by (rule map_update_ok.upd_stored [OF assms(1)])
  moreover have "ignore_ips s z \<noteq> None \<or> z = w" if "?m z \<noteq> None" for z
    using that map_update.upd_Some [OF map_update_ok.axioms(1) [OF assms(1)], of "ignore_ips s" w 1 z] by auto
  ultimately show ?thesis
    by (auto simp: should_filter_iff unusable_addr_def ignore_ip_map w)
qed

theorem ignored_ip_filtered_witness:
  "should_filter_traffic (ignore_ip no_evict (10, 0, 0, 9) demo_net) 0x0500000A 0x0900000A
   \<and> \<not> should_filter_traffic (ignore_ip no_evict (10, 0, 0, 9) demo_net) 0x0500000A 0x0800000A"
proof -
  have e: "enc32 0x0900000A = [10, 0, 0, 9]" by (simp add: enc32_bytes)
  have "\<not> should_filter_traffic demo_net 0x0500000A 0x0800000A"
    by (simp add: should_filter_traffic_def demo_net_def localhost_def)
  then show ?thesis
    using ignored_ip_filtered [OF lru.map_update_ok_axioms e, of "\<lambda>_ _. []" demo_net "0x0500000A"]
      ignored_ip_filtered [OF lru.map_update_ok_axioms e, of "\<lambda>_ _. []" demo_net "0x0500000A" "0x0800000A"]
    by auto
qed

section \<open>Maps\<close>

text \<open>
  the nine declared maps: the map type each one names is an enumerator of
  \<^verbatim>\<open>enum bpf_map_type\<close> (LRU hash 9, hash 1, LRU per-CPU hash 10, ring buffer 27), keys and values
  have the sizes of the C types, and each ring buffer is a power of two of 4 KiB pages, as the
  kernel demands.
\<close>

theorem map_definitions:
  "map (\<lambda>d. (enum_value enum_bpf_map_type (map_type d), map_option csize (key_type d), map_option csize (value_type d)))
     [inode_num_map, ignore_ips_map, allowed_syscalls_map, connections_map, tcp_ctx_map, connection_tracking_map] =
     [(Some 9, Some 8, Some 4), (Some 9, Some 4, Some 4), (Some 1, Some 4, Some 4),
      (Some 9, Some 24, Some 24), (Some 10, Some 4, Some 16), (Some 9, Some 24, Some 24)]
   \<and> list_all (\<lambda>d. enum_value enum_bpf_map_type (map_type d) = Some 27 \<and> key_type d = None \<and> value_type d = None
        \<and> (\<exists>k. max_entries d = 4096 * 2 ^ k))
      [syscall_events_map, network_events_map, policy_drop_events_map]"
proof -
  have "\<exists>k. (131072 :: nat) = 4096 * 2 ^ k" by (rule exI [of _ 5]) simp
  moreover have "\<exists>k. (262144 :: nat) = 4096 * 2 ^ k" by (rule exI [of _ 6]) simp
  ultimately show ?thesis
    by (simp add: inode_num_map_def ignore_ips_map_def allowed_syscalls_map_def connections_map_def tcp_ctx_map_def
        connection_tracking_map_def syscall_events_map_def network_events_map_def policy_drop_events_map_def
        enum_bpf_map_type_def layout_simps)
qed

text \<open>The numbers of the helpers the programs call, and of the program and attach types of their
  sections: kprobe and kretprobe, tracepoint, and fentry.\<close>

lemma helper_numbers:
  "map (enum_value enum_bpf_func_id) [''BPF_FUNC_map_lookup_elem'', ''BPF_FUNC_map_update_elem'',
     ''BPF_FUNC_map_delete_elem'', ''BPF_FUNC_ktime_get_ns'', ''BPF_FUNC_get_current_pid_tgid'',
     ''BPF_FUNC_get_current_task'', ''BPF_FUNC_probe_read_kernel'', ''BPF_FUNC_ringbuf_reserve'',
     ''BPF_FUNC_ringbuf_submit''] = map Some [1, 2, 3, 5, 14, 35, 113, 131, 132]"
  "map (enum_value enum_bpf_prog_type) [''BPF_PROG_TYPE_KPROBE'', ''BPF_PROG_TYPE_TRACEPOINT'',
     ''BPF_PROG_TYPE_TRACING''] = map Some [2, 5, 26]"
  "enum_value enum_bpf_attach_type ''BPF_TRACE_FENTRY'' = Some 24"
  "enum_value enum_bpf_update_flags ''BPF_ANY'' = Some 0"
  by code_simp+

end
