(* ===== verification/Network_Correct.thy ===== *)
theory Network_Correct
  imports Network_Probe Controller_Feed
begin

text \<open>
  Lemmas on the network probe: what one observation of a connection does to the state, the
  reporting programs as guards in front of one observation, runs of programs, and the
  invariants of the connection table and of the ring buffer.
\<close>

named_theorems net_simps \<open>effects of the network programs on the fields of the state\<close>

section \<open>Reading a record back\<close>

definition network_event_of_bytes :: "bytes \<Rightarrow> network_event_data" where
  "network_event_of_bytes bs = \<lparr>
     ne_inum = dec64 (field_off struct_network_event_data ''inum'') bs,
     ne_saddr = dec32 (field_off struct_network_event_data ''saddr'') bs,
     ne_sport = dec16 (field_off struct_network_event_data ''sport'') bs,
     ne_daddr = dec32 (field_off struct_network_event_data ''daddr'') bs,
     ne_dport = dec16 (field_off struct_network_event_data ''dport'') bs,
     ne_kind = dec16 (field_off struct_network_event_data ''kind'') bs\<rparr>"

lemma length_fill_network_event [simp]:
  "length buf = 24 \<Longrightarrow> length (fill_network_event ev buf) = 24"
  by (simp add: fill_network_event_def layout_simps)

lemma network_event_roundtrip [simp]:
  "length buf = 24 \<Longrightarrow> network_event_of_bytes (fill_network_event ev buf) = ev"
  by (simp add: network_event_of_bytes_def fill_network_event_def layout_simps bytes_simps)

section \<open>One observation\<close>

text \<open>An observation of a connection: the test for a new key, then the report.\<close>

definition observe :: "conn_updater \<Rightarrow> bpf_env \<Rightarrow> conn_key \<Rightarrow> network_event_data \<Rightarrow> net_state \<Rightarrow> net_state" where
  "observe upd e key ev s =
     (let (isnew, s1) = is_new_connection upd e key s
      in if \<not> isnew then s1 else report_network_event e ev s1)"

definition new_conn :: "bpf_env \<Rightarrow> conn_state" where
  "new_conn e = \<lparr>cs_first_seen = bpf_ktime_get_ns e, cs_last_seen = bpf_ktime_get_ns e, cs_event_count = 1\<rparr>"

definition seen_again :: "bpf_env \<Rightarrow> conn_state \<Rightarrow> conn_state" where
  "seen_again e st = st\<lparr>cs_last_seen := bpf_ktime_get_ns e, cs_event_count := cs_event_count st + 1\<rparr>"

definition reported :: "bpf_env \<Rightarrow> network_event_data \<Rightarrow> bytes list" where
  "reported e ev = (case bpf_ringbuf_reserve e 24 of None \<Rightarrow> [] | Some buf \<Rightarrow> [fill_network_event ev buf])"

definition note_conn :: "conn_updater \<Rightarrow> bpf_env \<Rightarrow> conn_key \<Rightarrow> (conn_key \<rightharpoonup> conn_state) \<Rightarrow> (conn_key \<rightharpoonup> conn_state)" where
  "note_conn upd e key m =
     (case m key of None \<Rightarrow> upd m key (new_conn e) | Some st \<Rightarrow> m(key \<mapsto> seen_again e st))"

lemma observe_connections [net_simps]:
  "connections (observe upd e key ev s) = note_conn upd e key (connections s)"
  by (auto simp: note_conn_def observe_def is_new_connection_def report_network_event_def new_conn_def seen_again_def
      Let_def split: option.splits)

lemma observe_events [net_simps]:
  "network_events (observe upd e key ev s) =
     network_events s @ (if connections s key = None then reported e ev else [])"
  by (auto simp: observe_def is_new_connection_def report_network_event_def reported_def
      bpf_ringbuf_submit_def layout_simps Let_def split: option.splits)

lemma observe_frame [net_simps]:
  "inode_num (observe upd e key ev s) = inode_num s"
  "ignore_ips (observe upd e key ev s) = ignore_ips s"
  "allowed_syscalls (observe upd e key ev s) = allowed_syscalls s"
  "tcp_ctx (observe upd e key ev s) = tcp_ctx s"
  by (auto simp: observe_def is_new_connection_def report_network_event_def Let_def split: option.splits)

lemma reported_set: "r \<in> set (reported e ev) \<Longrightarrow> env_ok e \<Longrightarrow> length r = 24 \<and> network_event_of_bytes r = ev"
  by (auto simp: reported_def env_ok_def split: option.splits)

section \<open>The reporting programs as guarded observations\<close>

definition udp_key :: "u64 \<Rightarrow> sock_common \<Rightarrow> conn_key" where
  "udp_key inum skc = \<lparr>ck_inum = inum, ck_saddr = skc_rcv_saddr skc, ck_daddr = skc_daddr skc,
     ck_dport = bpf_ntohs (skc_dport skc), ck_protocol = 2, ck_direction = 1\<rparr>"

definition tcp_key :: "u8 \<Rightarrow> u64 \<Rightarrow> sock_common \<Rightarrow> conn_key" where
  "tcp_key direction inum skc = \<lparr>ck_inum = inum, ck_saddr = skc_rcv_saddr skc, ck_daddr = skc_daddr skc,
     ck_dport = bpf_ntohs (skc_dport skc), ck_protocol = 1, ck_direction = direction\<rparr>"

definition conn_event :: "u16 \<Rightarrow> u64 \<Rightarrow> sock_common \<Rightarrow> network_event_data" where
  "conn_event kind inum skc = \<lparr>ne_inum = inum, ne_saddr = skc_rcv_saddr skc, ne_sport = skc_num skc,
     ne_daddr = skc_daddr skc, ne_dport = bpf_ntohs (skc_dport skc), ne_kind = kind\<rparr>"

definition tcp_direction :: "sock_common \<Rightarrow> u8" where
  "tcp_direction skc = (if skc_num skc > 1024 then 1 else 2)"

abbreviation skc_of :: "bpf_env \<Rightarrow> u64 \<Rightarrow> sock_common" where
  "skc_of e sk \<equiv> read_sock_common (env_offs e) (env_mem e) sk"

abbreviation filtered :: "'a helper_maps_scheme \<Rightarrow> sock_common \<Rightarrow> bool" where
  "filtered s skc \<equiv> should_filter_traffic s (skc_rcv_saddr skc) (skc_daddr skc)"

lemma trace_udp_send_eq:
  "trace_udp_send upd e sk s =
     (case get_and_validate_inum e sk s of
        None \<Rightarrow> s
      | Some inum \<Rightarrow>
          if filtered s (skc_of e sk) then s
          else observe upd e (udp_key inum (skc_of e sk)) (conn_event 3 inum (skc_of e sk)) s)"
  by (auto simp: trace_udp_send_def observe_def udp_key_def conn_event_def Let_def split: option.splits)

lemma trace_tcp_state_change_eq:
  "trace_tcp_state_change upd e sk state s =
     (case get_and_validate_inum e sk s of
        None \<Rightarrow> s
      | Some inum \<Rightarrow>
          if state \<noteq> 1 \<or> skc_family (skc_of e sk) \<noteq> 2 \<or> filtered s (skc_of e sk) then s
          else observe upd e (tcp_key (tcp_direction (skc_of e sk)) inum (skc_of e sk))
            (conn_event (ucast (tcp_direction (skc_of e sk))) inum (skc_of e sk)) s)"
  by (auto simp: trace_tcp_state_change_def observe_def tcp_key_def conn_event_def tcp_direction_def Let_def
      get_and_validate_inum_def split: option.splits)

lemma should_filter_frame [simp]:
  "should_filter_traffic (s\<lparr>tcp_ctx := x\<rparr>) a b = should_filter_traffic s a b"
  by (simp add: should_filter_traffic_def)

lemma tcp_accept_exit_eq:
  "tcp_accept_exit upd e new_sk s =
     (case tcp_ctx s (ucast (bpf_get_current_pid_tgid e)) of
        None \<Rightarrow> s
      | Some slots \<Rightarrow>
          let s0 = s\<lparr>tcp_ctx := (tcp_ctx s)(ucast (bpf_get_current_pid_tgid e) := None)\<rparr>;
              inum = tc_inum (slots (env_cpu e))
          in if new_sk = 0 \<or> filtered s (skc_of e new_sk) then s0
             else observe upd e (tcp_key 2 inum (skc_of e new_sk)) (conn_event 2 inum (skc_of e new_sk)) s0)"
  by (auto simp: tcp_accept_exit_def observe_def tcp_key_def conn_event_def Let_def split: option.splits)


section \<open>Runs of programs\<close>

datatype net_prog =
    UdpSend u64               \<comment> \<open>\<^verbatim>\<open>fentry/udp_sendmsg\<close>\<close>
  | TcpSetState u64 int       \<comment> \<open>\<^verbatim>\<open>fentry/tcp_set_state\<close>\<close>
  | AcceptEntry u64           \<comment> \<open>\<^verbatim>\<open>kprobe/inet_csk_accept\<close>\<close>
  | AcceptExit u64            \<comment> \<open>\<^verbatim>\<open>kretprobe/inet_csk_accept\<close>\<close>

fun net_prog_run :: "conn_updater \<Rightarrow> ctx_updater \<Rightarrow> bpf_env \<Rightarrow> net_prog \<Rightarrow> net_state \<Rightarrow> net_state" where
  "net_prog_run upd pupd e (UdpSend sk) s = trace_udp_send upd e sk s"
| "net_prog_run upd pupd e (TcpSetState sk st) s = trace_tcp_state_change upd e sk st s"
| "net_prog_run upd pupd e (AcceptEntry sk) s = tcp_accept_entry pupd e sk s"
| "net_prog_run upd pupd e (AcceptExit sk) s = tcp_accept_exit upd e sk s"

fun net_run :: "conn_updater \<Rightarrow> ctx_updater \<Rightarrow> (bpf_env \<times> net_prog) list \<Rightarrow> net_state \<Rightarrow> net_state" where
  "net_run upd pupd [] s = s"
| "net_run upd pupd ((e, p) # ps) s = net_run upd pupd ps (net_prog_run upd pupd e p s)"

text \<open>The connection an event belongs to.\<close>

definition event_key :: "network_event_data \<Rightarrow> conn_key" where
  "event_key ev = \<lparr>ck_inum = ne_inum ev, ck_saddr = ne_saddr ev, ck_daddr = ne_daddr ev,
     ck_dport = ne_dport ev, ck_protocol = (if ne_kind ev = 3 then 2 else 1),
     ck_direction = (if ne_kind ev = 3 then 1 else ucast (ne_kind ev))\<rparr>"

definition known_inum :: "net_state \<Rightarrow> bpf_env \<Rightarrow> u64 \<Rightarrow> bool" where
  "known_inum s e i \<longleftrightarrow> i \<in> dom (inode_num s)
     \<or> (\<exists>slots. tcp_ctx s (ucast (bpf_get_current_pid_tgid e)) = Some slots \<and> i = tc_inum (slots (env_cpu e)))"

text \<open>What an event says is true of the state it was produced in.\<close>

definition event_ok :: "net_state \<Rightarrow> bpf_env \<Rightarrow> network_event_data \<Rightarrow> bool" where
  "event_ok s e ev \<longleftrightarrow> ne_kind ev \<in> {1, 2, 3} \<and> \<not> should_filter_traffic s (ne_saddr ev) (ne_daddr ev)
     \<and> known_inum s e (ne_inum ev) \<and> (ne_kind ev \<noteq> 2 \<longrightarrow> ne_inum ev \<in> dom (inode_num s))"

lemma event_key_conn_event:
  "event_key (conn_event 3 i skc) = udp_key i skc"
  "event_key (conn_event 2 i skc) = tcp_key 2 i skc"
  "event_key (conn_event (ucast (tcp_direction skc)) i skc) = tcp_key (tcp_direction skc) i skc"
  by (auto simp: event_key_def conn_event_def udp_key_def tcp_key_def tcp_direction_def)

lemma conn_event_fields [simp]:
  "ne_inum (conn_event k i skc) = i" "ne_kind (conn_event k i skc) = k"
  "ne_saddr (conn_event k i skc) = skc_rcv_saddr skc" "ne_daddr (conn_event k i skc) = skc_daddr skc"
  by (simp_all add: conn_event_def)

lemma tcp_direction_kind: "ucast (tcp_direction skc) \<in> {1, 2, 3 :: u16}"
  by (simp add: tcp_direction_def)

text \<open>A program run either leaves the connection table and the ring alone or is one observation.\<close>

lemma net_prog_cases:
  assumes "s' = net_prog_run upd pupd e p s"
  obtains (quiet) "connections s' = connections s" "network_events s' = network_events s"
  | (observed) ev where
      "connections s' = note_conn upd e (event_key ev) (connections s)"
      "network_events s' = network_events s @ (if connections s (event_key ev) = None then reported e ev else [])"
      "event_ok s e ev"
proof (cases p)
  case (UdpSend sk)
  show ?thesis
  proof (cases "get_and_validate_inum e sk s")
    case None
    with UdpSend assms show ?thesis by (intro quiet) (simp_all add: trace_udp_send_eq)
  next
    case (Some i)
    then have i: "i \<in> dom (inode_num s)" by (rule get_inum_tracked)
    show ?thesis
    proof (cases "filtered s (skc_of e sk)")
      case True
      with UdpSend Some assms show ?thesis by (intro quiet) (simp_all add: trace_udp_send_eq)
    next
      case False
      with UdpSend Some assms i show ?thesis
        by (intro observed [of "conn_event 3 i (skc_of e sk)"])
          (simp_all add: trace_udp_send_eq event_key_conn_event event_ok_def known_inum_def net_simps)
    qed
  qed
next
  case (TcpSetState sk st)
  show ?thesis
  proof (cases "get_and_validate_inum e sk s")
    case None
    with TcpSetState assms show ?thesis by (intro quiet) (simp_all add: trace_tcp_state_change_eq)
  next
    case (Some i)
    then have i: "i \<in> dom (inode_num s)" by (rule get_inum_tracked)
    show ?thesis
    proof (cases "st \<noteq> 1 \<or> skc_family (skc_of e sk) \<noteq> 2 \<or> filtered s (skc_of e sk)")
      case True
      with TcpSetState Some assms show ?thesis by (intro quiet) (simp_all add: trace_tcp_state_change_eq)
    next
      case False
      with TcpSetState Some assms i tcp_direction_kind [of "skc_of e sk"] show ?thesis
        by (intro observed [of "conn_event (ucast (tcp_direction (skc_of e sk))) i (skc_of e sk)"])
          (simp_all add: trace_tcp_state_change_eq event_key_conn_event event_ok_def known_inum_def net_simps)
    qed
  qed
next
  case (AcceptEntry sk)
  with assms show ?thesis by (intro quiet) (simp_all add: tcp_accept_entry_def Let_def split: option.splits)
next
  case (AcceptExit sk)
  let ?tid = "ucast (bpf_get_current_pid_tgid e)"
  show ?thesis
  proof (cases "tcp_ctx s ?tid")
    case None
    with AcceptExit assms show ?thesis by (intro quiet) (simp_all add: tcp_accept_exit_eq)
  next
    case (Some slots)
    show ?thesis
    proof (cases "sk = 0 \<or> filtered s (skc_of e sk)")
      case True
      with AcceptExit Some assms show ?thesis by (intro quiet) (simp_all add: tcp_accept_exit_eq)
    next
      case False
      with AcceptExit Some assms show ?thesis
        by (intro observed [of "conn_event 2 (tc_inum (slots (env_cpu e))) (skc_of e sk)"])
          (simp_all add: tcp_accept_exit_eq event_key_conn_event event_ok_def known_inum_def net_simps Let_def)
    qed
  qed
qed


lemma net_prog_frame:
  "inode_num (net_prog_run upd pupd e p s) = inode_num s"
  "ignore_ips (net_prog_run upd pupd e p s) = ignore_ips s"
  by (cases p; simp add: trace_udp_send_eq trace_tcp_state_change_eq tcp_accept_entry_def
      tcp_accept_exit_eq net_simps Let_def split: option.split)+

text \<open>Where the entries of \<^verbatim>\<open>tcp_ctx\<close> come from.\<close>

lemma net_prog_tcp_ctx:
  "tcp_ctx (net_prog_run upd pupd e p s) = tcp_ctx s
   \<or> tcp_ctx (net_prog_run upd pupd e p s) = (tcp_ctx s)(ucast (bpf_get_current_pid_tgid e) := None)
   \<or> (\<exists>i \<in> dom (inode_num s). tcp_ctx (net_prog_run upd pupd e p s)
        = pupd (env_cpu e) (tcp_ctx s) (ucast (bpf_get_current_pid_tgid e)) \<lparr>tc_sk = 0, tc_inum = i\<rparr>)"
proof (cases p)
  case (AcceptEntry sk)
  then show ?thesis
    by (auto simp: tcp_accept_entry_def Let_def dest: get_inum_tracked split: option.split)
qed (auto simp: trace_udp_send_eq trace_tcp_state_change_eq tcp_accept_exit_eq net_simps Let_def split: option.split)

section \<open>Reachable states\<close>

definition net_init :: net_state where
  "net_init = \<lparr>inode_num = Map.empty, ignore_ips = Map.empty, allowed_syscalls = Map.empty,
     connections = Map.empty, tcp_ctx = Map.empty, network_events = []\<rparr>"

definition zero_ctx :: tcp_connect_ctx where
  "zero_ctx = \<lparr>tc_sk = 0, tc_inum = 0\<rparr>"

text \<open>
  The steps of the probe and its controller: a program fires, the controller adds a namespace
  of the set \<open>T\<close> of pods it watches or an ignored address, or it consumes the oldest record.
\<close>

inductive net_step :: "conn_updater \<Rightarrow> ctx_updater \<Rightarrow> (u64, u32) updater \<Rightarrow> (u32, u32) updater
    \<Rightarrow> u64 set \<Rightarrow> net_state \<Rightarrow> net_state \<Rightarrow> bool"
  for upd pupd iupd gupd T where
  fire: "env_ok e \<Longrightarrow> net_step upd pupd iupd gupd T s (net_prog_run upd pupd e p s)"
| track: "i \<in> T \<Longrightarrow> net_step upd pupd iupd gupd T s (track_inode iupd i s)"
| ignore: "net_step upd pupd iupd gupd T s (ignore_ip gupd ip s)"
| consume: "network_events s = r # rs \<Longrightarrow> net_step upd pupd iupd gupd T s (s\<lparr>network_events := rs\<rparr>)"

inductive net_reachable :: "conn_updater \<Rightarrow> ctx_updater \<Rightarrow> (u64, u32) updater \<Rightarrow> (u32, u32) updater
    \<Rightarrow> u64 set \<Rightarrow> net_state \<Rightarrow> bool"
  for upd pupd iupd gupd T where
  start: "net_reachable upd pupd iupd gupd T net_init"
| step: "net_reachable upd pupd iupd gupd T s \<Longrightarrow> net_step upd pupd iupd gupd T s s'
    \<Longrightarrow> net_reachable upd pupd iupd gupd T s'"

text \<open>A record a consumer may rely on.\<close>

definition record_ok :: "u64 set \<Rightarrow> bytes \<Rightarrow> bool" where
  "record_ok T r \<longleftrightarrow> length r = 24 \<and>
     (let ev = network_event_of_bytes r in
        ne_kind ev \<in> {1, 2, 3}
        \<and> ne_saddr ev \<noteq> ne_daddr ev
        \<and> ne_saddr ev \<notin> {0, localhost} \<and> ne_daddr ev \<notin> {0, localhost}
        \<and> ne_inum ev \<in> insert 0 T \<and> (ne_kind ev \<noteq> 2 \<longrightarrow> ne_inum ev \<in> T))"

definition net_inv :: "u64 set \<Rightarrow> net_state \<Rightarrow> bool" where
  "net_inv T s \<longleftrightarrow> dom (inode_num s) \<subseteq> T
     \<and> (\<forall>tid slots c. tcp_ctx s tid = Some slots \<longrightarrow> tc_inum (slots c) \<in> insert 0 T)
     \<and> (\<forall>r \<in> set (network_events s). record_ok T r)"

lemma net_invD:
  "net_inv T s \<Longrightarrow> i \<in> dom (inode_num s) \<Longrightarrow> i \<in> T"
  "net_inv T s \<Longrightarrow> tcp_ctx s tid = Some slots \<Longrightarrow> tc_inum (slots c) \<in> insert 0 T"
  "net_inv T s \<Longrightarrow> r \<in> set (network_events s) \<Longrightarrow> record_ok T r"
  unfolding net_inv_def by blast+

lemma event_ok_record:
  assumes "net_inv T s" and "event_ok s e ev" and "env_ok e" and "r \<in> set (reported e ev)"
  shows "record_ok T r"
proof -
  have r: "length r = 24" "network_event_of_bytes r = ev"
    using reported_set [OF assms(4,3)] by auto
  have "ne_inum ev \<in> insert 0 T"
  proof (cases "ne_inum ev \<in> dom (inode_num s)")
    case True
    with net_invD(1) [OF assms(1)] show ?thesis by simp
  next
    case False
    with assms(2) obtain slots where "tcp_ctx s (ucast (bpf_get_current_pid_tgid e)) = Some slots"
      and "ne_inum ev = tc_inum (slots (env_cpu e))"
      by (auto simp: event_ok_def known_inum_def)
    with net_invD(2) [OF assms(1) this(1), of "env_cpu e"] show ?thesis by simp
  qed
  moreover have "ne_kind ev \<noteq> 2 \<longrightarrow> ne_inum ev \<in> T"
    using assms(2) net_invD(1) [OF assms(1)] unfolding event_ok_def by blast
  ultimately show ?thesis
    using assms(2) r by (auto simp: record_ok_def event_ok_def should_filter_iff unusable_addr_def Let_def)
qed

lemma net_inv_fire:
  assumes "percpu_update pupd zero_ctx" and inv: "net_inv T s" and ok: "env_ok e"
  shows "net_inv T (net_prog_run upd pupd e p s)"
proof -
  let ?s = "net_prog_run upd pupd e p s"
  have "record_ok T r" if "r \<in> set (network_events ?s)" for r
  proof (rule net_prog_cases [OF refl, of upd pupd e p s])
    assume "network_events ?s = network_events s"
    with that inv show ?thesis by (auto simp: net_inv_def)
  next
    fix ev assume ev: "event_ok s e ev"
      and "network_events ?s = network_events s @ (if connections s (event_key ev) = None then reported e ev else [])"
    with that inv event_ok_record [OF inv ev ok, of r] show ?thesis
      by (auto simp: net_inv_def split: if_splits)
  qed
  moreover have "tc_inum (slots c) \<in> insert 0 T" if "tcp_ctx ?s tid = Some slots" for tid slots c
    using net_prog_tcp_ctx [of upd pupd e p s]
  proof (elim disjE)
    assume "\<exists>i \<in> dom (inode_num s). tcp_ctx ?s
        = pupd (env_cpu e) (tcp_ctx s) (ucast (bpf_get_current_pid_tgid e)) \<lparr>tc_sk = 0, tc_inum = i\<rparr>"
    then obtain i where "i \<in> dom (inode_num s)" and t: "tcp_ctx ?s
        = pupd (env_cpu e) (tcp_ctx s) (ucast (bpf_get_current_pid_tgid e)) \<lparr>tc_sk = 0, tc_inum = i\<rparr>" by blast
    then have i: "i \<in> T" using net_invD(1) [OF inv] by simp
    have "slots c = \<lparr>tc_sk = 0, tc_inum = i\<rparr> \<or> slots c = zero_ctx
        \<or> (\<exists>g. tcp_ctx s tid = Some g \<and> slots c = g c)"
      using percpu_update.pupd_slots [OF assms(1) that [unfolded t]] .
    then show ?thesis using i net_invD(2) [OF inv, of tid _ c] by (auto simp: zero_ctx_def)
  qed (use that inv in \<open>auto simp: net_inv_def split: if_splits\<close>)
  ultimately show ?thesis using inv by (simp add: net_inv_def net_prog_frame)
qed

lemma net_inv_step:
  assumes "percpu_update pupd zero_ctx" and "map_update iupd"
    and "net_step upd pupd iupd gupd T s s'" and "net_inv T s"
  shows "net_inv T s'"
  using assms(3)
proof (cases rule: net_step.cases)
  case (fire e p)
  with net_inv_fire [OF assms(1,4)] show ?thesis by simp
next
  case (track i)
  then have "dom (inode_num s') \<subseteq> T"
    using map_update.dom_upd [OF assms(2), of "inode_num s" i 1] assms(4)
    by (auto simp: track_inode_inum net_inv_def)
  with track assms(4) show ?thesis by (simp add: net_inv_def track_inode_def)
next
  case (ignore ip)
  with assms(4) show ?thesis by (simp add: net_inv_def ignore_ip_def)
next
  case (consume r rs)
  with assms(4) show ?thesis by (simp add: net_inv_def)
qed

lemma net_reachable_inv:
  assumes "net_reachable upd pupd iupd gupd T s"
    and "percpu_update pupd zero_ctx" and "map_update iupd"
  shows "net_inv T s"
  using assms(1)
proof (induction rule: net_reachable.induct)
  case start
  show ?case by (simp add: net_inv_def net_init_def)
next
  case (step s s')
  from net_inv_step [OF assms(2,3) step.hyps(2) step.IH] show ?case .
qed


section \<open>One report per connection\<close>

definition record_key :: "bytes \<Rightarrow> conn_key" where
  "record_key r = event_key (network_event_of_bytes r)"

definition reports_for :: "conn_key \<Rightarrow> net_state \<Rightarrow> nat" where
  "reports_for k s = length (filter (\<lambda>r. record_key r = k) (network_events s))"

definition may_report :: "conn_key \<Rightarrow> net_state \<Rightarrow> nat" where
  "may_report k s = (if connections s k = None then 1 else 0)"

lemma note_conn_retained:
  assumes "retains upd k"
  shows "note_conn upd e key m k = None \<longleftrightarrow> key \<noteq> k \<and> m k = None"
proof (cases "key = k")
  case True
  with assms show ?thesis by (simp add: note_conn_def retains_def split: option.split)
next
  case False
  with assms show ?thesis by (simp add: note_conn_def retains_def split: option.split)
qed

lemma reported_records:
  "env_ok e \<Longrightarrow> length (filter (\<lambda>r. record_key r = k) (reported e ev)) \<le> (if event_key ev = k then 1 else 0)"
  by (auto simp: reported_def record_key_def env_ok_def split: option.splits)

lemma net_prog_reports:
  assumes "retains upd k" and "env_ok e"
  shows "reports_for k (net_prog_run upd pupd e p s) + may_report k (net_prog_run upd pupd e p s)
      \<le> reports_for k s + may_report k s"
    and "reports_for k s \<le> reports_for k (net_prog_run upd pupd e p s)"
proof -
  let ?s = "net_prog_run upd pupd e p s"
  have "reports_for k ?s + may_report k ?s \<le> reports_for k s + may_report k s \<and> reports_for k s \<le> reports_for k ?s"
  proof (rule net_prog_cases [OF refl, of upd pupd e p s])
    assume "connections ?s = connections s" "network_events ?s = network_events s"
    then show ?thesis by (simp add: reports_for_def may_report_def)
  next
    fix ev
    assume c: "connections ?s = note_conn upd e (event_key ev) (connections s)"
      and n: "network_events ?s = network_events s @ (if connections s (event_key ev) = None then reported e ev else [])"
    show ?thesis
      using reported_records [OF assms(2), of k ev]
      by (auto simp: reports_for_def may_report_def n c note_conn_retained [OF assms(1)])
  qed
  then show "reports_for k ?s + may_report k ?s \<le> reports_for k s + may_report k s"
    and "reports_for k s \<le> reports_for k ?s" by auto
qed

lemma net_run_reports:
  assumes "retains upd k" and "\<forall>(e, p) \<in> set ps. env_ok e"
  shows "reports_for k (net_run upd pupd ps s) + may_report k (net_run upd pupd ps s)
      \<le> reports_for k s + may_report k s"
    and "reports_for k s \<le> reports_for k (net_run upd pupd ps s)"
proof -
  have "reports_for k (net_run upd pupd ps s) + may_report k (net_run upd pupd ps s)
      \<le> reports_for k s + may_report k s \<and> reports_for k s \<le> reports_for k (net_run upd pupd ps s)"
    using assms(2)
  proof (induction ps arbitrary: s)
    case (Cons ep ps)
    obtain e p where ep: "ep = (e, p)" by (cases ep)
    with Cons.prems have "env_ok e" by simp
    with Cons.IH [of "net_prog_run upd pupd e p s"] Cons.prems ep
      net_prog_reports [OF assms(1), where pupd = pupd and p = p and s = s and e = e]
    show ?case by auto
  qed simp
  then show "reports_for k (net_run upd pupd ps s) + may_report k (net_run upd pupd ps s)
      \<le> reports_for k s + may_report k s"
    and "reports_for k s \<le> reports_for k (net_run upd pupd ps s)" by auto
qed

section \<open>Time stamps\<close>

definition times_ok :: "u64 \<Rightarrow> net_state \<Rightarrow> bool" where
  "times_ok now s \<longleftrightarrow>
     (\<forall>k st. connections s k = Some st \<longrightarrow> cs_first_seen st \<le> cs_last_seen st \<and> cs_last_seen st \<le> now)"

lemma times_ok_note_conn:
  assumes "map_update upd" and "times_ok t s" and "t \<le> bpf_ktime_get_ns e"
    and "connections s' = note_conn upd e key (connections s)"
  shows "times_ok (bpf_ktime_get_ns e) s'"
proof -
  let ?now = "bpf_ktime_get_ns e"
  let ?P = "\<lambda>st. cs_first_seen st \<le> cs_last_seen st \<and> cs_last_seen st \<le> ?now"
  have old: "?P st" if "connections s k = Some st" for k st
    using that assms(2,3) unfolding times_ok_def by (blast intro: order_trans)
  have "?P st" if "note_conn upd e key (connections s) k = Some st" for k st
  proof (cases "connections s key")
    case None
    with that have "upd (connections s) key (new_conn e) k = Some st" by (simp add: note_conn_def)
    from map_update.upd_Some [OF assms(1) this] old show ?thesis by (auto simp: new_conn_def)
  next
    case (Some st')
    have "cs_first_seen st' \<le> ?now" using old [OF Some] by (auto intro: order_trans)
    with that Some old show ?thesis
      by (auto simp: note_conn_def seen_again_def split: if_splits)
  qed
  then show ?thesis by (auto simp: times_ok_def assms(4))
qed

lemma net_prog_times:
  assumes "map_update upd" and "times_ok t s" and "t \<le> bpf_ktime_get_ns e"
  shows "times_ok (bpf_ktime_get_ns e) (net_prog_run upd pupd e p s)"
proof (rule net_prog_cases [OF refl, of upd pupd e p s])
  assume "connections (net_prog_run upd pupd e p s) = connections s"
  with assms(2,3) show ?thesis by (auto simp: times_ok_def intro: order_trans)
next
  fix ev
  assume "connections (net_prog_run upd pupd e p s) = note_conn upd e (event_key ev) (connections s)"
  from times_ok_note_conn [OF assms this] show ?thesis .
qed

end
