(* ===== verification/Network_Props.thy ===== *)
theory Network_Props
  imports Network_Correct Demo
begin

text \<open>
  The properties of the network probe, each with a witness at a concrete memory image: what
  each program reports, the invariant of the ring buffer, one report per connection, and the
  cases where a connection is lost or attributed to the wrong namespace.
\<close>

lemma filtered_demo_client [simp]: "\<not> filtered demo_net demo_client"
  by (simp add: should_filter_traffic_def demo_net_def demo_client_def localhost_def)

lemma demo_net_sel [simp]:
  "inode_num demo_net = [4026531840 \<mapsto> 1]" "connections demo_net = Map.empty"
  "tcp_ctx demo_net = Map.empty" "network_events demo_net = []" "ignore_ips demo_net = Map.empty"
  by (simp_all add: demo_net_def)

section \<open>What the programs report\<close>

text \<open>
  \<^verbatim>\<open>trace_udp_send\<close> on a socket in memory appends exactly one record, holding the addresses,
  ports and namespace of the socket with kind 3, when the socket is not null, its namespace is
  tracked, the address pair passes the filter, the 4-tuple is new and the ring buffer has
  room; in every other case the ring buffer is unchanged.
\<close>

theorem udp_send_reports:
  assumes "sock_at (env_offs e) (env_mem e) sk skc inum"
  shows "network_events (trace_udp_send upd e sk s) = network_events s @
     (if sk \<noteq> 0 \<and> ucast inum \<in> dom (inode_num s)
         \<and> \<not> should_filter_traffic s (skc_rcv_saddr skc) (skc_daddr skc)
         \<and> connections s \<lparr>ck_inum = ucast inum, ck_saddr = skc_rcv_saddr skc, ck_daddr = skc_daddr skc,
              ck_dport = bpf_ntohs (skc_dport skc), ck_protocol = 2, ck_direction = 1\<rparr> = None
      then (case bpf_ringbuf_reserve e 24 of None \<Rightarrow> []
            | Some buf \<Rightarrow> [fill_network_event
                \<lparr>ne_inum = ucast inum, ne_saddr = skc_rcv_saddr skc, ne_sport = skc_num skc,
                 ne_daddr = skc_daddr skc, ne_dport = bpf_ntohs (skc_dport skc), ne_kind = 3\<rparr> buf])
      else [])"
  by (simp add: trace_udp_send_eq get_and_validate_inum_at [OF assms] read_sock_common_at [OF assms]
      net_simps reported_def conn_event_def udp_key_def)

theorem udp_send_reports_witness:
  "network_events (trace_udp_send no_evict (demo_env demo_client 4026531840) 0x1000 demo_net) =
     [fill_network_event \<lparr>ne_inum = 4026531840, ne_saddr = 0x0500000A, ne_sport = 40000,
        ne_daddr = 0x0900000A, ne_dport = 443, ne_kind = 3\<rparr> (replicate 24 0)]"
  using udp_send_reports [of "demo_env demo_client 4026531840" "0x1000" demo_client 4026531840 no_evict demo_net]
    demo_sock_at [of demo_client 4026531840] filtered_demo_client
  by (simp add: demo_client_def bpf_htons_def del: filtered_demo_client)

text \<open>
  \<^verbatim>\<open>trace_tcp_state_change\<close> reports a TCP connection exactly when the new state is
  \<^verbatim>\<open>TCP_ESTABLISHED\<close> (1), the socket is an IPv4 socket of a tracked namespace whose addresses
  pass the filter, and the key is new; the record's kind is the direction: egress (1) when the
  local port is above 1024, ingress (2) otherwise.
\<close>

theorem tcp_established_reports:
  assumes "sock_at (env_offs e) (env_mem e) sk skc inum"
  shows "network_events (trace_tcp_state_change upd e sk state s) = network_events s @
     (let direction = (if skc_num skc > 1024 then 1 else 2)
      in if sk \<noteq> 0 \<and> state = 1 \<and> skc_family skc = 2 \<and> ucast inum \<in> dom (inode_num s)
            \<and> \<not> should_filter_traffic s (skc_rcv_saddr skc) (skc_daddr skc)
            \<and> connections s \<lparr>ck_inum = ucast inum, ck_saddr = skc_rcv_saddr skc, ck_daddr = skc_daddr skc,
                 ck_dport = bpf_ntohs (skc_dport skc), ck_protocol = 1, ck_direction = direction\<rparr> = None
         then (case bpf_ringbuf_reserve e 24 of None \<Rightarrow> []
               | Some buf \<Rightarrow> [fill_network_event
                   \<lparr>ne_inum = ucast inum, ne_saddr = skc_rcv_saddr skc, ne_sport = skc_num skc,
                    ne_daddr = skc_daddr skc, ne_dport = bpf_ntohs (skc_dport skc),
                    ne_kind = ucast direction\<rparr> buf])
         else [])"
  by (auto simp: trace_tcp_state_change_eq get_and_validate_inum_at [OF assms] read_sock_common_at [OF assms]
      net_simps reported_def conn_event_def tcp_key_def tcp_direction_def Let_def)

theorem tcp_established_reports_witness:
  "network_events (trace_tcp_state_change no_evict (demo_env demo_client 4026531840) 0x1000 1 demo_net) =
     [fill_network_event \<lparr>ne_inum = 4026531840, ne_saddr = 0x0500000A, ne_sport = 40000,
        ne_daddr = 0x0900000A, ne_dport = 443, ne_kind = 1\<rparr> (replicate 24 0)]"
  using tcp_established_reports [of "demo_env demo_client 4026531840" "0x1000" demo_client 4026531840 no_evict 1 demo_net]
    demo_sock_at [of demo_client 4026531840] filtered_demo_client
  by (simp add: demo_client_def bpf_htons_def del: filtered_demo_client)


text \<open>
  an accept that stays on its CPU.  The entry probe on a listening socket of a tracked
  namespace, then the exit probe on the same thread and CPU with the accepted socket: one
  ingress record is appended (if the connection is new and the ring has room), attributed to
  the namespace of the listening socket, and the context of the thread is gone.
\<close>

theorem accept_reports:
  assumes "percpu_update_ok pupd zero_ctx"
    and "sock_at (env_offs e1) (env_mem e1) sk lskc inum" and "sk \<noteq> 0" and "ucast inum \<in> dom (inode_num s)"
    and "sock_at (env_offs e2) (env_mem e2) new_sk skc inum2" and "new_sk \<noteq> 0"
    and "\<not> should_filter_traffic s (skc_rcv_saddr skc) (skc_daddr skc)"
    and "ucast (bpf_get_current_pid_tgid e2) = (ucast (bpf_get_current_pid_tgid e1) :: u32)"
    and "env_cpu e2 = env_cpu e1"
  shows "let ev = \<lparr>ne_inum = ucast inum, ne_saddr = skc_rcv_saddr skc, ne_sport = skc_num skc,
        ne_daddr = skc_daddr skc, ne_dport = bpf_ntohs (skc_dport skc), ne_kind = 2\<rparr>;
      s' = tcp_accept_exit upd e2 new_sk (tcp_accept_entry pupd e1 sk s)
    in network_events s' = network_events s @
         (if connections s (event_key ev) = None
          then (case bpf_ringbuf_reserve e2 24 of None \<Rightarrow> [] | Some buf \<Rightarrow> [fill_network_event ev buf])
          else [])
       \<and> tcp_ctx s' (ucast (bpf_get_current_pid_tgid e1)) = None"
proof -
  let ?tid = "ucast (bpf_get_current_pid_tgid e1) :: u32"
  let ?c = "\<lparr>tc_sk = 0, tc_inum = ucast inum\<rparr>"
  from percpu_update_ok.pupd_stored [OF assms(1)] obtain f
    where f: "pupd (env_cpu e1) (tcp_ctx s) ?tid ?c ?tid = Some f" "f (env_cpu e1) = ?c" by blast
  have entry: "tcp_accept_entry pupd e1 sk s = s\<lparr>tcp_ctx := pupd (env_cpu e1) (tcp_ctx s) ?tid ?c\<rparr>"
    using assms(3,4) by (simp add: tcp_accept_entry_def get_and_validate_inum_at [OF assms(2)])
  have ev: "\<lparr>ne_inum = ucast inum, ne_saddr = skc_rcv_saddr skc, ne_sport = skc_num skc,
        ne_daddr = skc_daddr skc, ne_dport = bpf_ntohs (skc_dport skc), ne_kind = 2\<rparr> = conn_event 2 (ucast inum) skc"
    by (simp add: conn_event_def)
  show ?thesis
    using assms(6-9) f unfolding ev
    by (simp add: entry tcp_accept_exit_eq read_sock_common_at [OF assms(5)] event_key_conn_event net_simps
        reported_def Let_def)
qed

abbreviation demo_pupd :: ctx_updater where
  "demo_pupd \<equiv> percpu_lru_update zero_ctx (\<lambda>_ _. [])"

lemma demo_pupd_ok: "percpu_update_ok demo_pupd zero_ctx" "percpu_update demo_pupd zero_ctx"
  by (rule pcpu.percpu_update_ok_axioms, rule pcpu.percpu_update_axioms)

text \<open>A server that listens on port 80 and the client it accepts.\<close>

definition demo_listener :: sock_common where
  "demo_listener = \<lparr>skc_daddr = 0, skc_rcv_saddr = 0, skc_dport = 0, skc_num = 80, skc_family = 2, skc_state = 10\<rparr>"

definition demo_accepted :: sock_common where
  "demo_accepted = \<lparr>skc_daddr = 0x0900000A, skc_rcv_saddr = 0x0500000A, skc_dport = bpf_htons 51000,
     skc_num = 80, skc_family = 2, skc_state = 1\<rparr>"

lemma filtered_demo_accepted: "\<not> filtered demo_net demo_accepted"
  by (simp add: should_filter_traffic_def demo_accepted_def localhost_def)

theorem accept_reports_witness:
  "network_events (tcp_accept_exit no_evict (demo_env demo_accepted 7) 0x1000
      (tcp_accept_entry demo_pupd (demo_env demo_listener 4026531840) 0x1000 demo_net)) =
     [fill_network_event \<lparr>ne_inum = 4026531840, ne_saddr = 0x0500000A, ne_sport = 80,
        ne_daddr = 0x0900000A, ne_dport = 51000, ne_kind = 2\<rparr> (replicate 24 0)]"
  using accept_reports [of demo_pupd "demo_env demo_listener 4026531840" "0x1000" demo_listener 4026531840 demo_net
      "demo_env demo_accepted 7" "0x1000" demo_accepted 7 no_evict]
    demo_sock_at [of demo_listener 4026531840] demo_sock_at [of demo_accepted 7] filtered_demo_accepted
    demo_pupd_ok(1)
  by (simp add: demo_accepted_def bpf_htons_def Let_def)

section \<open>The ring buffer and the connection table\<close>

text \<open>
  C5: in every state the probe and its controller can reach, whatever the kernel's map updates
  evict, each record of the ring buffer is 24 bytes, has a kind the controller knows, has two
  different ends, neither of them unspecified or 127.0.0.1, and names a namespace the controller
  asked for; only an ingress record may instead name namespace 0.
\<close>

theorem network_records_ok:
  assumes "net_reachable upd pupd iupd gupd T s"
    and "percpu_update pupd zero_ctx" and "map_update iupd"
    and "r \<in> set (network_events s)"
  shows "length r = 24 \<and> (let ev = network_event_of_bytes r in
      ne_kind ev \<in> {1, 2, 3} \<and> ne_saddr ev \<noteq> ne_daddr ev
      \<and> ne_saddr ev \<notin> {0, localhost} \<and> ne_daddr ev \<notin> {0, localhost}
      \<and> ne_inum ev \<in> insert 0 T \<and> (ne_kind ev \<noteq> 2 \<longrightarrow> ne_inum ev \<in> T))"
  using net_invD(3) [OF net_reachable_inv [OF assms(1-3)] assms(4)] by (simp add: record_ok_def)

definition demo_reached :: net_state where
  "demo_reached = trace_udp_send no_evict (demo_env demo_client 4026531840) 0x1000
     (track_inode no_evict 4026531840 net_init)"

lemma demo_reached_reachable:
  "net_reachable no_evict demo_pupd no_evict no_evict {4026531840} demo_reached"
proof -
  have "net_reachable no_evict demo_pupd no_evict no_evict {4026531840} (track_inode no_evict 4026531840 net_init)"
    by (rule net_reachable.step [OF net_reachable.start net_step.track]) simp
  from net_reachable.step [OF this net_step.fire [of "demo_env demo_client 4026531840" no_evict demo_pupd no_evict
        no_evict _ _ "UdpSend 0x1000"]]
  show ?thesis by (simp add: demo_reached_def)
qed

lemma demo_reached_events:
  "network_events demo_reached = [fill_network_event (conn_event 3 4026531840 demo_client) (replicate 24 0)]"
proof -
  let ?s = "track_inode no_evict 4026531840 net_init :: net_state"
  have s: "inode_num ?s = [4026531840 \<mapsto> 1]" "connections ?s = Map.empty" "network_events ?s = []" "ignore_ips ?s = Map.empty"
    by (auto simp: track_inode_def net_init_def lru_update_def bytes_simps)
  have "\<not> filtered ?s demo_client"
    by (simp add: should_filter_traffic_def net_init_def demo_client_def localhost_def)
  then show ?thesis
    using demo_sock_at [of demo_client 4026531840]
    by (simp add: demo_reached_def trace_udp_send_eq get_and_validate_inum_at read_sock_common_at s net_simps reported_def)
qed

theorem network_records_ok_witness:
  "let ev = network_event_of_bytes (hd (network_events demo_reached)) in
     ne_kind ev \<in> {1, 2, 3} \<and> ne_saddr ev \<noteq> ne_daddr ev \<and> ne_inum ev \<in> {0, 4026531840}"
  using network_records_ok [OF demo_reached_reachable demo_pupd_ok(2) lru.map_update_axioms,
      of "hd (network_events demo_reached)"]
  by (auto simp: demo_reached_events Let_def)

text \<open>
  C2: as long as the connection table keeps the entry of a connection, any sequence of program
  runs reports the connection at most once, and not at all if its entry was there before.
\<close>

theorem connection_reported_once:
  assumes "retains upd k" and "\<forall>(e, p) \<in> set ps. env_ok e"
  shows "reports_for k (net_run upd pupd ps s)
    \<le> reports_for k s + (if connections s k = None then 1 else 0)"
  using net_run_reports(1) [OF assms, of pupd s] by (simp add: may_report_def)

theorem connection_reported_once_witness:
  "reports_for (udp_key 4026531840 demo_client)
     (net_run no_evict demo_pupd [(demo_env demo_client 4026531840, UdpSend 0x1000),
        (demo_env demo_client 4026531840, UdpSend 0x1000)] demo_net) \<le> 1"
  using connection_reported_once [OF no_evict_retains,
      of "[(demo_env demo_client 4026531840, UdpSend 0x1000), (demo_env demo_client 4026531840, UdpSend 0x1000)]"
        "udp_key 4026531840 demo_client" demo_pupd demo_net]
  by (simp add: reports_for_def)

text \<open>
  C26: an event that finds the ring buffer full is lost for good.  The connection is entered in
  the table before the record is reserved, so no later run reports it while the entry stays.
\<close>

theorem ring_full_event_lost:
  assumes "sock_at (env_offs e) (env_mem e) sk skc inum" and "sk \<noteq> 0" and "ucast inum \<in> dom (inode_num s)"
    and "\<not> should_filter_traffic s (skc_rcv_saddr skc) (skc_daddr skc)"
    and "bpf_ringbuf_reserve e 24 = None"
    and "retains upd (udp_key (ucast inum) skc)" and "\<forall>(e, p) \<in> set ps. env_ok e"
  shows "reports_for (udp_key (ucast inum) skc) (net_run upd pupd ps (trace_udp_send upd e sk s))
    = reports_for (udp_key (ucast inum) skc) s"
proof -
  let ?k = "udp_key (ucast inum) skc" and ?s = "trace_udp_send upd e sk s"
  have obs: "?s = observe upd e ?k (conn_event 3 (ucast inum) skc) s"
    using assms(2-4)
    by (simp add: trace_udp_send_eq get_and_validate_inum_at [OF assms(1)] read_sock_common_at [OF assms(1)])
  have "reports_for ?k ?s = reports_for ?k s"
    using assms(5) by (simp add: obs net_simps reported_def reports_for_def)
  moreover have "may_report ?k ?s = 0"
    using note_conn_retained [OF assms(6), of e ?k "connections s"] by (auto simp: obs net_simps may_report_def)
  ultimately show ?thesis
    using net_run_reports [OF assms(6,7), where pupd = pupd and s = ?s] by linarith
qed

definition demo_full :: bpf_env where
  "demo_full = (demo_env demo_client 4026531840)\<lparr>bpf_ringbuf_reserve := (\<lambda>_. None)\<rparr>"

theorem ring_full_event_lost_witness:
  "reports_for (udp_key 4026531840 demo_client)
     (net_run no_evict demo_pupd [(demo_env demo_client 4026531840, UdpSend 0x1000)]
        (trace_udp_send no_evict demo_full 0x1000 demo_net)) = 0"
  using ring_full_event_lost [of demo_full "0x1000" demo_client 4026531840 demo_net no_evict
      "[(demo_env demo_client 4026531840, UdpSend 0x1000)]" demo_pupd]
    demo_sock_at [of demo_client 4026531840] no_evict_retains [of "udp_key 4026531840 demo_client"]
    filtered_demo_client
  by (simp add: demo_full_def reports_for_def del: filtered_demo_client)


text \<open>
  an accept that resumes on another CPU than the one it blocked on.  \<^verbatim>\<open>tcp_ctx\<close> is a per-CPU
  map, so the exit probe finds the entry but the zeroed slot of its own CPU: the connection is
  reported with namespace 0, whatever namespace the socket belongs to.
\<close>

theorem accept_migrated_namespace_zero:
  assumes "percpu_update_ok pupd zero_ctx"
    and "sock_at (env_offs e1) (env_mem e1) sk lskc inum" and "sk \<noteq> 0" and "ucast inum \<in> dom (inode_num s)"
    and "sock_at (env_offs e2) (env_mem e2) new_sk skc inum2" and "new_sk \<noteq> 0"
    and "\<not> should_filter_traffic s (skc_rcv_saddr skc) (skc_daddr skc)"
    and "ucast (bpf_get_current_pid_tgid e2) = (ucast (bpf_get_current_pid_tgid e1) :: u32)"
    and "tcp_ctx s (ucast (bpf_get_current_pid_tgid e1)) = None"
    and "env_cpu e2 \<noteq> env_cpu e1"
    and "bpf_ringbuf_reserve e2 24 = Some buf" and "connections s (tcp_key 2 0 skc) = None"
  shows "network_events (tcp_accept_exit upd e2 new_sk (tcp_accept_entry pupd e1 sk s)) =
    network_events s @ [fill_network_event
      \<lparr>ne_inum = 0, ne_saddr = skc_rcv_saddr skc, ne_sport = skc_num skc,
       ne_daddr = skc_daddr skc, ne_dport = bpf_ntohs (skc_dport skc), ne_kind = 2\<rparr> buf]"
proof -
  let ?tid = "ucast (bpf_get_current_pid_tgid e1) :: u32"
  let ?c = "\<lparr>tc_sk = 0, tc_inum = ucast inum\<rparr>"
  have "\<exists>f. pupd (env_cpu e1) (tcp_ctx s) ?tid ?c ?tid = Some f \<and> f (env_cpu e2) = zero_ctx"
    using percpu_update_ok.pupd_elsewhere [OF assms(1), of "tcp_ctx s" ?tid "env_cpu e2" "env_cpu e1" ?c] assms(9,10)
    by simp
  then obtain f where f: "pupd (env_cpu e1) (tcp_ctx s) ?tid ?c ?tid = Some f" "f (env_cpu e2) = zero_ctx" by blast
  have entry: "tcp_accept_entry pupd e1 sk s = s\<lparr>tcp_ctx := pupd (env_cpu e1) (tcp_ctx s) ?tid ?c\<rparr>"
    using assms(3,4) by (simp add: tcp_accept_entry_def get_and_validate_inum_at [OF assms(2)])
  show ?thesis
    using assms(6-8,11,12) f
    by (simp add: entry tcp_accept_exit_eq read_sock_common_at [OF assms(5)] net_simps
        reported_def zero_ctx_def conn_event_def Let_def)
qed

definition demo_other_cpu :: bpf_env where
  "demo_other_cpu = (demo_env demo_accepted 7)\<lparr>env_cpu := 3\<rparr>"

theorem accept_migrated_namespace_zero_witness:
  "network_events (tcp_accept_exit no_evict demo_other_cpu 0x1000
      (tcp_accept_entry demo_pupd (demo_env demo_listener 4026531840) 0x1000 demo_net)) =
     [fill_network_event \<lparr>ne_inum = 0, ne_saddr = 0x0500000A, ne_sport = 80,
        ne_daddr = 0x0900000A, ne_dport = 51000, ne_kind = 2\<rparr> (replicate 24 0)]"
  using accept_migrated_namespace_zero [of demo_pupd "demo_env demo_listener 4026531840" "0x1000" demo_listener
      4026531840 demo_net demo_other_cpu "0x1000" demo_accepted 7 "replicate 24 0" no_evict]
    demo_sock_at [of demo_listener 4026531840] demo_sock_at [of demo_accepted 7] filtered_demo_accepted
    demo_pupd_ok(1)
  by (simp add: demo_accepted_def bpf_htons_def demo_other_cpu_def)

text \<open>
  the key of an inbound connection holds the port of the remote end and not the local
  port.  Once a connection from some address and port to local port \<open>p\<close> is in the table, an
  accepted connection from the same address and port to any other local port of the pod is
  not reported.
\<close>

theorem ingress_local_port_ignored:
  assumes "sock_at (env_offs e) (env_mem e) new_sk skc inum"
    and "tcp_ctx s (ucast (bpf_get_current_pid_tgid e)) = Some slots"
    and "connections s (tcp_key 2 (tc_inum (slots (env_cpu e))) (skc\<lparr>skc_num := p\<rparr>)) \<noteq> None"
  shows "network_events (tcp_accept_exit upd e new_sk s) = network_events s"
  using assms(2,3)
  by (auto simp: tcp_accept_exit_eq read_sock_common_at [OF assms(1)] net_simps tcp_key_def Let_def)

definition demo_busy :: net_state where
  "demo_busy = demo_net\<lparr>tcp_ctx := [0x22 \<mapsto> \<lambda>_. \<lparr>tc_sk = 0, tc_inum = 4026531840\<rparr>],
     connections := [tcp_key 2 4026531840 demo_accepted \<mapsto>
       \<lparr>cs_first_seen = 1, cs_last_seen = 1, cs_event_count = 1\<rparr>]\<rparr>"

theorem ingress_local_port_ignored_witness:
  "network_events (tcp_accept_exit no_evict (demo_env (demo_accepted\<lparr>skc_num := 443\<rparr>) 7) 0x1000 demo_busy) = []"
  using ingress_local_port_ignored [of "demo_env (demo_accepted\<lparr>skc_num := 443\<rparr>) 7" "0x1000"
      "demo_accepted\<lparr>skc_num := 443\<rparr>" 7 demo_busy "\<lambda>_. \<lparr>tc_sk = 0, tc_inum = 4026531840\<rparr>" 80 no_evict]
    demo_sock_at [of "demo_accepted\<lparr>skc_num := 443\<rparr>" 7]
  by (simp add: demo_busy_def demo_accepted_def)

text \<open>
  the counters of the connection table.  If the clock does not run backwards, then after
  any sequence of program runs every entry's first sighting is not later than its last one,
  and its last one is not later than the last run.
\<close>

theorem connection_times_ordered:
  assumes "map_update upd" and "times_ok t s" and "sorted (t # map (bpf_ktime_get_ns \<circ> fst) ps)"
  shows "times_ok (last (t # map (bpf_ktime_get_ns \<circ> fst) ps)) (net_run upd pupd ps s)"
  using assms(2,3)
proof (induction ps arbitrary: t s)
  case (Cons ep ps)
  obtain e p where ep: "ep = (e, p)" by (cases ep)
  have "times_ok (bpf_ktime_get_ns e) (net_prog_run upd pupd e p s)"
    using net_prog_times [OF assms(1) Cons.prems(1)] Cons.prems(2) ep by simp
  from Cons.IH [OF this] Cons.prems(2) ep show ?case by simp
qed simp

theorem connection_times_ordered_witness:
  "times_ok 7 (net_run no_evict demo_pupd [(demo_env demo_client 4026531840, UdpSend 0x1000)] demo_net)"
  using connection_times_ordered [OF lru.map_update_axioms, of 3 demo_net
      "[(demo_env demo_client 4026531840, UdpSend 0x1000)]" "\<lambda>_ _. []" demo_pupd]
  by (simp add: times_ok_def)

text \<open>
  a socket whose memory cannot be read is never reported: the copy of its
  \<^verbatim>\<open>sock_common\<close> is all zeros, which the filter drops, so the connection table and the ring
  buffer stay as they are.
\<close>

theorem faulting_socket_not_reported:
  assumes "i < 136" and "env_mem e (sk + word_of_nat (off_sk_common (env_offs e)) + word_of_nat i) = None"
  shows "trace_udp_send upd e sk s = s \<and> trace_tcp_state_change upd e sk state s = s
    \<and> network_events (tcp_accept_exit upd e sk s) = network_events s
    \<and> connections (tcp_accept_exit upd e sk s) = connections s"
proof -
  have "read_sock_common (env_offs e) (env_mem e) sk = zero_sock_common"
    using read_sock_common_fault [of i "env_mem e" sk "env_offs e"] assms by simp
  moreover have "filtered s zero_sock_common"
    by (simp add: zero_sock_common_def should_filter_zero)
  ultimately show ?thesis
    by (simp add: trace_udp_send_eq trace_tcp_state_change_eq tcp_accept_exit_eq Let_def split: option.split)
qed

theorem faulting_socket_not_reported_witness:
  "trace_udp_send no_evict ((demo_env demo_client 4026531840)\<lparr>env_mem := (\<lambda>_. None)\<rparr>) 0x1000 demo_net = demo_net"
  using faulting_socket_not_reported [of 0 "(demo_env demo_client 4026531840)\<lparr>env_mem := (\<lambda>_. None)\<rparr>" "0x1000"
      no_evict demo_net 1]
  by simp

end
