(* ===== verification/Drop_Correct.thy ===== *)
theory Drop_Correct
  imports Netpolicy_Drop Controller_Feed
begin

text \<open>
  Lemmas on the drop probe: its programs as guards in front of four operations on the tracking
  table, runs of programs, the invariant of the reachable states, and a count of the reports
  per connection attempt.
\<close>

named_theorems drop_simps \<open>effects of the drop probe's operations\<close>

section \<open>Reading a record back\<close>

definition policy_drop_event_of_bytes :: "bytes \<Rightarrow> policy_drop_event" where
  "policy_drop_event_of_bytes bs = \<lparr>
     pe_timestamp = dec64 (field_off struct_policy_drop_event ''timestamp'') bs,
     pe_inum = dec64 (field_off struct_policy_drop_event ''inum'') bs,
     pe_saddr = dec32 (field_off struct_policy_drop_event ''saddr'') bs,
     pe_daddr = dec32 (field_off struct_policy_drop_event ''daddr'') bs,
     pe_sport = dec16 (field_off struct_policy_drop_event ''sport'') bs,
     pe_dport = dec16 (field_off struct_policy_drop_event ''dport'') bs,
     pe_protocol = dec8 (field_off struct_policy_drop_event ''protocol'') bs,
     pe_syn_retries = dec32 (field_off struct_policy_drop_event ''syn_retries'') bs\<rparr>"

lemma length_fill_policy_drop_event [simp]:
  "length buf = 40 \<Longrightarrow> length (fill_policy_drop_event ev buf) = 40"
  by (simp add: fill_policy_drop_event_def layout_simps)

lemma policy_drop_event_roundtrip [simp]:
  "length buf = 40 \<Longrightarrow> policy_drop_event_of_bytes (fill_policy_drop_event ev buf) = ev"
  by (simp add: policy_drop_event_of_bytes_def fill_policy_drop_event_def layout_simps bytes_simps)

section \<open>Operations on the tracking table\<close>

definition first_retry :: "bpf_env \<Rightarrow> drop_conn_state" where
  "first_retry e = \<lparr>dc_first_syn_time = bpf_ktime_get_ns e, dc_last_syn_time = bpf_ktime_get_ns e,
     dc_syn_count = 2, dc_established = 0\<rparr>"

definition retried :: "bpf_env \<Rightarrow> drop_conn_state \<Rightarrow> drop_conn_state" where
  "retried e st = st\<lparr>dc_last_syn_time := bpf_ktime_get_ns e, dc_syn_count := dc_syn_count st + 1\<rparr>"

definition drop_due :: "drop_conn_state \<Rightarrow> bool" where
  "drop_due st \<longleftrightarrow> 4 \<le> dc_syn_count st \<and> dc_established st = 0"

definition drop_event :: "bpf_env \<Rightarrow> conn_attempt \<Rightarrow> drop_conn_state \<Rightarrow> policy_drop_event" where
  "drop_event e key st = \<lparr>pe_timestamp = bpf_ktime_get_ns e, pe_inum = ca_inum key, pe_saddr = ca_saddr key,
     pe_daddr = ca_daddr key, pe_sport = ca_sport key, pe_dport = ca_dport key, pe_protocol = 6,
     pe_syn_retries = dc_syn_count st\<rparr>"

definition syn_retry :: "attempt_updater \<Rightarrow> bpf_env \<Rightarrow> conn_attempt \<Rightarrow> drop_state \<Rightarrow> drop_state" where
  "syn_retry upd e key s =
     (case connection_tracking s key of
        None \<Rightarrow> s\<lparr>connection_tracking := upd (connection_tracking s) key (first_retry e)\<rparr>
      | Some st \<Rightarrow>
          (case (if drop_due (retried e st) then bpf_ringbuf_reserve e 40 else None) of
             None \<Rightarrow> s\<lparr>connection_tracking := (connection_tracking s)(key \<mapsto> retried e st)\<rparr>
           | Some buf \<Rightarrow>
               s\<lparr>connection_tracking := (connection_tracking s)(key \<mapsto> (retried e st)\<lparr>dc_established := 1\<rparr>),
                 policy_drop_events := policy_drop_events s
                   @ [fill_policy_drop_event (drop_event e key (retried e st)) buf]\<rparr>))"

text \<open>The guards in front of every operation: a tracked namespace and a usable address pair.\<close>

definition drop_guard :: "bpf_env \<Rightarrow> u64 \<Rightarrow> 'a helper_maps_scheme \<Rightarrow> (u64 \<times> sock_common) option" where
  "drop_guard e sk s =
     (case get_and_validate_inum e sk s of
        None \<Rightarrow> None
      | Some inum \<Rightarrow>
          (let skc = read_sock_common (env_offs e) (env_mem e) sk
           in if should_filter_traffic s (skc_rcv_saddr skc) (skc_daddr skc) then None else Some (inum, skc)))"

lemma get_inum_null [simp]: "get_and_validate_inum e 0 s = None"
  by (simp add: get_and_validate_inum_def)

lemma trace_tcp_retransmit_eq:
  "trace_tcp_retransmit upd e sk s =
     (case drop_guard e sk s of
        None \<Rightarrow> s
      | Some (inum, skc) \<Rightarrow>
          if read_skc_state (env_offs e) (env_mem e) sk = 2 then syn_retry upd e (attempt_key 6 inum skc) s else s)"
  by (auto simp: trace_tcp_retransmit_def drop_guard_def syn_retry_def TCP_SYN_SENT_def first_retry_def
      retried_def drop_due_def drop_event_def attempt_key_def bpf_ringbuf_submit_def layout_simps Let_def
      split: option.split)

lemma trace_tcp_connect_eq:
  "trace_tcp_connect upd e sk s =
     (case drop_guard e sk s of
        None \<Rightarrow> s
      | Some (inum, skc) \<Rightarrow>
          s\<lparr>connection_tracking := upd (connection_tracking s) (attempt_key 6 inum skc)
              \<lparr>dc_first_syn_time = bpf_ktime_get_ns e, dc_last_syn_time = 0, dc_syn_count = 1, dc_established = 0\<rparr>\<rparr>)"
  by (auto simp: trace_tcp_connect_def drop_guard_def Let_def split: option.split)

definition udp_retry :: "attempt_updater \<Rightarrow> bpf_env \<Rightarrow> conn_attempt \<Rightarrow> drop_state \<Rightarrow> drop_state" where
  "udp_retry upd e key s =
     (case connection_tracking s key of
        None \<Rightarrow> s\<lparr>connection_tracking := upd (connection_tracking s) key ((first_retry e)\<lparr>dc_syn_count := 1\<rparr>)\<rparr>
      | Some st \<Rightarrow> s\<lparr>connection_tracking := (connection_tracking s)(key \<mapsto> retried e st)\<rparr>)"

lemma drop_trace_udp_send_eq:
  "drop_trace_udp_send upd e sk s =
     (case drop_guard e sk s of
        None \<Rightarrow> s
      | Some (inum, skc) \<Rightarrow> udp_retry upd e (attempt_key 17 inum skc) s)"
  by (auto simp: drop_trace_udp_send_def drop_guard_def udp_retry_def first_retry_def retried_def Let_def
      split: option.split)

definition mark_established :: "conn_attempt \<Rightarrow> drop_state \<Rightarrow> drop_state" where
  "mark_established key s =
     (case connection_tracking s key of
        None \<Rightarrow> s
      | Some st \<Rightarrow> s\<lparr>connection_tracking := (connection_tracking s)(key \<mapsto> st\<lparr>dc_established := 1\<rparr>)\<rparr>)"

lemma drop_trace_tcp_state_change_eq:
  "drop_trace_tcp_state_change e sk state s =
     (case get_and_validate_inum e sk s of
        None \<Rightarrow> s
      | Some inum \<Rightarrow>
          if state = 1 then mark_established (attempt_key 6 inum (read_sock_common (env_offs e) (env_mem e) sk)) s else s)"
  by (auto simp: drop_trace_tcp_state_change_def mark_established_def TCP_ESTABLISHED_def Let_def
      split: option.split)

lemma drop_guard_at:
  assumes "sock_at (env_offs e) (env_mem e) sk skc inum"
  shows "drop_guard e sk s = (if sk \<noteq> 0 \<and> ucast inum \<in> dom (inode_num s)
      \<and> \<not> should_filter_traffic s (skc_rcv_saddr skc) (skc_daddr skc) then Some (ucast inum, skc) else None)"
  by (simp add: drop_guard_def get_and_validate_inum_at [OF assms] read_sock_common_at [OF assms])

lemma drop_guard_Some:
  assumes "drop_guard e sk s = Some (inum, skc)"
  shows "inum \<in> dom (inode_num s)" and "\<not> should_filter_traffic s (skc_rcv_saddr skc) (skc_daddr skc)"
  using assms by (auto simp: drop_guard_def Let_def dest: get_inum_tracked split: option.splits if_splits)

lemma attempt_key_sel [simp]:
  "ca_protocol (attempt_key p i skc) = p" "ca_inum (attempt_key p i skc) = i"
  "ca_saddr (attempt_key p i skc) = skc_rcv_saddr skc" "ca_daddr (attempt_key p i skc) = skc_daddr skc"
  by (simp_all add: attempt_key_def)


section \<open>Runs of programs\<close>

datatype drop_prog =
    Retransmit u64            \<comment> \<open>\<^verbatim>\<open>fentry/tcp_retransmit_skb\<close>\<close>
  | Connect u64               \<comment> \<open>\<^verbatim>\<open>fentry/tcp_v4_connect\<close>\<close>
  | SetState u64 int          \<comment> \<open>\<^verbatim>\<open>fentry/tcp_set_state\<close>\<close>
  | UdpSendmsg u64            \<comment> \<open>\<^verbatim>\<open>fentry/udp_sendmsg\<close>\<close>

fun drop_prog_run :: "attempt_updater \<Rightarrow> bpf_env \<Rightarrow> drop_prog \<Rightarrow> drop_state \<Rightarrow> drop_state" where
  "drop_prog_run upd e (Retransmit sk) s = trace_tcp_retransmit upd e sk s"
| "drop_prog_run upd e (Connect sk) s = trace_tcp_connect upd e sk s"
| "drop_prog_run upd e (SetState sk st) s = drop_trace_tcp_state_change e sk st s"
| "drop_prog_run upd e (UdpSendmsg sk) s = drop_trace_udp_send upd e sk s"

fun drop_run :: "attempt_updater \<Rightarrow> (bpf_env \<times> drop_prog) list \<Rightarrow> drop_state \<Rightarrow> drop_state" where
  "drop_run upd [] s = s"
| "drop_run upd ((e, p) # ps) s = drop_run upd ps (drop_prog_run upd e p s)"

text \<open>What a program does to the state, as at most one of four effects on one key.\<close>

datatype drop_effect =
    Quiet
  | Retry conn_attempt
  | Begin conn_attempt
  | Establish conn_attempt
  | Datagram conn_attempt

fun drop_effect_of :: "bpf_env \<Rightarrow> drop_prog \<Rightarrow> 'a helper_maps_scheme \<Rightarrow> drop_effect" where
  "drop_effect_of e (Retransmit sk) s =
     (case drop_guard e sk s of None \<Rightarrow> Quiet
      | Some (inum, skc) \<Rightarrow>
          if read_skc_state (env_offs e) (env_mem e) sk = 2 then Retry (attempt_key 6 inum skc) else Quiet)"
| "drop_effect_of e (Connect sk) s =
     (case drop_guard e sk s of None \<Rightarrow> Quiet | Some (inum, skc) \<Rightarrow> Begin (attempt_key 6 inum skc))"
| "drop_effect_of e (SetState sk st) s =
     (case get_and_validate_inum e sk s of None \<Rightarrow> Quiet
      | Some inum \<Rightarrow>
          if st = 1 then Establish (attempt_key 6 inum (read_sock_common (env_offs e) (env_mem e) sk)) else Quiet)"
| "drop_effect_of e (UdpSendmsg sk) s =
     (case drop_guard e sk s of None \<Rightarrow> Quiet | Some (inum, skc) \<Rightarrow> Datagram (attempt_key 17 inum skc))"

definition new_attempt :: "bpf_env \<Rightarrow> drop_conn_state" where
  "new_attempt e = \<lparr>dc_first_syn_time = bpf_ktime_get_ns e, dc_last_syn_time = 0, dc_syn_count = 1,
     dc_established = 0\<rparr>"

fun drop_apply :: "attempt_updater \<Rightarrow> bpf_env \<Rightarrow> drop_effect \<Rightarrow> drop_state \<Rightarrow> drop_state" where
  "drop_apply upd e Quiet s = s"
| "drop_apply upd e (Retry k) s = syn_retry upd e k s"
| "drop_apply upd e (Begin k) s =
     s\<lparr>connection_tracking := upd (connection_tracking s) k (new_attempt e)\<rparr>"
| "drop_apply upd e (Establish k) s = mark_established k s"
| "drop_apply upd e (Datagram k) s = udp_retry upd e k s"

lemma drop_prog_apply: "drop_prog_run upd e p s = drop_apply upd e (drop_effect_of e p s) s"
  by (cases p) (simp_all add: trace_tcp_retransmit_eq trace_tcp_connect_eq drop_trace_tcp_state_change_eq
      drop_trace_udp_send_eq new_attempt_def split: option.split)

text \<open>The key of an effect, and what the guards guarantee of it.\<close>

fun effect_key :: "drop_effect \<Rightarrow> conn_attempt option" where
  "effect_key Quiet = None"
| "effect_key (Retry k) = Some k"
| "effect_key (Begin k) = Some k"
| "effect_key (Establish k) = Some k"
| "effect_key (Datagram k) = Some k"

definition attempt_ok :: "'a helper_maps_scheme \<Rightarrow> conn_attempt \<Rightarrow> bool" where
  "attempt_ok s k \<longleftrightarrow> ca_inum k \<in> dom (inode_num s) \<and> \<not> should_filter_traffic s (ca_saddr k) (ca_daddr k)"

lemma drop_effect_ok:
  "drop_effect_of e p s = Retry k \<Longrightarrow> ca_protocol k = 6 \<and> attempt_ok s k"
  "drop_effect_of e p s = Begin k \<Longrightarrow> ca_protocol k = 6 \<and> attempt_ok s k"
  "drop_effect_of e p s = Establish k \<Longrightarrow> ca_protocol k = 6"
  "drop_effect_of e p s = Datagram k \<Longrightarrow> ca_protocol k = 17 \<and> attempt_ok s k"
  by (cases p; auto simp: attempt_ok_def dest: drop_guard_Some split: option.splits if_splits)+

lemma drop_apply_frame [simp]:
  "inode_num (drop_apply upd e f s) = inode_num s" "ignore_ips (drop_apply upd e f s) = ignore_ips s"
  by (cases f; simp add: syn_retry_def mark_established_def udp_retry_def split: option.split)+


section \<open>The state machine of one attempt\<close>

text \<open>
  The contract of the probe towards one TCP connection attempt, without tables, clocks or
  memory: an attempt is not tracked, being tried with a count of SYNs, or settled (established
  or already reported).  A step returns the next phase and the number of reports it makes.
\<close>

datatype phase = Untracked | Trying u32 | Settled

datatype attempt_event =
    Connecting
  | Retransmitted bool        \<comment> \<open>whether the ring buffer has room\<close>
  | Connected
  | Elsewhere

fun attempt_step :: "attempt_event \<Rightarrow> phase \<Rightarrow> phase \<times> nat" where
  "attempt_step Elsewhere p = (p, 0)"
| "attempt_step Connecting p = (Trying 1, 0)"
| "attempt_step Connected Untracked = (Untracked, 0)"
| "attempt_step Connected p = (Settled, 0)"
| "attempt_step (Retransmitted room) Untracked = (Trying 2, 0)"
| "attempt_step (Retransmitted room) (Trying n) =
     (if 4 \<le> n + 1 \<and> room then (Settled, 1) else (Trying (n + 1), 0))"
| "attempt_step (Retransmitted room) Settled = (Settled, 0)"

fun attempt_run :: "attempt_event list \<Rightarrow> phase \<Rightarrow> phase \<times> nat" where
  "attempt_run [] p = (p, 0)"
| "attempt_run (x # xs) p = (let (q, n) = attempt_step x p; (r, m) = attempt_run xs q in (r, n + m))"

definition phase_of :: "drop_state \<Rightarrow> conn_attempt \<Rightarrow> phase" where
  "phase_of s k = (case connection_tracking s k of
     None \<Rightarrow> Untracked
   | Some st \<Rightarrow> if dc_established st = 0 then Trying (dc_syn_count st) else Settled)"

definition drop_record_key :: "bytes \<Rightarrow> conn_attempt" where
  "drop_record_key r = (let ev = policy_drop_event_of_bytes r in
     \<lparr>ca_inum = pe_inum ev, ca_saddr = pe_saddr ev, ca_daddr = pe_daddr ev, ca_sport = pe_sport ev,
      ca_dport = pe_dport ev, ca_protocol = pe_protocol ev, ca_pad = 0\<rparr>)"

definition drops_for :: "conn_attempt \<Rightarrow> drop_state \<Rightarrow> nat" where
  "drops_for k s = length (filter (\<lambda>r. drop_record_key r = k) (policy_drop_events s))"

text \<open>What a run of a program is to the attempt \<open>k\<close>.\<close>

fun event_for :: "conn_attempt \<Rightarrow> bpf_env \<Rightarrow> drop_effect \<Rightarrow> attempt_event" where
  "event_for k e (Retry k') = (if k' = k then Retransmitted (bpf_ringbuf_reserve e 40 \<noteq> None) else Elsewhere)"
| "event_for k e (Begin k') = (if k' = k then Connecting else Elsewhere)"
| "event_for k e (Establish k') = (if k' = k then Connected else Elsewhere)"
| "event_for k e _ = Elsewhere"

lemma drop_record_key_event:
  assumes "length buf = 40" and "ca_protocol k = 6" and "ca_pad k = 0"
  shows "drop_record_key (fill_policy_drop_event (drop_event e k st) buf) = k"
  using assms by (cases k) (simp add: drop_record_key_def drop_event_def Let_def)

lemma attempt_key_pad [simp]: "ca_pad (attempt_key p i skc) = 0"
  by (simp add: attempt_key_def)

lemma drop_effect_pad: "effect_key (drop_effect_of e p s) = Some k \<Longrightarrow> ca_pad k = 0"
  by (cases p) (auto split: option.splits if_splits)

lemma phase_of_cong: "connection_tracking s k = connection_tracking s' k \<Longrightarrow> phase_of s k = phase_of s' k"
  by (simp add: phase_of_def)

lemma phase_of_update [simp]:
  "phase_of (s\<lparr>policy_drop_events := r\<rparr>) k = phase_of s k"
  "phase_of (s\<lparr>connection_tracking := m\<rparr>) k = (case m k of
     None \<Rightarrow> Untracked | Some st \<Rightarrow> if dc_established st = 0 then Trying (dc_syn_count st) else Settled)"
  by (simp_all add: phase_of_def)

lemma syn_retry_refines:
  assumes "retains upd k" and "env_ok e" and "ca_protocol k' = 6" and "ca_pad k' = 0"
  shows "attempt_step (event_for k e (Retry k')) (phase_of s k) =
    (phase_of (syn_retry upd e k' s) k, drops_for k (syn_retry upd e k' s) - drops_for k s)"
    and "drops_for k s \<le> drops_for k (syn_retry upd e k' s)"
proof -
  have buf: "drop_record_key (fill_policy_drop_event (drop_event e k' st) buf) = k'"
    if "bpf_ringbuf_reserve e 40 = Some buf" for buf st
    using that assms(2-4) by (intro drop_record_key_event) (auto simp: env_ok_def)
  have r: "upd m k v k = Some v" "k' \<noteq> k \<Longrightarrow> upd m k' v k = m k" for m v
    using assms(1) by (auto simp: retains_def)
  show "attempt_step (event_for k e (Retry k')) (phase_of s k) =
      (phase_of (syn_retry upd e k' s) k, drops_for k (syn_retry upd e k' s) - drops_for k s)"
  proof (cases "connection_tracking s k'")
    case None
    then show ?thesis
      by (auto simp: syn_retry_def r phase_of_def drops_for_def first_retry_def)
  next
    case (Some st)
    then show ?thesis
      by (cases "bpf_ringbuf_reserve e 40"; cases "drop_due (retried e st)")
        (auto simp: syn_retry_def phase_of_def drops_for_def retried_def drop_due_def buf)
  qed
  show "drops_for k s \<le> drops_for k (syn_retry upd e k' s)"
    by (simp add: syn_retry_def drops_for_def split: option.split)
qed


text \<open>Every program implements a step of the machine of every TCP attempt.\<close>

lemma drop_prog_refines:
  assumes "retains upd k" and "env_ok e" and "ca_protocol k = 6"
  shows "attempt_step (event_for k e (drop_effect_of e p s)) (phase_of s k) =
      (phase_of (drop_prog_run upd e p s) k, drops_for k (drop_prog_run upd e p s) - drops_for k s)"
    and "drops_for k s \<le> drops_for k (drop_prog_run upd e p s)"
proof -
  have r: "upd m k v k = Some v" "k' \<noteq> k \<Longrightarrow> upd m k' v k = m k" for m v k'
    using assms(1) by (auto simp: retains_def)
  have "attempt_step (event_for k e f) (phase_of s k) =
        (phase_of (drop_apply upd e f s) k, drops_for k (drop_apply upd e f s) - drops_for k s)
      \<and> drops_for k s \<le> drops_for k (drop_apply upd e f s)" if f: "f = drop_effect_of e p s" for f
  proof (cases f)
    case (Retry k')
    then have "ca_protocol k' = 6" "ca_pad k' = 0"
      using f drop_effect_ok(1) [of e p s k'] drop_effect_pad [of e p s k'] by simp_all
    from syn_retry_refines [OF assms(1,2) this, of s] show ?thesis by (simp add: Retry)
  next
    case (Begin k')
    then show ?thesis by (cases "k' = k") (auto simp: r drops_for_def new_attempt_def phase_of_def)
  next
    case (Establish k')
    show ?thesis
    proof (cases "k' = k")
      case True
      with Establish show ?thesis
        by (cases "connection_tracking s k") (auto simp: mark_established_def drops_for_def phase_of_def)
    next
      case False
      with Establish show ?thesis
        by (auto simp: mark_established_def drops_for_def phase_of_def split: option.split)
    qed
  next
    case (Datagram k')
    with f drop_effect_ok(4) [of e p s k'] assms(3) have "k' \<noteq> k" by auto
    with Datagram show ?thesis
      by (auto simp: udp_retry_def r drops_for_def phase_of_def split: option.split)
  qed simp
  then show "attempt_step (event_for k e (drop_effect_of e p s)) (phase_of s k) =
      (phase_of (drop_prog_run upd e p s) k, drops_for k (drop_prog_run upd e p s) - drops_for k s)"
    and "drops_for k s \<le> drops_for k (drop_prog_run upd e p s)"
    by (simp_all add: drop_prog_apply)
qed

text \<open>The guards of a run depend only on the maps the programs do not change.\<close>

lemma drop_effect_cong:
  assumes "inode_num s = inode_num s'" and "ignore_ips s = ignore_ips s'"
  shows "drop_effect_of e p s = drop_effect_of e p s'"
proof -
  have "should_filter_traffic s = should_filter_traffic s'" "get_and_validate_inum e sk s = get_and_validate_inum e sk s'" for sk
    using assms by (simp_all add: fun_eq_iff get_and_validate_inum_def should_filter_traffic_def)
  moreover from this have "drop_guard e sk s = drop_guard e sk s'" for sk
    by (simp add: drop_guard_def Let_def split: option.split)
  ultimately show ?thesis by (cases p) simp_all
qed

lemma drop_prog_frame [simp]:
  "inode_num (drop_prog_run upd e p s) = inode_num s" "ignore_ips (drop_prog_run upd e p s) = ignore_ips s"
  by (simp_all add: drop_prog_apply)

definition events_for :: "conn_attempt \<Rightarrow> 'a helper_maps_scheme \<Rightarrow> (bpf_env \<times> drop_prog) list \<Rightarrow> attempt_event list" where
  "events_for k s ps = map (\<lambda>(e, p). event_for k e (drop_effect_of e p s)) ps"

lemma drop_run_refines:
  assumes "retains upd k" and "\<forall>(e, p) \<in> set ps. env_ok e" and "ca_protocol k = 6"
  shows "attempt_run (events_for k s ps) (phase_of s k) =
      (phase_of (drop_run upd ps s) k, drops_for k (drop_run upd ps s) - drops_for k s)"
    and "drops_for k s \<le> drops_for k (drop_run upd ps s)"
proof -
  have "attempt_run (events_for k s ps) (phase_of s k) =
      (phase_of (drop_run upd ps s) k, drops_for k (drop_run upd ps s) - drops_for k s)
    \<and> drops_for k s \<le> drops_for k (drop_run upd ps s)"
    using assms(2)
  proof (induction ps arbitrary: s)
    case (Cons ep ps)
    obtain e p where ep: "ep = (e, p)" by (cases ep)
    let ?s = "drop_prog_run upd e p s"
    have "events_for k s (ep # ps) = event_for k e (drop_effect_of e p s) # events_for k ?s ps"
      unfolding events_for_def using drop_effect_cong [of s ?s] by (simp add: ep)
    with Cons.IH [of ?s] Cons.prems ep drop_prog_refines [OF assms(1) _ assms(3), where e = e and p = p and s = s]
    show ?case by (auto simp: Let_def)
  qed (simp add: events_for_def)
  then show "attempt_run (events_for k s ps) (phase_of s k) =
      (phase_of (drop_run upd ps s) k, drops_for k (drop_run upd ps s) - drops_for k s)"
    and "drops_for k s \<le> drops_for k (drop_run upd ps s)" by auto
qed

text \<open>A report needs an attempt that is not settled, and only a new connect reopens one.\<close>

definition openings :: "attempt_event list \<Rightarrow> nat" where
  "openings xs = length (filter (\<lambda>x. x = Connecting) xs)"

definition may_drop :: "phase \<Rightarrow> nat" where
  "may_drop p = (if p = Settled then 0 else 1)"

lemma attempt_step_potential:
  "snd (attempt_step x p) + may_drop (fst (attempt_step x p)) \<le> may_drop p + (if x = Connecting then 1 else 0)"
  by (induction x p rule: attempt_step.induct) (auto simp: may_drop_def)

lemma attempt_run_potential: "snd (attempt_run xs p) + may_drop (fst (attempt_run xs p)) \<le> may_drop p + openings xs"
proof (induction xs arbitrary: p)
  case (Cons x xs)
  obtain q n where q: "attempt_step x p = (q, n)" by (cases "attempt_step x p")
  from attempt_step_potential [of x p] Cons.IH [of q] show ?case
    by (auto simp: q openings_def split: prod.split)
qed (simp add: openings_def)


section \<open>Reachable states\<close>

definition drop_init :: drop_state where
  "drop_init = \<lparr>inode_num = Map.empty, ignore_ips = Map.empty, allowed_syscalls = Map.empty,
     connection_tracking = Map.empty, policy_drop_events = []\<rparr>"

inductive drop_step :: "attempt_updater \<Rightarrow> (u64, u32) updater \<Rightarrow> u64 set \<Rightarrow> drop_state \<Rightarrow> drop_state \<Rightarrow> bool"
  for upd iupd T where
  fire: "env_ok e \<Longrightarrow> drop_step upd iupd T s (drop_prog_run upd e p s)"
| track: "i \<in> T \<Longrightarrow> drop_step upd iupd T s (track_inode iupd i s)"
| consume: "policy_drop_events s = r # rs \<Longrightarrow> drop_step upd iupd T s (s\<lparr>policy_drop_events := rs\<rparr>)"

inductive drop_reachable :: "attempt_updater \<Rightarrow> (u64, u32) updater \<Rightarrow> u64 set \<Rightarrow> drop_state \<Rightarrow> bool"
  for upd iupd T where
  start: "drop_reachable upd iupd T drop_init"
| step: "drop_reachable upd iupd T s \<Longrightarrow> drop_step upd iupd T s s' \<Longrightarrow> drop_reachable upd iupd T s'"

definition drop_record_ok :: "u64 set \<Rightarrow> bytes \<Rightarrow> bool" where
  "drop_record_ok T r \<longleftrightarrow> length r = 40 \<and>
     (let ev = policy_drop_event_of_bytes r in
        pe_protocol ev = 6 \<and> 4 \<le> pe_syn_retries ev \<and> pe_inum ev \<in> T
        \<and> pe_saddr ev \<noteq> pe_daddr ev
        \<and> pe_saddr ev \<notin> {0, localhost} \<and> pe_daddr ev \<notin> {0, localhost})"

text \<open>An entry belongs to a watched namespace and to TCP or UDP; its flag is a boolean, and an
  entry for UDP is never settled.\<close>

definition entry_ok :: "u64 set \<Rightarrow> conn_attempt \<Rightarrow> drop_conn_state \<Rightarrow> bool" where
  "entry_ok T k st \<longleftrightarrow> ca_inum k \<in> T \<and> ca_protocol k \<in> {6, 17} \<and> dc_established st \<in> {0, 1}
     \<and> (ca_protocol k = 17 \<longrightarrow> dc_established st = 0)"

definition drop_inv :: "u64 set \<Rightarrow> drop_state \<Rightarrow> bool" where
  "drop_inv T s \<longleftrightarrow> dom (inode_num s) \<subseteq> T
     \<and> (\<forall>k st. connection_tracking s k = Some st \<longrightarrow> entry_ok T k st)
     \<and> (\<forall>r \<in> set (policy_drop_events s). drop_record_ok T r)"

lemma drop_invD:
  "drop_inv T s \<Longrightarrow> i \<in> dom (inode_num s) \<Longrightarrow> i \<in> T"
  "drop_inv T s \<Longrightarrow> connection_tracking s k = Some st \<Longrightarrow> entry_ok T k st"
  "drop_inv T s \<Longrightarrow> r \<in> set (policy_drop_events s) \<Longrightarrow> drop_record_ok T r"
  unfolding drop_inv_def by blast+

lemma drop_invI:
  assumes "drop_inv T s" and "inode_num s' = inode_num s"
    and "\<And>k st. connection_tracking s' k = Some st \<Longrightarrow> connection_tracking s k = Some st \<or> entry_ok T k st"
    and "\<And>r. r \<in> set (policy_drop_events s') \<Longrightarrow> r \<in> set (policy_drop_events s) \<or> drop_record_ok T r"
  shows "drop_inv T s'"
  using assms unfolding drop_inv_def by metis

lemma drop_event_record:
  assumes "length buf = 40" and "attempt_ok s k" and "drop_inv T s" and "drop_due st"
  shows "drop_record_ok T (fill_policy_drop_event (drop_event e k st) buf)"
  using assms drop_invD(1) [OF assms(3), of "ca_inum k"]
  by (auto simp: drop_record_ok_def drop_event_def drop_due_def attempt_ok_def should_filter_iff
      unusable_addr_def Let_def)

lemma drop_inv_retry:
  assumes "map_update upd" and inv: "drop_inv T s" and "env_ok e" and k: "ca_protocol k = 6 \<and> attempt_ok s k"
  shows "drop_inv T (syn_retry upd e k s)"
proof (cases "connection_tracking s k")
  case None
  have "entry_ok T k (first_retry e)"
    using k drop_invD(1) [OF inv] by (simp add: entry_ok_def attempt_ok_def first_retry_def)
  with None show ?thesis
    by (intro drop_invI [OF inv]) (auto simp: syn_retry_def dest: map_update.upd_Some [OF assms(1)])
next
  case (Some st)
  have st: "entry_ok T k (retried e st)" "entry_ok T k ((retried e st)\<lparr>dc_established := 1\<rparr>)"
    using drop_invD(2) [OF inv Some] k by (auto simp: entry_ok_def retried_def)
  show ?thesis
  proof (cases "if drop_due (retried e st) then bpf_ringbuf_reserve e 40 else None")
    case None
    with Some st show ?thesis
      by (intro drop_invI [OF inv]) (simp_all add: syn_retry_def split: if_splits)
  next
    case (Some buf)
    then have "length buf = 40" "drop_due (retried e st)"
      using assms(3) by (auto simp: env_ok_def split: if_splits)
    from drop_event_record [OF this(1) _ inv this(2), of k e] k Some \<open>connection_tracking s k = Some st\<close> st
    show ?thesis
      by (intro drop_invI [OF inv]) (auto simp: syn_retry_def split: if_splits)
  qed
qed

lemma drop_inv_fire:
  assumes "map_update upd" and inv: "drop_inv T s" and "env_ok e"
  shows "drop_inv T (drop_prog_run upd e p s)"
proof -
  have inum: "ca_inum k \<in> T" if "attempt_ok s k" for k
    using that drop_invD(1) [OF inv] by (simp add: attempt_ok_def)
  show ?thesis
    unfolding drop_prog_apply
  proof (cases "drop_effect_of e p s")
    case (Retry k)
    from drop_inv_retry [OF assms drop_effect_ok(1) [OF Retry]]
    show "drop_inv T (drop_apply upd e (drop_effect_of e p s) s)" by (simp add: Retry)
  next
    case (Begin k)
    with drop_effect_ok(2) [OF Begin] inum show "drop_inv T (drop_apply upd e (drop_effect_of e p s) s)"
      by (intro drop_invI [OF inv])
        (auto simp: entry_ok_def new_attempt_def dest: map_update.upd_Some [OF assms(1)])
  next
    case (Establish k)
    with drop_effect_ok(3) [OF Establish] drop_invD(2) [OF inv, of k]
    show "drop_inv T (drop_apply upd e (drop_effect_of e p s) s)"
      by (intro drop_invI [OF inv])
        (auto simp: mark_established_def entry_ok_def split: option.splits if_splits)
  next
    case (Datagram k)
    with drop_effect_ok(4) [OF Datagram] inum drop_invD(2) [OF inv, of k]
    show "drop_inv T (drop_apply upd e (drop_effect_of e p s) s)"
      by (intro drop_invI [OF inv])
        (auto simp: udp_retry_def entry_ok_def first_retry_def retried_def
          dest: map_update.upd_Some [OF assms(1)] split: option.splits if_splits)
  qed (simp add: inv)
qed

lemma drop_reachable_inv:
  assumes "drop_reachable upd iupd T s" and "map_update upd" and "map_update iupd"
  shows "drop_inv T s"
  using assms(1)
proof (induction rule: drop_reachable.induct)
  case start
  show ?case by (simp add: drop_inv_def drop_init_def)
next
  case (step s s')
  from step.hyps(2) show ?case
  proof (cases rule: drop_step.cases)
    case (fire e p)
    with drop_inv_fire [OF assms(2) step.IH] show ?thesis by simp
  next
    case (track i)
    then have "dom (inode_num s') \<subseteq> T"
      using map_update.dom_upd [OF assms(3), of "inode_num s" i 1] step.IH
      by (auto simp: track_inode_inum drop_inv_def)
    with track step.IH show ?thesis by (simp add: drop_inv_def track_inode_def)
  next
    case (consume r rs)
    with step.IH show ?thesis by (simp add: drop_inv_def)
  qed
qed

end
