(* ===== verification/Drop_Props.thy ===== *)
theory Drop_Props
  imports Drop_Correct Demo
begin

text \<open>
  The properties of the drop probe, each with a witness at a concrete memory image: the state
  machine it implements for a connection attempt, the records it produces, when an attempt is
  reported and how often, and what its connect and UDP hooks do.
\<close>

section \<open>Retransmissions of one socket\<close>

lemma retransmit_at:
  assumes "sock_at (env_offs e) (env_mem e) sk skc inum"
    and "read_skc_state (env_offs e) (env_mem e) sk = 2" and "sk \<noteq> 0" and "ucast inum \<in> dom (inode_num s)"
    and "\<not> should_filter_traffic s (skc_rcv_saddr skc) (skc_daddr skc)"
  shows "trace_tcp_retransmit upd e sk s = syn_retry upd e (attempt_key 6 (ucast inum) skc) s"
  using assms(2-) by (simp add: trace_tcp_retransmit_eq drop_guard_at [OF assms(1)])

lemma syn_retry_frame [simp]:
  "inode_num (syn_retry upd e k s) = inode_num s"
  "should_filter_traffic (syn_retry upd e k s) a b = should_filter_traffic s a b"
  using drop_apply_frame [of upd e "Retry k" s] by (simp_all add: should_filter_traffic_def)

text \<open>Once an attempt is settled, its retransmissions leave the ring buffer alone.\<close>

lemma settled_retransmits:
  assumes "\<forall>e \<in> set es. sock_at (env_offs e) (env_mem e) sk skc inum
      \<and> read_skc_state (env_offs e) (env_mem e) sk = 2"
    and "sk \<noteq> 0" and "ucast inum \<in> dom (inode_num s)"
    and "\<not> should_filter_traffic s (skc_rcv_saddr skc) (skc_daddr skc)"
    and "connection_tracking s (attempt_key 6 (ucast inum) skc) = Some st" and "dc_established st \<noteq> 0"
  shows "policy_drop_events (drop_run upd (map (\<lambda>e. (e, Retransmit sk)) es) s) = policy_drop_events s"
  using assms
proof (induction es arbitrary: s st)
  case (Cons e es)
  let ?k = "attempt_key 6 (ucast inum) skc"
  let ?s = "syn_retry upd e ?k s"
  have "connection_tracking ?s ?k = Some (retried e st)" "policy_drop_events ?s = policy_drop_events s"
    using Cons.prems(5,6) by (simp_all add: syn_retry_def drop_due_def retried_def)
  moreover have "trace_tcp_retransmit upd e sk s = ?s"
    using Cons.prems by (intro retransmit_at) simp_all
  ultimately show ?case
    using Cons.IH [of ?s "retried e st"] Cons.prems by (simp add: retried_def)
qed simp

section \<open>Demonstration state\<close>

definition demo_drop :: drop_state where
  "demo_drop = \<lparr>inode_num = [4026531840 \<mapsto> 1], ignore_ips = Map.empty, allowed_syscalls = Map.empty,
     connection_tracking = Map.empty, policy_drop_events = []\<rparr>"

lemma demo_drop_sel [simp]:
  "inode_num demo_drop = [4026531840 \<mapsto> 1]" "connection_tracking demo_drop = Map.empty"
  "policy_drop_events demo_drop = []" "ignore_ips demo_drop = Map.empty"
  by (simp_all add: demo_drop_def)

lemma filtered_demo_drop: "\<not> should_filter_traffic demo_drop (skc_rcv_saddr demo_client) (skc_daddr demo_client)"
  by (simp add: should_filter_traffic_def demo_client_def localhost_def)

lemma demo_skc_state: "read_skc_state vmlinux_offs (demo_mem skc inum) 0x1000 = skc_state skc"
proof -
  have "slice 18 1 (sock_image skc 0x5000) = enc8 (skc_state skc)"
    by (simp add: sock_image_def store_sock_common_def layout_simps slice_put_other slice_put_same)
  then have "holds (demo_mem skc inum) (0x1000 + word_of_nat 18) (enc8 (skc_state skc))"
    using holds_slice [OF demo_mem_sock, of 18 1 skc inum] by simp
  then show ?thesis by (simp add: read_skc_state_def probe_read_holds layout_simps bytes_simps)
qed

abbreviation demo_key :: conn_attempt where
  "demo_key \<equiv> attempt_key 6 4026531840 demo_client"

abbreviation demo_e :: bpf_env where
  "demo_e \<equiv> demo_env demo_client 4026531840"

section \<open>When an attempt is reported\<close>

text \<open>
  C7: an attempt that is never answered is reported exactly once, at its third SYN
  retransmission, as four SYNs; the first two retransmissions report nothing, and neither does
  any of those after the third, however many there are.
\<close>

theorem blocked_attempt_reported:
  assumes "\<forall>e \<in> set (e1 # e2 # e3 # es). sock_at (env_offs e) (env_mem e) sk skc inum
      \<and> read_skc_state (env_offs e) (env_mem e) sk = 2"
    and "sk \<noteq> 0" and "ucast inum \<in> dom (inode_num s)"
    and "\<not> should_filter_traffic s (skc_rcv_saddr skc) (skc_daddr skc)"
    and "connection_tracking s (attempt_key 6 (ucast inum) skc) = None"
    and "retains upd (attempt_key 6 (ucast inum) skc)" and "bpf_ringbuf_reserve e3 40 = Some buf"
  shows "policy_drop_events (drop_run upd [(e1, Retransmit sk), (e2, Retransmit sk)] s) = policy_drop_events s
    \<and> policy_drop_events (drop_run upd (map (\<lambda>e. (e, Retransmit sk)) (e1 # e2 # e3 # es)) s) =
      policy_drop_events s @ [fill_policy_drop_event
        \<lparr>pe_timestamp = bpf_ktime_get_ns e3, pe_inum = ucast inum, pe_saddr = skc_rcv_saddr skc,
         pe_daddr = skc_daddr skc, pe_sport = skc_num skc, pe_dport = bpf_ntohs (skc_dport skc),
         pe_protocol = 6, pe_syn_retries = 4\<rparr> buf]"
proof -
  let ?k = "attempt_key 6 (ucast inum) skc"
  define s1 where "s1 = syn_retry upd e1 ?k s"
  define s2 where "s2 = syn_retry upd e2 ?k s1"
  define s3 where "s3 = syn_retry upd e3 ?k s2"
  have frame: "inode_num s1 = inode_num s" "inode_num s2 = inode_num s" "inode_num s3 = inode_num s"
    "should_filter_traffic s1 = should_filter_traffic s" "should_filter_traffic s2 = should_filter_traffic s"
    "should_filter_traffic s3 = should_filter_traffic s"
    by (simp_all add: s1_def s2_def s3_def fun_eq_iff)
  have run: "trace_tcp_retransmit upd e1 sk s = s1" "trace_tcp_retransmit upd e2 sk s1 = s2"
    "trace_tcp_retransmit upd e3 sk s2 = s3"
    using assms(1-4) by (simp_all add: retransmit_at [where inum = inum and skc = skc] frame flip: s1_def s2_def s3_def)
  have "connection_tracking s1 ?k = Some (first_retry e1)" "policy_drop_events s1 = policy_drop_events s"
    using assms(5,6) by (simp_all add: s1_def syn_retry_def retains_def)
  then have 2: "connection_tracking s2 ?k = Some (retried e2 (first_retry e1))" "policy_drop_events s2 = policy_drop_events s"
    by (simp_all add: s2_def syn_retry_def drop_due_def retried_def first_retry_def)
  have "drop_due (retried e3 (retried e2 (first_retry e1)))"
    by (simp add: drop_due_def retried_def first_retry_def)
  then have 3: "connection_tracking s3 ?k = Some ((retried e3 (retried e2 (first_retry e1)))\<lparr>dc_established := 1\<rparr>)"
    "policy_drop_events s3 = policy_drop_events s @
       [fill_policy_drop_event (drop_event e3 ?k (retried e3 (retried e2 (first_retry e1)))) buf]"
    using 2 assms(7) by (simp_all add: s3_def syn_retry_def)
  have "policy_drop_events (drop_run upd (map (\<lambda>e. (e, Retransmit sk)) es) s3) = policy_drop_events s3"
    using assms(1-4) 3(1) by (intro settled_retransmits [OF _ _ _ _ 3(1)]) (simp_all add: frame)
  then show ?thesis
    by (simp add: run 2 3 drop_event_def attempt_key_def retried_def first_retry_def)
qed

theorem blocked_attempt_reported_witness:
  "policy_drop_events (drop_run no_evict (map (\<lambda>e. (e, Retransmit 0x1000)) [demo_e, demo_e, demo_e, demo_e, demo_e])
      demo_drop) =
    [fill_policy_drop_event \<lparr>pe_timestamp = 7, pe_inum = 4026531840, pe_saddr = 0x0500000A, pe_daddr = 0x0900000A,
       pe_sport = 40000, pe_dport = 443, pe_protocol = 6, pe_syn_retries = 4\<rparr> (replicate 40 0)]"
  using blocked_attempt_reported [of demo_e demo_e demo_e "[demo_e, demo_e]" "0x1000" demo_client 4026531840
      demo_drop no_evict "replicate 40 0"]
    demo_sock_at [of demo_client 4026531840] demo_skc_state [of demo_client 4026531840] filtered_demo_drop
  by (simp add: demo_client_def bpf_htons_def)

text \<open>
  C6: towards every TCP connection attempt, any sequence of program runs behaves as the state
  machine \<open>attempt_run\<close> on the events the runs are to that attempt: the phase of the attempt
  and the number of its records in the ring buffer are those the machine gives, as long as the
  kernel stores and keeps the entry.
\<close>

theorem drop_tracking_refines:
  assumes "retains upd k" and "\<forall>(e, p) \<in> set ps. env_ok e" and "ca_protocol k = 6"
  shows "attempt_run (events_for k s ps) (phase_of s k) =
      (phase_of (drop_run upd ps s) k, drops_for k (drop_run upd ps s) - drops_for k s)
    \<and> drops_for k s \<le> drops_for k (drop_run upd ps s)"
  using drop_run_refines [OF assms] by simp

lemma demo_effects:
  "drop_effect_of demo_e (Retransmit 0x1000) demo_drop = Retry demo_key"
  "drop_effect_of demo_e (Connect 0x1000) demo_drop = Begin demo_key"
  "drop_effect_of demo_e (SetState 0x1000 1) demo_drop = Establish demo_key"
proof -
  have "drop_guard demo_e 0x1000 demo_drop = Some (4026531840, demo_client)"
    using drop_guard_at [of demo_e "0x1000" demo_client 4026531840 demo_drop] filtered_demo_drop
      demo_sock_at [of demo_client 4026531840] by simp
  moreover have "read_skc_state vmlinux_offs (demo_mem demo_client 4026531840) 0x1000 = 2"
    by (simp add: demo_skc_state demo_client_def)
  moreover have "get_and_validate_inum demo_e 0x1000 demo_drop = Some 4026531840"
    using get_and_validate_inum_at [of demo_e "0x1000" demo_client 4026531840 demo_drop]
      demo_sock_at [of demo_client 4026531840] by simp
  moreover have "read_sock_common vmlinux_offs (demo_mem demo_client 4026531840) 0x1000 = demo_client"
    using read_sock_common_at demo_sock_at by blast
  ultimately show "drop_effect_of demo_e (Retransmit 0x1000) demo_drop = Retry demo_key"
    "drop_effect_of demo_e (Connect 0x1000) demo_drop = Begin demo_key"
    "drop_effect_of demo_e (SetState 0x1000 1) demo_drop = Establish demo_key"
    by simp_all
qed

theorem drop_tracking_refines_witness:
  "phase_of (drop_run no_evict [(demo_e, Connect 0x1000), (demo_e, Retransmit 0x1000), (demo_e, SetState 0x1000 1)]
     demo_drop) demo_key = Settled"
  using drop_tracking_refines [of no_evict demo_key
      "[(demo_e, Connect 0x1000), (demo_e, Retransmit 0x1000), (demo_e, SetState 0x1000 1)]" demo_drop]
  by (simp add: events_for_def demo_effects phase_of_def [of demo_drop] del: drop_effect_of.simps drop_run.simps)

text \<open>
  whatever programs run, an attempt is reported at most once more than it is begun anew
  by a connect, and an attempt that is settled is not reported without a new connect.
\<close>

theorem drop_reported_once:
  assumes "retains upd k" and "\<forall>(e, p) \<in> set ps. env_ok e" and "ca_protocol k = 6"
  shows "drops_for k (drop_run upd ps s) \<le>
    drops_for k s + (if phase_of s k = Settled then 0 else 1) + openings (events_for k s ps)"
  using drop_run_refines [OF assms, of s] attempt_run_potential [of "events_for k s ps" "phase_of s k"]
  by (simp add: may_drop_def)

theorem drop_reported_once_witness:
  "drops_for demo_key (drop_run no_evict (replicate 9 (demo_e, Retransmit 0x1000)) demo_drop) \<le> 1"
  using drop_reported_once [of no_evict demo_key "replicate 9 (demo_e, Retransmit 0x1000)" demo_drop]
  by (simp add: drops_for_def [of _ demo_drop] events_for_def openings_def demo_effects phase_of_def
      del: drop_effect_of.simps drop_run.simps)

text \<open>
  an attempt that was tracked when its socket became established is not reported by any
  later sequence of program runs in which no new connect begins it again.
\<close>

theorem established_not_reported:
  assumes "sock_at (env_offs e) (env_mem e) sk skc inum" and "sk \<noteq> 0" and "ucast inum \<in> dom (inode_num s)"
    and "connection_tracking s (attempt_key 6 (ucast inum) skc) \<noteq> None"
    and "retains upd (attempt_key 6 (ucast inum) skc)" and "\<forall>(e, p) \<in> set ps. env_ok e"
    and "openings (events_for (attempt_key 6 (ucast inum) skc) s ps) = 0"
  shows "drops_for (attempt_key 6 (ucast inum) skc) (drop_run upd ps (drop_trace_tcp_state_change e sk 1 s)) =
    drops_for (attempt_key 6 (ucast inum) skc) s"
proof -
  let ?k = "attempt_key 6 (ucast inum) skc" and ?s = "drop_trace_tcp_state_change e sk 1 s"
  have s: "?s = mark_established ?k s"
    using assms(2,3)
    by (simp add: drop_trace_tcp_state_change_eq get_and_validate_inum_at [OF assms(1)] read_sock_common_at [OF assms(1)])
  then have "phase_of ?s ?k = Settled" "drops_for ?k ?s = drops_for ?k s"
    using assms(4) by (auto simp: mark_established_def phase_of_def drops_for_def)
  moreover have "events_for ?k ?s ps = events_for ?k s ps"
    unfolding events_for_def
    using drop_effect_cong [of ?s s] drop_apply_frame [of upd e "Establish ?k" s] by (simp add: s)
  ultimately show ?thesis
    using drop_run_refines [OF assms(5,6), of ?s] attempt_run_potential [of "events_for ?k ?s ps" Settled] assms(7)
    by (simp add: may_drop_def)
qed

definition demo_tracked :: drop_state where
  "demo_tracked = demo_drop\<lparr>connection_tracking := [demo_key \<mapsto>
     \<lparr>dc_first_syn_time = 1, dc_last_syn_time = 3, dc_syn_count = 3, dc_established = 0\<rparr>]\<rparr>"

lemma demo_tracked_sel [simp]:
  "inode_num demo_tracked = [4026531840 \<mapsto> 1]" "ignore_ips demo_tracked = Map.empty"
  "policy_drop_events demo_tracked = []"
  "connection_tracking demo_tracked = [demo_key \<mapsto>
     \<lparr>dc_first_syn_time = 1, dc_last_syn_time = 3, dc_syn_count = 3, dc_established = 0\<rparr>]"
  by (simp_all add: demo_tracked_def)

lemma demo_tracked_effect: "drop_effect_of demo_e (Retransmit 0x1000) demo_tracked = Retry demo_key"
  using demo_effects(1) drop_effect_cong [of demo_tracked demo_drop] by simp

theorem established_not_reported_witness:
  "drops_for demo_key (drop_run no_evict [(demo_e, Retransmit 0x1000), (demo_e, Retransmit 0x1000)]
     (drop_trace_tcp_state_change demo_e 0x1000 1 demo_tracked)) = 0"
  using established_not_reported [of demo_e "0x1000" demo_client 4026531840 demo_tracked no_evict
      "[(demo_e, Retransmit 0x1000), (demo_e, Retransmit 0x1000)]"] demo_sock_at [of demo_client 4026531840]
  by (simp add: events_for_def openings_def demo_tracked_effect drops_for_def [of _ demo_tracked]
      del: drop_effect_of.simps drop_run.simps)

text \<open>
  a report that finds the ring buffer full is not lost: the attempt stays open, and its
  next retransmission reports it with the count it has then.
\<close>

theorem drop_full_ring_retried:
  assumes "\<forall>e \<in> {e1, e2}. sock_at (env_offs e) (env_mem e) sk skc inum
      \<and> read_skc_state (env_offs e) (env_mem e) sk = 2"
    and "sk \<noteq> 0" and "ucast inum \<in> dom (inode_num s)"
    and "\<not> should_filter_traffic s (skc_rcv_saddr skc) (skc_daddr skc)"
    and "connection_tracking s (attempt_key 6 (ucast inum) skc) = Some st"
    and "dc_established st = 0" and "3 \<le> dc_syn_count st" and "dc_syn_count st < 0xFFFFFFFE"
    and "bpf_ringbuf_reserve e1 40 = None" and "bpf_ringbuf_reserve e2 40 = Some buf"
  shows "policy_drop_events (trace_tcp_retransmit upd e1 sk s) = policy_drop_events s
    \<and> policy_drop_events (trace_tcp_retransmit upd e2 sk (trace_tcp_retransmit upd e1 sk s)) =
      policy_drop_events s @ [fill_policy_drop_event
        \<lparr>pe_timestamp = bpf_ktime_get_ns e2, pe_inum = ucast inum, pe_saddr = skc_rcv_saddr skc,
         pe_daddr = skc_daddr skc, pe_sport = skc_num skc, pe_dport = bpf_ntohs (skc_dport skc),
         pe_protocol = 6, pe_syn_retries = dc_syn_count st + 2\<rparr> buf]"
proof -
  let ?k = "attempt_key 6 (ucast inum) skc"
  let ?s1 = "syn_retry upd e1 ?k s"
  have run: "trace_tcp_retransmit upd e1 sk s = ?s1" "trace_tcp_retransmit upd e2 sk ?s1 = syn_retry upd e2 ?k ?s1"
    using assms(1-4) by (simp_all add: retransmit_at [where inum = inum and skc = skc])
  have s1: "connection_tracking ?s1 ?k = Some (retried e1 st)" "policy_drop_events ?s1 = policy_drop_events s"
    using assms(5,9) by (simp_all add: syn_retry_def)
  have "4 \<le> dc_syn_count st + 2"
    using assms(7,8) by (simp add: word_le_nat_alt word_less_nat_alt unat_word_ariths)
  then have "drop_due (retried e2 (retried e1 st))"
    using assms(6) by (simp add: drop_due_def retried_def add.assoc)
  then have "policy_drop_events (syn_retry upd e2 ?k ?s1) =
      policy_drop_events s @ [fill_policy_drop_event (drop_event e2 ?k (retried e2 (retried e1 st))) buf]"
    using s1 assms(10) by (simp add: syn_retry_def [of upd e2])
  with s1 show ?thesis unfolding run by (simp add: drop_event_def attempt_key_def retried_def add.assoc)
qed

theorem drop_full_ring_retried_witness:
  "policy_drop_events (trace_tcp_retransmit no_evict demo_e 0x1000
      (trace_tcp_retransmit no_evict (demo_e\<lparr>bpf_ringbuf_reserve := (\<lambda>_. None)\<rparr>) 0x1000 demo_tracked)) =
    [fill_policy_drop_event \<lparr>pe_timestamp = 7, pe_inum = 4026531840, pe_saddr = 0x0500000A, pe_daddr = 0x0900000A,
       pe_sport = 40000, pe_dport = 443, pe_protocol = 6, pe_syn_retries = 5\<rparr> (replicate 40 0)]"
proof -
  have "\<not> should_filter_traffic demo_tracked (skc_rcv_saddr demo_client) (skc_daddr demo_client)"
    using filtered_demo_drop should_filter_cong [of demo_tracked demo_drop] by simp
  then show ?thesis
    using drop_full_ring_retried [of "demo_e\<lparr>bpf_ringbuf_reserve := (\<lambda>_. None)\<rparr>" demo_e "0x1000" demo_client
        4026531840 demo_tracked "\<lparr>dc_first_syn_time = 1, dc_last_syn_time = 3, dc_syn_count = 3, dc_established = 0\<rparr>"
        "replicate 40 0" no_evict]
      demo_sock_at [of demo_client 4026531840] demo_skc_state [of demo_client 4026531840]
    by (simp add: demo_client_def bpf_htons_def)
qed

section \<open>Records and entries\<close>

text \<open>
  in every state the probe and its controller can reach, each record is 40 bytes, says
  TCP, at least four SYNs, a namespace the controller asked for and two different usable
  addresses; each entry of the table belongs to such a namespace, and an entry for UDP traffic
  is never settled.
\<close>

theorem drop_records_ok:
  assumes "drop_reachable upd iupd T s" and "map_update upd" and "map_update iupd"
  shows "(\<forall>r \<in> set (policy_drop_events s). length r = 40 \<and>
      (let ev = policy_drop_event_of_bytes r in
        pe_protocol ev = 6 \<and> 4 \<le> pe_syn_retries ev \<and> pe_inum ev \<in> T \<and> pe_saddr ev \<noteq> pe_daddr ev
        \<and> pe_saddr ev \<notin> {0, localhost} \<and> pe_daddr ev \<notin> {0, localhost}))
    \<and> (\<forall>k st. connection_tracking s k = Some st \<longrightarrow> ca_inum k \<in> T \<and> ca_protocol k \<in> {6, 17}
        \<and> dc_established st \<in> {0, 1} \<and> (ca_protocol k = 17 \<longrightarrow> dc_established st = 0))"
  using drop_reachable_inv [OF assms]
  unfolding drop_inv_def drop_record_ok_def entry_ok_def by blast

lemma drop_reachable_run:
  assumes "drop_reachable upd iupd T s" and "\<forall>(e, p) \<in> set ps. env_ok e"
  shows "drop_reachable upd iupd T (drop_run upd ps s)"
  using assms
proof (induction ps arbitrary: s)
  case (Cons ep ps)
  obtain e p where ep: "ep = (e, p)" by (cases ep)
  with Cons.prems have "drop_step upd iupd T s (drop_prog_run upd e p s)" by (auto intro: drop_step.fire)
  with Cons ep drop_reachable.step [OF Cons.prems(1) this] show ?case by auto
qed simp

definition demo_blocked :: drop_state where
  "demo_blocked = drop_run no_evict (map (\<lambda>e. (e, Retransmit 0x1000)) [demo_e, demo_e, demo_e])
     (track_inode no_evict 4026531840 drop_init)"

lemma demo_blocked_reachable: "drop_reachable no_evict no_evict {4026531840} demo_blocked"
  unfolding demo_blocked_def
  by (intro drop_reachable_run drop_reachable.step [OF drop_reachable.start] drop_step.track) simp_all

theorem drop_records_ok_witness:
  "list_all (\<lambda>r. length r = 40 \<and> pe_inum (policy_drop_event_of_bytes r) = 4026531840
      \<and> 4 \<le> pe_syn_retries (policy_drop_event_of_bytes r)) (policy_drop_events demo_blocked)"
  using drop_records_ok [OF demo_blocked_reachable lru.map_update_axioms lru.map_update_axioms]
  by (auto simp: Let_def list_all_iff)

section \<open>The connect and UDP hooks\<close>

text \<open>
  the connect hook on a socket that is not bound and connected yet.  \<^verbatim>\<open>tcp_v4_connect\<close> sets
  the addresses of the socket, and the hook runs before it: on a socket whose local or remote
  address is still 0 the hook does nothing, so the attempt is first seen at its first
  retransmission.
\<close>

theorem connect_fresh_socket_untracked:
  assumes "sock_at (env_offs e) (env_mem e) sk skc inum" and "skc_daddr skc = 0 \<or> skc_rcv_saddr skc = 0"
  shows "trace_tcp_connect upd e sk s = s"
  using assms(2) by (auto simp: trace_tcp_connect_eq drop_guard_at [OF assms(1)] should_filter_traffic_def)

theorem connect_fresh_socket_untracked_witness:
  "trace_tcp_connect no_evict (demo_env (demo_client\<lparr>skc_daddr := 0\<rparr>) 4026531840) 0x1000 demo_drop = demo_drop"
  using connect_fresh_socket_untracked [of "demo_env (demo_client\<lparr>skc_daddr := 0\<rparr>) 4026531840" "0x1000"
      "demo_client\<lparr>skc_daddr := 0\<rparr>" 4026531840 no_evict demo_drop]
    demo_sock_at [of "demo_client\<lparr>skc_daddr := 0\<rparr>" 4026531840]
  by simp

text \<open>
  the UDP hook counts.  After \<open>n\<close> further sends on a socket whose traffic is not filtered,
  its entry's count is \<open>n\<close> higher modulo \<open>2\<^sup>3\<^sup>2\<close>, its first time stamp is the old one, and the ring
  buffer is unchanged: UDP traffic is never reported as dropped.
\<close>

theorem udp_sends_counted:
  assumes "\<forall>e \<in> set es. sock_at (env_offs e) (env_mem e) sk skc inum"
    and "sk \<noteq> 0" and "ucast inum \<in> dom (inode_num s)"
    and "\<not> should_filter_traffic s (skc_rcv_saddr skc) (skc_daddr skc)"
    and "connection_tracking s (attempt_key 17 (ucast inum) skc) = Some st"
  shows "let s' = drop_run upd (map (\<lambda>e. (e, UdpSendmsg sk)) es) s in
    (\<exists>st'. connection_tracking s' (attempt_key 17 (ucast inum) skc) = Some st'
       \<and> dc_syn_count st' = dc_syn_count st + word_of_nat (length es)
       \<and> dc_first_syn_time st' = dc_first_syn_time st \<and> dc_established st' = dc_established st)
    \<and> policy_drop_events s' = policy_drop_events s"
  using assms
proof (induction es arbitrary: s st)
  case (Cons e es)
  let ?k = "attempt_key 17 (ucast inum) skc"
  let ?s = "udp_retry upd e ?k s"
  have "drop_trace_udp_send upd e sk s = ?s"
    using Cons.prems drop_guard_at [of e sk skc inum s] by (simp add: drop_trace_udp_send_eq)
  moreover have s: "?s = s\<lparr>connection_tracking := (connection_tracking s)(?k \<mapsto> retried e st)\<rparr>"
    using Cons.prems(5) by (simp add: udp_retry_def)
  moreover have "\<not> should_filter_traffic ?s (skc_rcv_saddr skc) (skc_daddr skc)"
    using Cons.prems(4) should_filter_cong [of s ?s] by (simp add: s)
  ultimately show ?case
    using Cons.IH [of ?s "retried e st"] Cons.prems by (auto simp: retried_def Let_def algebra_simps)
qed simp

theorem udp_sends_counted_witness:
  "policy_drop_events (drop_run no_evict (map (\<lambda>e. (e, UdpSendmsg 0x1000)) [demo_e, demo_e, demo_e, demo_e])
     (demo_drop\<lparr>connection_tracking := [attempt_key 17 4026531840 demo_client \<mapsto>
        \<lparr>dc_first_syn_time = 1, dc_last_syn_time = 3, dc_syn_count = 3, dc_established = 0\<rparr>]\<rparr>)) = []"
proof -
  let ?st = "\<lparr>dc_first_syn_time = 1, dc_last_syn_time = 3, dc_syn_count = 3, dc_established = 0\<rparr>"
  let ?s = "demo_drop\<lparr>connection_tracking := [attempt_key 17 4026531840 demo_client \<mapsto> ?st]\<rparr>"
  have "\<not> should_filter_traffic ?s (skc_rcv_saddr demo_client) (skc_daddr demo_client)"
    using filtered_demo_drop should_filter_cong [of ?s demo_drop] by simp
  then show ?thesis
    using udp_sends_counted [of "[demo_e, demo_e, demo_e, demo_e]" "0x1000" demo_client 4026531840 ?s ?st no_evict]
      demo_sock_at [of demo_client 4026531840]
    by (simp add: Let_def)
qed

end
