(* ===== verification/Syscall_Props.thy ===== *)
theory Syscall_Props
  imports Syscall_Probe Controller_Feed Demo
begin

text \<open>
  The properties of the syscall probe: when a syscall is reported and what the record says,
  the effect of the allowlist the controller installs (complete, or cut short by an error),
  and the invariant of its ring buffer.
\<close>

section \<open>A task in memory\<close>

definition task_at :: "core_offs \<Rightarrow> kmem \<Rightarrow> u64 \<Rightarrow> u32 \<Rightarrow> bool" where
  "task_at K m task inum \<longleftrightarrow>
     (\<exists>nsproxy net. holds m (task + word_of_nat (off_nsproxy K)) (enc64 nsproxy)
        \<and> holds m (nsproxy + word_of_nat (off_net_ns K)) (enc64 net)
        \<and> holds m (net + word_of_nat (off_ns_inum K)) (enc32 inum))"

lemma read_task_inum_at: "task_at K m task inum \<Longrightarrow> read_task_inum K m task = inum"
  by (auto simp: task_at_def read_task_inum_def read_ptr_holds probe_read_holds bytes_simps)

lemma demo_task_at: "task_at vmlinux_offs (demo_task_mem inum) 0x9000 inum"
proof -
  let ?m = "demo_task_mem inum"
  have "holds ?m (0x9000 + word_of_nat 1704) (enc64 0xA000)"
    using demo_task_holds(1) [of inum] by simp
  then show ?thesis
    using demo_task_holds(2,3) [of inum] unfolding task_at_def layout_simps by blast
qed

text \<open>A record read back.\<close>

definition data_t_of_bytes :: "bytes \<Rightarrow> u64 \<times> u64" where
  "data_t_of_bytes r = (dec64 (field_off struct_data_t ''inum'') r, dec64 (field_off struct_data_t ''sysnbr'') r)"

lemma data_t_roundtrip [simp]:
  "length buf = 16 \<Longrightarrow> data_t_of_bytes (fill_data_t inum nr buf) = (inum, nr)"
  by (simp add: data_t_of_bytes_def fill_data_t_def layout_simps bytes_simps)

lemma length_fill_data_t [simp]: "length buf = 16 \<Longrightarrow> length (fill_data_t inum nr buf) = 16"
  by (simp add: fill_data_t_def layout_simps)

section \<open>What is reported\<close>

text \<open>
  \<^verbatim>\<open>trace_execve\<close> on a task in memory appends one record, with the task's network namespace
  and the full syscall number, exactly when the namespace is tracked, the allowlist either
  lacks entry 0 or has the low 32 bits of the number, and the ring buffer has room; the maps
  are unchanged in every case.
\<close>

theorem syscall_reported:
  assumes "task_at (env_offs e) (env_mem e) (bpf_get_current_task e) inum"
  shows "trace_execve e ctx s = s\<lparr>syscall_events := syscall_events s @
    (if inode_num s (ucast inum) \<noteq> None
        \<and> (allowed_syscalls s 0 = None \<or> allowed_syscalls s (ucast (sys_enter_id ctx)) \<noteq> None)
     then (case bpf_ringbuf_reserve e 16 of None \<Rightarrow> []
           | Some buf \<Rightarrow> [fill_data_t (ucast inum) (sys_enter_id ctx) buf])
     else [])\<rparr>"
  by (auto simp: trace_execve_def read_task_inum_at [OF assms] bpf_ringbuf_submit_def layout_simps Let_def
      split: option.split)

definition demo_task_env :: bpf_env where
  "demo_task_env = (demo_env demo_client 1)\<lparr>env_mem := demo_task_mem 4026531840\<rparr>"

lemma demo_task_env_sel [simp]:
  "env_offs demo_task_env = vmlinux_offs" "env_mem demo_task_env = demo_task_mem 4026531840"
  "bpf_get_current_task demo_task_env = 0x9000"
  "bpf_ringbuf_reserve demo_task_env = (\<lambda>n. Some (replicate n 0))"
  by (simp_all add: demo_task_env_def)

text \<open>The context of a syscall: the trace header, the number and six arguments.\<close>

definition demo_ctx :: "u64 \<Rightarrow> bytes" where
  "demo_ctx nr = replicate 8 0 @ enc64 nr @ replicate 48 0"

lemma demo_ctx_id [simp]: "sys_enter_id (demo_ctx nr) = nr"
proof -
  have "slice 8 8 (demo_ctx nr) = enc64 nr"
    by (simp add: slice_def demo_ctx_def)
  then show ?thesis
    using dec_enc(4) [of nr] by (simp add: sys_enter_id_def layout_simps dec64_def slice_def)
qed

definition demo_sys :: "(u32 \<rightharpoonup> u32) \<Rightarrow> syscall_state" where
  "demo_sys al = \<lparr>inode_num = [4026531840 \<mapsto> 1], ignore_ips = Map.empty, allowed_syscalls = al, syscall_events = []\<rparr>"

lemma demo_sys_sel [simp]:
  "inode_num (demo_sys al) = [4026531840 \<mapsto> 1]" "allowed_syscalls (demo_sys al) = al" "syscall_events (demo_sys al) = []"
  by (simp_all add: demo_sys_def)

theorem syscall_reported_witness:
  "syscall_events (trace_execve demo_task_env (demo_ctx 59) (demo_sys [0 \<mapsto> 1, 59 \<mapsto> 1])) =
     [fill_data_t 4026531840 59 (replicate 16 0)]
   \<and> syscall_events (trace_execve demo_task_env (demo_ctx 9) (demo_sys [0 \<mapsto> 1, 59 \<mapsto> 1])) = []"
  using syscall_reported [of demo_task_env 4026531840 "demo_ctx 59" "demo_sys [0 \<mapsto> 1, 59 \<mapsto> 1]"]
    syscall_reported [of demo_task_env 4026531840 "demo_ctx 9" "demo_sys [0 \<mapsto> 1, 59 \<mapsto> 1]"]
    demo_task_at [of 4026531840]
  by simp

section \<open>The allowlist\<close>

text \<open>
  once the controller has installed its allowlist, a task of a tracked namespace is
  reported, if the ring buffer has room, exactly for the syscalls of that list: the low 32 bits
  of the number decide.
\<close>

theorem allowlist_exact:
  assumes "\<And>m k v. up m k v = Some (m(k \<mapsto> v))"
    and "populate_syscall_allowlist up Map.empty = Inr (allowed_syscalls s)"
    and "task_at (env_offs e) (env_mem e) (bpf_get_current_task e) inum"
    and "inode_num s (ucast inum) \<noteq> None" and "bpf_ringbuf_reserve e 16 = Some buf"
  shows "syscall_events (trace_execve e ctx s) = syscall_events s @
    (if ucast (sys_enter_id ctx) \<in> set security_syscalls
     then [fill_data_t (ucast inum) (sys_enter_id ctx) buf] else [])"
proof -
  have "dom (allowed_syscalls s) = set security_syscalls"
    using populate_ok [OF assms(1), of security_syscalls Map.empty] assms(2)
    by (auto simp: populate_syscall_allowlist_def)
  moreover have "0 \<in> set security_syscalls" by (simp add: security_syscalls_def)
  ultimately have "(allowed_syscalls s 0 = None \<or> allowed_syscalls s nr \<noteq> None) = (nr \<in> set security_syscalls)" for nr
    by (metis domIff)
  then show ?thesis
    using assms(4,5)
    by (simp add: trace_execve_cases syscall_wanted_def read_task_inum_at [OF assms(3)] domIff disj_imp)
qed

definition demo_store :: "(u32 \<rightharpoonup> u32) \<Rightarrow> u32 \<Rightarrow> u32 \<Rightarrow> (u32 \<rightharpoonup> u32) option" where
  "demo_store m k v = Some (m(k \<mapsto> v))"

lemma demo_populate:
  "\<exists>al. populate_syscall_allowlist demo_store Map.empty = Inr al"
  using populate_ok [of demo_store security_syscalls Map.empty]
  by (auto simp: demo_store_def populate_syscall_allowlist_def)

theorem allowlist_exact_witness:
  "\<exists>al. populate_syscall_allowlist demo_store Map.empty = Inr al
     \<and> syscall_events (trace_execve demo_task_env (demo_ctx 59) (demo_sys al)) = [fill_data_t 4026531840 59 (replicate 16 0)]
     \<and> syscall_events (trace_execve demo_task_env (demo_ctx 9) (demo_sys al)) = []
     \<and> syscall_events (trace_execve demo_task_env (demo_ctx 202) (demo_sys al)) = []"
proof -
  obtain al where al: "populate_syscall_allowlist demo_store Map.empty = Inr al"
    using demo_populate by blast
  have "syscall_events (trace_execve demo_task_env (demo_ctx nr) (demo_sys al)) =
      (if ucast nr \<in> set security_syscalls then [fill_data_t 4026531840 nr (replicate 16 0)] else [])" for nr
    using allowlist_exact [of demo_store "demo_sys al" demo_task_env 4026531840 "replicate 16 0" "demo_ctx nr"]
      al demo_task_at [of 4026531840]
    by (simp add: demo_store_def)
  with al show ?thesis by (simp add: security_syscalls_def)
qed

text \<open>The kernel's hash map as the controller sees it: an update of a full map fails.\<close>

definition hash_try :: "nat \<Rightarrow> ('k \<rightharpoonup> 'v) \<Rightarrow> 'k \<Rightarrow> 'v \<Rightarrow> ('k \<rightharpoonup> 'v) option" where
  "hash_try cap m k v = (if m k = None \<and> cap \<le> card (dom m) then None else Some (m(k \<mapsto> v)))"

lemma populate_fits:
  assumes "finite (dom m)" and "card (dom m \<union> set nrs) \<le> cap"
  shows "\<exists>m'. populate (hash_try cap) nrs m = Inr m' \<and> dom m' = dom m \<union> set nrs"
  using assms
proof (induction nrs arbitrary: m)
  case (Cons nr nrs)
  have "hash_try cap m nr 1 = Some (m(nr \<mapsto> 1))"
  proof (cases "m nr")
    case None
    then have "card (dom m) < card (dom m \<union> set (nr # nrs))"
      using Cons.prems(1) by (intro psubset_card_mono) auto
    with Cons.prems(2) show ?thesis by (simp add: hash_try_def)
  qed (simp add: hash_try_def)
  moreover have "dom (m(nr \<mapsto> 1)) \<union> set nrs = dom m \<union> set (nr # nrs)" by auto
  ultimately show ?case
    using Cons.IH [of "m(nr \<mapsto> 1)"] Cons.prems by (simp add: bytes_simps del: fun_upd_apply dom_fun_upd)
qed simp

lemma security_syscalls_distinct: "length security_syscalls = 56" "distinct security_syscalls"
  by (simp_all add: security_syscalls_def)

text \<open>
  the allowlist fits.  Installing the 56 distinct numbers of the list into the empty
  \<^verbatim>\<open>allowed_syscalls\<close> map, a hash map of its declared capacity, succeeds and leaves exactly the
  numbers of the list in it.
\<close>

theorem allowlist_fits:
  "length security_syscalls = 56 \<and> distinct security_syscalls
   \<and> (\<exists>m. populate_syscall_allowlist (hash_try (max_entries allowed_syscalls_map)) Map.empty = Inr m
        \<and> dom m = set security_syscalls)"
proof -
  note d = security_syscalls_distinct
  then have "card (dom Map.empty \<union> set security_syscalls) \<le> max_entries allowed_syscalls_map"
    by (simp add: distinct_card allowed_syscalls_map_def)
  with d populate_fits [of Map.empty] show ?thesis by (simp add: populate_syscall_allowlist_def)
qed

text \<open>
  an allowlist that is cut short.  If an update fails, either entry 0 is missing and every
  syscall of a tracked namespace is reported, however many entries were stored, or only the
  last number of the list (1, \<^verbatim>\<open>write\<close>) is missing.
\<close>

theorem allowlist_cut_short:
  assumes "\<And>m k v m'. up m k v = Some m' \<Longrightarrow> m' = m(k \<mapsto> v)"
    and "populate_syscall_allowlist up Map.empty = Inl (allowed_syscalls s)"
  shows "(\<forall>e ctx inum. task_at (env_offs e) (env_mem e) (bpf_get_current_task e) inum
        \<and> inode_num s (ucast inum) \<noteq> None \<and> bpf_ringbuf_reserve e 16 \<noteq> None
        \<longrightarrow> syscall_events (trace_execve e ctx s) \<noteq> syscall_events s)
    \<or> dom (allowed_syscalls s) = set security_syscalls - {1}"
proof -
  from populate_prefix [OF assms(1) assms(2) [unfolded populate_syscall_allowlist_def]]
  obtain n where n: "n < 56" "dom (allowed_syscalls s) = set (take n security_syscalls)"
    by (auto simp: security_syscalls_distinct)
  show ?thesis
  proof (cases "n = 55")
    case True
    then have "dom (allowed_syscalls s) = set security_syscalls - {1}"
      unfolding n(2) by (simp add: security_syscalls_def insert_Diff_if)
    then show ?thesis ..
  next
    case False
    with n(1) have "set (take n security_syscalls) \<subseteq> set (take 54 security_syscalls)"
      by (intro set_take_subset_set_take) simp
    moreover have "0 \<notin> set (take 54 security_syscalls)" by (simp add: security_syscalls_def)
    ultimately have "allowed_syscalls s 0 = None" using n(2) by blast
    then show ?thesis
      by (auto simp: trace_execve_cases syscall_wanted_def read_task_inum_at)
  qed
qed

theorem allowlist_cut_short_witness:
  "syscall_events (trace_execve demo_task_env (demo_ctx 202) (demo_sys [59 \<mapsto> 1, 322 \<mapsto> 1])) \<noteq> []"
proof -
  let ?up = "\<lambda>m k v. if k = 57 then None else Some ((m :: u32 \<rightharpoonup> u32)(k \<mapsto> v))"
  let ?s = "demo_sys [59 \<mapsto> 1, 322 \<mapsto> 1]"
  have "populate_syscall_allowlist ?up Map.empty = Inl (allowed_syscalls ?s)"
    by (simp add: populate_syscall_allowlist_def security_syscalls_def bytes_simps)
  then have "(\<forall>e ctx inum. task_at (env_offs e) (env_mem e) (bpf_get_current_task e) inum
        \<and> inode_num ?s (ucast inum) \<noteq> None \<and> bpf_ringbuf_reserve e 16 \<noteq> None
        \<longrightarrow> syscall_events (trace_execve e ctx ?s) \<noteq> syscall_events ?s)
    \<or> dom (allowed_syscalls ?s) = set security_syscalls - {1}"
    by (rule allowlist_cut_short [rotated]) (simp split: if_splits)
  moreover have "57 \<in> set security_syscalls - {1}" "57 \<notin> dom (allowed_syscalls ?s)"
    by (simp_all add: security_syscalls_def)
  ultimately have "\<forall>e ctx inum. task_at (env_offs e) (env_mem e) (bpf_get_current_task e) inum
        \<and> inode_num ?s (ucast inum) \<noteq> None \<and> bpf_ringbuf_reserve e 16 \<noteq> None
        \<longrightarrow> syscall_events (trace_execve e ctx ?s) \<noteq> syscall_events ?s"
    by blast
  from this [rule_format, of demo_task_env 4026531840 "demo_ctx 202"] show ?thesis
    using demo_task_at [of 4026531840] by simp
qed

section \<open>Sequences of syscalls\<close>

fun syscall_run :: "(bpf_env \<times> bytes) list \<Rightarrow> syscall_state \<Rightarrow> syscall_state" where
  "syscall_run [] s = s"
| "syscall_run ((e, ctx) # hs) s = syscall_run hs (trace_execve e ctx s)"

text \<open>A hit of the tracepoint as the pair the probe should report.\<close>

definition hit :: "bpf_env \<times> bytes \<Rightarrow> u64 \<times> u64" where
  "hit h = (ucast (read_task_inum (env_offs (fst h)) (env_mem (fst h)) (bpf_get_current_task (fst h))),
     sys_enter_id (snd h))"

lemma trace_execve_hit:
  assumes "env_ok e" and "bpf_ringbuf_reserve e 16 = Some buf"
  shows "map data_t_of_bytes (syscall_events (trace_execve e ctx s)) = map data_t_of_bytes (syscall_events s) @
      (if syscall_wanted s (fst (hit (e, ctx))) (ucast (snd (hit (e, ctx)))) then [hit (e, ctx)] else [])"
  using assms by (auto simp: trace_execve_cases hit_def env_ok_def)

lemma trace_execve_maps:
  "inode_num (trace_execve e ctx s) = inode_num s" "allowed_syscalls (trace_execve e ctx s) = allowed_syscalls s"
  by (simp_all add: trace_execve_cases split: option.split)

text \<open>
  C24: as long as the ring buffer has room, the records of a sequence of syscalls are, read back
  and in order, exactly the syscalls of tracked namespaces that the allowlist lets through.
\<close>

theorem syscall_trace_exact:
  assumes "\<forall>(e, ctx) \<in> set hs. env_ok e \<and> bpf_ringbuf_reserve e 16 \<noteq> None"
  shows "map data_t_of_bytes (syscall_events (syscall_run hs s)) = map data_t_of_bytes (syscall_events s) @
    filter (\<lambda>(inum, nr). inum \<in> dom (inode_num s)
      \<and> (0 \<in> dom (allowed_syscalls s) \<longrightarrow> ucast nr \<in> dom (allowed_syscalls s))) (map hit hs)"
  using assms
proof (induction hs arbitrary: s)
  case (Cons h hs)
  obtain e ctx where h: "h = (e, ctx)" by (cases h)
  with Cons.prems obtain buf where "bpf_ringbuf_reserve e 16 = Some buf" "env_ok e" by auto
  from trace_execve_hit [OF this(2,1), of ctx s] Cons.IH [of "trace_execve e ctx s"] Cons.prems h
  show ?case by (auto simp: trace_execve_maps syscall_wanted_def split: prod.splits)
qed simp

theorem syscall_trace_exact_witness:
  "map data_t_of_bytes (syscall_events (syscall_run
      (map (\<lambda>nr. (demo_task_env, demo_ctx nr)) [59, 9, 42, 202, 0x10000003B]) (demo_sys [0 \<mapsto> 1, 59 \<mapsto> 1, 42 \<mapsto> 1]))) =
    [(4026531840, 59), (4026531840, 42), (4026531840, 0x10000003B)]"
  using syscall_trace_exact [of "map (\<lambda>nr. (demo_task_env, demo_ctx nr)) [59, 9, 42, 202, 0x10000003B]"
      "demo_sys [0 \<mapsto> 1, 59 \<mapsto> 1, 42 \<mapsto> 1]"]
    read_task_inum_at [OF demo_task_at, of 4026531840]
  by (simp add: hit_def env_ok_def)

end
