(* ===== verification/Event_Abi.thy ===== *)
theory Event_Abi
  imports Network_Correct Drop_Correct Syscall_Props
begin

text \<open>
  The binary interface between the probes and the controller: the \<^verbatim>\<open>repr(C)\<close> structures of
  \<^verbatim>\<open>src/controller/src/network.rs\<close> and \<^verbatim>\<open>src/controller/src/syscall.rs\<close> and the three ring-buffer
  callbacks of \<^verbatim>\<open>src/controller/src/bpf.rs\<close>, which check the length of a record and then
  reinterpret its bytes.
\<close>

section \<open>The structures of the controller\<close>

definition NetworkEventData :: ctype where
  "NetworkEventData = CStruct [
     Field ''inum'' (CInt False 8),
     Field ''saddr'' (CInt False 4),
     Field ''sport'' (CInt False 2),
     Field ''daddr'' (CInt False 4),
     Field ''dport'' (CInt False 2),
     Field ''kind'' (CInt False 2)]"

definition PolicyDropEvent :: ctype where
  "PolicyDropEvent = CStruct [
     Field ''timestamp'' (CInt False 8),
     Field ''inum'' (CInt False 8),
     Field ''saddr'' (CInt False 4),
     Field ''daddr'' (CInt False 4),
     Field ''sport'' (CInt False 2),
     Field ''dport'' (CInt False 2),
     Field ''protocol'' (CInt False 1),
     Field ''_pad'' (CInt False 1),
     Field ''syn_retries'' (CInt False 4)]"

definition SyscallEventData :: ctype where
  "SyscallEventData = CStruct [Field ''inum'' (CInt False 8), Field ''sysnbr'' (CInt False 4)]"

record syscall_event =
  se_inum :: u64
  se_sysnbr :: u32

text \<open>The reinterpretation of a record: each field at the offset its Rust type gives.\<close>

definition network_event_cast :: "bytes \<Rightarrow> network_event_data" where
  "network_event_cast bs = \<lparr>
     ne_inum = dec64 (field_off NetworkEventData ''inum'') bs,
     ne_saddr = dec32 (field_off NetworkEventData ''saddr'') bs,
     ne_sport = dec16 (field_off NetworkEventData ''sport'') bs,
     ne_daddr = dec32 (field_off NetworkEventData ''daddr'') bs,
     ne_dport = dec16 (field_off NetworkEventData ''dport'') bs,
     ne_kind = dec16 (field_off NetworkEventData ''kind'') bs\<rparr>"

definition policy_drop_cast :: "bytes \<Rightarrow> policy_drop_event" where
  "policy_drop_cast bs = \<lparr>
     pe_timestamp = dec64 (field_off PolicyDropEvent ''timestamp'') bs,
     pe_inum = dec64 (field_off PolicyDropEvent ''inum'') bs,
     pe_saddr = dec32 (field_off PolicyDropEvent ''saddr'') bs,
     pe_daddr = dec32 (field_off PolicyDropEvent ''daddr'') bs,
     pe_sport = dec16 (field_off PolicyDropEvent ''sport'') bs,
     pe_dport = dec16 (field_off PolicyDropEvent ''dport'') bs,
     pe_protocol = dec8 (field_off PolicyDropEvent ''protocol'') bs,
     pe_syn_retries = dec32 (field_off PolicyDropEvent ''syn_retries'') bs\<rparr>"

definition syscall_cast :: "bytes \<Rightarrow> syscall_event" where
  "syscall_cast bs = \<lparr>
     se_inum = dec64 (field_off SyscallEventData ''inum'') bs,
     se_sysnbr = dec32 (field_off SyscallEventData ''sysnbr'') bs\<rparr>"

text \<open>The callbacks up to the channel: a record that is too short is dropped.\<close>

definition network_callback :: "bytes \<Rightarrow> network_event_data option" where
  "network_callback data = (if length data < csize NetworkEventData then None else Some (network_event_cast data))"

definition syscall_callback :: "bytes \<Rightarrow> syscall_event option" where
  "syscall_callback data = (if length data < csize SyscallEventData then None else Some (syscall_cast data))"

definition policy_drop_callback :: "bytes \<Rightarrow> policy_drop_event option" where
  "policy_drop_callback data = (if length data < csize PolicyDropEvent then None else Some (policy_drop_cast data))"

section \<open>Layouts\<close>

lemma abi_layouts [layout_simps]:
  "csize NetworkEventData = 24" "csize PolicyDropEvent = 40" "csize SyscallEventData = 16"
  "field_off NetworkEventData ''inum'' = 0" "field_off NetworkEventData ''saddr'' = 8"
  "field_off NetworkEventData ''sport'' = 12" "field_off NetworkEventData ''daddr'' = 16"
  "field_off NetworkEventData ''dport'' = 20" "field_off NetworkEventData ''kind'' = 22"
  "field_off PolicyDropEvent ''timestamp'' = 0" "field_off PolicyDropEvent ''inum'' = 8"
  "field_off PolicyDropEvent ''saddr'' = 16" "field_off PolicyDropEvent ''daddr'' = 20"
  "field_off PolicyDropEvent ''sport'' = 24" "field_off PolicyDropEvent ''dport'' = 26"
  "field_off PolicyDropEvent ''protocol'' = 28" "field_off PolicyDropEvent ''syn_retries'' = 32"
  "field_off SyscallEventData ''inum'' = 0" "field_off SyscallEventData ''sysnbr'' = 8"
  by (simp_all add: field_off_def NetworkEventData_def PolicyDropEvent_def SyscallEventData_def layout_simps
      cong: layout_cong)

section \<open>The interface\<close>

text \<open>
  A channel of records: a probe fills a reserved record of fixed size from a value, and the
  consumer's callback recovers (a view of) the value.
\<close>

locale record_channel =
  fixes size :: nat and fill :: "'a \<Rightarrow> bytes \<Rightarrow> bytes" and callback :: "bytes \<Rightarrow> 'b option" and view :: "'a \<Rightarrow> 'b"
  assumes fill_length: "length buf = size \<Longrightarrow> length (fill x buf) = size"
    and callback_fill: "length buf = size \<Longrightarrow> callback (fill x buf) = Some (view x)"
begin

text \<open>What the consumer receives of a sequence of records does not depend on what the reserved
  bytes held.\<close>

lemma channel_delivers:
  assumes "\<forall>(x, buf) \<in> set xs. length buf = size"
  shows "map callback (map (\<lambda>(x, buf). fill x buf) xs) = map (\<lambda>(x, buf). Some (view x)) xs"
  using assms callback_fill by auto

lemma channel_ignores_buffer:
  "length b1 = size \<Longrightarrow> length b2 = size \<Longrightarrow> callback (fill x b1) = callback (fill x b2)"
  by (simp add: callback_fill)

end

interpretation net_channel: record_channel 24 fill_network_event network_callback "\<lambda>ev. ev"
  by unfold_locales (simp_all add: network_callback_def network_event_cast_def fill_network_event_def
      layout_simps bytes_simps)

interpretation drop_channel: record_channel 40 fill_policy_drop_event policy_drop_callback "\<lambda>ev. ev"
  by unfold_locales (simp_all add: policy_drop_callback_def policy_drop_cast_def fill_policy_drop_event_def
      layout_simps bytes_simps)

text \<open>The probe stores the syscall number in 64 bits, the controller reads its low 32 bits.\<close>

lemma le_nat_append: "le_nat (xs @ ys) = le_nat xs + 256 ^ length xs * le_nat ys"
  by (induction xs) (simp_all add: algebra_simps)

lemma le_nat_take: "n \<le> length bs \<Longrightarrow> le_nat (take n bs) = le_nat bs mod 256 ^ n"
proof -
  assume n: "n \<le> length bs"
  have "le_nat bs = le_nat (take n bs) + 256 ^ n * le_nat (drop n bs)"
    using n le_nat_append [of "take n bs" "drop n bs"] by simp
  moreover have "le_nat (take n bs) < 256 ^ n"
    using n le_nat_bound [of "take n bs"] by simp
  ultimately show ?thesis by simp
qed

lemma ucast_word_of_nat: "(ucast (word_of_nat x :: u64) :: u32) = word_of_nat (x mod 4294967296)"
  by transfer (simp add: take_bit_eq_mod of_nat_mod mod_mod_cancel)

lemma dec32_low:
  assumes "off + 8 \<le> length bs" shows "dec32 off bs = ucast (dec64 off bs)"
proof -
  have "slice off 4 bs = take 4 (slice off 8 bs)" by (simp add: slice_def min_def)
  moreover have "length (slice off 8 bs) = 8" using assms by (simp add: length_slice)
  ultimately have "le_nat (slice off 4 bs) = le_nat (slice off 8 bs) mod 2 ^ 32"
    by (simp add: le_nat_take)
  then show ?thesis
    by (simp add: dec32_def dec64_def ucast_word_of_nat)
qed

definition syscall_view :: "u64 \<times> u64 \<Rightarrow> syscall_event" where
  "syscall_view x = \<lparr>se_inum = fst x, se_sysnbr = ucast (snd x)\<rparr>"

interpretation sys_channel: record_channel 16 "\<lambda>(inum, nr). fill_data_t inum nr" syscall_callback syscall_view
proof
  fix buf :: bytes and x :: "u64 \<times> u64"
  assume buf: "length buf = 16"
  then show "length ((case x of (inum, nr) \<Rightarrow> fill_data_t inum nr) buf) = 16"
    by (simp split: prod.split)
  with buf show "syscall_callback ((case x of (inum, nr) \<Rightarrow> fill_data_t inum nr) buf) = Some (syscall_view x)"
    by (auto simp: syscall_callback_def syscall_cast_def syscall_view_def dec32_low fill_data_t_def layout_simps
        bytes_simps split: prod.split)
qed

section \<open>Properties of the interface\<close>

text \<open>
  the two sides agree on the layout of the records.  The network and the drop structures
  of the controller are those of the probes; the syscall structures have the same size and the
  same offsets, but the number is 8 bytes on one side and 4 on the other.
\<close>

theorem event_layouts_agree:
  "NetworkEventData = struct_network_event_data \<and> PolicyDropEvent = struct_policy_drop_event
   \<and> csize SyscallEventData = csize struct_data_t
   \<and> offsetof SyscallEventData [''inum''] = offsetof struct_data_t [''inum'']
   \<and> offsetof SyscallEventData [''sysnbr''] = offsetof struct_data_t [''sysnbr'']
   \<and> map_option (csize \<circ> snd) (member ''sysnbr'' struct_data_t) = Some 8
   \<and> map_option (csize \<circ> snd) (member ''sysnbr'' SyscallEventData) = Some 4"
  by (simp add: NetworkEventData_def struct_network_event_data_def PolicyDropEvent_def
      struct_policy_drop_event_def SyscallEventData_def struct_data_t_def layout_simps
      typ___u64_def typ___u32_def typ___u16_def typ___u8_def)

text \<open>
  C27: what a probe writes is what the controller receives, whatever the reserved bytes held:
  every field of a network or drop record, and the namespace and the low 32 bits of the number
  of a syscall record.
\<close>

theorem events_delivered:
  assumes "length b1 = 24" and "length b2 = 40" and "length b3 = 16"
  shows "network_callback (fill_network_event ev b1) = Some ev
    \<and> policy_drop_callback (fill_policy_drop_event pev b2) = Some pev
    \<and> syscall_callback (fill_data_t inum nr b3) = Some \<lparr>se_inum = inum, se_sysnbr = ucast nr\<rparr>"
  using net_channel.callback_fill [OF assms(1)] drop_channel.callback_fill [OF assms(2)]
    sys_channel.callback_fill [OF assms(3), of "(inum, nr)"]
  by (simp add: syscall_view_def)

theorem events_delivered_witness:
  "syscall_callback (fill_data_t 4026531840 0x10000003B (replicate 16 255)) =
     Some \<lparr>se_inum = 4026531840, se_sysnbr = 59\<rparr>"
  using events_delivered [of "replicate 24 0" "replicate 40 0" "replicate 16 255" undefined undefined 4026531840
      "0x10000003B"]
  by simp

end
