(* ===== verification/Controller_Events.thy ===== *)
theory Controller_Events
  imports Event_Abi
begin

text \<open>
  The receivers of the event channels, from \<^verbatim>\<open>src/controller/src/network.rs\<close>: a network or drop event becomes a row for the broker
  unless it is a duplicate, rows are sent in batches, and a batch that could not be sent is kept
  up to a bound.  The deduplication cache (\<^verbatim>\<open>moka\<close>), the identifiers and clocks, and the broker's
  answers are parameters.
\<close>

section \<open>Rows\<close>

fun digits :: "nat \<Rightarrow> string" where
  "digits n = (if n < 10 then [char_of (48 + n)] else digits (n div 10) @ [char_of (48 + n mod 10)])"

declare digits.simps [simp del]

text \<open>\<^verbatim>\<open>u32::from_be\<close> and the dotted form of \<^verbatim>\<open>Ipv4Addr\<close>.\<close>

definition from_be :: "u32 \<Rightarrow> u32" where
  "from_be w = to_be w"

definition ipv4_string :: "u32 \<Rightarrow> string" where
  "ipv4_string w = (case rev (enc32 w) of
     [a, b, c, d] \<Rightarrow> digits (unat a) @ ''.'' @ digits (unat b) @ ''.'' @ digits (unat c) @ ''.'' @ digits (unat d)
   | _ \<Rightarrow> [])"

record pod_status =
  pod_name :: string
  pod_namespace :: "string option"
  pod_ip :: string

record traffic_key =
  tk_pod_name :: string
  tk_pod_ip :: string
  tk_pod_port :: string
  tk_traffic_in_out_ip :: string
  tk_traffic_in_out_port :: string
  tk_traffic_type :: string
  tk_ip_protocol :: string
  tk_decision :: string

record pod_traffic =
  pt_uuid :: string
  pt_pod_name :: string
  pt_pod_namespace :: "string option"
  pt_pod_ip :: string
  pt_pod_port :: "string option"
  pt_ip_protocol :: "string option"
  pt_traffic_type :: "string option"
  pt_traffic_in_out_ip :: "string option"
  pt_traffic_in_out_port :: "string option"
  pt_decision :: "string option"
  pt_time_stamp :: nat

type_synonym traffic_cache = "traffic_key \<rightharpoonup> unit"

type_synonym cache_updater = "(traffic_key, unit) updater"

definition KIND_EGRESS_TCP :: u16 where
  "KIND_EGRESS_TCP = 1"

definition KIND_INGRESS_TCP :: u16 where
  "KIND_INGRESS_TCP = 2"

definition KIND_EGRESS_UDP :: u16 where
  "KIND_EGRESS_UDP = 3"

text \<open>A row, or \<open>None\<close>, and the new cache.  \<open>uuid\<close> and \<open>now\<close> are the values of \<^verbatim>\<open>Uuid::new_v4\<close>
  and \<^verbatim>\<open>Utc::now\<close>; the cache's \<^verbatim>\<open>insert\<close> is the parameter \<open>ins\<close>.\<close>

definition build_traffic_event :: "cache_updater \<Rightarrow> string \<Rightarrow> nat \<Rightarrow> network_event_data \<Rightarrow> pod_status
    \<Rightarrow> traffic_cache \<Rightarrow> pod_traffic option \<times> traffic_cache" where
  "build_traffic_event ins uuid now data pod cache =
     (let dst = from_be (ne_daddr data);
          shape = (if ne_kind data = KIND_INGRESS_TCP then Some (''INGRESS'', ''TCP'', ne_sport data, 0)
                   else if ne_kind data = KIND_EGRESS_TCP then Some (''EGRESS'', ''TCP'', 0, ne_dport data)
                   else if ne_kind data = KIND_EGRESS_UDP then Some (''EGRESS'', ''UDP'', 0, ne_dport data)
                   else None)
      in case shape of
        None \<Rightarrow> (None, cache)
      | Some (traffic_type, protocol, pod_port, io_port) \<Rightarrow>
          (let ip = ipv4_string dst
           in if pod_ip pod = ip then (None, cache)
              else
                let key = \<lparr>tk_pod_name = pod_name pod, tk_pod_ip = pod_ip pod,
                      tk_pod_port = digits (unat pod_port), tk_traffic_in_out_ip = ip,
                      tk_traffic_in_out_port = digits (unat io_port), tk_traffic_type = traffic_type,
                      tk_ip_protocol = protocol, tk_decision = ''ALLOW''\<rparr>
                in if cache key \<noteq> None then (None, cache)
                   else (Some \<lparr>pt_uuid = uuid, pt_pod_name = pod_name pod, pt_pod_namespace = pod_namespace pod,
                      pt_pod_ip = pod_ip pod, pt_pod_port = Some (digits (unat pod_port)),
                      pt_ip_protocol = Some protocol, pt_traffic_type = Some traffic_type,
                      pt_traffic_in_out_ip = Some ip, pt_traffic_in_out_port = Some (digits (unat io_port)),
                      pt_decision = Some ''ALLOW'', pt_time_stamp = now\<rparr>,
                    ins cache key ())))"

definition proto_to_string :: "u8 \<Rightarrow> string" where
  "proto_to_string proto =
     (if proto = 6 then ''TCP'' else if proto = 17 then ''UDP'' else if proto = 1 then ''ICMP''
      else if proto = 58 then ''ICMPv6'' else ''UNKNOWN('' @ digits (unat proto) @ '')'')"

definition build_policy_drop_event :: "cache_updater \<Rightarrow> string \<Rightarrow> nat \<Rightarrow> policy_drop_event \<Rightarrow> pod_status
    \<Rightarrow> traffic_cache \<Rightarrow> pod_traffic option \<times> traffic_cache" where
  "build_policy_drop_event ins uuid now data pod cache =
     (let d_ip = ipv4_string (from_be (pe_daddr data));
          protocol_str = proto_to_string (pe_protocol data)
      in if pod_ip pod = d_ip then (None, cache)
         else
           let key = \<lparr>tk_pod_name = pod_name pod, tk_pod_ip = pod_ip pod, tk_pod_port = digits 0,
                 tk_traffic_in_out_ip = d_ip, tk_traffic_in_out_port = digits (unat (pe_dport data)),
                 tk_traffic_type = ''EGRESS'', tk_ip_protocol = protocol_str, tk_decision = ''DROP''\<rparr>
           in if cache key \<noteq> None then (None, cache)
              else (Some \<lparr>pt_uuid = uuid, pt_pod_name = pod_name pod, pt_pod_namespace = pod_namespace pod,
                 pt_pod_ip = pod_ip pod, pt_pod_port = Some (digits 0), pt_ip_protocol = Some protocol_str,
                 pt_traffic_type = Some ''EGRESS'', pt_traffic_in_out_ip = Some d_ip,
                 pt_traffic_in_out_port = Some (digits (unat (pe_dport data))),
                 pt_decision = Some ''DROP'', pt_time_stamp = now\<rparr>,
               ins cache key ()))"

section \<open>Batches\<close>

definition BATCH_SIZE :: nat where
  "BATCH_SIZE = 100"

definition MAX_PENDING_EVENTS :: nat where
  "MAX_PENDING_EVENTS = 1000"

definition should_flush :: "nat \<Rightarrow> nat \<Rightarrow> nat \<Rightarrow> nat \<Rightarrow> bool" where
  "should_flush batch_len elapsed batch_size batch_timeout =
     (if batch_len = 0 then False else batch_len \<ge> batch_size \<or> elapsed \<ge> batch_timeout)"

definition cap_batch :: "'a list \<Rightarrow> nat \<Rightarrow> 'a list \<times> nat" where
  "cap_batch batch mx =
     (if length batch \<le> mx then (batch, 0)
      else let n = length batch - mx in (List.drop n batch, n))"

text \<open>\<open>ok\<close> is whether the broker accepted the post; the second component is what was posted.\<close>

definition flush_network_batch :: "bool \<Rightarrow> 'a list \<Rightarrow> 'a list \<times> 'a list" where
  "flush_network_batch ok batch =
     (if batch = [] then (batch, [])
      else if ok then ([], batch)
      else (fst (cap_batch batch MAX_PENDING_EVENTS), []))"

text \<open>
  The loop of \<^verbatim>\<open>handle_network_events\<close> and \<^verbatim>\<open>handle_policy_drop_events\<close>, one turn per outcome of the
  timed receive: an event with the row it yields, the elapsed time since the last flush and the
  broker's answer, the time-out, or the closed channel.
\<close>

datatype 'a received = Received "'a option" nat bool | TimedOut bool | Closed bool

record 'a handler =
  h_batch :: "'a list"
  h_posted :: "'a list"
  h_done :: bool

definition flush_into :: "bool \<Rightarrow> 'a handler \<Rightarrow> 'a handler" where
  "flush_into ok h = (let (b, p) = flush_network_batch ok (h_batch h) in h\<lparr>h_batch := b, h_posted := h_posted h @ p\<rparr>)"

fun handle_turn :: "nat \<Rightarrow> 'a received \<Rightarrow> 'a handler \<Rightarrow> 'a handler" where
  "handle_turn timeout (Received row elapsed ok) h =
     (let h1 = (case row of None \<Rightarrow> h | Some r \<Rightarrow> h\<lparr>h_batch := h_batch h @ [r]\<rparr>)
      in if should_flush (length (h_batch h1)) elapsed BATCH_SIZE timeout then flush_into ok h1 else h1)"
| "handle_turn timeout (TimedOut ok) h = (if h_batch h \<noteq> [] then flush_into ok h else h)"
| "handle_turn timeout (Closed ok) h = (if h_batch h \<noteq> [] then flush_into ok h else h)\<lparr>h_done := True\<rparr>"

fun handle_events :: "nat \<Rightarrow> 'a received list \<Rightarrow> 'a handler \<Rightarrow> 'a handler" where
  "handle_events timeout [] h = h"
| "handle_events timeout (x # xs) h = (if h_done h then h else handle_events timeout xs (handle_turn timeout x h))"

end
