(* ===== verification/Controller_Loop.thy ===== *)
theory Controller_Loop
  imports Controller_Events
begin

text \<open>
  The poll loop of \<^verbatim>\<open>ebpf_handle\<close> in \<^verbatim>\<open>src/controller/src/bpf.rs\<close>: one turn checks the shutdown
  flag, polls the three ring buffers (which runs the callbacks), backs off or gives up on a poll
  error, and otherwise passes one namespace and one ignored address on to the maps.  What
  \<^verbatim>\<open>libbpf\<close> does in a poll is an input of the turn: whether it succeeded and how many records of
  each ring it consumed.
\<close>

section \<open>IPv4 addresses in text\<close>

text \<open>\<^verbatim>\<open>parse::<Ipv4Addr>\<close>: four decimal octets without leading zeros.\<close>

fun split_dots :: "string \<Rightarrow> string list" where
  "split_dots [] = [[]]"
| "split_dots (c # cs) =
     (if c = CHR ''.'' then [] # split_dots cs
      else case split_dots cs of [] \<Rightarrow> [[c]] | w # ws \<Rightarrow> (c # w) # ws)"

definition is_digit :: "char \<Rightarrow> bool" where
  "is_digit c \<longleftrightarrow> 48 \<le> (of_char c :: nat) \<and> (of_char c :: nat) \<le> 57"

fun decimal :: "nat \<Rightarrow> string \<Rightarrow> nat" where
  "decimal acc [] = acc"
| "decimal acc (c # cs) = decimal (10 * acc + (of_char c - 48)) cs"

definition parse_octet :: "string \<Rightarrow> u8 option" where
  "parse_octet s =
     (if s \<noteq> [] \<and> length s \<le> 3 \<and> list_all is_digit s \<and> (hd s = CHR ''0'' \<longrightarrow> length s = 1) \<and> decimal 0 s \<le> 255
      then Some (word_of_nat (decimal 0 s)) else None)"

definition parse_ipv4 :: "string \<Rightarrow> ipv4 option" where
  "parse_ipv4 s = (case map parse_octet (split_dots s) of
     [Some a, Some b, Some c, Some d] \<Rightarrow> Some (a, b, c, d)
   | _ \<Rightarrow> None)"

section \<open>Delivery\<close>

text \<open>A callback on the records of one ring: a closed receiver loses the event and raises the
  shutdown flag.\<close>

fun deliver :: "(bytes \<Rightarrow> 'e option) \<Rightarrow> bool \<Rightarrow> bytes list \<Rightarrow> 'e list \<times> bool \<Rightarrow> 'e list \<times> bool" where
  "deliver callback open_ch [] (sent, shutdown) = (sent, shutdown)"
| "deliver callback open_ch (r # rs) (sent, shutdown) =
     (case callback r of
        None \<Rightarrow> deliver callback open_ch rs (sent, shutdown)
      | Some ev \<Rightarrow>
          if open_ch then deliver callback open_ch rs (sent @ [ev], shutdown)
          else deliver callback open_ch rs (sent, True))"

section \<open>The loop\<close>

datatype poll_error_action = WarnAndBackoff | BackoffSilently | Bail

definition MAX_CONSECUTIVE_POLL_ERRORS :: u32 where
  "MAX_CONSECUTIVE_POLL_ERRORS = 50"

definition classify_poll_error :: "u32 \<Rightarrow> u32 \<Rightarrow> poll_error_action" where
  "classify_poll_error consecutive mx =
     (if consecutive \<ge> mx then Bail else if consecutive = 1 then WarnAndBackoff else BackoffSilently)"

record controller =
  c_net :: net_state
  c_sys :: syscall_state
  c_drop :: drop_state
  net_sent :: "network_event_data list"
  sys_sent :: "syscall_event list"
  drop_sent :: "policy_drop_event list"
  ebpf_shutdown :: bool
  consecutive_poll_errors :: u32
  poll_log :: "poll_error_action list"

record poll_input =
  poll_ok :: bool
  net_taken :: nat
  sys_taken :: nat
  drop_taken :: nat
  net_open :: bool
  sys_open :: bool
  drop_open :: bool
  rx_inum :: "u64 option"
  rx_ignore :: "string option"

datatype ebpf_error = ReceiverClosed | PollFailed u32

text \<open>The part of a turn inside \<^verbatim>\<open>ring_buffer.poll\<close>.\<close>

definition poll_rings :: "poll_input \<Rightarrow> controller \<Rightarrow> controller" where
  "poll_rings i c =
     (let (ns, sh1) = deliver network_callback (net_open i) (take (net_taken i) (network_events (c_net c)))
            (net_sent c, ebpf_shutdown c);
          (ss, sh2) = deliver syscall_callback (sys_open i) (take (sys_taken i) (syscall_events (c_sys c)))
            (sys_sent c, sh1);
          (ds, sh3) = deliver policy_drop_callback (drop_open i) (take (drop_taken i) (policy_drop_events (c_drop c)))
            (drop_sent c, sh2)
      in c\<lparr>c_net := (c_net c)\<lparr>network_events := drop (net_taken i) (network_events (c_net c))\<rparr>,
           c_sys := (c_sys c)\<lparr>syscall_events := drop (sys_taken i) (syscall_events (c_sys c))\<rparr>,
           c_drop := (c_drop c)\<lparr>policy_drop_events := drop (drop_taken i) (policy_drop_events (c_drop c))\<rparr>,
           net_sent := ns, sys_sent := ss, drop_sent := ds, ebpf_shutdown := sh3\<rparr>)"

text \<open>The map updates at the end of a turn.\<close>

definition feed_inum :: "(u64, u32) updater \<Rightarrow> u64 option \<Rightarrow> controller \<Rightarrow> controller" where
  "feed_inum iupd rx c = (case rx of
     None \<Rightarrow> c
   | Some inum \<Rightarrow> c\<lparr>c_net := track_inode iupd inum (c_net c), c_sys := track_inode iupd inum (c_sys c),
       c_drop := track_inode iupd inum (c_drop c)\<rparr>)"

definition feed_ignore :: "(u32, u32) updater \<Rightarrow> bool \<Rightarrow> string option \<Rightarrow> controller \<Rightarrow> controller" where
  "feed_ignore gupd ignore_daemonset_traffic rx c =
     (if ignore_daemonset_traffic then
        (case rx of
           None \<Rightarrow> c
         | Some ip \<Rightarrow>
             (case parse_ipv4 ip of
                None \<Rightarrow> c
              | Some parsed_ip \<Rightarrow> c\<lparr>c_net := ignore_ip gupd parsed_ip (c_net c)\<rparr>))
      else c)"

definition poll_turn :: "(u64, u32) updater \<Rightarrow> (u32, u32) updater \<Rightarrow> bool \<Rightarrow> poll_input \<Rightarrow> controller
    \<Rightarrow> ebpf_error + controller" where
  "poll_turn iupd gupd ignore_daemonset_traffic i c =
     (if ebpf_shutdown c then Inl ReceiverClosed
      else
        let c1 = poll_rings i c
        in if \<not> poll_ok i then
             (let n = consecutive_poll_errors c1 + 1;
                  a = classify_poll_error n MAX_CONSECUTIVE_POLL_ERRORS
              in if a = Bail then Inl (PollFailed n)
                 else Inr (c1\<lparr>consecutive_poll_errors := n, poll_log := poll_log c1 @ [a]\<rparr>))
           else Inr (feed_ignore gupd ignore_daemonset_traffic (rx_ignore i)
               (feed_inum iupd (rx_inum i) (c1\<lparr>consecutive_poll_errors := 0\<rparr>))))"

fun poll_loop :: "(u64, u32) updater \<Rightarrow> (u32, u32) updater \<Rightarrow> bool \<Rightarrow> poll_input list \<Rightarrow> controller
    \<Rightarrow> ebpf_error + controller" where
  "poll_loop iupd gupd ig [] c = Inr c"
| "poll_loop iupd gupd ig (i # is) c =
     (case poll_turn iupd gupd ig i c of
        Inl err \<Rightarrow> Inl err
      | Inr c' \<Rightarrow> poll_loop iupd gupd ig is c')"

end
