(* ===== verification/Controller_Props.thy ===== *)
theory Controller_Props
  imports Controller_Loop "HOL-Library.Sublist"
begin

text \<open>
  The properties of the controller's event path: the text form of addresses, one row per
  traffic key, batches that are bounded and lose nothing below the bound, and the poll loop.
\<close>

section \<open>Addresses in text\<close>

lemma digits_small: "n < 10 \<Longrightarrow> digits n = [char_of (48 + n)]"
  by (simp add: digits.simps)

lemma digits_step: "10 \<le> n \<Longrightarrow> digits n = digits (n div 10) @ [char_of (48 + n mod 10)]"
  using digits.simps [of n] by simp

lemma of_char_digit: "d < 10 \<Longrightarrow> (of_char (char_of (48 + d) :: char) :: nat) = 48 + d"
  by (simp add: of_char_of)

lemma is_digit_char: "(d :: nat) < 10 \<Longrightarrow> is_digit (char_of (48 + d))"
  by (simp add: is_digit_def of_char_digit)

lemma digits_all: "list_all is_digit (digits n)"
proof (induction n rule: digits.induct)
  case (1 n)
  then show ?case by (cases "n < 10") (simp_all add: digits_small digits_step is_digit_char)
qed

lemma decimal_append: "decimal acc (xs @ ys) = decimal (decimal acc xs) ys"
  by (induction xs arbitrary: acc) simp_all

lemma decimal_digits: "decimal 0 (digits n) = n"
proof (induction n rule: digits.induct)
  case (1 n)
  then show ?case
    by (cases "n < 10") (simp_all add: digits_small digits_step decimal_append of_char_digit)
qed

lemma digits_Cons: "digits n \<noteq> []"
  by (subst digits.simps) simp

lemma digits_length: "n < 1000 \<Longrightarrow> length (digits n) \<le> 3"
proof -
  assume n: "n < 1000"
  consider "n < 10" | "10 \<le> n" "n < 100" | "100 \<le> n" by linarith
  then show ?thesis
    using n by cases (simp_all add: digits_small digits_step)
qed

lemma digits_no_leading_zero: "hd (digits n) = CHR ''0'' \<Longrightarrow> n = 0"
proof (induction n rule: digits.induct)
  case (1 n)
  show ?case
  proof (cases "n < 10")
    case True
    with "1.prems" have "(of_char (char_of (48 + n) :: char) :: nat) = 48"
      by (simp add: digits_small)
    with True show ?thesis by (simp add: of_char_digit)
  next
    case False
    with "1.prems" have "hd (digits (n div 10)) = CHR ''0''" by (simp add: digits_step digits_Cons)
    with "1.IH" False have "n div 10 = 0" by blast
    with False show ?thesis by simp
  qed
qed

lemma parse_octet_digits: "parse_octet (digits (unat w)) = Some w" for w :: u8
proof -
  have w: "unat w < 256" using unsigned_less [of w, where ?'a = nat] by simp
  have "hd (digits (unat w)) = CHR ''0'' \<longrightarrow> length (digits (unat w)) = 1"
    using digits_no_leading_zero [of "unat w"] by (auto simp: digits_small)
  moreover have "length (digits (unat w)) \<le> 3" using w by (intro digits_length) simp
  ultimately show ?thesis
    using w digits_Cons digits_all by (simp add: parse_octet_def decimal_digits)
qed

lemma split_dots_word:
  assumes "CHR ''.'' \<notin> set w"
  shows "split_dots w = [w]" "split_dots (w @ CHR ''.'' # cs) = w # split_dots cs"
  using assms by (induction w) auto

lemma digits_no_dot: "CHR ''.'' \<notin> set (digits n)"
proof
  assume "CHR ''.'' \<in> set (digits n)"
  with digits_all [of n] have "is_digit (CHR ''.'')" by (simp add: list_all_iff)
  then show False by (simp add: is_digit_def)
qed

text \<open>
  addresses in text.  The dotted form the controller prints for an address of a record is
  that of the four bytes as they stand in the packet, and parsing the dotted form of an address
  gives the address back.
\<close>

theorem ipv4_text:
  assumes "enc32 w = [a, b, c, d]"
  shows "ipv4_string (from_be w) =
      digits (unat a) @ ''.'' @ digits (unat b) @ ''.'' @ digits (unat c) @ ''.'' @ digits (unat d)
    \<and> parse_ipv4 (ipv4_string (from_be w)) = Some (a, b, c, d)"
proof -
  have "enc32 (from_be w) = [d, c, b, a]"
    using enc32_of_le_nat [of "rev (enc32 w)"] assms by (simp add: from_be_def to_be_def del: le_nat.simps)
  then have s: "ipv4_string (from_be w) =
      digits (unat a) @ ''.'' @ digits (unat b) @ ''.'' @ digits (unat c) @ ''.'' @ digits (unat d)"
    by (simp add: ipv4_string_def)
  have "split_dots (ipv4_string (from_be w)) = [digits (unat a), digits (unat b), digits (unat c), digits (unat d)]"
    unfolding s by (simp add: split_dots_word digits_no_dot)
  then have "parse_ipv4 (ipv4_string (from_be w)) = Some (a, b, c, d)"
    by (simp add: parse_ipv4_def parse_octet_digits)
  with s show ?thesis by simp
qed

theorem ipv4_text_witness: "parse_ipv4 (ipv4_string (from_be 0x0900000A)) = Some (10, 0, 0, 9)"
proof -
  have "enc32 0x0900000A = [10, 0, 0, 9]" by (simp add: enc32_bytes)
  from ipv4_text [OF this] show ?thesis by blast
qed

section \<open>Rows\<close>

text \<open>The key a row was entered under.\<close>

definition row_key :: "pod_traffic \<Rightarrow> traffic_key" where
  "row_key r = \<lparr>tk_pod_name = pt_pod_name r, tk_pod_ip = pt_pod_ip r, tk_pod_port = the (pt_pod_port r),
     tk_traffic_in_out_ip = the (pt_traffic_in_out_ip r), tk_traffic_in_out_port = the (pt_traffic_in_out_port r),
     tk_traffic_type = the (pt_traffic_type r), tk_ip_protocol = the (pt_ip_protocol r),
     tk_decision = the (pt_decision r)\<rparr>"

text \<open>An arrival on either channel, with the pod it belongs to, the identifier and the clock.\<close>

datatype arrival = Traffic network_event_data pod_status string nat | Drop policy_drop_event pod_status string nat

fun build_row :: "cache_updater \<Rightarrow> arrival \<Rightarrow> traffic_cache \<Rightarrow> pod_traffic option \<times> traffic_cache" where
  "build_row ins (Traffic ev pod uuid now) cache = build_traffic_event ins uuid now ev pod cache"
| "build_row ins (Drop ev pod uuid now) cache = build_policy_drop_event ins uuid now ev pod cache"

fun build_rows :: "cache_updater \<Rightarrow> arrival list \<Rightarrow> traffic_cache \<Rightarrow> pod_traffic list \<times> traffic_cache" where
  "build_rows ins [] cache = ([], cache)"
| "build_rows ins (a # as) cache =
     (let (r, cache1) = build_row ins a cache; (rs, cache2) = build_rows ins as cache1
      in (case r of None \<Rightarrow> rs | Some row \<Rightarrow> row # rs, cache2))"

text \<open>Both builders make a candidate row, or none, and enter it unless its key is known.\<close>

definition enter_row :: "cache_updater \<Rightarrow> pod_traffic \<Rightarrow> traffic_cache \<Rightarrow> pod_traffic option \<times> traffic_cache" where
  "enter_row ins r cache = (if cache (row_key r) \<noteq> None then (None, cache) else (Some r, ins cache (row_key r) ()))"

definition row :: "string \<Rightarrow> nat \<Rightarrow> pod_status \<Rightarrow> u16 \<Rightarrow> string \<Rightarrow> u16 \<Rightarrow> string \<Rightarrow> string \<Rightarrow> string \<Rightarrow> pod_traffic" where
  "row uuid now pod pod_port ip io_port traffic_type protocol decision =
     \<lparr>pt_uuid = uuid, pt_pod_name = pod_name pod, pt_pod_namespace = pod_namespace pod,
      pt_pod_ip = pod_ip pod, pt_pod_port = Some (digits (unat pod_port)), pt_ip_protocol = Some protocol,
      pt_traffic_type = Some traffic_type, pt_traffic_in_out_ip = Some ip,
      pt_traffic_in_out_port = Some (digits (unat io_port)), pt_decision = Some decision, pt_time_stamp = now\<rparr>"

definition candidate :: "arrival \<Rightarrow> pod_traffic option" where
  "candidate a = (case a of
     Traffic ev pod uuid now \<Rightarrow>
       if ne_kind ev \<notin> {1, 2, 3} \<or> pod_ip pod = ipv4_string (from_be (ne_daddr ev)) then None
       else Some (row uuid now pod (if ne_kind ev = 2 then ne_sport ev else 0) (ipv4_string (from_be (ne_daddr ev)))
         (if ne_kind ev = 2 then 0 else ne_dport ev) (if ne_kind ev = 2 then ''INGRESS'' else ''EGRESS'')
         (if ne_kind ev = 3 then ''UDP'' else ''TCP'') ''ALLOW'')
   | Drop ev pod uuid now \<Rightarrow>
       if pod_ip pod = ipv4_string (from_be (pe_daddr ev)) then None
       else Some (row uuid now pod 0 (ipv4_string (from_be (pe_daddr ev))) (pe_dport ev) ''EGRESS''
         (proto_to_string (pe_protocol ev)) ''DROP''))"

lemma build_traffic_event_eq:
  "build_traffic_event ins uuid now ev pod cache =
     (case candidate (Traffic ev pod uuid now) of None \<Rightarrow> (None, cache) | Some r \<Rightarrow> enter_row ins r cache)"
proof (cases "ne_kind ev \<in> {1, 2, 3}")
  case True
  then consider "ne_kind ev = 1" | "ne_kind ev = 2" | "ne_kind ev = 3" by blast
  then show ?thesis
    by cases (simp_all add: build_traffic_event_def candidate_def enter_row_def row_def row_key_def
        KIND_INGRESS_TCP_def KIND_EGRESS_TCP_def KIND_EGRESS_UDP_def Let_def)
qed (simp add: build_traffic_event_def candidate_def KIND_INGRESS_TCP_def KIND_EGRESS_TCP_def KIND_EGRESS_UDP_def)

lemma build_policy_drop_event_eq:
  "build_policy_drop_event ins uuid now ev pod cache =
     (case candidate (Drop ev pod uuid now) of None \<Rightarrow> (None, cache) | Some r \<Rightarrow> enter_row ins r cache)"
  by (simp add: build_policy_drop_event_def candidate_def enter_row_def row_def row_key_def Let_def)

lemma build_row_eq:
  "build_row ins a cache = (case candidate a of None \<Rightarrow> (None, cache) | Some r \<Rightarrow> enter_row ins r cache)"
  by (cases a) (simp_all add: build_traffic_event_eq build_policy_drop_event_eq)

text \<open>A cache that keeps what it is given, as long as it is not full.\<close>

definition keeps_all :: "cache_updater \<Rightarrow> bool" where
  "keeps_all ins \<longleftrightarrow> (\<forall>cache k. ins cache k () = cache(k \<mapsto> ()))"

text \<open>
  one row per traffic key.  While the cache keeps its entries, the rows that any sequence
  of network and drop events yields have pairwise different keys, none of which was in the cache
  before; and every event that names a known kind and a foreign address has its key covered by
  the cache afterwards.
\<close>

theorem rows_distinct:
  assumes "keeps_all ins"
  shows "let (rows, cache') = build_rows ins as cache in
    distinct (map row_key rows) \<and> (\<forall>r \<in> set rows. cache (row_key r) = None)
    \<and> dom cache' = dom cache \<union> row_key ` set rows
    \<and> (\<forall>a \<in> set as. \<forall>r. candidate a = Some r \<longrightarrow> row_key r \<in> dom cache')"
proof (induction as arbitrary: cache)
  case (Cons a as)
  show ?case
  proof (cases "candidate a")
    case None
    with Cons.IH [of cache] show ?thesis by (auto simp: build_row_eq split: prod.splits)
  next
    case (Some r)
    show ?thesis
    proof (cases "cache (row_key r)")
      case None
      define c1 where "c1 = cache(row_key r \<mapsto> ())"
      obtain rs c2 where rs: "build_rows ins as c1 = (rs, c2)" by (cases "build_rows ins as c1")
      have r: "build_row ins a cache = (Some r, c1)"
        using None Some assms by (simp add: build_row_eq enter_row_def keeps_all_def c1_def)
      have c1: "dom c1 = insert (row_key r) (dom cache)"
        "c1 (row_key x) = None \<Longrightarrow> row_key x \<noteq> row_key r \<and> cache (row_key x) = None" for x
        by (auto simp: c1_def split: if_splits)
      from Cons.IH [of c1, unfolded rs Let_def prod.case] have IH: "distinct (map row_key rs)" "\<forall>x \<in> set rs. c1 (row_key x) = None"
        "dom c2 = dom c1 \<union> row_key ` set rs" "\<forall>a \<in> set as. \<forall>r. candidate a = Some r \<longrightarrow> row_key r \<in> dom c2"
        by blast+
      from IH(2) c1(2) have "\<forall>x \<in> set rs. row_key x \<noteq> row_key r \<and> cache (row_key x) = None" by blast
      then have "row_key r \<notin> row_key ` set rs" "\<forall>x \<in> set rs. cache (row_key x) = None" by auto
      with IH(1,3,4) c1(1) None Some show ?thesis by (simp add: rs r)
    next
      case (Some u)
      with Cons.IH [of cache] \<open>candidate a = Some r\<close> show ?thesis
        by (cases "build_rows ins as cache") (simp add: build_row_eq enter_row_def domI, blast)
    qed
  qed
qed simp

definition demo_pod :: pod_status where
  "demo_pod = \<lparr>pod_name = ''web'', pod_namespace = Some ''default'', pod_ip = ''10.0.0.5''\<rparr>"

definition demo_arrivals :: "arrival list" where
  "demo_arrivals = [Traffic (conn_event 1 4026531840 demo_client) demo_pod ''u1'' 1,
     Traffic (conn_event 1 4026531840 demo_client) demo_pod ''u2'' 2]"

theorem rows_distinct_witness:
  "distinct (map row_key (fst (build_rows (\<lambda>c k v. c(k \<mapsto> v)) demo_arrivals Map.empty)))"
  using rows_distinct [of "\<lambda>c k v. c(k \<mapsto> v)" demo_arrivals Map.empty]
  by (simp add: keeps_all_def split: prod.splits)

section \<open>Batches\<close>

lemma cap_batch_fst: "fst (cap_batch b n) = List.drop (length b - n) b"
  by (simp add: cap_batch_def Let_def)

lemma flush_into_sel [simp]:
  "h_batch (flush_into ok h) = (if ok then [] else List.drop (length (h_batch h) - 1000) (h_batch h))"
  "h_posted (flush_into ok h) = h_posted h @ (if ok then h_batch h else [])"
  "h_done (flush_into ok h) = h_done h"
  by (auto simp: flush_into_def flush_network_batch_def cap_batch_fst MAX_PENDING_EVENTS_def Let_def
      split: prod.splits)

text \<open>The rows of a turn.\<close>

fun turn_rows :: "'a received \<Rightarrow> 'a list" where
  "turn_rows (Received (Some r) elapsed ok) = [r]"
| "turn_rows _ = []"

definition push_row :: "'a option \<Rightarrow> 'a handler \<Rightarrow> 'a handler" where
  "push_row r h = (case r of None \<Rightarrow> h | Some x \<Rightarrow> h\<lparr>h_batch := h_batch h @ [x]\<rparr>)"

lemma push_row_sel [simp]:
  "h_batch (push_row r h) = h_batch h @ turn_rows (Received r elapsed ok)"
  "h_posted (push_row r h) = h_posted h" "h_done (push_row r h) = h_done h"
  by (auto simp: push_row_def split: option.split)

lemma handle_turn_received:
  "handle_turn timeout (Received r elapsed ok) h =
     (if should_flush (length (h_batch (push_row r h))) elapsed 100 timeout then flush_into ok (push_row r h)
      else push_row r h)"
  by (simp add: push_row_def BATCH_SIZE_def Let_def)

declare handle_turn.simps(1) [simp del]

text \<open>A turn keeps the pending rows bounded, and what was posted or is pending is a part, in
  order, of what came in.\<close>

lemma handle_turn_bound:
  assumes "length (h_batch h) \<le> 1000" shows "length (h_batch (handle_turn timeout x h)) \<le> 1000"
proof (cases x)
  case (Received r elapsed ok)
  have "length (h_batch (push_row r h)) \<le> 1001"
    using assms by (auto simp: push_row_def split: option.split)
  then show ?thesis
    using Received by (auto simp: handle_turn_received should_flush_def split: if_splits)
qed (use assms in auto)

lemma handle_turn_subseq:
  "subseq (h_posted (handle_turn timeout x h) @ h_batch (handle_turn timeout x h))
     (h_posted h @ h_batch h @ turn_rows x)"
proof (cases x)
  case (Received r elapsed ok)
  have "subseq (List.drop n (h_batch h @ turn_rows x)) (h_batch h @ turn_rows x)" for n
    by (rule suffix_imp_subseq) (rule suffix_drop)
  with Received show ?thesis
    by (auto simp: handle_turn_received push_row_sel(1) [of r h elapsed ok] intro: list_emb_append_mono)
qed (auto intro!: list_emb_append_mono [OF subseq_order.refl] suffix_imp_subseq [OF suffix_drop])

lemma handle_turn_lossless:
  assumes "length (h_batch h) + length (turn_rows x) \<le> 1000"
  shows "h_posted (handle_turn timeout x h) @ h_batch (handle_turn timeout x h) = h_posted h @ h_batch h @ turn_rows x"
proof (cases x)
  case (Received r elapsed ok)
  with assms show ?thesis
    by (auto simp: handle_turn_received push_row_sel(1) [of r h elapsed ok])
qed (use assms in auto)

lemma handle_turn_posted: "length (h_posted h) \<le> length (h_posted (handle_turn timeout x h))"
proof (cases x)
  case (Received r elapsed ok)
  then show ?thesis by (simp add: handle_turn_received)
qed simp_all

definition all_rows :: "'a received list \<Rightarrow> 'a list" where
  "all_rows xs = concat (map turn_rows xs)"

lemma handle_events_turn:
  "\<not> h_done h \<Longrightarrow> handle_events timeout (x # xs) h = handle_events timeout xs (handle_turn timeout x h)"
  by simp

text \<open>
  C29: what the handler of either channel does with its rows, whatever the broker answers and
  whenever time-outs occur.  At most 1000 rows are pending at any time; the rows posted,
  followed by the rows pending, are a subsequence, in order, of the rows that came in.
\<close>

theorem batch_bounded_in_order:
  assumes "length (h_batch h) \<le> 1000"
  shows "length (h_batch (handle_events timeout xs h)) \<le> 1000
    \<and> subseq (h_posted (handle_events timeout xs h) @ h_batch (handle_events timeout xs h))
        (h_posted h @ h_batch h @ all_rows xs)"
  using assms
proof (induction xs arbitrary: h)
  case (Cons x xs)
  let ?h = "handle_turn timeout x h"
  show ?case
  proof (cases "h_done h")
    case False
    have "subseq ((h_posted ?h @ h_batch ?h) @ all_rows xs) ((h_posted h @ h_batch h @ turn_rows x) @ all_rows xs)"
      by (intro list_emb_append_mono handle_turn_subseq subseq_order.refl)
    then have "subseq (h_posted ?h @ h_batch ?h @ all_rows xs) (h_posted h @ h_batch h @ all_rows (x # xs))"
      by (simp add: all_rows_def)
    with Cons.IH [of ?h] handle_turn_bound [OF Cons.prems, of timeout x] False show ?thesis
      by (auto intro: subseq_order.order_trans)
  qed (use Cons.prems in \<open>auto intro: list_emb_append_mono list_emb_append2\<close>)
qed (simp add: all_rows_def)

theorem batch_bounded_in_order_witness:
  "length (h_batch (handle_events 1 [Received (Some 5) 0 False, TimedOut False, Closed False]
      \<lparr>h_batch = replicate 1000 (0 :: nat), h_posted = [], h_done = False\<rparr>)) \<le> 1000"
  using batch_bounded_in_order [of "\<lparr>h_batch = replicate 1000 (0 :: nat), h_posted = [], h_done = False\<rparr>" 1
      "[Received (Some 5) 0 False, TimedOut False, Closed False]"]
  by (simp del: handle_events.simps)

text \<open>
  nothing is lost below the bound.  As long as the rows pending and coming in are at most
  1000 together, no failed post loses a row: posted and pending rows together are exactly those
  that came in, in order.
\<close>

theorem batch_lossless:
  assumes "length (h_batch h) + length (all_rows xs) \<le> 1000" and "\<not> h_done h"
    and "\<forall>x \<in> set xs. \<forall>ok. x \<noteq> Closed ok"
  shows "h_posted (handle_events timeout xs h) @ h_batch (handle_events timeout xs h) =
    h_posted h @ h_batch h @ all_rows xs"
  using assms
proof (induction xs arbitrary: h)
  case (Cons x xs)
  let ?h = "handle_turn timeout x h"
  have rows: "all_rows (x # xs) = turn_rows x @ all_rows xs" by (simp add: all_rows_def)
  have turn: "h_posted ?h @ h_batch ?h = h_posted h @ h_batch h @ turn_rows x"
    using Cons.prems(1) rows by (intro handle_turn_lossless) simp
  have "length (h_batch ?h) \<le> length (h_batch h) + length (turn_rows x)"
    using arg_cong [OF turn, of length] handle_turn_posted [of h timeout x] by simp
  moreover have "\<not> h_done ?h"
    using Cons.prems(2,3) by (cases x) (auto simp: handle_turn_received)
  ultimately show ?case
    using Cons.IH [of ?h] Cons.prems turn rows by simp
qed (simp add: all_rows_def)

theorem batch_lossless_witness:
  "h_posted (handle_events 1 [Received (Some 5) 0 False, TimedOut False, Received (Some 7) 3 True]
      \<lparr>h_batch = [], h_posted = [], h_done = False\<rparr>)
    @ h_batch (handle_events 1 [Received (Some 5) 0 False, TimedOut False, Received (Some 7) 3 True]
      \<lparr>h_batch = [], h_posted = [], h_done = False\<rparr>) = [5, 7 :: nat]"
  using batch_lossless [of "\<lparr>h_batch = [], h_posted = [], h_done = False\<rparr>"
      "[Received (Some 5) 0 False, TimedOut False, Received (Some (7 :: nat)) 3 True]" 1]
  by (simp add: all_rows_def)

text \<open>
  rows do not linger.  After a turn that received an event, either the post failed, or no
  row is pending, or fewer than 100 are and less than the time-out has passed since the last
  flush.
\<close>

theorem batch_flushed_in_time:
  "h_batch (handle_turn timeout (Received r elapsed True) h) = []
   \<or> (length (h_batch (handle_turn timeout (Received r elapsed True) h)) < 100 \<and> elapsed < timeout)"
  by (auto simp: handle_turn_received should_flush_def)

section \<open>The poll loop\<close>

lemma deliver_open:
  "deliver cb True rs (sent, sh) = (sent @ List.map_filter cb rs, sh)"
  by (induction rs arbitrary: sent) (simp_all add: map_filter_simps split: option.split)

lemma deliver_closed:
  "deliver cb False rs (sent, sh) = (sent, sh \<or> (\<exists>r \<in> set rs. cb r \<noteq> None))"
  by (induction rs arbitrary: sh) (auto split: option.split)

lemma deliver_keeps: "deliver cb op rs (sent, sh) = (sent', sh') \<Longrightarrow> sh \<Longrightarrow> sh'"
  by (cases op) (auto simp: deliver_open deliver_closed)

lemma map_filter_take_drop:
  "List.map_filter f (take n xs) @ List.map_filter f (drop n xs) = List.map_filter f xs"
  by (simp add: map_filter_def flip: map_append filter_append)

lemma feed_sel [simp]:
  "network_events (c_net (feed_inum iupd rx c)) = network_events (c_net c)"
  "net_sent (feed_inum iupd rx c) = net_sent c" "sys_sent (feed_inum iupd rx c) = sys_sent c"
  "drop_sent (feed_inum iupd rx c) = drop_sent c"
  "syscall_events (c_sys (feed_inum iupd rx c)) = syscall_events (c_sys c)"
  "policy_drop_events (c_drop (feed_inum iupd rx c)) = policy_drop_events (c_drop c)"
  "network_events (c_net (feed_ignore gupd ig ip c)) = network_events (c_net c)"
  "net_sent (feed_ignore gupd ig ip c) = net_sent c" "sys_sent (feed_ignore gupd ig ip c) = sys_sent c"
  "drop_sent (feed_ignore gupd ig ip c) = drop_sent c"
  "c_sys (feed_ignore gupd ig ip c) = c_sys c" "c_drop (feed_ignore gupd ig ip c) = c_drop c"
  "inode_num (c_net (feed_ignore gupd ig ip c)) = inode_num (c_net c)"
  by (simp_all add: feed_inum_def feed_ignore_def track_inode_def ignore_ip_def split: option.split)

text \<open>
  C28: a poll loses nothing while the receivers are open.  For each of the three channels, the
  events sent so far followed by those still in the ring buffer are the same before and after
  any turn that does not exit, however many records the poll consumed.
\<close>

theorem poll_delivers_in_order:
  assumes "poll_turn iupd gupd ig i c = Inr c'" and "net_open i" and "sys_open i" and "drop_open i"
  shows "net_sent c' @ List.map_filter network_callback (network_events (c_net c')) =
      net_sent c @ List.map_filter network_callback (network_events (c_net c))
    \<and> sys_sent c' @ List.map_filter syscall_callback (syscall_events (c_sys c')) =
      sys_sent c @ List.map_filter syscall_callback (syscall_events (c_sys c))
    \<and> drop_sent c' @ List.map_filter policy_drop_callback (policy_drop_events (c_drop c')) =
      drop_sent c @ List.map_filter policy_drop_callback (policy_drop_events (c_drop c))"
proof -
  define c1 where "c1 = poll_rings i c"
  have c1: "net_sent c1 @ List.map_filter network_callback (network_events (c_net c1)) =
      net_sent c @ List.map_filter network_callback (network_events (c_net c))"
    "sys_sent c1 @ List.map_filter syscall_callback (syscall_events (c_sys c1)) =
      sys_sent c @ List.map_filter syscall_callback (syscall_events (c_sys c))"
    "drop_sent c1 @ List.map_filter policy_drop_callback (policy_drop_events (c_drop c1)) =
      drop_sent c @ List.map_filter policy_drop_callback (policy_drop_events (c_drop c))"
    using assms(2-4) by (simp_all add: c1_def poll_rings_def deliver_open map_filter_take_drop)
  show ?thesis
    using assms(1) c1 by (auto simp: poll_turn_def Let_def c1_def [symmetric] split: if_splits)
qed

definition demo_controller :: controller where
  "demo_controller = \<lparr>c_net = net_init\<lparr>network_events := [fill_network_event (conn_event 1 7 demo_client) (replicate 24 0)]\<rparr>,
     c_sys = demo_sys Map.empty, c_drop = drop_init, net_sent = [], sys_sent = [], drop_sent = [],
     ebpf_shutdown = False, consecutive_poll_errors = 0, poll_log = []\<rparr>"

definition demo_poll :: poll_input where
  "demo_poll = \<lparr>poll_ok = True, net_taken = 1, sys_taken = 0, drop_taken = 0, net_open = True, sys_open = True,
     drop_open = True, rx_inum = Some 7, rx_ignore = Some ''10.0.0.9''\<rparr>"

theorem poll_delivers_in_order_witness:
  "\<exists>c'. poll_turn no_evict no_evict True demo_poll demo_controller = Inr c'
     \<and> net_sent c' @ List.map_filter network_callback (network_events (c_net c')) = [conn_event 1 7 demo_client]"
proof -
  obtain c' where c': "poll_turn no_evict no_evict True demo_poll demo_controller = Inr c'"
    by (simp add: poll_turn_def demo_controller_def demo_poll_def poll_rings_def Let_def deliver_open)
  have "network_callback (fill_network_event (conn_event 1 7 demo_client) (replicate 24 0)) =
      Some (conn_event 1 7 demo_client)"
    using net_channel.callback_fill by simp
  then have "net_sent demo_controller @ List.map_filter network_callback (network_events (c_net demo_controller)) =
      [conn_event 1 7 demo_client]"
    by (simp add: demo_controller_def map_filter_simps)
  with c' poll_delivers_in_order [OF c'] show ?thesis by (simp add: demo_poll_def)
qed

text \<open>A turn whose poll failed, with nothing consumed.\<close>

definition failing :: "poll_input \<Rightarrow> bool" where
  "failing i \<longleftrightarrow> \<not> poll_ok i \<and> net_taken i = 0 \<and> sys_taken i = 0 \<and> drop_taken i = 0"

lemma poll_rings_failing: "failing i \<Longrightarrow> poll_rings i c = c"
  by (simp add: failing_def poll_rings_def)

lemma failing_turn:
  assumes "failing i" and "\<not> ebpf_shutdown c" and "unat (consecutive_poll_errors c) = n" and "n < 50"
  shows "poll_turn iupd gupd ig i c =
    (if n = 49 then Inl (PollFailed 50)
     else Inr (c\<lparr>consecutive_poll_errors := word_of_nat (Suc n),
       poll_log := poll_log c @ [if n = 0 then WarnAndBackoff else BackoffSilently]\<rparr>))"
proof -
  have c: "consecutive_poll_errors c = word_of_nat n" by (simp flip: assms(3))
  have u: "unat (word_of_nat n + 1 :: u32) = Suc n"
    using assms(4) by (simp add: unat_word_ariths unsigned_of_nat take_bit_eq_mod)
  have "(word_of_nat n + 1 :: u32) \<ge> 50 \<longleftrightarrow> n = 49" "(word_of_nat n + 1 :: u32) = 1 \<longleftrightarrow> n = 0"
    using u assms(4) by (auto simp: word_le_nat_alt word_unat_eq_iff)
  moreover have "(word_of_nat (Suc n) :: u32) = word_of_nat n + 1" by simp
  ultimately show ?thesis
    using assms(1,2)
    by (auto simp: poll_turn_def poll_rings_failing classify_poll_error_def MAX_CONSECUTIVE_POLL_ERRORS_def c
        failing_def Let_def)
qed

lemma failing_run:
  assumes "\<forall>i \<in> set is. failing i" and "\<not> ebpf_shutdown c" and "unat (consecutive_poll_errors c) + length is < 50"
  shows "poll_loop iupd gupd ig is c = Inr (c\<lparr>
      consecutive_poll_errors := consecutive_poll_errors c + word_of_nat (length is),
      poll_log := poll_log c @ map (\<lambda>k. if k = 0 then WarnAndBackoff else BackoffSilently)
        [unat (consecutive_poll_errors c) ..< unat (consecutive_poll_errors c) + length is]\<rparr>)"
  using assms
proof (induction "is" arbitrary: c)
  case (Cons i "is")
  let ?n = "unat (consecutive_poll_errors c)"
  let ?c = "c\<lparr>consecutive_poll_errors := word_of_nat (Suc ?n),
      poll_log := poll_log c @ [if ?n = 0 then WarnAndBackoff else BackoffSilently]\<rparr>"
  have n: "?n < 49" using Cons.prems(3) by simp
  then have "poll_turn iupd gupd ig i c = Inr ?c"
    using Cons.prems failing_turn [of i c ?n iupd gupd ig] by simp
  moreover have u: "unat (word_of_nat (Suc ?n) :: u32) = Suc ?n"
    using n by (simp add: unsigned_of_nat take_bit_eq_mod del: of_nat_Suc)
  moreover have "[?n ..< ?n + length (i # is)] = ?n # [Suc ?n ..< Suc ?n + length is]"
    by (simp add: upt_conv_Cons del: upt_Suc)
  ultimately show ?case
    using Cons.IH [of ?c] Cons.prems by (simp add: algebra_simps del: upt_Suc)
qed simp

lemma loop_append:
  "poll_loop iupd gupd ig (xs @ ys) c =
     (case poll_loop iupd gupd ig xs c of Inl e \<Rightarrow> Inl e | Inr c' \<Rightarrow> poll_loop iupd gupd ig ys c')"
  by (induction xs arbitrary: c) (simp_all split: sum.split)

text \<open>
  C35: a poll that keeps failing ends the loop after exactly 50 failures in a row: one warning,
  48 silent back-offs, then the error; 49 failures leave it running.
\<close>

theorem poll_gives_up:
  assumes "\<forall>i \<in> set is. failing i" and "\<not> ebpf_shutdown c" and "consecutive_poll_errors c = 0"
  shows "(length is = 50 \<longrightarrow> poll_loop iupd gupd ig is c = Inl (PollFailed 50))
    \<and> (length is = 49 \<longrightarrow> (\<exists>c'. poll_loop iupd gupd ig is c = Inr c'
         \<and> poll_log c' = poll_log c @ WarnAndBackoff # replicate 48 BackoffSilently))"
proof -
  have log: "map (\<lambda>k. if k = 0 then WarnAndBackoff else BackoffSilently) [0..<49] =
      WarnAndBackoff # replicate 48 BackoffSilently"
    by (rule nth_equalityI) (auto simp: nth_Cons' nth_replicate)
  have 49: "\<exists>c'. poll_loop iupd gupd ig xs c = Inr c' \<and> \<not> ebpf_shutdown c' \<and> unat (consecutive_poll_errors c') = 49
      \<and> poll_log c' = poll_log c @ WarnAndBackoff # replicate 48 BackoffSilently"
    if "length xs = 49" "\<forall>i \<in> set xs. failing i" for xs
    using failing_run [OF that(2) assms(2), of iupd gupd ig] that(1) assms(2,3) log by simp
  have "poll_loop iupd gupd ig is c = Inl (PollFailed 50)" if len: "length is = 50"
  proof -
    have "is = take 49 is @ [is ! 49]" using len take_Suc_conv_app_nth [of 49 "is"] by simp
    moreover have "\<forall>i \<in> set (take 49 is). failing i" "failing (is ! 49)"
      using assms(1) len by (auto dest: in_set_takeD)
    moreover obtain c' where "poll_loop iupd gupd ig (take 49 is) c = Inr c'" "\<not> ebpf_shutdown c'"
      "unat (consecutive_poll_errors c') = 49"
      using 49 [of "take 49 is"] calculation(2) len by auto
    ultimately show ?thesis
      using failing_turn [of "is ! 49" c' 49 iupd gupd ig] loop_append [where xs = "take 49 is" and ys = "[is ! 49]"] by simp
  qed
  with 49 [of "is"] assms(1) show ?thesis by blast
qed

definition demo_fail :: poll_input where
  "demo_fail = demo_poll\<lparr>poll_ok := False, net_taken := 0\<rparr>"

theorem poll_gives_up_witness:
  "poll_loop no_evict no_evict True (replicate 50 demo_fail) demo_controller = Inl (PollFailed 50)"
proof -
  have "\<forall>i \<in> set (replicate 50 demo_fail). failing i"
    by (simp add: demo_fail_def demo_poll_def failing_def)
  from poll_gives_up [OF this, of demo_controller no_evict no_evict True] show ?thesis
    by (simp add: demo_controller_def)
qed

text \<open>
  what the loop feeds to the probes.  A namespace received in a successful turn is in the
  \<^verbatim>\<open>inode_num\<close> map of all three probes afterwards; an ignored address goes to the network probe
  alone: no turn changes the ignore list of the drop probe or the syscall probe.
\<close>

theorem namespace_fed_to_all_probes:
  assumes "map_update_ok iupd" and "poll_turn iupd gupd ig i c = Inr c'"
  shows "(poll_ok i \<and> rx_inum i = Some inum \<longrightarrow> inum \<in> dom (inode_num (c_net c'))
      \<and> inum \<in> dom (inode_num (c_sys c')) \<and> inum \<in> dom (inode_num (c_drop c')))
    \<and> ignore_ips (c_drop c') = ignore_ips (c_drop c) \<and> ignore_ips (c_sys c') = ignore_ips (c_sys c)"
proof -
  have "iupd m inum v inum \<noteq> None" for m v
    using map_update_ok.upd_stored [OF assms(1), of m inum v] by simp
  moreover have "ignore_ips (c_drop (poll_rings i c)) = ignore_ips (c_drop c)"
    "ignore_ips (c_sys (poll_rings i c)) = ignore_ips (c_sys c)"
    by (simp_all add: poll_rings_def Let_def split: prod.split)
  ultimately show ?thesis
    using assms(2) by (auto simp: poll_turn_def feed_inum_def track_inode_inum Let_def split: if_splits option.splits)
qed

theorem namespace_fed_to_all_probes_witness:
  "\<exists>c'. poll_turn no_evict no_evict True demo_poll demo_controller = Inr c'
     \<and> 7 \<in> dom (inode_num (c_net c')) \<and> 7 \<in> dom (inode_num (c_sys c')) \<and> 7 \<in> dom (inode_num (c_drop c'))"
proof -
  obtain c' where c': "poll_turn no_evict no_evict True demo_poll demo_controller = Inr c'"
    by (simp add: poll_turn_def demo_controller_def demo_poll_def poll_rings_def Let_def deliver_open)
  with namespace_fed_to_all_probes [OF lru.map_update_ok_axioms c', of 7] show ?thesis
    by (simp add: demo_poll_def)
qed

text \<open>
  a closed receiver ends the loop.  If a poll hands a record to a receiver that is closed,
  the turn raises the shutdown flag, and the next turn, whatever its input, exits with an
  error.
\<close>

theorem closed_receiver_stops_loop:
  assumes "poll_turn iupd gupd ig i c = Inr c'" and "\<not> net_open i"
    and "r \<in> set (take (net_taken i) (network_events (c_net c)))" and "24 \<le> length r"
  shows "poll_turn iupd gupd ig i' c' = Inl ReceiverClosed"
proof -
  have "network_callback r \<noteq> None" using assms(4) by (simp add: network_callback_def layout_simps)
  then have shut: "snd (deliver network_callback (net_open i) (take (net_taken i) (network_events (c_net c)))
      (net_sent c, ebpf_shutdown c))"
    using assms(2,3) by (auto simp: deliver_closed)
  have "ebpf_shutdown (poll_rings i c)"
    using shut unfolding poll_rings_def Let_def
    by (auto split: prod.split) (blast dest: deliver_keeps)
  then have "ebpf_shutdown c'"
    using assms(1) by (auto simp: poll_turn_def feed_inum_def feed_ignore_def Let_def split: if_splits option.splits)
  then show ?thesis by (simp add: poll_turn_def)
qed

theorem closed_receiver_stops_loop_witness:
  "\<exists>c'. poll_turn no_evict no_evict True (demo_poll\<lparr>net_open := False\<rparr>) demo_controller = Inr c'
     \<and> poll_turn no_evict no_evict True demo_poll c' = Inl ReceiverClosed"
proof -
  obtain c' where c': "poll_turn no_evict no_evict True (demo_poll\<lparr>net_open := False\<rparr>) demo_controller = Inr c'"
    by (simp add: poll_turn_def demo_controller_def demo_poll_def poll_rings_def Let_def deliver_open deliver_closed)
  have "poll_turn no_evict no_evict True demo_poll c' = Inl ReceiverClosed"
    by (rule closed_receiver_stops_loop [OF c', of "fill_network_event (conn_event 1 7 demo_client) (replicate 24 0)"])
      (simp_all add: demo_poll_def demo_controller_def)
  with c' show ?thesis by blast
qed

end
