(* ===== verification/Syscall_Sender.thy ===== *)
theory Syscall_Sender
  imports Controller_Loop
begin

text \<open>
  The receiver of the syscall channel and the periodic sender, from
  \<^verbatim>\<open>src/controller/src/syscall.rs\<close>: a set of syscall names per pod name, posted to the broker when it
  differs from what was last sent.  The name table of \<^verbatim>\<open>libseccomp\<close> is a parameter, and the two
  caches (\<^verbatim>\<open>moka\<close>) may lose an entry at any time, as they do beyond their capacity.
\<close>

section \<open>The receiver\<close>

record syscall_data =
  sd_pod_name :: string
  sd_pod_namespace :: string
  sd_syscalls :: "string set"
  sd_arch :: string
  sd_time_stamp :: nat

text \<open>The caches, the batch of the pass under way with its snapshots, the bodies the broker has
  accepted, and two ghosts: all bodies that were posted, accepted or not, and the names that were seen for each
  pod name.\<close>

record sender =
  syscall_cache :: "string \<rightharpoonup> string set"
  last_sent_cache :: "string \<rightharpoonup> string set"
  batch :: "syscall_data list"
  pending_updates :: "(string \<times> string set) list"
  posted :: "syscall_data list"
  attempted :: "syscall_data list"
  seen :: "string \<Rightarrow> string set"

definition sender_new :: sender where
  "sender_new = \<lparr>syscall_cache = Map.empty, last_sent_cache = Map.empty, batch = [], pending_updates = [],
     posted = [], attempted = [], seen = (\<lambda>p. {})\<rparr>"

text \<open>\<open>name_of\<close> is \<^verbatim>\<open>get_syscall_name\<close>, on numbers that fit an \<^verbatim>\<open>i32\<close>.\<close>

definition syscall_name :: "(nat \<Rightarrow> string option) \<Rightarrow> u32 \<Rightarrow> string" where
  "syscall_name name_of n =
     (case (if unat n < 2 ^ 31 then name_of (unat n) else None) of
        Some name \<Rightarrow> name
      | None \<Rightarrow> digits (unat n))"

definition get_with :: "(string \<rightharpoonup> string set) \<Rightarrow> string \<Rightarrow> string set" where
  "get_with cache key = (case cache key of None \<Rightarrow> {} | Some s \<Rightarrow> s)"

definition process_syscall_event :: "(nat \<Rightarrow> string option) \<Rightarrow> syscall_event \<Rightarrow> pod_status \<Rightarrow> sender \<Rightarrow> sender" where
  "process_syscall_event name_of ev pod s =
     (let name = syscall_name name_of (se_sysnbr ev);
          syscalls = get_with (syscall_cache s) (pod_name pod)
      in s\<lparr>syscall_cache := (syscall_cache s)(pod_name pod \<mapsto>
             (if name \<in> syscalls then syscalls else insert name syscalls)),
           seen := (seen s)(pod_name pod := insert name (seen s (pod_name pod)))\<rparr>)"

definition handle_syscall_event :: "(nat \<Rightarrow> string option) \<Rightarrow> (u64 \<rightharpoonup> pod_status) \<Rightarrow> syscall_event \<Rightarrow> sender \<Rightarrow> sender" where
  "handle_syscall_event name_of container_map ev s = (case container_map (se_inum ev) of
     None \<Rightarrow> s
   | Some pod \<Rightarrow> process_syscall_event name_of ev pod s)"

section \<open>The sender\<close>

definition begin_pass :: "sender \<Rightarrow> sender" where
  "begin_pass s = s\<lparr>batch := [], pending_updates := []\<rparr>"

text \<open>The body of the loop over the cache, for one of its entries.\<close>

definition scan_pod :: "string \<Rightarrow> nat \<Rightarrow> string \<Rightarrow> sender \<Rightarrow> sender" where
  "scan_pod arch now pod s = (case syscall_cache s pod of
     None \<Rightarrow> s
   | Some syscalls \<Rightarrow>
       (let last_sent = get_with (last_sent_cache s) pod;
            s1 = s\<lparr>last_sent_cache := (last_sent_cache s)(pod \<mapsto> last_sent)\<rparr>
        in if syscalls \<noteq> last_sent then
             s1\<lparr>batch := batch s1 @ [\<lparr>sd_pod_name = pod, sd_pod_namespace = [], sd_syscalls = syscalls,
                  sd_arch = arch, sd_time_stamp = now\<rparr>],
                pending_updates := pending_updates s1 @ [(pod, syscalls)]\<rparr>
           else s1))"

fun mark_sent :: "(string \<times> string set) list \<Rightarrow> (string \<rightharpoonup> string set) \<Rightarrow> (string \<rightharpoonup> string set)" where
  "mark_sent [] cache = cache"
| "mark_sent ((pod, snapshot) # rest) cache = mark_sent rest (cache(pod \<mapsto> snapshot))"

text \<open>The end of a pass; \<open>ok\<close> is whether the broker accepted the post.\<close>

definition end_pass :: "bool \<Rightarrow> sender \<Rightarrow> sender" where
  "end_pass ok s =
     (if batch s = [] then s
      else
        let s1 = s\<lparr>attempted := attempted s @ batch s\<rparr>
        in if ok then s1\<lparr>posted := posted s1 @ batch s1, last_sent_cache := mark_sent (pending_updates s1) (last_sent_cache s1)\<rparr>
           else s1)"

fun scan_all :: "string \<Rightarrow> nat \<Rightarrow> string list \<Rightarrow> sender \<Rightarrow> sender" where
  "scan_all arch now [] s = s"
| "scan_all arch now (pod # pods) s = scan_all arch now pods (scan_pod arch now pod s)"

definition send_pass :: "string \<Rightarrow> nat \<Rightarrow> string list \<Rightarrow> bool \<Rightarrow> sender \<Rightarrow> sender" where
  "send_pass arch now pods ok s = end_pass ok (scan_all arch now pods (begin_pass s))"

text \<open>The two tasks run side by side: an event may come between any two entries of a pass, and an
  entry may be lost, if \<open>lossy\<close>.\<close>

inductive sender_step :: "(nat \<Rightarrow> string option) \<Rightarrow> bool \<Rightarrow> sender \<Rightarrow> sender \<Rightarrow> bool" for name_of lossy where
  step_event: "sender_step name_of lossy s (handle_syscall_event name_of container_map ev s)"
| step_begin: "sender_step name_of lossy s (begin_pass s)"
| step_scan: "sender_step name_of lossy s (scan_pod arch now pod s)"
| step_end: "sender_step name_of lossy s (begin_pass (end_pass ok s))"
| step_evict: "lossy \<Longrightarrow> sender_step name_of lossy s (s\<lparr>syscall_cache := (syscall_cache s)(pod := None)\<rparr>)"
| step_evict_sent: "lossy \<Longrightarrow> sender_step name_of lossy s (s\<lparr>last_sent_cache := (last_sent_cache s)(pod := None)\<rparr>)"

inductive sender_reachable :: "(nat \<Rightarrow> string option) \<Rightarrow> bool \<Rightarrow> sender \<Rightarrow> bool" for name_of lossy where
  reach_new: "sender_reachable name_of lossy sender_new"
| reach_step: "sender_reachable name_of lossy s \<Longrightarrow> sender_step name_of lossy s s' \<Longrightarrow> sender_reachable name_of lossy s'"

end
