(* ===== verification/Sender_Props.thy ===== *)
theory Sender_Props
  imports Syscall_Sender
begin

text \<open>
  The properties of the syscall sender: it marks as sent only what the broker accepted, and a pass
  that succeeds leaves nothing behind, however many passes failed before it.
\<close>

section \<open>The invariant\<close>

text \<open>A posted body with a pod and a set of names.\<close>

definition accepted :: "sender \<Rightarrow> string \<Rightarrow> string set \<Rightarrow> bool" where
  "accepted s pod names \<longleftrightarrow> (\<exists>d \<in> set (posted s). sd_pod_name d = pod \<and> sd_syscalls d = names)"

definition data_pairs :: "syscall_data list \<Rightarrow> (string \<times> string set) list" where
  "data_pairs ds = map (\<lambda>d. (sd_pod_name d, sd_syscalls d)) ds"

definition sender_ok :: "sender \<Rightarrow> bool" where
  "sender_ok s \<longleftrightarrow>
     (\<forall>p S. syscall_cache s p = Some S \<longrightarrow> S \<subseteq> seen s p) \<and>
     (\<forall>p S. last_sent_cache s p = Some S \<longrightarrow> S \<noteq> {} \<longrightarrow> accepted s p S) \<and>
     pending_updates s = data_pairs (batch s) \<and>
     (\<forall>d \<in> set (batch s) \<union> set (attempted s). sd_syscalls d \<subseteq> seen s (sd_pod_name d)) \<and>
     set (posted s) \<subseteq> set (attempted s)"

lemma sender_ok_new: "sender_ok sender_new"
  by (simp add: sender_ok_def sender_new_def data_pairs_def)

lemma sender_okI:
  assumes "\<And>p S. syscall_cache s p = Some S \<Longrightarrow> S \<subseteq> seen s p"
    and "\<And>p S. last_sent_cache s p = Some S \<Longrightarrow> S \<noteq> {} \<Longrightarrow> accepted s p S"
    and "pending_updates s = data_pairs (batch s)"
    and "\<And>d. d \<in> set (batch s) \<union> set (attempted s) \<Longrightarrow> sd_syscalls d \<subseteq> seen s (sd_pod_name d)"
    and "set (posted s) \<subseteq> set (attempted s)"
  shows "sender_ok s"
  using assms by (simp add: sender_ok_def)

lemma process_ok:
  assumes "sender_ok s"
  shows "sender_ok (process_syscall_event name_of ev pod s)"
proof (rule sender_okI)
  let ?t = "process_syscall_event name_of ev pod s"
  have same: "last_sent_cache ?t = last_sent_cache s" "posted ?t = posted s" "attempted ?t = attempted s" "batch ?t = batch s"
    "pending_updates ?t = pending_updates s"
    by (simp_all add: process_syscall_event_def Let_def)
  have grows: "seen s q \<subseteq> seen ?t q" for q by (auto simp: process_syscall_event_def Let_def)
  show "S \<subseteq> seen ?t p" if "syscall_cache ?t p = Some S" for p S
    using that assms
    by (auto simp: sender_ok_def process_syscall_event_def Let_def get_with_def split: if_splits option.splits)
  show "accepted ?t p S" if "last_sent_cache ?t p = Some S" "S \<noteq> {}" for p S
    using that assms by (simp add: same sender_ok_def accepted_def)
  show "pending_updates ?t = data_pairs (batch ?t)" using assms by (simp add: same sender_ok_def)
  show "sd_syscalls d \<subseteq> seen ?t (sd_pod_name d)" if "d \<in> set (batch ?t) \<union> set (attempted ?t)" for d
  proof -
    have "sd_syscalls d \<subseteq> seen s (sd_pod_name d)" using assms that by (simp only: same sender_ok_def)
    with grows show ?thesis by blast
  qed
  show "set (posted ?t) \<subseteq> set (attempted ?t)" using assms by (simp add: same sender_ok_def)
qed

lemma scan_ok:
  assumes "sender_ok s"
  shows "sender_ok (scan_pod arch now pod s)"
proof (cases "syscall_cache s pod")
  case (Some S)
  let ?t = "scan_pod arch now pod s"
  have same: "syscall_cache ?t = syscall_cache s" "seen ?t = seen s" "posted ?t = posted s" "attempted ?t = attempted s"
    by (simp_all add: scan_pod_def Let_def Some)
  have new: "d \<in> set (batch s) \<or> sd_pod_name d = pod \<and> sd_syscalls d = S" if "d \<in> set (batch ?t)" for d
    using that by (auto simp: scan_pod_def Let_def Some split: if_splits)
  show ?thesis
  proof (rule sender_okI)
    show "S' \<subseteq> seen ?t p" if "syscall_cache ?t p = Some S'" for p S'
      using that assms by (simp add: same sender_ok_def)
    show "accepted ?t p S'" if "last_sent_cache ?t p = Some S'" "S' \<noteq> {}" for p S'
    proof -
      have "last_sent_cache s p = Some S'"
        using that by (auto simp: scan_pod_def Let_def Some get_with_def split: if_splits option.splits)
      with that(2) assms show ?thesis by (simp add: sender_ok_def accepted_def same)
    qed
    show "pending_updates ?t = data_pairs (batch ?t)"
      using assms by (simp add: sender_ok_def scan_pod_def Let_def Some data_pairs_def)
    show "sd_syscalls d \<subseteq> seen ?t (sd_pod_name d)" if d: "d \<in> set (batch ?t) \<union> set (attempted ?t)" for d
    proof -
      consider "d \<in> set (batch s) \<union> set (attempted s)" | "sd_pod_name d = pod" "sd_syscalls d = S"
        using d new [of d] by (auto simp: same)
      then show ?thesis using assms Some by cases (simp_all add: same sender_ok_def)
    qed
    show "set (posted ?t) \<subseteq> set (attempted ?t)" using assms by (simp add: same sender_ok_def)
  qed
qed (simp add: scan_pod_def assms)

lemma mark_sent_lookup: "mark_sent us c p = Some S \<Longrightarrow> (p, S) \<in> set us \<or> c p = Some S"
  by (induction us c rule: mark_sent.induct) (auto split: if_splits)

lemma end_ok:
  assumes "sender_ok s"
  shows "sender_ok (begin_pass (end_pass ok s))"
proof (rule sender_okI)
  let ?t = "begin_pass (end_pass ok s)"
  have same: "syscall_cache ?t = syscall_cache s" "seen ?t = seen s" "batch ?t = []" "pending_updates ?t = []"
    by (simp_all add: begin_pass_def end_pass_def Let_def)
  show "S \<subseteq> seen ?t p" if "syscall_cache ?t p = Some S" for p S
    using that assms by (simp add: same sender_ok_def)
  show "pending_updates ?t = data_pairs (batch ?t)" by (simp add: same data_pairs_def)
  show "sd_syscalls d \<subseteq> seen ?t (sd_pod_name d)" if "d \<in> set (batch ?t) \<union> set (attempted ?t)" for d
    using that assms by (auto simp: same sender_ok_def begin_pass_def end_pass_def Let_def split: if_splits)
  show "set (posted ?t) \<subseteq> set (attempted ?t)"
    using assms by (auto simp: sender_ok_def begin_pass_def end_pass_def Let_def)
  show "accepted ?t p S" if "last_sent_cache ?t p = Some S" "S \<noteq> {}" for p S
  proof (cases "ok \<and> batch s \<noteq> []")
    case True
    then have "mark_sent (pending_updates s) (last_sent_cache s) p = Some S"
      using that(1) by (simp add: begin_pass_def end_pass_def Let_def)
    from mark_sent_lookup [OF this] assms that(2)
    have "(\<exists>d \<in> set (batch s). sd_pod_name d = p \<and> sd_syscalls d = S) \<or> accepted s p S"
      by (auto simp: sender_ok_def data_pairs_def)
    with True show ?thesis by (auto simp: accepted_def begin_pass_def end_pass_def Let_def)
  next
    case False
    then have "last_sent_cache ?t = last_sent_cache s" "posted ?t = posted s"
      by (auto simp: begin_pass_def end_pass_def Let_def)
    with that assms show ?thesis by (simp add: sender_ok_def accepted_def)
  qed
qed

lemma step_ok:
  assumes "sender_step name_of lossy s s'" and "sender_ok s"
  shows "sender_ok s'"
  using assms(1)
proof cases
  case (step_event container_map ev)
  with assms(2) process_ok show ?thesis by (simp add: handle_syscall_event_def split: option.split)
next
  case step_begin
  with assms(2) show ?thesis by (simp add: sender_ok_def begin_pass_def data_pairs_def accepted_def)
next
  case (step_scan arch now pod)
  with assms(2) scan_ok show ?thesis by simp
next
  case (step_end ok)
  with assms(2) end_ok show ?thesis by simp
qed (use assms(2) in \<open>auto simp: sender_ok_def accepted_def\<close>)

lemma reachable_ok: "sender_reachable name_of lossy s \<Longrightarrow> sender_ok s"
  by (induction rule: sender_reachable.induct) (simp_all add: sender_ok_new step_ok)

text \<open>
  C31: nothing is marked that was not accepted, and nothing is made up.  Whatever the order of events, passes,
  failing posts and evicted cache entries, a pod's set of names that the sender takes as sent has been accepted
  by the broker as it stands; and every body it ever posted for a pod, whether the broker accepted it or not,
  holds names alone that were seen for that pod.
\<close>

theorem marked_names_accepted:
  assumes "sender_reachable name_of lossy s"
  shows "(last_sent_cache s pod = Some names \<longrightarrow> names \<noteq> {} \<longrightarrow> accepted s pod names \<and> names \<subseteq> seen s pod)
    \<and> set (posted s) \<subseteq> set (attempted s)
    \<and> (\<forall>d \<in> set (attempted s). sd_syscalls d \<subseteq> seen s (sd_pod_name d))"
proof -
  from reachable_ok [OF assms] have ok: "sender_ok s" .
  moreover have "accepted s pod names \<Longrightarrow> names \<subseteq> seen s pod"
    using ok by (fastforce simp: sender_ok_def accepted_def)
  ultimately show ?thesis by (auto simp: sender_ok_def)
qed

section \<open>Delivery\<close>

definition exact :: "sender \<Rightarrow> bool" where
  "exact s \<longleftrightarrow> (\<forall>p. get_with (syscall_cache s) p = seen s p)"

lemma scan_fields [simp]:
  "syscall_cache (scan_pod arch now pod s) = syscall_cache s" "seen (scan_pod arch now pod s) = seen s"
  "posted (scan_pod arch now pod s) = posted s"
  by (simp_all add: scan_pod_def Let_def split: option.split)

lemma begin_fields [simp]:
  "syscall_cache (begin_pass s) = syscall_cache s" "seen (begin_pass s) = seen s" "posted (begin_pass s) = posted s"
  "last_sent_cache (begin_pass s) = last_sent_cache s" "batch (begin_pass s) = []" "pending_updates (begin_pass s) = []"
  by (simp_all add: begin_pass_def)

lemma end_fields [simp]: "syscall_cache (end_pass ok s) = syscall_cache s" "seen (end_pass ok s) = seen s"
  by (simp_all add: end_pass_def Let_def)

lemma reachable_exact: "sender_reachable name_of False s \<Longrightarrow> exact s"
proof (induction rule: sender_reachable.induct)
  case reach_new
  then show ?case by (simp add: exact_def sender_new_def get_with_def)
next
  case (reach_step s s')
  from reach_step.hyps(2) reach_step.IH show ?case
    by cases (auto simp: exact_def handle_syscall_event_def process_syscall_event_def Let_def get_with_def split: option.splits)
qed

lemma scan_pod_marks:
  "syscall_cache s pod = Some S \<Longrightarrow>
     (pod, S) \<in> set (data_pairs (batch (scan_pod arch now pod s))) \<or> get_with (last_sent_cache s) pod = S"
  by (auto simp: scan_pod_def Let_def data_pairs_def)

lemma scan_pod_keeps:
  "set (batch s) \<subseteq> set (batch (scan_pod arch now pod s))"
  "get_with (last_sent_cache (scan_pod arch now pod s)) p = get_with (last_sent_cache s) p"
  by (auto simp: scan_pod_def Let_def get_with_def split: option.split)

lemma scan_all_keeps:
  "set (batch s) \<subseteq> set (batch (scan_all arch now pods s))"
  "get_with (last_sent_cache (scan_all arch now pods s)) p = get_with (last_sent_cache s) p"
  "syscall_cache (scan_all arch now pods s) = syscall_cache s" "seen (scan_all arch now pods s) = seen s"
  "posted (scan_all arch now pods s) = posted s"
  using scan_pod_keeps by (induction pods arbitrary: s) fastforce+

lemma scan_all_marks:
  "pod \<in> set pods \<Longrightarrow> syscall_cache s pod = Some S \<Longrightarrow>
     (pod, S) \<in> set (data_pairs (batch (scan_all arch now pods s))) \<or> get_with (last_sent_cache s) pod = S"
proof (induction pods arbitrary: s)
  case (Cons q qs)
  have mono: "set (data_pairs (batch t)) \<subseteq> set (data_pairs (batch (scan_all arch now qs t)))" for t
    using scan_all_keeps(1) [of t arch now qs] by (auto simp: data_pairs_def)
  show ?case
  proof (cases "q = pod")
    case True
    with scan_pod_marks [OF Cons.prems(2), of arch now] mono [of "scan_pod arch now pod s"] show ?thesis by auto
  next
    case False
    with Cons.prems have "pod \<in> set qs" by simp
    from Cons.IH [OF this, of "scan_pod arch now q s"] Cons.prems(2) show ?thesis
      by (simp add: scan_pod_keeps(2))
  qed
qed simp

text \<open>
  C30: delivery.  As long as no cache entry is evicted, after any run of events and of passes that
  failed, one pass over the cache whose post succeeds leaves every name that was seen for a pod
  accepted by the broker, in a body that holds the whole set of the pod's names.
\<close>

theorem pass_delivers_everything:
  assumes "sender_reachable name_of False s" and "set pods = dom (syscall_cache s)" and "seen s pod \<noteq> {}"
  shows "accepted (send_pass arch now pods True s) pod (seen s pod)"
proof -
  let ?t = "scan_all arch now pods (begin_pass s)"
  have ok: "sender_ok s" and ex: "exact s" by (rule reachable_ok [OF assms(1)], rule reachable_exact [OF assms(1)])
  have cache: "syscall_cache s pod = Some (seen s pod)"
    using ex assms(3) by (auto simp: exact_def get_with_def dest!: spec [of _ pod] split: option.splits)
  then have "pod \<in> set pods" using assms(2) by auto
  from scan_all_marks [OF this, of "begin_pass s" "seen s pod" arch now] cache
  consider "(pod, seen s pod) \<in> set (data_pairs (batch ?t))" | "get_with (last_sent_cache s) pod = seen s pod" by auto
  then show ?thesis
  proof cases
    case 1
    then have "batch ?t \<noteq> []" by (auto simp: data_pairs_def)
    with 1 show ?thesis by (auto simp: send_pass_def end_pass_def Let_def accepted_def data_pairs_def)
  next
    case 2
    then have "last_sent_cache s pod = Some (seen s pod)"
      using assms(3) by (auto simp: get_with_def split: option.splits)
    with ok assms(3) have "accepted s pod (seen s pod)" by (simp add: sender_ok_def)
    then show ?thesis by (auto simp: send_pass_def end_pass_def Let_def accepted_def scan_all_keeps)
  qed
qed

section \<open>A concrete run\<close>

definition demo_names :: "nat \<Rightarrow> string option" where
  "demo_names n = (if n = 59 then Some ''execve'' else None)"

definition demo_owner :: "u64 \<rightharpoonup> pod_status" where
  "demo_owner = [7 \<mapsto> \<lparr>pod_name = ''web-0'', pod_namespace = Some ''shop'', pod_ip = ''10.0.0.9''\<rparr>]"

definition demo_sender :: sender where
  "demo_sender = begin_pass (end_pass False (scan_pod ''x86_64'' 1 ''web-0''
     (handle_syscall_event demo_names demo_owner \<lparr>se_inum = 7, se_sysnbr = 59\<rparr> sender_new)))"

lemma demo_sender_reachable: "sender_reachable demo_names lossy demo_sender"
  unfolding demo_sender_def
  by (intro sender_reachable.reach_step [OF _ step_end] sender_reachable.reach_step [OF _ step_scan]
      sender_reachable.reach_step [OF _ step_event] sender_reachable.reach_new)

lemma demo_sender_state:
  "syscall_cache demo_sender = [''web-0'' \<mapsto> {''execve''}]" "seen demo_sender ''web-0'' = {''execve''}"
  "posted demo_sender = []"
  by (simp_all add: demo_sender_def handle_syscall_event_def process_syscall_event_def demo_owner_def demo_names_def
      syscall_name_def sender_new_def get_with_def Let_def end_pass_def Let_def)

theorem pass_delivers_everything_witness:
  "accepted (send_pass ''x86_64'' 2 [''web-0''] True demo_sender) ''web-0'' {''execve''}"
  using pass_delivers_everything [OF demo_sender_reachable, of "[''web-0'']" "''web-0''" "''x86_64''" 2]
  by (simp add: demo_sender_state)

lemma demo_sent_reachable: "sender_reachable demo_names lossy (begin_pass (end_pass True (scan_pod ''x86_64'' 2 ''web-0'' demo_sender)))"
  by (intro sender_reachable.reach_step [OF _ step_end] sender_reachable.reach_step [OF _ step_scan] demo_sender_reachable)

theorem marked_names_accepted_witness:
  "accepted (begin_pass (end_pass True (scan_pod ''x86_64'' 2 ''web-0'' demo_sender))) ''web-0'' {''execve''}
   \<and> attempted demo_sender \<noteq> [] \<and> posted demo_sender = [] \<and> list_all (\<lambda>d. sd_syscalls d \<subseteq> seen demo_sender (sd_pod_name d)) (attempted demo_sender)"
proof -
  have "last_sent_cache (begin_pass (end_pass True (scan_pod ''x86_64'' 2 ''web-0'' demo_sender))) ''web-0'' = Some {''execve''}"
    and "attempted demo_sender \<noteq> []"
    by (simp_all add: demo_sender_def handle_syscall_event_def process_syscall_event_def demo_owner_def demo_names_def
        syscall_name_def sender_new_def get_with_def Let_def end_pass_def scan_pod_def begin_pass_def)
  with marked_names_accepted [OF demo_sent_reachable [of True], of "''web-0''" "{''execve''}"]
    marked_names_accepted [OF demo_sender_reachable [of True]]
  show ?thesis by (simp add: demo_sender_state list_all_iff)
qed

end
