(* ===== verification/Go_Net.thy ===== *)
theory Go_Net
  imports Prelude
begin

text \<open>
  What the evaluator uses of Go's package \<^verbatim>\<open>net\<close>: \<^verbatim>\<open>ParseIP\<close>, \<^verbatim>\<open>ParseCIDR\<close> and
  \<^verbatim>\<open>IPNet.Contains\<close>, with the address syntax of \<^verbatim>\<open>net/netip\<close> (dotted IPv4, and IPv6 with an
  ellipsis, an embedded IPv4 tail and a zone).  An \<^verbatim>\<open>IP\<close> is the list of its bytes, most
  significant first, four or sixteen of them.
\<close>

section \<open>Characters and digits\<close>

definition dec_val :: "char \<Rightarrow> nat option" where
  "dec_val c = (let n = of_char c in if 48 \<le> n \<and> n \<le> 57 then Some (n - 48) else None)"

definition hex_val :: "char \<Rightarrow> nat option" where
  "hex_val c = (let n = of_char c in
     if 48 \<le> n \<and> n \<le> 57 then Some (n - 48)
     else if 97 \<le> n \<and> n \<le> 102 then Some (n - 97 + 10)
     else if 65 \<le> n \<and> n \<le> 70 then Some (n - 65 + 10)
     else None)"

section \<open>IPv4\<close>

text \<open>\<^verbatim>\<open>parseIPv4Fields\<close>: the value and the number of digits of the field read so far, the fields
  before it, and whether the previous character was a dot (or there is none).\<close>

fun v4_fields :: "nat \<Rightarrow> nat \<Rightarrow> bytes \<Rightarrow> bool \<Rightarrow> string \<Rightarrow> bytes option" where
  "v4_fields val digLen fields prev_dot [] =
     (if length fields < 3 then None else Some (fields @ [word_of_nat val]))"
| "v4_fields val digLen fields prev_dot (c # cs) =
     (case dec_val c of
        Some d \<Rightarrow>
          if digLen = 1 \<and> val = 0 then None
          else if val * 10 + d > 255 then None
          else v4_fields (val * 10 + d) (digLen + 1) fields False cs
      | None \<Rightarrow>
          if c = CHR ''.'' then
            if prev_dot \<or> cs = [] then None
            else if length fields = 3 then None
            else v4_fields 0 0 (fields @ [word_of_nat val]) True cs
          else None)"

definition parse_v4 :: "string \<Rightarrow> bytes option" where
  "parse_v4 s = v4_fields 0 0 [] True s"

section \<open>IPv6\<close>

fun hex_run :: "nat \<Rightarrow> nat \<Rightarrow> string \<Rightarrow> (nat \<times> nat \<times> string) option" where
  "hex_run off acc [] = Some (off, acc, [])"
| "hex_run off acc (c # cs) =
     (case hex_val c of
        None \<Rightarrow> Some (off, acc, c # cs)
      | Some d \<Rightarrow>
          if off > 3 then None
          else if acc * 16 + d > 65535 then None
          else hex_run (off + 1) (acc * 16 + d) cs)"

text \<open>The loop over the groups; the first argument bounds the groups that still fit.  The bytes
  so far, the place of the ellipsis and the rest of the text are the loop's variables, and its
  results.\<close>

fun v6_groups :: "nat \<Rightarrow> bytes \<Rightarrow> nat option \<Rightarrow> string \<Rightarrow> (bytes \<times> nat option \<times> string) option" where
  "v6_groups 0 ip ell s = Some (ip, ell, s)"
| "v6_groups (Suc n) ip ell s =
     (case hex_run 0 0 s of
        None \<Rightarrow> None
      | Some (off, acc, rest) \<Rightarrow>
          if off = 0 then None
          else if rest \<noteq> [] \<and> hd rest = CHR ''.'' then
            if ell = None \<and> length ip \<noteq> 12 then None
            else if length ip + 4 > 16 then None
            else (case v4_fields 0 0 [] True s of None \<Rightarrow> None | Some b \<Rightarrow> Some (ip @ b, ell, []))
          else
            let ip = ip @ [word_of_nat (acc div 256), word_of_nat acc]
            in (case rest of
                 [] \<Rightarrow> Some (ip, ell, [])
               | c # cs \<Rightarrow>
                   if c \<noteq> CHR '':'' then None
                   else if cs = [] then None
                   else if hd cs = CHR '':'' then
                     if ell \<noteq> None then None
                     else if tl cs = [] then Some (ip, Some (length ip), [])
                     else v6_groups n ip (Some (length ip)) (tl cs)
                   else v6_groups n ip ell cs))"

definition expand_ellipsis :: "bytes \<times> nat option \<times> string \<Rightarrow> bytes option" where
  "expand_ellipsis r = (case r of (ip, ell, s) \<Rightarrow>
     if s \<noteq> [] then None
     else if length ip < 16 then
       (case ell of None \<Rightarrow> None | Some e \<Rightarrow> Some (take e ip @ replicate (16 - length ip) 0 @ drop e ip))
     else if ell \<noteq> None then None
     else Some ip)"

text \<open>The address and its zone.\<close>

definition parse_v6 :: "string \<Rightarrow> (bytes \<times> string) option" where
  "parse_v6 text =
     (let s = takeWhile (\<lambda>c. c \<noteq> CHR ''%'') text;
          tail = dropWhile (\<lambda>c. c \<noteq> CHR ''%'') text;
          zone = tl tail
      in if tail \<noteq> [] \<and> zone = [] then None
         else
           let lead = (length s \<ge> 2 \<and> s ! 0 = CHR '':'' \<and> s ! 1 = CHR '':'');
               s' = (if lead then drop 2 s else s);
               ell = (if lead then Some 0 else None)
           in if lead \<and> s' = [] then Some (replicate 16 0, zone)
              else case v6_groups 8 [] ell s' of
                     None \<Rightarrow> None
                   | Some r \<Rightarrow> map_option (\<lambda>ip. (ip, zone)) (expand_ellipsis r))"

section \<open>Addresses\<close>

datatype netip_addr = Addr4 bytes | Addr6 bytes string

definition ParseAddr :: "string \<Rightarrow> netip_addr option" where
  "ParseAddr s =
     (case filter (\<lambda>c. c = CHR ''.'' \<or> c = CHR '':'' \<or> c = CHR ''%'') s of
        [] \<Rightarrow> None
      | c # _ \<Rightarrow>
          if c = CHR ''.'' then map_option Addr4 (parse_v4 s)
          else if c = CHR '':'' then map_option (\<lambda>(ip, zone). Addr6 ip zone) (parse_v6 s)
          else None)"

definition v4InV6Prefix :: bytes where
  "v4InV6Prefix = [0, 0, 0, 0, 0, 0, 0, 0, 0, 0, 0xff, 0xff]"

fun As16 :: "netip_addr \<Rightarrow> bytes" where
  "As16 (Addr4 ip) = v4InV6Prefix @ ip"
| "As16 (Addr6 ip zone) = ip"

fun addr_zone :: "netip_addr \<Rightarrow> string" where
  "addr_zone (Addr4 ip) = []"
| "addr_zone (Addr6 ip zone) = zone"

fun BitLen :: "netip_addr \<Rightarrow> nat" where
  "BitLen (Addr4 ip) = 32"
| "BitLen (Addr6 ip zone) = 128"

definition ParseIP :: "string \<Rightarrow> bytes option" where
  "ParseIP s = (case ParseAddr s of
     None \<Rightarrow> None
   | Some a \<Rightarrow> if addr_zone a \<noteq> [] then None else Some (As16 a))"

definition To4 :: "bytes \<Rightarrow> bytes option" where
  "To4 ip = (if length ip = 4 then Some ip
     else if length ip = 16 \<and> take 12 ip = v4InV6Prefix then Some (drop 12 ip) else None)"

section \<open>Networks\<close>

record ip_net =
  net_IP :: bytes
  net_Mask :: bytes

fun cidr_mask :: "nat \<Rightarrow> nat \<Rightarrow> bytes" where
  "cidr_mask 0 ones = []"
| "cidr_mask (Suc l) ones =
     (if ones \<ge> 8 then 0xff # cidr_mask l (ones - 8) else NOT (drop_bit ones 0xff) # cidr_mask l 0)"

definition and_bytes :: "bytes \<Rightarrow> bytes \<Rightarrow> bytes" where
  "and_bytes xs ys = map2 (AND) xs ys"

definition ip_mask :: "bytes \<Rightarrow> bytes \<Rightarrow> bytes" where
  "ip_mask ip m =
     (let m = (if length m = 16 \<and> length ip = 4 \<and> list_all (\<lambda>b. b = 0xff) (take 12 m) then drop 12 m else m);
          ip = (if length m = 4 \<and> length ip = 16 \<and> take 12 ip = v4InV6Prefix then drop 12 ip else ip)
      in if length ip \<noteq> length m then [] else and_bytes ip m)"

text \<open>\<^verbatim>\<open>dtoi\<close> on the whole of the prefix length: at least one digit, nothing but digits, and a value
  below \<^verbatim>\<open>big\<close> throughout.\<close>

fun dtoi_run :: "nat \<Rightarrow> string \<Rightarrow> nat option" where
  "dtoi_run n [] = Some n"
| "dtoi_run n (c # cs) = (case dec_val c of
     None \<Rightarrow> None
   | Some d \<Rightarrow> if n * 10 + d \<ge> 0xFFFFFF then None else dtoi_run (n * 10 + d) cs)"

definition dtoi :: "string \<Rightarrow> nat option" where
  "dtoi s = (if s = [] then None else dtoi_run 0 s)"

definition ParseCIDR :: "string \<Rightarrow> ip_net option" where
  "ParseCIDR s =
     (case dropWhile (\<lambda>c. c \<noteq> CHR ''/'') s of
        [] \<Rightarrow> None
      | _ # len \<Rightarrow>
          (case ParseAddr (takeWhile (\<lambda>c. c \<noteq> CHR ''/'') s) of
             None \<Rightarrow> None
           | Some a \<Rightarrow>
               if addr_zone a \<noteq> [] then None
               else (case dtoi len of
                  None \<Rightarrow> None
                | Some n \<Rightarrow>
                    if n > BitLen a then None
                    else let m = cidr_mask (BitLen a div 8) n
                         in Some \<lparr>net_IP = ip_mask (As16 a) m, net_Mask = m\<rparr>)))"

definition networkNumberAndMask :: "ip_net \<Rightarrow> (bytes \<times> bytes) option" where
  "networkNumberAndMask n =
     (let ip = (case To4 (net_IP n) of Some x \<Rightarrow> x | None \<Rightarrow> net_IP n);
          m = net_Mask n
      in if To4 (net_IP n) = None \<and> length (net_IP n) \<noteq> 16 then None
         else if length m = 4 then (if length ip \<noteq> 4 then None else Some (ip, m))
         else if length m = 16 then Some (ip, if length ip = 4 then drop 12 m else m)
         else None)"

definition net_contains :: "ip_net \<Rightarrow> bytes \<Rightarrow> bool" where
  "net_contains n addr =
     (let ip = (case To4 addr of Some x \<Rightarrow> x | None \<Rightarrow> addr)
      in case networkNumberAndMask n of
           None \<Rightarrow> False
         | Some (nn, m) \<Rightarrow> length ip = length nn \<and> and_bytes nn m = and_bytes ip m)"

end
