(* ===== verification/Policy_Matcher.thy ===== *)
theory Policy_Matcher
  imports Go_Net
begin

text \<open>
  The flow matcher of the evaluator, from \<^verbatim>\<open>src/evaluator/pkg/matcher\<close>: whether an observed flow
  would be denied by an audit policy.  The Kubernetes objects carry the fields the matcher reads.
  A label selector is a value of the type parameter \<open>'s\<close>, and \<^verbatim>\<open>metav1.LabelSelectorAsSelector\<close>
  is the parameter \<open>as_selector\<close>: the predicate on label sets that a selector stands for, or
  \<open>None\<close> for its error.
\<close>

type_synonym i32 = "32 word"
type_synonym i64 = "64 word"

section \<open>Flows and results\<close>

type_synonym Direction = string
type_synonym Protocol = string
type_synonym labels = "string \<rightharpoonup> string"

definition DirectionIngress :: Direction where
  "DirectionIngress = ''Ingress''"

definition DirectionEgress :: Direction where
  "DirectionEgress = ''Egress''"

definition ProtocolTCP :: Protocol where
  "ProtocolTCP = ''TCP''"

record Flow =
  SrcPodNamespace :: string
  SrcPodName :: string
  DstPodNamespace :: string
  DstPodName :: string
  SrcIP :: string
  DstIP :: string
  DstPort :: i32
  flow_Protocol :: Protocol
  Timestamp :: nat

datatype Verdict = VerdictNotApplicable | VerdictAllow | VerdictWouldDeny

record Result =
  PolicyNamespace :: string
  PolicyName :: string
  PolicyUID :: string
  PolicyGeneration :: i64
  res_Direction :: Direction
  res_Verdict :: Verdict
  Reason :: string

section \<open>Kubernetes objects\<close>

record ContainerPort =
  cp_Name :: string
  cp_Protocol :: Protocol
  cp_ContainerPort :: i32

record Container =
  cont_Ports :: "ContainerPort list"

record Pod =
  pod_Namespace :: string
  pod_Name :: string
  pod_Labels :: labels
  pod_Containers :: "Container list"

record IntOrString =
  io_Type :: i64
  io_IntVal :: i32
  io_StrVal :: string

record NetworkPolicyPort =
  npp_Protocol :: "Protocol option"
  npp_Port :: "IntOrString option"
  npp_EndPort :: "i32 option"

record IPBlock =
  CIDR :: string
  Except :: "string list"

record 's NetworkPolicyPeer =
  peer_PodSelector :: "'s option"
  peer_NamespaceSelector :: "'s option"
  peer_IPBlock :: "IPBlock option"

record 's IngressRule =
  ing_Ports :: "NetworkPolicyPort list"
  ing_From :: "'s NetworkPolicyPeer list"

record 's EgressRule =
  egr_Ports :: "NetworkPolicyPort list"
  egr_To :: "'s NetworkPolicyPeer list"

record 's NetworkPolicySpec =
  spec_PodSelector :: 's
  spec_PolicyTypes :: "Direction list"
  spec_Ingress :: "'s IngressRule list"
  spec_Egress :: "'s EgressRule list"

record 's AuditNetworkPolicy =
  np_Namespace :: string
  np_Name :: string
  np_UID :: string
  np_Generation :: i64
  np_Spec :: "'s NetworkPolicySpec"

record 's ClusterNetworkPolicySpec =
  csp_NamespaceSelector :: "'s option"
  csp_PodSelector :: 's
  csp_PolicyTypes :: "Direction list"
  csp_Ingress :: "'s IngressRule list"
  csp_Egress :: "'s EgressRule list"

record 's AuditClusterNetworkPolicy =
  cnp_Name :: string
  cnp_UID :: string
  cnp_Generation :: i64
  cnp_Spec :: "'s ClusterNetworkPolicySpec"

text \<open>The interface \<^verbatim>\<open>Lookup\<close>; a nil pointer or map is \<open>None\<close>.\<close>

record Lookup =
  GetPod :: "string \<Rightarrow> string \<Rightarrow> Pod option"
  GetNamespaceLabels :: "string \<Rightarrow> labels option"

section \<open>Selectors, ports and address blocks\<close>

definition selectorMatchesLabels :: "('s \<Rightarrow> (labels \<Rightarrow> bool) option) \<Rightarrow> 's \<Rightarrow> labels \<Rightarrow> bool" where
  "selectorMatchesLabels as_selector sel lbls =
     (case as_selector sel of None \<Rightarrow> False | Some s \<Rightarrow> s lbls)"

definition peerIP :: "Flow \<Rightarrow> Direction \<Rightarrow> string" where
  "peerIP flow dir =
     (if dir = DirectionIngress then SrcIP flow
      else if dir = DirectionEgress then DstIP flow
      else [])"

fun in_except :: "bytes \<Rightarrow> string list \<Rightarrow> bool" where
  "in_except addr [] = False"
| "in_except addr (exStr # rest) =
     (case ParseCIDR exStr of
        Some ex \<Rightarrow> if net_contains ex addr then True else in_except addr rest
      | None \<Rightarrow> in_except addr rest)"

definition ipBlockMatches :: "string \<Rightarrow> IPBlock \<Rightarrow> bool" where
  "ipBlockMatches ip block =
     (if ip = [] then False
      else case ParseIP ip of
        None \<Rightarrow> False
      | Some addr \<Rightarrow>
          (case ParseCIDR (CIDR block) of
             None \<Rightarrow> False
           | Some allow \<Rightarrow>
               if \<not> net_contains allow addr then False
               else \<not> in_except addr (Except block)))"

fun container_ports_match :: "string \<Rightarrow> Protocol \<Rightarrow> i32 \<Rightarrow> ContainerPort list \<Rightarrow> bool" where
  "container_ports_match name proto observed [] = False"
| "container_ports_match name proto observed (cp # cps) =
     (if cp_Name cp \<noteq> name then container_ports_match name proto observed cps
      else
        let cpProto = (if cp_Protocol cp = [] then ProtocolTCP else cp_Protocol cp)
        in if cpProto \<noteq> proto then container_ports_match name proto observed cps
           else if cp_ContainerPort cp = observed then True
           else container_ports_match name proto observed cps)"

fun containers_match :: "string \<Rightarrow> Protocol \<Rightarrow> i32 \<Rightarrow> Container list \<Rightarrow> bool" where
  "containers_match name proto observed [] = False"
| "containers_match name proto observed (c # cs) =
     (if container_ports_match name proto observed (cont_Ports c) then True
      else containers_match name proto observed cs)"

definition namedPortMatches :: "string \<Rightarrow> Protocol \<Rightarrow> i32 \<Rightarrow> Pod option \<Rightarrow> bool" where
  "namedPortMatches name proto observed pod =
     (case pod of
        None \<Rightarrow> False
      | Some p \<Rightarrow> if name = [] then False else containers_match name proto observed (pod_Containers p))"

definition intStringTypeInt :: i64 where
  "intStringTypeInt = 0"

definition portEntryMatches :: "Flow \<Rightarrow> NetworkPolicyPort \<Rightarrow> Pod option \<Rightarrow> bool" where
  "portEntryMatches flow p dstPod =
     (let wantProto = (case npp_Protocol p of None \<Rightarrow> ProtocolTCP | Some pr \<Rightarrow> pr)
      in if wantProto \<noteq> flow_Protocol flow then False
         else case npp_Port p of
           None \<Rightarrow> True
         | Some ps \<Rightarrow>
             if io_Type ps = intStringTypeInt then
               (let port = io_IntVal ps
                in case npp_EndPort p of
                     Some e \<Rightarrow> sint port \<le> sint (DstPort flow) \<and> sint (DstPort flow) \<le> sint e
                   | None \<Rightarrow> DstPort flow = port)
             else namedPortMatches (io_StrVal ps) wantProto (DstPort flow) dstPod)"

fun ports_loop :: "Flow \<Rightarrow> NetworkPolicyPort list \<Rightarrow> Pod option \<Rightarrow> bool" where
  "ports_loop flow [] dstPod = False"
| "ports_loop flow (p # ps) dstPod = (if portEntryMatches flow p dstPod then True else ports_loop flow ps dstPod)"

definition portsMatch :: "Flow \<Rightarrow> NetworkPolicyPort list \<Rightarrow> Pod option \<Rightarrow> bool" where
  "portsMatch flow ports dstPod = (if ports = [] then True else ports_loop flow ports dstPod)"

section \<open>Subject and peer\<close>

definition subjectPod :: "Flow \<Rightarrow> Direction \<Rightarrow> Lookup \<Rightarrow> Pod option" where
  "subjectPod flow dir lookup =
     (if dir = DirectionIngress then GetPod lookup (DstPodNamespace flow) (DstPodName flow)
      else if dir = DirectionEgress then GetPod lookup (SrcPodNamespace flow) (SrcPodName flow)
      else None)"

definition peerPod :: "Flow \<Rightarrow> Direction \<Rightarrow> Lookup \<Rightarrow> Pod option" where
  "peerPod flow dir lookup =
     (if dir = DirectionIngress then GetPod lookup (SrcPodNamespace flow) (SrcPodName flow)
      else if dir = DirectionEgress then GetPod lookup (DstPodNamespace flow) (DstPodName flow)
      else None)"

definition portTargetPod :: "Flow \<Rightarrow> Direction \<Rightarrow> Lookup \<Rightarrow> Pod option" where
  "portTargetPod flow dir lookup = GetPod lookup (DstPodNamespace flow) (DstPodName flow)"

definition subject_ns :: "Flow \<Rightarrow> Direction \<Rightarrow> string" where
  "subject_ns flow dir =
     (if dir = DirectionIngress then DstPodNamespace flow
      else if dir = DirectionEgress then SrcPodNamespace flow
      else [])"

definition peerEntryMatches :: "('s \<Rightarrow> (labels \<Rightarrow> bool) option) \<Rightarrow> Pod option \<Rightarrow> Flow \<Rightarrow> Direction
    \<Rightarrow> 's NetworkPolicyPeer \<Rightarrow> Lookup \<Rightarrow> bool" where
  "peerEntryMatches as_selector peer flow dir p lookup =
     (case peer_IPBlock p of
        Some block \<Rightarrow> ipBlockMatches (peerIP flow dir) block
      | None \<Rightarrow>
          (case peer of
             None \<Rightarrow> False
           | Some pod \<Rightarrow>
               let ns_ok = (case peer_NamespaceSelector p of
                     Some sel \<Rightarrow>
                       (case GetNamespaceLabels lookup (pod_Namespace pod) of
                          None \<Rightarrow> False
                        | Some nsLabels \<Rightarrow> selectorMatchesLabels as_selector sel nsLabels)
                   | None \<Rightarrow> pod_Namespace pod = subject_ns flow dir)
               in if \<not> ns_ok then False
                  else (case peer_PodSelector p of
                    Some sel \<Rightarrow> if \<not> selectorMatchesLabels as_selector sel (pod_Labels pod) then False else True
                  | None \<Rightarrow> True)))"

fun peers_loop :: "('s \<Rightarrow> (labels \<Rightarrow> bool) option) \<Rightarrow> Pod option \<Rightarrow> Flow \<Rightarrow> Direction
    \<Rightarrow> 's NetworkPolicyPeer list \<Rightarrow> Lookup \<Rightarrow> bool" where
  "peers_loop as_selector peerObj flow dir [] lookup = False"
| "peers_loop as_selector peerObj flow dir (p # ps) lookup =
     (if peerEntryMatches as_selector peerObj flow dir p lookup then True
      else peers_loop as_selector peerObj flow dir ps lookup)"

definition peerListMatches :: "('s \<Rightarrow> (labels \<Rightarrow> bool) option) \<Rightarrow> Flow \<Rightarrow> Direction
    \<Rightarrow> 's NetworkPolicyPeer list \<Rightarrow> Lookup \<Rightarrow> bool" where
  "peerListMatches as_selector flow dir peers lookup =
     (if peers = [] then True else peers_loop as_selector (peerPod flow dir lookup) flow dir peers lookup)"

section \<open>Rules\<close>

text \<open>The dash of the reasons, in UTF-8.\<close>

definition dash :: string where
  "dash = [CHR 0xE2, CHR 0x80, CHR 0x94]"

fun ingress_loop :: "('s \<Rightarrow> (labels \<Rightarrow> bool) option) \<Rightarrow> Flow \<Rightarrow> Direction \<Rightarrow> 's IngressRule list
    \<Rightarrow> Pod option \<Rightarrow> Lookup \<Rightarrow> bool \<times> string" where
  "ingress_loop as_selector flow dir [] portPod lookup = (False, ''no ingress rule matched both peer and port'')"
| "ingress_loop as_selector flow dir (rule # rules) portPod lookup =
     (if peerListMatches as_selector flow dir (ing_From rule) lookup \<and> portsMatch flow (ing_Ports rule) portPod
      then (True, []) else ingress_loop as_selector flow dir rules portPod lookup)"

fun egress_loop :: "('s \<Rightarrow> (labels \<Rightarrow> bool) option) \<Rightarrow> Flow \<Rightarrow> Direction \<Rightarrow> 's EgressRule list
    \<Rightarrow> Pod option \<Rightarrow> Lookup \<Rightarrow> bool \<times> string" where
  "egress_loop as_selector flow dir [] portPod lookup = (False, ''no egress rule matched both peer and port'')"
| "egress_loop as_selector flow dir (rule # rules) portPod lookup =
     (if peerListMatches as_selector flow dir (egr_To rule) lookup \<and> portsMatch flow (egr_Ports rule) portPod
      then (True, []) else egress_loop as_selector flow dir rules portPod lookup)"

definition evaluateRules :: "('s \<Rightarrow> (labels \<Rightarrow> bool) option) \<Rightarrow> Flow \<Rightarrow> 's AuditNetworkPolicy \<Rightarrow> Direction
    \<Rightarrow> Lookup \<Rightarrow> bool \<times> string" where
  "evaluateRules as_selector flow policy dir lookup =
     (let portPod = portTargetPod flow dir lookup
      in if dir = DirectionIngress then
           (if spec_Ingress (np_Spec policy) = [] then (False, ''policy has no ingress rules '' @ dash @ '' default-deny'')
            else ingress_loop as_selector flow dir (spec_Ingress (np_Spec policy)) portPod lookup)
         else if dir = DirectionEgress then
           (if spec_Egress (np_Spec policy) = [] then (False, ''policy has no egress rules '' @ dash @ '' default-deny'')
            else egress_loop as_selector flow dir (spec_Egress (np_Spec policy)) portPod lookup)
         else (False, ''unknown direction''))"

definition evaluateRulesCluster :: "('s \<Rightarrow> (labels \<Rightarrow> bool) option) \<Rightarrow> Flow \<Rightarrow> 's AuditClusterNetworkPolicy
    \<Rightarrow> Direction \<Rightarrow> Lookup \<Rightarrow> bool \<times> string" where
  "evaluateRulesCluster as_selector flow policy dir lookup =
     (let portPod = portTargetPod flow dir lookup
      in if dir = DirectionIngress then
           (if csp_Ingress (cnp_Spec policy) = [] then (False, ''policy has no ingress rules '' @ dash @ '' default-deny'')
            else ingress_loop as_selector flow dir (csp_Ingress (cnp_Spec policy)) portPod lookup)
         else if dir = DirectionEgress then
           (if csp_Egress (cnp_Spec policy) = [] then (False, ''policy has no egress rules '' @ dash @ '' default-deny'')
            else egress_loop as_selector flow dir (csp_Egress (cnp_Spec policy)) portPod lookup)
         else (False, ''unknown direction''))"

section \<open>Policy types\<close>

fun dedup_loop :: "bool \<Rightarrow> bool \<Rightarrow> Direction list \<Rightarrow> Direction list" where
  "dedup_loop sawIngress sawEgress [] = []"
| "dedup_loop sawIngress sawEgress (t # ts) =
     (if t = DirectionIngress then
        (if sawIngress then dedup_loop sawIngress sawEgress ts else t # dedup_loop True sawEgress ts)
      else if t = DirectionEgress then
        (if sawEgress then dedup_loop sawIngress sawEgress ts else t # dedup_loop sawIngress True ts)
      else t # dedup_loop sawIngress sawEgress ts)"

definition dedupPolicyTypes :: "Direction list \<Rightarrow> Direction list" where
  "dedupPolicyTypes types = (if length types \<le> 1 then types else dedup_loop False False types)"

definition effectivePolicyTypes :: "'s NetworkPolicySpec \<Rightarrow> Direction list" where
  "effectivePolicyTypes spec =
     (if spec_PolicyTypes spec \<noteq> [] then dedupPolicyTypes (spec_PolicyTypes spec)
      else if spec_Egress spec \<noteq> [] then [DirectionIngress, DirectionEgress]
      else [DirectionIngress])"

definition effectivePolicyTypesCluster :: "'s ClusterNetworkPolicySpec \<Rightarrow> Direction list" where
  "effectivePolicyTypesCluster spec =
     (if csp_PolicyTypes spec \<noteq> [] then dedupPolicyTypes (csp_PolicyTypes spec)
      else if csp_Egress spec \<noteq> [] then [DirectionIngress, DirectionEgress]
      else [DirectionIngress])"

section \<open>Match\<close>

text \<open>The body of the loop of \<^verbatim>\<open>Match\<close>: every path of it appends one result.\<close>

definition match_direction :: "('s \<Rightarrow> (labels \<Rightarrow> bool) option) \<Rightarrow> Flow \<Rightarrow> 's AuditNetworkPolicy \<Rightarrow> Lookup
    \<Rightarrow> Direction \<Rightarrow> Result" where
  "match_direction as_selector flow policy lookup dir =
     (let result = (\<lambda>verdict reason. \<lparr>PolicyNamespace = np_Namespace policy, PolicyName = np_Name policy,
            PolicyUID = np_UID policy, PolicyGeneration = np_Generation policy,
            res_Direction = dir, res_Verdict = verdict, Reason = reason\<rparr>)
      in case subjectPod flow dir lookup of
           None \<Rightarrow> result VerdictNotApplicable []
         | Some subject \<Rightarrow>
             if pod_Namespace subject \<noteq> np_Namespace policy then result VerdictNotApplicable []
             else if \<not> selectorMatchesLabels as_selector (spec_PodSelector (np_Spec policy)) (pod_Labels subject)
             then result VerdictNotApplicable []
             else
               let (allowed, reason) = evaluateRules as_selector flow policy dir lookup
               in if allowed then result VerdictAllow [] else result VerdictWouldDeny reason)"

definition Match :: "('s \<Rightarrow> (labels \<Rightarrow> bool) option) \<Rightarrow> Flow \<Rightarrow> 's AuditNetworkPolicy \<Rightarrow> Lookup \<Rightarrow> Result list" where
  "Match as_selector flow policy lookup =
     map (match_direction as_selector flow policy lookup) (effectivePolicyTypes (np_Spec policy))"

definition match_direction_cluster :: "('s \<Rightarrow> (labels \<Rightarrow> bool) option) \<Rightarrow> Flow \<Rightarrow> 's AuditClusterNetworkPolicy
    \<Rightarrow> Lookup \<Rightarrow> Direction \<Rightarrow> Result" where
  "match_direction_cluster as_selector flow policy lookup dir =
     (let result = (\<lambda>verdict reason. \<lparr>PolicyNamespace = [], PolicyName = cnp_Name policy,
            PolicyUID = cnp_UID policy, PolicyGeneration = cnp_Generation policy,
            res_Direction = dir, res_Verdict = verdict, Reason = reason\<rparr>)
      in case subjectPod flow dir lookup of
           None \<Rightarrow> result VerdictNotApplicable []
         | Some subject \<Rightarrow>
             if (case csp_NamespaceSelector (cnp_Spec policy) of
                   None \<Rightarrow> False
                 | Some sel \<Rightarrow>
                     (case GetNamespaceLabels lookup (pod_Namespace subject) of
                        None \<Rightarrow> True
                      | Some nsLabels \<Rightarrow> \<not> selectorMatchesLabels as_selector sel nsLabels))
             then result VerdictNotApplicable []
             else if \<not> selectorMatchesLabels as_selector (csp_PodSelector (cnp_Spec policy)) (pod_Labels subject)
             then result VerdictNotApplicable []
             else
               let (allowed, reason) = evaluateRulesCluster as_selector flow policy dir lookup
               in if allowed then result VerdictAllow [] else result VerdictWouldDeny reason)"

definition MatchCluster :: "('s \<Rightarrow> (labels \<Rightarrow> bool) option) \<Rightarrow> Flow \<Rightarrow> 's AuditClusterNetworkPolicy \<Rightarrow> Lookup
    \<Rightarrow> Result list" where
  "MatchCluster as_selector flow policy lookup =
     map (match_direction_cluster as_selector flow policy lookup) (effectivePolicyTypesCluster (cnp_Spec policy))"

end
