(* ===== verification/Policy_Spec.thy ===== *)
theory Policy_Spec
  imports Policy_Matcher
begin

text \<open>
  The semantics of an audit policy as \<^verbatim>\<open>src/evaluator/pkg/matcher/types.go\<close> states it, without
  loops and early returns, and the agreement of the matcher with it.  The locale \<open>pod_lookup\<close>
  is the contract of the interface \<^verbatim>\<open>PodLookup\<close>: a pod that is found has the namespace it was
  asked for.
\<close>

section \<open>The reference semantics\<close>

definition block_covers :: "string \<Rightarrow> IPBlock \<Rightarrow> bool" where
  "block_covers ip block = (case ParseIP ip of
     None \<Rightarrow> False
   | Some addr \<Rightarrow>
       (let within = (\<lambda>text. case ParseCIDR text of None \<Rightarrow> False | Some n \<Rightarrow> net_contains n addr)
        in within (CIDR block) \<and> \<not> list_ex within (Except block)))"

definition peer_permits :: "('s \<Rightarrow> (labels \<Rightarrow> bool) option) \<Rightarrow> (string \<Rightarrow> labels option) \<Rightarrow> string \<Rightarrow> string
    \<Rightarrow> Pod option \<Rightarrow> 's NetworkPolicyPeer \<Rightarrow> bool" where
  "peer_permits as_selector ns_labels home ip pod p = (case (peer_IPBlock p, pod) of
     (Some block, _) \<Rightarrow> block_covers ip block
   | (None, None) \<Rightarrow> False
   | (None, Some pd) \<Rightarrow>
       (case peer_NamespaceSelector p of
          None \<Rightarrow> pod_Namespace pd = home
        | Some sel \<Rightarrow> (case ns_labels (pod_Namespace pd) of
            None \<Rightarrow> False
          | Some l \<Rightarrow> selectorMatchesLabels as_selector sel l)) \<and>
       (case peer_PodSelector p of
          None \<Rightarrow> True
        | Some sel \<Rightarrow> selectorMatchesLabels as_selector sel (pod_Labels pd)))"

definition effective_protocol :: "Protocol option \<Rightarrow> Protocol" where
  "effective_protocol p = (case p of None \<Rightarrow> ProtocolTCP | Some pr \<Rightarrow> pr)"

definition cp_exposes :: "string \<Rightarrow> Protocol \<Rightarrow> i32 \<Rightarrow> ContainerPort \<Rightarrow> bool" where
  "cp_exposes name proto port cp \<longleftrightarrow> cp_Name cp = name \<and> cp_ContainerPort cp = port \<and>
     effective_protocol (if cp_Protocol cp = [] then None else Some (cp_Protocol cp)) = proto"

definition exposes :: "Pod option \<Rightarrow> string \<Rightarrow> Protocol \<Rightarrow> i32 \<Rightarrow> bool" where
  "exposes pod name proto port = (case pod of
     None \<Rightarrow> False
   | Some p \<Rightarrow> name \<noteq> [] \<and>
       list_ex (cp_exposes name proto port) (concat (map cont_Ports (pod_Containers p))))"

definition port_permits :: "Flow \<Rightarrow> Pod option \<Rightarrow> NetworkPolicyPort \<Rightarrow> bool" where
  "port_permits flow dst p \<longleftrightarrow>
     effective_protocol (npp_Protocol p) = flow_Protocol flow \<and>
     (case npp_Port p of
        None \<Rightarrow> True
      | Some ps \<Rightarrow>
          if io_Type ps = 0 then
            sint (DstPort flow) \<in> {sint (io_IntVal ps) .. sint (case npp_EndPort p of None \<Rightarrow> io_IntVal ps | Some e \<Rightarrow> e)}
          else exposes dst (io_StrVal ps) (flow_Protocol flow) (DstPort flow))"

definition permits :: "('a \<Rightarrow> bool) \<Rightarrow> ('b \<Rightarrow> bool) \<Rightarrow> 'a list \<times> 'b list \<Rightarrow> bool" where
  "permits peer_ok port_ok rule \<longleftrightarrow>
     (fst rule = [] \<or> list_ex peer_ok (fst rule)) \<and> (snd rule = [] \<or> list_ex port_ok (snd rule))"

text \<open>The verdict of a policy in one direction: \<open>selects\<close> is the set of pods it applies to, and
  \<open>rules\<close> are the peers and the ports of its rules in this direction.\<close>

definition policy_verdict :: "('s \<Rightarrow> (labels \<Rightarrow> bool) option) \<Rightarrow> Lookup \<Rightarrow> Flow \<Rightarrow> Direction \<Rightarrow> (Pod \<Rightarrow> bool)
    \<Rightarrow> ('s NetworkPolicyPeer list \<times> NetworkPolicyPort list) list \<Rightarrow> Verdict" where
  "policy_verdict as_selector lookup flow dir selects rules = (case subjectPod flow dir lookup of
     None \<Rightarrow> VerdictNotApplicable
   | Some subject \<Rightarrow>
       if \<not> selects subject then VerdictNotApplicable
       else if list_ex (permits
           (peer_permits as_selector (GetNamespaceLabels lookup) (pod_Namespace subject) (peerIP flow dir) (peerPod flow dir lookup))
           (port_permits flow (GetPod lookup (DstPodNamespace flow) (DstPodName flow)))) rules
       then VerdictAllow
       else VerdictWouldDeny)"

definition selects_pod :: "('s \<Rightarrow> (labels \<Rightarrow> bool) option) \<Rightarrow> 's AuditNetworkPolicy \<Rightarrow> Pod \<Rightarrow> bool" where
  "selects_pod as_selector policy pod \<longleftrightarrow> pod_Namespace pod = np_Namespace policy \<and>
     selectorMatchesLabels as_selector (spec_PodSelector (np_Spec policy)) (pod_Labels pod)"

definition cluster_selects_pod :: "('s \<Rightarrow> (labels \<Rightarrow> bool) option) \<Rightarrow> Lookup \<Rightarrow> 's AuditClusterNetworkPolicy \<Rightarrow> Pod \<Rightarrow> bool" where
  "cluster_selects_pod as_selector lookup policy pod \<longleftrightarrow>
     (case csp_NamespaceSelector (cnp_Spec policy) of
        None \<Rightarrow> True
      | Some sel \<Rightarrow> (case GetNamespaceLabels lookup (pod_Namespace pod) of
          None \<Rightarrow> False
        | Some l \<Rightarrow> selectorMatchesLabels as_selector sel l)) \<and>
     selectorMatchesLabels as_selector (csp_PodSelector (cnp_Spec policy)) (pod_Labels pod)"

definition ingress_rules :: "'s IngressRule list \<Rightarrow> ('s NetworkPolicyPeer list \<times> NetworkPolicyPort list) list" where
  "ingress_rules rs = map (\<lambda>r. (ing_From r, ing_Ports r)) rs"

definition egress_rules :: "'s EgressRule list \<Rightarrow> ('s NetworkPolicyPeer list \<times> NetworkPolicyPort list) list" where
  "egress_rules rs = map (\<lambda>r. (egr_To r, egr_Ports r)) rs"

definition audit_verdict :: "('s \<Rightarrow> (labels \<Rightarrow> bool) option) \<Rightarrow> Lookup \<Rightarrow> Flow \<Rightarrow> 's AuditNetworkPolicy \<Rightarrow> Direction \<Rightarrow> Verdict" where
  "audit_verdict as_selector lookup flow policy dir =
     policy_verdict as_selector lookup flow dir (selects_pod as_selector policy)
       (if dir = DirectionIngress then ingress_rules (spec_Ingress (np_Spec policy))
        else egress_rules (spec_Egress (np_Spec policy)))"

definition cluster_audit_verdict :: "('s \<Rightarrow> (labels \<Rightarrow> bool) option) \<Rightarrow> Lookup \<Rightarrow> Flow \<Rightarrow> 's AuditClusterNetworkPolicy
    \<Rightarrow> Direction \<Rightarrow> Verdict" where
  "cluster_audit_verdict as_selector lookup flow policy dir =
     policy_verdict as_selector lookup flow dir (cluster_selects_pod as_selector lookup policy)
       (if dir = DirectionIngress then ingress_rules (csp_Ingress (cnp_Spec policy))
        else egress_rules (csp_Egress (cnp_Spec policy)))"

text \<open>The directions: those listed, or ingress, and egress when there is an egress rule.\<close>

definition applies_in :: "Direction list \<Rightarrow> bool \<Rightarrow> Direction \<Rightarrow> bool" where
  "applies_in types has_egress dir \<longleftrightarrow>
     (if types \<noteq> [] then dir \<in> set types else dir = DirectionIngress \<or> dir = DirectionEgress \<and> has_egress)"

section \<open>The loops\<close>

lemma directions_differ [simp]: "DirectionIngress \<noteq> DirectionEgress" "DirectionEgress \<noteq> DirectionIngress"
  by (simp_all add: DirectionIngress_def DirectionEgress_def)

lemma in_except_ex:
  "in_except addr xs = list_ex (\<lambda>text. case ParseCIDR text of None \<Rightarrow> False | Some n \<Rightarrow> net_contains n addr) xs"
  by (induction xs) (auto split: option.splits)

lemma ParseIP_Nil [simp]: "ParseIP [] = None"
  by (simp add: ParseIP_def ParseAddr_def)

lemma ipBlockMatches_covers: "ipBlockMatches ip b = block_covers ip b"
  by (auto simp: ipBlockMatches_def block_covers_def in_except_ex Let_def split: option.splits)

lemma container_ports_match_ex: "container_ports_match name proto port cps = list_ex (cp_exposes name proto port) cps"
proof (induction cps)
  case (Cons cp cps)
  have "cp_exposes name proto port cp \<longleftrightarrow> cp_Name cp = name \<and> cp_ContainerPort cp = port \<and>
      (if cp_Protocol cp = [] then ProtocolTCP else cp_Protocol cp) = proto"
    by (simp add: cp_exposes_def effective_protocol_def)
  with Cons.IH show ?case by (simp add: Let_def) auto
qed simp

lemma containers_match_ex:
  "containers_match name proto port cs = list_ex (cp_exposes name proto port) (concat (map cont_Ports cs))"
  by (induction cs) (auto simp: container_ports_match_ex)

lemma namedPortMatches_exposes: "namedPortMatches name proto port pod = exposes pod name proto port"
  by (auto simp: namedPortMatches_def exposes_def containers_match_ex split: option.splits)

lemma sint_eq_iff: "sint a = sint b \<longleftrightarrow> a = (b :: i32)"
  using word_eq_iff_signed by blast

lemma portEntryMatches_permits: "portEntryMatches flow p dst = port_permits flow dst p"
  by (auto simp: portEntryMatches_def port_permits_def effective_protocol_def intStringTypeInt_def Let_def
      namedPortMatches_exposes sint_eq_iff antisym_conv split: option.splits)

lemma ports_loop_ex: "ports_loop flow ps dst = list_ex (port_permits flow dst) ps"
  by (induction ps) (auto simp: portEntryMatches_permits)

lemma portsMatch_ex: "portsMatch flow ps dst \<longleftrightarrow> ps = [] \<or> list_ex (port_permits flow dst) ps"
  by (simp add: portsMatch_def ports_loop_ex)

lemma peerEntryMatches_permits:
  "peerEntryMatches as_selector pod flow dir p lookup =
     peer_permits as_selector (GetNamespaceLabels lookup) (subject_ns flow dir) (peerIP flow dir) pod p"
  by (auto simp: peerEntryMatches_def peer_permits_def ipBlockMatches_covers Let_def split: option.splits)

lemma peers_loop_ex:
  "peers_loop as_selector pod flow dir ps lookup =
     list_ex (peer_permits as_selector (GetNamespaceLabels lookup) (subject_ns flow dir) (peerIP flow dir) pod) ps"
  by (induction ps) (auto simp: peerEntryMatches_permits)

lemma peerListMatches_ex:
  "peerListMatches as_selector flow dir ps lookup \<longleftrightarrow> ps = [] \<or>
     list_ex (peer_permits as_selector (GetNamespaceLabels lookup) (subject_ns flow dir) (peerIP flow dir)
       (peerPod flow dir lookup)) ps"
  by (simp add: peerListMatches_def peers_loop_ex)

lemma ingress_loop_ex:
  "fst (ingress_loop as_selector flow dir rs pod lookup) =
     list_ex (permits (peer_permits as_selector (GetNamespaceLabels lookup) (subject_ns flow dir) (peerIP flow dir)
       (peerPod flow dir lookup)) (port_permits flow pod)) (ingress_rules rs)"
  by (induction rs) (auto simp: ingress_rules_def permits_def peerListMatches_ex portsMatch_ex)

lemma egress_loop_ex:
  "fst (egress_loop as_selector flow dir rs pod lookup) =
     list_ex (permits (peer_permits as_selector (GetNamespaceLabels lookup) (subject_ns flow dir) (peerIP flow dir)
       (peerPod flow dir lookup)) (port_permits flow pod)) (egress_rules rs)"
  by (induction rs) (auto simp: egress_rules_def permits_def peerListMatches_ex portsMatch_ex)

section \<open>Policy types\<close>

lemma filter_dedup_loop:
  "filter (\<lambda>t. t = DirectionIngress) (dedup_loop i e ts) =
     (if \<not> i \<and> DirectionIngress \<in> set ts then [DirectionIngress] else [])"
  "filter (\<lambda>t. t = DirectionEgress) (dedup_loop i e ts) =
     (if \<not> e \<and> DirectionEgress \<in> set ts then [DirectionEgress] else [])"
  by (induction ts arbitrary: i e) auto

lemma filter_dedup:
  assumes "d = DirectionIngress \<or> d = DirectionEgress"
  shows "filter (\<lambda>t. t = d) (dedupPolicyTypes ts) = (if d \<in> set ts then [d] else [])"
proof (cases "length ts \<le> 1")
  case True
  then show ?thesis by (cases ts) (auto simp: dedupPolicyTypes_def)
next
  case False
  with assms show ?thesis by (auto simp: dedupPolicyTypes_def filter_dedup_loop)
qed

lemma filter_effective:
  assumes "d = DirectionIngress \<or> d = DirectionEgress"
  shows "filter (\<lambda>t. t = d) (effectivePolicyTypes s) =
      (if applies_in (spec_PolicyTypes s) (spec_Egress s \<noteq> []) d then [d] else [])"
    and "filter (\<lambda>t. t = d) (effectivePolicyTypesCluster c) =
      (if applies_in (csp_PolicyTypes c) (csp_Egress c \<noteq> []) d then [d] else [])"
  using assms by (auto simp: effectivePolicyTypes_def effectivePolicyTypesCluster_def applies_in_def filter_dedup)

section \<open>The contract of the lookup\<close>

locale pod_lookup =
  fixes lookup :: Lookup
  assumes found_in_namespace: "GetPod lookup ns name = Some pod \<Longrightarrow> pod_Namespace pod = ns"
begin

lemma subject_namespace: "subjectPod flow dir lookup = Some pod \<Longrightarrow> subject_ns flow dir = pod_Namespace pod"
  by (auto simp: subjectPod_def subject_ns_def found_in_namespace split: if_splits)

lemma evaluated_direction:
  assumes d: "dir = DirectionIngress \<or> dir = DirectionEgress"
  shows "res_Verdict (match_direction as_selector flow policy lookup dir) = audit_verdict as_selector lookup flow policy dir"
    and "res_Verdict (match_direction_cluster as_selector flow cpolicy lookup dir) =
      cluster_audit_verdict as_selector lookup flow cpolicy dir"
proof -
  have rules: "fst (evaluateRules as_selector flow policy dir lookup) =
      list_ex (permits (peer_permits as_selector (GetNamespaceLabels lookup) (subject_ns flow dir) (peerIP flow dir)
        (peerPod flow dir lookup)) (port_permits flow (GetPod lookup (DstPodNamespace flow) (DstPodName flow))))
        (if dir = DirectionIngress then ingress_rules (spec_Ingress (np_Spec policy))
         else egress_rules (spec_Egress (np_Spec policy)))"
    using d by (auto simp: evaluateRules_def portTargetPod_def ingress_loop_ex egress_loop_ex ingress_rules_def egress_rules_def)
  have crules: "fst (evaluateRulesCluster as_selector flow cpolicy dir lookup) =
      list_ex (permits (peer_permits as_selector (GetNamespaceLabels lookup) (subject_ns flow dir) (peerIP flow dir)
        (peerPod flow dir lookup)) (port_permits flow (GetPod lookup (DstPodNamespace flow) (DstPodName flow))))
        (if dir = DirectionIngress then ingress_rules (csp_Ingress (cnp_Spec cpolicy))
         else egress_rules (csp_Egress (cnp_Spec cpolicy)))"
    using d by (auto simp: evaluateRulesCluster_def portTargetPod_def ingress_loop_ex egress_loop_ex ingress_rules_def egress_rules_def)
  show "res_Verdict (match_direction as_selector flow policy lookup dir) = audit_verdict as_selector lookup flow policy dir"
  proof (cases "subjectPod flow dir lookup")
    case (Some s)
    with rules show ?thesis
      by (cases "evaluateRules as_selector flow policy dir lookup")
        (simp add: match_direction_def audit_verdict_def policy_verdict_def selects_pod_def subject_namespace)
  qed (simp add: match_direction_def audit_verdict_def policy_verdict_def)
  show "res_Verdict (match_direction_cluster as_selector flow cpolicy lookup dir) =
      cluster_audit_verdict as_selector lookup flow cpolicy dir"
  proof (cases "subjectPod flow dir lookup")
    case (Some s)
    obtain ok reason where eval: "evaluateRulesCluster as_selector flow cpolicy dir lookup = (ok, reason)"
      by (cases "evaluateRulesCluster as_selector flow cpolicy dir lookup")
    have "res_Verdict (match_direction_cluster as_selector flow cpolicy lookup dir) =
        (if \<not> cluster_selects_pod as_selector lookup cpolicy s then VerdictNotApplicable
         else if ok then VerdictAllow else VerdictWouldDeny)"
      by (simp add: match_direction_cluster_def cluster_selects_pod_def Some eval split: option.split)
    with crules show ?thesis
      by (simp add: cluster_audit_verdict_def policy_verdict_def Some eval subject_namespace)
  qed (simp add: match_direction_cluster_def cluster_audit_verdict_def policy_verdict_def)
qed

end

end
