(* ===== verification/Address_Text.thy ===== *)
theory Address_Text
  imports Controller_Props Policy_Spec
begin

text \<open>
  Addresses as text between the parts of the program: the evaluator's parser reads the dotted form
  that the controller prints, and an address block \<^verbatim>\<open>a.b.c.d/p\<close> covers the addresses that agree
  with it in the first \<open>p\<close> bits.
\<close>

section \<open>Digits\<close>

lemma dec_val_digit: "d < 10 \<Longrightarrow> dec_val (char_of (48 + d)) = Some d"
  by (simp add: dec_val_def of_char_digit Let_def)

lemma v4_digits:
  assumes "n < 256"
  shows "v4_fields 0 0 fs pd (digits n @ rest) = v4_fields n (length (digits n)) fs False rest"
proof -
  consider "n < 10" | "10 \<le> n" "n < 100" | "100 \<le> n" by linarith
  then show ?thesis
  proof cases
    case 1
    then show ?thesis by (simp add: digits_small dec_val_digit)
  next
    case 2
    then have "n div 10 \<noteq> 0" "10 * (n div 10) + n mod 10 = n" "n div 10 < 10" by simp_all
    with 2 assms show ?thesis by (simp add: digits_step digits_small dec_val_digit mult.commute)
  next
    case 3
    have three: "v4_fields 0 0 fs pd (char_of (48 + x) # char_of (48 + y) # char_of (48 + z) # rest) =
        v4_fields (x * 100 + y * 10 + z) 3 fs False rest"
      if "x < 10" "y < 10" "z < 10" "x \<noteq> 0" "x * 100 + y * 10 + z \<le> 255" for x y z
    proof -
      have e: "(x * 10 + y) * 10 + z = x * 100 + y * 10 + z" by simp
      then have "\<not> 255 < x * 10 + y" "\<not> 255 < (x * 10 + y) * 10 + z" using that by linarith+
      with that show ?thesis by (simp add: dec_val_digit numeral_3_eq_3 e del: distrib_right_numeral)
    qed
    have "digits n = [char_of (48 + n div 10 div 10), char_of (48 + n div 10 mod 10), char_of (48 + n mod 10)]"
      using assms 3 by (simp add: digits_step digits_small)
    moreover have "n div 10 div 10 * 100 + n div 10 mod 10 * 10 + n mod 10 = n"
    proof -
      have "10 * (n div 10 div 10) + n div 10 mod 10 = n div 10" "10 * (n div 10) + n mod 10 = n"
        by (simp_all only: mult_div_mod_eq)
      then show ?thesis by linarith
    qed
    ultimately show ?thesis
      using three [of "n div 10 div 10" "n div 10 mod 10" "n mod 10"] assms 3 by (simp add: numeral_3_eq_3)
  qed
qed

lemma v4_octet:
  fixes w :: u8
  shows "rest \<noteq> [] \<Longrightarrow> length fs < 3 \<Longrightarrow> v4_fields 0 0 fs True (digits (unat w) @ CHR ''.'' # rest) = v4_fields 0 0 (fs @ [w]) True rest"
    and "length fs = 3 \<Longrightarrow> v4_fields 0 0 fs True (digits (unat w)) = Some (fs @ [w])"
proof -
  have w: "unat w < 256" using unsigned_less [of w, where ?'a = nat] by simp
  have "dec_val CHR ''.'' = None" by (simp add: dec_val_def)
  then show "rest \<noteq> [] \<Longrightarrow> length fs < 3 \<Longrightarrow>
      v4_fields 0 0 fs True (digits (unat w) @ CHR ''.'' # rest) = v4_fields 0 0 (fs @ [w]) True rest"
    by (simp add: v4_digits [OF w])
  show "length fs = 3 \<Longrightarrow> v4_fields 0 0 fs True (digits (unat w)) = Some (fs @ [w])"
    using v4_digits [OF w, of fs True "[]"] by simp
qed

section \<open>Addresses\<close>

definition be_bytes :: "u32 \<Rightarrow> bytes" where
  "be_bytes w = rev (enc32 w)"

lemma be_bytes_cases:
  obtains a b c d where "be_bytes w = [a, b, c, d]"
  by (metis be_bytes_def enc32_bytes rev.simps append_Nil append_Cons)

lemma ipv4_string_bytes:
  "be_bytes w = [a, b, c, d] \<Longrightarrow> ipv4_string w =
     digits (unat a) @ ''.'' @ digits (unat b) @ ''.'' @ digits (unat c) @ ''.'' @ digits (unat d)"
  by (simp add: ipv4_string_def be_bytes_def)

lemma digits_plain: "c \<in> set (digits n) \<Longrightarrow> c \<noteq> CHR ''.'' \<and> c \<noteq> CHR '':'' \<and> c \<noteq> CHR ''%'' \<and> c \<noteq> CHR ''/''"
  using digits_all [of n] by (auto simp: list_all_iff is_digit_def)

lemma parse_v4_string: "parse_v4 (ipv4_string w) = Some (be_bytes w)"
proof -
  obtain a b c d where w: "be_bytes w = [a, b, c, d]" by (rule be_bytes_cases)
  show ?thesis
    by (simp add: w parse_v4_def ipv4_string_bytes v4_octet digits_Cons)
qed

lemma ParseAddr_string: "ParseAddr (ipv4_string w) = Some (Addr4 (be_bytes w))"
proof -
  obtain a b c d where w: "be_bytes w = [a, b, c, d]" by (rule be_bytes_cases)
  have "filter (\<lambda>c. c = CHR ''.'' \<or> c = CHR '':'' \<or> c = CHR ''%'') (digits n) = []" for n
    using digits_plain by (auto simp: filter_empty_conv)
  then have "filter (\<lambda>c. c = CHR ''.'' \<or> c = CHR '':'' \<or> c = CHR ''%'') (ipv4_string w) = ''...''"
    by (simp add: ipv4_string_bytes [OF w])
  then show ?thesis by (simp add: ParseAddr_def parse_v4_string)
qed

lemma ParseIP_string: "ParseIP (ipv4_string w) = Some (v4InV6Prefix @ be_bytes w)"
  by (simp add: ParseIP_def ParseAddr_string)

section \<open>Blocks\<close>

definition cidr_text :: "u32 \<times> nat \<Rightarrow> string" where
  "cidr_text b = ipv4_string (fst b) @ ''/'' @ digits (snd b)"

lemma ipv4_string_no_slash: "c \<in> set (ipv4_string w) \<Longrightarrow> c \<noteq> CHR ''/''"
proof -
  obtain a b c d where w: "be_bytes w = [a, b, c, d]" by (rule be_bytes_cases)
  show "c \<in> set (ipv4_string w) \<Longrightarrow> c \<noteq> CHR ''/''" for c
    using digits_plain by (auto simp: ipv4_string_bytes [OF w])
qed

lemma dtoi_digits: "p \<le> 32 \<Longrightarrow> dtoi (digits p) = Some p"
proof -
  assume p: "p \<le> 32"
  show ?thesis
  proof (cases "p < 10")
    case False
    then have "p div 10 * 10 + p mod 10 = p" by simp
    with False p show ?thesis by (simp add: dtoi_def digits_step digits_small dec_val_digit mult.commute)
  qed (simp add: dtoi_def digits_small dec_val_digit)
qed

lemma length_cidr_mask [simp]: "length (cidr_mask l p) = l"
  by (induction l p rule: cidr_mask.induct) auto

lemma length_be_bytes [simp]: "length (be_bytes w) = 4"
  by (simp add: be_bytes_def)

lemma ParseCIDR_text:
  assumes "p \<le> 32"
  shows "ParseCIDR (cidr_text (b, p)) = Some \<lparr>net_IP = and_bytes (be_bytes b) (cidr_mask 4 p), net_Mask = cidr_mask 4 p\<rparr>"
proof -
  have tail: "dropWhile (\<lambda>c. c \<noteq> CHR ''/'') (cidr_text (b, p)) = CHR ''/'' # digits p"
    using ipv4_string_no_slash [of _ b] by (simp add: cidr_text_def dropWhile_append)
  have head: "takeWhile (\<lambda>c. c \<noteq> CHR ''/'') (cidr_text (b, p)) = ipv4_string b"
    using ipv4_string_no_slash [of _ b] by (simp add: cidr_text_def takeWhile_append)
  have "ip_mask (v4InV6Prefix @ be_bytes b) (cidr_mask 4 p) = and_bytes (be_bytes b) (cidr_mask 4 p)"
    by (simp add: ip_mask_def v4InV6Prefix_def)
  then show ?thesis using assms by (simp add: ParseCIDR_def tail head ParseAddr_string dtoi_digits Let_def)
qed

lemma and_bytes_idem: "and_bytes (and_bytes xs m) m = and_bytes xs m"
  by (rule nth_equalityI) (simp_all add: and_bytes_def)

lemma length_and_bytes [simp]: "length (and_bytes xs ys) = min (length xs) (length ys)"
  by (simp add: and_bytes_def)

lemma contains_text:
  assumes "p \<le> 32"
  shows "net_contains \<lparr>net_IP = and_bytes (be_bytes b) (cidr_mask 4 p), net_Mask = cidr_mask 4 p\<rparr> (v4InV6Prefix @ be_bytes a)
     \<longleftrightarrow> and_bytes (be_bytes b) (cidr_mask 4 p) = and_bytes (be_bytes a) (cidr_mask 4 p)"
proof -
  have "To4 (v4InV6Prefix @ be_bytes a) = Some (be_bytes a)"
    by (simp add: To4_def v4InV6Prefix_def)
  then show ?thesis
    by (simp add: net_contains_def networkNumberAndMask_def To4_def and_bytes_idem)
qed

section \<open>Prefixes\<close>

lemma bit_ff: "bit (0xff :: u8) i \<longleftrightarrow> i < 8"
proof -
  have "(0xff :: u8) = - 1" by simp
  then show ?thesis by (simp only: bit_minus_1_iff) simp
qed

lemma bit_first_mask: "bit (cidr_mask (Suc l) p ! 0) j \<longleftrightarrow> j < 8 \<and> 7 - j < p"
proof (cases "8 \<le> p")
  case True
  then have "cidr_mask (Suc l) p ! 0 = 0xff" by simp
  with True show ?thesis by (simp only: bit_ff) auto
next
  case False
  then have m: "cidr_mask (Suc l) p ! 0 = NOT (drop_bit p 0xff)" by simp
  have "bit (NOT (drop_bit p 0xff) :: u8) j \<longleftrightarrow> j < 8 \<and> \<not> p + j < 8"
    by (simp only: bit_not_iff bit_drop_bit_eq o_apply bit_ff) simp
  with False show ?thesis unfolding m by auto
qed

lemma bit_cidr_mask: "k < l \<Longrightarrow> bit (cidr_mask l p ! k) j \<longleftrightarrow> j < 8 \<and> 8 * k + (7 - j) < p"
proof (induction l p arbitrary: k rule: cidr_mask.induct)
  case (2 l p)
  show ?case
  proof (cases k)
    case 0
    then show ?thesis using bit_first_mask [of l p j] by simp
  next
    case (Suc k')
    with 2 show ?thesis by (cases "8 \<le> p") auto
  qed
qed simp

lemma bit_byte:
  assumes "j < 8"
  shows "bit (word_of_nat (unat w div 2 ^ m) :: u8) j \<longleftrightarrow> bit (w :: u32) (m + j)"
proof -
  have "bit (word_of_nat n :: u8) j \<longleftrightarrow> bit n j" for n
    using assms by transfer (simp add: bit_take_bit_iff bit_of_nat_iff)
  then show ?thesis by (simp add: bit_drop_bit_eq bit_unsigned_iff flip: drop_bit_eq_div)
qed

lemma bit_be_bytes: "k < 4 \<Longrightarrow> j < 8 \<Longrightarrow> bit (be_bytes w ! k) j \<longleftrightarrow> bit w (8 * (3 - k) + j)"
proof -
  assume k: "k < 4" and j: "j < 8"
  have b: "be_bytes w = [word_of_nat (unat w div 2 ^ 24), word_of_nat (unat w div 2 ^ 16),
      word_of_nat (unat w div 2 ^ 8), word_of_nat (unat w div 2 ^ 0)]"
    by (simp add: be_bytes_def enc32_bytes div_mult2_eq [symmetric])
  consider "k = 0" | "k = 1" | "k = 2" | "k = 3" using k by linarith
  then show ?thesis
    unfolding b using bit_byte [OF j, of w 0] bit_byte [OF j, of w 8] bit_byte [OF j, of w 16] bit_byte [OF j, of w 24]
    by cases simp_all
qed

lemma byte_position:
  "q \<le> 3 \<Longrightarrow> 8 * q + r = m \<Longrightarrow> r \<le> 7 \<Longrightarrow> m < 32 \<Longrightarrow> 32 - p \<le> m \<Longrightarrow> p \<le> 32 \<Longrightarrow> 8 * (3 - q) + (7 - r) < (p :: nat)"
  by linarith

lemma and_bytes_prefix:
  assumes "p \<le> 32"
  shows "and_bytes (be_bytes b) (cidr_mask 4 p) = and_bytes (be_bytes a) (cidr_mask 4 p) \<longleftrightarrow>
    drop_bit (32 - p) a = drop_bit (32 - p) b"
proof
  assume eq: "and_bytes (be_bytes b) (cidr_mask 4 p) = and_bytes (be_bytes a) (cidr_mask 4 p)"
  show "drop_bit (32 - p) a = drop_bit (32 - p) b"
  proof (rule bit_word_eqI)
    fix n assume "n < LENGTH(32)"
    let ?m = "32 - p + n" let ?k = "3 - ?m div 8" let ?j = "?m mod 8"
    show "bit (drop_bit (32 - p) a) n = bit (drop_bit (32 - p) b) n"
    proof (cases "?m < 32")
      case True
      then have k: "?k < 4" "?j < 8" "8 * (3 - ?k) + ?j = ?m" by auto
      moreover have "8 * ?k + (7 - ?j) < p"
        using True assms by (intro byte_position [of "?m div 8" ?j ?m p]) simp_all
      ultimately have "bit (cidr_mask 4 p ! ?k) ?j" by (simp add: bit_cidr_mask)
      moreover have "(be_bytes b ! ?k) AND (cidr_mask 4 p ! ?k) = (be_bytes a ! ?k) AND (cidr_mask 4 p ! ?k)"
        using arg_cong [OF eq, of "\<lambda>xs. xs ! ?k"] k by (simp add: and_bytes_def)
      ultimately have "bit (be_bytes b ! ?k) ?j = bit (be_bytes a ! ?k) ?j" by (metis bit_and_iff)
      then have "bit a ?m = bit b ?m" by (simp only: bit_be_bytes [OF k(1,2)] k(3))
      then show ?thesis by (simp add: bit_drop_bit_eq)
    next
      case False
      then have "\<not> bit a ?m" "\<not> bit b ?m" by (auto dest: bit_imp_le_length)
      then show ?thesis by (simp add: bit_drop_bit_eq)
    qed
  qed
next
  assume eq: "drop_bit (32 - p) a = drop_bit (32 - p) b"
  have bits: "bit a m = bit b m" if "32 - p \<le> m" for m
    using arg_cong [OF eq, of "\<lambda>w. bit w (m - (32 - p))"] that by (simp add: bit_drop_bit_eq)
  show "and_bytes (be_bytes b) (cidr_mask 4 p) = and_bytes (be_bytes a) (cidr_mask 4 p)"
  proof (rule nth_equalityI)
    fix k assume "k < length (and_bytes (be_bytes b) (cidr_mask 4 p))"
    then have k: "k < 4" by simp
    have "(be_bytes b ! k) AND (cidr_mask 4 p ! k) = (be_bytes a ! k) AND (cidr_mask 4 p ! k)"
    proof (rule bit_word_eqI)
      fix j assume "j < LENGTH(8)"
      then have j: "j < 8" by simp
      have "bit (be_bytes b ! k) j = bit (be_bytes a ! k) j" if "8 * k + (7 - j) < p"
        unfolding bit_be_bytes [OF k j] by (rule bits [symmetric]) (use that j k in linarith)
      then show "bit ((be_bytes b ! k) AND (cidr_mask 4 p ! k)) j = bit ((be_bytes a ! k) AND (cidr_mask 4 p ! k)) j"
        by (auto simp: bit_and_iff bit_cidr_mask [OF k] j)
    qed
    then show "and_bytes (be_bytes b) (cidr_mask 4 p) ! k = and_bytes (be_bytes a) (cidr_mask 4 p) ! k"
      using k by (simp add: and_bytes_def)
  qed simp
qed

lemma block_text:
  "p \<le> 32 \<Longrightarrow> (case ParseCIDR (cidr_text (b, p)) of None \<Rightarrow> False | Some n \<Rightarrow> net_contains n (v4InV6Prefix @ be_bytes a))
     \<longleftrightarrow> drop_bit (32 - p) a = drop_bit (32 - p) b"
  by (simp add: ParseCIDR_text contains_text and_bytes_prefix)

text \<open>
  an address block over IPv4.  The evaluator's \<^verbatim>\<open>ipBlockMatches\<close>, given the address as the
  controller prints it, a block \<^verbatim>\<open>b/p\<close> and exceptions \<^verbatim>\<open>c/q\<close>, answers true exactly when the address
  agrees with the block in its first \<open>p\<close> bits and with no exception in its first \<open>q\<close> bits.
\<close>

theorem ip_block_prefix:
  assumes p: "p \<le> 32" and ex: "list_all (\<lambda>(c, q). q \<le> 32) excepts"
  shows "ipBlockMatches (ipv4_string a) \<lparr>CIDR = cidr_text (b, p), Except = map cidr_text excepts\<rparr> \<longleftrightarrow>
    drop_bit (32 - p) a = drop_bit (32 - p) b \<and>
    \<not> list_ex (\<lambda>(c, q). drop_bit (32 - q) a = drop_bit (32 - q) c) excepts"
proof -
  have "list_ex (\<lambda>text. case ParseCIDR text of None \<Rightarrow> False | Some n \<Rightarrow> net_contains n (v4InV6Prefix @ be_bytes a))
      (map cidr_text excepts) = list_ex (\<lambda>(c, q). drop_bit (32 - q) a = drop_bit (32 - q) c) excepts"
    using ex by (induction excepts) (auto simp: block_text)
  then show ?thesis
    by (simp add: ipBlockMatches_covers block_covers_def ParseIP_string block_text [OF p] Let_def)
qed

theorem ip_block_prefix_witness:
  "ipBlockMatches (ipv4_string 0x0A010203) \<lparr>CIDR = cidr_text (0x0A000000, 8), Except = map cidr_text [(0x0A020000, 16)]\<rparr>
   \<and> \<not> ipBlockMatches (ipv4_string 0x0A020203) \<lparr>CIDR = cidr_text (0x0A000000, 8), Except = map cidr_text [(0x0A020000, 16)]\<rparr>"
  using ip_block_prefix [of 8 "[(0x0A020000, 16)]" "0x0A010203" "0x0A000000"]
    ip_block_prefix [of 8 "[(0x0A020000, 16)]" "0x0A020203" "0x0A000000"]
  by (simp add: drop_bit_eq_div word_eq_iff_unsigned)

end
