(* ===== verification/Policy_Store.thy ===== *)
theory Policy_Store
  imports Policy_Spec
begin

text \<open>
  The policy cache of the evaluator, from \<^verbatim>\<open>src/evaluator/pkg/store/store.go\<close>: the watch handlers
  of the two policy kinds and the reads the matcher and the server make.  The informers of
  \<^verbatim>\<open>client-go\<close> are read through \<^verbatim>\<open>GetByKey\<close>, the contents of which are part of the state; the
  unstructured objects are a type parameter, with their accessors and the conversions to the
  typed policies as parameters.
\<close>

section \<open>The state\<close>

text \<open>What \<^verbatim>\<open>GetByKey\<close> answers: an error, nothing, an object of the expected type, or another one.\<close>

datatype 'a answer = Failed | Absent | Object 'a | OtherObject

record 's Store =
  podInformer :: "string \<Rightarrow> Pod answer"
  nsInformer :: "string \<Rightarrow> labels option answer"
  policiesByNamespace :: "string \<rightharpoonup> 's AuditNetworkPolicy list"
  clusterPolicies :: "'s AuditClusterNetworkPolicy list"

definition store_New :: "(string \<Rightarrow> Pod answer) \<Rightarrow> (string \<Rightarrow> labels option answer) \<Rightarrow> 's Store" where
  "store_New pods namespaces = \<lparr>podInformer = pods, nsInformer = namespaces,
     policiesByNamespace = Map.empty, clusterPolicies = []\<rparr>"

section \<open>Watch handlers\<close>

text \<open>The argument of a handler; a tombstone may wrap an unstructured object.\<close>

datatype 'u watched = Unstructured 'u | DeletedFinalStateUnknown "'u option" | OtherType

fun unwrapTombstone :: "'u watched \<Rightarrow> 'u option" where
  "unwrapTombstone (Unstructured u) = Some u"
| "unwrapTombstone (DeletedFinalStateUnknown u) = u"
| "unwrapTombstone OtherType = None"

definition list_at :: "('k \<rightharpoonup> 'a list) \<Rightarrow> 'k \<Rightarrow> 'a list" where
  "list_at m k = (case m k of None \<Rightarrow> [] | Some l \<Rightarrow> l)"

fun without :: "('a \<Rightarrow> string) \<Rightarrow> string \<Rightarrow> 'a list \<Rightarrow> 'a list" where
  "without name_of name [] = []"
| "without name_of name (p # ps) =
     (if name_of p = name then without name_of name ps else p # without name_of name ps)"

definition onPolicyAddOrUpdate :: "('u \<Rightarrow> 's AuditNetworkPolicy option) \<Rightarrow> 'u watched \<Rightarrow> 's Store \<Rightarrow> 's Store" where
  "onPolicyAddOrUpdate unstructuredToPolicy obj s = (case obj of
     Unstructured u \<Rightarrow>
       (case unstructuredToPolicy u of
          None \<Rightarrow> s
        | Some policy \<Rightarrow>
            let list = list_at (policiesByNamespace s) (np_Namespace policy);
                updated = without np_Name (np_Name policy) list @ [policy]
            in s\<lparr>policiesByNamespace := (policiesByNamespace s)(np_Namespace policy \<mapsto> updated)\<rparr>)
   | _ \<Rightarrow> s)"

definition onPolicyDelete :: "('u \<Rightarrow> string) \<Rightarrow> ('u \<Rightarrow> string) \<Rightarrow> 'u watched \<Rightarrow> 's Store \<Rightarrow> 's Store" where
  "onPolicyDelete get_namespace get_name obj s = (case unwrapTombstone obj of
     None \<Rightarrow> s
   | Some u \<Rightarrow>
       let ns = get_namespace u;
           out = without np_Name (get_name u) (list_at (policiesByNamespace s) ns)
       in s\<lparr>policiesByNamespace := (if out = [] then (policiesByNamespace s)(ns := None)
              else (policiesByNamespace s)(ns \<mapsto> out))\<rparr>)"

definition onClusterPolicyAddOrUpdate :: "('u \<Rightarrow> 's AuditClusterNetworkPolicy option) \<Rightarrow> 'u watched
    \<Rightarrow> 's Store \<Rightarrow> 's Store" where
  "onClusterPolicyAddOrUpdate unstructuredToClusterPolicy obj s = (case obj of
     Unstructured u \<Rightarrow>
       (case unstructuredToClusterPolicy u of
          None \<Rightarrow> s
        | Some policy \<Rightarrow>
            s\<lparr>clusterPolicies := without cnp_Name (cnp_Name policy) (clusterPolicies s) @ [policy]\<rparr>)
   | _ \<Rightarrow> s)"

definition onClusterPolicyDelete :: "('u \<Rightarrow> string) \<Rightarrow> 'u watched \<Rightarrow> 's Store \<Rightarrow> 's Store" where
  "onClusterPolicyDelete get_name obj s = (case unwrapTombstone obj of
     None \<Rightarrow> s
   | Some u \<Rightarrow> s\<lparr>clusterPolicies := without cnp_Name (get_name u) (clusterPolicies s)\<rparr>)"

section \<open>Reads\<close>

definition PoliciesInNamespace :: "'s Store \<Rightarrow> string \<Rightarrow> 's AuditNetworkPolicy list" where
  "PoliciesInNamespace s ns = list_at (policiesByNamespace s) ns"

definition ClusterPolicies :: "'s Store \<Rightarrow> 's AuditClusterNetworkPolicy list" where
  "ClusterPolicies s = clusterPolicies s"

definition store_GetPod :: "'s Store \<Rightarrow> string \<Rightarrow> string \<Rightarrow> Pod option" where
  "store_GetPod s namespace name =
     (if namespace = [] \<or> name = [] then None
      else case podInformer s (namespace @ ''/'' @ name) of Object pod \<Rightarrow> Some pod | _ \<Rightarrow> None)"

definition store_GetNamespaceLabels :: "'s Store \<Rightarrow> string \<Rightarrow> labels option" where
  "store_GetNamespaceLabels s name =
     (if name = [] then None
      else case nsInformer s name of
        Object ns_labels \<Rightarrow> (case ns_labels of None \<Rightarrow> Some Map.empty | Some l \<Rightarrow> Some l)
      | _ \<Rightarrow> None)"

definition store_Lookup :: "'s Store \<Rightarrow> Lookup" where
  "store_Lookup s = \<lparr>GetPod = store_GetPod s, GetNamespaceLabels = store_GetNamespaceLabels s\<rparr>"

section \<open>A history of watch events\<close>

text \<open>The handlers in the order the informers call them; the informers of pods and namespaces
  change on their own.\<close>

datatype ('u) store_event =
    PolicySet "'u watched"
  | PolicyDeleted "'u watched"
  | ClusterPolicySet "'u watched"
  | ClusterPolicyDeleted "'u watched"
  | PodsChanged "string \<Rightarrow> Pod answer"
  | NamespacesChanged "string \<Rightarrow> labels option answer"

record ('u, 's) accessors =
  acc_namespace :: "'u \<Rightarrow> string"
  acc_name :: "'u \<Rightarrow> string"
  acc_policy :: "'u \<Rightarrow> 's AuditNetworkPolicy option"
  acc_cluster :: "'u \<Rightarrow> 's AuditClusterNetworkPolicy option"

fun store_step :: "('u, 's) accessors \<Rightarrow> 'u store_event \<Rightarrow> 's Store \<Rightarrow> 's Store" where
  "store_step a (PolicySet obj) s = onPolicyAddOrUpdate (acc_policy a) obj s"
| "store_step a (PolicyDeleted obj) s = onPolicyDelete (acc_namespace a) (acc_name a) obj s"
| "store_step a (ClusterPolicySet obj) s = onClusterPolicyAddOrUpdate (acc_cluster a) obj s"
| "store_step a (ClusterPolicyDeleted obj) s = onClusterPolicyDelete (acc_name a) obj s"
| "store_step a (PodsChanged pods) s = s\<lparr>podInformer := pods\<rparr>"
| "store_step a (NamespacesChanged nss) s = s\<lparr>nsInformer := nss\<rparr>"

fun store_run :: "('u, 's) accessors \<Rightarrow> 'u store_event list \<Rightarrow> 's Store \<Rightarrow> 's Store" where
  "store_run a [] s = s"
| "store_run a (e # es) s = store_run a es (store_step a e s)"

section \<open>The abstract store\<close>

text \<open>What the API server holds, as far as the events tell: policies by namespace and name.  A deletion counts
  whether it comes with the object or as a tombstone around the object last seen.\<close>

record 's cluster_view =
  cv_policies :: "string \<times> string \<rightharpoonup> 's AuditNetworkPolicy"
  cv_cluster :: "string \<rightharpoonup> 's AuditClusterNetworkPolicy"

definition no_policies :: "'s cluster_view" where
  "no_policies = \<lparr>cv_policies = Map.empty, cv_cluster = Map.empty\<rparr>"

fun view_step :: "('u, 's) accessors \<Rightarrow> 'u store_event \<Rightarrow> 's cluster_view \<Rightarrow> 's cluster_view" where
  "view_step a (PolicySet obj) v = (case obj of
     Unstructured u \<Rightarrow> (case acc_policy a u of
         None \<Rightarrow> v
       | Some p \<Rightarrow> v\<lparr>cv_policies := (cv_policies v)((np_Namespace p, np_Name p) \<mapsto> p)\<rparr>)
   | _ \<Rightarrow> v)"
| "view_step a (PolicyDeleted obj) v = (case obj of
     Unstructured u \<Rightarrow> v\<lparr>cv_policies := (cv_policies v)((acc_namespace a u, acc_name a u) := None)\<rparr>
   | DeletedFinalStateUnknown (Some u) \<Rightarrow> v\<lparr>cv_policies := (cv_policies v)((acc_namespace a u, acc_name a u) := None)\<rparr>
   | _ \<Rightarrow> v)"
| "view_step a (ClusterPolicySet obj) v = (case obj of
     Unstructured u \<Rightarrow> (case acc_cluster a u of
         None \<Rightarrow> v
       | Some p \<Rightarrow> v\<lparr>cv_cluster := (cv_cluster v)(cnp_Name p \<mapsto> p)\<rparr>)
   | _ \<Rightarrow> v)"
| "view_step a (ClusterPolicyDeleted obj) v = (case obj of
     Unstructured u \<Rightarrow> v\<lparr>cv_cluster := (cv_cluster v)(acc_name a u := None)\<rparr>
   | DeletedFinalStateUnknown (Some u) \<Rightarrow> v\<lparr>cv_cluster := (cv_cluster v)(acc_name a u := None)\<rparr>
   | _ \<Rightarrow> v)"
| "view_step a (PodsChanged pods) v = v"
| "view_step a (NamespacesChanged nss) v = v"

fun view_run :: "('u, 's) accessors \<Rightarrow> 'u store_event list \<Rightarrow> 's cluster_view \<Rightarrow> 's cluster_view" where
  "view_run a [] v = v"
| "view_run a (e # es) v = view_run a es (view_step a e v)"

text \<open>What an event says of a policy, under its key: that it is now this one, or that it is gone.\<close>

fun policy_word :: "('u, 's) accessors \<Rightarrow> 'u store_event \<Rightarrow> ((string \<times> string) \<times> 's AuditNetworkPolicy option) option" where
  "policy_word a (PolicySet (Unstructured u)) = map_option (\<lambda>p. ((np_Namespace p, np_Name p), Some p)) (acc_policy a u)"
| "policy_word a (PolicyDeleted (Unstructured u)) = Some ((acc_namespace a u, acc_name a u), None)"
| "policy_word a (PolicyDeleted (DeletedFinalStateUnknown (Some u))) = Some ((acc_namespace a u, acc_name a u), None)"
| "policy_word a _ = None"

fun cluster_word :: "('u, 's) accessors \<Rightarrow> 'u store_event \<Rightarrow> (string \<times> 's AuditClusterNetworkPolicy option) option" where
  "cluster_word a (ClusterPolicySet (Unstructured u)) = map_option (\<lambda>p. (cnp_Name p, Some p)) (acc_cluster a u)"
| "cluster_word a (ClusterPolicyDeleted (Unstructured u)) = Some (acc_name a u, None)"
| "cluster_word a (ClusterPolicyDeleted (DeletedFinalStateUnknown (Some u))) = Some (acc_name a u, None)"
| "cluster_word a _ = None"

text \<open>The last that was said under a key.\<close>

definition last_word :: "('e \<Rightarrow> ('k \<times> 'p) option) \<Rightarrow> 'k \<Rightarrow> 'e list \<Rightarrow> 'p option" where
  "last_word word k es = map_of (rev (List.map_filter word es)) k"

definition by_name :: "('a \<Rightarrow> string) \<Rightarrow> 'a list \<Rightarrow> string \<rightharpoonup> 'a" where
  "by_name name_of ps name = find (\<lambda>p. name_of p = name) ps"

definition store_view :: "'s Store \<Rightarrow> 's cluster_view" where
  "store_view s = \<lparr>cv_policies = (\<lambda>(ns, name). by_name np_Name (PoliciesInNamespace s ns) name),
     cv_cluster = by_name cnp_Name (ClusterPolicies s)\<rparr>"

text \<open>Names are distinct, and a policy is filed under its namespace.\<close>

definition store_ok :: "'s Store \<Rightarrow> bool" where
  "store_ok s \<longleftrightarrow>
     (\<forall>ns. distinct (map np_Name (PoliciesInNamespace s ns)) \<and>
        list_all (\<lambda>p. np_Namespace p = ns) (PoliciesInNamespace s ns)) \<and>
     distinct (map cnp_Name (ClusterPolicies s))"

section \<open>The refinement\<close>

lemma without_filter: "without f n ps = filter (\<lambda>p. f p \<noteq> n) ps"
  by (induction ps) auto

lemma by_name_append: "by_name f (xs @ ys) n = (case by_name f xs n of None \<Rightarrow> by_name f ys n | Some p \<Rightarrow> Some p)"
  by (induction xs) (auto simp: by_name_def)

lemma by_name_Nil [simp]: "by_name f [] = Map.empty"
  by (simp add: by_name_def fun_eq_iff)

lemma by_name_without: "by_name f (without f n ps) = (by_name f ps)(n := None)"
  by (induction ps) (auto simp: by_name_def fun_eq_iff)

lemma by_name_emptied: "without f n ps = [] \<Longrightarrow> n' \<noteq> n \<Longrightarrow> by_name f ps n' = None"
  using by_name_without [of f n ps] by (metis by_name_Nil fun_upd_other)

lemma by_name_replace: "by_name f (without f (f p) ps @ [p]) = (by_name f ps)(f p \<mapsto> p)"
  by (auto simp: fun_eq_iff by_name_append by_name_without) (auto simp: by_name_def split: option.split)

lemma distinct_without: "distinct (map f ps) \<Longrightarrow> distinct (map f (without f n ps))"
  by (simp add: without_filter distinct_map_filter)

lemma distinct_replace: "distinct (map f ps) \<Longrightarrow> distinct (map f (without f (f p) ps @ [p]))"
  by (auto simp: without_filter distinct_map_filter)

lemma list_at_upd [simp]: "list_at (m(k \<mapsto> l)) k' = (if k' = k then l else list_at m k')"
  "list_at (m(k := None)) k' = (if k' = k then [] else list_at m k')"
  by (auto simp: list_at_def)

lemma by_name_some: "by_name f ps n = Some p \<longleftrightarrow> n = f p \<and> p \<in> set ps" if "distinct (map f ps)"
  using that by (induction ps) (auto simp: by_name_def)

lemma store_ok_New: "store_ok (store_New pods nss)"
  by (simp add: store_ok_def PoliciesInNamespace_def ClusterPolicies_def store_New_def list_at_def)

lemma store_ok_step: "store_ok s \<Longrightarrow> store_ok (store_step a e s)"
  by (cases e)
    (auto simp: store_ok_def PoliciesInNamespace_def ClusterPolicies_def onPolicyAddOrUpdate_def onPolicyDelete_def
      onClusterPolicyAddOrUpdate_def onClusterPolicyDelete_def Let_def without_filter list_all_iff distinct_map_filter
      split: watched.split option.split)

lemma store_view_step: "store_view (store_step a e s) = view_step a e (store_view s)"
  by (cases e)
    (auto simp: store_view_def PoliciesInNamespace_def ClusterPolicies_def onPolicyAddOrUpdate_def onPolicyDelete_def
      onClusterPolicyAddOrUpdate_def onClusterPolicyDelete_def Let_def by_name_replace by_name_without by_name_emptied fun_eq_iff
      split: watched.split option.split)

lemma store_run_refines:
  "store_ok s \<Longrightarrow> store_ok (store_run a es s) \<and> store_view (store_run a es s) = view_run a es (store_view s)"
  by (induction es arbitrary: s) (simp_all add: store_ok_step store_view_step)

lemma last_word_Nil [simp]: "last_word word k [] = None"
  by (simp add: last_word_def List.map_filter_def)

lemma last_word_snoc: "last_word word k (es @ [e]) =
    (case word e of None \<Rightarrow> last_word word k es | Some (k', w) \<Rightarrow> if k' = k then Some w else last_word word k es)"
  by (auto simp: last_word_def List.map_filter_def split: option.split)

lemma view_run_snoc: "view_run a (es @ [e]) v = view_step a e (view_run a es v)"
  by (induction es arbitrary: v) simp_all

lemma view_step_words:
  "cv_policies (view_step a e v) k = (case policy_word a e of
     None \<Rightarrow> cv_policies v k | Some (k', w) \<Rightarrow> if k' = k then w else cv_policies v k)"
  "cv_cluster (view_step a e v) n = (case cluster_word a e of
     None \<Rightarrow> cv_cluster v n | Some (n', w) \<Rightarrow> if n' = n then w else cv_cluster v n)"
  by (cases e; auto split: watched.split option.split)+

lemma view_last_word:
  "cv_policies (view_run a es no_policies) k = Option.bind (last_word (policy_word a) k es) id"
  "cv_cluster (view_run a es no_policies) n = Option.bind (last_word (cluster_word a) n es) id"
  by (induction es rule: rev_induct)
    (auto simp: no_policies_def view_run_snoc view_step_words last_word_snoc split: option.split)

section \<open>The contract of the pod informer\<close>

text \<open>\<^verbatim>\<open>client-go\<close> keys a namespaced object by its namespace and its name, with a slash between, and
  neither contains a slash.\<close>

definition pod_key :: "Pod \<Rightarrow> string" where
  "pod_key p = pod_Namespace p @ ''/'' @ pod_Name p"

definition slash_free :: "Pod \<Rightarrow> bool" where
  "slash_free p \<longleftrightarrow> CHR ''/'' \<notin> set (pod_Namespace p) \<and> CHR ''/'' \<notin> set (pod_Name p)"

locale keyed_informer =
  fixes s :: "'s Store"
  assumes keyed: "podInformer s k = Object p \<Longrightarrow> k = pod_key p \<and> slash_free p"
begin

lemma GetPod_names: "store_GetPod s ns name = Some p \<Longrightarrow> pod_Namespace p = ns \<and> pod_Name p = name \<and> ns \<noteq> [] \<and> name \<noteq> []"
proof -
  assume get: "store_GetPod s ns name = Some p"
  then have obj: "podInformer s (ns @ ''/'' @ name) = Object p" and ne: "ns \<noteq> [] \<and> name \<noteq> []"
    by (auto simp: store_GetPod_def split: if_splits answer.splits)
  from keyed [OF obj] have "pod_Namespace p @ CHR ''/'' # pod_Name p = ns @ CHR ''/'' # name"
    and "CHR ''/'' \<notin> set (pod_Namespace p)" "CHR ''/'' \<notin> set (pod_Name p)"
    by (simp_all add: pod_key_def slash_free_def)
  then have "pod_Namespace p = ns \<and> pod_Name p = name" by (simp add: append_Cons_eq_iff)
  with ne show ?thesis by simp
qed

end

sublocale keyed_informer \<subseteq> found: pod_lookup "store_Lookup s"
  by unfold_locales (simp add: store_Lookup_def GetPod_names)

text \<open>An informer that holds a list of pods.\<close>

definition holding :: "Pod list \<Rightarrow> string \<Rightarrow> Pod answer" where
  "holding pods k = (case find (\<lambda>p. slash_free p \<and> pod_key p = k) pods of None \<Rightarrow> Absent | Some p \<Rightarrow> Object p)"

lemma holding_keyed: "holding pods k = Object p \<Longrightarrow> k = pod_key p \<and> slash_free p"
  by (auto simp: holding_def find_Some_iff split: option.splits)

interpretation synced: keyed_informer "s\<lparr>podInformer := holding pods\<rparr>" for s pods
  by unfold_locales (simp add: holding_keyed)

end
