(* ===== verification/Policy_Status.thy ===== *)
theory Policy_Status
  imports Policy_Matcher "HOL-Library.List_Lexorder" "HOL-Library.Char_ord" "HOL-Library.Product_Lexorder"
    "HOL-Library.Multiset"
begin

text \<open>
  The status aggregator of the evaluator, from \<^verbatim>\<open>src/evaluator/pkg/status/aggregator.go\<close>: the
  counters per policy, the ranking of the offenders, and the flush, which patches the status of
  one policy after the other.  A Go map is walked in an order of the run time's choice; the order
  is an argument of the definitions that walk one.
\<close>

section \<open>Counters\<close>

record policyKey =
  key_namespace :: string
  key_name :: string

record tupleKey =
  tup_srcPod :: string
  tup_dstPod :: string
  tup_protocol :: string
  tup_direction :: string
  tup_dstPort :: i32

record policyAgg =
  flowsEvaluated :: i64
  flowsWouldDeny :: i64
  lastEvaluated :: nat
  observedGeneration :: i64
  tuples :: "tupleKey \<rightharpoonup> i64"

type_synonym counts = "policyKey \<rightharpoonup> policyAgg"

definition new_agg :: policyAgg where
  "new_agg = \<lparr>flowsEvaluated = 0, flowsWouldDeny = 0, lastEvaluated = 0, observedGeneration = 0, tuples = Map.empty\<rparr>"

text \<open>The arguments of one call of \<^verbatim>\<open>Record\<close>, and the time it reads.\<close>

record recording =
  rec_key :: policyKey
  rec_tuple :: tupleKey
  rec_wouldDeny :: bool
  rec_generation :: i64
  rec_now :: nat

definition count_up :: "tupleKey \<Rightarrow> (tupleKey \<rightharpoonup> i64) \<Rightarrow> (tupleKey \<rightharpoonup> i64)" where
  "count_up tk m = m(tk \<mapsto> (case m tk of None \<Rightarrow> 0 | Some n \<Rightarrow> n) + 1)"

definition record_agg :: "recording \<Rightarrow> policyAgg \<Rightarrow> policyAgg" where
  "record_agg r agg0 =
     (let agg1 = agg0\<lparr>flowsEvaluated := flowsEvaluated agg0 + 1, lastEvaluated := rec_now r\<rparr>;
          agg2 = (if sint (rec_generation r) > sint (observedGeneration agg1)
                  then agg1\<lparr>observedGeneration := rec_generation r\<rparr> else agg1)
      in if \<not> rec_wouldDeny r then agg2
         else agg2\<lparr>flowsWouldDeny := flowsWouldDeny agg2 + 1, tuples := count_up (rec_tuple r) (tuples agg2)\<rparr>)"

definition Record :: "recording \<Rightarrow> counts \<Rightarrow> counts" where
  "Record r counts =
     (let agg = (case counts (rec_key r) of None \<Rightarrow> new_agg | Some a \<Rightarrow> a)
      in counts(rec_key r \<mapsto> record_agg r agg))"

section \<open>Ranking\<close>

datatype ranked = Ranked (rk: tupleKey) (rc: i64)

text \<open>The comparison of \<^verbatim>\<open>topOffenders\<close>.\<close>

definition ranked_less :: "ranked \<Rightarrow> ranked \<Rightarrow> bool" where
  "ranked_less a b =
     (if rc a \<noteq> rc b then sint (rc a) > sint (rc b)
      else if tup_srcPod (rk a) \<noteq> tup_srcPod (rk b) then tup_srcPod (rk a) < tup_srcPod (rk b)
      else if tup_dstPod (rk a) \<noteq> tup_dstPod (rk b) then tup_dstPod (rk a) < tup_dstPod (rk b)
      else if tup_dstPort (rk a) \<noteq> tup_dstPort (rk b) then sint (tup_dstPort (rk a)) < sint (tup_dstPort (rk b))
      else if tup_protocol (rk a) \<noteq> tup_protocol (rk b) then tup_protocol (rk a) < tup_protocol (rk b)
      else tup_direction (rk a) < tup_direction (rk b))"

definition rank :: "ranked \<Rightarrow> int \<times> string \<times> string \<times> int \<times> string \<times> string" where
  "rank a = (- sint (rc a), tup_srcPod (rk a), tup_dstPod (rk a), sint (tup_dstPort (rk a)),
     tup_protocol (rk a), tup_direction (rk a))"

lemma sint_inj [simp]: "sint (a :: 'a::len word) = sint b \<longleftrightarrow> a = b"
  using word_eq_iff_signed by blast

lemma lex_if: "(a, x) < (b, y) \<longleftrightarrow> (if a \<noteq> b then a < b else x < y)" for a b :: "'a::order"
  by (auto simp: less_le)

lemma ranked_less_rank: "ranked_less a b \<longleftrightarrow> rank a < rank b"
  by (simp add: ranked_less_def rank_def lex_if del: less_prod_simp)

lemma rank_inj [simp]: "rank a = rank b \<longleftrightarrow> a = b"
  by (cases a; cases b) (auto simp: rank_def intro!: tupleKey.equality)

instantiation ranked :: linorder
begin

definition less_ranked :: "ranked \<Rightarrow> ranked \<Rightarrow> bool" where
  "less_ranked a b = ranked_less a b"

definition less_eq_ranked :: "ranked \<Rightarrow> ranked \<Rightarrow> bool" where
  "less_eq_ranked a b \<longleftrightarrow> ranked_less a b \<or> a = b"

instance
proof
  fix a b c :: ranked
  show "a < b \<longleftrightarrow> a \<le> b \<and> \<not> b \<le> a"
    by (auto simp: less_ranked_def less_eq_ranked_def ranked_less_rank)
  show "a \<le> a" by (simp add: less_eq_ranked_def)
  show "a \<le> b \<Longrightarrow> b \<le> c \<Longrightarrow> a \<le> c" by (auto simp: less_eq_ranked_def ranked_less_rank)
  show "a \<le> b \<Longrightarrow> b \<le> a \<Longrightarrow> a = b" by (auto simp: less_eq_ranked_def ranked_less_rank)
  show "a \<le> b \<or> b \<le> a" by (auto simp: less_eq_ranked_def ranked_less_rank simp flip: rank_inj)
qed

end

text \<open>\<^verbatim>\<open>topOffenders\<close>; \<open>order\<close> is the order in which the map \<open>m\<close> is walked.\<close>

definition topOffenders :: "tupleKey list \<Rightarrow> (tupleKey \<rightharpoonup> i64) \<Rightarrow> int \<Rightarrow> ranked list" where
  "topOffenders order m n =
     (if n \<le> 0 \<or> order = [] then []
      else
        let all = sort (map (\<lambda>k. Ranked k (case m k of None \<Rightarrow> 0 | Some c \<Rightarrow> c)) order)
        in if int (length all) > n then take (nat n) all else all)"

section \<open>The flush\<close>

text \<open>The fields of the status that a patch may carry; \<^verbatim>\<open>omitempty\<close> leaves a zero or empty one out.\<close>

record status_doc =
  st_observedGeneration :: "i64 option"
  st_lastEvaluated :: "nat option"
  st_flowsEvaluated :: "i64 option"
  st_flowsWouldDeny :: "i64 option"
  st_topOffenders :: "ranked list option"

definition no_status :: status_doc where
  "no_status = \<lparr>st_observedGeneration = None, st_lastEvaluated = None, st_flowsEvaluated = None,
     st_flowsWouldDeny = None, st_topOffenders = None\<rparr>"

definition omitempty :: "'a \<Rightarrow> 'a \<Rightarrow> 'a option" where
  "omitempty zero x = (if x = zero then None else Some x)"

definition status_patch :: "int \<Rightarrow> tupleKey list \<Rightarrow> policyAgg \<Rightarrow> status_doc" where
  "status_patch topN order agg = \<lparr>st_observedGeneration = omitempty 0 (observedGeneration agg),
     st_lastEvaluated = Some (lastEvaluated agg),
     st_flowsEvaluated = omitempty 0 (flowsEvaluated agg),
     st_flowsWouldDeny = omitempty 0 (flowsWouldDeny agg),
     st_topOffenders = omitempty [] (topOffenders order (tuples agg) topN)\<rparr>"

text \<open>The aggregator with a flush under way: the policies of the snapshot still to be patched.  The
  statuses are those of the API server.\<close>

record aggregator =
  ag_counts :: counts
  ag_topN :: int
  ag_pending :: "(policyKey \<times> policyAgg) list"
  ag_status :: "policyKey \<rightharpoonup> status_doc"

definition agg_New :: "(policyKey \<rightharpoonup> status_doc) \<Rightarrow> aggregator" where
  "agg_New statuses = \<lparr>ag_counts = Map.empty, ag_topN = 25, ag_pending = [], ag_status = statuses\<rparr>"

text \<open>The snapshot, in the order of namespace and name.\<close>

definition flush_start :: "policyKey list \<Rightarrow> aggregator \<Rightarrow> aggregator" where
  "flush_start order g =
     (let keys = sort_key (\<lambda>k. (key_namespace k, key_name k)) order
      in g\<lparr>ag_pending := List.map_filter (\<lambda>k. map_option (\<lambda>a. (k, a)) (ag_counts g k)) keys\<rparr>)"

datatype patch_answer = Patched | NotFound | Cancelled | PatchFailed

text \<open>One turn of the loop of \<^verbatim>\<open>flush\<close>: \<open>merge\<close> is what the API server makes of a merge patch.\<close>

definition flush_turn :: "(status_doc \<Rightarrow> status_doc \<Rightarrow> status_doc) \<Rightarrow> bool \<Rightarrow> patch_answer \<Rightarrow> tupleKey list
    \<Rightarrow> aggregator \<Rightarrow> aggregator" where
  "flush_turn merge ctx_done answer order g = (case ag_pending g of
     [] \<Rightarrow> g
   | (key, agg) # rest \<Rightarrow>
       if ctx_done then g\<lparr>ag_pending := []\<rparr>
       else (case answer of
          Patched \<Rightarrow>
            (let old = (case ag_status g key of None \<Rightarrow> no_status | Some st \<Rightarrow> st)
             in g\<lparr>ag_pending := rest, ag_status := (ag_status g)(key \<mapsto> merge old (status_patch (ag_topN g) order agg))\<rparr>)
        | NotFound \<Rightarrow> g\<lparr>ag_pending := rest, ag_counts := (ag_counts g)(key := None)\<rparr>
        | Cancelled \<Rightarrow> g\<lparr>ag_pending := []\<rparr>
        | PatchFailed \<Rightarrow> g\<lparr>ag_pending := rest\<rparr>))"

text \<open>The steps of the program: calls of \<^verbatim>\<open>Record\<close> may come between any two turns of a flush, and
  the pod may restart.  A flush walks the map of counters, a turn the offenders of one policy, in an order
  of the run time's choice.\<close>

datatype agg_event =
    Recorded recording
  | FlushStarted "policyKey list"
  | FlushTurn bool patch_answer "tupleKey list"
  | Restarted

fun agg_do :: "(status_doc \<Rightarrow> status_doc \<Rightarrow> status_doc) \<Rightarrow> agg_event \<Rightarrow> aggregator \<Rightarrow> aggregator" where
  "agg_do merge (Recorded r) g = g\<lparr>ag_counts := Record r (ag_counts g)\<rparr>"
| "agg_do merge (FlushStarted order) g = flush_start order g"
| "agg_do merge (FlushTurn ctx_done answer order) g = flush_turn merge ctx_done answer order g"
| "agg_do merge Restarted g = agg_New (ag_status g)"

fun agg_allowed :: "agg_event \<Rightarrow> aggregator \<Rightarrow> bool" where
  "agg_allowed (FlushStarted order) g \<longleftrightarrow> ag_pending g = [] \<and> distinct order \<and> set order = dom (ag_counts g)"
| "agg_allowed (FlushTurn ctx_done answer order) g \<longleftrightarrow> (case ag_pending g of
     [] \<Rightarrow> False
   | (key, agg) # rest \<Rightarrow> distinct order \<and> set order = dom (tuples agg))"
| "agg_allowed e g \<longleftrightarrow> True"

inductive agg_run :: "(status_doc \<Rightarrow> status_doc \<Rightarrow> status_doc) \<Rightarrow> agg_event list \<Rightarrow> aggregator \<Rightarrow> bool"
  for merge where
  run_new: "agg_run merge [] (agg_New Map.empty)"
| run_event: "agg_run merge es g \<Longrightarrow> agg_allowed e g \<Longrightarrow> agg_run merge (es @ [e]) (agg_do merge e g)"

end
