(* ===== verification/Policy_Server.thy ===== *)
theory Policy_Server
  imports Policy_Store Policy_Status
begin

text \<open>
  The HTTP handler of the evaluator, \<^verbatim>\<open>handleEvaluate\<close> of
  \<^verbatim>\<open>src/evaluator/pkg/server/server.go\<close>: a flow is matched against the policies of the two
  namespaces and the cluster policies, and the verdicts are recorded.  JSON decoding is the
  parameter \<open>decode\<close>.  The other routes of the server are probes.
\<close>

record request =
  req_Method :: string
  req_Body :: bytes

datatype response = HttpError nat | Results "Result list"

record server =
  sv_agg :: "counts option"
  sv_denied :: i64

definition StatusMethodNotAllowed :: nat where
  "StatusMethodNotAllowed = 405"

definition StatusBadRequest :: nat where
  "StatusBadRequest = 400"

definition evaluate_flow :: "('s \<Rightarrow> (labels \<Rightarrow> bool) option) \<Rightarrow> 's Store \<Rightarrow> Flow \<Rightarrow> Result list" where
  "evaluate_flow as_selector store flow =
     (let policies = PoliciesInNamespace store (DstPodNamespace flow) @
            (if SrcPodNamespace flow \<noteq> [] \<and> SrcPodNamespace flow \<noteq> DstPodNamespace flow
             then PoliciesInNamespace store (SrcPodNamespace flow) else [])
      in concat (map (\<lambda>p. Match as_selector flow p (store_Lookup store)) policies) @
         concat (map (\<lambda>cp. MatchCluster as_selector flow cp (store_Lookup store)) (ClusterPolicies store)))"

definition result_recording :: "nat \<Rightarrow> Flow \<Rightarrow> Result \<Rightarrow> recording" where
  "result_recording now flow r =
     \<lparr>rec_key = \<lparr>key_namespace = PolicyNamespace r, key_name = PolicyName r\<rparr>,
      rec_tuple = \<lparr>tup_srcPod = SrcPodNamespace flow @ ''/'' @ SrcPodName flow,
        tup_dstPod = DstPodNamespace flow @ ''/'' @ DstPodName flow,
        tup_protocol = flow_Protocol flow, tup_direction = res_Direction r, tup_dstPort = DstPort flow\<rparr>,
      rec_wouldDeny = (res_Verdict r = VerdictWouldDeny),
      rec_generation = PolicyGeneration r, rec_now = now\<rparr>"

fun record_results :: "nat \<Rightarrow> Flow \<Rightarrow> Result list \<Rightarrow> server \<Rightarrow> server" where
  "record_results now flow [] sv = sv"
| "record_results now flow (r # rs) sv =
     (if res_Verdict r = VerdictNotApplicable then record_results now flow rs sv
      else
        let sv1 = (case sv_agg sv of
              None \<Rightarrow> sv
            | Some counts \<Rightarrow> sv\<lparr>sv_agg := Some (Record (result_recording now flow r) counts)\<rparr>);
            sv2 = (if res_Verdict r = VerdictWouldDeny then sv1\<lparr>sv_denied := sv_denied sv1 + 1\<rparr> else sv1)
        in record_results now flow rs sv2)"

definition handleEvaluate :: "('s \<Rightarrow> (labels \<Rightarrow> bool) option) \<Rightarrow> (bytes \<Rightarrow> Flow option) \<Rightarrow> nat \<Rightarrow> 's Store
    \<Rightarrow> request \<Rightarrow> server \<Rightarrow> response \<times> server" where
  "handleEvaluate as_selector decode now store r sv =
     (if req_Method r \<noteq> ''POST'' then (HttpError StatusMethodNotAllowed, sv)
      else case decode (take (64 * 1024) (req_Body r)) of
        None \<Rightarrow> (HttpError StatusBadRequest, sv)
      | Some flow0 \<Rightarrow>
          let flow = (if Timestamp flow0 = 0 then flow0\<lparr>Timestamp := now\<rparr> else flow0);
              results = evaluate_flow as_selector store flow
          in (Results results, record_results now flow results sv))"

section \<open>The server\<close>

text \<open>The three routes of the mux, on the server with its flag of readiness; every other path is not found (paths
  are in the canonical form to which the mux redirects).\<close>

record http_server =
  hs_ready :: bool
  hs_server :: server

datatype reply = Plain nat string | Evaluated response | PageNotFound

definition server_New :: "counts option \<Rightarrow> http_server" where
  "server_New agg = \<lparr>hs_ready = False, hs_server = \<lparr>sv_agg = agg, sv_denied = 0\<rparr>\<rparr>"

definition SetReady :: "http_server \<Rightarrow> http_server" where
  "SetReady hs = hs\<lparr>hs_ready := True\<rparr>"

definition status_json :: "string \<Rightarrow> string" where
  "status_json status = CHR ''{'' # CHR 0x22 # ''status'' @ CHR 0x22 # CHR '':'' # CHR 0x22 # status @ [CHR 0x22, CHR ''}'']"

definition handleHealth :: "reply" where
  "handleHealth = Plain 200 (status_json ''ok'')"

definition handleReady :: "http_server \<Rightarrow> reply" where
  "handleReady hs = (if \<not> hs_ready hs then Plain 503 (status_json ''warming up'') else Plain 200 (status_json ''ready''))"

definition serve :: "('s \<Rightarrow> (labels \<Rightarrow> bool) option) \<Rightarrow> (bytes \<Rightarrow> Flow option) \<Rightarrow> nat \<Rightarrow> 's Store \<Rightarrow> string
    \<Rightarrow> request \<Rightarrow> http_server \<Rightarrow> reply \<times> http_server" where
  "serve as_selector decode now store path r hs =
     (if path = ''/healthz'' then (handleHealth, hs)
      else if path = ''/readyz'' then (handleReady hs, hs)
      else if path = ''/evaluate'' then
        (let (resp, sv) = handleEvaluate as_selector decode now store r (hs_server hs) in (Evaluated resp, hs\<lparr>hs_server := sv\<rparr>))
      else (PageNotFound, hs))"

text \<open>Nothing takes the readiness back.\<close>

lemma stays_ready: "hs_ready (snd (serve as_selector decode now store path r hs)) = hs_ready hs"
  by (simp add: serve_def split: prod.split)

end
