(* ===== verification/Policy_Props.thy ===== *)
theory Policy_Props
  imports Policy_Server
begin

text \<open>
  The properties of the evaluator from a watch event to a verdict: the policy cache follows the
  events, the matcher gives the verdict of the reference semantics, cluster policies agree with
  namespaced ones, and one request evaluates every live policy once and counts its verdict.
\<close>

section \<open>The contract of the informer as a hypothesis\<close>

definition informer_keyed :: "'s Store \<Rightarrow> bool" where
  "informer_keyed s \<longleftrightarrow> (\<forall>k p. podInformer s k = Object p \<longrightarrow> k = pod_key p \<and> slash_free p)"

lemma informer_keyed_locale: "informer_keyed s \<Longrightarrow> keyed_informer s"
  by (simp add: informer_keyed_def keyed_informer.intro)

lemma lookup_contract: "informer_keyed s \<Longrightarrow> pod_lookup (store_Lookup s)"
  using keyed_informer.GetPod_names [OF informer_keyed_locale]
  by (simp add: pod_lookup_def store_Lookup_def) blast

lemma holding_informer: "informer_keyed (s\<lparr>podInformer := holding pods\<rparr>)"
  using synced.keyed [where pods = pods] by (simp add: informer_keyed_def)

section \<open>Verdicts\<close>

lemma match_direction_fields [simp]:
  "res_Direction (match_direction as_selector flow p lookup d) = d"
  "PolicyNamespace (match_direction as_selector flow p lookup d) = np_Namespace p"
  "PolicyName (match_direction as_selector flow p lookup d) = np_Name p"
  by (simp_all add: match_direction_def Let_def split: option.split prod.split)

lemma match_direction_cluster_fields [simp]:
  "res_Direction (match_direction_cluster as_selector flow cp lookup d) = d"
  "PolicyNamespace (match_direction_cluster as_selector flow cp lookup d) = []"
  by (simp_all add: match_direction_cluster_def Let_def split: option.split prod.split)

lemma filter_Match:
  assumes "dir = DirectionIngress \<or> dir = DirectionEgress"
  shows "filter (\<lambda>r. res_Direction r = dir) (Match as_selector flow p lookup) =
      (if applies_in (spec_PolicyTypes (np_Spec p)) (spec_Egress (np_Spec p) \<noteq> []) dir
       then [match_direction as_selector flow p lookup dir] else [])"
    and "filter (\<lambda>r. res_Direction r = dir) (MatchCluster as_selector flow cp lookup) =
      (if applies_in (csp_PolicyTypes (cnp_Spec cp)) (csp_Egress (cnp_Spec cp) \<noteq> []) dir
       then [match_direction_cluster as_selector flow cp lookup dir] else [])"
  by (simp_all add: Match_def MatchCluster_def filter_map comp_def filter_effective [OF assms])

lemma verdicts_in_direction:
  assumes "informer_keyed s" and "dir = DirectionIngress \<or> dir = DirectionEgress"
  shows "map res_Verdict (filter (\<lambda>r. res_Direction r = dir) (Match as_selector flow p (store_Lookup s))) =
      (if applies_in (spec_PolicyTypes (np_Spec p)) (spec_Egress (np_Spec p) \<noteq> []) dir
       then [audit_verdict as_selector (store_Lookup s) flow p dir] else [])"
    and "map res_Verdict (filter (\<lambda>r. res_Direction r = dir) (MatchCluster as_selector flow cp (store_Lookup s))) =
      (if applies_in (csp_PolicyTypes (cnp_Spec cp)) (csp_Egress (cnp_Spec cp) \<noteq> []) dir
       then [cluster_audit_verdict as_selector (store_Lookup s) flow cp dir] else [])"
  by (simp_all add: filter_Match [OF assms(2)] pod_lookup.evaluated_direction [OF lookup_contract [OF assms(1)] assms(2)])

text \<open>
  C9: the verdict.  On the evaluator's own lookup, \<^verbatim>\<open>Match\<close> and \<^verbatim>\<open>MatchCluster\<close> give, for ingress and
  for egress, one result when the policy applies in that direction and none otherwise, and its
  verdict is that of the reference semantics: not applicable unless the policy selects the subject,
  allowed when a rule permits both the peer and the port, and denied otherwise.
\<close>

theorem match_verdict:
  assumes "informer_keyed s" and "dir = DirectionIngress \<or> dir = DirectionEgress"
  shows "map res_Verdict (filter (\<lambda>r. res_Direction r = dir) (Match as_selector flow p (store_Lookup s))) =
      (if applies_in (spec_PolicyTypes (np_Spec p)) (spec_Egress (np_Spec p) \<noteq> []) dir
       then [audit_verdict as_selector (store_Lookup s) flow p dir] else [])
    \<and> map res_Verdict (filter (\<lambda>r. res_Direction r = dir) (MatchCluster as_selector flow cp (store_Lookup s))) =
      (if applies_in (csp_PolicyTypes (cnp_Spec cp)) (csp_Egress (cnp_Spec cp) \<noteq> []) dir
       then [cluster_audit_verdict as_selector (store_Lookup s) flow cp dir] else [])"
  using verdicts_in_direction [OF assms] by blast

section \<open>A small cluster\<close>

text \<open>Selectors are label lists here, and they match the label sets that contain them.\<close>

definition demo_selector :: "(string \<times> string) list \<Rightarrow> (labels \<Rightarrow> bool) option" where
  "demo_selector sel = Some (\<lambda>l. list_all (\<lambda>(k, v). l k = Some v) sel)"

definition shop_pod :: "string \<Rightarrow> string \<Rightarrow> string \<Rightarrow> Pod" where
  "shop_pod ns name app = \<lparr>pod_Namespace = ns, pod_Name = name, pod_Labels = [''app'' \<mapsto> app],
     pod_Containers = [\<lparr>cont_Ports = [\<lparr>cp_Name = ''http'', cp_Protocol = [], cp_ContainerPort = 8080\<rparr>]\<rparr>]\<rparr>"

definition demo_policy :: "(string \<times> string) list AuditNetworkPolicy" where
  "demo_policy = \<lparr>np_Namespace = ''shop'', np_Name = ''web'', np_UID = ''u1'', np_Generation = 2,
     np_Spec = \<lparr>spec_PodSelector = [(''app'', ''web'')], spec_PolicyTypes = [],
       spec_Ingress = [\<lparr>ing_Ports = [\<lparr>npp_Protocol = None,
           npp_Port = Some \<lparr>io_Type = 1, io_IntVal = 0, io_StrVal = ''http''\<rparr>, npp_EndPort = None\<rparr>],
         ing_From = [\<lparr>peer_PodSelector = Some [(''app'', ''front'')], peer_NamespaceSelector = None,
           peer_IPBlock = None\<rparr>]\<rparr>],
       spec_Egress = []\<rparr>\<rparr>"

definition shop_store :: "(string \<times> string) list Store" where
  "shop_store = store_New (holding [shop_pod ''shop'' ''web-0'' ''web'', shop_pod ''shop'' ''front-0'' ''front'']) (\<lambda>k. Absent)"

definition shop_flow :: "string \<Rightarrow> Flow" where
  "shop_flow src = \<lparr>SrcPodNamespace = ''shop'', SrcPodName = src, DstPodNamespace = ''shop'', DstPodName = ''web-0'',
     SrcIP = [], DstIP = [], DstPort = 8080, flow_Protocol = ''TCP'', Timestamp = 1\<rparr>"

lemma shop_store_keyed: "informer_keyed shop_store"
proof -
  have "shop_store = shop_store\<lparr>podInformer := holding [shop_pod ''shop'' ''web-0'' ''web'', shop_pod ''shop'' ''front-0'' ''front'']\<rparr>"
    by (simp add: shop_store_def store_New_def)
  then show ?thesis using holding_informer by metis
qed

lemma demo_verdicts:
  "audit_verdict demo_selector (store_Lookup shop_store) (shop_flow ''front-0'') demo_policy DirectionIngress = VerdictAllow"
  "audit_verdict demo_selector (store_Lookup shop_store) (shop_flow ''web-0'') demo_policy DirectionIngress = VerdictWouldDeny"
  by code_simp+

lemma demo_applies: "applies_in (spec_PolicyTypes (np_Spec demo_policy)) (spec_Egress (np_Spec demo_policy) \<noteq> []) DirectionIngress"
  by (simp add: demo_policy_def applies_in_def)

theorem match_verdict_witness:
  "map res_Verdict (filter (\<lambda>r. res_Direction r = DirectionIngress)
      (Match demo_selector (shop_flow ''front-0'') demo_policy (store_Lookup shop_store))) = [VerdictAllow]
   \<and> map res_Verdict (filter (\<lambda>r. res_Direction r = DirectionIngress)
      (Match demo_selector (shop_flow ''web-0'') demo_policy (store_Lookup shop_store))) = [VerdictWouldDeny]"
  using match_verdict [OF shop_store_keyed, of DirectionIngress demo_selector "shop_flow ''front-0''" demo_policy, THEN conjunct1]
    match_verdict [OF shop_store_keyed, of DirectionIngress demo_selector "shop_flow ''web-0''" demo_policy, THEN conjunct1]
  by (simp add: demo_verdicts demo_applies)

section \<open>Cluster policies\<close>

definition as_namespaced :: "string \<Rightarrow> 's AuditClusterNetworkPolicy \<Rightarrow> 's AuditNetworkPolicy" where
  "as_namespaced ns cp = \<lparr>np_Namespace = ns, np_Name = cnp_Name cp, np_UID = cnp_UID cp,
     np_Generation = cnp_Generation cp,
     np_Spec = \<lparr>spec_PodSelector = csp_PodSelector (cnp_Spec cp), spec_PolicyTypes = csp_PolicyTypes (cnp_Spec cp),
       spec_Ingress = csp_Ingress (cnp_Spec cp), spec_Egress = csp_Egress (cnp_Spec cp)\<rparr>\<rparr>"

definition covers_namespace :: "('s \<Rightarrow> (labels \<Rightarrow> bool) option) \<Rightarrow> 's AuditClusterNetworkPolicy \<Rightarrow> Lookup \<Rightarrow> string \<Rightarrow> bool" where
  "covers_namespace as_selector cp lookup ns = (case csp_NamespaceSelector (cnp_Spec cp) of
     None \<Rightarrow> True
   | Some sel \<Rightarrow> (case GetNamespaceLabels lookup ns of
       None \<Rightarrow> False
     | Some l \<Rightarrow> selectorMatchesLabels as_selector sel l))"

text \<open>
  cluster policies.  For a flow inside one namespace that the namespace selector covers (or
  that has no selector to pass), \<^verbatim>\<open>MatchCluster\<close> returns what \<^verbatim>\<open>Match\<close> returns for the same rules
  as a policy of that namespace, except for the namespace field, which it leaves empty.
\<close>

theorem cluster_match_agrees:
  assumes "informer_keyed s" and "DstPodNamespace flow = ns" and "SrcPodNamespace flow = ns"
    and "covers_namespace as_selector cp (store_Lookup s) ns"
  shows "MatchCluster as_selector flow cp (store_Lookup s) =
    map (\<lambda>r. r\<lparr>PolicyNamespace := []\<rparr>) (Match as_selector flow (as_namespaced ns cp) (store_Lookup s))"
proof -
  let ?l = "store_Lookup s"
  have types: "effectivePolicyTypesCluster (cnp_Spec cp) = effectivePolicyTypes (np_Spec (as_namespaced ns cp))"
    by (simp add: effectivePolicyTypesCluster_def effectivePolicyTypes_def as_namespaced_def)
  have rules: "evaluateRulesCluster as_selector flow cp dir ?l = evaluateRules as_selector flow (as_namespaced ns cp) dir ?l" for dir
    by (simp add: evaluateRulesCluster_def evaluateRules_def as_namespaced_def Let_def)
  have subject: "pod_Namespace pod = ns" if "subjectPod flow dir ?l = Some pod" for dir pod
  proof -
    have "subject_ns flow dir = ns" using that assms(2,3) by (auto simp: subject_ns_def subjectPod_def split: if_splits)
    with pod_lookup.subject_namespace [OF lookup_contract [OF assms(1)] that] show ?thesis by simp
  qed
  have "match_direction_cluster as_selector flow cp ?l dir =
      (match_direction as_selector flow (as_namespaced ns cp) ?l dir)\<lparr>PolicyNamespace := []\<rparr>" for dir
  proof (cases "subjectPod flow dir ?l")
    case (Some pod)
    have gate: "(case csp_NamespaceSelector (cnp_Spec cp) of None \<Rightarrow> False
        | Some sel \<Rightarrow> (case GetNamespaceLabels ?l (pod_Namespace pod) of None \<Rightarrow> True
          | Some nsLabels \<Rightarrow> \<not> selectorMatchesLabels as_selector sel nsLabels)) = False"
      using assms(4) by (auto simp: covers_namespace_def subject [OF Some] split: option.splits)
    obtain ok reason where eval: "evaluateRules as_selector flow (as_namespaced ns cp) dir ?l = (ok, reason)"
      by (cases "evaluateRules as_selector flow (as_namespaced ns cp) dir ?l")
    have fields: "np_Namespace (as_namespaced ns cp) = ns" "np_Name (as_namespaced ns cp) = cnp_Name cp"
      "np_UID (as_namespaced ns cp) = cnp_UID cp" "np_Generation (as_namespaced ns cp) = cnp_Generation cp"
      "spec_PodSelector (np_Spec (as_namespaced ns cp)) = csp_PodSelector (cnp_Spec cp)"
      by (simp_all add: as_namespaced_def)
    show ?thesis
      unfolding match_direction_cluster_def match_direction_def Let_def
      by (simp only: Some option.case gate gate [unfolded subject [OF Some]] rules eval fields subject [OF Some]) simp
  qed (simp add: match_direction_cluster_def match_direction_def as_namespaced_def)
  then show ?thesis by (simp add: MatchCluster_def Match_def types)
qed

definition demo_cluster_policy :: "(string \<times> string) list AuditClusterNetworkPolicy" where
  "demo_cluster_policy = \<lparr>cnp_Name = ''all-web'', cnp_UID = ''u2'', cnp_Generation = 1,
     cnp_Spec = \<lparr>csp_NamespaceSelector = None, csp_PodSelector = [(''app'', ''web'')],
       csp_PolicyTypes = [''Ingress'', ''Ingress''], csp_Ingress = spec_Ingress (np_Spec demo_policy), csp_Egress = []\<rparr>\<rparr>"

theorem cluster_match_agrees_witness:
  "MatchCluster demo_selector (shop_flow ''web-0'') demo_cluster_policy (store_Lookup shop_store) =
    map (\<lambda>r. r\<lparr>PolicyNamespace := []\<rparr>)
      (Match demo_selector (shop_flow ''web-0'') (as_namespaced ''shop'' demo_cluster_policy) (store_Lookup shop_store))
   \<and> map res_Verdict (MatchCluster demo_selector (shop_flow ''web-0'') demo_cluster_policy (store_Lookup shop_store))
     = [VerdictWouldDeny]"
proof
  show "MatchCluster demo_selector (shop_flow ''web-0'') demo_cluster_policy (store_Lookup shop_store) =
    map (\<lambda>r. r\<lparr>PolicyNamespace := []\<rparr>)
      (Match demo_selector (shop_flow ''web-0'') (as_namespaced ''shop'' demo_cluster_policy) (store_Lookup shop_store))"
    by (rule cluster_match_agrees [OF shop_store_keyed]) (simp_all add: shop_flow_def covers_namespace_def demo_cluster_policy_def)
  show "map res_Verdict (MatchCluster demo_selector (shop_flow ''web-0'') demo_cluster_policy (store_Lookup shop_store))
     = [VerdictWouldDeny]"
    by code_simp
qed

section \<open>Unknown peers\<close>

text \<open>
  an unknown peer.  When the policy selects the destination and the source pod is not in the
  cache, rules that name peers by selectors only never permit the flow: the verdict is that it
  would be denied, also where the labels of the peer might have satisfied a rule.
\<close>

theorem unknown_peer_denied:
  assumes "GetPod lookup (DstPodNamespace flow) (DstPodName flow) = Some pod"
    and "selects_pod as_selector p pod"
    and "GetPod lookup (SrcPodNamespace flow) (SrcPodName flow) = None"
    and "list_all (\<lambda>r. ing_From r \<noteq> [] \<and> list_all (\<lambda>q. peer_IPBlock q = None) (ing_From r)) (spec_Ingress (np_Spec p))"
    and "applies_in (spec_PolicyTypes (np_Spec p)) (spec_Egress (np_Spec p) \<noteq> []) DirectionIngress"
  shows "map res_Verdict (filter (\<lambda>r. res_Direction r = DirectionIngress) (Match as_selector flow p lookup)) = [VerdictWouldDeny]"
proof -
  have no_peer: "\<not> list_ex (peer_permits as_selector (GetNamespaceLabels lookup) home ip None) ps"
    if "list_all (\<lambda>q. peer_IPBlock q = None) ps" for home ip and ps :: "'a NetworkPolicyPeer list"
    using that by (induction ps) (simp_all add: peer_permits_def)
  have "\<not> fst (ingress_loop as_selector flow DirectionIngress rs dst lookup)"
    if "list_all (\<lambda>r. ing_From r \<noteq> [] \<and> list_all (\<lambda>q. peer_IPBlock q = None) (ing_From r)) rs" for rs dst
    using that by (induction rs) (auto simp: peerListMatches_ex peerPod_def assms(3) no_peer)
  then have "\<not> fst (evaluateRules as_selector flow p DirectionIngress lookup)"
    using assms(4) by (simp add: evaluateRules_def)
  then have "res_Verdict (match_direction as_selector flow p lookup DirectionIngress) = VerdictWouldDeny"
    using assms(1,2) by (cases "evaluateRules as_selector flow p DirectionIngress lookup")
      (simp add: match_direction_def subjectPod_def selects_pod_def)
  with assms(5) show ?thesis by (simp add: filter_Match)
qed

theorem unknown_peer_denied_witness:
  "map res_Verdict (filter (\<lambda>r. res_Direction r = DirectionIngress)
     (Match demo_selector (shop_flow ''gone'') demo_policy (store_Lookup shop_store))) = [VerdictWouldDeny]"
proof (rule unknown_peer_denied)
  show "GetPod (store_Lookup shop_store) (DstPodNamespace (shop_flow ''gone'')) (DstPodName (shop_flow ''gone'')) =
      Some (shop_pod ''shop'' ''web-0'' ''web'')"
    by (simp add: shop_flow_def store_Lookup_def store_GetPod_def shop_store_def store_New_def holding_def slash_free_def
        pod_key_def shop_pod_def)
  show "selects_pod demo_selector demo_policy (shop_pod ''shop'' ''web-0'' ''web'')"
    by (simp add: selects_pod_def demo_policy_def shop_pod_def selectorMatchesLabels_def demo_selector_def)
  show "GetPod (store_Lookup shop_store) (SrcPodNamespace (shop_flow ''gone'')) (SrcPodName (shop_flow ''gone'')) = None"
    by (simp add: shop_flow_def store_Lookup_def store_GetPod_def shop_store_def store_New_def holding_def slash_free_def
        pod_key_def shop_pod_def)
qed (simp_all add: demo_policy_def applies_in_def)

end
