(* ===== verification/Status_Props.thy ===== *)
theory Status_Props
  imports Policy_Server
begin

text \<open>
  The properties of the status aggregator: what the counters mean, that concurrent requests may
  be recorded in any order, that the ranking does not depend on the order in which a map is
  walked, and what a status patch leaves standing after a restart.
\<close>

section \<open>Counters as summaries\<close>

definition denials :: "tupleKey \<Rightarrow> recording list \<Rightarrow> nat" where
  "denials t rs = length (filter (\<lambda>r. rec_wouldDeny r \<and> rec_tuple r = t) rs)"

definition max_generation :: "recording list \<Rightarrow> int" where
  "max_generation rs = Max (insert 0 (set (map (\<lambda>r. sint (rec_generation r)) rs)))"

text \<open>What the counters of a policy should be after the calls \<open>rs\<close> for it.\<close>

definition summary :: "recording list \<Rightarrow> policyAgg" where
  "summary rs = \<lparr>flowsEvaluated = word_of_nat (length rs),
     flowsWouldDeny = word_of_nat (length (filter rec_wouldDeny rs)),
     lastEvaluated = (if rs = [] then 0 else rec_now (last rs)),
     observedGeneration = word_of_int (max_generation rs),
     tuples = (\<lambda>t. if denials t rs = 0 then None else Some (word_of_nat (denials t rs)))\<rparr>"

lemma max_generation_snoc: "max_generation (rs @ [r]) = max (sint (rec_generation r)) (max_generation rs)"
  by (simp add: max_generation_def insert_commute [of 0])

lemma max_generation_word: "sint (word_of_int (max_generation rs) :: i64) = max_generation rs"
proof -
  have "max_generation rs \<in> insert 0 (set (map (\<lambda>r. sint (rec_generation r)) rs))"
    unfolding max_generation_def by (rule Max_in) simp_all
  then have "max_generation rs = 0 \<or> (\<exists>r :: recording. max_generation rs = sint (rec_generation r))"
    by (simp only: insert_iff set_map image_iff) blast
  then show ?thesis by auto
qed

lemma record_summary: "record_agg r (summary rs) = summary (rs @ [r])"
proof -
  have gen: "(if sint (word_of_int (max_generation rs) :: i64) < sint (rec_generation r) then rec_generation r
       else word_of_int (max_generation rs)) = word_of_int (max_generation (rs @ [r]))"
    by (simp add: max_generation_snoc max_generation_word max_def)
  have tup: "count_up (rec_tuple r) (tuples (summary rs)) = tuples (summary (rs @ [r]))" if "rec_wouldDeny r"
    using that by (auto simp: count_up_def summary_def denials_def fun_eq_iff)
  show ?thesis
  proof (cases "rec_wouldDeny r")
    case True
    show ?thesis
      using gen tup [OF True] True
      by (simp add: record_agg_def Let_def) (auto simp: summary_def intro!: policyAgg.equality)
  next
    case False
    with gen show ?thesis
      by (auto simp: record_agg_def Let_def summary_def denials_def intro!: policyAgg.equality)
  qed
qed

lemma summary_Nil: "summary [] = new_agg"
  by (simp add: summary_def new_agg_def denials_def max_generation_def)

text \<open>The calls for one policy.\<close>

definition calls_for :: "policyKey \<Rightarrow> recording list \<Rightarrow> recording list" where
  "calls_for k rs = filter (\<lambda>r. rec_key r = k) rs"

lemma calls_for_simps [simp]:
  "calls_for k [] = []" "calls_for k (r # rs) = (if rec_key r = k then r # calls_for k rs else calls_for k rs)"
  "calls_for k (rs @ rs') = calls_for k rs @ calls_for k rs'"
  by (simp_all add: calls_for_def)

definition extend_agg :: "policyAgg option \<Rightarrow> recording list \<Rightarrow> policyAgg option" where
  "extend_agg a rs = (if rs = [] then a else Some (fold record_agg rs (case a of None \<Rightarrow> new_agg | Some x \<Rightarrow> x)))"

lemma fold_Record: "fold Record rs counts k = extend_agg (counts k) (calls_for k rs)"
  by (induction rs arbitrary: counts) (auto simp: Record_def extend_agg_def Let_def split: option.splits)

lemma fold_summary: "fold record_agg rs (summary rs0) = summary (rs0 @ rs)"
  by (induction rs arbitrary: rs0) (simp_all add: record_summary)

lemma fold_new: "fold record_agg rs new_agg = summary rs"
  using fold_summary [of rs "[]"] by (simp add: summary_Nil)

text \<open>
  the counters.  After any sequence of calls of \<^verbatim>\<open>Record\<close> on a fresh aggregator, a policy has an
  entry exactly when a call named it, and the entry holds the number of those calls, how many of
  them would deny, how often each offender occurred, and the largest generation; and two orders
  of the same calls, as concurrent requests may produce, give the same counters up to the time.
\<close>

theorem recorded_exactly:
  assumes "mset rs' = mset rs"
  shows "fold Record rs Map.empty k = (if calls_for k rs = [] then None else Some (summary (calls_for k rs)))
   \<and> map_option (\<lambda>a. a\<lparr>lastEvaluated := t\<rparr>) (fold Record rs' Map.empty k) =
     map_option (\<lambda>a. a\<lparr>lastEvaluated := t\<rparr>) (fold Record rs Map.empty k)"
proof
  have one: "fold Record xs Map.empty k = (if calls_for k xs = [] then None else Some (summary (calls_for k xs)))" for xs
    by (simp add: fold_Record extend_agg_def fold_new)
  then show "fold Record rs Map.empty k = (if calls_for k rs = [] then None else Some (summary (calls_for k rs)))" .
  have m: "mset (calls_for k rs') = mset (calls_for k rs)" using assms by (simp add: calls_for_def mset_filter)
  have len: "length (filter P xs) = length (filter P ys)" if "mset xs = mset ys" for P and xs ys :: "recording list"
    using that by (metis mset_filter size_mset)
  have den: "denials u (calls_for k rs') = denials u (calls_for k rs)" for u
    using len [OF m] by (simp add: denials_def)
  have "summary (calls_for k rs')\<lparr>lastEvaluated := t\<rparr> = summary (calls_for k rs)\<lparr>lastEvaluated := t\<rparr>"
    using m len [OF m] mset_eq_setD [OF m] mset_eq_length [OF m]
    by (simp add: summary_def den max_generation_def cong: if_cong)
  moreover have "calls_for k rs' = [] \<longleftrightarrow> calls_for k rs = []" using m by (metis mset_zero_iff)
  ultimately show "map_option (\<lambda>a. a\<lparr>lastEvaluated := t\<rparr>) (fold Record rs' Map.empty k) =
      map_option (\<lambda>a. a\<lparr>lastEvaluated := t\<rparr>) (fold Record rs Map.empty k)"
    by (simp add: one)
qed

definition demo_recording :: recording where
  "demo_recording = \<lparr>rec_key = \<lparr>key_namespace = ''web'', key_name = ''deny''\<rparr>,
     rec_tuple = \<lparr>tup_srcPod = ''a/x'', tup_dstPod = ''web/y'', tup_protocol = ''TCP'', tup_direction = ''Ingress'',
       tup_dstPort = 80\<rparr>, rec_wouldDeny = True, rec_generation = 3, rec_now = 9\<rparr>"

definition demo_allowed :: recording where
  "demo_allowed = demo_recording\<lparr>rec_wouldDeny := False, rec_generation := 4\<rparr>"

theorem recorded_exactly_witness:
  "map_option flowsWouldDeny (fold Record [demo_allowed, demo_recording] Map.empty (rec_key demo_recording)) = Some 1
   \<and> map_option observedGeneration (fold Record [demo_recording, demo_allowed] Map.empty (rec_key demo_recording)) = Some 4"
proof -
  have m: "mset [demo_recording, demo_allowed] = mset [demo_allowed, demo_recording]"
    "mset [demo_allowed, demo_recording] = mset [demo_recording, demo_allowed]" by simp_all
  have k: "rec_key demo_allowed = rec_key demo_recording" by (simp add: demo_allowed_def)
  have "flowsWouldDeny (summary [demo_allowed, demo_recording]) = 1"
    by (simp add: summary_def demo_allowed_def demo_recording_def)
  moreover have "observedGeneration (summary [demo_recording, demo_allowed]) = 4"
    by (simp add: summary_def demo_allowed_def demo_recording_def max_generation_def)
  ultimately show ?thesis
    using recorded_exactly [OF m(1), of "rec_key demo_recording" 0, THEN conjunct1]
      recorded_exactly [OF m(2), of "rec_key demo_recording" 0, THEN conjunct1] by (simp add: k)
qed

section \<open>The ranking\<close>

definition ranked_entry :: "(tupleKey \<rightharpoonup> i64) \<Rightarrow> tupleKey \<Rightarrow> ranked" where
  "ranked_entry m k = Ranked k (case m k of None \<Rightarrow> 0 | Some c \<Rightarrow> c)"

lemma topOffenders_take: "topOffenders order m n = take (nat n) (sort (map (ranked_entry m) order))"
  by (auto simp: topOffenders_def ranked_entry_def [abs_def] Let_def)

lemma ranked_entry_inj: "inj (ranked_entry m)"
  by (rule injI) (simp add: ranked_entry_def)

lemma sort_order_free:
  fixes f :: "'a \<Rightarrow> 'b::linorder"
  assumes "distinct o1" "distinct o2" "set o1 = set o2"
  shows "sort (map f o1) = sort (map f o2)"
proof -
  from assms have "mset o1 = mset o2" by (simp add: set_eq_iff_mset_eq_distinct)
  then have "mset (map f o1) = mset (map f o2)" by simp
  then show ?thesis by (intro properties_for_sort) simp_all
qed

lemma take_sorted_below:
  assumes "sorted xs" "x \<in> set (take n xs)" "y \<in> set xs" "y \<notin> set (take n xs)"
  shows "x \<le> y"
proof -
  have "y \<in> set (drop n xs)" using assms(3,4) by (metis Un_iff append_take_drop_id set_append)
  moreover have "sorted (take n xs @ drop n xs)" using assms(1) by simp
  ultimately show ?thesis using assms(2) by (simp only: sorted_append)
qed

text \<open>The order of the ranking, by its key.\<close>

lemma sort_rank: "sort_key rank xs = sort xs"
proof (rule properties_for_sort [symmetric])
  have "sorted_wrt (\<lambda>a b. rank a \<le> rank b) (sort_key rank xs)" using sorted_sort_key [of rank xs] by (simp add: sorted_map)
  then show "sorted (sort_key rank xs)"
    by (rule sorted_wrt_mono_rel [rotated]) (auto simp: less_eq_ranked_def ranked_less_rank less_le)
qed simp

section \<open>The running aggregator\<close>

text \<open>
  An account of the aggregator from the events alone: the calls that count for each policy, which are those
  since the last restart or the last turn that found the policy gone; the calls that counted when the flush
  under way began, for the policies it has still to report; and the reports the API server accepted, each
  as the calls it summarises.
\<close>

record ledger =
  le_calls :: "policyKey \<Rightarrow> recording list"
  le_todo :: "(policyKey \<times> recording list) list"
  le_reported :: "policyKey \<Rightarrow> recording list list"

definition ledger_empty :: ledger where
  "ledger_empty = \<lparr>le_calls = (\<lambda>k. []), le_todo = [], le_reported = (\<lambda>k. [])\<rparr>"

fun ledger_do :: "agg_event \<Rightarrow> ledger \<Rightarrow> ledger" where
  "ledger_do (Recorded r) l = l\<lparr>le_calls := (le_calls l)(rec_key r := le_calls l (rec_key r) @ [r])\<rparr>"
| "ledger_do (FlushStarted order) l =
     l\<lparr>le_todo := map (\<lambda>k. (k, le_calls l k)) (sort_key (\<lambda>k. (key_namespace k, key_name k)) order)\<rparr>"
| "ledger_do (FlushTurn ctx_done answer order) l = (case le_todo l of
     [] \<Rightarrow> l
   | (k, rs) # rest \<Rightarrow>
       if ctx_done \<or> answer = Cancelled then l\<lparr>le_todo := []\<rparr>
       else if answer = Patched then l\<lparr>le_todo := rest, le_reported := (le_reported l)(k := le_reported l k @ [rs])\<rparr>
       else if answer = NotFound then l\<lparr>le_todo := rest, le_calls := (le_calls l)(k := [])\<rparr>
       else l\<lparr>le_todo := rest\<rparr>)"
| "ledger_do Restarted l = l\<lparr>le_calls := (\<lambda>k. []), le_todo := []\<rparr>"

definition ledger :: "agg_event list \<Rightarrow> ledger" where
  "ledger es = fold ledger_do es ledger_empty"

text \<open>What a report of the calls \<open>rs\<close> says: numbers that are not zero, and at most 25 offenders, those with
  the most denials first.\<close>

definition offenders :: "recording list \<Rightarrow> ranked list" where
  "offenders rs = take 25 (sort_key rank
     (map (\<lambda>t. Ranked t (word_of_nat (denials t rs))) (remdups (map rec_tuple (filter rec_wouldDeny rs)))))"

definition unless_zero :: "'a::zero \<Rightarrow> 'a option" where
  "unless_zero x = (if x = 0 then None else Some x)"

definition report :: "recording list \<Rightarrow> status_doc" where
  "report rs = \<lparr>st_observedGeneration = unless_zero (word_of_int (max_generation rs)),
     st_lastEvaluated = Some (rec_now (last rs)),
     st_flowsEvaluated = unless_zero (word_of_nat (length rs)),
     st_flowsWouldDeny = unless_zero (word_of_nat (length (filter rec_wouldDeny rs))),
     st_topOffenders = (if offenders rs = [] then None else Some (offenders rs))\<rparr>"

lemma denials_zero: "denials t rs = 0 \<longleftrightarrow> t \<notin> set (map rec_tuple (filter rec_wouldDeny rs))"
  by (auto simp: denials_def filter_empty_conv)

lemma offenders_ranked:
  assumes "distinct order" and "set order = dom (tuples (summary rs))"
  shows "topOffenders order (tuples (summary rs)) 25 = offenders rs"
proof -
  let ?m = "tuples (summary rs)" and ?ts = "remdups (map rec_tuple (filter rec_wouldDeny rs))"
  have dom: "set ?ts = set order"
    unfolding assms(2) set_remdups by (auto simp: summary_def dom_def denials_zero split: if_splits)
  have counts: "map (ranked_entry ?m) ?ts = map (\<lambda>t. Ranked t (word_of_nat (denials t rs))) ?ts"
    by (rule map_cong [OF refl]) (auto simp: ranked_entry_def summary_def denials_zero)
  show ?thesis
    unfolding topOffenders_take offenders_def sort_rank counts [symmetric]
    using sort_order_free [OF assms(1) distinct_remdups dom [symmetric], of "ranked_entry ?m"] by simp
qed

lemma report_patch:
  assumes "rs \<noteq> []" and "distinct order" and "set order = dom (tuples (summary rs))"
  shows "status_patch 25 order (summary rs) = report rs"
  using assms(1) offenders_ranked [OF assms(2,3)]
  by (simp add: status_patch_def report_def omitempty_def unless_zero_def) (simp add: summary_def)

definition follows :: "(status_doc \<Rightarrow> status_doc \<Rightarrow> status_doc) \<Rightarrow> ledger \<Rightarrow> aggregator \<Rightarrow> bool" where
  "follows merge l g \<longleftrightarrow>
     ag_counts g = (\<lambda>k. if le_calls l k = [] then None else Some (summary (le_calls l k))) \<and>
     ag_pending g = map (\<lambda>(k, rs). (k, summary rs)) (le_todo l) \<and> (\<forall>(k, rs) \<in> set (le_todo l). rs \<noteq> []) \<and>
     ag_status g = (\<lambda>k. if le_reported l k = [] then None
       else Some (foldl merge no_status (map report (le_reported l k)))) \<and>
     ag_topN g = 25"

lemma follows_Recorded: "follows merge l g \<Longrightarrow> follows merge (ledger_do (Recorded r) l) (agg_do merge (Recorded r) g)"
  using record_summary [of r "le_calls l (rec_key r)"]
  by (auto simp: follows_def Record_def Let_def fun_eq_iff summary_Nil)

lemma follows_FlushStarted:
  assumes "follows merge l g" and "set order = dom (ag_counts g)"
  shows "follows merge (ledger_do (FlushStarted order) l) (agg_do merge (FlushStarted order) g)"
proof -
  have calls: "le_calls l k \<noteq> []" if "k \<in> set order" for k
    using that assms by (auto simp: follows_def dom_def split: if_splits)
  have "List.map_filter (\<lambda>k. map_option (\<lambda>a. (k, a)) (ag_counts g k)) ks = map (\<lambda>k. (k, summary (le_calls l k))) ks"
    if "set ks \<subseteq> set order" for ks
    using that assms(1) calls by (induction ks) (auto simp: List.map_filter_def follows_def)
  then show ?thesis
    using assms(1) calls by (auto simp: follows_def flush_start_def Let_def)
qed

lemma follows_FlushTurn:
  assumes "follows merge l g" and "agg_allowed (FlushTurn ctx_done answer order) g"
  shows "follows merge (ledger_do (FlushTurn ctx_done answer order) l) (agg_do merge (FlushTurn ctx_done answer order) g)"
proof -
  obtain k rs rest where todo: "le_todo l = (k, rs) # rest"
    using assms by (cases "le_todo l") (auto simp: follows_def)
  have pending: "ag_pending g = (k, summary rs) # map (\<lambda>(k, rs). (k, summary rs)) rest"
    using assms(1) by (simp add: follows_def todo)
  have "rs \<noteq> []" and "distinct order" and "set order = dom (tuples (summary rs))"
    using assms by (auto simp: follows_def todo)
  from report_patch [OF this] show ?thesis
    using assms(1) by (cases answer) (auto simp: follows_def flush_turn_def todo pending Let_def fun_eq_iff)
qed

lemma run_follows: "agg_run merge es g \<Longrightarrow> follows merge (ledger es) g"
proof (induction rule: agg_run.induct)
  case run_new
  then show ?case by (simp add: follows_def ledger_def ledger_empty_def agg_New_def)
next
  case (run_event es g e)
  have "follows merge (ledger_do e (ledger es)) (agg_do merge e g)"
  proof (cases e)
    case (Recorded r)
    then show ?thesis using follows_Recorded run_event.IH by simp
  next
    case (FlushStarted order)
    then show ?thesis using follows_FlushStarted run_event by simp
  next
    case (FlushTurn ctx_done answer order)
    then show ?thesis using follows_FlushTurn run_event by simp
  next
    case Restarted
    then show ?thesis using run_event.IH by (auto simp: follows_def agg_New_def fun_eq_iff)
  qed
  then show ?case by (simp add: ledger_def)
qed

text \<open>
  C33: the aggregator at any time.  In every run of calls of \<^verbatim>\<open>Record\<close>, flushes with their
  interruptions and answers, and restarts, whatever the API server makes of a patch: the counters of a policy
  are the summary of the calls for it since the last restart or since a flush found it gone, and there are none
  when there was no such call; a flush has still to report, in the order of namespace and name, what was
  recorded when it began, whatever was recorded since; and a policy's status is the merge of one report for every
  patch that succeeded, in their order.  A patch that fails or is cancelled loses no call.
\<close>

theorem aggregates_consistent:
  assumes "agg_run merge es g" and "l = ledger es"
  shows "ag_counts g k = (if le_calls l k = [] then None else Some (summary (le_calls l k)))
    \<and> ag_pending g = map (\<lambda>(k, rs). (k, summary rs)) (le_todo l)
    \<and> ag_status g k = (if le_reported l k = [] then None else Some (foldl merge no_status (map report (le_reported l k))))"
  using run_follows [OF assms(1)] by (simp add: assms(2) follows_def)

text \<open>A call is recorded, a flush begins, another call comes in, the patch succeeds; a second flush finds the
  API server failing.\<close>

definition demo_history :: "agg_event list" where
  "demo_history = [Recorded demo_recording, FlushStarted [rec_key demo_recording], Recorded demo_allowed,
     FlushTurn False Patched [rec_tuple demo_recording], FlushStarted [rec_key demo_recording],
     FlushTurn False PatchFailed [rec_tuple demo_recording]]"

lemma demo_history_run: "agg_run merge demo_history (fold (agg_do merge) demo_history (agg_New Map.empty))"
proof -
  have key: "rec_key demo_allowed = rec_key demo_recording" and denied: "rec_wouldDeny demo_recording" "\<not> rec_wouldDeny demo_allowed"
    by (simp_all add: demo_allowed_def demo_recording_def)
  let ?g = "\<lambda>n. fold (agg_do merge) (take n demo_history) (agg_New Map.empty)"
  have allowed: "agg_allowed (demo_history ! n) (?g n)" if "n < 6" for n
  proof -
    have "n \<in> {0, 1, 2, 3, 4, 5}" using that by auto
    then show ?thesis
      by (auto simp: demo_history_def numeral_eq_Suc agg_New_def Record_def Let_def flush_start_def flush_turn_def List.map_filter_def key
          denied record_agg_def new_agg_def count_up_def)
  qed
  have "agg_run merge (take n demo_history) (?g n)" if "n \<le> 6" for n
    using that
  proof (induction n)
    case (Suc n)
    then have "take (Suc n) demo_history = take n demo_history @ [demo_history ! n]"
      by (intro take_Suc_conv_app_nth) (simp add: demo_history_def)
    moreover have "agg_run merge (take n demo_history) (?g n)" and "agg_allowed (demo_history ! n) (?g n)"
      using Suc allowed by simp_all
    ultimately show ?case using run_event [of merge "take n demo_history" "?g n" "demo_history ! n"] by simp
  qed (simp add: run_new)
  from this [of 6] show ?thesis by (simp add: demo_history_def)
qed

theorem aggregates_consistent_witness:
  "\<exists>g. agg_run (\<lambda>old new. new) demo_history g
    \<and> ag_counts g (rec_key demo_recording) = Some (summary [demo_recording, demo_allowed])
    \<and> ag_pending g = [] \<and> ag_status g (rec_key demo_recording) = Some (report [demo_recording])"
proof -
  let ?g = "fold (agg_do (\<lambda>old new. new)) demo_history (agg_New Map.empty)"
  have key: "rec_key demo_allowed = rec_key demo_recording" by (simp add: demo_allowed_def)
  have "le_calls (ledger demo_history) (rec_key demo_recording) = [demo_recording, demo_allowed]"
    "le_todo (ledger demo_history) = []" "le_reported (ledger demo_history) (rec_key demo_recording) = [[demo_recording]]"
    by (simp_all add: ledger_def demo_history_def ledger_empty_def key)
  with aggregates_consistent [OF demo_history_run [of "\<lambda>old new. new"] refl, of "rec_key demo_recording"] demo_history_run
  show ?thesis by (intro exI [of _ ?g]) simp
qed

text \<open>
  the offenders.  The list that \<^verbatim>\<open>topOffenders\<close> makes does not depend on the order in which the map
  of counters is walked; it has at most \<open>n\<close> entries, in the order of \<^verbatim>\<open>sort.Slice\<close>, and an entry that
  is left out ranks behind every entry that is listed.
\<close>

theorem top_offenders_determined:
  assumes "distinct order" "distinct order'" "set order' = set order"
  shows "topOffenders order' m n = topOffenders order m n
    \<and> length (topOffenders order m n) \<le> nat n
    \<and> sorted_wrt ranked_less (topOffenders order m n)
    \<and> list_all (\<lambda>k. ranked_entry m k \<in> set (topOffenders order m n) \<or>
        list_all (\<lambda>r. ranked_less r (ranked_entry m k)) (topOffenders order m n)) order"
proof (intro conjI)
  let ?all = "sort (map (ranked_entry m) order)"
  have dist: "distinct ?all" using assms(1) ranked_entry_inj by (simp add: distinct_map inj_on_subset [of _ UNIV])
  show "topOffenders order' m n = topOffenders order m n"
    using sort_order_free [OF assms(2,1,3), of "ranked_entry m"] by (simp add: topOffenders_take)
  show "length (topOffenders order m n) \<le> nat n" by (simp add: topOffenders_take)
  have "sorted_wrt (<) ?all" using dist by (simp add: strict_sorted_iff)
  then show "sorted_wrt ranked_less (topOffenders order m n)"
    by (simp add: topOffenders_take sorted_wrt_take less_ranked_def [abs_def])
  show "list_all (\<lambda>k. ranked_entry m k \<in> set (topOffenders order m n) \<or>
      list_all (\<lambda>r. ranked_less r (ranked_entry m k)) (topOffenders order m n)) order"
    unfolding list_all_iff
  proof (intro ballI disjCI)
    fix k r assume k: "k \<in> set order" and out: "\<not> (\<forall>r\<in>set (topOffenders order m n). ranked_less r (ranked_entry m k))"
    then obtain r where r: "r \<in> set (topOffenders order m n)" "\<not> r < ranked_entry m k"
      by (auto simp: less_ranked_def)
    show "ranked_entry m k \<in> set (topOffenders order m n)"
    proof (rule ccontr)
      assume "ranked_entry m k \<notin> set (topOffenders order m n)"
      moreover from this r k have "r \<le> ranked_entry m k"
        by (intro take_sorted_below [of ?all r "nat n"]) (simp_all add: topOffenders_take)
      ultimately show False using r by auto
    qed
  qed
qed

definition demo_tuple :: "string \<Rightarrow> tupleKey" where
  "demo_tuple src = \<lparr>tup_srcPod = src, tup_dstPod = ''web/y'', tup_protocol = ''TCP'', tup_direction = ''Ingress'', tup_dstPort = 80\<rparr>"

definition demo_tuples :: "tupleKey \<rightharpoonup> i64" where
  "demo_tuples = [demo_tuple ''a/x'' \<mapsto> 2, demo_tuple ''a/z'' \<mapsto> 2]"

theorem top_offenders_determined_witness:
  "topOffenders [demo_tuple ''a/z'', demo_tuple ''a/x''] demo_tuples 1
    = topOffenders [demo_tuple ''a/x'', demo_tuple ''a/z''] demo_tuples 1"
  using top_offenders_determined [of "[demo_tuple ''a/x'', demo_tuple ''a/z'']" "[demo_tuple ''a/z'', demo_tuple ''a/x'']" demo_tuples 1]
  by (simp add: demo_tuple_def insert_commute)

section \<open>The status after a restart\<close>

text \<open>A merge patch: a field the patch carries replaces the old one, and the others stay.\<close>

definition merges :: "(status_doc \<Rightarrow> status_doc \<Rightarrow> status_doc) \<Rightarrow> bool" where
  "merges merge \<longleftrightarrow> (\<forall>old p.
     st_flowsEvaluated (merge old p) = (case st_flowsEvaluated p of None \<Rightarrow> st_flowsEvaluated old | Some v \<Rightarrow> Some v) \<and>
     st_flowsWouldDeny (merge old p) = (case st_flowsWouldDeny p of None \<Rightarrow> st_flowsWouldDeny old | Some v \<Rightarrow> Some v) \<and>
     st_topOffenders (merge old p) = (case st_topOffenders p of None \<Rightarrow> st_topOffenders old | Some v \<Rightarrow> Some v))"

text \<open>
  C34: stale statuses.  After a restart the counters begin at zero, and a zero count or an empty
  list is left out of the patch: as long as no flow is denied, the flush writes the new number of
  evaluated flows beside the old number of denied ones and the old offenders.
\<close>

theorem status_survives_restart:
  assumes "merges merge" and "ag_status g k = Some st"
    and "calls_for k rs \<noteq> []" and "length (calls_for k rs) < 2 ^ 64" and "list_all (\<lambda>r. \<not> rec_wouldDeny r) rs"
    and "g' = flush_turn merge False Patched [] (flush_start [k] (agg_New (ag_status g)\<lparr>ag_counts := fold Record rs Map.empty\<rparr>))"
  shows "\<exists>st'. ag_status g' k = Some st' \<and> st_flowsEvaluated st' = Some (word_of_nat (length (calls_for k rs)))
    \<and> st_flowsWouldDeny st' = st_flowsWouldDeny st \<and> st_topOffenders st' = st_topOffenders st"
proof -
  let ?c = "calls_for k rs"
  have counts: "fold Record rs Map.empty k = Some (summary ?c)"
    using assms(3) by (simp add: fold_Record extend_agg_def fold_new)
  have none: "filter rec_wouldDeny ?c = []"
    using assms(5) by (auto simp: calls_for_def list_all_iff filter_empty_conv)
  have nz: "(word_of_nat (length ?c) :: i64) \<noteq> 0"
  proof
    assume "(word_of_nat (length ?c) :: i64) = 0"
    then have "unat (word_of_nat (length ?c) :: i64) = 0" by simp
    then show False using assms(3,4) by (simp add: unsigned_of_nat take_bit_nat_eq_self)
  qed
  have patch: "st_flowsEvaluated (status_patch n [] (summary ?c)) = Some (word_of_nat (length ?c))"
    "st_flowsWouldDeny (status_patch n [] (summary ?c)) = None" "st_topOffenders (status_patch n [] (summary ?c)) = None" for n
    using nz none by (simp_all add: status_patch_def omitempty_def summary_def topOffenders_def)
  have "ag_status g' k = Some (merge st (status_patch 25 [] (summary ?c)))"
    by (simp add: assms(2,6) flush_turn_def flush_start_def agg_New_def List.map_filter_def counts)
  with assms(1) patch show ?thesis by (simp add: merges_def)
qed

definition demo_merge :: "status_doc \<Rightarrow> status_doc \<Rightarrow> status_doc" where
  "demo_merge old p = (let pick = (\<lambda>a b. case a of None \<Rightarrow> b | Some v \<Rightarrow> Some v) in
     old\<lparr>st_flowsEvaluated := pick (st_flowsEvaluated p) (st_flowsEvaluated old),
       st_flowsWouldDeny := pick (st_flowsWouldDeny p) (st_flowsWouldDeny old),
       st_topOffenders := (case st_topOffenders p of None \<Rightarrow> st_topOffenders old | Some v \<Rightarrow> Some v)\<rparr>)"

definition demo_status :: status_doc where
  "demo_status = no_status\<lparr>st_flowsEvaluated := Some 5, st_flowsWouldDeny := Some 5\<rparr>"

theorem status_survives_restart_witness:
  "\<exists>st'. ag_status (flush_turn demo_merge False Patched [] (flush_start [rec_key demo_allowed]
      (agg_New [rec_key demo_allowed \<mapsto> demo_status]\<lparr>ag_counts := fold Record [demo_allowed] Map.empty\<rparr>)))
      (rec_key demo_allowed) = Some st'
    \<and> st_flowsEvaluated st' = Some 1 \<and> st_flowsWouldDeny st' = Some 5"
proof -
  have "merges demo_merge" by (simp add: merges_def demo_merge_def Let_def)
  from status_survives_restart [OF this, of "agg_New [rec_key demo_allowed \<mapsto> demo_status]" "rec_key demo_allowed"
      demo_status "[demo_allowed]", OF _ _ _ _ refl]
  have "\<exists>st'. ag_status (flush_turn demo_merge False Patched [] (flush_start [rec_key demo_allowed]
      (agg_New [rec_key demo_allowed \<mapsto> demo_status]\<lparr>ag_counts := fold Record [demo_allowed] Map.empty\<rparr>)))
      (rec_key demo_allowed) = Some st' \<and> st_flowsEvaluated st' = Some (word_of_nat 1)
      \<and> st_flowsWouldDeny st' = st_flowsWouldDeny demo_status"
    by (auto simp: demo_allowed_def agg_New_def)
  then show ?thesis by (auto simp: demo_status_def)
qed

end
