(* ===== verification/Evaluate_Props.thy ===== *)
theory Evaluate_Props
  imports Policy_Props Status_Props
begin

text \<open>
  The evaluator as a whole: the policy cache holds what the watch events left, a request evaluates
  every live policy that selects the flow exactly once, and its verdicts are what the counters
  advance by.
\<close>

section \<open>The cache\<close>

lemma store_view_New: "store_view (store_New pods nss) = no_policies"
  by (simp add: store_view_def store_New_def no_policies_def PoliciesInNamespace_def ClusterPolicies_def list_at_def fun_eq_iff)

lemma in_namespace_iff:
  assumes "store_ok s"
  shows "p \<in> set (PoliciesInNamespace s ns) \<longleftrightarrow> cv_policies (store_view s) (ns, np_Name p) = Some p"
  using assms by (simp add: store_ok_def store_view_def by_name_some)

lemma in_cluster_iff:
  assumes "store_ok s"
  shows "cp \<in> set (ClusterPolicies s) \<longleftrightarrow> cv_cluster (store_view s) (cnp_Name cp) = Some cp"
  using assms by (simp add: store_ok_def store_view_def by_name_some)

text \<open>
  C32: the policy cache.  After any sequence of watch events, a policy is among those that
  \<^verbatim>\<open>PoliciesInNamespace\<close> or \<^verbatim>\<open>ClusterPolicies\<close> returns exactly when the last event that said anything of
  its name said that it is this policy: additions and updates whose object cannot be converted say
  nothing, and a deletion is one whether the object comes bare or in a tombstone.  Each name is there once.
\<close>

theorem policy_cache_follows_events:
  "let s = store_run a es (store_New pods nss)
   in (p \<in> set (PoliciesInNamespace s ns) \<longleftrightarrow> last_word (policy_word a) (ns, np_Name p) es = Some (Some p))
    \<and> (cp \<in> set (ClusterPolicies s) \<longleftrightarrow> last_word (cluster_word a) (cnp_Name cp) es = Some (Some cp))
    \<and> distinct (map np_Name (PoliciesInNamespace s ns)) \<and> distinct (map cnp_Name (ClusterPolicies s))"
proof -
  let ?s = "store_run a es (store_New pods nss)"
  have "store_ok ?s" and "store_view ?s = view_run a es no_policies"
    using store_run_refines [OF store_ok_New, of a es pods nss] by (simp_all add: store_view_New)
  with in_namespace_iff [of ?s p ns] in_cluster_iff [of ?s cp] show ?thesis
    by (auto simp: Let_def store_ok_def view_last_word bind_eq_Some_conv)
qed

section \<open>A request\<close>

lemma filter_named:
  assumes "distinct (map f ps)" and "p \<in> set ps"
    and "\<And>q. q \<in> set ps \<Longrightarrow> f q \<noteq> f p \<Longrightarrow> filter P (g q) = []"
  shows "filter P (concat (map g ps)) = filter P (g p)"
  using assms
proof (induction ps)
  case (Cons q qs)
  show ?case
  proof (cases "q = p")
    case True
    with Cons.prems(1) have "\<And>r. r \<in> set qs \<Longrightarrow> f r \<noteq> f p" by (metis distinct.simps(2) imageI list.map(2) set_map)
    with Cons.prems(3) have "filter P (concat (map g qs)) = []" by (auto simp: filter_empty_conv)
    with True show ?thesis by simp
  next
    case False
    with Cons.prems have "f q \<noteq> f p" and "p \<in> set qs" by auto
    with Cons show ?thesis by simp
  qed
qed simp

lemma filter_other:
  assumes "\<And>q. q \<in> set ps \<Longrightarrow> filter P (g q) = []"
  shows "filter P (concat (map g ps)) = []"
  using assms by (auto simp: filter_empty_conv)

definition about :: "string \<Rightarrow> string \<Rightarrow> Direction \<Rightarrow> Result \<Rightarrow> bool" where
  "about ns name dir r \<longleftrightarrow> PolicyNamespace r = ns \<and> PolicyName r = name \<and> res_Direction r = dir"

lemma about_Match:
  "filter (about ns name dir) (Match as_selector flow q lookup) =
     (if np_Namespace q = ns \<and> np_Name q = name then filter (\<lambda>r. res_Direction r = dir) (Match as_selector flow q lookup) else [])"
  by (auto simp: about_def Match_def filter_empty_conv intro!: filter_cong)

lemma about_MatchCluster: "ns \<noteq> [] \<Longrightarrow> filter (about ns name dir) (MatchCluster as_selector flow cp lookup) = []"
  by (auto simp: about_def MatchCluster_def filter_empty_conv)

text \<open>The subject of a direction is in the namespace the flow names for it.\<close>

lemma applicable_namespace:
  assumes "informer_keyed s" and "audit_verdict as_selector (store_Lookup s) flow p dir \<noteq> VerdictNotApplicable"
  shows "np_Namespace p \<noteq> [] \<and> (np_Namespace p = DstPodNamespace flow \<or> np_Namespace p = SrcPodNamespace flow)"
proof -
  obtain pod where sub: "subjectPod flow dir (store_Lookup s) = Some pod" and sel: "selects_pod as_selector p pod"
    using assms(2) by (auto simp: audit_verdict_def policy_verdict_def split: option.splits if_splits)
  have "pod_Namespace pod \<noteq> [] \<and> (pod_Namespace pod = DstPodNamespace flow \<or> pod_Namespace pod = SrcPodNamespace flow)"
    using sub keyed_informer.GetPod_names [OF informer_keyed_locale [OF assms(1)]]
    by (fastforce simp: subjectPod_def store_Lookup_def split: if_splits)
  with sel show ?thesis by (simp add: selects_pod_def)
qed

text \<open>
  C10: one verdict per policy.  After any sequence of watch events, a request returns for every live
  policy and every direction in which it applies to the flow exactly one result, whatever the
  namespaces of the two ends, and its verdict is that of the reference semantics.
\<close>

theorem live_policy_evaluated_once:
  assumes "s = store_run a es (store_New pods nss)" and "informer_keyed s"
    and "cv_policies (view_run a es no_policies) (ns, name) = Some p"
    and "dir = DirectionIngress \<or> dir = DirectionEgress"
    and "applies_in (spec_PolicyTypes (np_Spec p)) (spec_Egress (np_Spec p) \<noteq> []) dir"
    and "audit_verdict as_selector (store_Lookup s) flow p dir \<noteq> VerdictNotApplicable"
  shows "map res_Verdict (filter (about ns name dir) (evaluate_flow as_selector s flow)) =
    [audit_verdict as_selector (store_Lookup s) flow p dir]"
proof -
  have ok: "store_ok s" and view: "store_view s = view_run a es no_policies"
    using store_run_refines [OF store_ok_New, of a es pods nss] by (simp_all add: assms(1) store_view_New)
  have find: "by_name np_Name (PoliciesInNamespace s ns) name = Some p"
    using assms(3) by (simp add: store_view_def flip: view)
  with ok have p: "p \<in> set (PoliciesInNamespace s ns)" "np_Name p = name" "np_Namespace p = ns"
    by (auto simp: store_ok_def by_name_some list_all_iff)
  have ns: "ns \<noteq> []" "ns = DstPodNamespace flow \<or> ns = SrcPodNamespace flow"
    using applicable_namespace [OF assms(2,6)] p by simp_all
  let ?P = "about ns name dir" and ?M = "\<lambda>q. Match as_selector flow q (store_Lookup s)"
  have here: "filter ?P (concat (map ?M (PoliciesInNamespace s ns))) = filter ?P (?M p)"
    using ok p by (intro filter_named [of np_Name]) (auto simp: store_ok_def about_Match)
  have away: "filter ?P (concat (map ?M (PoliciesInNamespace s ns'))) = []" if "ns' \<noteq> ns" for ns'
    using ok that by (intro filter_other) (auto simp: store_ok_def list_all_iff about_Match)
  have cluster: "filter ?P (concat (map (\<lambda>cp. MatchCluster as_selector flow cp (store_Lookup s)) (ClusterPolicies s))) = []"
    using ns(1) by (intro filter_other) (simp add: about_MatchCluster)
  have "filter ?P (evaluate_flow as_selector s flow) = filter ?P (?M p)"
    using ns here away [of "SrcPodNamespace flow"] away [of "DstPodNamespace flow"]
    by (auto simp: evaluate_flow_def cluster)
  with verdicts_in_direction(1) [OF assms(2,4), of as_selector flow p] assms(5) p show ?thesis
    by (simp add: about_Match)
qed

definition demo_accessors :: "((string \<times> string) list AuditNetworkPolicy, (string \<times> string) list) accessors" where
  "demo_accessors = \<lparr>acc_namespace = np_Namespace, acc_name = np_Name, acc_policy = Some, acc_cluster = (\<lambda>u. None)\<rparr>"

definition demo_events :: "(string \<times> string) list AuditNetworkPolicy store_event list" where
  "demo_events = [PolicySet (Unstructured (demo_policy\<lparr>np_Generation := 1\<rparr>)), PolicySet (Unstructured demo_policy)]"

lemma demo_run:
  "store_run demo_accessors demo_events shop_store = shop_store\<lparr>policiesByNamespace := [''shop'' \<mapsto> [demo_policy]]\<rparr>"
  by (simp add: demo_events_def demo_accessors_def onPolicyAddOrUpdate_def demo_policy_def shop_store_def store_New_def list_at_def)

lemma demo_run_lookup: "store_Lookup (store_run demo_accessors demo_events shop_store) = store_Lookup shop_store"
  by (simp add: demo_run store_Lookup_def store_GetPod_def store_GetNamespaceLabels_def fun_eq_iff)

theorem live_policy_evaluated_once_witness:
  "map res_Verdict (filter (about ''shop'' ''web'' DirectionIngress)
     (evaluate_flow demo_selector (store_run demo_accessors demo_events shop_store) (shop_flow ''web-0''))) = [VerdictWouldDeny]"
proof -
  let ?s = "store_run demo_accessors demo_events shop_store"
  have keyed: "informer_keyed ?s" using shop_store_keyed by (simp add: demo_run informer_keyed_def)
  have live: "cv_policies (view_run demo_accessors demo_events no_policies) (''shop'', ''web'') = Some demo_policy"
    by (simp add: demo_events_def demo_accessors_def demo_policy_def no_policies_def)
  have verdict: "audit_verdict demo_selector (store_Lookup ?s) (shop_flow ''web-0'') demo_policy DirectionIngress = VerdictWouldDeny"
    by (simp add: demo_run_lookup demo_verdicts)
  show ?thesis
    using live_policy_evaluated_once [OF _ keyed live, of "holding [shop_pod ''shop'' ''web-0'' ''web'', shop_pod ''shop'' ''front-0'' ''front'']"
        "\<lambda>k. Absent" DirectionIngress demo_selector "shop_flow ''web-0''"] verdict demo_applies
    by (simp flip: shop_store_def)
qed

section \<open>Counting\<close>

definition counted :: "Result \<Rightarrow> bool" where
  "counted r \<longleftrightarrow> res_Verdict r \<noteq> VerdictNotApplicable"

definition result_key :: "Result \<Rightarrow> policyKey" where
  "result_key r = \<lparr>key_namespace = PolicyNamespace r, key_name = PolicyName r\<rparr>"

lemma record_results_fold:
  "record_results now flow rs sv =
     sv\<lparr>sv_agg := map_option (fold Record (map (result_recording now flow) (filter counted rs))) (sv_agg sv),
        sv_denied := sv_denied sv + word_of_nat (length (filter (\<lambda>r. res_Verdict r = VerdictWouldDeny) rs))\<rparr>"
proof (induction rs arbitrary: sv)
  case Nil
  then show ?case by (cases sv; cases "sv_agg sv") simp_all
next
  case (Cons r rs)
  then show ?case by (auto simp: counted_def Let_def split: option.split)
qed

definition evaluated_count :: "counts \<Rightarrow> policyKey \<Rightarrow> i64" where
  "evaluated_count c k = (case c k of None \<Rightarrow> 0 | Some a \<Rightarrow> flowsEvaluated a)"

definition denied_count :: "counts \<Rightarrow> policyKey \<Rightarrow> i64" where
  "denied_count c k = (case c k of None \<Rightarrow> 0 | Some a \<Rightarrow> flowsWouldDeny a)"

lemma record_agg_counts:
  "flowsEvaluated (record_agg r a) = flowsEvaluated a + 1"
  "flowsWouldDeny (record_agg r a) = flowsWouldDeny a + (if rec_wouldDeny r then 1 else 0)"
  by (simp_all add: record_agg_def Let_def)

lemma fold_record_counts:
  "flowsEvaluated (fold record_agg rs a) = flowsEvaluated a + word_of_nat (length rs)"
  "flowsWouldDeny (fold record_agg rs a) = flowsWouldDeny a + word_of_nat (length (filter rec_wouldDeny rs))"
  by (induction rs arbitrary: a) (simp_all add: record_agg_counts)

lemma counts_advance:
  "evaluated_count (fold Record rs c) k = evaluated_count c k + word_of_nat (length (calls_for k rs))"
  "denied_count (fold Record rs c) k = denied_count c k + word_of_nat (length (filter rec_wouldDeny (calls_for k rs)))"
  by (cases "c k"; simp add: evaluated_count_def denied_count_def fold_Record extend_agg_def fold_record_counts new_agg_def)+

lemma calls_of_results:
  "calls_for k (map (result_recording now flow) rs) = map (result_recording now flow) (filter (\<lambda>r. result_key r = k) rs)"
  by (simp add: calls_for_def filter_map comp_def result_recording_def result_key_def)

text \<open>The time of a flow is not looked at.\<close>

lemma untimed [simp]:
  "subjectPod (flow\<lparr>Timestamp := t\<rparr>) dir lookup = subjectPod flow dir lookup"
  "peerPod (flow\<lparr>Timestamp := t\<rparr>) dir lookup = peerPod flow dir lookup"
  "portTargetPod (flow\<lparr>Timestamp := t\<rparr>) dir lookup = portTargetPod flow dir lookup"
  "peerIP (flow\<lparr>Timestamp := t\<rparr>) dir = peerIP flow dir"
  "subject_ns (flow\<lparr>Timestamp := t\<rparr>) dir = subject_ns flow dir"
  "portEntryMatches (flow\<lparr>Timestamp := t\<rparr>) pt pod = portEntryMatches flow pt pod"
  by (simp_all add: subjectPod_def peerPod_def portTargetPod_def peerIP_def subject_ns_def portEntryMatches_def Let_def split: option.split)

lemma untimed_loops [simp]:
  "ports_loop (flow\<lparr>Timestamp := t\<rparr>) pts pod = ports_loop flow pts pod"
  "peerEntryMatches as_selector pod (flow\<lparr>Timestamp := t\<rparr>) dir p lookup = peerEntryMatches as_selector pod flow dir p lookup"
  "peers_loop as_selector pod (flow\<lparr>Timestamp := t\<rparr>) dir ps lookup = peers_loop as_selector pod flow dir ps lookup"
proof -
  show "ports_loop (flow\<lparr>Timestamp := t\<rparr>) pts pod = ports_loop flow pts pod" by (induction pts) simp_all
  show entry: "peerEntryMatches as_selector pod (flow\<lparr>Timestamp := t\<rparr>) dir p lookup =
      peerEntryMatches as_selector pod flow dir p lookup" for p
    unfolding peerEntryMatches_def untimed ..
  show "peers_loop as_selector pod (flow\<lparr>Timestamp := t\<rparr>) dir ps lookup = peers_loop as_selector pod flow dir ps lookup"
    by (induction ps) (simp_all add: entry)
qed

lemma untimed_lists [simp]:
  "peerListMatches as_selector (flow\<lparr>Timestamp := t\<rparr>) dir ps lookup = peerListMatches as_selector flow dir ps lookup"
  "portsMatch (flow\<lparr>Timestamp := t\<rparr>) pts pod = portsMatch flow pts pod"
  by (simp_all add: peerListMatches_def portsMatch_def)

lemma untimed_rules [simp]:
  "ingress_loop as_selector (flow\<lparr>Timestamp := t\<rparr>) dir irs pod lookup = ingress_loop as_selector flow dir irs pod lookup"
  "egress_loop as_selector (flow\<lparr>Timestamp := t\<rparr>) dir ers pod lookup = egress_loop as_selector flow dir ers pod lookup"
  by (induction irs, simp_all) (induction ers, simp_all)

lemma untimed_Match [simp]:
  "Match as_selector (flow\<lparr>Timestamp := t\<rparr>) p lookup = Match as_selector flow p lookup"
  "MatchCluster as_selector (flow\<lparr>Timestamp := t\<rparr>) cp lookup = MatchCluster as_selector flow cp lookup"
  unfolding Match_def MatchCluster_def match_direction_def match_direction_cluster_def evaluateRules_def
    evaluateRulesCluster_def untimed untimed_rules by (rule refl)+

lemma untimed_flow: "evaluate_flow as_selector s (flow\<lparr>Timestamp := t\<rparr>) = evaluate_flow as_selector s flow"
  by (simp add: evaluate_flow_def)

definition offender_count :: "counts \<Rightarrow> policyKey \<Rightarrow> tupleKey \<Rightarrow> i64" where
  "offender_count c k t = (case c k of None \<Rightarrow> 0 | Some a \<Rightarrow> (case tuples a t of None \<Rightarrow> 0 | Some n \<Rightarrow> n))"

lemma fold_record_tuples:
  "(case tuples (fold record_agg rs a) t of None \<Rightarrow> 0 | Some n \<Rightarrow> n) =
   (case tuples a t of None \<Rightarrow> 0 | Some n \<Rightarrow> n) + word_of_nat (denials t rs)"
proof (induction rs arbitrary: a)
  case (Cons r rs)
  have "(case tuples (record_agg r a) t of None \<Rightarrow> 0 | Some n \<Rightarrow> n) =
      (case tuples a t of None \<Rightarrow> 0 | Some n \<Rightarrow> n) + (if rec_wouldDeny r \<and> rec_tuple r = t then 1 else 0)"
    by (auto simp: record_agg_def count_up_def Let_def)
  with Cons.IH [of "record_agg r a"] show ?case by (simp add: denials_def)
qed (simp add: denials_def)

lemma offenders_advance:
  "offender_count (fold Record rs c) k t = offender_count c k t + word_of_nat (denials t (calls_for k rs))"
  using fold_record_tuples [of "calls_for k rs"]
  by (cases "c k") (simp_all add: offender_count_def fold_Record extend_agg_def new_agg_def denials_def)

text \<open>The offender a denied flow is counted under.\<close>

definition offender :: "Flow \<Rightarrow> Direction \<Rightarrow> tupleKey" where
  "offender flow dir = \<lparr>tup_srcPod = SrcPodNamespace flow @ ''/'' @ SrcPodName flow,
     tup_dstPod = DstPodNamespace flow @ ''/'' @ DstPodName flow, tup_protocol = flow_Protocol flow,
     tup_direction = dir, tup_dstPort = DstPort flow\<rparr>"

text \<open>
  C40: a request and its counters.  A request that is not a POST is answered 405, a body that does not
  decode within its first 64 KiB 400, and neither changes anything.  Any other request is answered with the
  results of its flow, and for every policy: the flows evaluated grow by its results other than ``not
  applicable'', the flows that would be denied by its denials, and the offender made of the flow's two pods,
  its protocol and port and a direction by its denials in that direction.  Where no aggregator is
  configured, the total of denials is still counted.
\<close>

theorem request_counts_verdicts:
  assumes "handleEvaluate as_selector decode now s r sv = (resp, sv')"
  shows "if req_Method r \<noteq> ''POST'' then resp = HttpError 405 \<and> sv' = sv
    else case decode (take 65536 (req_Body r)) of
      None \<Rightarrow> resp = HttpError 400 \<and> sv' = sv
    | Some flow \<Rightarrow>
        (let rs = evaluate_flow as_selector s flow; of_k = (\<lambda>x. PolicyNamespace x = key_namespace k \<and> PolicyName x = key_name k);
             denies = (\<lambda>x. res_Verdict x = VerdictWouldDeny)
         in resp = Results rs
          \<and> sv_denied sv' = sv_denied sv + word_of_nat (length (filter denies rs))
          \<and> (case sv_agg sv of None \<Rightarrow> sv_agg sv' = None | Some c \<Rightarrow> \<exists>c'. sv_agg sv' = Some c'
            \<and> evaluated_count c' k = evaluated_count c k +
                word_of_nat (length (filter (\<lambda>x. of_k x \<and> res_Verdict x \<noteq> VerdictNotApplicable) rs))
            \<and> denied_count c' k = denied_count c k + word_of_nat (length (filter (\<lambda>x. of_k x \<and> denies x) rs))
            \<and> offender_count c' k (offender flow dir) = offender_count c k (offender flow dir) +
                word_of_nat (length (filter (\<lambda>x. of_k x \<and> denies x \<and> res_Direction x = dir) rs))))"
proof (cases "req_Method r = ''POST''")
  case True
  show ?thesis
  proof (cases "decode (take 65536 (req_Body r))")
    case None
    with True assms show ?thesis by (auto simp: handleEvaluate_def StatusBadRequest_def)
  next
    case (Some flow)
    let ?flow = "if Timestamp flow = 0 then flow\<lparr>Timestamp := now\<rparr> else flow"
    let ?rs = "evaluate_flow as_selector s flow"
    have resp: "resp = Results ?rs" and sv': "sv' = record_results now ?flow ?rs sv"
      using True Some assms by (auto simp: handleEvaluate_def Let_def untimed_flow)
    define calls where "calls = map (result_recording now ?flow) (filter counted ?rs)"
    have agg: "sv_agg sv' = map_option (fold Record calls) (sv_agg sv)"
      and total: "sv_denied sv' = sv_denied sv + word_of_nat (length (filter (\<lambda>r. res_Verdict r = VerdictWouldDeny) ?rs))"
      by (simp_all add: sv' record_results_fold calls_def)
    have mine: "result_key x = k \<longleftrightarrow> PolicyNamespace x = key_namespace k \<and> PolicyName x = key_name k" for x
      by (auto simp: result_key_def)
    have len: "length (calls_for k calls) = length (filter (\<lambda>x. (PolicyNamespace x = key_namespace k \<and> PolicyName x = key_name k) \<and> res_Verdict x \<noteq> VerdictNotApplicable) ?rs)"
      "length (filter rec_wouldDeny (calls_for k calls)) =
        length (filter (\<lambda>x. (PolicyNamespace x = key_namespace k \<and> PolicyName x = key_name k) \<and> res_Verdict x = VerdictWouldDeny) ?rs)"
      "denials (offender flow dir) (calls_for k calls) =
        length (filter (\<lambda>x. (PolicyNamespace x = key_namespace k \<and> PolicyName x = key_name k) \<and> res_Verdict x = VerdictWouldDeny
          \<and> res_Direction x = dir) ?rs)"
      unfolding calls_def calls_of_results denials_def
      by (auto simp: filter_map comp_def result_recording_def counted_def mine offender_def intro!: arg_cong [of _ _ length] filter_cong)
    show ?thesis
      using True Some agg total counts_advance [of calls _ k] offenders_advance [of calls _ k]
      by (cases "sv_agg sv") (simp_all add: resp len)
  qed
next
  case False
  with assms show ?thesis by (auto simp: handleEvaluate_def StatusMethodNotAllowed_def)
qed

definition demo_request :: "string \<Rightarrow> request" where
  "demo_request m = \<lparr>req_Method = m, req_Body = []\<rparr>"

theorem request_counts_verdicts_witness:
  "\<exists>resp sv'. handleEvaluate demo_selector (\<lambda>b. Some (shop_flow ''web-0'')) 7
      (store_run demo_accessors demo_events shop_store) (demo_request ''POST'') \<lparr>sv_agg = Some Map.empty, sv_denied = 0\<rparr> = (resp, sv')
    \<and> sv_denied sv' = 1
    \<and> evaluated_count (the (sv_agg sv')) \<lparr>key_namespace = ''shop'', key_name = ''web''\<rparr> = 1
    \<and> offender_count (the (sv_agg sv')) \<lparr>key_namespace = ''shop'', key_name = ''web''\<rparr> (offender (shop_flow ''web-0'') DirectionIngress) = 1"
proof -
  let ?s = "store_run demo_accessors demo_events shop_store" and ?k = "\<lparr>key_namespace = ''shop'', key_name = ''web''\<rparr>"
  let ?sv = "\<lparr>sv_agg = Some Map.empty, sv_denied = 0\<rparr> :: server" and ?rs = "evaluate_flow demo_selector ?s (shop_flow ''web-0'')"
  obtain resp sv' where h: "handleEvaluate demo_selector (\<lambda>b. Some (shop_flow ''web-0'')) 7 ?s (demo_request ''POST'') ?sv = (resp, sv')"
    by fastforce
  have "length (filter (\<lambda>x. res_Verdict x = VerdictWouldDeny) ?rs) = 1"
    and "length (filter (\<lambda>x. (PolicyNamespace x = ''shop'' \<and> PolicyName x = ''web'') \<and> res_Verdict x \<noteq> VerdictNotApplicable) ?rs) = 1"
    and "length (filter (\<lambda>x. (PolicyNamespace x = ''shop'' \<and> PolicyName x = ''web'') \<and> res_Verdict x = VerdictWouldDeny
      \<and> res_Direction x = DirectionIngress) ?rs) = 1"
    by code_simp+
  with request_counts_verdicts [OF h, of ?k DirectionIngress] have "sv_denied sv' = 1
    \<and> evaluated_count (the (sv_agg sv')) ?k = 1 \<and> offender_count (the (sv_agg sv')) ?k (offender (shop_flow ''web-0'') DirectionIngress) = 1"
    by (auto simp: demo_request_def Let_def evaluated_count_def [of Map.empty] offender_count_def [of Map.empty])
  with h show ?thesis by blast
qed

end
