(* ===== verification/Advisor_Rules.thy ===== *)
theory Advisor_Rules
  imports Policy_Matcher "HOL-Library.AList" "HOL-Library.List_Lexorder" "HOL-Library.Char_ord"
begin

text \<open>
  From stored traffic rows to rules, in \<^verbatim>\<open>src/advisor/pkg/network\<close> (\<^verbatim>\<open>types.go\<close> and the parts of
  \<^verbatim>\<open>standard_policy.go\<close> before the Kubernetes objects): which rows count, the port they name, and
  the list of rules, one per peer, that a row is merged into.  The Kubernetes libraries are the
  parameter \<open>kube\<close>: \<^verbatim>\<open>intstr.FromInt\<close>, \<^verbatim>\<open>IntOrString.String\<close> and the label selector with given
  \<^verbatim>\<open>MatchLabels\<close>.
\<close>

section \<open>Data\<close>

record PodTraffic =
  tr_UUID :: string
  tr_SrcPodName :: string
  tr_SrcIP :: string
  tr_SrcNamespace :: string
  tr_SrcPodPort :: string
  tr_TrafficType :: string
  tr_DstIP :: string
  tr_DstPort :: string
  tr_Protocol :: Protocol

record PodDetail =
  pd_UUID :: string
  pd_PodIP :: string
  pd_Name :: string
  pd_Namespace :: string
  pd_Pod :: Pod

record SvcDetail =
  svc_Ip :: string
  svc_Name :: string
  svc_Namespace :: string
  svc_Selector :: labels

record NetworkPolicyRule =
  rule_PeerIP :: string
  rule_Ports :: "NetworkPolicyPort list"

record 's kube =
  FromInt :: "int \<Rightarrow> IntOrString"
  String :: "IntOrString \<Rightarrow> string"
  MatchLabels :: "labels \<Rightarrow> 's"

section \<open>Go's string functions\<close>

definition lower :: "char \<Rightarrow> nat" where
  "lower c = (let n = of_char c in if 65 \<le> n \<and> n \<le> 90 then n + 32 else n)"

text \<open>\<^verbatim>\<open>strings.EqualFold\<close> for a second argument in ASCII.  Outside ASCII only the long s
  (\<^verbatim>\<open>C5 BF\<close> in UTF-8) and the Kelvin sign (\<^verbatim>\<open>E2 84 AA\<close>) fold to ASCII letters.\<close>

fun EqualFold :: "string \<Rightarrow> string \<Rightarrow> bool" where
  "EqualFold [] t = (t = [])"
| "EqualFold (c # s) [] = False"
| "EqualFold (c # s) (d # t) =
     (if of_char c < (128 :: nat) then lower c = lower d \<and> EqualFold s t
      else case c # s of
        b1 # b2 # s2 \<Rightarrow>
          if b1 = CHR 0xC5 \<and> b2 = CHR 0xBF then lower d = of_char CHR ''s'' \<and> EqualFold (List.drop 1 s) t
          else (case s2 of
            b3 # s3 \<Rightarrow>
              if b1 = CHR 0xE2 \<and> b2 = CHR 0x84 \<and> b3 = CHR 0xAA
              then lower d = of_char CHR ''k'' \<and> EqualFold (List.drop 2 s) t else False
          | [] \<Rightarrow> False)
      | _ \<Rightarrow> False)"

text \<open>\<^verbatim>\<open>strconv.Atoi\<close>, with an \<^verbatim>\<open>int\<close> of 64 bits; \<open>None\<close> for a syntax or range error.\<close>

fun digits_val :: "nat \<Rightarrow> string \<Rightarrow> nat option" where
  "digits_val acc [] = Some acc"
| "digits_val acc (c # cs) = (case dec_val c of None \<Rightarrow> None | Some d \<Rightarrow> digits_val (acc * 10 + d) cs)"

definition Atoi :: "string \<Rightarrow> int option" where
  "Atoi s =
     (let (neg, ds) = (case s of [] \<Rightarrow> (False, [])
            | c # cs \<Rightarrow> if c = CHR ''-'' then (True, cs) else if c = CHR ''+'' then (False, cs) else (False, s))
      in if ds = [] then None
         else case digits_val 0 ds of
           None \<Rightarrow> None
         | Some n \<Rightarrow>
             (let v = (if neg then - int n else int n)
              in if - (2 ^ 63) \<le> v \<and> v < 2 ^ 63 then Some v else None))"

section \<open>Rows\<close>

definition IsIngressTraffic :: "PodTraffic \<Rightarrow> bool" where
  "IsIngressTraffic traffic = EqualFold (tr_TrafficType traffic) ''INGRESS''"

definition IsEgressTraffic :: "PodTraffic \<Rightarrow> bool" where
  "IsEgressTraffic traffic = EqualFold (tr_TrafficType traffic) ''EGRESS''"

text \<open>The error of \<^verbatim>\<open>parsePort\<close> is only logged; it is \<open>None\<close>.\<close>

definition parsePort :: "string \<Rightarrow> int option" where
  "parsePort portStr = (case Atoi portStr of
     None \<Rightarrow> None
   | Some portInt \<Rightarrow> if portInt \<le> 0 \<or> portInt > 65535 then None else Some portInt)"

definition protocolPtr :: "string \<Rightarrow> Protocol" where
  "protocolPtr protocol =
     (if protocol = ''TCP'' then ''TCP''
      else if protocol = ''UDP'' then ''UDP''
      else if protocol = ''SCTP'' then ''SCTP''
      else ''TCP'')"

section \<open>Rules\<close>

definition new_port :: "IntOrString \<Rightarrow> Protocol \<Rightarrow> NetworkPolicyPort" where
  "new_port port protocol = \<lparr>npp_Protocol = Some protocol, npp_Port = Some port, npp_EndPort = None\<rparr>"

fun port_present :: "'s kube \<Rightarrow> IntOrString \<Rightarrow> Protocol \<Rightarrow> NetworkPolicyPort list \<Rightarrow> bool" where
  "port_present k port protocol [] = False"
| "port_present k port protocol (existing # ps) =
     (if (case npp_Port existing of None \<Rightarrow> False | Some ep \<Rightarrow> String k ep = String k port) \<and>
         npp_Protocol existing = Some protocol
      then True else port_present k port protocol ps)"

fun merge_loop :: "'s kube \<Rightarrow> NetworkPolicyRule list \<Rightarrow> string \<Rightarrow> IntOrString \<Rightarrow> Protocol \<Rightarrow> NetworkPolicyRule list" where
  "merge_loop k [] peer port protocol = [\<lparr>rule_PeerIP = peer, rule_Ports = [new_port port protocol]\<rparr>]"
| "merge_loop k (r # rs) peer port protocol =
     (if rule_PeerIP r = peer then
        if port_present k port protocol (rule_Ports r) then r # rs
        else r\<lparr>rule_Ports := rule_Ports r @ [new_port port protocol]\<rparr> # rs
      else r # merge_loop k rs peer port protocol)"

definition mergeOrAppendRule :: "'s kube \<Rightarrow> NetworkPolicyRule list \<Rightarrow> string \<Rightarrow> IntOrString \<Rightarrow> string
    \<Rightarrow> NetworkPolicyRule list" where
  "mergeOrAppendRule k rules peer port protocolStr = merge_loop k rules peer port (protocolPtr protocolStr)"

text \<open>The body of the loop of \<^verbatim>\<open>processTrafficRules\<close>, on the ingress and the egress rules.\<close>

definition process_row :: "'s kube \<Rightarrow> PodDetail \<Rightarrow> NetworkPolicyRule list \<times> NetworkPolicyRule list \<Rightarrow> PodTraffic
    \<Rightarrow> NetworkPolicyRule list \<times> NetworkPolicyRule list" where
  "process_row k podDetail rules traffic =
     (let (ingressRules, egressRules) = rules;
          peer = tr_DstIP traffic
      in if IsIngressTraffic traffic then
           (if peer = [] then rules
            else if peer = pd_PodIP podDetail then rules
            else case parsePort (tr_SrcPodPort traffic) of
              None \<Rightarrow> rules
            | Some portInt \<Rightarrow>
                (mergeOrAppendRule k ingressRules peer (FromInt k portInt) (tr_Protocol traffic), egressRules))
         else if IsEgressTraffic traffic then
           (if peer = [] then rules
            else if peer = pd_PodIP podDetail then rules
            else case parsePort (tr_DstPort traffic) of
              None \<Rightarrow> rules
            | Some portInt \<Rightarrow>
                (ingressRules, mergeOrAppendRule k egressRules peer (FromInt k portInt) (tr_Protocol traffic)))
         else rules)"

definition processTrafficRules :: "'s kube \<Rightarrow> PodTraffic list \<Rightarrow> PodDetail
    \<Rightarrow> NetworkPolicyRule list \<times> NetworkPolicyRule list" where
  "processTrafficRules k podTraffic podDetail = foldl (process_row k podDetail) ([], []) podTraffic"

end
