(* ===== verification/Advisor_Policy.thy ===== *)
theory Advisor_Policy
  imports Advisor_Rules
begin

text \<open>
  The generator of Kubernetes policies, \<^verbatim>\<open>standard_policy.go\<close> in \<^verbatim>\<open>src/advisor/pkg/network\<close>: rules are grouped by
  peer, the peer's address is resolved to a selector or an address block, ports are deduplicated
  and ordered.  The broker is the interface \<^verbatim>\<open>BrokerData\<close>: an error or an answer, where a nil pointer
  is \<open>None\<close>.
\<close>

section \<open>The broker's answers\<close>

record broker =
  PodTrafficByName :: "string \<Rightarrow> string + PodTraffic list"
  PodByIP :: "string \<Rightarrow> string + PodDetail option"
  ServiceByIP :: "string \<Rightarrow> string + SvcDetail option"

section \<open>Grouping and ordering\<close>

text \<open>A map from peers to ports, as an association list without duplicate keys.\<close>

definition group_ports :: "NetworkPolicyRule list \<Rightarrow> (string \<times> NetworkPolicyPort list) list" where
  "group_ports rules =
     foldl (\<lambda>m rule. AList.map_default (rule_PeerIP rule) (rule_Ports rule) (\<lambda>ps. ps @ rule_Ports rule) m) [] rules"

definition ports_of :: "(string \<times> NetworkPolicyPort list) list \<Rightarrow> string \<Rightarrow> NetworkPolicyPort list" where
  "ports_of m peer = (case map_of m peer of None \<Rightarrow> [] | Some ps \<Rightarrow> ps)"

definition sortedKeys :: "(string \<times> NetworkPolicyPort list) list \<Rightarrow> string list" where
  "sortedKeys m = sort (map fst m)"

text \<open>\<^verbatim>\<open>sort.Slice\<close>: the library fixes the order only up to elements that the comparison does not separate.\<close>

fun insert_by :: "('a \<Rightarrow> 'a \<Rightarrow> bool) \<Rightarrow> 'a \<Rightarrow> 'a list \<Rightarrow> 'a list" where
  "insert_by lt x [] = [x]"
| "insert_by lt x (y # ys) = (if lt y x then y # insert_by lt x ys else x # y # ys)"

definition sort_slice :: "('a \<Rightarrow> 'a \<Rightarrow> bool) \<Rightarrow> 'a list \<Rightarrow> 'a list" where
  "sort_slice lt xs = foldr (insert_by lt) xs []"

text \<open>The comparison of \<^verbatim>\<open>deduplicatePorts\<close>, which is only called on ports with both fields set.\<close>

definition port_less :: "NetworkPolicyPort \<Rightarrow> NetworkPolicyPort \<Rightarrow> bool" where
  "port_less p q = (case (npp_Port p, npp_Port q, npp_Protocol p, npp_Protocol q) of
     (Some pi, Some pj, Some proto_p, Some proto_q) \<Rightarrow>
       (let iNum = (io_Type pi = intStringTypeInt);
            jNum = (io_Type pj = intStringTypeInt)
        in if iNum \<noteq> jNum then iNum
           else if iNum \<and> io_IntVal pi \<noteq> io_IntVal pj then sint (io_IntVal pi) < sint (io_IntVal pj)
           else if \<not> iNum \<and> io_StrVal pi \<noteq> io_StrVal pj then io_StrVal pi < io_StrVal pj
           else proto_p < proto_q)
   | _ \<Rightarrow> False)"

fun unique_ports :: "'s kube \<Rightarrow> string list \<Rightarrow> NetworkPolicyPort list \<Rightarrow> NetworkPolicyPort list" where
  "unique_ports k seen [] = []"
| "unique_ports k seen (p # ps) = (case (npp_Port p, npp_Protocol p) of
     (Some port, Some proto) \<Rightarrow>
       (let key = String k port @ ''-'' @ proto
        in if key \<in> set seen then unique_ports k seen ps
           else p # unique_ports k (key # seen) ps)
   | _ \<Rightarrow> unique_ports k seen ps)"

definition deduplicatePorts :: "'s kube \<Rightarrow> NetworkPolicyPort list \<Rightarrow> NetworkPolicyPort list" where
  "deduplicatePorts k ports = sort_slice port_less (unique_ports k [] ports)"

section \<open>Peers\<close>

definition selector_peer :: "'s kube \<Rightarrow> labels \<Rightarrow> string \<Rightarrow> 's NetworkPolicyPeer" where
  "selector_peer k lbls ns = \<lparr>peer_PodSelector = Some (MatchLabels k lbls),
     peer_NamespaceSelector = Some (MatchLabels k [''kubernetes.io/metadata.name'' \<mapsto> ns]),
     peer_IPBlock = None\<rparr>"

definition block_peer :: "string \<Rightarrow> 's NetworkPolicyPeer" where
  "block_peer ip = \<lparr>peer_PodSelector = None, peer_NamespaceSelector = None,
     peer_IPBlock = Some \<lparr>CIDR = ip @ ''/32'', Except = []\<rparr>\<rparr>"

text \<open>Every path of \<^verbatim>\<open>createNetworkPolicyPeer\<close> returns a pointer to a peer.\<close>

definition createNetworkPolicyPeer :: "'s kube \<Rightarrow> broker \<Rightarrow> string \<Rightarrow> 's NetworkPolicyPeer option" where
  "createNetworkPolicyPeer k b ip =
     (let try_pod = (case PodByIP b ip of
            Inr (Some d) \<Rightarrow>
              if pod_Labels (pd_Pod d) \<noteq> Map.empty then Some (selector_peer k (pod_Labels (pd_Pod d)) (pd_Namespace d))
              else Some (block_peer ip)
          | _ \<Rightarrow> Some (block_peer ip))
      in case ServiceByIP b ip of
           Inr (Some svc) \<Rightarrow>
             if svc_Selector svc \<noteq> Map.empty then Some (selector_peer k (svc_Selector svc) (svc_Namespace svc))
             else try_pod
         | _ \<Rightarrow> try_pod)"

section \<open>Kubernetes rules\<close>

definition transformToNetworkPolicyIngressRules :: "'s kube \<Rightarrow> broker \<Rightarrow> NetworkPolicyRule list \<Rightarrow> 's IngressRule list" where
  "transformToNetworkPolicyIngressRules k b rules =
     (let peerRules = group_ports rules
      in List.map_filter (\<lambda>ip. case createNetworkPolicyPeer k b ip of
             None \<Rightarrow> None
           | Some peer \<Rightarrow> Some \<lparr>ing_Ports = deduplicatePorts k (ports_of peerRules ip), ing_From = [peer]\<rparr>)
           (sortedKeys peerRules))"

definition transformToNetworkPolicyEgressRules :: "'s kube \<Rightarrow> broker \<Rightarrow> NetworkPolicyRule list \<Rightarrow> 's EgressRule list" where
  "transformToNetworkPolicyEgressRules k b rules =
     (let peerRules = group_ports rules
      in List.map_filter (\<lambda>ip. case createNetworkPolicyPeer k b ip of
             None \<Rightarrow> None
           | Some peer \<Rightarrow> Some \<lparr>egr_Ports = deduplicatePorts k (ports_of peerRules ip), egr_To = [peer]\<rparr>)
           (sortedKeys peerRules))"

section \<open>The policy\<close>

record TypeMeta =
  Kind :: string
  APIVersion :: string

record ObjectMeta =
  om_Name :: string
  om_Namespace :: string
  om_Labels :: labels

record 's NetworkPolicy =
  pol_Type :: TypeMeta
  pol_Meta :: ObjectMeta
  pol_Spec :: "'s NetworkPolicySpec"

definition GetPolicyName :: "string \<Rightarrow> string \<Rightarrow> string" where
  "GetPolicyName podName policyType = podName @ ''-'' @ policyType"

definition CreateStandardLabels :: "string \<Rightarrow> string \<Rightarrow> labels" where
  "CreateStandardLabels podName resourceType =
     [''app.kubernetes.io/name'' \<mapsto> podName, ''app.kubernetes.io/component'' \<mapsto> resourceType,
      ''app.kubernetes.io/part-of'' \<mapsto> ''kguardian'']"

definition CreateTypeMeta :: "string \<Rightarrow> string \<Rightarrow> TypeMeta" where
  "CreateTypeMeta kind apiVersion = \<lparr>Kind = kind, APIVersion = apiVersion\<rparr>"

definition CreateObjectMeta :: "string \<Rightarrow> string \<Rightarrow> labels \<Rightarrow> ObjectMeta" where
  "CreateObjectMeta name namespace lbls = \<lparr>om_Name = name, om_Namespace = namespace, om_Labels = lbls\<rparr>"

definition generateDefaultDenyPolicy :: "'s kube \<Rightarrow> PodDetail \<Rightarrow> 's NetworkPolicy" where
  "generateDefaultDenyPolicy k podDetail =
     \<lparr>pol_Type = CreateTypeMeta ''NetworkPolicy'' ''networking.k8s.io/v1'',
      pol_Meta = CreateObjectMeta (GetPolicyName (pd_Name podDetail) ''standard-policy-deny-all'')
        (pd_Namespace podDetail) (CreateStandardLabels (pd_Name podDetail) ''standard-policy-deny-all''),
      pol_Spec = \<lparr>spec_PodSelector = MatchLabels k (pod_Labels (pd_Pod podDetail)),
        spec_PolicyTypes = [DirectionIngress, DirectionEgress], spec_Ingress = [], spec_Egress = []\<rparr>\<rparr>"

definition Generate :: "'s kube \<Rightarrow> broker \<Rightarrow> string \<Rightarrow> PodTraffic list \<Rightarrow> PodDetail option \<Rightarrow> string + 's NetworkPolicy" where
  "Generate k b podName podTraffic podDetail = (case podDetail of
     None \<Rightarrow> Inl (''pod detail is nil for pod '' @ podName)
   | Some d \<Rightarrow>
       if podTraffic = [] then Inr (generateDefaultDenyPolicy k d)
       else
         let (ingressRules, egressRules) = processTrafficRules k podTraffic d;
             policy = \<lparr>pol_Type = CreateTypeMeta ''NetworkPolicy'' ''networking.k8s.io/v1'',
               pol_Meta = CreateObjectMeta (GetPolicyName (pd_Name d) ''standard-policy'') (pd_Namespace d)
                 (CreateStandardLabels (pd_Name d) ''standard-policy''),
               pol_Spec = \<lparr>spec_PodSelector = MatchLabels k (pod_Labels (pd_Pod d)), spec_PolicyTypes = [],
                 spec_Ingress = [], spec_Egress = []\<rparr>\<rparr>;
             spec1 = (if ingressRules \<noteq> []
               then (pol_Spec policy)\<lparr>spec_PolicyTypes := spec_PolicyTypes (pol_Spec policy) @ [DirectionIngress],
                 spec_Ingress := transformToNetworkPolicyIngressRules k b ingressRules\<rparr>
               else pol_Spec policy);
             spec2 = (if egressRules \<noteq> []
               then spec1\<lparr>spec_PolicyTypes := spec_PolicyTypes spec1 @ [DirectionEgress],
                 spec_Egress := transformToNetworkPolicyEgressRules k b egressRules\<rparr>
               else spec1)
         in if spec_PolicyTypes spec2 = [] then Inr (generateDefaultDenyPolicy k d)
            else Inr (policy\<lparr>pol_Spec := spec2\<rparr>))"

end
