(* ===== verification/Advisor_Cilium.thy ===== *)
theory Advisor_Cilium
  imports Advisor_Policy
begin

text \<open>
  The generator of Cilium policies, \<^verbatim>\<open>cilium_policy.go\<close> and \<^verbatim>\<open>cilium_types.go\<close> in
  \<^verbatim>\<open>src/advisor/pkg/network\<close>.  It has its own copy of the row loop, selects peers by labels under Cilium's
  source prefix or by CIDR, and writes ports as text.
\<close>

section \<open>Types\<close>

record CiliumEndpointSelector =
  ces_MatchLabels :: labels

record CiliumPortProtocol =
  cpp_Port :: string
  cpp_Protocol :: string

record CiliumPortRule =
  cpr_Ports :: "CiliumPortProtocol list"

record CiliumIngressRule =
  FromEndpoints :: "CiliumEndpointSelector list"
  FromCIDR :: "string list"
  cin_ToPorts :: "CiliumPortRule list"

record CiliumEgressRule =
  ToEndpoints :: "CiliumEndpointSelector list"
  ToCIDR :: "string list"
  ceg_ToPorts :: "CiliumPortRule list"

record CiliumDefaultDeny =
  cdd_Ingress :: "bool option"
  cdd_Egress :: "bool option"

record CiliumRule =
  cr_EndpointSelector :: CiliumEndpointSelector
  cr_Description :: string
  cr_Ingress :: "CiliumIngressRule list"
  cr_Egress :: "CiliumEgressRule list"
  cr_EnableDefaultDeny :: "CiliumDefaultDeny option"

record CiliumNetworkPolicy =
  cil_Type :: TypeMeta
  cil_Meta :: ObjectMeta
  cil_Spec :: CiliumRule

definition newCiliumEndpointSelector :: "labels \<Rightarrow> CiliumEndpointSelector" where
  "newCiliumEndpointSelector lbls =
     (if lbls = Map.empty then \<lparr>ces_MatchLabels = Map.empty\<rparr>
      else \<lparr>ces_MatchLabels = (\<lambda>key. if take 4 key = ''k8s:'' then lbls (drop 4 key) else None)\<rparr>)"

definition createEndpointSelector :: "labels \<Rightarrow> CiliumEndpointSelector" where
  "createEndpointSelector podLabels = newCiliumEndpointSelector podLabels"

section \<open>Rows\<close>

definition cilium_process_row :: "'s kube \<Rightarrow> PodDetail \<Rightarrow> NetworkPolicyRule list \<times> NetworkPolicyRule list \<Rightarrow> PodTraffic
    \<Rightarrow> NetworkPolicyRule list \<times> NetworkPolicyRule list" where
  "cilium_process_row k podDetail rules traffic =
     (let (ingressRules, egressRules) = rules;
          peer = tr_DstIP traffic
      in if IsIngressTraffic traffic then
           (if peer = [] then rules
            else if peer = pd_PodIP podDetail then rules
            else case parsePort (tr_SrcPodPort traffic) of
              None \<Rightarrow> rules
            | Some portInt \<Rightarrow>
                (mergeOrAppendRule k ingressRules peer (FromInt k portInt) (tr_Protocol traffic), egressRules))
         else if IsEgressTraffic traffic then
           (if peer = [] then rules
            else if peer = pd_PodIP podDetail then rules
            else case parsePort (tr_DstPort traffic) of
              None \<Rightarrow> rules
            | Some portInt \<Rightarrow>
                (ingressRules, mergeOrAppendRule k egressRules peer (FromInt k portInt) (tr_Protocol traffic)))
         else rules)"

definition cilium_processTrafficRules :: "'s kube \<Rightarrow> PodTraffic list \<Rightarrow> PodDetail
    \<Rightarrow> NetworkPolicyRule list \<times> NetworkPolicyRule list" where
  "cilium_processTrafficRules k podTraffic podDetail = foldl (cilium_process_row k podDetail) ([], []) podTraffic"

section \<open>Peers and ports\<close>

definition resolvePeerForCilium :: "broker \<Rightarrow> string \<Rightarrow> CiliumEndpointSelector list \<times> string list" where
  "resolvePeerForCilium b ip =
     (let try_pod = (case PodByIP b ip of
            Inr (Some d) \<Rightarrow>
              if pod_Labels (pd_Pod d) \<noteq> Map.empty then ([createEndpointSelector (pod_Labels (pd_Pod d))], [])
              else ([], [ip @ ''/32''])
          | _ \<Rightarrow> ([], [ip @ ''/32'']))
      in case ServiceByIP b ip of
           Inr (Some svc) \<Rightarrow>
             if svc_Selector svc \<noteq> Map.empty then ([createEndpointSelector (svc_Selector svc)], []) else try_pod
         | _ \<Rightarrow> try_pod)"

fun port_rules :: "'s kube \<Rightarrow> NetworkPolicyPort list \<Rightarrow> CiliumPortRule list" where
  "port_rules k [] = []"
| "port_rules k (p # ps) = (case (npp_Port p, npp_Protocol p) of
     (Some port, Some proto) \<Rightarrow>
       \<lparr>cpr_Ports = [\<lparr>cpp_Port = String k port, cpp_Protocol = proto\<rparr>]\<rparr> # port_rules k ps
   | _ \<Rightarrow> port_rules k ps)"

definition convertPortsToCiliumPortRules :: "'s kube \<Rightarrow> NetworkPolicyPort list \<Rightarrow> CiliumPortRule list" where
  "convertPortsToCiliumPortRules k ports = port_rules k (deduplicatePorts k ports)"

definition createCiliumIngressRuleForPeer :: "'s kube \<Rightarrow> broker \<Rightarrow> string \<Rightarrow> NetworkPolicyPort list \<Rightarrow> CiliumIngressRule option" where
  "createCiliumIngressRuleForPeer k b ip ports =
     (let (fromEndpoints, fromCIDR) = resolvePeerForCilium b ip;
          toPorts = convertPortsToCiliumPortRules k ports
      in if fromEndpoints \<noteq> [] then Some \<lparr>FromEndpoints = fromEndpoints, FromCIDR = [], cin_ToPorts = toPorts\<rparr>
         else if fromCIDR \<noteq> [] then Some \<lparr>FromEndpoints = [], FromCIDR = fromCIDR, cin_ToPorts = toPorts\<rparr>
         else None)"

definition createCiliumEgressRuleForPeer :: "'s kube \<Rightarrow> broker \<Rightarrow> string \<Rightarrow> NetworkPolicyPort list \<Rightarrow> CiliumEgressRule option" where
  "createCiliumEgressRuleForPeer k b ip ports =
     (let (toEndpoints, toCIDR) = resolvePeerForCilium b ip;
          toPorts = convertPortsToCiliumPortRules k ports
      in if toEndpoints \<noteq> [] then Some \<lparr>ToEndpoints = toEndpoints, ToCIDR = [], ceg_ToPorts = toPorts\<rparr>
         else if toCIDR \<noteq> [] then Some \<lparr>ToEndpoints = [], ToCIDR = toCIDR, ceg_ToPorts = toPorts\<rparr>
         else None)"

definition transformToCiliumIngressRules :: "'s kube \<Rightarrow> broker \<Rightarrow> NetworkPolicyRule list \<Rightarrow> CiliumIngressRule list" where
  "transformToCiliumIngressRules k b rules =
     (let peerRules = group_ports rules
      in List.map_filter (\<lambda>ip. createCiliumIngressRuleForPeer k b ip (ports_of peerRules ip)) (sortedKeys peerRules))"

definition transformToCiliumEgressRules :: "'s kube \<Rightarrow> broker \<Rightarrow> NetworkPolicyRule list \<Rightarrow> CiliumEgressRule list" where
  "transformToCiliumEgressRules k b rules =
     (let peerRules = group_ports rules
      in List.map_filter (\<lambda>ip. createCiliumEgressRuleForPeer k b ip (ports_of peerRules ip)) (sortedKeys peerRules))"

section \<open>The policy\<close>

definition cilium_generateDefaultDenyPolicy :: "PodDetail \<Rightarrow> CiliumNetworkPolicy" where
  "cilium_generateDefaultDenyPolicy podDetail =
     \<lparr>cil_Type = CreateTypeMeta ''CiliumNetworkPolicy'' ''cilium.io/v2'',
      cil_Meta = CreateObjectMeta (GetPolicyName (pd_Name podDetail) ''cilium-policy-deny-all'')
        (pd_Namespace podDetail) (CreateStandardLabels (pd_Name podDetail) ''cilium-policy-deny-all''),
      cil_Spec = \<lparr>cr_EndpointSelector = createEndpointSelector (pod_Labels (pd_Pod podDetail)),
        cr_Description = ''Default-deny Cilium network policy for pod '' @ pd_Name podDetail,
        cr_Ingress = [], cr_Egress = [],
        cr_EnableDefaultDeny = Some \<lparr>cdd_Ingress = Some True, cdd_Egress = Some True\<rparr>\<rparr>\<rparr>"

definition cilium_Generate :: "'s kube \<Rightarrow> broker \<Rightarrow> string \<Rightarrow> PodTraffic list \<Rightarrow> PodDetail option
    \<Rightarrow> string + CiliumNetworkPolicy" where
  "cilium_Generate k b podName podTraffic podDetail = (case podDetail of
     None \<Rightarrow> Inl (''pod detail is nil for pod '' @ podName)
   | Some d \<Rightarrow>
       if podTraffic = [] then Inr (cilium_generateDefaultDenyPolicy d)
       else
         let (ingressRules, egressRules) = cilium_processTrafficRules k podTraffic d;
             spec = \<lparr>cr_EndpointSelector = createEndpointSelector (pod_Labels (pd_Pod d)),
               cr_Description = ''Cilium network policy for pod '' @ pd_Name d @ '' generated by kguardian'',
               cr_Ingress = [], cr_Egress = [], cr_EnableDefaultDeny = None\<rparr>;
             spec1 = (if ingressRules \<noteq> []
               then spec\<lparr>cr_Ingress := transformToCiliumIngressRules k b ingressRules\<rparr> else spec);
             spec2 = (if egressRules \<noteq> []
               then spec1\<lparr>cr_Egress := transformToCiliumEgressRules k b egressRules\<rparr> else spec1)
         in if cr_Ingress spec2 = [] \<and> cr_Egress spec2 = [] then Inr (cilium_generateDefaultDenyPolicy d)
            else Inr \<lparr>cil_Type = CreateTypeMeta ''CiliumNetworkPolicy'' ''cilium.io/v2'',
              cil_Meta = CreateObjectMeta (GetPolicyName (pd_Name d) ''cilium-policy'') (pd_Namespace d)
                (CreateStandardLabels (pd_Name d) ''cilium-policy''),
              cil_Spec = spec2\<rparr>)"

end
