(* ===== verification/Advisor_Spec.thy ===== *)
theory Advisor_Spec
  imports Advisor_Cilium Address_Text "HOL-Library.Product_Lexorder" "HOL-Library.Multiset"
begin

text \<open>
  What the policy generators compute, without loops: the set of observed connections, and for every
  peer its ports in order.  The locale \<open>kube_ports\<close> states what the generators use of
  \<^verbatim>\<open>k8s.io/apimachinery/pkg/util/intstr\<close>.  The lemmas show that the list of rules refines an
  association list of peers, and that the generated rules depend on the set of connections only.
\<close>

section \<open>The library's ports\<close>

definition int_port :: "int \<Rightarrow> IntOrString" where
  "int_port n = \<lparr>io_Type = intStringTypeInt, io_IntVal = word_of_int n, io_StrVal = []\<rparr>"

definition port_number :: "int \<Rightarrow> bool" where
  "port_number n \<longleftrightarrow> 0 < n \<and> n \<le> 65535"

locale kube_ports =
  fixes k :: "'s kube"
  assumes FromInt_port: "port_number n \<Longrightarrow> FromInt k n = int_port n"
    and String_port: "port_number n \<Longrightarrow> String k (int_port n) = digits (nat n)"

lemma digits_val_append: "digits_val acc (xs @ ys) = (case digits_val acc xs of None \<Rightarrow> None | Some a \<Rightarrow> digits_val a ys)"
  by (induction acc xs rule: digits_val.induct) (auto split: option.splits)

lemma digits_val_digits: "digits_val 0 (digits n) = Some n"
proof (induction n rule: digits.induct)
  case (1 n)
  then show ?case
    by (cases "n < 10") (simp_all add: digits.simps [of n] digits_val_append dec_val_digit)
qed

lemma digits_inject: "digits m = digits n \<longleftrightarrow> m = n"
  using digits_val_digits by (metis option.inject)

lemma digits_first: "\<exists>d < (10::nat). \<exists>cs. digits n = char_of (48 + d) # cs"
proof (induction n rule: digits.induct)
  case (1 n)
  show ?case
  proof (cases "n < 10")
    case True
    then show ?thesis by (auto simp: digits.simps [of n])
  next
    case False
    with 1 obtain d :: nat and cs where "d < 10" "digits (n div 10) = char_of (48 + d) # cs" by blast
    with False show ?thesis by (auto simp: digits.simps [of n])
  qed
qed

lemma Atoi_digits: "n < 2 ^ 63 \<Longrightarrow> Atoi (digits n) = Some (int n)"
proof -
  assume n: "n < 2 ^ 63"
  obtain d :: nat and cs where d: "d < 10" "digits n = char_of (48 + d) # cs" using digits_first by blast
  then have "dec_val (char_of (48 + d)) = Some d" by (simp add: dec_val_digit)
  moreover have "dec_val CHR ''-'' = None" "dec_val CHR ''+'' = None" by (simp_all add: dec_val_def)
  ultimately have "char_of (48 + d) \<noteq> CHR ''-''" "char_of (48 + d) \<noteq> CHR ''+''" by force+
  moreover have "int n < 2 ^ 63" using n by (metis of_nat_less_iff of_nat_numeral of_nat_power)
  ultimately show ?thesis using digits_val_digits [of n] d by (simp add: Atoi_def)
qed

text \<open>Ports survive the way from the controller's rows through the parser of the advisor.\<close>

lemma parsePort_digits: "n < 2 ^ 63 \<Longrightarrow> parsePort (digits n) = (if 0 < n \<and> n \<le> 65535 then Some (int n) else None)"
  by (simp add: parsePort_def Atoi_digits)

lemma parsePort_number: "parsePort s = Some n \<Longrightarrow> port_number n"
  by (auto simp: parsePort_def port_number_def split: option.splits if_splits)

section \<open>Observed connections\<close>

type_synonym conn = "string \<times> int \<times> Protocol"

definition usable_peer :: "PodDetail \<Rightarrow> PodTraffic \<Rightarrow> bool" where
  "usable_peer d tr \<longleftrightarrow> tr_DstIP tr \<noteq> [] \<and> tr_DstIP tr \<noteq> pd_PodIP d"

definition ingress_conn :: "PodDetail \<Rightarrow> PodTraffic \<Rightarrow> conn option" where
  "ingress_conn d tr =
     (if IsIngressTraffic tr \<and> usable_peer d tr
      then map_option (\<lambda>n. (tr_DstIP tr, n, protocolPtr (tr_Protocol tr))) (parsePort (tr_SrcPodPort tr)) else None)"

definition egress_conn :: "PodDetail \<Rightarrow> PodTraffic \<Rightarrow> conn option" where
  "egress_conn d tr =
     (if \<not> IsIngressTraffic tr \<and> IsEgressTraffic tr \<and> usable_peer d tr
      then map_option (\<lambda>n. (tr_DstIP tr, n, protocolPtr (tr_Protocol tr))) (parsePort (tr_DstPort tr)) else None)"

definition conns :: "(PodTraffic \<Rightarrow> conn option) \<Rightarrow> PodTraffic list \<Rightarrow> conn list" where
  "conns f rows = List.map_filter f rows"

definition merge_conn :: "'s kube \<Rightarrow> NetworkPolicyRule list \<Rightarrow> conn \<Rightarrow> NetworkPolicyRule list" where
  "merge_conn k rs c = (case c of (peer, n, proto) \<Rightarrow> merge_loop k rs peer (FromInt k n) proto)"

lemma process_row_conns:
  "process_row k d (ing, egr) tr =
    ((case ingress_conn d tr of None \<Rightarrow> ing | Some c \<Rightarrow> merge_conn k ing c),
     (case egress_conn d tr of None \<Rightarrow> egr | Some c \<Rightarrow> merge_conn k egr c))"
  by (auto simp: process_row_def ingress_conn_def egress_conn_def usable_peer_def merge_conn_def mergeOrAppendRule_def
      Let_def split: option.splits)

lemma foldl_process_row:
  "foldl (process_row k d) (ing, egr) rows =
    (foldl (merge_conn k) ing (conns (ingress_conn d) rows), foldl (merge_conn k) egr (conns (egress_conn d) rows))"
  by (induction rows arbitrary: ing egr) (simp_all add: conns_def map_filter_simps process_row_conns split: option.splits)

lemma processTrafficRules_conns:
  "processTrafficRules k rows d =
    (foldl (merge_conn k) [] (conns (ingress_conn d) rows), foldl (merge_conn k) [] (conns (egress_conn d) rows))"
  by (simp add: processTrafficRules_def foldl_process_row)

lemma set_conns: "set (conns f rows) = {c. \<exists>tr \<in> set rows. f tr = Some c}"
  by (induction rows) (auto simp: conns_def map_filter_simps split: option.splits)

lemma conns_port_number:
  "(peer, n, proto) \<in> set (conns (ingress_conn d) rows) \<Longrightarrow> port_number n"
  "(peer, n, proto) \<in> set (conns (egress_conn d) rows) \<Longrightarrow> port_number n"
  by (auto simp: set_conns ingress_conn_def egress_conn_def parsePort_number split: if_splits)

section \<open>The rules as an association list\<close>

definition mk_port :: "int \<times> Protocol \<Rightarrow> NetworkPolicyPort" where
  "mk_port x = new_port (int_port (fst x)) (snd x)"

definition mk_rule :: "string \<times> (int \<times> Protocol) list \<Rightarrow> NetworkPolicyRule" where
  "mk_rule e = \<lparr>rule_PeerIP = fst e, rule_Ports = map mk_port (snd e)\<rparr>"

definition add_once :: "'a \<Rightarrow> 'a list \<Rightarrow> 'a list" where
  "add_once x l = (if x \<in> set l then l else l @ [x])"

fun merge_spec :: "(string \<times> (int \<times> Protocol) list) list \<Rightarrow> conn \<Rightarrow> (string \<times> (int \<times> Protocol) list) list" where
  "merge_spec m (peer, x) = AList.map_default peer [x] (add_once x) m"

definition ports_ok :: "(string \<times> (int \<times> Protocol) list) list \<Rightarrow> bool" where
  "ports_ok m \<longleftrightarrow> (\<forall>(peer, l) \<in> set m. \<forall>(n, proto) \<in> set l. port_number n)"

lemma ports_ok_merge: "ports_ok m \<Longrightarrow> port_number n \<Longrightarrow> ports_ok (merge_spec m (peer, n, proto))"
  by (induction m) (auto simp: ports_ok_def add_once_def)

section \<open>The association list as a set\<close>

definition represents :: "(string \<times> (int \<times> Protocol) list) list \<Rightarrow> conn set \<Rightarrow> bool" where
  "represents m E \<longleftrightarrow> distinct (map fst m) \<and>
     (\<forall>p. case map_of m p of None \<Rightarrow> \<forall>x. (p, x) \<notin> E | Some l \<Rightarrow> distinct l \<and> l \<noteq> [] \<and> set l = {x. (p, x) \<in> E})"

lemma representsD:
  assumes "represents m E"
  shows "map_of m p = None \<Longrightarrow> (p, x) \<notin> E"
    and "map_of m p = Some l \<Longrightarrow> distinct l \<and> l \<noteq> [] \<and> set l = {x. (p, x) \<in> E}"
proof -
  from assms have "case map_of m p of None \<Rightarrow> \<forall>x. (p, x) \<notin> E | Some l \<Rightarrow> distinct l \<and> l \<noteq> [] \<and> set l = {x. (p, x) \<in> E}"
    by (simp add: represents_def)
  then show "map_of m p = None \<Longrightarrow> (p, x) \<notin> E"
    and "map_of m p = Some l \<Longrightarrow> distinct l \<and> l \<noteq> [] \<and> set l = {x. (p, x) \<in> E}"
    by (simp_all del: split_paired_All)
qed

lemma represents_empty: "represents [] {}"
  by (simp add: represents_def)

lemma represents_merge: "represents m E \<Longrightarrow> represents (merge_spec m c) (insert c E)"
proof -
  assume m: "represents m E"
  obtain p x where c: "c = (p, x)" by (cases c)
  have "case map_of (merge_spec m c) q of None \<Rightarrow> \<forall>y. (q, y) \<notin> insert c E
      | Some l \<Rightarrow> distinct l \<and> l \<noteq> [] \<and> set l = {y. (q, y) \<in> insert c E}" for q
    using m unfolding represents_def c
    by (cases "map_of m q") (force simp: map_of_map_default add_once_def dest: spec [of _ q])+
  with m show ?thesis unfolding represents_def by (simp add: c distinct_map_default)
qed

lemma represents_collect: "represents m E \<Longrightarrow> represents (foldl merge_spec m es) (E \<union> set es)"
proof (induction es arbitrary: m E)
  case (Cons c es)
  from Cons.IH [OF represents_merge [OF Cons.prems, of c]] show ?case by simp
qed simp

lemma represents_keys: "represents m E \<Longrightarrow> fst ` set m = fst ` E"
proof -
  assume m: "represents m E"
  have "p \<in> fst ` set m \<longleftrightarrow> p \<in> fst ` E" for p
  proof (cases "map_of m p")
    case None
    then show ?thesis using representsD(1) [OF m None] by (auto simp: map_of_eq_None_iff)
  next
    case (Some l)
    then have "l \<noteq> []" "set l = {x. (p, x) \<in> E}" using representsD(2) [OF m Some] by auto
    then obtain x where "(p, x) \<in> E" by (cases l) auto
    with Some show ?thesis by (force dest: map_of_SomeD)
  qed
  then show ?thesis by blast
qed

lemma ports_ok_collect: "ports_ok m \<Longrightarrow> \<forall>(peer, n, proto) \<in> set es. port_number n \<Longrightarrow> ports_ok (foldl merge_spec m es)"
proof (induction es arbitrary: m)
  case (Cons c es)
  obtain peer n proto where c: "c = (peer, n, proto)" by (cases c)
  with Cons.prems have "ports_ok (merge_spec m c)" using ports_ok_merge [of m n peer proto] by (simp del: merge_spec.simps)
  with Cons show ?case by simp
qed simp

section \<open>Grouping and ordering\<close>

lemma map_default_new: "k \<notin> fst ` set m \<Longrightarrow> AList.map_default k v f m = m @ [(k, v)]"
  by (induction m) auto

lemma group_ports_distinct:
  "distinct (map rule_PeerIP rs) \<Longrightarrow> group_ports rs = map (\<lambda>r. (rule_PeerIP r, rule_Ports r)) rs"
proof -
  have "distinct (map fst acc @ map rule_PeerIP rs) \<Longrightarrow>
      foldl (\<lambda>m r. AList.map_default (rule_PeerIP r) (rule_Ports r) (\<lambda>ps. ps @ rule_Ports r) m) acc rs =
        acc @ map (\<lambda>r. (rule_PeerIP r, rule_Ports r)) rs" for acc
  proof (induction rs arbitrary: acc)
    case (Cons r rs)
    then have "rule_PeerIP r \<notin> fst ` set acc" by auto
    with Cons show ?case by (simp add: map_default_new)
  qed simp
  from this [of "[]"] show "distinct (map rule_PeerIP rs) \<Longrightarrow> ?thesis" by (simp add: group_ports_def)
qed

lemma group_mk_rule: "distinct (map fst m) \<Longrightarrow> group_ports (map mk_rule m) = map (\<lambda>e. (fst e, map mk_port (snd e))) m"
proof -
  have "map rule_PeerIP (map mk_rule m) = map fst m" by (simp add: mk_rule_def comp_def)
  then show "distinct (map fst m) \<Longrightarrow> ?thesis" by (simp only: group_ports_distinct) (simp add: mk_rule_def comp_def)
qed

lemma ports_of_grouped:
  "represents m E \<Longrightarrow> ports_of (group_ports (map mk_rule m)) ip =
     map mk_port (case map_of m ip of None \<Rightarrow> [] | Some l \<Rightarrow> l)"
proof -
  have "map_of (map (\<lambda>e. (fst e, map mk_port (snd e))) m) ip = map_option (map mk_port) (map_of m ip)"
    by (induction m) auto
  then show "represents m E \<Longrightarrow> ?thesis"
    by (simp add: represents_def group_mk_rule ports_of_def split: option.splits)
qed

lemma sort_as_set: "distinct xs \<Longrightarrow> sort xs = sorted_list_of_set (set xs)"
  by (simp add: sorted_list_of_set_sort_remdups distinct_remdups_id)

lemma sortedKeys_grouped: "represents m E \<Longrightarrow> sortedKeys (group_ports (map mk_rule m)) = sorted_list_of_set (fst ` E)"
proof -
  assume m: "represents m E"
  then have "distinct (map fst m)" by (simp add: represents_def)
  moreover have "set (map fst m) = fst ` E" using represents_keys [OF m] by simp
  ultimately show ?thesis by (simp add: sortedKeys_def group_mk_rule comp_def sort_as_set del: set_map)
qed

lemma sint_port: "port_number n \<Longrightarrow> sint (word_of_int n :: i32) = n"
  by (simp add: port_number_def signed_take_bit_int_eq_self sint_sbintrunc')

lemma port_less_mk:
  "port_number (fst x) \<Longrightarrow> port_number (fst y) \<Longrightarrow> port_less (mk_port x) (mk_port y) \<longleftrightarrow> x < y"
proof -
  assume n: "port_number (fst x)" "port_number (fst y)"
  then have "(word_of_int (fst x) :: i32) = word_of_int (fst y) \<longleftrightarrow> fst x = fst y" by (metis sint_port)
  with n show ?thesis
    by (cases x; cases y) (auto simp: port_less_def mk_port_def new_port_def int_port_def Let_def sint_port)
qed

lemma sort_slice_ports:
  "\<forall>(n, proto) \<in> set l. port_number n \<Longrightarrow> sort_slice port_less (map mk_port l) = map mk_port (sort l)"
proof (induction l)
  case (Cons x l)
  have "insert_by port_less (mk_port x) (map mk_port ys) = map mk_port (insort x ys)"
    if "\<forall>(n, proto) \<in> set ys. port_number n" for ys
    using that Cons.prems
  proof (induction ys)
    case (Cons y ys)
    then have "port_less (mk_port y) (mk_port x) \<longleftrightarrow> y < x" by (intro port_less_mk) auto
    with Cons show ?case by auto
  qed simp
  with Cons show ?case by (simp add: sort_slice_def)
qed (simp add: sort_slice_def)

lemma digits_dash: "digits m @ CHR ''-'' # p = digits n @ CHR ''-'' # q \<Longrightarrow> m = n \<and> p = q"
proof -
  assume eq: "digits m @ CHR ''-'' # p = digits n @ CHR ''-'' # q"
  have d: "takeWhile is_digit (digits j @ CHR ''-'' # r) = digits j" for j r
    using digits_all [of j] by (simp add: takeWhile_append list_all_iff is_digit_def)
  from arg_cong [OF eq, of "takeWhile is_digit"] have "digits m = digits n" by (simp only: d)
  with eq show ?thesis by (simp add: digits_inject)
qed

text \<open>The libraries as their documentation describes them, with a selector given by its labels.\<close>

definition lib_kube :: "labels kube" where
  "lib_kube = \<lparr>FromInt = int_port, String = (\<lambda>p. digits (nat (sint (io_IntVal p)))), MatchLabels = (\<lambda>l. l)\<rparr>"

lemma String_lib: "port_number n \<Longrightarrow> String lib_kube (int_port n) = digits (nat n)"
  by (simp add: lib_kube_def int_port_def sint_port)

interpretation numbers: kube_ports lib_kube
  by unfold_locales (simp_all add: String_lib, simp add: lib_kube_def)

section \<open>The policies of a set of connections\<close>

definition peers_seen :: "conn set \<Rightarrow> string list" where
  "peers_seen E = sorted_list_of_set (fst ` E)"

definition ports_seen :: "conn set \<Rightarrow> string \<Rightarrow> (int \<times> Protocol) list" where
  "ports_seen E ip = sorted_list_of_set {x. (ip, x) \<in> E}"

text \<open>The labels and the namespace an address stands for: those of a service with a selector, or
  those of a pod with labels.\<close>

definition resolve :: "broker \<Rightarrow> string \<Rightarrow> (labels \<times> string) option" where
  "resolve b ip =
     (let pod = (case PodByIP b ip of
            Inr (Some d) \<Rightarrow> if pod_Labels (pd_Pod d) = Map.empty then None else Some (pod_Labels (pd_Pod d), pd_Namespace d)
          | _ \<Rightarrow> None)
      in case ServiceByIP b ip of
           Inr (Some s) \<Rightarrow> if svc_Selector s = Map.empty then pod else Some (svc_Selector s, svc_Namespace s)
         | _ \<Rightarrow> pod)"

definition peer_of :: "'s kube \<Rightarrow> broker \<Rightarrow> string \<Rightarrow> 's NetworkPolicyPeer" where
  "peer_of k b ip = (case resolve b ip of None \<Rightarrow> block_peer ip | Some (l, ns) \<Rightarrow> selector_peer k l ns)"

lemma createNetworkPolicyPeer_peer_of: "createNetworkPolicyPeer k b ip = Some (peer_of k b ip)"
  by (auto simp: createNetworkPolicyPeer_def peer_of_def resolve_def Let_def split: sum.split option.split)

lemma resolvePeerForCilium_resolve:
  "resolvePeerForCilium b ip = (case resolve b ip of
     None \<Rightarrow> ([], [ip @ ''/32''])
   | Some (l, ns) \<Rightarrow> ([newCiliumEndpointSelector l], []))"
  by (auto simp: resolvePeerForCilium_def resolve_def createEndpointSelector_def Let_def split: sum.split option.split)

definition ingress_of :: "'s kube \<Rightarrow> broker \<Rightarrow> conn set \<Rightarrow> 's IngressRule list" where
  "ingress_of k b E = map (\<lambda>ip. \<lparr>ing_Ports = map mk_port (ports_seen E ip), ing_From = [peer_of k b ip]\<rparr>) (peers_seen E)"

definition egress_of :: "'s kube \<Rightarrow> broker \<Rightarrow> conn set \<Rightarrow> 's EgressRule list" where
  "egress_of k b E = map (\<lambda>ip. \<lparr>egr_Ports = map mk_port (ports_seen E ip), egr_To = [peer_of k b ip]\<rparr>) (peers_seen E)"

definition policy_of :: "'s kube \<Rightarrow> broker \<Rightarrow> PodDetail \<Rightarrow> conn set \<Rightarrow> conn set \<Rightarrow> 's NetworkPolicy" where
  "policy_of k b d I X =
     (if I = {} \<and> X = {} then generateDefaultDenyPolicy k d
      else \<lparr>pol_Type = CreateTypeMeta ''NetworkPolicy'' ''networking.k8s.io/v1'',
        pol_Meta = CreateObjectMeta (GetPolicyName (pd_Name d) ''standard-policy'') (pd_Namespace d)
          (CreateStandardLabels (pd_Name d) ''standard-policy''),
        pol_Spec = \<lparr>spec_PodSelector = MatchLabels k (pod_Labels (pd_Pod d)),
          spec_PolicyTypes = (if I = {} then [] else [DirectionIngress]) @ (if X = {} then [] else [DirectionEgress]),
          spec_Ingress = ingress_of k b I, spec_Egress = egress_of k b X\<rparr>\<rparr>)"

definition cilium_port :: "int \<times> Protocol \<Rightarrow> CiliumPortRule" where
  "cilium_port x = \<lparr>cpr_Ports = [\<lparr>cpp_Port = digits (nat (fst x)), cpp_Protocol = snd x\<rparr>]\<rparr>"

definition cilium_ingress_of :: "broker \<Rightarrow> conn set \<Rightarrow> CiliumIngressRule list" where
  "cilium_ingress_of b E = map (\<lambda>ip. \<lparr>FromEndpoints = fst (resolvePeerForCilium b ip),
     FromCIDR = snd (resolvePeerForCilium b ip), cin_ToPorts = map cilium_port (ports_seen E ip)\<rparr>) (peers_seen E)"

definition cilium_egress_of :: "broker \<Rightarrow> conn set \<Rightarrow> CiliumEgressRule list" where
  "cilium_egress_of b E = map (\<lambda>ip. \<lparr>ToEndpoints = fst (resolvePeerForCilium b ip),
     ToCIDR = snd (resolvePeerForCilium b ip), ceg_ToPorts = map cilium_port (ports_seen E ip)\<rparr>) (peers_seen E)"

definition cilium_policy_of :: "broker \<Rightarrow> PodDetail \<Rightarrow> conn set \<Rightarrow> conn set \<Rightarrow> CiliumNetworkPolicy" where
  "cilium_policy_of b d I X =
     (if I = {} \<and> X = {} then cilium_generateDefaultDenyPolicy d
      else \<lparr>cil_Type = CreateTypeMeta ''CiliumNetworkPolicy'' ''cilium.io/v2'',
        cil_Meta = CreateObjectMeta (GetPolicyName (pd_Name d) ''cilium-policy'') (pd_Namespace d)
          (CreateStandardLabels (pd_Name d) ''cilium-policy''),
        cil_Spec = \<lparr>cr_EndpointSelector = createEndpointSelector (pod_Labels (pd_Pod d)),
          cr_Description = ''Cilium network policy for pod '' @ pd_Name d @ '' generated by kguardian'',
          cr_Ingress = cilium_ingress_of b I, cr_Egress = cilium_egress_of b X, cr_EnableDefaultDeny = None\<rparr>\<rparr>)"

lemma cilium_processTrafficRules_same: "cilium_processTrafficRules k rows d = processTrafficRules k rows d"
proof -
  have "cilium_process_row k d = process_row k d" by (intro ext) (simp only: cilium_process_row_def process_row_def)
  then show ?thesis by (simp only: cilium_processTrafficRules_def processTrafficRules_def)
qed

lemma peers_seen_Nil: "finite E \<Longrightarrow> peers_seen E = [] \<longleftrightarrow> E = {}"
  by (simp add: peers_seen_def)

lemma map_filter_Some [simp]: "List.map_filter (\<lambda>x. Some (f x)) xs = map f xs"
  by (induction xs) (simp_all add: map_filter_simps)

context kube_ports
begin

lemma String_inject: "port_number m \<Longrightarrow> port_number n \<Longrightarrow> String k (int_port m) = String k (int_port n) \<longleftrightarrow> m = n"
  by (auto simp: String_port digits_inject port_number_def)

lemma port_present_iff:
  "\<forall>(m, q) \<in> set l. port_number m \<Longrightarrow> port_number n \<Longrightarrow>
    port_present k (int_port n) proto (map mk_port l) \<longleftrightarrow> (n, proto) \<in> set l"
  by (induction l) (auto simp: mk_port_def new_port_def String_inject split: if_splits)

lemma merge_loop_refines:
  "ports_ok m \<Longrightarrow> port_number n \<Longrightarrow>
    merge_loop k (map mk_rule m) peer (int_port n) proto = map mk_rule (merge_spec m (peer, n, proto))"
proof (induction m)
  case (Cons e m)
  then show ?case
    by (cases e) (auto simp: ports_ok_def mk_rule_def add_once_def port_present_iff mk_port_def [of "(n, proto)"])
qed (simp add: mk_rule_def mk_port_def)

lemma merge_conns_refine:
  "ports_ok m \<Longrightarrow> \<forall>(peer, n, proto) \<in> set es. port_number n \<Longrightarrow>
    foldl (merge_conn k) (map mk_rule m) es = map mk_rule (foldl merge_spec m es)"
proof (induction es arbitrary: m)
  case (Cons e es)
  obtain peer n proto where e: "e = (peer, n, proto)" by (cases e)
  then have n: "port_number n" using Cons.prems by simp
  have "ports_ok (merge_spec m e)"
    using Cons.prems(1) n unfolding e by (rule ports_ok_merge)
  with Cons n show ?case by (simp add: e merge_conn_def FromInt_port merge_loop_refines del: merge_spec.simps)
qed simp

lemma port_key_inject:
  "port_number m \<Longrightarrow> port_number n \<Longrightarrow>
    String k (int_port m) @ ''-'' @ p = String k (int_port n) @ ''-'' @ q \<longleftrightarrow> m = n \<and> p = q"
  by (auto simp: String_port port_number_def dest: digits_dash)

lemma unique_ports_distinct:
  "distinct l \<Longrightarrow> \<forall>(n, proto) \<in> set l. port_number n \<Longrightarrow>
    \<forall>(n, proto) \<in> set l. String k (int_port n) @ ''-'' @ proto \<notin> set seen \<Longrightarrow>
    unique_ports k seen (map mk_port l) = map mk_port l"
proof (induction l arbitrary: seen)
  case (Cons x l)
  obtain n proto where x: "x = (n, proto)" by (cases x)
  have "unique_ports k ((String k (int_port n) @ ''-'' @ proto) # seen) (map mk_port l) = map mk_port l"
    using Cons.prems port_key_inject unfolding x by (intro Cons.IH) (force simp del: append.simps)+
  moreover have "npp_Port (mk_port x) = Some (int_port n)" "npp_Protocol (mk_port x) = Some proto"
    by (simp_all add: x mk_port_def new_port_def)
  ultimately show ?case using Cons.prems by (simp add: x)
qed simp

lemma deduplicatePorts_sorted:
  "distinct l \<Longrightarrow> \<forall>(n, proto) \<in> set l. port_number n \<Longrightarrow> deduplicatePorts k (map mk_port l) = map mk_port (sort l)"
  by (simp add: deduplicatePorts_def unique_ports_distinct sort_slice_ports)

lemma dedup_collected:
  "represents m E \<Longrightarrow> ports_ok m \<Longrightarrow>
    deduplicatePorts k (ports_of (group_ports (map mk_rule m)) ip) = map mk_port (sorted_list_of_set {x. (ip, x) \<in> E})"
proof -
  assume m: "represents m E" and ok: "ports_ok m"
  show ?thesis
  proof (cases "map_of m ip")
    case None
    then have "{x. (ip, x) \<in> E} = {}" using representsD(1) [OF m] by blast
    then show ?thesis using m None by (simp only: ports_of_grouped) (simp add: deduplicatePorts_def sort_slice_def)
  next
    case (Some l)
    then have l: "distinct l" "set l = {x. (ip, x) \<in> E}"
      using representsD(2) [OF m] by auto
    have "\<forall>(n, proto) \<in> set l. port_number n"
      using ok map_of_SomeD [OF Some] by (auto simp: ports_ok_def)
    then show ?thesis using m Some l by (simp add: ports_of_grouped deduplicatePorts_sorted sort_as_set)
  qed
qed

text \<open>The rules built from connections, as a set.\<close>

definition collected :: "conn list \<Rightarrow> NetworkPolicyRule list" where
  "collected es = foldl (merge_conn k) [] es"

lemma collected_represents:
  assumes "\<forall>(peer, n, proto) \<in> set es. port_number n"
  obtains m where "collected es = map mk_rule m" "represents m (set es)" "ports_ok m"
proof
  have "ports_ok []" by (simp add: ports_ok_def)
  with assms show "collected es = map mk_rule (foldl merge_spec [] es)" "ports_ok (foldl merge_spec [] es)"
    using merge_conns_refine [of "[]" es] by (simp_all add: collected_def ports_ok_collect)
  show "represents (foldl merge_spec [] es) (set es)"
    using represents_collect [OF represents_empty, of es] by simp
qed

lemma collected_Nil: "\<forall>(peer, n, proto) \<in> set es. port_number n \<Longrightarrow> collected es = [] \<longleftrightarrow> set es = {}"
  by (erule collected_represents) (metis represents_keys image_is_empty list.map_disc_iff set_empty)

lemma rules_of_collected:
  assumes "\<forall>(peer, n, proto) \<in> set es. port_number n"
  shows "transformToNetworkPolicyIngressRules k b (collected es) = ingress_of k b (set es)"
    and "transformToNetworkPolicyEgressRules k b (collected es) = egress_of k b (set es)"
proof -
  obtain m where m: "collected es = map mk_rule m" "represents m (set es)" "ports_ok m"
    using assms by (rule collected_represents)
  show "transformToNetworkPolicyIngressRules k b (collected es) = ingress_of k b (set es)"
    "transformToNetworkPolicyEgressRules k b (collected es) = egress_of k b (set es)"
    using m(2,3) by (simp_all add: m(1) transformToNetworkPolicyIngressRules_def transformToNetworkPolicyEgressRules_def
      ingress_of_def egress_of_def peers_seen_def ports_seen_def createNetworkPolicyPeer_peer_of sortedKeys_grouped
      dedup_collected Let_def)
qed

lemma Generate_policy_of:
  "Generate k b name rows (Some d) =
     Inr (policy_of k b d (set (conns (ingress_conn d) rows)) (set (conns (egress_conn d) rows)))"
proof (cases "rows = []")
  case True
  then show ?thesis by (simp add: Generate_def policy_of_def conns_def map_filter_simps)
next
  case False
  let ?I = "conns (ingress_conn d) rows" let ?X = "conns (egress_conn d) rows"
  have ports: "\<forall>(peer, n, proto) \<in> set ?I. port_number n" "\<forall>(peer, n, proto) \<in> set ?X. port_number n"
    using conns_port_number by blast+
  have process: "processTrafficRules k rows d = (collected ?I, collected ?X)"
    by (simp add: processTrafficRules_conns collected_def)
  have none: "ingress_of k b {} = []" "egress_of k b {} = []"
    by (simp_all add: ingress_of_def egress_of_def peers_seen_def)
  show ?thesis
    by (cases "set ?I = {}"; cases "set ?X = {}")
      (simp_all add: Generate_def policy_of_def False process Let_def collected_Nil [OF ports(1)] collected_Nil [OF ports(2)]
        rules_of_collected [OF ports(1)] rules_of_collected [OF ports(2)] none del: set_empty)
qed

lemma port_rules_cilium:
  "\<forall>(n, proto) \<in> set l. port_number n \<Longrightarrow> port_rules k (map mk_port l) = map cilium_port l"
  by (induction l) (auto simp: mk_port_def new_port_def cilium_port_def String_port)

lemma cilium_rules_of_collected:
  assumes "\<forall>(peer, n, proto) \<in> set es. port_number n"
  shows "transformToCiliumIngressRules k b (collected es) = cilium_ingress_of b (set es)"
    and "transformToCiliumEgressRules k b (collected es) = cilium_egress_of b (set es)"
proof -
  obtain m where m: "collected es = map mk_rule m" "represents m (set es)" "ports_ok m"
    using assms by (rule collected_represents)
  have fin: "finite {x. (ip, x) \<in> set es}" for ip
    by (rule finite_subset [of _ "snd ` set es"]) force+
  have ports: "convertPortsToCiliumPortRules k (ports_of (group_ports (map mk_rule m)) ip) = map cilium_port (ports_seen (set es) ip)" for ip
    unfolding convertPortsToCiliumPortRules_def ports_seen_def dedup_collected [OF m(2,3)]
    using assms by (intro port_rules_cilium) (auto simp: fin)
  have "createCiliumIngressRuleForPeer k b ip ps = Some \<lparr>FromEndpoints = fst (resolvePeerForCilium b ip),
      FromCIDR = snd (resolvePeerForCilium b ip), cin_ToPorts = convertPortsToCiliumPortRules k ps\<rparr>"
    "createCiliumEgressRuleForPeer k b ip ps = Some \<lparr>ToEndpoints = fst (resolvePeerForCilium b ip),
      ToCIDR = snd (resolvePeerForCilium b ip), ceg_ToPorts = convertPortsToCiliumPortRules k ps\<rparr>" for ip ps
    by (simp_all add: createCiliumIngressRuleForPeer_def createCiliumEgressRuleForPeer_def resolvePeerForCilium_resolve
        split: option.split prod.split)
  then show "transformToCiliumIngressRules k b (collected es) = cilium_ingress_of b (set es)"
    "transformToCiliumEgressRules k b (collected es) = cilium_egress_of b (set es)"
    using m(2) by (simp_all add: m(1) transformToCiliumIngressRules_def transformToCiliumEgressRules_def
      cilium_ingress_of_def cilium_egress_of_def peers_seen_def sortedKeys_grouped ports Let_def)
qed

lemma cilium_Generate_policy_of:
  "cilium_Generate k b name rows (Some d) =
     Inr (cilium_policy_of b d (set (conns (ingress_conn d) rows)) (set (conns (egress_conn d) rows)))"
proof (cases "rows = []")
  case True
  then show ?thesis by (simp add: cilium_Generate_def cilium_policy_of_def conns_def map_filter_simps)
next
  case False
  let ?I = "conns (ingress_conn d) rows" let ?X = "conns (egress_conn d) rows"
  have ports: "\<forall>(peer, n, proto) \<in> set ?I. port_number n" "\<forall>(peer, n, proto) \<in> set ?X. port_number n"
    using conns_port_number by blast+
  have process: "cilium_processTrafficRules k rows d = (collected ?I, collected ?X)"
    by (simp add: cilium_processTrafficRules_same processTrafficRules_conns collected_def)
  have none: "cilium_ingress_of b E = [] \<longleftrightarrow> peers_seen E = []" "cilium_egress_of b E = [] \<longleftrightarrow> peers_seen E = []"
    "cilium_ingress_of b {} = []" "cilium_egress_of b {} = []" for E
    by (simp_all add: cilium_ingress_of_def cilium_egress_of_def peers_seen_def)
  show ?thesis
    by (cases "set ?I = {}"; cases "set ?X = {}")
      (simp_all add: cilium_Generate_def cilium_policy_of_def False process Let_def collected_Nil [OF ports(1)]
        collected_Nil [OF ports(2)] cilium_rules_of_collected [OF ports(1)] cilium_rules_of_collected [OF ports(2)]
        none peers_seen_Nil del: set_empty)
qed

end

end
