(* ===== verification/Advisor_Service.thy ===== *)
theory Advisor_Service
  imports Advisor_Spec
begin

text \<open>
  The service that selects a generator and produces a pod's policy, \<^verbatim>\<open>generator.go\<close> in
  \<^verbatim>\<open>src/advisor/pkg/network\<close> with its set-up in \<^verbatim>\<open>src/advisor/cmd/networkpolicy.go\<close>.  \<^verbatim>\<open>yaml.Marshal\<close>, the broker and
  saving a file are parameters.  The interface \<^verbatim>\<open>PolicyGenerator\<close> is the locale \<open>policy_generator\<close>,
  which both generators implement.
\<close>

section \<open>Generators and the service\<close>

datatype 's policy = Standard "'s NetworkPolicy" | Cilium CiliumNetworkPolicy

definition StandardPolicy :: string where
  "StandardPolicy = ''standard''"

definition CiliumPolicy :: string where
  "CiliumPolicy = ''cilium''"

type_synonym 'p generate = "broker \<Rightarrow> string \<Rightarrow> PodTraffic list \<Rightarrow> PodDetail option \<Rightarrow> string + 'p"

record 'p generator =
  gen_Type :: string
  gen_data :: broker
  gen_Generate :: "'p generate"

record 'p service =
  ps_generators :: "string \<rightharpoonup> 'p generator"
  ps_defaultType :: string
  ps_data :: broker

record 'p PolicyOutput =
  po_Policy :: 'p
  po_YAML :: bytes
  po_PodName :: string
  po_Namespace :: string
  po_Type :: string

definition NewStandardPolicyGenerator :: "'s kube \<Rightarrow> broker \<Rightarrow> 's policy generator" where
  "NewStandardPolicyGenerator k dflt = \<lparr>gen_Type = StandardPolicy, gen_data = dflt,
     gen_Generate = (\<lambda>b name rows d. map_sum id Standard (Generate k b name rows d))\<rparr>"

definition NewCiliumPolicyGenerator :: "'s kube \<Rightarrow> broker \<Rightarrow> 's policy generator" where
  "NewCiliumPolicyGenerator k dflt = \<lparr>gen_Type = CiliumPolicy, gen_data = dflt,
     gen_Generate = (\<lambda>b name rows d. map_sum id Cilium (cilium_Generate k b name rows d))\<rparr>"

definition NewPolicyService :: "broker \<Rightarrow> string \<Rightarrow> 'p service" where
  "NewPolicyService dflt defaultType = \<lparr>ps_generators = Map.empty, ps_defaultType = defaultType, ps_data = dflt\<rparr>"

definition UseBrokerData :: "'p service \<Rightarrow> broker option \<Rightarrow> 'p service" where
  "UseBrokerData s data = (case data of
     None \<Rightarrow> s
   | Some b \<Rightarrow> s\<lparr>ps_data := b, ps_generators := (\<lambda>t. map_option (\<lambda>g. g\<lparr>gen_data := b\<rparr>) (ps_generators s t))\<rparr>)"

definition RegisterGenerator :: "'p service \<Rightarrow> 'p generator \<Rightarrow> 'p service" where
  "RegisterGenerator s g = s\<lparr>ps_generators := (ps_generators s)(gen_Type g \<mapsto> g\<lparr>gen_data := ps_data s\<rparr>)\<rparr>"

definition createPolicyService :: "'s kube \<Rightarrow> broker \<Rightarrow> string \<Rightarrow> 's policy service" where
  "createPolicyService k dflt defaultType =
     RegisterGenerator (RegisterGenerator (NewPolicyService dflt defaultType) (NewStandardPolicyGenerator k dflt))
       (NewCiliumPolicyGenerator k dflt)"

text \<open>The error of \<^verbatim>\<open>parsePolicyType\<close>, which quotes its argument, is \<open>None\<close>.\<close>

definition parsePolicyType :: "string \<Rightarrow> string option" where
  "parsePolicyType input =
     (if input = ''kubernetes'' \<or> input = ''k8s'' then Some StandardPolicy
      else if input = ''cilium'' then Some CiliumPolicy
      else None)"

section \<open>One pod\<close>

definition lookup_ip :: "PodTraffic list \<Rightarrow> string" where
  "lookup_ip podTraffic = (case podTraffic of
     [] \<Rightarrow> []
   | first # _ \<Rightarrow> if tr_SrcIP first \<noteq> [] then tr_SrcIP first else if tr_DstIP first \<noteq> [] then tr_DstIP first else [])"

definition choose_generator :: "'p service \<Rightarrow> string \<Rightarrow> 'p generator option" where
  "choose_generator s policyType = (case ps_generators s policyType of
     Some g \<Rightarrow> Some g
   | None \<Rightarrow> ps_generators s (ps_defaultType s))"

definition GeneratePolicy :: "('p \<Rightarrow> string + bytes) \<Rightarrow> 'p service \<Rightarrow> string \<Rightarrow> string \<Rightarrow> string + 'p PolicyOutput" where
  "GeneratePolicy marshal s podName policyType = (case PodTrafficByName (ps_data s) podName of
     Inl err \<Rightarrow> Inl err
   | Inr podTraffic \<Rightarrow>
       if podTraffic = [] then Inl (''no traffic data found for pod '' @ podName)
       else if lookup_ip podTraffic = [] then Inl (''could not determine IP for pod spec lookup for pod '' @ podName)
       else case PodByIP (ps_data s) (lookup_ip podTraffic) of
         Inl err \<Rightarrow> Inl err
       | Inr None \<Rightarrow> Inl (''pod details not found using IP '' @ lookup_ip podTraffic @ '' for pod '' @ podName)
       | Inr (Some d) \<Rightarrow>
           (case choose_generator s policyType of
             None \<Rightarrow> Inl (''no generator available for policy type '' @ policyType)
           | Some g \<Rightarrow>
               (case gen_Generate g (gen_data g) podName podTraffic (Some d) of
                 Inl err \<Rightarrow> Inl err
               | Inr policy \<Rightarrow>
                   (case marshal policy of
                     Inl err \<Rightarrow> Inl err
                   | Inr yaml \<Rightarrow> Inr \<lparr>po_Policy = policy, po_YAML = yaml, po_PodName = pd_Name d,
                       po_Namespace = pd_Namespace d, po_Type = gen_Type g\<rparr>))))"

section \<open>Output and batches\<close>

text \<open>\<open>save\<close> is \<^verbatim>\<open>common.SaveToFile\<close> on the state \<open>'f\<close> of the file system, with its directory, resource type,
  namespace, name and content; it returns an error or a file name, which is only logged.\<close>

type_synonym 'f save = "string \<Rightarrow> string \<Rightarrow> string \<Rightarrow> string \<Rightarrow> bytes \<Rightarrow> 'f \<Rightarrow> (string + string) \<times> 'f"

definition HandlePolicyOutput :: "'f save \<Rightarrow> string \<Rightarrow> 'p PolicyOutput \<Rightarrow> 'f \<Rightarrow> string option \<times> 'f" where
  "HandlePolicyOutput save outputDir output fs =
     (let resourceType = po_Type output @ ''-networkpolicy''
      in if outputDir \<noteq> [] then
           (case save outputDir resourceType (po_Namespace output) (po_PodName output) (po_YAML output) fs of
              (Inl err, fs1) \<Rightarrow> (Some err, fs1)
            | (Inr filename, fs1) \<Rightarrow> (None, fs1))
         else (None, fs))"

definition GenerateAndHandlePolicy :: "('p \<Rightarrow> string + bytes) \<Rightarrow> 'f save \<Rightarrow> string \<Rightarrow> 'p service \<Rightarrow> string \<Rightarrow> string
    \<Rightarrow> 'f \<Rightarrow> string option \<times> 'f" where
  "GenerateAndHandlePolicy marshal save outputDir s podName policyType fs =
     (case GeneratePolicy marshal s podName policyType of
        Inl err \<Rightarrow> (Some err, fs)
      | Inr output \<Rightarrow> HandlePolicyOutput save outputDir output fs)"

fun batch_loop :: "('p \<Rightarrow> string + bytes) \<Rightarrow> 'f save \<Rightarrow> string \<Rightarrow> 'p service \<Rightarrow> string list \<Rightarrow> string
    \<Rightarrow> string option \<Rightarrow> 'f \<Rightarrow> string option \<times> 'f" where
  "batch_loop marshal save outputDir s [] policyType firstError fs = (firstError, fs)"
| "batch_loop marshal save outputDir s (podName # podNames) policyType firstError fs =
     (case GenerateAndHandlePolicy marshal save outputDir s podName policyType fs of
        (Some err, fs1) \<Rightarrow>
          batch_loop marshal save outputDir s podNames policyType
            (if firstError = None then Some err else firstError) fs1
      | (None, fs1) \<Rightarrow> batch_loop marshal save outputDir s podNames policyType firstError fs1)"

definition BatchGenerateAndHandlePolicies :: "('p \<Rightarrow> string + bytes) \<Rightarrow> 'f save \<Rightarrow> string \<Rightarrow> 'p service \<Rightarrow> string list
    \<Rightarrow> string \<Rightarrow> 'f \<Rightarrow> string option \<times> 'f" where
  "BatchGenerateAndHandlePolicies marshal save outputDir s podNames policyType fs =
     batch_loop marshal save outputDir s podNames policyType None fs"

section \<open>The interface of the generators\<close>

text \<open>What the service relies on: a generator needs the pod's details and nothing else, and its
  policy depends on the rows as a set and on how the broker resolves addresses.\<close>

definition same_resolution :: "broker \<Rightarrow> broker \<Rightarrow> bool" where
  "same_resolution b c \<longleftrightarrow> PodByIP b = PodByIP c \<and> ServiceByIP b = ServiceByIP c"

locale policy_generator =
  fixes run :: "'p generate"
  assumes run_total: "\<exists>p. run b name rows (Some d) = Inr p"
    and run_rows: "set rows = set rows' \<Longrightarrow> run b name rows (Some d) = run b name rows' (Some d)"
    and run_broker: "same_resolution b c \<Longrightarrow> run b name rows (Some d) = run c name rows (Some d)"
begin

lemma GeneratePolicy_stable:
  assumes "choose_generator s t = Some g" "gen_Generate g = run"
    and "same_resolution b c" "PodTrafficByName b name = Inr rows" "PodTrafficByName c name = Inr rows'"
    and "set rows = set rows'" "lookup_ip rows = lookup_ip rows'"
  shows "GeneratePolicy marshal (UseBrokerData s (Some b)) name t = GeneratePolicy marshal (UseBrokerData s (Some c)) name t"
proof -
  have g: "choose_generator (UseBrokerData s (Some a)) t = Some (g\<lparr>gen_data := a\<rparr>)" for a
    using assms(1) by (auto simp: choose_generator_def UseBrokerData_def split: option.splits)
  have "run b name rows (Some d) = run c name rows' (Some d)" for d
    using run_rows [OF assms(6)] run_broker [OF assms(3)] by metis
  moreover have "PodByIP b = PodByIP c" using assms(3) by (simp add: same_resolution_def)
  moreover have "rows = [] \<longleftrightarrow> rows' = []" using assms(6) by (metis set_empty)
  ultimately show ?thesis
    unfolding GeneratePolicy_def g 
    by (auto simp: UseBrokerData_def assms(2,4,5,7) split: sum.split option.split)
qed

lemma GeneratePolicy_fails_only:
  assumes "choose_generator s t = Some g" "gen_Generate g = run"
    and "PodTrafficByName (ps_data s) name = Inr rows" "lookup_ip rows \<noteq> []"
    and "PodByIP (ps_data s) (lookup_ip rows) = Inr (Some d)" and "marshal = (\<lambda>p. Inr (render p))"
  shows "\<exists>out. GeneratePolicy marshal s name t = Inr out \<and> run (gen_data g) name rows (Some d) = Inr (po_Policy out)
    \<and> po_PodName out = pd_Name d \<and> po_Namespace out = pd_Namespace d"
proof -
  obtain p where "run (gen_data g) name rows (Some d) = Inr p" using run_total by blast
  moreover have "rows \<noteq> []" using assms(4) by (auto simp: lookup_ip_def)
  ultimately show ?thesis using assms by (simp add: GeneratePolicy_def)
qed

end

text \<open>Under the laws of the ports both generators implement the interface.\<close>

lemma resolve_same: "same_resolution b c \<Longrightarrow> resolve b = resolve c"
  by (simp add: same_resolution_def resolve_def fun_eq_iff)

lemma policy_of_same:
  "same_resolution b c \<Longrightarrow> policy_of k b d I X = policy_of k c d I X"
  "same_resolution b c \<Longrightarrow> cilium_policy_of b d I X = cilium_policy_of c d I X"
  by (simp_all add: policy_of_def ingress_of_def egress_of_def peer_of_def cilium_policy_of_def cilium_ingress_of_def
      cilium_egress_of_def resolvePeerForCilium_resolve resolve_same)

sublocale kube_ports \<subseteq> standard: policy_generator "gen_Generate (NewStandardPolicyGenerator k dflt)"
  by unfold_locales
    (simp_all add: NewStandardPolicyGenerator_def Generate_policy_of set_conns policy_of_same(1))

sublocale kube_ports \<subseteq> cilium: policy_generator "gen_Generate (NewCiliumPolicyGenerator k dflt)"
  by unfold_locales
    (simp_all add: NewCiliumPolicyGenerator_def cilium_Generate_policy_of set_conns policy_of_same(2))

interpretation lib_standard: policy_generator "gen_Generate (NewStandardPolicyGenerator lib_kube dflt)" for dflt
  by (rule numbers.standard.policy_generator_axioms)

interpretation lib_cilium: policy_generator "gen_Generate (NewCiliumPolicyGenerator lib_kube dflt)" for dflt
  by (rule numbers.cilium.policy_generator_axioms)

lemma createPolicyService_generators:
  "choose_generator (createPolicyService k dflt t0) StandardPolicy = Some (NewStandardPolicyGenerator k dflt)"
  "choose_generator (createPolicyService k dflt t0) CiliumPolicy = Some (NewCiliumPolicyGenerator k dflt)"
  by (simp_all add: choose_generator_def createPolicyService_def RegisterGenerator_def NewPolicyService_def
      NewStandardPolicyGenerator_def NewCiliumPolicyGenerator_def StandardPolicy_def CiliumPolicy_def)

context kube_ports
begin

lemmas service_stable =
  standard.GeneratePolicy_stable [OF createPolicyService_generators(1) refl]
  cilium.GeneratePolicy_stable [OF createPolicyService_generators(2) refl]

end

end
