(* ===== verification/Advisor_Props.thy ===== *)
theory Advisor_Props
  imports Advisor_Service Policy_Props
begin

text \<open>
  The advisor together with the controller and the evaluator: a generated policy, evaluated by the
  program's own matcher, allows exactly the observed connections; generation does not depend on the
  order or the multiplicity of the rows; the two generators open the same ports to the same peers.
\<close>

section \<open>The contract of the Kubernetes libraries\<close>

text \<open>\<open>as_selector\<close> is \<^verbatim>\<open>LabelSelectorAsSelector\<close>, and \<open>valid\<close> the label sets whose keys and values it accepts.\<close>

locale kube_library = kube_ports k for k :: "'s kube" +
  fixes as_selector :: "'s \<Rightarrow> (labels \<Rightarrow> bool) option" and valid :: "labels \<Rightarrow> bool"
  assumes MatchLabels_selects: "valid l \<Longrightarrow> as_selector (MatchLabels k l) = Some (map_le l)"

definition kube_documented :: "'s kube \<Rightarrow> ('s \<Rightarrow> (labels \<Rightarrow> bool) option) \<Rightarrow> (labels \<Rightarrow> bool) \<Rightarrow> bool" where
  "kube_documented k as_selector valid \<longleftrightarrow>
     (\<forall>n. port_number n \<longrightarrow> FromInt k n = int_port n \<and> String k (int_port n) = digits (nat n)) \<and>
     (\<forall>l. valid l \<longrightarrow> as_selector (MatchLabels k l) = Some (map_le l))"

lemma documented_library: "kube_documented k as_selector valid \<Longrightarrow> kube_library k as_selector valid"
  by unfold_locales (auto simp: kube_documented_def)

lemma documented_ports: "kube_documented k as_selector valid \<Longrightarrow> kube_ports k"
  by unfold_locales (auto simp: kube_documented_def)

section \<open>Allowed connections\<close>

definition seen :: "PodDetail \<Rightarrow> Direction \<Rightarrow> PodTraffic list \<Rightarrow> conn set" where
  "seen d dir rows = set (conns (if dir = DirectionIngress then ingress_conn d else egress_conn d) rows)"

text \<open>The peer of a flow is the one an observed address stands for.\<close>

definition peer_seen :: "broker \<Rightarrow> (string \<Rightarrow> labels option) \<Rightarrow> string \<Rightarrow> Pod option \<Rightarrow> string \<Rightarrow> bool" where
  "peer_seen b ns_labels ip pod observed = (case resolve b observed of
     None \<Rightarrow> block_covers ip \<lparr>CIDR = observed @ ''/32'', Except = []\<rparr>
   | Some (l, ns) \<Rightarrow> (case pod of
       None \<Rightarrow> False
     | Some p \<Rightarrow> map_le l (pod_Labels p) \<and>
         (case ns_labels (pod_Namespace p) of
            None \<Rightarrow> False
          | Some nl \<Rightarrow> nl ''kubernetes.io/metadata.name'' = Some ns)))"

definition flow_seen :: "broker \<Rightarrow> Lookup \<Rightarrow> Flow \<Rightarrow> Direction \<Rightarrow> conn set \<Rightarrow> bool" where
  "flow_seen b lookup flow dir E \<longleftrightarrow> (\<exists>(ip, n, proto) \<in> E. flow_Protocol flow = proto \<and> sint (DstPort flow) = n \<and>
     peer_seen b (GetNamespaceLabels lookup) (peerIP flow dir) (peerPod flow dir lookup) ip)"

definition labels_valid :: "(labels \<Rightarrow> bool) \<Rightarrow> broker \<Rightarrow> PodDetail \<Rightarrow> bool" where
  "labels_valid valid b d \<longleftrightarrow> valid (pod_Labels (pd_Pod d)) \<and>
     (\<forall>ip l ns. resolve b ip = Some (l, ns) \<longrightarrow> valid l \<and> valid [''kubernetes.io/metadata.name'' \<mapsto> ns])"

text \<open>An audit policy with the specification of a generated one.\<close>

definition audited :: "'s NetworkPolicy \<Rightarrow> string \<Rightarrow> i64 \<Rightarrow> 's AuditNetworkPolicy" where
  "audited p uid gen = \<lparr>np_Namespace = om_Namespace (pol_Meta p), np_Name = om_Name (pol_Meta p), np_UID = uid,
     np_Generation = gen, np_Spec = pol_Spec p\<rparr>"

lemma port_permits_mk: "port_number n \<Longrightarrow> port_permits flow dst (mk_port (n, proto)) \<longleftrightarrow> flow_Protocol flow = proto \<and> sint (DstPort flow) = n"
  by (auto simp: port_permits_def mk_port_def new_port_def int_port_def effective_protocol_def intStringTypeInt_def sint_port)

lemma finite_seen: "finite {x. (ip, x) \<in> seen d dir rows}" "finite (fst ` seen d dir rows)"
proof -
  show "finite {x. (ip, x) \<in> seen d dir rows}"
    by (rule finite_subset [of _ "snd ` seen d dir rows"]) (force simp: seen_def)+
qed (simp add: seen_def)

lemma seen_port_number: "(ip, n, proto) \<in> seen d dir rows \<Longrightarrow> port_number n"
  by (auto simp: seen_def conns_port_number split: if_splits)

lemma set_ports_seen: "set (ports_seen (seen d dir rows) ip) = {x. (ip, x) \<in> seen d dir rows}"
  by (simp add: ports_seen_def finite_seen)

lemma set_peers_seen: "set (peers_seen (seen d dir rows)) = fst ` seen d dir rows"
  by (simp add: peers_seen_def finite_seen)

definition port_seen :: "Flow \<Rightarrow> int \<times> Protocol \<Rightarrow> bool" where
  "port_seen flow x \<longleftrightarrow> (case x of (n, proto) \<Rightarrow> flow_Protocol flow = proto \<and> sint (DstPort flow) = n)"

lemma ports_permit_seen:
  "list_ex (port_permits flow dst) (map mk_port (ports_seen (seen d dir rows) ip)) \<longleftrightarrow>
    (\<exists>x. (ip, x) \<in> seen d dir rows \<and> port_seen flow x)"
proof -
  have "port_permits flow dst (mk_port x) \<longleftrightarrow> port_seen flow x" if "(ip, x) \<in> seen d dir rows" for x
    using that port_permits_mk seen_port_number [of ip] by (cases x) (auto simp: port_seen_def)
  then show ?thesis unfolding list_ex_iff set_map set_ports_seen by blast
qed

lemma permits_seen:
  "list_ex (permits peer_ok (port_permits flow dst))
      (map (\<lambda>ip. ([peer_of k b ip], map mk_port (ports_seen (seen d dir rows) ip))) (peers_seen (seen d dir rows))) \<longleftrightarrow>
    (\<exists>(ip, n, proto) \<in> seen d dir rows. flow_Protocol flow = proto \<and> sint (DstPort flow) = n \<and> peer_ok (peer_of k b ip))"
proof -
  let ?E = "seen d dir rows"
  have rule: "permits peer_ok (port_permits flow dst) ([peer_of k b ip], map mk_port (ports_seen ?E ip)) \<longleftrightarrow>
      peer_ok (peer_of k b ip) \<and> (\<exists>x. (ip, x) \<in> ?E \<and> port_seen flow x)" if "ip \<in> fst ` ?E" for ip
  proof -
    have "ports_seen ?E ip \<noteq> []"
    proof
      assume "ports_seen ?E ip = []"
      then have "{x. (ip, x) \<in> ?E} = {}" using set_ports_seen [of d dir rows ip] by simp
      with that show False by (metis (mono_tags, lifting) empty_Collect_eq imageE prod.collapse)
    qed
    then show ?thesis by (simp add: permits_def ports_permit_seen del: map_eq_conv)
  qed
  have "list_ex (permits peer_ok (port_permits flow dst)) (map (\<lambda>ip. ([peer_of k b ip], map mk_port (ports_seen ?E ip))) (peers_seen ?E)) \<longleftrightarrow>
      (\<exists>ip \<in> fst ` ?E. peer_ok (peer_of k b ip) \<and> (\<exists>x. (ip, x) \<in> ?E \<and> port_seen flow x))"
    unfolding list_ex_iff set_map set_peers_seen using rule by blast
  also have "\<dots> \<longleftrightarrow> (\<exists>c \<in> ?E. port_seen flow (snd c) \<and> peer_ok (peer_of k b (fst c)))"
    by (metis (no_types, lifting) fst_conv image_eqI prod.collapse snd_conv)
  finally show ?thesis by (simp add: port_seen_def case_prod_beta)
qed

context kube_library
begin

lemma selects_labels: "valid l \<Longrightarrow> selectorMatchesLabels as_selector (MatchLabels k l) m \<longleftrightarrow> map_le l m"
  by (simp add: selectorMatchesLabels_def MatchLabels_selects)

lemma peer_permits_seen:
  "labels_valid valid b d \<Longrightarrow> peer_permits as_selector ns_labels home ip pod (peer_of k b a) \<longleftrightarrow> peer_seen b ns_labels ip pod a"
  by (auto simp: peer_permits_def peer_of_def peer_seen_def labels_valid_def block_peer_def selector_peer_def
      selects_labels map_le_def split: option.splits)

lemma verdict_of_policy:
  assumes "labels_valid valid b d" and "dir = DirectionIngress \<or> dir = DirectionEgress"
    and "subjectPod flow dir lookup = Some subject" and "pod_Namespace subject = pd_Namespace d"
    and "map_le (pod_Labels (pd_Pod d)) (pod_Labels subject)"
  shows "audit_verdict as_selector lookup flow
      (audited (policy_of k b d (seen d DirectionIngress rows) (seen d DirectionEgress rows)) uid gen) dir =
    (if flow_seen b lookup flow dir (seen d dir rows) then VerdictAllow else VerdictWouldDeny)"
proof -
  let ?p = "audited (policy_of k b d (seen d DirectionIngress rows) (seen d DirectionEgress rows)) uid gen"
  have selected: "selects_pod as_selector ?p subject"
    using assms(1,4,5) by (simp add: selects_pod_def audited_def policy_of_def generateDefaultDenyPolicy_def
        CreateObjectMeta_def selects_labels labels_valid_def)
  have empty: "seen d DirectionIngress rows = {} \<Longrightarrow> seen d DirectionEgress rows = {} \<Longrightarrow> seen d dir rows = {}"
    using assms(2) by auto
  have rules: "(if dir = DirectionIngress then ingress_rules (spec_Ingress (np_Spec ?p)) else egress_rules (spec_Egress (np_Spec ?p))) =
      map (\<lambda>ip. ([peer_of k b ip], map mk_port (ports_seen (seen d dir rows) ip))) (peers_seen (seen d dir rows))"
    using assms(2) empty
    by (auto simp: audited_def policy_of_def generateDefaultDenyPolicy_def ingress_rules_def egress_rules_def ingress_of_def
        egress_of_def peers_seen_def)
  show ?thesis
    unfolding audit_verdict_def policy_verdict_def rules
    by (simp add: assms(3) selected permits_seen peer_permits_seen [OF assms(1)] flow_seen_def)
qed

end

lemma generated_policy_from:
  assumes "kube_documented k as_selector valid" and "labels_valid valid b d" and "informer_keyed s"
    and "dir = DirectionIngress \<or> dir = DirectionEgress"
    and "subjectPod flow dir (store_Lookup s) = Some subject" and "pod_Namespace subject = pd_Namespace d"
    and "map_le (pod_Labels (pd_Pod d)) (pod_Labels subject)"
    and "Generate k b name rows (Some d) = Inr p"
  shows "map res_Verdict (filter (\<lambda>r. res_Direction r = dir) (Match as_selector flow (audited p uid gen) (store_Lookup s))) =
    (if seen d dir rows = {} \<and> seen d DirectionIngress rows \<union> seen d DirectionEgress rows \<noteq> {} then []
     else [if flow_seen b (store_Lookup s) flow dir (seen d dir rows) then VerdictAllow else VerdictWouldDeny])"
proof -
  let ?I = "seen d DirectionIngress rows" and ?X = "seen d DirectionEgress rows"
  have p: "p = policy_of k b d ?I ?X"
    using assms(8) by (simp add: kube_ports.Generate_policy_of [OF documented_ports [OF assms(1)]] seen_def)
  have "applies_in (spec_PolicyTypes (np_Spec (audited p uid gen))) e dir \<longleftrightarrow> \<not> (seen d dir rows = {} \<and> ?I \<union> ?X \<noteq> {})" for e
    using assms(4) by (auto simp: p audited_def policy_of_def generateDefaultDenyPolicy_def applies_in_def)
  then show ?thesis
    unfolding verdicts_in_direction(1) [OF assms(3,4)]
    using kube_library.verdict_of_policy [OF documented_library [OF assms(1)] assms(2,4-7), of rows uid gen]
    by (simp add: p)
qed

text \<open>
  C4: a generated policy is exact.  The policy that the standard generator makes from a pod's rows,
  audited by the evaluator's own matcher, allows a flow of the pod in a direction exactly when some
  usable row of that direction has the flow's protocol and port and an address that stands for the
  flow's peer; every other flow would be denied.  In a direction without usable rows the policy does
  not apply, unless no row is usable at all.
\<close>

theorem generated_policy_exact:
  assumes "kube_documented k as_selector valid" and "labels_valid valid b d" and "informer_keyed s"
    and "dir = DirectionIngress \<or> dir = DirectionEgress"
    and "subjectPod flow dir (store_Lookup s) = Some subject" and "pod_Namespace subject = pd_Namespace d"
    and "map_le (pod_Labels (pd_Pod d)) (pod_Labels subject)"
    and "Generate k b name rows (Some d) = Inr p"
  shows "map res_Verdict (filter (\<lambda>r. res_Direction r = dir) (Match as_selector flow (audited p uid gen) (store_Lookup s))) =
    (if seen d dir rows = {} \<and> seen d DirectionIngress rows \<union> seen d DirectionEgress rows \<noteq> {} then []
     else [if flow_seen b (store_Lookup s) flow dir (seen d dir rows) then VerdictAllow else VerdictWouldDeny])"
  by (rule generated_policy_from [OF assms])

section \<open>An example\<close>

interpretation lib: kube_library lib_kube "\<lambda>l. Some (map_le l)" "\<lambda>l. True"
  by unfold_locales (simp add: lib_kube_def)

lemma lib_documented: "kube_documented lib_kube (\<lambda>l. Some (map_le l)) (\<lambda>l. True)"
  using numbers.String_port by (simp add: kube_documented_def) (simp add: lib_kube_def)

definition shop_detail :: "string \<Rightarrow> string \<Rightarrow> string \<Rightarrow> PodDetail" where
  "shop_detail ip name app = \<lparr>pd_UUID = ''d'', pd_PodIP = ip, pd_Name = name, pd_Namespace = ''shop'', pd_Pod = shop_pod ''shop'' name app\<rparr>"

definition shop_row :: "string \<Rightarrow> string \<Rightarrow> string \<Rightarrow> string \<Rightarrow> PodTraffic" where
  "shop_row type pod_port ip port = \<lparr>tr_UUID = ''r'', tr_SrcPodName = ''web-0'', tr_SrcIP = ''10.0.0.4'', tr_SrcNamespace = ''shop'',
     tr_SrcPodPort = pod_port, tr_TrafficType = type, tr_DstIP = ip, tr_DstPort = port, tr_Protocol = ''TCP''\<rparr>"

definition shop_rows :: "PodTraffic list" where
  "shop_rows = [shop_row ''INGRESS'' ''8080'' ''10.0.0.5'' ''0'', shop_row ''EGRESS'' ''0'' ''93.184.216.34'' ''443'']"

definition shop_broker :: broker where
  "shop_broker = \<lparr>PodTrafficByName = (\<lambda>name. Inr shop_rows),
     PodByIP = (\<lambda>ip. Inr (if ip = ''10.0.0.4'' then Some (shop_detail ip ''web-0'' ''web'')
       else if ip = ''10.0.0.5'' then Some (shop_detail ip ''front-0'' ''front'') else None)),
     ServiceByIP = (\<lambda>ip. Inr None)\<rparr>"

definition named_store :: "labels Store" where
  "named_store = store_New (holding [shop_pod ''shop'' ''web-0'' ''web'', shop_pod ''shop'' ''front-0'' ''front''])
     (\<lambda>ns. Object (Some [''kubernetes.io/metadata.name'' \<mapsto> ns]))"

lemma named_store_keyed: "informer_keyed named_store"
proof -
  have "named_store = named_store\<lparr>podInformer := holding [shop_pod ''shop'' ''web-0'' ''web'', shop_pod ''shop'' ''front-0'' ''front'']\<rparr>"
    by (simp add: named_store_def store_New_def)
  then show ?thesis using holding_informer by metis
qed

definition shop_web :: PodDetail where
  "shop_web = shop_detail ''10.0.0.4'' ''web-0'' ''web''"

lemma shop_web_sel:
  "pd_PodIP shop_web = ''10.0.0.4''" "pd_Namespace shop_web = ''shop''"
  "pod_Labels (pd_Pod shop_web) = pod_Labels (shop_pod ''shop'' ''web-0'' ''web'')"
  "pod_Namespace (shop_pod ns name app) = ns"
  by (simp_all add: shop_web_def shop_detail_def shop_pod_def)

lemma shop_seen:
  "seen shop_web DirectionIngress shop_rows = {(''10.0.0.5'', 8080, ''TCP'')}"
  "seen shop_web DirectionEgress shop_rows = {(''93.184.216.34'', 443, ''TCP'')}"
proof -
  have "conns (ingress_conn shop_web) shop_rows = [(''10.0.0.5'', 8080, ''TCP'')]"
    "conns (egress_conn shop_web) shop_rows = [(''93.184.216.34'', 443, ''TCP'')]" by code_simp+
  then show "seen shop_web DirectionIngress shop_rows = {(''10.0.0.5'', 8080, ''TCP'')}"
    "seen shop_web DirectionEgress shop_rows = {(''93.184.216.34'', 443, ''TCP'')}" by (simp_all add: seen_def)
qed

lemma shop_found:
  "GetPod (store_Lookup named_store) ''shop'' ''web-0'' = Some (shop_pod ''shop'' ''web-0'' ''web'')"
  "GetPod (store_Lookup named_store) ''shop'' ''front-0'' = Some (shop_pod ''shop'' ''front-0'' ''front'')"
  by (simp_all add: store_Lookup_def store_GetPod_def named_store_def store_New_def holding_def slash_free_def pod_key_def shop_pod_def)

lemma shop_names: "GetNamespaceLabels (store_Lookup named_store) ''shop'' = Some [''kubernetes.io/metadata.name'' \<mapsto> ''shop'']"
  by (simp add: store_Lookup_def store_GetNamespaceLabels_def named_store_def store_New_def)

lemma shop_peer: "resolve shop_broker ''10.0.0.5'' = Some ([''app'' \<mapsto> ''front''], ''shop'')"
  by (simp add: resolve_def shop_broker_def shop_detail_def shop_pod_def)

lemma shop_generates: "\<exists>p. Generate lib_kube shop_broker ''web-0'' shop_rows (Some shop_web) = Inr p"
  by (simp add: numbers.Generate_policy_of)

lemma shop_flow_peer:
  "flow_seen shop_broker (store_Lookup named_store) (shop_flow src) DirectionIngress (seen shop_web DirectionIngress shop_rows) \<longleftrightarrow> src = ''front-0''"
  if "src = ''front-0'' \<or> src = ''web-0''"
  using that by (auto simp: flow_seen_def shop_seen shop_flow_def peer_seen_def shop_peer peerPod_def shop_found shop_names
      shop_pod_def map_le_def)

theorem generated_policy_exact_witness:
  "\<exists>p. Generate lib_kube shop_broker ''web-0'' shop_rows (Some shop_web) = Inr p
    \<and> map res_Verdict (filter (\<lambda>r. res_Direction r = DirectionIngress)
        (Match (\<lambda>l. Some (map_le l)) (shop_flow ''front-0'') (audited p ''u'' 1) (store_Lookup named_store))) = [VerdictAllow]
    \<and> map res_Verdict (filter (\<lambda>r. res_Direction r = DirectionIngress)
        (Match (\<lambda>l. Some (map_le l)) (shop_flow ''web-0'') (audited p ''u'' 1) (store_Lookup named_store))) = [VerdictWouldDeny]"
proof -
  obtain p where p: "Generate lib_kube shop_broker ''web-0'' shop_rows (Some shop_web) = Inr p"
    using shop_generates by blast
  have subject: "subjectPod (shop_flow src) DirectionIngress (store_Lookup named_store) = Some (shop_pod ''shop'' ''web-0'' ''web'')" for src
    by (simp add: subjectPod_def shop_flow_def shop_found)
  have "map res_Verdict (filter (\<lambda>r. res_Direction r = DirectionIngress)
      (Match (\<lambda>l. Some (map_le l)) (shop_flow src) (audited p ''u'' 1) (store_Lookup named_store))) =
    [if flow_seen shop_broker (store_Lookup named_store) (shop_flow src) DirectionIngress (seen shop_web DirectionIngress shop_rows)
      then VerdictAllow else VerdictWouldDeny]" for src
    by (subst generated_policy_exact [OF lib_documented _ named_store_keyed _ subject _ _ p])
      (simp_all add: labels_valid_def shop_web_sel shop_seen)
  with p show ?thesis by (auto simp: shop_flow_peer)
qed

section \<open>Regeneration\<close>

text \<open>
  C22: regeneration is deterministic.  For both policy types the service's answer, rendering and
  errors included, depends on the pod's rows only through their set and the address of the first:
  neither their order nor repetitions show in the policy.
\<close>

theorem regeneration_stable:
  assumes "kube_documented k as_selector valid" and "t = StandardPolicy \<or> t = CiliumPolicy"
    and "same_resolution b c" and "PodTrafficByName b name = Inr rows" and "PodTrafficByName c name = Inr rows'"
    and "set rows = set rows'" and "lookup_ip rows = lookup_ip rows'"
  shows "GeneratePolicy marshal (UseBrokerData (createPolicyService k dflt t0) (Some b)) name t =
    GeneratePolicy marshal (UseBrokerData (createPolicyService k dflt t0) (Some c)) name t"
  using assms(2) kube_ports.service_stable [OF documented_ports [OF assms(1)] assms(3-7)] by blast

theorem regeneration_stable_witness:
  "GeneratePolicy (\<lambda>p. Inr []) (UseBrokerData (createPolicyService lib_kube shop_broker CiliumPolicy) (Some shop_broker)) ''web-0'' StandardPolicy =
   GeneratePolicy (\<lambda>p. Inr []) (UseBrokerData (createPolicyService lib_kube shop_broker CiliumPolicy)
     (Some (shop_broker\<lparr>PodTrafficByName := (\<lambda>name. Inr (rev shop_rows @ shop_rows))\<rparr>))) ''web-0'' StandardPolicy"
  by (rule regeneration_stable [OF lib_documented, of _ _ _ _ shop_rows "rev shop_rows @ shop_rows"])
    (auto simp: same_resolution_def shop_broker_def shop_rows_def shop_row_def lookup_ip_def)

section \<open>The two generators\<close>

text \<open>The labels of a Cilium selector without their prefix, and the peers of the two rules side by side.\<close>

definition plain_labels :: "CiliumEndpointSelector \<Rightarrow> labels" where
  "plain_labels e = (\<lambda>key. ces_MatchLabels e (''k8s:'' @ key))"

definition standard_peers :: "'s NetworkPolicyPeer list \<Rightarrow> (string + 's option) list" where
  "standard_peers ps = map (\<lambda>p. case peer_IPBlock p of Some blk \<Rightarrow> Inl (CIDR blk) | None \<Rightarrow> Inr (peer_PodSelector p)) ps"

definition cilium_peers :: "'s kube \<Rightarrow> CiliumEndpointSelector list \<Rightarrow> string list \<Rightarrow> (string + 's option) list" where
  "cilium_peers k endpoints cidrs = map (\<lambda>e. Inr (Some (MatchLabels k (plain_labels e)))) endpoints @ map Inl cidrs"

lemma plain_labels_prefix: "plain_labels (newCiliumEndpointSelector l) = l"
  by (auto simp: plain_labels_def newCiliumEndpointSelector_def fun_eq_iff)

lemma peers_agree:
  "standard_peers [peer_of k b ip] = cilium_peers k (fst (resolvePeerForCilium b ip)) (snd (resolvePeerForCilium b ip))"
  by (simp add: standard_peers_def cilium_peers_def peer_of_def resolvePeerForCilium_resolve block_peer_def selector_peer_def
      plain_labels_prefix split: option.split prod.split)

context kube_ports
begin

lemma ports_agree: "port_rules k (map mk_port (ports_seen (seen d dir rows) ip)) = map cilium_port (ports_seen (seen d dir rows) ip)"
  by (rule port_rules_cilium) (auto simp: ports_seen_def finite_seen seen_port_number)

lemma rules_agree:
  "map (\<lambda>r. (standard_peers (ing_From r), port_rules k (ing_Ports r))) (ingress_of k b (seen d DirectionIngress rows)) =
    map (\<lambda>r. (cilium_peers k (FromEndpoints r) (FromCIDR r), cin_ToPorts r)) (cilium_ingress_of b (seen d DirectionIngress rows))"
  "map (\<lambda>r. (standard_peers (egr_To r), port_rules k (egr_Ports r))) (egress_of k b (seen d DirectionEgress rows)) =
    map (\<lambda>r. (cilium_peers k (ToEndpoints r) (ToCIDR r), ceg_ToPorts r)) (cilium_egress_of b (seen d DirectionEgress rows))"
  by (simp_all add: ingress_of_def egress_of_def cilium_ingress_of_def cilium_egress_of_def ports_agree peers_agree comp_def)

end

text \<open>
  the generators agree.  From the same rows, the standard and the Cilium policy have the same
  rules in the same order: the same ports, the same address blocks, and selectors with the same pod
  labels.
\<close>

theorem generators_agree:
  assumes "kube_documented k as_selector valid"
    and "Generate k b name rows (Some d) = Inr p" and "cilium_Generate k b name rows (Some d) = Inr c"
  shows "map (\<lambda>r. (standard_peers (ing_From r), port_rules k (ing_Ports r))) (spec_Ingress (pol_Spec p)) =
      map (\<lambda>r. (cilium_peers k (FromEndpoints r) (FromCIDR r), cin_ToPorts r)) (cr_Ingress (cil_Spec c))
    \<and> map (\<lambda>r. (standard_peers (egr_To r), port_rules k (egr_Ports r))) (spec_Egress (pol_Spec p)) =
      map (\<lambda>r. (cilium_peers k (ToEndpoints r) (ToCIDR r), ceg_ToPorts r)) (cr_Egress (cil_Spec c))"
proof -
  let ?I = "seen d DirectionIngress rows" and ?X = "seen d DirectionEgress rows"
  note ports = documented_ports [OF assms(1)]
  have p: "p = policy_of k b d ?I ?X" and c: "c = cilium_policy_of b d ?I ?X"
    using assms(2,3) by (simp_all add: kube_ports.Generate_policy_of [OF ports] kube_ports.cilium_Generate_policy_of [OF ports] seen_def)
  show ?thesis
  proof (cases "?I = {} \<and> ?X = {}")
    case True
    then show ?thesis
      by (simp add: p c policy_of_def cilium_policy_of_def generateDefaultDenyPolicy_def cilium_generateDefaultDenyPolicy_def)
  next
    case False
    then show ?thesis
      unfolding p c policy_of_def cilium_policy_of_def if_not_P [OF False]
      using kube_ports.rules_agree [OF ports, of b d rows] by simp
  qed
qed

theorem generators_agree_witness:
  "\<exists>p c. Generate lib_kube shop_broker ''web-0'' shop_rows (Some shop_web) = Inr p
    \<and> cilium_Generate lib_kube shop_broker ''web-0'' shop_rows (Some shop_web) = Inr c
    \<and> map (\<lambda>r. (standard_peers (egr_To r), port_rules lib_kube (egr_Ports r))) (spec_Egress (pol_Spec p)) =
      map (\<lambda>r. (cilium_peers lib_kube (ToEndpoints r) (ToCIDR r), ceg_ToPorts r)) (cr_Egress (cil_Spec c))"
proof -
  obtain p c where "Generate lib_kube shop_broker ''web-0'' shop_rows (Some shop_web) = Inr p"
    "cilium_Generate lib_kube shop_broker ''web-0'' shop_rows (Some shop_web) = Inr c"
    by (simp add: numbers.Generate_policy_of numbers.cilium_Generate_policy_of)
  with generators_agree [OF lib_documented this] show ?thesis by blast
qed

section \<open>From the controller to the policy\<close>

text \<open>A row of the controller as the advisor decodes it: \<^verbatim>\<open>null\<close> leaves a Go string empty, and the
  struct has no field for the decision.\<close>

definition wire_row :: "pod_traffic \<Rightarrow> PodTraffic" where
  "wire_row r = (let text = (\<lambda>f. case f of None \<Rightarrow> [] | Some s \<Rightarrow> s)
     in \<lparr>tr_UUID = pt_uuid r, tr_SrcPodName = pt_pod_name r, tr_SrcIP = pt_pod_ip r, tr_SrcNamespace = text (pt_pod_namespace r),
       tr_SrcPodPort = text (pt_pod_port r), tr_TrafficType = text (pt_traffic_type r),
       tr_DstIP = text (pt_traffic_in_out_ip r), tr_DstPort = text (pt_traffic_in_out_port r),
       tr_Protocol = text (pt_ip_protocol r)\<rparr>)"

definition event_dir :: "network_event_data \<Rightarrow> Direction" where
  "event_dir ev = (if ne_kind ev = KIND_INGRESS_TCP then DirectionIngress else DirectionEgress)"

definition event_port :: "network_event_data \<Rightarrow> u16" where
  "event_port ev = (if ne_kind ev = KIND_INGRESS_TCP then ne_sport ev else ne_dport ev)"

definition event_proto :: "network_event_data \<Rightarrow> Protocol" where
  "event_proto ev = (if ne_kind ev = KIND_EGRESS_UDP then ''UDP'' else ''TCP'')"

lemma traffic_types:
  "EqualFold ''INGRESS'' ''INGRESS''" "\<not> EqualFold ''EGRESS'' ''INGRESS''" "EqualFold ''EGRESS'' ''EGRESS''"
  by code_simp+

lemma ipv4_string_Nil: "ipv4_string w \<noteq> []"
  by (rule be_bytes_cases [of w]) (simp add: ipv4_string_bytes)

lemma parsePort_u16: "parsePort (digits (unat p)) = (if p = 0 then None else Some (uint p))" for p :: u16
proof -
  have "unat p < 65536" using unsigned_less [of p, where ?'a = nat] by simp
  then show ?thesis by (auto simp: parsePort_digits unat_gt_0)
qed

lemma enter_row_Some: "enter_row ins r cache = (Some x, cache') \<Longrightarrow> x = r"
  by (auto simp: enter_row_def split: if_splits)

lemma conn_seen: "(if dir = DirectionIngress then ingress_conn d else egress_conn d) tr = Some c \<Longrightarrow> tr \<in> set rows \<Longrightarrow> c \<in> seen d dir rows"
  by (auto simp: seen_def set_conns)

lemma observed_row_seen:
  assumes "build_traffic_event ins uuid now ev pod cache = (Some r, cache')" and "wire_row r \<in> set rows"
    and "pd_PodIP d = pod_ip pod" and "event_port ev \<noteq> 0"
  shows "(ipv4_string (from_be (ne_daddr ev)), uint (event_port ev), event_proto ev) \<in> seen d (event_dir ev) rows"
proof (rule conn_seen [OF _ assms(2)])
  have r: "candidate (Traffic ev pod uuid now) = Some r"
    using assms(1) by (auto simp: build_traffic_event_eq dest: enter_row_Some split: option.splits)
  then show "(if event_dir ev = DirectionIngress then ingress_conn d else egress_conn d) (wire_row r) =
      Some (ipv4_string (from_be (ne_daddr ev)), uint (event_port ev), event_proto ev)"
    using assms(3,4)
    by (auto simp: candidate_def row_def wire_row_def ingress_conn_def egress_conn_def usable_peer_def IsIngressTraffic_def
        IsEgressTraffic_def traffic_types ipv4_string_Nil parsePort_u16 event_dir_def event_port_def event_proto_def protocolPtr_def
        KIND_INGRESS_TCP_def KIND_EGRESS_UDP_def split: if_splits)
qed

lemma dropped_row_seen:
  assumes "build_policy_drop_event ins uuid now ev pod cache = (Some r, cache')" and "wire_row r \<in> set rows"
    and "pd_PodIP d = pod_ip pod" and "pe_dport ev \<noteq> 0"
  shows "(ipv4_string (from_be (pe_daddr ev)), uint (pe_dport ev), if pe_protocol ev = 17 then ''UDP'' else ''TCP'')
    \<in> seen d DirectionEgress rows"
proof (rule conn_seen [OF _ assms(2)])
  have r: "candidate (Drop ev pod uuid now) = Some r"
    using assms(1) by (auto simp: build_policy_drop_event_eq dest: enter_row_Some split: option.splits)
  then show "(if DirectionEgress = DirectionIngress then ingress_conn d else egress_conn d) (wire_row r) =
      Some (ipv4_string (from_be (pe_daddr ev)), uint (pe_dport ev), if pe_protocol ev = 17 then ''UDP'' else ''TCP'')"
    using assms(3,4)
    by (auto simp: candidate_def row_def wire_row_def egress_conn_def usable_peer_def IsIngressTraffic_def
        IsEgressTraffic_def traffic_types ipv4_string_Nil parsePort_u16 protocolPtr_def proto_to_string_def split: if_splits)
qed

lemma block_covers_itself: "block_covers (ipv4_string w) \<lparr>CIDR = ipv4_string w @ ''/32'', Except = []\<rparr>"
proof -
  have "digits 32 = ''32''" by code_simp
  then have "cidr_text (w, 32) = ipv4_string w @ ''/32''" by (simp add: cidr_text_def)
  then show ?thesis using block_text [of 32 w w] by (simp add: block_covers_def ParseIP_string)
qed

lemma peer_in_block: "resolve b (ipv4_string w) = None \<Longrightarrow> peer_seen b ns_labels (ipv4_string w) pod (ipv4_string w)"
  by (simp add: peer_seen_def block_covers_itself)

text \<open>A flow of the kind an event reports: to its remote address, with its port and protocol.\<close>

definition flow_like :: "network_event_data \<Rightarrow> Flow \<Rightarrow> bool" where
  "flow_like ev flow \<longleftrightarrow> peerIP flow (event_dir ev) = ipv4_string (from_be (ne_daddr ev))
     \<and> flow_Protocol flow = event_proto ev \<and> sint (DstPort flow) = uint (event_port ev)"

lemma observed_flow_allowed:
  assumes "kube_documented k as_selector valid" and "labels_valid valid b d" and "informer_keyed s"
    and "build_traffic_event ins uuid now ev pod cache = (Some r, cache')" and "wire_row r \<in> set rows"
    and "pd_PodIP d = pod_ip pod" and "event_port ev \<noteq> 0"
    and "Generate k b name rows (Some d) = Inr p"
    and "subjectPod flow (event_dir ev) (store_Lookup s) = Some subject" and "pod_Namespace subject = pd_Namespace d"
    and "map_le (pod_Labels (pd_Pod d)) (pod_Labels subject)"
    and "resolve b (ipv4_string (from_be (ne_daddr ev))) = None" and "flow_like ev flow"
  shows "map res_Verdict (filter (\<lambda>r. res_Direction r = event_dir ev)
    (Match as_selector flow (audited p uid gen) (store_Lookup s))) = [VerdictAllow]"
proof -
  let ?E = "seen d (event_dir ev) rows"
  have c: "(ipv4_string (from_be (ne_daddr ev)), uint (event_port ev), event_proto ev) \<in> ?E"
    by (rule observed_row_seen [OF assms(4-7)])
  have "flow_seen b (store_Lookup s) flow (event_dir ev) ?E"
    using assms(13) peer_in_block [OF assms(12)] unfolding flow_seen_def flow_like_def by (intro rev_bexI [OF c]) auto
  moreover have "event_dir ev = DirectionIngress \<or> event_dir ev = DirectionEgress" by (simp add: event_dir_def)
  moreover have "?E \<noteq> {}" using c by blast
  ultimately show ?thesis
    using generated_policy_from [OF assms(1-3) _ assms(9-11,8), of uid gen] by simp
qed

text \<open>
  What was observed stays allowed.  When a row that the controller built from a network event is
  among the pod's rows, and the advisor knows the remote address as neither a pod nor a service, the
  generated policy allows the flows of the pod with that address in the event's direction, with its
  port and protocol.
\<close>

theorem observed_connection_allowed:
  assumes "kube_documented k as_selector valid" and "labels_valid valid b d" and "informer_keyed s"
    and "build_traffic_event ins uuid now ev pod cache = (Some r, cache')" and "wire_row r \<in> set rows"
    and "pd_PodIP d = pod_ip pod" and "event_port ev \<noteq> 0"
    and "Generate k b name rows (Some d) = Inr p"
    and "subjectPod flow (event_dir ev) (store_Lookup s) = Some subject" and "pod_Namespace subject = pd_Namespace d"
    and "map_le (pod_Labels (pd_Pod d)) (pod_Labels subject)"
    and "resolve b (ipv4_string (from_be (ne_daddr ev))) = None"
    and "peerIP flow (event_dir ev) = ipv4_string (from_be (ne_daddr ev))"
    and "flow_Protocol flow = event_proto ev" and "sint (DstPort flow) = uint (event_port ev)"
  shows "map res_Verdict (filter (\<lambda>r. res_Direction r = event_dir ev)
    (Match as_selector flow (audited p uid gen) (store_Lookup s))) = [VerdictAllow]"
  by (rule observed_flow_allowed [OF assms(1-12)]) (simp add: flow_like_def assms(13-15))

definition web_event :: network_event_data where
  "web_event = \<lparr>ne_inum = 7, ne_saddr = 0, ne_sport = 40000, ne_daddr = 0x0900000A, ne_dport = 443, ne_kind = 1\<rparr>"

lemma web_event_sel: "ne_kind web_event = 1" "ne_daddr web_event = 0x0900000A" "ne_dport web_event = 443"
  by (simp_all add: web_event_def)

definition web_status :: pod_status where
  "web_status = \<lparr>pod_name = ''web-0'', pod_namespace = Some ''shop'', pod_ip = ''10.0.0.4''\<rparr>"

definition web_flow :: Flow where
  "web_flow = \<lparr>SrcPodNamespace = ''shop'', SrcPodName = ''web-0'', DstPodNamespace = [], DstPodName = [],
     SrcIP = ''10.0.0.4'', DstIP = ''10.0.0.9'', DstPort = 443, flow_Protocol = ''TCP'', Timestamp = 1\<rparr>"

lemma web_remote: "ipv4_string (from_be 0x0900000A) = ''10.0.0.9''"
proof -
  have "enc32 0x0900000A = [10, 0, 0, 9]" by (simp add: enc32_bytes)
  moreover have "digits 10 = ''10''" "digits 0 = ''0''" "digits 9 = ''9''" by code_simp+
  ultimately show ?thesis using ipv4_text [of "0x0900000A" 10 0 0 9] by simp
qed

lemma web_unresolved: "resolve shop_broker ''10.0.0.9'' = None"
  by (simp add: resolve_def shop_broker_def)

lemma web_subject: "subjectPod web_flow DirectionEgress (store_Lookup named_store) = Some (shop_pod ''shop'' ''web-0'' ''web'')"
  by (simp add: subjectPod_def web_flow_def shop_found)

lemma enter_row_fresh: "enter_row ins r Map.empty = (Some r, ins Map.empty (row_key r) ())"
  by (simp add: enter_row_def)

lemma lib_generates: "\<exists>p. Generate lib_kube shop_broker ''web-0'' rows (Some shop_web) = Inr p"
  by (simp add: numbers.Generate_policy_of)

theorem observed_connection_allowed_witness:
  "\<exists>r cache p. build_traffic_event (\<lambda>c key v. c(key \<mapsto> v)) ''id'' 0 web_event web_status Map.empty = (Some r, cache)
    \<and> Generate lib_kube shop_broker ''web-0'' [wire_row r] (Some shop_web) = Inr p
    \<and> map res_Verdict (filter (\<lambda>r. res_Direction r = DirectionEgress)
        (Match (\<lambda>l. Some (map_le l)) web_flow (audited p ''u'' 1) (store_Lookup named_store))) = [VerdictAllow]"
proof -
  have "pod_ip web_status \<noteq> ipv4_string (from_be (ne_daddr web_event))"
    by (simp add: web_event_def web_status_def web_remote)
  then obtain r cache where r: "build_traffic_event (\<lambda>c key v. c(key \<mapsto> v)) ''id'' 0 web_event web_status Map.empty = (Some r, cache)"
    by (simp add: build_traffic_event_eq candidate_def enter_row_fresh web_event_def)
  obtain p where p: "Generate lib_kube shop_broker ''web-0'' [wire_row r] (Some shop_web) = Inr p"
    using lib_generates by blast
  have dir: "event_dir web_event = DirectionEgress"
    by (simp add: event_dir_def web_event_def KIND_INGRESS_TCP_def)
  have "map res_Verdict (filter (\<lambda>r. res_Direction r = event_dir web_event)
        (Match (\<lambda>l. Some (map_le l)) web_flow (audited p ''u'' 1) (store_Lookup named_store))) = [VerdictAllow]"
  proof (rule observed_connection_allowed [OF lib_documented _ named_store_keyed r _ _ _ p])
    show "subjectPod web_flow (event_dir web_event) (store_Lookup named_store) = Some (shop_pod ''shop'' ''web-0'' ''web'')"
      by (simp add: dir web_subject)
  qed (simp_all add: dir labels_valid_def shop_web_sel web_status_def web_event_sel web_remote web_unresolved web_flow_def
      event_port_def event_proto_def peerIP_def KIND_INGRESS_TCP_def KIND_EGRESS_UDP_def)
  then show ?thesis unfolding dir by (intro exI conjI) (rule r, rule p)
qed

text \<open>
  C25: what was dropped is allowed.  The row that the controller builds for a connection a policy
  dropped reaches the advisor without its decision: among the pod's rows it makes the generated
  policy allow the very connection.  A protocol other than UDP is taken for TCP.
\<close>

theorem dropped_connection_allowed:
  assumes "kube_documented k as_selector valid" and "labels_valid valid b d" and "informer_keyed s"
    and "build_policy_drop_event ins uuid now ev pod cache = (Some r, cache')" and "wire_row r \<in> set rows"
    and "pd_PodIP d = pod_ip pod" and "pe_dport ev \<noteq> 0"
    and "Generate k b name rows (Some d) = Inr p"
    and "subjectPod flow DirectionEgress (store_Lookup s) = Some subject" and "pod_Namespace subject = pd_Namespace d"
    and "map_le (pod_Labels (pd_Pod d)) (pod_Labels subject)"
    and "resolve b (ipv4_string (from_be (pe_daddr ev))) = None"
    and "peerIP flow DirectionEgress = ipv4_string (from_be (pe_daddr ev))"
    and "flow_Protocol flow = (if pe_protocol ev = 17 then ''UDP'' else ''TCP'')"
    and "sint (DstPort flow) = uint (pe_dport ev)"
  shows "pt_decision r = Some ''DROP''
    \<and> map res_Verdict (filter (\<lambda>r. res_Direction r = DirectionEgress)
      (Match as_selector flow (audited p uid gen) (store_Lookup s))) = [VerdictAllow]"
proof
  show "pt_decision r = Some ''DROP''"
    using assms(4) by (auto simp: build_policy_drop_event_def Let_def split: if_splits)
  let ?E = "seen d DirectionEgress rows"
  have c: "(ipv4_string (from_be (pe_daddr ev)), uint (pe_dport ev), if pe_protocol ev = 17 then ''UDP'' else ''TCP'') \<in> ?E"
    by (rule dropped_row_seen [OF assms(4-7)])
  then have "flow_seen b (store_Lookup s) flow DirectionEgress ?E"
    unfolding flow_seen_def assms(13-15) by (rule rev_bexI) (simp add: peer_in_block assms(12))
  moreover have "?E \<noteq> {}" using c by blast
  ultimately show "map res_Verdict (filter (\<lambda>r. res_Direction r = DirectionEgress)
      (Match as_selector flow (audited p uid gen) (store_Lookup s))) = [VerdictAllow]"
    using generated_policy_from [OF assms(1-3) _ assms(9-11,8), of uid gen] by simp
qed

definition blocked_event :: policy_drop_event where
  "blocked_event = \<lparr>pe_timestamp = 0, pe_inum = 7, pe_saddr = 0, pe_daddr = 0x0900000A, pe_sport = 40000, pe_dport = 443,
     pe_protocol = 6, pe_syn_retries = 4\<rparr>"

theorem dropped_connection_allowed_witness:
  "\<exists>r cache p. build_policy_drop_event (\<lambda>c key v. c(key \<mapsto> v)) ''id'' 0 blocked_event web_status Map.empty = (Some r, cache)
    \<and> Generate lib_kube shop_broker ''web-0'' [wire_row r] (Some shop_web) = Inr p \<and> pt_decision r = Some ''DROP''
    \<and> map res_Verdict (filter (\<lambda>r. res_Direction r = DirectionEgress)
        (Match (\<lambda>l. Some (map_le l)) web_flow (audited p ''u'' 1) (store_Lookup named_store))) = [VerdictAllow]"
proof -
  have "pod_ip web_status \<noteq> ipv4_string (from_be (pe_daddr blocked_event))"
    by (simp add: blocked_event_def web_status_def web_remote)
  then obtain r cache where r: "build_policy_drop_event (\<lambda>c key v. c(key \<mapsto> v)) ''id'' 0 blocked_event web_status Map.empty = (Some r, cache)"
    by (simp add: build_policy_drop_event_eq candidate_def enter_row_fresh)
  obtain p where p: "Generate lib_kube shop_broker ''web-0'' [wire_row r] (Some shop_web) = Inr p"
    using lib_generates by blast
  have "pt_decision r = Some ''DROP'' \<and> map res_Verdict (filter (\<lambda>r. res_Direction r = DirectionEgress)
        (Match (\<lambda>l. Some (map_le l)) web_flow (audited p ''u'' 1) (store_Lookup named_store))) = [VerdictAllow]"
    by (rule dropped_connection_allowed [OF lib_documented _ named_store_keyed r _ _ _ p web_subject])
      (simp_all add: labels_valid_def shop_web_sel web_status_def blocked_event_def web_remote web_unresolved web_flow_def peerIP_def)
  then show ?thesis by (intro exI conjI) (rule r, rule p, erule conjunct1, erule conjunct2)
qed

section \<open>Where the generated policies fall short\<close>

text \<open>Namespaces do not reach a Cilium policy.\<close>

lemma cilium_namespace_blind:
  assumes "\<And>ip. map_option fst (resolve b ip) = map_option fst (resolve c ip)"
  shows "cilium_policy_of b d I X = cilium_policy_of c d I X"
proof -
  have "resolvePeerForCilium a ip = (case map_option fst (resolve a ip) of
      None \<Rightarrow> ([], [ip @ ''/32'']) | Some l \<Rightarrow> ([newCiliumEndpointSelector l], []))" for a ip
    by (simp add: resolvePeerForCilium_resolve split: option.split prod.split)
  then have "resolvePeerForCilium b = resolvePeerForCilium c" by (intro ext) (simp only: assms)
  then show ?thesis by (simp add: cilium_policy_of_def cilium_ingress_of_def cilium_egress_of_def)
qed


end
