(* ===== verification/Broker_Tables.thy ===== *)
theory Broker_Tables
  imports Advisor_Rules Controller_Events
begin

text \<open>
  The broker's data, from \<^verbatim>\<open>types.rs\<close> and \<^verbatim>\<open>schema.rs\<close> in \<^verbatim>\<open>src/broker/src\<close>, and what the broker uses of
  Rust's strings and of SQL.  A table is the list of its rows in the order a query without
  \<^verbatim>\<open>ORDER BY\<close> meets them.
\<close>

section \<open>Strings\<close>

text \<open>White space of one, two and three bytes in UTF-8.\<close>

definition ws1 :: "nat \<Rightarrow> bool" where
  "ws1 a \<longleftrightarrow> a = 32 \<or> 9 \<le> a \<and> a \<le> 13"

definition ws2 :: "nat \<Rightarrow> nat \<Rightarrow> bool" where
  "ws2 a b \<longleftrightarrow> a = 0xC2 \<and> (b = 0x85 \<or> b = 0xA0)"

definition ws3 :: "nat \<Rightarrow> nat \<Rightarrow> nat \<Rightarrow> bool" where
  "ws3 a b c \<longleftrightarrow>
     a = 0xE1 \<and> b = 0x9A \<and> c = 0x80 \<or>
     a = 0xE2 \<and> b = 0x80 \<and> (0x80 \<le> c \<and> c \<le> 0x8A \<or> c = 0xA8 \<or> c = 0xA9 \<or> c = 0xAF) \<or>
     a = 0xE2 \<and> b = 0x81 \<and> c = 0x9F \<or>
     a = 0xE3 \<and> b = 0x80 \<and> c = 0x80"

text \<open>The number of bytes of the white-space character at the front, or 0.\<close>

definition ws_front :: "string \<Rightarrow> nat" where
  "ws_front s =
     (if 1 \<le> length s \<and> ws1 (of_char (s ! 0)) then 1
      else if 2 \<le> length s \<and> ws2 (of_char (s ! 0)) (of_char (s ! 1)) then 2
      else if 3 \<le> length s \<and> ws3 (of_char (s ! 0)) (of_char (s ! 1)) (of_char (s ! 2)) then 3
      else 0)"

lemma ws_front_length: "ws_front s \<le> length s"
  by (simp add: ws_front_def)

function trim_start :: "string \<Rightarrow> string" where
  "trim_start s = (if ws_front s = 0 then s else trim_start (drop (ws_front s) s))"
  by pat_completeness simp
termination
proof (relation "measure length")
  fix s :: string assume "ws_front s \<noteq> 0"
  then show "(drop (ws_front s) s, s) \<in> measure length" using ws_front_length [of s] by (cases s) simp_all
qed simp

declare trim_start.simps [simp del]

text \<open>The number of bytes of the white-space character at the end.\<close>

definition ws_back :: "string \<Rightarrow> nat" where
  "ws_back s =
     (if 1 \<le> length s \<and> ws_front (drop (length s - 1) s) = 1 then 1
      else if 2 \<le> length s \<and> ws_front (drop (length s - 2) s) = 2 then 2
      else if 3 \<le> length s \<and> ws_front (drop (length s - 3) s) = 3 then 3
      else 0)"

lemma ws_back_length: "ws_back s \<le> length s"
  by (simp add: ws_back_def)

function trim_end :: "string \<Rightarrow> string" where
  "trim_end s = (if ws_back s = 0 then s else trim_end (take (length s - ws_back s) s))"
  by pat_completeness simp
termination
proof (relation "measure length")
  fix s :: string assume "ws_back s \<noteq> 0"
  then show "(take (length s - ws_back s) s, s) \<in> measure length" using ws_back_length [of s] by (cases s) simp_all
qed simp

declare trim_end.simps [simp del]

definition trim :: "string \<Rightarrow> string" where
  "trim s = trim_end (trim_start s)"

lemma trim_plain: "ws_front s = 0 \<Longrightarrow> ws_back s = 0 \<Longrightarrow> trim s = s"
  by (simp add: trim_def trim_start.simps [of s] trim_end.simps [of s])

definition to_ascii_uppercase :: "string \<Rightarrow> string" where
  "to_ascii_uppercase s = map (\<lambda>c. if 97 \<le> (of_char c :: nat) \<and> (of_char c :: nat) \<le> 122 then char_of (of_char c - (32 :: nat)) else c) s"

text \<open>\<^verbatim>\<open>str::parse\<close> for \<^verbatim>\<open>i32\<close> (and \<^verbatim>\<open>i64\<close>), whose syntax is that of \<^verbatim>\<open>Atoi\<close>, and for unsigned integers of \<open>w\<close> bits.\<close>

definition parse_i32 :: "string \<Rightarrow> int option" where
  "parse_i32 s = (case Atoi s of None \<Rightarrow> None | Some v \<Rightarrow> if - (2 ^ 31) \<le> v \<and> v < 2 ^ 31 then Some v else None)"

definition parse_unsigned :: "nat \<Rightarrow> string \<Rightarrow> nat option" where
  "parse_unsigned w s =
     (let ds = (case s of [] \<Rightarrow> [] | c # cs \<Rightarrow> if c = CHR ''+'' then cs else s)
      in if ds = [] then None
         else case digits_val 0 ds of None \<Rightarrow> None | Some n \<Rightarrow> if n < 2 ^ w then Some n else None)"

section \<open>JSON\<close>

datatype json = JNull | JBool bool | JNum string | JStr string | JArr "json list" | JObj "(string \<times> json) list"

text \<open>\<^verbatim>\<open>Value::get\<close>, and \<^verbatim>\<open>insert\<close> and \<^verbatim>\<open>remove\<close> on an object's map, which has each key once.\<close>

definition jget :: "string \<Rightarrow> json \<Rightarrow> json option" where
  "jget key v = (case v of JObj m \<Rightarrow> map_of m key | _ \<Rightarrow> None)"

definition jinsert :: "string \<Rightarrow> json \<Rightarrow> (string \<times> json) list \<Rightarrow> (string \<times> json) list" where
  "jinsert key v m = AList.update key v m"

definition jremove :: "string \<Rightarrow> (string \<times> json) list \<Rightarrow> (string \<times> json) list" where
  "jremove key m = filter (\<lambda>f. fst f \<noteq> key) m"

section \<open>Rows\<close>

record traffic_row =
  tf_uuid :: string
  tf_pod_name :: "string option"
  tf_pod_namespace :: "string option"
  tf_pod_ip :: "string option"
  tf_pod_port :: "string option"
  tf_ip_protocol :: "string option"
  tf_traffic_type :: "string option"
  tf_traffic_in_out_ip :: "string option"
  tf_traffic_in_out_port :: "string option"
  tf_decision :: "string option"
  tf_time_stamp :: nat

record pod_details_row =
  dt_pod_name :: string
  dt_pod_ip :: string
  dt_pod_namespace :: "string option"
  dt_pod_obj :: "json option"
  dt_time_stamp :: nat
  dt_node_name :: string
  dt_is_dead :: bool
  dt_pod_identity :: "string option"
  dt_workload_selector_labels :: "json option"

record svc_details_row =
  sv_svc_ip :: string
  sv_svc_name :: "string option"
  sv_svc_namespace :: "string option"
  sv_service_spec :: "json option"
  sv_time_stamp :: nat

record pod_syscalls_row =
  sy_pod_name :: string
  sy_pod_namespace :: string
  sy_syscalls :: string
  sy_arch :: string
  sy_time_stamp :: nat

record pod_input_syscalls =
  in_pod_name :: string
  in_pod_namespace :: string
  in_syscalls :: "string list"
  in_arch :: string
  in_time_stamp :: nat

record audit_verdict =
  av_id :: nat
  av_policy_uid :: string
  av_policy_namespace :: string
  av_policy_name :: string
  av_direction :: string
  av_src_namespace :: "string option"
  av_src_pod :: "string option"
  av_dst_namespace :: "string option"
  av_dst_pod :: "string option"
  av_dst_port :: i32
  av_protocol :: string
  av_reason :: "string option"
  av_observed_at :: nat
  av_verdict :: string

record database =
  tbl_traffic :: "traffic_row list"
  tbl_details :: "pod_details_row list"
  tbl_svcs :: "svc_details_row list"
  tbl_syscalls :: "pod_syscalls_row list"
  tbl_verdicts :: "audit_verdict list"

text \<open>Comparison with a column that may be \<^verbatim>\<open>NULL\<close>: only two values that are present can be equal.\<close>

definition sql_eq :: "'a option \<Rightarrow> 'a option \<Rightarrow> bool" where
  "sql_eq a b = (case (a, b) of (Some x, Some y) \<Rightarrow> x = y | _ \<Rightarrow> False)"

lemma sql_eq_Some [simp]: "sql_eq a (Some x) \<longleftrightarrow> a = Some x" "sql_eq (Some x) b \<longleftrightarrow> b = Some x"
  by (auto simp: sql_eq_def split: option.split)

lemma sql_eq_iff: "sql_eq a b \<longleftrightarrow> a = b \<and> a \<noteq> None"
  by (auto simp: sql_eq_def split: option.split)

end
