(* ===== verification/Broker_Audit.thy ===== *)
theory Broker_Audit
  imports Broker_Tables "HOL-Library.Multiset" "HOL-Library.Sublist"
begin

text \<open>
  The bridge from ingest to the evaluator, \<^verbatim>\<open>src/broker/src/audit.rs\<close>: the flow that is sent for a
  traffic row, what of the evaluator's answer is stored, and the bounded queue between them as a
  step relation.  The environment's variables, the evaluator's answer, the clock and the identifiers
  of new rows are parameters.
\<close>

section \<open>Configuration\<close>

definition AUDIT_INFLIGHT_PERMITS :: nat where
  "AUDIT_INFLIGHT_PERMITS = 16"

definition AUDIT_QUEUE_CAPACITY :: nat where
  "AUDIT_QUEUE_CAPACITY = 2048"

definition DEFAULT_AUDIT_EVAL_TIMEOUT_MS :: nat where
  "DEFAULT_AUDIT_EVAL_TIMEOUT_MS = 500"

definition MIN_AUDIT_EVAL_TIMEOUT_MS :: nat where
  "MIN_AUDIT_EVAL_TIMEOUT_MS = 50"

text \<open>A variable of the environment, parsed after trimming and raised to a least value.\<close>

definition env_at_least :: "nat \<Rightarrow> nat \<Rightarrow> string option \<Rightarrow> nat" where
  "env_at_least least dflt var = (case Option.bind var (\<lambda>v. parse_unsigned 64 (trim v)) of
     Some n \<Rightarrow> max n least
   | None \<Rightarrow> dflt)"

definition audit_eval_timeout_ms :: "string option \<Rightarrow> nat" where
  "audit_eval_timeout_ms var = env_at_least MIN_AUDIT_EVAL_TIMEOUT_MS DEFAULT_AUDIT_EVAL_TIMEOUT_MS var"

definition audit_inflight_permits :: "string option \<Rightarrow> nat" where
  "audit_inflight_permits var = env_at_least 1 AUDIT_INFLIGHT_PERMITS var"

definition audit_queue_capacity :: "string option \<Rightarrow> nat" where
  "audit_queue_capacity var = env_at_least 1 AUDIT_QUEUE_CAPACITY var"

lemma env_at_least_bound: "least \<le> dflt \<Longrightarrow> least \<le> env_at_least least dflt var"
  by (simp add: env_at_least_def split: option.split)

lemma permits_positive: "0 < audit_inflight_permits var"
  using env_at_least_bound [of 1 AUDIT_INFLIGHT_PERMITS var]
  by (simp add: audit_inflight_permits_def AUDIT_INFLIGHT_PERMITS_def)

definition audit_enabled :: "string option \<Rightarrow> bool" where
  "audit_enabled evaluator_url = (trim (case evaluator_url of None \<Rightarrow> [] | Some u \<Rightarrow> u) \<noteq> [])"

section \<open>Flows\<close>

record audit_flow =
  fl_src_pod_namespace :: "string option"
  fl_src_pod_name :: "string option"
  fl_dst_pod_namespace :: "string option"
  fl_dst_pod_name :: "string option"
  fl_src_ip :: "string option"
  fl_dst_ip :: "string option"
  fl_dst_port :: i32
  fl_protocol :: string
  fl_timestamp :: nat

definition dst_port_of :: "string \<Rightarrow> i32" where
  "dst_port_of s = (case parse_i32 s of None \<Rightarrow> 0 | Some v \<Rightarrow> word_of_int v)"

definition or_else :: "'a option \<Rightarrow> 'a \<Rightarrow> 'a" where
  "or_else a d = (case a of None \<Rightarrow> d | Some x \<Rightarrow> x)"

lemma or_else_simps [simp]: "or_else None d = d" "or_else (Some x) d = x"
  by (simp_all add: or_else_def)

definition build_flow_for_traffic :: "traffic_row \<Rightarrow> audit_flow option" where
  "build_flow_for_traffic traffic =
     (let normalised = to_ascii_uppercase (trim (or_else (tf_traffic_type traffic) []));
          protocol = or_else (tf_ip_protocol traffic) ''TCP''
      in if normalised = ''INGRESS'' then
           Some \<lparr>fl_src_pod_namespace = None, fl_src_pod_name = None,
             fl_dst_pod_namespace = tf_pod_namespace traffic, fl_dst_pod_name = tf_pod_name traffic,
             fl_src_ip = tf_traffic_in_out_ip traffic, fl_dst_ip = tf_pod_ip traffic,
             fl_dst_port = dst_port_of (or_else (tf_pod_port traffic) ''0''),
             fl_protocol = protocol, fl_timestamp = tf_time_stamp traffic\<rparr>
         else if normalised = ''EGRESS'' then
           Some \<lparr>fl_src_pod_namespace = tf_pod_namespace traffic, fl_src_pod_name = tf_pod_name traffic,
             fl_dst_pod_namespace = None, fl_dst_pod_name = None,
             fl_src_ip = tf_pod_ip traffic, fl_dst_ip = tf_traffic_in_out_ip traffic,
             fl_dst_port = dst_port_of (or_else (tf_traffic_in_out_port traffic) ''0''),
             fl_protocol = protocol, fl_timestamp = tf_time_stamp traffic\<rparr>
         else None)"

section \<open>Verdicts\<close>

record verdict_result =
  vr_policy_namespace :: string
  vr_policy_name :: string
  vr_policy_uid :: string
  vr_direction :: string
  vr_verdict :: string
  vr_reason :: string

definition is_persistable_verdict :: "string \<Rightarrow> bool" where
  "is_persistable_verdict verdict = (verdict = ''Allow'' \<or> verdict = ''WouldDeny'')"

definition verdict_insert :: "audit_flow \<Rightarrow> nat \<Rightarrow> verdict_result \<Rightarrow> nat \<Rightarrow> audit_verdict" where
  "verdict_insert flow now r new_id = \<lparr>av_id = new_id, av_policy_uid = vr_policy_uid r,
     av_policy_namespace = vr_policy_namespace r, av_policy_name = vr_policy_name r, av_direction = vr_direction r,
     av_src_namespace = fl_src_pod_namespace flow, av_src_pod = fl_src_pod_name flow,
     av_dst_namespace = fl_dst_pod_namespace flow, av_dst_pod = fl_dst_pod_name flow,
     av_dst_port = fl_dst_port flow, av_protocol = fl_protocol flow,
     av_reason = (if vr_reason r = [] then None else Some (vr_reason r)), av_observed_at = now,
     av_verdict = vr_verdict r\<rparr>"

text \<open>What the evaluator can answer.\<close>

datatype http_answer = Unreachable | BadStatus | Undecodable | Decoded "verdict_result list"

text \<open>\<open>answer\<close> is the evaluator's, \<open>db_ok\<close> whether a connection was free and the database answered,
  and \<open>ids\<close> numbers the new rows, whose identifiers are the primary key.\<close>

definition evaluate_and_persist :: "bool \<Rightarrow> (audit_flow \<Rightarrow> http_answer) \<Rightarrow> bool \<Rightarrow> nat \<Rightarrow> (nat \<Rightarrow> nat) \<Rightarrow> traffic_row
    \<Rightarrow> audit_verdict list \<Rightarrow> audit_verdict list" where
  "evaluate_and_persist enabled answer db_ok now ids traffic verdicts =
     (if \<not> enabled then verdicts
      else case build_flow_for_traffic traffic of
        None \<Rightarrow> verdicts
      | Some flow \<Rightarrow>
          (case answer flow of
             Unreachable \<Rightarrow> verdicts
           | BadStatus \<Rightarrow> verdicts
           | Undecodable \<Rightarrow> verdicts
           | Decoded results \<Rightarrow>
               (let kept = filter (\<lambda>r. is_persistable_verdict (vr_verdict r)) results;
                    to_insert = map2 (verdict_insert flow now) kept (map ids [0..<length kept])
                in if to_insert = [] then verdicts
                   else if db_ok \<and> distinct (map av_id (verdicts @ to_insert)) then verdicts @ to_insert else verdicts)))"

section \<open>The queue\<close>

text \<open>
  \<open>q_holding\<close> is whether the dispatcher has a permit and waits for a flow, \<open>q_running\<close> holds the flows
  of the spawned workers, and \<open>q_open\<close> is whether the receiver still exists.
\<close>

record 'a audit_queue =
  q_capacity :: nat
  q_open :: bool
  q_permits :: nat
  q_chan :: "'a list"
  q_holding :: bool
  q_running :: "'a list"
  q_dropped :: nat

definition queue_start :: "nat \<Rightarrow> nat \<Rightarrow> 'a audit_queue" where
  "queue_start capacity permits = \<lparr>q_capacity = capacity, q_open = True, q_permits = permits, q_chan = [],
     q_holding = False, q_running = [], q_dropped = 0\<rparr>"

definition try_enqueue :: "'a \<Rightarrow> 'a audit_queue \<Rightarrow> 'a audit_queue" where
  "try_enqueue traffic q =
     (if \<not> q_open q then q
      else if q_capacity q \<le> length (q_chan q) then q\<lparr>q_dropped := q_dropped q + 1\<rparr>
      else q\<lparr>q_chan := q_chan q @ [traffic]\<rparr>)"

datatype 'a audit_act = Offer 'a | Acquire | Receive 'a | Finish 'a

inductive audit_step :: "'a audit_queue \<Rightarrow> 'a audit_act \<Rightarrow> 'a audit_queue \<Rightarrow> bool" where
  Offer: "audit_step q (Offer t) (try_enqueue t q)"
| Acquire: "\<not> q_holding q \<Longrightarrow> q_permits q = Suc n \<Longrightarrow> audit_step q Acquire (q\<lparr>q_holding := True, q_permits := n\<rparr>)"
| Receive: "q_holding q \<Longrightarrow> q_chan q = t # ts \<Longrightarrow>
    audit_step q (Receive t) (q\<lparr>q_holding := False, q_chan := ts, q_running := t # q_running q\<rparr>)"
| Finish: "t \<in> set (q_running q) \<Longrightarrow>
    audit_step q (Finish t) (q\<lparr>q_running := remove1 t (q_running q), q_permits := q_permits q + 1\<rparr>)"

inductive_cases audit_stepE: "audit_step q a q'"

inductive audit_run :: "'a audit_queue \<Rightarrow> 'a audit_act list \<Rightarrow> 'a audit_queue \<Rightarrow> bool" where
  Start: "audit_run q [] q"
| Step: "audit_run q acts q' \<Longrightarrow> audit_step q' a q'' \<Longrightarrow> audit_run q (acts @ [a]) q''"

text \<open>What a run offered, handed to workers and finished.\<close>

definition offered :: "'a audit_act list \<Rightarrow> 'a list" where
  "offered acts = List.map_filter (\<lambda>a. case a of Offer t \<Rightarrow> Some t | _ \<Rightarrow> None) acts"

definition received :: "'a audit_act list \<Rightarrow> 'a list" where
  "received acts = List.map_filter (\<lambda>a. case a of Receive t \<Rightarrow> Some t | _ \<Rightarrow> None) acts"

definition finished :: "'a audit_act list \<Rightarrow> 'a list" where
  "finished acts = List.map_filter (\<lambda>a. case a of Finish t \<Rightarrow> Some t | _ \<Rightarrow> None) acts"

lemma map_filter_append: "List.map_filter f (xs @ ys) = List.map_filter f xs @ List.map_filter f ys"
  by (simp add: List.map_filter_def)

lemma acts_snoc [simp]:
  "offered (acts @ [a]) = offered acts @ (case a of Offer t \<Rightarrow> [t] | _ \<Rightarrow> [])"
  "received (acts @ [a]) = received acts @ (case a of Receive t \<Rightarrow> [t] | _ \<Rightarrow> [])"
  "finished (acts @ [a]) = finished acts @ (case a of Finish t \<Rightarrow> [t] | _ \<Rightarrow> [])"
  by (simp_all add: offered_def received_def finished_def map_filter_append map_filter_simps split: audit_act.split)

lemma acts_Nil [simp]: "offered [] = []" "received [] = []" "finished [] = []"
  by (simp_all add: offered_def received_def finished_def map_filter_simps)

section \<open>Invariants of the queue\<close>

definition queue_ok :: "nat \<Rightarrow> nat \<Rightarrow> 'a audit_queue \<Rightarrow> bool" where
  "queue_ok capacity permits q \<longleftrightarrow> q_open q \<and> q_capacity q = capacity \<and> length (q_chan q) \<le> capacity \<and>
     q_permits q + length (q_running q) + (if q_holding q then 1 else 0) = permits"

text \<open>The flows that were not shed are, in order, those handed to workers and then those waiting.\<close>

definition queue_accounts :: "'a audit_act list \<Rightarrow> 'a audit_queue \<Rightarrow> bool" where
  "queue_accounts acts q \<longleftrightarrow> subseq (received acts @ q_chan q) (offered acts) \<and>
     length (offered acts) = length (received acts) + length (q_chan q) + q_dropped q \<and>
     mset (received acts) = mset (finished acts) + mset (q_running q)"

lemma queue_start_ok: "queue_ok capacity permits (queue_start capacity permits)"
  by (simp add: queue_ok_def queue_start_def)

lemma queue_step_ok: "audit_step q a q' \<Longrightarrow> queue_ok c p q \<Longrightarrow> queue_ok c p q'"
  by (cases rule: audit_step.cases, assumption)
    (auto simp: queue_ok_def try_enqueue_def length_remove1 dest: length_pos_if_in_set split: if_splits)

lemma subseq_snoc_both: "subseq (xs @ ys) zs \<Longrightarrow> subseq (xs @ ys @ [t]) (zs @ [t])"
  using list_emb_append_mono [of "(=)" "xs @ ys" zs "[t]" "[t]"] by simp

lemma queue_step_accounts:
  assumes "audit_step q a q'" and "q_open q" and "queue_accounts acts q" shows "queue_accounts (acts @ [a]) q'"
  using assms
proof (cases rule: audit_step.cases)
  case (Offer t)
  then show ?thesis using assms(2,3)
    by (auto simp: queue_accounts_def try_enqueue_def subseq_snoc_both intro: subseq_order.trans)
next
  case (Finish t)
  then show ?thesis using assms(3) by (simp add: queue_accounts_def)
qed (auto simp: queue_accounts_def)

lemma queue_run:
  "audit_run q acts q' \<Longrightarrow> q = queue_start c p \<Longrightarrow> queue_ok c p q' \<and> queue_accounts acts q'"
proof (induction rule: audit_run.induct)
  case (Start q)
  then show ?case by (simp add: queue_start_ok queue_accounts_def) (simp add: queue_start_def)
next
  case (Step q acts q' a q'')
  then show ?case using queue_step_ok queue_step_accounts by (metis queue_ok_def)
qed

lemma queue_can_move:
  assumes "queue_ok c p q" and "0 < p" and "q_chan q \<noteq> [] \<or> q_running q \<noteq> []"
  shows "\<exists>a q'. (\<forall>t. a \<noteq> Offer t) \<and> audit_step q a q'"
proof (cases "q_running q")
  case (Cons t ts)
  then show ?thesis using Finish [of t q] by force
next
  case Nil
  then obtain t ts where chan: "q_chan q = t # ts" using assms(3) by (cases "q_chan q") auto
  show ?thesis
  proof (cases "q_holding q")
    case True
    then show ?thesis using Receive [OF True chan] by blast
  next
    case False
    then have "q_permits q = Suc (p - 1)" using assms(1,2) Nil by (simp add: queue_ok_def)
    then show ?thesis using Acquire [OF False] by blast
  qed
qed

end
