(* ===== verification/Broker_Query.thy ===== *)
theory Broker_Query
  imports Broker_Tables Advisor_Policy "HOL-Library.Multiset"
begin

text \<open>
  The broker's reads, \<^verbatim>\<open>src/broker/src/get.rs\<close>: limits, orders, lookups and the slimming of stored
  manifests.  The database's collation of text is the parameter \<open>coll\<close>, the strict order it puts on
  strings; whether the database answers is \<open>ok\<close>.
\<close>

section \<open>Limits\<close>

definition clamp_i64 :: "i64 \<Rightarrow> i64 \<Rightarrow> i64 \<Rightarrow> i64" where
  "clamp_i64 lo hi n = (if sint n < sint lo then lo else if sint hi < sint n then hi else n)"

definition clamp_pod_traffic_limit :: "i64 option \<Rightarrow> i64" where
  "clamp_pod_traffic_limit raw = clamp_i64 1 20000 (case raw of None \<Rightarrow> 5000 | Some n \<Rightarrow> n)"

definition clamp_audit_limit :: "i64 option \<Rightarrow> i64" where
  "clamp_audit_limit raw = clamp_i64 1 500 (case raw of None \<Rightarrow> 100 | Some n \<Rightarrow> n)"

lemma clamp_i64_bounds: "sint lo \<le> sint hi \<Longrightarrow> sint lo \<le> sint (clamp_i64 lo hi n) \<and> sint (clamp_i64 lo hi n) \<le> sint hi"
  by (simp add: clamp_i64_def)

lemma clamp_pod_traffic_limit_bounds:
  "1 \<le> sint (clamp_pod_traffic_limit raw)" "sint (clamp_pod_traffic_limit raw) \<le> 20000"
  using clamp_i64_bounds [of 1 20000 "case raw of None \<Rightarrow> 5000 | Some n \<Rightarrow> n"] by (simp_all add: clamp_pod_traffic_limit_def)

lemma clamp_audit_limit_bounds: "1 \<le> sint (clamp_audit_limit raw)" "sint (clamp_audit_limit raw) \<le> 500"
  using clamp_i64_bounds [of 1 500 "case raw of None \<Rightarrow> 100 | Some n \<Rightarrow> n"] by (simp_all add: clamp_audit_limit_def)

section \<open>Manifests\<close>

definition drop_managed_fields :: "(string \<times> json) list \<Rightarrow> (string \<times> json) list" where
  "drop_managed_fields obj = (case map_of obj ''metadata'' of
     Some (JObj m) \<Rightarrow> jinsert ''metadata'' (JObj (jremove ''managedFields'' m)) obj
   | _ \<Rightarrow> obj)"

definition host_network :: "(string \<times> json) list \<Rightarrow> json option" where
  "host_network obj = (case Option.bind (map_of obj ''spec'') (jget ''hostNetwork'') of
     None \<Rightarrow> None
   | Some hn \<Rightarrow> if hn = JNull then None else Some hn)"

definition compact_pod_obj :: "json \<Rightarrow> json" where
  "compact_pod_obj v = (case v of
     JObj obj \<Rightarrow>
       (let obj1 = (case host_network obj of
              Some hn \<Rightarrow> jinsert ''spec'' (JObj [(''hostNetwork'', hn)]) obj
            | None \<Rightarrow> jremove ''spec'' obj);
            obj2 = jremove ''status'' obj1
        in JObj (drop_managed_fields obj2))
   | _ \<Rightarrow> v)"

definition compact_svc_spec :: "json \<Rightarrow> json" where
  "compact_svc_spec v = (case v of
     JObj obj \<Rightarrow> JObj (drop_managed_fields (jremove ''status'' obj))
   | _ \<Rightarrow> v)"

lemma map_of_jinsert [simp]: "map_of (jinsert a v m) = (map_of m)(a \<mapsto> v)"
  by (simp add: jinsert_def update_conv')

lemma map_of_jremove [simp]: "map_of (jremove a m) b = (if b = a then None else map_of m b)"
  by (induction m) (auto simp: jremove_def)

lemma jremove_absent: "map_of m a = None \<Longrightarrow> jremove a m = m"
  by (induction m) (auto simp: jremove_def split: if_splits)

lemma jinsert_present: "map_of m a = Some v \<Longrightarrow> jinsert a v m = m"
  by (simp add: jinsert_def update_triv)

lemma drop_managed_fields_idem: "drop_managed_fields (drop_managed_fields m) = drop_managed_fields m"
  by (auto simp: drop_managed_fields_def jinsert_present jremove_absent split: option.split json.split)

lemma map_of_drop_managed_fields:
  "a \<noteq> ''metadata'' \<Longrightarrow> map_of (drop_managed_fields m) a = map_of m a"
  by (auto simp: drop_managed_fields_def split: option.split json.split)

lemma host_network_cong: "map_of m ''spec'' = map_of m' ''spec'' \<Longrightarrow> host_network m = host_network m'"
  by (simp add: host_network_def)

lemma compact_svc_spec_idem: "compact_svc_spec (compact_svc_spec v) = compact_svc_spec v"
  by (cases v) (simp_all add: compact_svc_spec_def jremove_absent map_of_drop_managed_fields drop_managed_fields_idem)

lemma host_network_not_null: "host_network m \<noteq> Some JNull"
  by (auto simp: host_network_def split: option.split)

lemma compact_pod_obj_idem: "compact_pod_obj (compact_pod_obj v) = compact_pod_obj v"
proof (cases v)
  case (JObj m)
  show ?thesis
  proof (cases "host_network m")
    case None
    let ?m = "drop_managed_fields (jremove ''status'' (jremove ''spec'' m))"
    have "map_of ?m ''spec'' = None" "map_of ?m ''status'' = None" by (simp_all add: map_of_drop_managed_fields)
    then show ?thesis using JObj None
      by (simp add: compact_pod_obj_def host_network_def jremove_absent drop_managed_fields_idem)
  next
    case (Some hn)
    let ?m = "drop_managed_fields (jremove ''status'' (jinsert ''spec'' (JObj [(''hostNetwork'', hn)]) m))"
    have "map_of ?m ''spec'' = Some (JObj [(''hostNetwork'', hn)])" "map_of ?m ''status'' = None"
      by (simp_all add: map_of_drop_managed_fields)
    moreover from this have "host_network ?m = Some hn"
      using Some host_network_not_null [of m] by (auto simp: host_network_def jget_def)
    ultimately show ?thesis using JObj Some
      by (simp add: compact_pod_obj_def jinsert_present jremove_absent drop_managed_fields_idem)
  qed
qed (simp_all add: compact_pod_obj_def)

section \<open>Orders\<close>

definition newer :: "(string \<Rightarrow> string \<Rightarrow> bool) \<Rightarrow> traffic_row \<Rightarrow> traffic_row \<Rightarrow> bool" where
  "newer coll a b \<longleftrightarrow> tf_time_stamp b < tf_time_stamp a \<or>
     tf_time_stamp a = tf_time_stamp b \<and> coll (tf_uuid b) (tf_uuid a)"

text \<open>Ascending order of a nullable column, with \<^verbatim>\<open>NULL\<close> last.\<close>

definition null_last :: "(string \<Rightarrow> string \<Rightarrow> bool) \<Rightarrow> string option \<Rightarrow> string option \<Rightarrow> bool" where
  "null_last coll a b = (case (a, b) of
     (Some x, Some y) \<Rightarrow> coll x y
   | (Some x, None) \<Rightarrow> True
   | (None, _) \<Rightarrow> False)"

definition details_less :: "(string \<Rightarrow> string \<Rightarrow> bool) \<Rightarrow> pod_details_row \<Rightarrow> pod_details_row \<Rightarrow> bool" where
  "details_less coll a b \<longleftrightarrow> null_last coll (dt_pod_namespace a) (dt_pod_namespace b) \<or>
     dt_pod_namespace a = dt_pod_namespace b \<and> coll (dt_pod_name a) (dt_pod_name b)"

definition svc_less :: "(string \<Rightarrow> string \<Rightarrow> bool) \<Rightarrow> svc_details_row \<Rightarrow> svc_details_row \<Rightarrow> bool" where
  "svc_less coll a b \<longleftrightarrow> null_last coll (sv_svc_namespace a) (sv_svc_namespace b) \<or>
     sv_svc_namespace a = sv_svc_namespace b \<and>
       (null_last coll (sv_svc_name a) (sv_svc_name b) \<or>
        sv_svc_name a = sv_svc_name b \<and> coll (sv_svc_ip a) (sv_svc_ip b))"

definition live_first :: "pod_details_row \<Rightarrow> pod_details_row \<Rightarrow> bool" where
  "live_first a b \<longleftrightarrow> \<not> dt_is_dead a \<and> dt_is_dead b \<or>
     dt_is_dead a = dt_is_dead b \<and> dt_time_stamp b < dt_time_stamp a"

definition verdict_newer :: "audit_verdict \<Rightarrow> audit_verdict \<Rightarrow> bool" where
  "verdict_newer a b \<longleftrightarrow> av_observed_at b < av_observed_at a \<or>
     av_observed_at a = av_observed_at b \<and> av_id b < av_id a"

section \<open>Queries\<close>

definition pod_traffic_rows :: "(string \<Rightarrow> string \<Rightarrow> bool) \<Rightarrow> i64 \<Rightarrow> database \<Rightarrow> traffic_row list" where
  "pod_traffic_rows coll row_limit db = take (nat (sint row_limit)) (sort_slice (newer coll) (tbl_traffic db))"

definition pod_traffic_by_name :: "(string \<Rightarrow> string \<Rightarrow> bool) \<Rightarrow> string \<Rightarrow> database \<Rightarrow> traffic_row list" where
  "pod_traffic_by_name coll name db =
     sort_slice (newer coll) (filter (\<lambda>r. sql_eq (tf_pod_name r) (Some name)) (tbl_traffic db))"

definition pod_details :: "(string \<Rightarrow> string \<Rightarrow> bool) \<Rightarrow> database \<Rightarrow> pod_details_row list" where
  "pod_details coll db = sort_slice (details_less coll) (tbl_details db)"

definition compact_row :: "pod_details_row \<Rightarrow> pod_details_row" where
  "compact_row d = d\<lparr>dt_pod_obj := map_option compact_pod_obj (dt_pod_obj d)\<rparr>"

definition pods_by_node :: "(string \<Rightarrow> string \<Rightarrow> bool) \<Rightarrow> string \<Rightarrow> database \<Rightarrow> pod_details_row list" where
  "pods_by_node coll node db =
     sort_slice (details_less coll) (filter (\<lambda>d. \<not> dt_is_dead d) (filter (\<lambda>d. dt_node_name d = node) (tbl_details db)))"

definition svc_details_all :: "(string \<Rightarrow> string \<Rightarrow> bool) \<Rightarrow> database \<Rightarrow> svc_details_row list" where
  "svc_details_all coll db = sort_slice (svc_less coll) (tbl_svcs db)"

definition first_row :: "'a list \<Rightarrow> 'a option" where
  "first_row xs = (case xs of [] \<Rightarrow> None | x # _ \<Rightarrow> Some x)"

definition svc_by_ip :: "string \<Rightarrow> database \<Rightarrow> svc_details_row option" where
  "svc_by_ip ip db = first_row (filter (\<lambda>v. sv_svc_ip v = ip) (tbl_svcs db))"

definition pod_by_name :: "string \<Rightarrow> database \<Rightarrow> pod_details_row option" where
  "pod_by_name name db = first_row (sort_slice live_first (filter (\<lambda>d. dt_pod_name d = name) (tbl_details db)))"

definition pod_by_ip :: "string \<Rightarrow> database \<Rightarrow> pod_details_row option" where
  "pod_by_ip ip db = first_row (filter (\<lambda>d. dt_pod_ip d = ip) (tbl_details db))"

definition pod_syscalls_by_name :: "string \<Rightarrow> database \<Rightarrow> pod_syscalls_row list" where
  "pod_syscalls_by_name name db = filter (\<lambda>r. sy_pod_name r = name) (tbl_syscalls db)"

definition filter_by :: "'b option \<Rightarrow> ('a \<Rightarrow> 'b) \<Rightarrow> 'a list \<Rightarrow> 'a list" where
  "filter_by by col xs = (case by of None \<Rightarrow> xs | Some v \<Rightarrow> filter (\<lambda>x. col x = v) xs)"

definition audit_verdicts_query :: "string option \<Rightarrow> string option \<Rightarrow> string option \<Rightarrow> string option \<Rightarrow> i64
    \<Rightarrow> database \<Rightarrow> audit_verdict list" where
  "audit_verdicts_query by_policy by_namespace by_verdict by_direction row_limit db =
     (let q = filter_by by_policy av_policy_name (tbl_verdicts db);
          q = filter_by by_namespace av_policy_namespace q;
          q = filter_by by_verdict av_verdict q;
          q = filter_by by_direction av_direction q
      in take (nat (sint row_limit)) (sort_slice verdict_newer q))"

section \<open>Handlers\<close>

text \<open>The texts of refusals are left out.\<close>

datatype 'a answer = Answer 'a | Absent | Refused | DbFailed

definition answer_rows :: "bool \<Rightarrow> 'a \<Rightarrow> 'a answer" where
  "answer_rows ok rows = (if ok then Answer rows else DbFailed)"

definition answer_row :: "bool \<Rightarrow> 'a option \<Rightarrow> 'a answer" where
  "answer_row ok found = (if ok then (case found of Some r \<Rightarrow> Answer r | None \<Rightarrow> Absent) else DbFailed)"

definition get_pod_traffic :: "(string \<Rightarrow> string \<Rightarrow> bool) \<Rightarrow> bool \<Rightarrow> i64 option \<Rightarrow> database \<Rightarrow> traffic_row list answer" where
  "get_pod_traffic coll ok limit db = answer_rows ok (pod_traffic_rows coll (clamp_pod_traffic_limit limit) db)"

definition get_pod_traffic_name :: "(string \<Rightarrow> string \<Rightarrow> bool) \<Rightarrow> bool \<Rightarrow> string \<Rightarrow> database \<Rightarrow> traffic_row list answer" where
  "get_pod_traffic_name coll ok name db = answer_rows ok (pod_traffic_by_name coll name db)"

definition get_pod_details :: "(string \<Rightarrow> string \<Rightarrow> bool) \<Rightarrow> bool \<Rightarrow> database \<Rightarrow> pod_details_row list answer" where
  "get_pod_details coll ok db = answer_rows ok (map compact_row (pod_details coll db))"

definition get_pods_by_node :: "(string \<Rightarrow> string \<Rightarrow> bool) \<Rightarrow> bool \<Rightarrow> string \<Rightarrow> database \<Rightarrow> pod_details_row list answer" where
  "get_pods_by_node coll ok node db = answer_rows ok (pods_by_node coll node db)"

definition get_svc_details :: "(string \<Rightarrow> string \<Rightarrow> bool) \<Rightarrow> bool \<Rightarrow> database \<Rightarrow> svc_details_row list answer" where
  "get_svc_details coll ok db = answer_rows ok (svc_details_all coll db)"

definition get_svc_by_ip :: "bool \<Rightarrow> string \<Rightarrow> database \<Rightarrow> svc_details_row answer" where
  "get_svc_by_ip ok ip db = answer_row ok (svc_by_ip ip db)"

definition get_pod_by_name :: "bool \<Rightarrow> string \<Rightarrow> database \<Rightarrow> pod_details_row answer" where
  "get_pod_by_name ok name db = answer_row ok (pod_by_name name db)"

definition get_pod_by_ip :: "bool \<Rightarrow> string \<Rightarrow> database \<Rightarrow> pod_details_row answer" where
  "get_pod_by_ip ok ip db = answer_row ok (pod_by_ip ip db)"

definition get_pod_syscall_name :: "bool \<Rightarrow> string \<Rightarrow> database \<Rightarrow> pod_syscalls_row list answer" where
  "get_pod_syscall_name ok name db = answer_rows ok (pod_syscalls_by_name name db)"

record audit_verdicts_params =
  qp_policy :: "string option"
  qp_namespace :: "string option"
  qp_verdict :: "string option"
  qp_direction :: "string option"
  qp_limit :: "i64 option"

definition normalise_empty_to_none :: "string option \<Rightarrow> string option" where
  "normalise_empty_to_none raw = (case raw of None \<Rightarrow> None | Some s \<Rightarrow> if s = [] then None else Some s)"

definition VALID_VERDICTS :: "string list" where
  "VALID_VERDICTS = [''Allow'', ''WouldDeny'']"

definition VALID_DIRECTIONS :: "string list" where
  "VALID_DIRECTIONS = [''Ingress'', ''Egress'']"

definition validate_enum_filter :: "string \<Rightarrow> string list \<Rightarrow> bool" where
  "validate_enum_filter val allowed = (val \<in> set allowed)"

definition get_audit_verdicts :: "bool \<Rightarrow> audit_verdicts_params \<Rightarrow> database \<Rightarrow> audit_verdict list answer" where
  "get_audit_verdicts ok q db =
     (let limit = clamp_audit_limit (qp_limit q);
          policy_name = normalise_empty_to_none (qp_policy q);
          policy_ns = qp_namespace q;
          verdict_filter = normalise_empty_to_none (qp_verdict q);
          direction_filter = normalise_empty_to_none (qp_direction q)
      in if (case verdict_filter of None \<Rightarrow> False | Some v \<Rightarrow> \<not> validate_enum_filter v VALID_VERDICTS) then Refused
         else if (case direction_filter of None \<Rightarrow> False | Some d \<Rightarrow> \<not> validate_enum_filter d VALID_DIRECTIONS) then Refused
         else answer_rows ok (audit_verdicts_query policy_name policy_ns verdict_filter direction_filter limit db))"

section \<open>Sorted windows\<close>

lemma mset_insert_by: "mset (insert_by lt x ys) = add_mset x (mset ys)"
  by (induction ys) simp_all

lemma mset_sort: "mset (sort_slice lt xs) = mset xs"
  by (induction xs) (simp_all add: sort_slice_def mset_insert_by)

lemma set_sort: "set (sort_slice lt xs) = set xs"
  by (metis mset_sort set_mset_mset)

lemma length_sort: "length (sort_slice lt xs) = length xs"
  by (metis mset_sort size_mset)

locale strict_order =
  fixes lt :: "'a \<Rightarrow> 'a \<Rightarrow> bool"
  assumes asym: "lt x y \<Longrightarrow> \<not> lt y x"
    and chain: "\<not> lt y x \<Longrightarrow> \<not> lt z y \<Longrightarrow> \<not> lt z x"
begin

lemma insert_by_sorted: "sorted_wrt (\<lambda>a b. \<not> lt b a) ys \<Longrightarrow> sorted_wrt (\<lambda>a b. \<not> lt b a) (insert_by lt x ys)"
proof (induction ys)
  case (Cons y ys)
  have set: "set (insert_by lt x ys) = insert x (set ys)"
    using mset_insert_by [of lt x ys] by (metis set_mset_add_mset_insert set_mset_mset)
  have y: "\<forall>z \<in> set ys. \<not> lt z y" and ys: "sorted_wrt (\<lambda>a b. \<not> lt b a) ys" using Cons(2) by auto
  show ?case
  proof (cases "lt y x")
    case True
    then show ?thesis using set y Cons(1) [OF ys] asym [OF True] by simp
  next
    case False
    have "\<forall>z \<in> set ys. \<not> lt z x" using y chain [OF False] by blast
    then show ?thesis using False y ys by simp
  qed
qed simp

lemma sort_sorted: "sorted_wrt (\<lambda>a b. \<not> lt b a) (sort_slice lt xs)"
  by (induction xs) (simp_all add: sort_slice_def insert_by_sorted)

text \<open>The first \<open>n\<close> rows of a sorted query: none left out comes strictly before one taken.\<close>

lemma window:
  assumes "take n (sort_slice lt xs) = w"
  shows "length w = min n (length xs)" and "sorted_wrt (\<lambda>a b. \<not> lt b a) w"
    and "\<exists>rest. mset xs = mset w + rest \<and> (\<forall>x \<in># rest. \<forall>y \<in> set w. \<not> lt x y)"
proof -
  show "length w = min n (length xs)" using assms by (auto simp: length_sort)
  have "sorted_wrt (\<lambda>a b. \<not> lt b a) (w @ drop n (sort_slice lt xs))" using assms sort_sorted by auto
  then have *: "sorted_wrt (\<lambda>a b. \<not> lt b a) w" "\<forall>y \<in> set w. \<forall>x \<in> set (drop n (sort_slice lt xs)). \<not> lt x y"
    by (auto simp: sorted_wrt_append)
  then show "sorted_wrt (\<lambda>a b. \<not> lt b a) w" by blast
  have "mset xs = mset w + mset (drop n (sort_slice lt xs))"
    using assms mset_sort by (metis append_take_drop_id mset_append)
  then show "\<exists>rest. mset xs = mset w + rest \<and> (\<forall>x \<in># rest. \<forall>y \<in> set w. \<not> lt x y)" using *(2) by (metis set_mset_mset)
qed

end

interpretation verdict_order: strict_order verdict_newer
  by unfold_locales (auto simp: verdict_newer_def)

interpretation live_order: strict_order live_first
  by unfold_locales (auto simp: live_first_def)

text \<open>What the orders need of a collation: it is a strict linear order.\<close>

locale collation = strict_order coll for coll :: "string \<Rightarrow> string \<Rightarrow> bool"
begin

lemma newer_order: "strict_order (newer coll)"
  by unfold_locales (auto simp: newer_def dest: asym chain)

end

interpretation collation_C: collation "(<)"
  by unfold_locales (auto dest: order.strict_trans1)

end
