(* ===== verification/Broker_Ingest.thy ===== *)
theory Broker_Ingest
  imports Broker_Audit Broker_Query
begin

text \<open>
  The broker's writes, \<^verbatim>\<open>src/broker/src/add.rs\<close>: deduplicated traffic, pod and service records,
  the mark of dead pods and the syscall sets.  Whether the database answers is a parameter of each
  operation; a violated primary key is an error of the model.
\<close>

section \<open>Traffic\<close>

type_synonym content_key = "string option \<times> string option \<times> string option \<times> string option \<times> string option
    \<times> string option \<times> string option"

definition traffic_content_key :: "traffic_row \<Rightarrow> content_key" where
  "traffic_content_key e = (tf_pod_ip e, tf_pod_port e, tf_ip_protocol e, tf_traffic_type e,
     tf_traffic_in_out_ip e, tf_traffic_in_out_port e, tf_decision e)"

text \<open>The row that makes an event a duplicate.\<close>

definition traffic_get_row :: "traffic_row list \<Rightarrow> traffic_row \<Rightarrow> traffic_row option" where
  "traffic_get_row tbl e =
     (if tf_ip_protocol e = Some ''UDP'' then
        (case first_row (filter (\<lambda>r. sql_eq (tf_pod_ip r) (tf_pod_ip e)
              \<and> sql_eq (tf_traffic_type r) (tf_traffic_type e)
              \<and> sql_eq (tf_traffic_in_out_ip r) (tf_traffic_in_out_ip e)
              \<and> sql_eq (tf_traffic_in_out_port r) (tf_traffic_in_out_port e)
              \<and> sql_eq (tf_decision r) (tf_decision e)) tbl) of
           None \<Rightarrow>
             first_row (filter (\<lambda>r. sql_eq (tf_pod_ip r) (tf_pod_ip e)
               \<and> sql_eq (tf_pod_port r) (tf_pod_port e)
               \<and> sql_eq (tf_traffic_type r) (tf_traffic_type e)
               \<and> sql_eq (tf_traffic_in_out_ip r) (tf_traffic_in_out_ip e)
               \<and> sql_eq (tf_decision r) (tf_decision e)) tbl)
         | Some out \<Rightarrow> Some out)
      else first_row (filter (\<lambda>r. sql_eq (tf_pod_ip r) (tf_pod_ip e)
             \<and> sql_eq (tf_pod_port r) (tf_pod_port e)
             \<and> sql_eq (tf_traffic_type r) (tf_traffic_type e)
             \<and> sql_eq (tf_traffic_in_out_ip r) (tf_traffic_in_out_ip e)
             \<and> sql_eq (tf_traffic_in_out_port r) (tf_traffic_in_out_port e)
             \<and> sql_eq (tf_decision r) (tf_decision e)) tbl))"

text \<open>The events to insert; \<open>None\<close> when a lookup fails, \<open>ok e\<close> being whether the one for \<open>e\<close> is answered.\<close>

fun new_events :: "(traffic_row \<Rightarrow> bool) \<Rightarrow> traffic_row list \<Rightarrow> content_key set \<Rightarrow> traffic_row list \<Rightarrow> traffic_row list option" where
  "new_events ok tbl in_batch [] = Some []"
| "new_events ok tbl in_batch (e # es) =
     (if traffic_content_key e \<in> in_batch then new_events ok tbl in_batch es
      else if \<not> ok e then None
      else let rest = new_events ok tbl (insert (traffic_content_key e) in_batch) es
           in if traffic_get_row tbl e = None then map_option (Cons e) rest else rest)"

definition insert_traffic :: "bool \<Rightarrow> traffic_row list \<Rightarrow> traffic_row list \<Rightarrow> traffic_row list option" where
  "insert_traffic ins_ok es tbl =
     (if ins_ok \<and> distinct (map tf_uuid (tbl @ es)) then Some (tbl @ es) else None)"

text \<open>The rows inserted and the table after; \<open>None\<close> for an error, which leaves the table.\<close>

definition create_pod_traffic_batch :: "(traffic_row \<Rightarrow> bool) \<Rightarrow> bool \<Rightarrow> traffic_row list \<Rightarrow> traffic_row list
    \<Rightarrow> (traffic_row list \<times> traffic_row list) option" where
  "create_pod_traffic_batch ok ins_ok tbl batch =
     (if batch = [] then Some ([], tbl)
      else case new_events ok tbl {} batch of
        None \<Rightarrow> None
      | Some events_to_insert \<Rightarrow>
          if events_to_insert = [] then Some ([], tbl)
          else map_option (Pair events_to_insert) (insert_traffic ins_ok events_to_insert tbl))"

definition add_pods_batch :: "(traffic_row \<Rightarrow> bool) \<Rightarrow> bool \<Rightarrow> bool \<Rightarrow> traffic_row list
    \<Rightarrow> database \<times> traffic_row audit_queue \<Rightarrow> nat answer \<times> database \<times> traffic_row audit_queue" where
  "add_pods_batch ok ins_ok enabled form state =
     (let (db, audit) = state
      in case create_pod_traffic_batch ok ins_ok (tbl_traffic db) form of
        None \<Rightarrow> (DbFailed, db, audit)
      | Some (inserted, tbl) \<Rightarrow>
          (Answer (length inserted), db\<lparr>tbl_traffic := tbl\<rparr>,
           if enabled then fold try_enqueue inserted audit else audit))"

section \<open>Pods\<close>

text \<open>A changeset writes a column only where it has a value.\<close>

definition set_some :: "'a option \<Rightarrow> 'a option \<Rightarrow> 'a option" where
  "set_some new old = (case new of None \<Rightarrow> old | Some v \<Rightarrow> Some v)"

definition details_changeset :: "pod_details_row \<Rightarrow> pod_details_row \<Rightarrow> pod_details_row" where
  "details_changeset w d = d\<lparr>dt_pod_ip := dt_pod_ip w,
     dt_pod_namespace := set_some (dt_pod_namespace w) (dt_pod_namespace d),
     dt_pod_obj := set_some (dt_pod_obj w) (dt_pod_obj d),
     dt_time_stamp := dt_time_stamp w, dt_node_name := dt_node_name w, dt_is_dead := dt_is_dead w,
     dt_pod_identity := set_some (dt_pod_identity w) (dt_pod_identity d),
     dt_workload_selector_labels := set_some (dt_workload_selector_labels w) (dt_workload_selector_labels d)\<rparr>"

text \<open>\<^verbatim>\<open>INSERT \<dots> ON CONFLICT \<dots> DO UPDATE\<close> on a table keyed by \<open>key\<close>.\<close>

definition upsert_row :: "('a \<Rightarrow> string) \<Rightarrow> ('a \<Rightarrow> 'a \<Rightarrow> 'a) \<Rightarrow> 'a \<Rightarrow> 'a list \<Rightarrow> 'a list" where
  "upsert_row key changes w tbl =
     (if \<exists>d \<in> set tbl. key d = key w then map (\<lambda>d. if key d = key w then changes w d else d) tbl else tbl @ [w])"

definition upsert_pod_details :: "pod_details_row \<Rightarrow> pod_details_row list \<Rightarrow> pod_details_row \<times> pod_details_row list" where
  "upsert_pod_details w tbl = (let w1 = compact_row w in (w1, upsert_row dt_pod_name details_changeset w1 tbl))"

definition add_pod_details :: "bool \<Rightarrow> pod_details_row \<Rightarrow> database \<Rightarrow> pod_details_row answer \<times> database" where
  "add_pod_details ok form db =
     (if trim (dt_pod_name form) = [] then (Answer form, db)
      else if \<not> ok then (DbFailed, db)
      else let (pods, tbl) = upsert_pod_details form (tbl_details db) in (Answer pods, db\<lparr>tbl_details := tbl\<rparr>))"

definition mark_pod_as_dead :: "bool \<Rightarrow> string \<Rightarrow> string option \<Rightarrow> pod_details_row list \<Rightarrow> (nat \<times> pod_details_row list) option" where
  "mark_pod_as_dead ok pod ip tbl =
     (let pod = trim pod
      in if pod = [] then Some (0, tbl)
         else let ip = normalise_empty_to_none (map_option trim ip);
                  hit = (case ip of
                    Some precise_ip \<Rightarrow> (\<lambda>d. dt_pod_name d = pod \<and> dt_pod_ip d = precise_ip)
                  | None \<Rightarrow> (\<lambda>d. dt_pod_name d = pod))
              in if ok then Some (length (filter hit tbl), map (\<lambda>d. if hit d then d\<lparr>dt_is_dead := True\<rparr> else d) tbl)
                 else None)"

definition mark_pod_dead :: "bool \<Rightarrow> string \<Rightarrow> string option \<Rightarrow> database \<Rightarrow> nat answer \<times> database" where
  "mark_pod_dead ok pod ip db = (case mark_pod_as_dead ok pod ip (tbl_details db) of
     None \<Rightarrow> (DbFailed, db)
   | Some (n, tbl) \<Rightarrow> (Answer n, db\<lparr>tbl_details := tbl\<rparr>))"

section \<open>Services\<close>

definition is_routable_svc_ip :: "string \<Rightarrow> bool" where
  "is_routable_svc_ip s = (s \<noteq> [] \<and> s \<noteq> ''None'')"

definition svc_changeset :: "svc_details_row \<Rightarrow> svc_details_row \<Rightarrow> svc_details_row" where
  "svc_changeset w d = d\<lparr>sv_svc_name := set_some (sv_svc_name w) (sv_svc_name d),
     sv_svc_namespace := set_some (sv_svc_namespace w) (sv_svc_namespace d),
     sv_service_spec := set_some (sv_service_spec w) (sv_service_spec d),
     sv_time_stamp := sv_time_stamp w\<rparr>"

definition upsert_svc_details :: "svc_details_row \<Rightarrow> svc_details_row list \<Rightarrow> svc_details_row \<times> svc_details_row list" where
  "upsert_svc_details w tbl =
     (let w1 = w\<lparr>sv_service_spec := map_option compact_svc_spec (sv_service_spec w)\<rparr>
      in (w1, upsert_row sv_svc_ip svc_changeset w1 tbl))"

definition add_svc_details :: "bool \<Rightarrow> svc_details_row \<Rightarrow> database \<Rightarrow> svc_details_row answer \<times> database" where
  "add_svc_details ok form db =
     (if \<not> is_routable_svc_ip (sv_svc_ip form) then (Answer form, db)
      else if \<not> ok then (DbFailed, db)
      else let (svc, tbl) = upsert_svc_details form (tbl_svcs db) in (Answer svc, db\<lparr>tbl_svcs := tbl\<rparr>))"

section \<open>Syscalls\<close>

fun join_with :: "string \<Rightarrow> string list \<Rightarrow> string" where
  "join_with sep [] = []"
| "join_with sep [x] = x"
| "join_with sep (x # y # ys) = x @ sep @ join_with sep (y # ys)"

definition syscalls_get_row :: "pod_syscalls_row list \<Rightarrow> pod_input_syscalls \<Rightarrow> pod_syscalls_row option" where
  "syscalls_get_row tbl e = first_row (filter (\<lambda>r. sy_pod_name r = in_pod_name e
     \<and> sy_pod_namespace r = in_pod_namespace e \<and> sy_arch r = in_arch e) tbl)"

definition store_syscalls :: "pod_input_syscalls \<Rightarrow> pod_syscalls_row list \<Rightarrow> pod_syscalls_row list option" where
  "store_syscalls e tbl =
     (if trim (in_pod_name e) = [] then Some tbl
      else let new_syscall_number = join_with '','' (in_syscalls e)
           in case syscalls_get_row tbl e of
             Some r \<Rightarrow>
               Some (map (\<lambda>q. if sy_pod_name q = sy_pod_name r then q\<lparr>sy_syscalls := new_syscall_number\<rparr> else q) tbl)
           | None \<Rightarrow>
               if \<exists>q \<in> set tbl. sy_pod_name q = in_pod_name e then None
               else Some (tbl @ [\<lparr>sy_pod_name = in_pod_name e, sy_pod_namespace = in_pod_namespace e,
                 sy_syscalls = new_syscall_number, sy_arch = in_arch e, sy_time_stamp = in_time_stamp e\<rparr>]))"

fun store_all_syscalls :: "pod_input_syscalls list \<Rightarrow> pod_syscalls_row list \<Rightarrow> pod_syscalls_row list option" where
  "store_all_syscalls [] tbl = Some tbl"
| "store_all_syscalls (e # es) tbl = Option.bind (store_syscalls e tbl) (store_all_syscalls es)"

text \<open>The transaction: an error rolls every entry back.\<close>

definition create_pod_syscalls :: "bool \<Rightarrow> pod_input_syscalls list \<Rightarrow> pod_syscalls_row list \<Rightarrow> pod_syscalls_row list option" where
  "create_pod_syscalls ok w tbl = (if ok then store_all_syscalls w tbl else None)"

definition add_pods_syscalls :: "bool \<Rightarrow> pod_input_syscalls list \<Rightarrow> database \<Rightarrow> unit answer \<times> database" where
  "add_pods_syscalls ok form db = (case create_pod_syscalls ok form (tbl_syscalls db) of
     None \<Rightarrow> (DbFailed, db)
   | Some tbl \<Rightarrow> (Answer (), db\<lparr>tbl_syscalls := tbl\<rparr>))"

section \<open>Laws of the lookups\<close>

lemma first_row_None: "first_row xs = None \<longleftrightarrow> xs = []"
  by (simp add: first_row_def split: list.split)

lemma first_row_filter_None: "first_row (filter P xs) = None \<longleftrightarrow> (\<forall>x \<in> set xs. \<not> P x)"
  by (simp add: first_row_None filter_empty_conv)

lemma first_row_filter_Some: "first_row (filter P xs) = Some x \<Longrightarrow> x \<in> set xs \<and> P x"
  by (auto simp: first_row_def split: list.splits dest: filter_eq_ConsD)

definition same_flow :: "traffic_row \<Rightarrow> traffic_row \<Rightarrow> bool" where
  "same_flow e r \<longleftrightarrow> sql_eq (tf_pod_ip r) (tf_pod_ip e) \<and> sql_eq (tf_traffic_type r) (tf_traffic_type e)
     \<and> sql_eq (tf_traffic_in_out_ip r) (tf_traffic_in_out_ip e) \<and> sql_eq (tf_decision r) (tf_decision e)"

lemma traffic_get_row_None:
  "traffic_get_row tbl e = None \<longleftrightarrow>
    (\<forall>r \<in> set tbl. same_flow e r \<longrightarrow>
      (if tf_ip_protocol e = Some ''UDP''
       then \<not> sql_eq (tf_pod_port r) (tf_pod_port e) \<and> \<not> sql_eq (tf_traffic_in_out_port r) (tf_traffic_in_out_port e)
       else \<not> (sql_eq (tf_pod_port r) (tf_pod_port e) \<and> sql_eq (tf_traffic_in_out_port r) (tf_traffic_in_out_port e))))"
proof (cases "tf_ip_protocol e = Some ''UDP''")
  case True
  then show ?thesis unfolding traffic_get_row_def same_flow_def
    by (auto simp: first_row_filter_None split: option.split dest: first_row_filter_Some)
next
  case False
  then show ?thesis unfolding traffic_get_row_def same_flow_def by (auto simp: first_row_filter_None)
qed

end
