(* ===== verification/Broker_Retention.thy ===== *)
theory Broker_Retention
  imports Broker_Ingest
begin

text \<open>
  The periodic pruning, \<^verbatim>\<open>src/broker/src/retention.rs\<close>: batches of expired audit verdicts and of pods
  dead for long are deleted, at most 200 batches in a pass.  The answers of the database and its
  clock, in microseconds, are parameters indexed by the batch.
\<close>

section \<open>Configuration\<close>

definition DEFAULT_RETENTION_DAYS :: nat where
  "DEFAULT_RETENTION_DAYS = 30"

definition DEFAULT_INTERVAL_SECS :: nat where
  "DEFAULT_INTERVAL_SECS = 3600"

definition DEFAULT_BATCH_SIZE :: i64 where
  "DEFAULT_BATCH_SIZE = 5000"

definition MIN_BATCH_SIZE :: i64 where
  "MIN_BATCH_SIZE = 100"

definition MAX_BATCH_SIZE :: i64 where
  "MAX_BATCH_SIZE = 100000"

definition MAX_BATCHES_PER_PASS :: nat where
  "MAX_BATCHES_PER_PASS = 200"

definition DEFAULT_DEAD_POD_RETENTION_DAYS :: nat where
  "DEFAULT_DEAD_POD_RETENTION_DAYS = 7"

definition dead_pod_retention_window :: "nat \<Rightarrow> nat" where
  "dead_pod_retention_window audit_days = (if audit_days > 0 then audit_days else DEFAULT_DEAD_POD_RETENTION_DAYS)"

definition retention_days :: "string option \<Rightarrow> nat" where
  "retention_days var = or_else (Option.bind var (\<lambda>v. parse_unsigned 32 (trim v))) DEFAULT_RETENTION_DAYS"

definition retention_interval :: "string option \<Rightarrow> nat" where
  "retention_interval var = max (or_else (Option.bind var (\<lambda>v. parse_unsigned 64 (trim v))) DEFAULT_INTERVAL_SECS) 60"

definition retention_batch_size :: "string option \<Rightarrow> i64" where
  "retention_batch_size var = or_else
     (map_option (\<lambda>n. clamp_i64 MIN_BATCH_SIZE MAX_BATCH_SIZE (word_of_int n)) (Option.bind var (\<lambda>v. Atoi (trim v))))
     DEFAULT_BATCH_SIZE"

lemma retention_batch_size_bounds:
  "100 \<le> sint (retention_batch_size var)" "sint (retention_batch_size var) \<le> 100000"
  using clamp_i64_bounds [of MIN_BATCH_SIZE MAX_BATCH_SIZE]
  by (simp_all add: retention_batch_size_def or_else_def DEFAULT_BATCH_SIZE_def MIN_BATCH_SIZE_def MAX_BATCH_SIZE_def
      split: option.split)

section \<open>Batches\<close>

definition days :: "nat \<Rightarrow> nat" where
  "days n = n * 86400000000"

text \<open>Delete the rows whose key is among those of the first \<open>limit\<close> rows, in the given order, that are \<open>old\<close>.\<close>

definition delete_first :: "('a \<Rightarrow> 'k) \<Rightarrow> ('a list \<Rightarrow> 'a list) \<Rightarrow> ('a \<Rightarrow> bool) \<Rightarrow> nat \<Rightarrow> 'a list \<Rightarrow> nat \<times> 'a list" where
  "delete_first key order old limit tbl =
     (let expired = map key (take limit (order (filter old tbl)))
      in (length (filter (\<lambda>x. key x \<in> set expired) tbl), filter (\<lambda>x. key x \<notin> set expired) tbl))"

definition verdict_expired :: "nat \<Rightarrow> nat \<Rightarrow> audit_verdict \<Rightarrow> bool" where
  "verdict_expired n now v \<longleftrightarrow> av_observed_at v + days n < now"

definition run_batch :: "bool \<Rightarrow> nat \<Rightarrow> nat \<Rightarrow> i64 \<Rightarrow> audit_verdict list \<Rightarrow> (nat \<times> audit_verdict list) option" where
  "run_batch ok now n batch_size tbl =
     (if ok then Some (delete_first av_id (sort_key av_id) (verdict_expired n now) (nat (sint batch_size)) tbl) else None)"

definition pod_expired :: "nat \<Rightarrow> nat \<Rightarrow> pod_details_row \<Rightarrow> bool" where
  "pod_expired n now d \<longleftrightarrow> dt_is_dead d \<and> dt_time_stamp d + days n < now"

definition by_pod_name :: "(string \<Rightarrow> string \<Rightarrow> bool) \<Rightarrow> pod_details_row list \<Rightarrow> pod_details_row list" where
  "by_pod_name coll = sort_slice (\<lambda>a b. coll (dt_pod_name a) (dt_pod_name b))"

definition run_dead_pod_batch :: "(string \<Rightarrow> string \<Rightarrow> bool) \<Rightarrow> bool \<Rightarrow> nat \<Rightarrow> nat \<Rightarrow> i64 \<Rightarrow> pod_details_row list
    \<Rightarrow> (nat \<times> pod_details_row list) option" where
  "run_dead_pod_batch coll ok now n batch_size tbl =
     (if ok then Some (delete_first dt_pod_name (by_pod_name coll) (pod_expired n now) (nat (sint batch_size)) tbl) else None)"

section \<open>Passes\<close>

text \<open>The loop of a pass: \<open>left\<close> batches may still run; the result counts the deleted rows.\<close>

fun pass_loop :: "(nat \<Rightarrow> 'a list \<Rightarrow> (nat \<times> 'a list) option) \<Rightarrow> nat \<Rightarrow> nat \<Rightarrow> nat \<Rightarrow> 'a list \<Rightarrow> nat \<times> 'a list" where
  "pass_loop run 0 batch_idx total_deleted tbl = (total_deleted, tbl)"
| "pass_loop run (Suc left) batch_idx total_deleted tbl = (case run batch_idx tbl of
     None \<Rightarrow> (total_deleted, tbl)
   | Some (n, tbl') \<Rightarrow> if n = 0 then (total_deleted, tbl') else pass_loop run left (batch_idx + 1) (total_deleted + n) tbl')"

definition run_pass :: "(nat \<Rightarrow> bool) \<Rightarrow> (nat \<Rightarrow> nat) \<Rightarrow> string option \<Rightarrow> nat \<Rightarrow> audit_verdict list \<Rightarrow> nat \<times> audit_verdict list" where
  "run_pass ok clock batch_var n tbl =
     pass_loop (\<lambda>i. run_batch (ok i) (clock i) n (retention_batch_size batch_var)) MAX_BATCHES_PER_PASS 0 0 tbl"

definition run_dead_pod_pass :: "(string \<Rightarrow> string \<Rightarrow> bool) \<Rightarrow> (nat \<Rightarrow> bool) \<Rightarrow> (nat \<Rightarrow> nat) \<Rightarrow> string option \<Rightarrow> nat
    \<Rightarrow> pod_details_row list \<Rightarrow> nat \<times> pod_details_row list" where
  "run_dead_pod_pass coll ok clock batch_var n tbl =
     pass_loop (\<lambda>i. run_dead_pod_batch coll (ok i) (clock i) n (retention_batch_size batch_var)) MAX_BATCHES_PER_PASS 0 0 tbl"

text \<open>One turn of the background task.\<close>

definition retention_turn :: "(string \<Rightarrow> string \<Rightarrow> bool) \<Rightarrow> (nat \<Rightarrow> bool) \<Rightarrow> (nat \<Rightarrow> nat) \<Rightarrow> (nat \<Rightarrow> bool) \<Rightarrow> (nat \<Rightarrow> nat)
    \<Rightarrow> string option \<Rightarrow> string option \<Rightarrow> database \<Rightarrow> database" where
  "retention_turn coll ok1 clock1 ok2 clock2 days_var batch_var db =
     (let audit_days = retention_days days_var;
          dead_pod_days = dead_pod_retention_window audit_days;
          db1 = (if audit_days > 0
                 then db\<lparr>tbl_verdicts := snd (run_pass ok1 clock1 batch_var audit_days (tbl_verdicts db))\<rparr> else db)
      in db1\<lparr>tbl_details := snd (run_dead_pod_pass coll ok2 clock2 batch_var dead_pod_days (tbl_details db1))\<rparr>)"

section \<open>Laws of pruning\<close>

text \<open>A batch deletes up to \<open>limit\<close> rows that are expired at its time.\<close>

locale pruning =
  fixes key :: "'a \<Rightarrow> 'k" and order :: "'a list \<Rightarrow> 'a list" and expired :: "nat \<Rightarrow> 'a \<Rightarrow> bool"
    and limit :: nat and ok :: "nat \<Rightarrow> bool" and run :: "nat \<Rightarrow> 'a list \<Rightarrow> (nat \<times> 'a list) option"
  assumes permutes: "mset (order xs) = mset xs"
    and run_eq: "run i tbl = (if ok i then Some (delete_first key order (expired i) limit tbl) else None)"
    and limit_pos: "0 < limit"
begin

lemma batch:
  assumes "distinct (map key tbl)" and "delete_first key order (expired i) limit tbl = (n, tbl')"
  shows "n = min limit (length (filter (expired i) tbl))" and "n + length tbl' = length tbl"
    and "\<exists>del. tbl' = filter (\<lambda>x. x \<notin> del) tbl \<and> (\<forall>x \<in> del. expired i x) \<and>
      (length (filter (expired i) tbl) \<le> limit \<longrightarrow> del = {x \<in> set tbl. expired i x})"
proof -
  let ?old = "order (filter (expired i) tbl)" and ?taken = "take limit (order (filter (expired i) tbl))"
  have set_old: "set ?old = {x \<in> set tbl. expired i x}"
    using permutes [of "filter (expired i) tbl"] by (metis set_filter set_mset_mset)
  have len_old: "length ?old = length (filter (expired i) tbl)" using permutes by (metis size_mset)
  have taken: "set ?taken \<subseteq> {x \<in> set tbl. expired i x}" using set_take_subset [of limit ?old] set_old by simp
  have inj: "inj_on key (set tbl)" and tbl: "distinct tbl" using assms(1) by (auto simp: distinct_map)
  have mem: "key x \<in> set (map key ?taken) \<longleftrightarrow> x \<in> set ?taken" if "x \<in> set tbl" for x
    using inj_on_image_mem_iff [OF inj that, of "set ?taken"] taken by auto
  have n: "n = length (filter (\<lambda>x. x \<in> set ?taken) tbl)" and tbl': "tbl' = filter (\<lambda>x. x \<notin> set ?taken) tbl"
    using assms(2) mem by (auto simp: delete_first_def Let_def cong: filter_cong)
  have "distinct (filter (expired i) tbl)" using tbl by simp
  then have "distinct ?old" using permutes by (metis mset_eq_imp_distinct_iff)
  then have "card (set ?taken) = length ?taken" by (metis distinct_card distinct_take)
  moreover have "length (filter (\<lambda>x. x \<in> set ?taken) tbl) = card (set ?taken)"
    using tbl taken by (subst distinct_card [symmetric]) (auto intro!: arg_cong [where f = card])
  ultimately show "n = min limit (length (filter (expired i) tbl))" using n len_old by (simp add: min.commute)
  show "n + length tbl' = length tbl" using n tbl' by (simp add: sum_length_filter_compl)
  show "\<exists>del. tbl' = filter (\<lambda>x. x \<notin> del) tbl \<and> (\<forall>x \<in> del. expired i x) \<and>
      (length (filter (expired i) tbl) \<le> limit \<longrightarrow> del = {x \<in> set tbl. expired i x})"
    using tbl' taken len_old set_old by (intro exI [of _ "set ?taken"]) auto
qed

lemma batch_short:
  assumes "distinct (map key tbl)" and "delete_first key order (expired i) limit tbl = (n, tbl')" and "n < limit"
  shows "\<forall>x \<in> set tbl'. \<not> expired i x"
proof -
  note b = batch [OF assms(1,2)]
  have "length (filter (expired i) tbl) \<le> limit" using b(1) assms(3) by simp
  then have "\<exists>del. tbl' = filter (\<lambda>x. x \<notin> del) tbl \<and> del = {x \<in> set tbl. expired i x}" using b(3) by blast
  then show ?thesis by auto
qed

text \<open>When what is expired stays so, a pass deletes expired rows only, and all that were expired at its
  start unless they are more than its batches hold.\<close>

lemma pass:
  assumes stays_expired: "\<forall>i j x. i \<le> j \<longrightarrow> expired i x \<longrightarrow> expired j x"
  shows "distinct (map key tbl) \<Longrightarrow> pass_loop run left i sofar tbl = (n, tbl') \<Longrightarrow>
    \<exists>del. tbl' = filter (\<lambda>x. x \<notin> del) tbl \<and> (\<forall>x \<in> del. expired (i + left) x) \<and>
      n + length tbl' = sofar + length tbl \<and> n \<le> sofar + left * limit \<and>
      ((\<forall>j. ok j) \<longrightarrow> length (filter (expired (i + left)) tbl) \<le> left * limit \<longrightarrow> (\<forall>x \<in> set tbl'. \<not> expired i x))"
proof (induction left arbitrary: i sofar tbl)
  case 0
  then show ?case by (intro exI [of _ "{}"]) (auto simp: filter_empty_conv)
next
  case (Suc left)
  show ?case
  proof (cases "ok i")
    case False
    then show ?thesis using Suc.prems by (intro exI [of _ "{}"]) (auto simp: run_eq)
  next
    case True
    obtain m tbl1 where del: "delete_first key order (expired i) limit tbl = (m, tbl1)" by fastforce
    note b = batch [OF Suc.prems(1) del] batch_short [OF Suc.prems(1) del]
    obtain del1 where d1: "tbl1 = filter (\<lambda>x. x \<notin> del1) tbl" "\<forall>x \<in> del1. expired i x" using b(3) by blast
    have late: "expired i x \<Longrightarrow> expired (i + Suc left) x" for x using stays_expired [rule_format, of i "i + Suc left"] by simp
    show ?thesis
    proof (cases "m = 0")
      case zero: True
      then have "n = sofar" "tbl' = tbl1" using Suc.prems(2) True del by (simp_all add: run_eq)
      then show ?thesis using zero d1 b(2) b(4) limit_pos late by (intro exI [of _ del1]) auto
    next
      case False
      have rest: "pass_loop run left (i + 1) (sofar + m) tbl1 = (n, tbl')"
        using Suc.prems(2) True del False by (simp add: run_eq [of i tbl])
      have "distinct (map key tbl1)" using Suc.prems(1) d1(1) by (simp add: distinct_map_filter)
      from Suc.IH [OF this rest] obtain del2 where d2: "tbl' = filter (\<lambda>x. x \<notin> del2) tbl1"
        "\<forall>x \<in> del2. expired (i + Suc left) x" "n + length tbl' = sofar + m + length tbl1" "n \<le> sofar + m + left * limit"
        "(\<forall>j. ok j) \<Longrightarrow> length (filter (expired (i + Suc left)) tbl1) \<le> left * limit \<Longrightarrow> \<forall>x \<in> set tbl'. \<not> expired (i + 1) x"
        by auto
      have m: "m \<le> limit" using b(1) by simp
      have clean: "\<forall>x \<in> set tbl'. \<not> expired i x"
        if ok: "\<forall>j. ok j" and few: "length (filter (expired (i + Suc left)) tbl) \<le> Suc left * limit"
      proof (cases "m < limit")
        case True
        then show ?thesis using b(4) d2(1) by auto
      next
        case full: False
        have "length (filter (expired (i + Suc left)) tbl1) + m = length (filter (expired (i + Suc left)) tbl)"
        proof -
          have "length (filter (expired (i + Suc left)) tbl1) =
              length (filter (\<lambda>x. x \<notin> del1) (filter (expired (i + Suc left)) tbl))"
            using d1(1) by (simp add: conj_commute)
          moreover have "length (filter (\<lambda>x. x \<in> del1) (filter (expired (i + Suc left)) tbl)) = length (filter (\<lambda>x. x \<in> del1) tbl)"
            using d1(2) late by (auto intro!: arg_cong [where f = length] filter_cong)
          moreover have "length (filter (\<lambda>x. x \<in> del1) tbl) = m"
            using b(2) d1(1) sum_length_filter_compl [of "\<lambda>x. x \<in> del1" tbl] by simp
          ultimately show ?thesis
            using sum_length_filter_compl [of "\<lambda>x. x \<in> del1" "filter (expired (i + Suc left)) tbl"] by simp
        qed
        then have "length (filter (expired (i + Suc left)) tbl1) \<le> left * limit" using few full m by simp
        then have "\<forall>x \<in> set tbl'. \<not> expired (i + 1) x" using d2(5) ok by blast
        then show ?thesis using stays_expired [rule_format, of i "i + 1"] by auto
      qed
      show ?thesis
      proof (intro exI [of _ "del1 \<union> del2"] conjI impI)
        show "tbl' = filter (\<lambda>x. x \<notin> del1 \<union> del2) tbl" using d1(1) d2(1) by (simp add: conj_commute)
        show "\<forall>x \<in> del1 \<union> del2. expired (i + Suc left) x" using d1(2) d2(2) late by blast
        show "n + length tbl' = sofar + length tbl" using d2(3) b(2) by simp
        show "n \<le> sofar + Suc left * limit" using d2(4) m by simp
      qed (use clean in blast)
    qed
  qed
qed

end

end
