(* ===== verification/Broker_Auth.thy ===== *)
theory Broker_Auth
  imports Broker_Tables
begin

text \<open>
  The optional bearer token of the broker's API, \<^verbatim>\<open>src/broker/src/auth.rs\<close>.  A request is its
  method, its path and the bytes of its \<^verbatim>\<open>Authorization\<close> header, if it has one.
\<close>

unbundle bit_operations_syntax

record http_request =
  hr_method :: string
  hr_path :: string
  hr_authorization :: "string option"

definition auth_token :: "string option \<Rightarrow> string option" where
  "auth_token var = (case map_option trim var of
     None \<Rightarrow> None
   | Some t \<Rightarrow> if t = [] then None else Some t)"

definition as_bytes :: "string \<Rightarrow> u8 list" where
  "as_bytes s = map (\<lambda>c. of_nat (of_char c)) s"

definition ct_eq :: "string \<Rightarrow> string \<Rightarrow> bool" where
  "ct_eq s t =
     (let a = as_bytes s; b = as_bytes t
      in if length a \<noteq> length b then False
         else foldl (\<lambda>diff (x, y). diff OR (x XOR y)) 0 (zip a b) = 0)"

definition is_exempt :: "http_request \<Rightarrow> bool" where
  "is_exempt req = (hr_method req = ''OPTIONS'' \<or> hr_path req = ''/health'' \<or> hr_path req = ''/metrics'')"

definition strip_prefix :: "string \<Rightarrow> string \<Rightarrow> string option" where
  "strip_prefix pre s = (if take (length pre) s = pre then Some (drop (length pre) s) else None)"

text \<open>\<^verbatim>\<open>HeaderValue::to_str\<close> succeeds on visible ASCII alone, blanks and tabs included.\<close>

definition visible_ascii :: "char \<Rightarrow> bool" where
  "visible_ascii c \<longleftrightarrow> 32 \<le> (of_char c :: nat) \<and> (of_char c :: nat) < 127 \<or> (of_char c :: nat) = 9"

definition header_to_str :: "string \<Rightarrow> string option" where
  "header_to_str h = (if list_all visible_ascii h then Some h else None)"

definition bearer_ok :: "http_request \<Rightarrow> string \<Rightarrow> bool" where
  "bearer_ok req expected = (case Option.bind (Option.bind (hr_authorization req) header_to_str) (strip_prefix ''Bearer '') of
     None \<Rightarrow> False
   | Some t \<Rightarrow> ct_eq (trim t) expected)"

text \<open>Whether the request is passed on; otherwise it is answered 401.\<close>

definition require_bearer :: "string option \<Rightarrow> http_request \<Rightarrow> bool" where
  "require_bearer token req = (case token of
     None \<Rightarrow> True
   | Some expected \<Rightarrow> \<not> (\<not> is_exempt req \<and> \<not> bearer_ok req expected))"

lemma fold_diff: "foldl (\<lambda>diff (x, y). diff OR (x XOR y)) d (zip a b) = (0 :: 'w::len word)
    \<longleftrightarrow> d = 0 \<and> (\<forall>(x, y) \<in> set (zip a b). x = y)"
proof (induction "zip a b" arbitrary: a b d)
  case (Cons p ps)
  then obtain x y a' b' where ab: "a = x # a'" "b = y # b'" "p = (x, y)" "ps = zip a' b'"
    by (cases a; cases b) auto
  have "d OR (x XOR y) = 0 \<longleftrightarrow> d = 0 \<and> x = y"
    by (auto simp: bit_eq_iff bit_simps)
  then show ?case using Cons(1) [OF ab(4), of "d OR (x XOR y)"] ab by auto
qed auto

lemma as_bytes_inject: "as_bytes s = as_bytes t \<Longrightarrow> s = t"
proof -
  have "inj (\<lambda>c. of_nat (of_char c) :: u8)"
  proof (rule injI)
    fix c d :: char
    assume "(of_nat (of_char c) :: u8) = of_nat (of_char d)"
    then have "(of_char c :: nat) mod 256 = of_char d mod 256" by (simp add: word_of_nat_eq_iff take_bit_eq_mod)
    then show "c = d" by (simp add: char_of_eq_iff of_char_eq_iff)
  qed
  then show "as_bytes s = as_bytes t \<Longrightarrow> s = t" by (simp add: as_bytes_def inj_map_eq_map)
qed

lemma ct_eq_iff: "ct_eq s t \<longleftrightarrow> s = t"
proof -
  have "(\<forall>(x, y) \<in> set (zip a b). x = y) \<longleftrightarrow> a = b" if "length a = length b" for a b :: "u8 list"
    using that by (induction a b rule: list_induct2) auto
  then show ?thesis using as_bytes_inject [of s t] by (auto simp: ct_eq_def Let_def fold_diff)
qed

lemma strip_prefix_Some: "strip_prefix pre s = Some t \<longleftrightarrow> s = pre @ t"
  by (auto simp: strip_prefix_def) (metis append_take_drop_id)

end
