(* ===== verification/Broker_System.thy ===== *)
theory Broker_System
  imports Broker_Retention Broker_Auth
begin

text \<open>
  The broker as a state machine over its database: the requests that write, the audit workers and the
  pruning task, in any order and with any failures, and what holds of the tables at all times.
\<close>

section \<open>Operations\<close>

datatype broker_op =
    PostTraffic "traffic_row \<Rightarrow> bool" bool "traffic_row list"
  | PostPod bool pod_details_row
  | PostDead bool string "string option"
  | PostSvc bool svc_details_row
  | PostSyscalls bool "pod_input_syscalls list"
  | Audit "audit_flow \<Rightarrow> http_answer" bool nat "nat \<Rightarrow> nat" traffic_row
  | Prune "nat \<Rightarrow> bool" "nat \<Rightarrow> nat" "nat \<Rightarrow> bool" "nat \<Rightarrow> nat" "string option" "string option"

definition empty_database :: database where
  "empty_database = \<lparr>tbl_traffic = [], tbl_details = [], tbl_svcs = [], tbl_syscalls = [], tbl_verdicts = []\<rparr>"

definition no_queue :: "'a audit_queue" where
  "no_queue = \<lparr>q_capacity = 0, q_open = False, q_permits = 0, q_chan = [], q_holding = False, q_running = [], q_dropped = 0\<rparr>"

fun broker_step :: "(string \<Rightarrow> string \<Rightarrow> bool) \<Rightarrow> broker_op \<Rightarrow> database \<Rightarrow> database" where
  "broker_step coll (PostTraffic ok ins_ok form) db = fst (snd (add_pods_batch ok ins_ok False form (db, no_queue)))"
| "broker_step coll (PostPod ok form) db = snd (add_pod_details ok form db)"
| "broker_step coll (PostDead ok pod ip) db = snd (mark_pod_dead ok pod ip db)"
| "broker_step coll (PostSvc ok form) db = snd (add_svc_details ok form db)"
| "broker_step coll (PostSyscalls ok form) db = snd (add_pods_syscalls ok form db)"
| "broker_step coll (Audit answer ok now ids traffic) db =
     db\<lparr>tbl_verdicts := evaluate_and_persist True answer ok now ids traffic (tbl_verdicts db)\<rparr>"
| "broker_step coll (Prune ok1 clock1 ok2 clock2 days_var batch_var) db =
     retention_turn coll ok1 clock1 ok2 clock2 days_var batch_var db"

section \<open>What the tables keep\<close>

text \<open>A slim manifest: no status, no managed fields, and of a pod's specification at most the use of the
  network of its node.\<close>

definition slim_metadata :: "json \<Rightarrow> bool" where
  "slim_metadata v = (case jget ''metadata'' v of Some (JObj m) \<Rightarrow> map_of m ''managedFields'' = None | _ \<Rightarrow> True)"

definition slim_spec :: "json \<Rightarrow> bool" where
  "slim_spec v = (case v of JObj [(k, hn)] \<Rightarrow> k = ''hostNetwork'' \<and> hn \<noteq> JNull | _ \<Rightarrow> False)"

definition slim_pod :: "json \<Rightarrow> bool" where
  "slim_pod v \<longleftrightarrow> jget ''status'' v = None \<and> (case jget ''spec'' v of None \<Rightarrow> True | Some s \<Rightarrow> slim_spec s) \<and> slim_metadata v"

definition slim_svc :: "json \<Rightarrow> bool" where
  "slim_svc v \<longleftrightarrow> jget ''status'' v = None \<and> slim_metadata v"

definition details_ok :: "pod_details_row \<Rightarrow> bool" where
  "details_ok d \<longleftrightarrow> trim (dt_pod_name d) \<noteq> [] \<and> (case dt_pod_obj d of None \<Rightarrow> True | Some v \<Rightarrow> slim_pod v)"

definition svc_ok :: "svc_details_row \<Rightarrow> bool" where
  "svc_ok v \<longleftrightarrow> is_routable_svc_ip (sv_svc_ip v) \<and> (case sv_service_spec v of None \<Rightarrow> True | Some s \<Rightarrow> slim_svc s)"

lemma slim_metadata_dropped: "slim_metadata (JObj (drop_managed_fields m))"
  by (auto simp: slim_metadata_def jget_def drop_managed_fields_def split: option.splits json.splits)

lemma drop_managed_fields_slim: "slim_metadata (JObj m) \<Longrightarrow> drop_managed_fields m = m"
  by (auto simp: slim_metadata_def jget_def drop_managed_fields_def jremove_absent jinsert_present
      split: option.splits json.splits)

lemma compact_slim: "slim_pod (compact_pod_obj v)" "slim_svc (compact_svc_spec v)"
  using host_network_not_null
  by (auto simp: slim_pod_def slim_svc_def compact_pod_obj_def compact_svc_spec_def slim_metadata_dropped jget_def
      map_of_drop_managed_fields slim_spec_def Let_def split: json.splits option.splits)
    (auto simp: slim_metadata_def jget_def)

lemma slim_spec_iff: "slim_spec s \<longleftrightarrow> (\<exists>hn. s = JObj [(''hostNetwork'', hn)] \<and> hn \<noteq> JNull)"
  by (auto simp: slim_spec_def split: json.splits list.splits)

lemma slim_compact: "slim_pod v \<Longrightarrow> compact_pod_obj v = v"
proof (cases v)
  case (JObj m)
  assume slim: "slim_pod v"
  then have absent: "map_of m ''status'' = None" and meta: "drop_managed_fields m = m"
    by (simp_all add: JObj slim_pod_def jget_def drop_managed_fields_slim)
  consider "map_of m ''spec'' = None" | hn where "map_of m ''spec'' = Some (JObj [(''hostNetwork'', hn)])" "hn \<noteq> JNull"
    using slim by (auto simp: JObj slim_pod_def jget_def slim_spec_iff split: option.splits)
  then show ?thesis
    by cases (simp_all add: JObj compact_pod_obj_def host_network_def jget_def absent meta jremove_absent jinsert_present)
qed (simp_all add: compact_pod_obj_def)

text \<open>What the compaction keeps: everything outside the three members, and all other metadata.\<close>

lemma compaction_keeps:
  "k \<noteq> ''spec'' \<Longrightarrow> k \<noteq> ''status'' \<Longrightarrow> k \<noteq> ''metadata'' \<Longrightarrow> jget k (compact_pod_obj v) = jget k v"
  "k \<noteq> ''managedFields'' \<Longrightarrow>
    Option.bind (jget ''metadata'' (compact_pod_obj v)) (jget k) = Option.bind (jget ''metadata'' v) (jget k)"
  by (auto simp: compact_pod_obj_def jget_def map_of_drop_managed_fields Let_def split: json.splits option.splits)
    (auto simp: drop_managed_fields_def jget_def split: json.splits option.splits)

definition tables_ok :: "database \<Rightarrow> bool" where
  "tables_ok db \<longleftrightarrow>
     distinct (map tf_uuid (tbl_traffic db)) \<and>
     distinct (map dt_pod_name (tbl_details db)) \<and> (\<forall>d \<in> set (tbl_details db). details_ok d) \<and>
     distinct (map sv_svc_ip (tbl_svcs db)) \<and> (\<forall>v \<in> set (tbl_svcs db). svc_ok v) \<and>
     distinct (map sy_pod_name (tbl_syscalls db)) \<and> (\<forall>r \<in> set (tbl_syscalls db). trim (sy_pod_name r) \<noteq> []) \<and>
     distinct (map av_id (tbl_verdicts db)) \<and>
     (\<forall>v \<in> set (tbl_verdicts db). av_verdict v \<in> set VALID_VERDICTS)"

lemma tables_ok_empty: "tables_ok empty_database"
  by (simp add: tables_ok_def empty_database_def)

section \<open>Keyed tables\<close>

text \<open>An upsert that keeps the key, on rows with a property that new and changed rows have.\<close>

locale upsert =
  fixes key :: "'a \<Rightarrow> string" and changes :: "'a \<Rightarrow> 'a \<Rightarrow> 'a" and ok :: "'a \<Rightarrow> bool"
  assumes key_kept: "key (changes w d) = key d"
    and changes_ok: "ok w \<Longrightarrow> ok d \<Longrightarrow> ok (changes w d)"
begin

lemma keys: "map key (upsert_row key changes w tbl) =
    map key tbl @ (if \<exists>d \<in> set tbl. key d = key w then [] else [key w])"
  by (auto simp: upsert_row_def key_kept)

lemma upsert_distinct: "distinct (map key tbl) \<Longrightarrow> distinct (map key (upsert_row key changes w tbl))"
  by (auto simp: keys)

lemma filter_changed: "filter (\<lambda>d. key d = k) (map (\<lambda>d. if key d = key w then changes w d else d) tbl) =
    (if k = key w then map (changes w) (filter (\<lambda>d. key d = k) tbl) else filter (\<lambda>d. key d = k) tbl)"
  by (induction tbl) (auto simp: key_kept)

lemma upsert_ok: "ok w \<Longrightarrow> \<forall>d \<in> set tbl. ok d \<Longrightarrow> \<forall>d \<in> set (upsert_row key changes w tbl). ok d"
  by (auto simp: upsert_row_def changes_ok)

lemma lookup_other: "k \<noteq> key w \<Longrightarrow>
    filter (\<lambda>d. key d = k) (upsert_row key changes w tbl) = filter (\<lambda>d. key d = k) tbl"
  by (simp add: upsert_row_def filter_changed)

lemma lookup_same: "filter (\<lambda>d. key d = key w) (upsert_row key changes w tbl) =
    (let found = filter (\<lambda>d. key d = key w) tbl in if found = [] then [w] else map (changes w) found)"
  by (auto simp: upsert_row_def filter_changed filter_empty_conv)

end

interpretation details_upsert: upsert dt_pod_name details_changeset details_ok
  by unfold_locales
    (auto simp: details_changeset_def details_ok_def set_some_def split: option.splits)

interpretation svc_upsert: upsert sv_svc_ip svc_changeset svc_ok
  by unfold_locales (auto simp: svc_changeset_def svc_ok_def set_some_def split: option.splits)

interpretation verdict_pruning: pruning av_id "sort_key av_id" "\<lambda>i. verdict_expired n (clock i)"
    "nat (sint (retention_batch_size var))" ok "\<lambda>i. run_batch (ok i) (clock i) n (retention_batch_size var)"
  for n clock var ok
  using retention_batch_size_bounds [of var] by unfold_locales (simp_all add: run_batch_def)

interpretation pod_pruning: pruning dt_pod_name "by_pod_name coll" "\<lambda>i. pod_expired n (clock i)"
    "nat (sint (retention_batch_size var))" ok "\<lambda>i. run_dead_pod_batch coll (ok i) (clock i) n (retention_batch_size var)"
  for coll n clock var ok
  using retention_batch_size_bounds [of var]
  by unfold_locales (simp_all add: run_dead_pod_batch_def by_pod_name_def mset_sort)

section \<open>Every operation keeps them\<close>

lemma pass_distinct:
  assumes "\<And>i t n t'. run i t = Some (n, t') \<Longrightarrow> \<exists>P. t' = filter P t"
  shows "pass_loop run left i sofar tbl = (n, tbl') \<Longrightarrow> \<exists>P. tbl' = filter P tbl"
proof (induction left arbitrary: i sofar tbl)
  case 0
  then show ?case by (auto intro: exI [of _ "\<lambda>x. True"])
next
  case (Suc left)
  show ?case
  proof (cases "run i tbl")
    case None
    then show ?thesis using Suc.prems by (auto intro: exI [of _ "\<lambda>x. True"])
  next
    case (Some r)
    obtain m t where r: "r = (m, t)" by fastforce
    from assms [of i tbl m t] Some r obtain P where P: "t = filter P tbl" by blast
    show ?thesis
    proof (cases "m = 0")
      case True
      then show ?thesis using Suc.prems Some r P by auto
    next
      case False
      then have "\<exists>Q. tbl' = filter Q t" using Suc.IH [of "i + 1" "sofar + m" t] Suc.prems Some r by simp
      then show ?thesis using P by (metis filter_filter)
    qed
  qed
qed

lemma run_pass_filter: "\<exists>P. snd (run_pass ok clock var n tbl) = filter P tbl"
  unfolding run_pass_def
  by (rule pass_distinct [OF _ prod.collapse [symmetric]]) (auto simp: run_batch_def delete_first_def Let_def split: if_splits)

lemma run_dead_pod_pass_filter: "\<exists>P. snd (run_dead_pod_pass coll ok clock var n tbl) = filter P tbl"
  unfolding run_dead_pod_pass_def
  by (rule pass_distinct [OF _ prod.collapse [symmetric]]) (auto simp: run_dead_pod_batch_def delete_first_def Let_def split: if_splits)

lemma traffic_step:
  assumes "create_pod_traffic_batch ok ins_ok tbl form = Some (new, tbl')" and "distinct (map tf_uuid tbl)"
  shows "distinct (map tf_uuid tbl')"
  using assms by (auto simp: create_pod_traffic_batch_def insert_traffic_def split: if_splits option.splits)

lemma store_syscalls_names:
  assumes "store_syscalls e tbl = Some t"
  shows "map sy_pod_name t = map sy_pod_name tbl \<or>
    map sy_pod_name t = map sy_pod_name tbl @ [in_pod_name e] \<and> in_pod_name e \<notin> set (map sy_pod_name tbl) \<and>
      trim (in_pod_name e) \<noteq> []"
proof (cases "trim (in_pod_name e) = []")
  case True
  then show ?thesis using assms by (simp add: store_syscalls_def)
next
  case blank: False
  show ?thesis
  proof (cases "syscalls_get_row tbl e")
    case None
    then have "in_pod_name e \<notin> set (map sy_pod_name tbl)"
      using assms blank by (auto simp: store_syscalls_def Let_def split: if_splits)
    moreover from this have "t = tbl @ [\<lparr>sy_pod_name = in_pod_name e, sy_pod_namespace = in_pod_namespace e,
        sy_syscalls = join_with '','' (in_syscalls e), sy_arch = in_arch e, sy_time_stamp = in_time_stamp e\<rparr>]"
      using assms blank None by (auto simp: store_syscalls_def Let_def split: if_splits)
    ultimately show ?thesis using blank by simp
  next
    case (Some r)
    then have "t = map (\<lambda>q. if sy_pod_name q = sy_pod_name r then q\<lparr>sy_syscalls := join_with '','' (in_syscalls e)\<rparr> else q) tbl"
      using assms blank by (simp add: store_syscalls_def)
    then show ?thesis by simp
  qed
qed

lemma syscalls_step:
  "store_all_syscalls es tbl = Some tbl' \<Longrightarrow> distinct (map sy_pod_name tbl) \<Longrightarrow>
    \<forall>k \<in> set (map sy_pod_name tbl). trim k \<noteq> [] \<Longrightarrow>
    distinct (map sy_pod_name tbl') \<and> (\<forall>k \<in> set (map sy_pod_name tbl'). trim k \<noteq> [])"
proof (induction es arbitrary: tbl)
  case (Cons e es)
  from Cons.prems(1) obtain t where t: "store_syscalls e tbl = Some t" "store_all_syscalls es t = Some tbl'"
    by (auto simp: bind_eq_Some_conv)
  have "distinct (map sy_pod_name t) \<and> (\<forall>k \<in> set (map sy_pod_name t). trim k \<noteq> [])"
    using store_syscalls_names [OF t(1)] Cons.prems(2,3) by (elim disjE conjE) (simp_all del: set_map)
  then show ?case using Cons.IH [OF t(2)] by blast
qed simp

lemma mark_dead_rows:
  assumes "mark_pod_as_dead ok pod ip tbl = Some (n, tbl')"
  shows "\<exists>hit. tbl' = map (\<lambda>d. if hit d then d\<lparr>dt_is_dead := True\<rparr> else d) tbl"
proof (cases "trim pod = []")
  case True
  then show ?thesis using assms by (intro exI [of _ "\<lambda>d. False"]) (simp add: mark_pod_as_dead_def)
next
  case False
  then show ?thesis using assms by (auto simp: mark_pod_as_dead_def Let_def split: if_splits)
qed

lemma mark_dead_step:
  assumes "mark_pod_as_dead ok pod ip tbl = Some (n, tbl')"
  shows "map dt_pod_name tbl' = map dt_pod_name tbl" and "\<forall>d \<in> set tbl. details_ok d \<Longrightarrow> \<forall>d \<in> set tbl'. details_ok d"
proof -
  obtain hit where "tbl' = map (\<lambda>d. if hit d then d\<lparr>dt_is_dead := True\<rparr> else d) tbl" using mark_dead_rows [OF assms] by blast
  moreover have "details_ok (d\<lparr>dt_is_dead := x\<rparr>) = details_ok d" for d x by (simp add: details_ok_def)
  ultimately show "map dt_pod_name tbl' = map dt_pod_name tbl"
    "\<forall>d \<in> set tbl. details_ok d \<Longrightarrow> \<forall>d \<in> set tbl'. details_ok d" by auto
qed

lemma audit_step_ok:
  assumes "distinct (map av_id tbl)" and "\<forall>v \<in> set tbl. av_verdict v \<in> set VALID_VERDICTS"
  shows "distinct (map av_id (evaluate_and_persist enabled answer ok now ids e tbl)) \<and>
    (\<forall>v \<in> set (evaluate_and_persist enabled answer ok now ids e tbl). av_verdict v \<in> set VALID_VERDICTS)"
proof -
  have "av_verdict v \<in> set VALID_VERDICTS"
    if "v \<in> set (map2 (verdict_insert f now) (filter (\<lambda>r. is_persistable_verdict (vr_verdict r)) rs) xs)" for v f rs xs
    using that by (auto simp: verdict_insert_def is_persistable_verdict_def VALID_VERDICTS_def dest: set_zip_leftD)
  then show ?thesis using assms
    by (auto simp: evaluate_and_persist_def Let_def simp del: set_map map_append split: option.split http_answer.split)
qed

lemma compact_row_ok: "trim (dt_pod_name w) \<noteq> [] \<Longrightarrow> details_ok (compact_row w)"
  by (cases "dt_pod_obj w") (simp_all add: details_ok_def compact_row_def compact_slim)

lemma compact_svc_ok:
  "is_routable_svc_ip (sv_svc_ip w) \<Longrightarrow> svc_ok (w\<lparr>sv_service_spec := map_option compact_svc_spec (sv_service_spec w)\<rparr>)"
  by (cases "sv_service_spec w") (simp_all add: svc_ok_def compact_slim)

lemma tables_ok_step: "tables_ok db \<Longrightarrow> tables_ok (broker_step coll a db)"
proof (cases a)
  case (PostTraffic ok ins_ok form)
  assume "tables_ok db"
  then show ?thesis using PostTraffic traffic_step
    by (auto simp: add_pods_batch_def tables_ok_def split: option.split)
next
  case (PostPod ok form)
  assume ok: "tables_ok db"
  have "distinct (map dt_pod_name tbl) \<and> (\<forall>d \<in> set tbl. details_ok d)"
    if "upsert_pod_details form (tbl_details db) = (w, tbl)" "trim (dt_pod_name form) \<noteq> []" for w tbl
    using that ok details_upsert.upsert_distinct details_upsert.upsert_ok [OF compact_row_ok]
    by (auto simp: upsert_pod_details_def Let_def tables_ok_def)
  then show ?thesis using PostPod ok by (auto simp: add_pod_details_def tables_ok_def split: prod.split)
next
  case (PostDead ok pod ip)
  assume "tables_ok db"
  then show ?thesis using PostDead mark_dead_step
    by (auto simp: mark_pod_dead_def tables_ok_def simp del: set_map split: option.split)
next
  case (PostSvc ok form)
  assume ok: "tables_ok db"
  have "distinct (map sv_svc_ip tbl) \<and> (\<forall>d \<in> set tbl. svc_ok d)"
    if "upsert_svc_details form (tbl_svcs db) = (w, tbl)" "is_routable_svc_ip (sv_svc_ip form)" for w tbl
    using that ok svc_upsert.upsert_distinct svc_upsert.upsert_ok [OF compact_svc_ok]
    by (auto simp: upsert_svc_details_def Let_def tables_ok_def)
  then show ?thesis using PostSvc ok by (auto simp: add_svc_details_def tables_ok_def split: prod.split)
next
  case (PostSyscalls ok form)
  assume "tables_ok db"
  then show ?thesis using PostSyscalls syscalls_step [of form "tbl_syscalls db"]
    by (auto simp: add_pods_syscalls_def create_pod_syscalls_def tables_ok_def split: option.split)
next
  case (Audit answer ok now ids e)
  assume "tables_ok db"
  then show ?thesis using Audit audit_step_ok [of "tbl_verdicts db" True answer ok now ids e] by (simp add: tables_ok_def)
next
  case (Prune ok1 clock1 ok2 clock2 days_var batch_var)
  assume ok: "tables_ok db"
  obtain P where "snd (run_pass ok1 clock1 batch_var (retention_days days_var) (tbl_verdicts db)) = filter P (tbl_verdicts db)"
    using run_pass_filter by blast
  moreover obtain Q where "snd (run_dead_pod_pass coll ok2 clock2 batch_var (dead_pod_retention_window (retention_days days_var))
      (tbl_details db)) = filter Q (tbl_details db)"
    using run_dead_pod_pass_filter by blast
  ultimately show ?thesis using ok Prune
    by (cases "retention_days days_var = 0") (simp_all add: retention_turn_def Let_def tables_ok_def distinct_map_filter)
qed

lemma tables_ok_run: "tables_ok db \<Longrightarrow> tables_ok (fold (broker_step coll) ops db)"
  by (induction ops arbitrary: db) (simp_all add: tables_ok_step)

end
