(* ===== verification/Broker_Props.thy ===== *)
theory Broker_Props
  imports Broker_System Advisor_Props
begin

text \<open>
  What the broker does to what passes through it: which observed connections survive deduplication,
  what the tables hold, which pods and verdicts are pruned, and what the live audit can see.
\<close>

section \<open>Rows on the wire\<close>

text \<open>A row as the controller posts it and as the advisor reads it, where \<^verbatim>\<open>null\<close> leaves a Go string empty.\<close>

definition broker_row :: "pod_traffic \<Rightarrow> traffic_row" where
  "broker_row r = \<lparr>tf_uuid = pt_uuid r, tf_pod_name = Some (pt_pod_name r), tf_pod_namespace = pt_pod_namespace r,
     tf_pod_ip = Some (pt_pod_ip r), tf_pod_port = pt_pod_port r, tf_ip_protocol = pt_ip_protocol r,
     tf_traffic_type = pt_traffic_type r, tf_traffic_in_out_ip = pt_traffic_in_out_ip r,
     tf_traffic_in_out_port = pt_traffic_in_out_port r, tf_decision = pt_decision r, tf_time_stamp = pt_time_stamp r\<rparr>"

definition advisor_row :: "traffic_row \<Rightarrow> PodTraffic" where
  "advisor_row r = \<lparr>tr_UUID = tf_uuid r, tr_SrcPodName = or_else (tf_pod_name r) [], tr_SrcIP = or_else (tf_pod_ip r) [],
     tr_SrcNamespace = or_else (tf_pod_namespace r) [], tr_SrcPodPort = or_else (tf_pod_port r) [],
     tr_TrafficType = or_else (tf_traffic_type r) [], tr_DstIP = or_else (tf_traffic_in_out_ip r) [],
     tr_DstPort = or_else (tf_traffic_in_out_port r) [], tr_Protocol = or_else (tf_ip_protocol r) []\<rparr>"

lemma wire_row_broker: "wire_row r = advisor_row (broker_row r)"
  by (simp add: wire_row_def advisor_row_def broker_row_def or_else_def Let_def)

section \<open>Deduplication\<close>

text \<open>A sequence of posts with the failures of each: the table at the end and the rows of the accepted posts.\<close>

fun accept_all :: "((traffic_row \<Rightarrow> bool) \<times> bool \<times> traffic_row list) list \<Rightarrow> traffic_row list
    \<Rightarrow> traffic_row list \<times> traffic_row list" where
  "accept_all [] tbl = (tbl, [])"
| "accept_all ((ok, ins_ok, form) # ps) tbl = (case create_pod_traffic_batch ok ins_ok tbl form of
     None \<Rightarrow> accept_all ps tbl
   | Some (new, tbl1) \<Rightarrow> (let (t, accepted) = accept_all ps tbl1 in (t, form @ accepted)))"

text \<open>Rows that agree in the columns a TCP event is deduplicated on.\<close>

definition twin :: "traffic_row \<Rightarrow> traffic_row \<Rightarrow> bool" where
  "twin e r \<longleftrightarrow> tf_pod_ip r = tf_pod_ip e \<and> tf_pod_port r = tf_pod_port e \<and> tf_traffic_type r = tf_traffic_type e \<and>
     tf_traffic_in_out_ip r = tf_traffic_in_out_ip e \<and> tf_traffic_in_out_port r = tf_traffic_in_out_port e \<and>
     tf_decision r = tf_decision e"

lemma twin_refl: "twin e e"
  by (simp add: twin_def)

lemma twin_key: "traffic_content_key e = traffic_content_key e' \<Longrightarrow> twin e r \<longleftrightarrow> twin e' r"
  by (auto simp: twin_def traffic_content_key_def)

lemma known_twin:
  assumes "traffic_get_row tbl e \<noteq> None" and "tf_ip_protocol e \<noteq> Some ''UDP''" shows "\<exists>r \<in> set tbl. twin e r"
  using assms by (auto simp: traffic_get_row_None same_flow_def twin_def sql_eq_iff)

lemma new_events_subset: "new_events ok tbl K es = Some new \<Longrightarrow> set new \<subseteq> set es"
proof (induction es arbitrary: K new)
  case (Cons e es)
  then show ?case by (fastforce simp: Let_def split: if_splits)
qed simp

lemma new_events_twin:
  "new_events ok tbl K es = Some new \<Longrightarrow> \<forall>e \<in> set es. tf_ip_protocol e \<noteq> Some ''UDP'' \<Longrightarrow> e \<in> set es \<Longrightarrow>
    traffic_content_key e \<in> K \<or> (\<exists>r \<in> set tbl \<union> set new. twin e r)"
proof (induction es arbitrary: K new)
  case (Cons a es)
  show ?case
  proof (cases "traffic_content_key a \<in> K")
    case True
    then show ?thesis using Cons.IH [of K new] Cons.prems by auto
  next
    case fresh: False
    let ?K = "insert (traffic_content_key a) K"
    obtain rest where rest: "new_events ok tbl ?K es = Some rest"
      using Cons.prems(1) fresh by (auto simp: Let_def split: if_splits)
    have new: "new = (if traffic_get_row tbl a = None then a # rest else rest)"
      using Cons.prems(1) fresh rest by (auto simp: Let_def split: if_splits)
    have a: "\<exists>r \<in> set tbl \<union> set new. twin a r"
      using known_twin [of tbl a] Cons.prems(2) new twin_refl [of a] by auto
    show ?thesis
    proof (cases "traffic_content_key e = traffic_content_key a")
      case True
      then show ?thesis using a twin_key by blast
    next
      case False
      then have "e \<in> set es" using Cons.prems(3) by auto
      then have "traffic_content_key e \<in> ?K \<or> (\<exists>r \<in> set tbl \<union> set rest. twin e r)"
        using Cons.IH [OF rest] Cons.prems(2) by simp
      then show ?thesis using False new by auto
    qed
  qed
qed simp

lemma batch_table:
  assumes "create_pod_traffic_batch ok ins_ok tbl form = Some (new, tbl')"
  shows "tbl' = tbl @ new" and "set new \<subseteq> set form"
    and "\<forall>e \<in> set form. tf_ip_protocol e \<noteq> Some ''UDP'' \<Longrightarrow> \<forall>e \<in> set form. \<exists>r \<in> set tbl'. twin e r"
proof -
  have *: "new_events ok tbl {} form = Some new \<and> tbl' = tbl @ new"
    using assms by (auto simp: create_pod_traffic_batch_def insert_traffic_def split: if_splits option.splits)
  then show "tbl' = tbl @ new" by blast
  show "set new \<subseteq> set form" using * new_events_subset by blast
  show "\<forall>e \<in> set form. \<exists>r \<in> set tbl'. twin e r" if "\<forall>e \<in> set form. tf_ip_protocol e \<noteq> Some ''UDP''"
    using new_events_twin [of ok tbl "{}" form new] * that by auto
qed

lemma accept_all_twins:
  "accept_all ps tbl = (tbl', accepted) \<Longrightarrow> \<forall>e \<in> set accepted. tf_ip_protocol e \<noteq> Some ''UDP'' \<Longrightarrow>
    set tbl \<subseteq> set tbl' \<and> set tbl' \<subseteq> set tbl \<union> set accepted \<and> (\<forall>e \<in> set accepted. \<exists>r \<in> set tbl'. twin e r)"
proof (induction ps arbitrary: tbl accepted)
  case (Cons p ps)
  obtain ok ins_ok form where p: "p = (ok, ins_ok, form)" by (cases p)
  show ?case
  proof (cases "create_pod_traffic_batch ok ins_ok tbl form")
    case None
    then show ?thesis using Cons p by simp
  next
    case (Some r)
    obtain new tbl1 where r: "r = (new, tbl1)" by fastforce
    obtain rest where rest: "accept_all ps tbl1 = (tbl', rest)" "accepted = form @ rest"
      using Cons.prems(1) p Some r by (auto split: prod.splits)
    note b = batch_table [OF Some [unfolded r]]
    have "set tbl1 \<subseteq> set tbl'" "set tbl' \<subseteq> set tbl1 \<union> set rest" "\<forall>e \<in> set rest. \<exists>r \<in> set tbl'. twin e r"
      using Cons.IH [OF rest(1)] Cons.prems(2) rest(2) by simp_all
    moreover have "\<forall>e \<in> set form. \<exists>r \<in> set tbl1. twin e r" using b(3) Cons.prems(2) rest(2) by simp
    ultimately have "\<forall>e \<in> set accepted. \<exists>r \<in> set tbl'. twin e r" using rest(2) by (metis Un_iff set_append subsetD)
    moreover have "set tbl \<subseteq> set tbl1" "set tbl1 \<subseteq> set tbl \<union> set form" using b(1,2) by auto
    ultimately show ?thesis using \<open>set tbl1 \<subseteq> set tbl'\<close> \<open>set tbl' \<subseteq> set tbl1 \<union> set rest\<close> rest(2) by auto
  qed
qed simp

lemma twin_conn:
  assumes "twin e r" and "tf_ip_protocol r = tf_ip_protocol e"
  shows "ingress_conn d (advisor_row r) = ingress_conn d (advisor_row e)"
    and "egress_conn d (advisor_row r) = egress_conn d (advisor_row e)"
  using assms
  by (simp_all add: twin_def ingress_conn_def egress_conn_def usable_peer_def IsIngressTraffic_def IsEgressTraffic_def advisor_row_def)

lemma seen_eqI:
  assumes "set rows \<subseteq> set rows'" and "\<forall>e \<in> set rows'. \<exists>r \<in> set rows. ingress_conn d r = ingress_conn d e \<and> egress_conn d r = egress_conn d e"
  shows "seen d dir rows = seen d dir rows'"
proof -
  have "{c. \<exists>tr \<in> set rows. f tr = Some c} = {c. \<exists>tr \<in> set rows'. f tr = Some c}"
    if "\<forall>e \<in> set rows'. \<exists>r \<in> set rows. f r = f e" for f :: "PodTraffic \<Rightarrow> conn option"
    using assms(1) that by (intro Collect_cong iffI) (blast, metis)
  then show ?thesis using assms(2) by (simp add: seen_def set_conns) blast
qed

text \<open>The rows of a pod as the advisor gets them.\<close>

definition pod_rows :: "string \<Rightarrow> traffic_row list \<Rightarrow> PodTraffic list" where
  "pod_rows name rows = map advisor_row (filter (\<lambda>r. tf_pod_name r = Some name) rows)"

lemma served_rows: "set (map advisor_row (pod_traffic_by_name coll name db)) = set (pod_rows name (tbl_traffic db))"
  by (simp add: pod_traffic_by_name_def set_sort pod_rows_def)

lemma seen_cong: "set rows = set rows' \<Longrightarrow> seen d dir rows = seen d dir rows'"
  by (rule seen_eqI) auto

lemma dedup_seen:
  assumes "accept_all posts [] = (tbl, accepted)" and "\<forall>e \<in> set accepted. tf_ip_protocol e = Some ''TCP''"
    and "\<forall>e \<in> set accepted. \<forall>r \<in> set accepted. tf_pod_ip e = tf_pod_ip r \<longrightarrow> tf_pod_name e = tf_pod_name r"
  shows "seen d dir (pod_rows name tbl) = seen d dir (pod_rows name accepted)"
proof (rule seen_eqI)
  have *: "set tbl \<subseteq> set accepted" "\<forall>e \<in> set accepted. \<exists>r \<in> set tbl. twin e r"
    using accept_all_twins [OF assms(1)] assms(2) by auto
  then show "set (pod_rows name tbl) \<subseteq> set (pod_rows name accepted)" by (auto simp: pod_rows_def)
  show "\<forall>e \<in> set (pod_rows name accepted). \<exists>r \<in> set (pod_rows name tbl).
      ingress_conn d r = ingress_conn d e \<and> egress_conn d r = egress_conn d e"
  proof
    fix x assume "x \<in> set (pod_rows name accepted)"
    then obtain e where e: "e \<in> set accepted" "tf_pod_name e = Some name" "x = advisor_row e" by (auto simp: pod_rows_def)
    obtain r where r: "r \<in> set tbl" "twin e r" using *(2) e(1) by blast
    then have r': "r \<in> set accepted" using *(1) by blast
    have ip: "tf_pod_ip e = tf_pod_ip r" using r(2) by (simp add: twin_def)
    have "tf_ip_protocol r = tf_ip_protocol e" using assms(2) e(1) r' by simp
    note conn = twin_conn [OF r(2) this]
    have "tf_pod_name r = Some name" using assms(3) e(1,2) r' ip by metis
    then have "advisor_row r \<in> set (pod_rows name tbl)" using r(1) by (simp add: pod_rows_def)
    then show "\<exists>r \<in> set (pod_rows name tbl). ingress_conn d r = ingress_conn d x \<and> egress_conn d r = egress_conn d x"
      by (rule rev_bexI) (simp add: conn e(3))
  qed
qed

text \<open>
  C12: Deduplication does not show in policies.  After any posts of TCP events, failed ones included, the
  policy generated from the rows the broker serves for a pod is the one that all accepted rows would
  give, as long as no address belongs to two pods.
\<close>

theorem dedup_keeps_policy:
  assumes "kube_documented k as_selector valid" and "accept_all posts [] = (tbl_traffic db, accepted)"
    and "\<forall>e \<in> set accepted. tf_ip_protocol e = Some ''TCP''"
    and "\<forall>e \<in> set accepted. \<forall>r \<in> set accepted. tf_pod_ip e = tf_pod_ip r \<longrightarrow> tf_pod_name e = tf_pod_name r"
  shows "Generate k b name (map advisor_row (pod_traffic_by_name coll name db)) (Some d) =
    Generate k b name (pod_rows name accepted) (Some d)"
proof -
  have "seen d dir (map advisor_row (pod_traffic_by_name coll name db)) = seen d dir (pod_rows name accepted)" for dir
    using seen_cong [OF served_rows] dedup_seen [OF assms(2-4)] by simp
  from this [of DirectionIngress] this [of DirectionEgress] show ?thesis
    by (simp add: kube_ports.Generate_policy_of [OF documented_ports [OF assms(1)]] seen_def)
qed

definition sent_row :: "string \<Rightarrow> string \<Rightarrow> traffic_row" where
  "sent_row uuid port = \<lparr>tf_uuid = uuid, tf_pod_name = Some ''web-0'', tf_pod_namespace = Some ''shop'',
     tf_pod_ip = Some ''10.0.0.4'', tf_pod_port = Some ''0'', tf_ip_protocol = Some ''TCP'', tf_traffic_type = Some ''EGRESS'',
     tf_traffic_in_out_ip = Some ''10.0.0.9'', tf_traffic_in_out_port = Some port, tf_decision = Some ''ALLOW'', tf_time_stamp = 0\<rparr>"

lemma sent_row_sel: "tf_uuid (sent_row u p) = u" "tf_ip_protocol (sent_row u p) = Some ''TCP''"
    "tf_pod_ip (sent_row u p) = Some ''10.0.0.4''" "tf_pod_name (sent_row u p) = Some ''web-0''"
  by (simp_all add: sent_row_def)

lemma sent_row_twin: "twin (sent_row u p) (sent_row v q) \<longleftrightarrow> p = q"
  by (auto simp: twin_def sent_row_def)

lemma sent_row_key: "traffic_content_key (sent_row u p) = traffic_content_key (sent_row v q) \<longleftrightarrow> p = q"
  by (simp add: traffic_content_key_def sent_row_def)

lemma sent_row_lookup: "traffic_get_row tbl (sent_row u p) = None \<longleftrightarrow> (\<forall>r \<in> set tbl. \<not> twin (sent_row u p) r)"
  by (auto simp: traffic_get_row_None same_flow_def twin_def sent_row_def)

text \<open>The same connection twice in a batch and again later: one row for it, and the same policy.\<close>

theorem dedup_keeps_policy_witness:
  "\<exists>tbl db. fst (accept_all [(\<lambda>_. True, True, [sent_row ''a'' ''443'', sent_row ''b'' ''443'']), (\<lambda>_. True, False, [sent_row ''x'' ''22'']),
      (\<lambda>_. True, True, [sent_row ''c'' ''443'', sent_row ''d'' ''53''])] []) = tbl
    \<and> tbl = [sent_row ''a'' ''443'', sent_row ''d'' ''53''] \<and> tbl_traffic db = tbl
    \<and> Generate lib_kube shop_broker ''web-0'' (map advisor_row (pod_traffic_by_name (<) ''web-0'' db)) (Some shop_web) =
      Generate lib_kube shop_broker ''web-0'' (pod_rows ''web-0'' [sent_row ''a'' ''443'', sent_row ''b'' ''443'',
        sent_row ''c'' ''443'', sent_row ''d'' ''53'']) (Some shop_web)"
proof -
  let ?posts = "[(\<lambda>_. True, True, [sent_row ''a'' ''443'', sent_row ''b'' ''443'']), (\<lambda>_. True, False, [sent_row ''x'' ''22'']),
      (\<lambda>_. True, True, [sent_row ''c'' ''443'', sent_row ''d'' ''53''])] :: ((traffic_row \<Rightarrow> bool) \<times> bool \<times> traffic_row list) list"
  let ?db = "empty_database\<lparr>tbl_traffic := [sent_row ''a'' ''443'', sent_row ''d'' ''53'']\<rparr>"
  have run: "accept_all ?posts [] = (tbl_traffic ?db, [sent_row ''a'' ''443'', sent_row ''b'' ''443'', sent_row ''c'' ''443'', sent_row ''d'' ''53''])"
    by (simp add: create_pod_traffic_batch_def insert_traffic_def sent_row_key sent_row_lookup sent_row_twin sent_row_sel)
  have "Generate lib_kube shop_broker ''web-0'' (map advisor_row (pod_traffic_by_name (<) ''web-0'' ?db)) (Some shop_web) =
      Generate lib_kube shop_broker ''web-0'' (pod_rows ''web-0'' [sent_row ''a'' ''443'', sent_row ''b'' ''443'',
        sent_row ''c'' ''443'', sent_row ''d'' ''53'']) (Some shop_web)"
    by (rule dedup_keeps_policy [OF lib_documented run]) (auto simp: sent_row_sel)
  then show ?thesis using run by (intro exI [of _ ?db] exI [of _ "tbl_traffic ?db"]) simp
qed

section \<open>Lost connections\<close>

lemma egress_event_row:
  assumes "build_traffic_event ins uuid now ev pod cache = (Some r, cache')" and "ne_kind ev = KIND_EGRESS_TCP \<or> ne_kind ev = KIND_EGRESS_UDP"
  shows "r = row uuid now pod 0 (ipv4_string (from_be (ne_daddr ev))) (ne_dport ev) ''EGRESS'' (event_proto ev) ''ALLOW''"
    and "pod_ip pod \<noteq> ipv4_string (from_be (ne_daddr ev))"
  using assms
  by (auto simp: build_traffic_event_eq candidate_def event_proto_def KIND_EGRESS_TCP_def KIND_EGRESS_UDP_def
      dest: enter_row_Some split: option.splits if_splits)

lemma event_proto_cases: "event_proto ev = ''UDP'' \<longleftrightarrow> ne_kind ev = KIND_EGRESS_UDP" "event_proto ev = ''TCP'' \<longleftrightarrow> ne_kind ev \<noteq> KIND_EGRESS_UDP"
  by (simp_all add: event_proto_def)

lemma egress_row_conn:
  assumes "pd_PodIP d = pod_ip pod" and "pod_ip pod \<noteq> ipv4_string w" and "proto = ''TCP'' \<or> proto = ''UDP''"
  shows "egress_conn d (advisor_row (broker_row (row uuid now pod 0 (ipv4_string w) p ''EGRESS'' proto dec))) =
    (if p = 0 then None else Some (ipv4_string w, uint p, proto))"
  using assms
  by (auto simp: egress_conn_def usable_peer_def IsIngressTraffic_def IsEgressTraffic_def advisor_row_def broker_row_def row_def
      traffic_types ipv4_string_Nil parsePort_u16 protocolPtr_def)

lemma two_new_rows:
  assumes "traffic_content_key e1 \<noteq> traffic_content_key e2" and "tf_uuid e1 \<noteq> tf_uuid e2"
  shows "create_pod_traffic_batch (\<lambda>_. True) True [] [e1, e2] = Some ([e1, e2], [e1, e2])"
  using assms by (simp add: create_pod_traffic_batch_def insert_traffic_def traffic_get_row_None Let_def)

lemma later_row_known:
  assumes "r1 \<in> set tbl" and "same_flow r2 r1" and "sql_eq (tf_pod_port r1) (tf_pod_port r2)" and "ok r2"
    and "tf_ip_protocol r2 = Some ''UDP'' \<or> sql_eq (tf_traffic_in_out_port r1) (tf_traffic_in_out_port r2)"
  shows "create_pod_traffic_batch ok ins_ok tbl [r2] = Some ([], tbl)"
proof -
  have "traffic_get_row tbl r2 \<noteq> None" using assms unfolding traffic_get_row_None by (auto split: if_splits)
  then show ?thesis using assms(4) by (simp add: create_pod_traffic_batch_def Let_def)
qed

text \<open>
  C13: Connections are lost.  Of two different egress connections of a pod to one address, the second
  being UDP or to the same port, both are stored when they arrive in one batch; in a later batch the
  second is taken for a duplicate of the first, and no policy will know it.
\<close>

theorem later_connection_lost:
  assumes "build_traffic_event ins uuid1 now1 ev1 pod cache1 = (Some r1, cache1')"
    and "build_traffic_event ins uuid2 now2 ev2 pod cache2 = (Some r2, cache2')"
    and "ne_kind ev1 = KIND_EGRESS_TCP \<or> ne_kind ev1 = KIND_EGRESS_UDP"
    and "ne_kind ev2 = KIND_EGRESS_UDP \<or> ne_kind ev2 = KIND_EGRESS_TCP \<and> ne_dport ev2 = ne_dport ev1"
    and "ne_daddr ev1 = ne_daddr ev2" and "(ne_kind ev1, ne_dport ev1) \<noteq> (ne_kind ev2, ne_dport ev2)"
    and "uuid1 \<noteq> uuid2" and "broker_row r1 \<in> set tbl" and "ok (broker_row r2)"
    and "pd_PodIP d = pod_ip pod" and "ne_dport ev2 \<noteq> 0"
  shows "create_pod_traffic_batch (\<lambda>_. True) True [] [broker_row r1, broker_row r2] =
      Some ([broker_row r1, broker_row r2], [broker_row r1, broker_row r2])
    \<and> create_pod_traffic_batch ok ins_ok tbl [broker_row r2] = Some ([], tbl)
    \<and> (let c = (ipv4_string (from_be (ne_daddr ev2)), uint (ne_dport ev2), event_proto ev2)
       in c \<in> seen d DirectionEgress (pod_rows (pod_name pod) [broker_row r1, broker_row r2])
         \<and> c \<notin> seen d DirectionEgress (pod_rows (pod_name pod) [broker_row r1]))"
proof -
  have kind2: "ne_kind ev2 = KIND_EGRESS_TCP \<or> ne_kind ev2 = KIND_EGRESS_UDP" using assms(4) by blast
  note e1 = egress_event_row [OF assms(1,3)] and e2 = egress_event_row [OF assms(2) kind2]
  have protos: "event_proto ev1 = ''TCP'' \<or> event_proto ev1 = ''UDP''" "event_proto ev2 = ''TCP'' \<or> event_proto ev2 = ''UDP''"
    by (simp_all add: event_proto_def)
  have differ: "(event_proto ev1, ne_dport ev1) \<noteq> (event_proto ev2, ne_dport ev2)"
    using assms(3,6) kind2 by (auto simp: event_proto_def KIND_EGRESS_TCP_def KIND_EGRESS_UDP_def split: if_splits)
  have "create_pod_traffic_batch (\<lambda>_. True) True [] [broker_row r1, broker_row r2] =
      Some ([broker_row r1, broker_row r2], [broker_row r1, broker_row r2])"
    using differ assms(7)
    by (intro two_new_rows) (auto simp: e1(1) e2(1) traffic_content_key_def broker_row_def row_def digits_inject word_unat_eq_iff)
  moreover have "create_pod_traffic_batch ok ins_ok tbl [broker_row r2] = Some ([], tbl)"
    using assms(4,5,9)
    by (intro later_row_known [OF assms(8)]) (auto simp: e1(1) e2(1) same_flow_def broker_row_def row_def event_proto_cases)
  moreover have c1: "egress_conn d (advisor_row (broker_row r1)) =
      (if ne_dport ev1 = 0 then None else Some (ipv4_string (from_be (ne_daddr ev2)), uint (ne_dport ev1), event_proto ev1))"
    using egress_row_conn [OF assms(10) e1(2) protos(1)] by (simp add: e1(1) assms(5))
  moreover have c2: "egress_conn d (advisor_row (broker_row r2)) =
      Some (ipv4_string (from_be (ne_daddr ev2)), uint (ne_dport ev2), event_proto ev2)"
    using egress_row_conn [OF assms(10) e2(2) protos(2)] assms(11) by (simp add: e2(1))
  moreover have "tf_pod_name (broker_row r1) = Some (pod_name pod)" "tf_pod_name (broker_row r2) = Some (pod_name pod)"
    by (simp_all add: e1(1) e2(1) broker_row_def row_def)
  moreover have "DirectionEgress \<noteq> DirectionIngress" by (simp add: DirectionEgress_def DirectionIngress_def)
  moreover have "uint (ne_dport ev1) \<noteq> uint (ne_dport ev2) \<or> event_proto ev1 \<noteq> event_proto ev2" using differ by (auto simp: word_uint_eq_iff)
  ultimately show ?thesis by (simp add: seen_def set_conns pod_rows_def Let_def)
qed

definition dns_event :: "u16 \<Rightarrow> network_event_data" where
  "dns_event port = \<lparr>ne_inum = 7, ne_saddr = 0, ne_sport = 40000, ne_daddr = 0x0900000A, ne_dport = port, ne_kind = 3\<rparr>"

lemma dns_event_sel: "ne_kind (dns_event p) = 3" "ne_daddr (dns_event p) = 0x0900000A" "ne_dport (dns_event p) = p"
  by (simp_all add: dns_event_def)

lemma dns_event_built:
  "\<exists>r cache. build_traffic_event (\<lambda>c key v. c(key \<mapsto> v)) u n (dns_event p) web_status Map.empty = (Some r, cache)"
  by (simp add: build_traffic_event_eq candidate_def enter_row_fresh dns_event_sel web_status_def web_remote)

theorem later_connection_lost_witness:
  "\<exists>r1 r2. create_pod_traffic_batch (\<lambda>_. True) True [] [r1, r2] = Some ([r1, r2], [r1, r2])
    \<and> create_pod_traffic_batch (\<lambda>_. True) True [r1] [r2] = Some ([], [r1])
    \<and> (''10.0.0.9'', 123, ''UDP'') \<in> seen shop_web DirectionEgress (pod_rows ''web-0'' [r1, r2])
    \<and> (''10.0.0.9'', 123, ''UDP'') \<notin> seen shop_web DirectionEgress (pod_rows ''web-0'' [r1])"
proof -
  obtain r1 c1 where r1: "build_traffic_event (\<lambda>c key v. c(key \<mapsto> v)) ''a'' 0 (dns_event 53) web_status Map.empty = (Some r1, c1)"
    using dns_event_built by blast
  obtain r2 c2 where r2: "build_traffic_event (\<lambda>c key v. c(key \<mapsto> v)) ''b'' 0 (dns_event 123) web_status Map.empty = (Some r2, c2)"
    using dns_event_built by blast
  show ?thesis
    using later_connection_lost [OF r1 r2, of "[broker_row r1]" "\<lambda>_. True" shop_web True]
    by (intro exI [of _ "broker_row r1"] exI [of _ "broker_row r2"])
      (simp add: dns_event_sel KIND_EGRESS_UDP_def shop_web_sel web_status_def web_remote event_proto_def Let_def)
qed

section \<open>The live audit\<close>

text \<open>The flow as the evaluator decodes it: a field left out of the JSON leaves a Go string empty.\<close>

definition evaluator_flow :: "audit_flow \<Rightarrow> Flow" where
  "evaluator_flow fl = \<lparr>SrcPodNamespace = or_else (fl_src_pod_namespace fl) [], SrcPodName = or_else (fl_src_pod_name fl) [],
     DstPodNamespace = or_else (fl_dst_pod_namespace fl) [], DstPodName = or_else (fl_dst_pod_name fl) [],
     SrcIP = or_else (fl_src_ip fl) [], DstIP = or_else (fl_dst_ip fl) [], DstPort = fl_dst_port fl,
     flow_Protocol = fl_protocol fl, Timestamp = fl_timestamp fl\<rparr>"

lemma audit_types:
  "to_ascii_uppercase (trim ''INGRESS'') = ''INGRESS''" "to_ascii_uppercase (trim ''EGRESS'') = ''EGRESS''"
  by code_simp+

lemma live_peer_unknown:
  assumes "build_flow_for_traffic e = Some fl" and "tf_traffic_type e = Some (if dir = DirectionIngress then ''INGRESS'' else ''EGRESS'')"
    and "dir = DirectionIngress \<or> dir = DirectionEgress"
  shows "peerPod (evaluator_flow fl) dir (store_Lookup s) = None"
    and "peerIP (evaluator_flow fl) dir = or_else (tf_traffic_in_out_ip e) []"
  using assms
  by (auto simp: build_flow_for_traffic_def audit_types Let_def evaluator_flow_def peerPod_def peerIP_def store_Lookup_def
      store_GetPod_def DirectionIngress_def DirectionEgress_def split: if_splits)

text \<open>
  C14: The live audit sees addresses only.  The flow that the broker builds from a traffic row does not name
  the peer, so a generated policy, audited on it, allows it exactly through an observed address that
  was neither a pod nor a service when the policy was generated; a connection between known pods, even
  one the policy was generated from, is reported as one that would be denied.
\<close>

theorem live_audit_sees_addresses:
  assumes "kube_documented k as_selector valid" and "labels_valid valid b d" and "informer_keyed s"
    and "dir = DirectionIngress \<or> dir = DirectionEgress"
    and "tf_traffic_type e = Some (if dir = DirectionIngress then ''INGRESS'' else ''EGRESS'')"
    and "build_flow_for_traffic e = Some fl"
    and "subjectPod (evaluator_flow fl) dir (store_Lookup s) = Some subject" and "pod_Namespace subject = pd_Namespace d"
    and "map_le (pod_Labels (pd_Pod d)) (pod_Labels subject)"
    and "Generate k b name rows (Some d) = Inr p" and "seen d dir rows \<noteq> {}"
  shows "map res_Verdict (filter (\<lambda>r. res_Direction r = dir)
      (Match as_selector (evaluator_flow fl) (audited p uid gen) (store_Lookup s))) =
    [if \<exists>(ip, n, proto) \<in> seen d dir rows. resolve b ip = None \<and> fl_protocol fl = proto \<and> sint (fl_dst_port fl) = n \<and>
        block_covers (or_else (tf_traffic_in_out_ip e) []) \<lparr>CIDR = ip @ ''/32'', Except = []\<rparr>
     then VerdictAllow else VerdictWouldDeny]"
proof -
  note peer = live_peer_unknown [OF assms(6,5,4)]
  have "peer_seen b (GetNamespaceLabels (store_Lookup s)) a None ip \<longleftrightarrow>
      resolve b ip = None \<and> block_covers a \<lparr>CIDR = ip @ ''/32'', Except = []\<rparr>" for a ip
    by (simp add: peer_seen_def split: option.split)
  then have "flow_seen b (store_Lookup s) (evaluator_flow fl) dir (seen d dir rows) \<longleftrightarrow>
      (\<exists>(ip, n, proto) \<in> seen d dir rows. resolve b ip = None \<and> fl_protocol fl = proto \<and> sint (fl_dst_port fl) = n \<and>
        block_covers (or_else (tf_traffic_in_out_ip e) []) \<lparr>CIDR = ip @ ''/32'', Except = []\<rparr>)"
    unfolding flow_seen_def peer by (auto simp: evaluator_flow_def)
  then show ?thesis using generated_policy_from [OF assms(1-4,7-10), of uid gen] assms(11) by simp
qed

definition front_row :: traffic_row where
  "front_row = \<lparr>tf_uuid = ''f'', tf_pod_name = Some ''web-0'', tf_pod_namespace = Some ''shop'', tf_pod_ip = Some ''10.0.0.4'',
     tf_pod_port = Some ''8080'', tf_ip_protocol = Some ''TCP'', tf_traffic_type = Some ''INGRESS'',
     tf_traffic_in_out_ip = Some ''10.0.0.5'', tf_traffic_in_out_port = Some ''0'', tf_decision = Some ''ALLOW'', tf_time_stamp = 1\<rparr>"

text \<open>The row of a connection from a pod, which is in the rows of the policy.\<close>

theorem live_audit_sees_addresses_witness:
  "\<exists>fl p. build_flow_for_traffic front_row = Some fl
    \<and> ingress_conn shop_web (advisor_row front_row) = Some (''10.0.0.5'', 8080, ''TCP'')
    \<and> seen shop_web DirectionIngress shop_rows = {(''10.0.0.5'', 8080, ''TCP'')}
    \<and> Generate lib_kube shop_broker ''web-0'' shop_rows (Some shop_web) = Inr p
    \<and> map res_Verdict (filter (\<lambda>r. res_Direction r = DirectionIngress)
        (Match (\<lambda>l. Some (map_le l)) (evaluator_flow fl) (audited p ''u'' 1) (store_Lookup named_store))) = [VerdictWouldDeny]"
proof -
  have type: "tf_traffic_type front_row = Some ''INGRESS''" by (simp add: front_row_def)
  obtain fl where fl: "build_flow_for_traffic front_row = Some fl" "fl_dst_pod_namespace fl = Some ''shop''"
    "fl_dst_pod_name fl = Some ''web-0''"
    by (simp add: build_flow_for_traffic_def type audit_types Let_def) (simp add: front_row_def)
  obtain p where p: "Generate lib_kube shop_broker ''web-0'' shop_rows (Some shop_web) = Inr p"
    using shop_generates by blast
  have subject: "subjectPod (evaluator_flow fl) DirectionIngress (store_Lookup named_store) = Some (shop_pod ''shop'' ''web-0'' ''web'')"
    by (simp add: subjectPod_def evaluator_flow_def fl(2,3) shop_found)
  have verdict: "map res_Verdict (filter (\<lambda>r. res_Direction r = DirectionIngress)
        (Match (\<lambda>l. Some (map_le l)) (evaluator_flow fl) (audited p ''u'' 1) (store_Lookup named_store))) = [VerdictWouldDeny]"
    by (subst live_audit_sees_addresses [OF lib_documented _ named_store_keyed _ _ fl(1) subject _ _ p])
      (simp_all add: labels_valid_def shop_web_sel shop_seen shop_peer type)
  have conn: "ingress_conn shop_web (advisor_row front_row) = Some (''10.0.0.5'', 8080, ''TCP'')"
  proof -
    have "parsePort ''8080'' = Some 8080" "EqualFold ''INGRESS'' ''INGRESS''" "protocolPtr ''TCP'' = ''TCP''" by code_simp+
    then show ?thesis
      by (simp add: ingress_conn_def usable_peer_def IsIngressTraffic_def advisor_row_def front_row_def shop_web_sel)
  qed
  show ?thesis by (intro exI conjI) (rule fl(1), rule conn, rule shop_seen(1), rule p, rule verdict)
qed

end
