(* ===== verification/Broker_State_Props.thy ===== *)
theory Broker_State_Props
  imports Broker_System
begin

text \<open>
  What holds of the broker's tables, queue, queries and access check: keys and stored manifests at all
  times, the effect of a syscall batch, of a mark of death and of a pruning turn, the accounts of the
  audit queue, the window of a query and the bearer token.
\<close>

section \<open>The tables\<close>

text \<open>
  C15: The tables stay well formed.  After any sequence of requests, audits and pruning turns, with any
  failures, every table has its key once; no pod has a blank name, no service an address that is not
  one; stored verdicts are Allow or WouldDeny; and stored manifests are slim: none has a status or managed
  fields, and of a pod's specification \<^verbatim>\<open>hostNetwork\<close> is kept at most, so that the slimming of
  \<^verbatim>\<open>/pod/info\<close> gives the rows as they are stored.
\<close>

theorem tables_well_formed:
  "tables_ok (fold (broker_step coll) ops empty_database) \<and>
    map compact_row (pod_details coll (fold (broker_step coll) ops empty_database)) =
      pod_details coll (fold (broker_step coll) ops empty_database)"
proof -
  let ?db = "fold (broker_step coll) ops empty_database"
  have ok: "tables_ok ?db" by (rule tables_ok_run [OF tables_ok_empty])
  have "compact_row d = d" if "d \<in> set (pod_details coll ?db)" for d
    using ok that slim_compact
    by (cases "dt_pod_obj d") (auto simp: pod_details_def set_sort tables_ok_def details_ok_def compact_row_def)
  then show ?thesis using ok by (simp add: map_idI)
qed

section \<open>Syscalls\<close>

text \<open>The entries of a batch that are not skipped, whether each fits the rows and the others, and the last for a pod.\<close>

definition named :: "pod_input_syscalls list \<Rightarrow> pod_input_syscalls list" where
  "named w = filter (\<lambda>e. trim (in_pod_name e) \<noteq> []) w"

definition fits :: "pod_syscalls_row list \<Rightarrow> pod_input_syscalls \<Rightarrow> bool" where
  "fits tbl e \<longleftrightarrow> (\<forall>q \<in> set tbl. sy_pod_name q = in_pod_name e \<longrightarrow> sy_pod_namespace q = in_pod_namespace e \<and> sy_arch q = in_arch e)"

definition same_place :: "pod_input_syscalls \<Rightarrow> pod_input_syscalls \<Rightarrow> bool" where
  "same_place e f \<longleftrightarrow> (in_pod_name e = in_pod_name f \<longrightarrow> in_pod_namespace e = in_pod_namespace f \<and> in_arch e = in_arch f)"

definition batch_fits :: "pod_input_syscalls list \<Rightarrow> pod_syscalls_row list \<Rightarrow> bool" where
  "batch_fits w tbl \<longleftrightarrow> (\<forall>e \<in> set (named w). fits tbl e) \<and> (\<forall>e \<in> set (named w). \<forall>f \<in> set (named w). same_place e f)"

definition syscalls_of :: "pod_syscalls_row list \<Rightarrow> string \<Rightarrow> string option" where
  "syscalls_of tbl name = map_of (map (\<lambda>r. (sy_pod_name r, sy_syscalls r)) tbl) name"

fun last_posted :: "pod_input_syscalls list \<Rightarrow> string \<Rightarrow> string option \<Rightarrow> string option" where
  "last_posted [] name old = old"
| "last_posted (e # es) name old =
     last_posted es name (if in_pod_name e = name then Some (join_with '','' (in_syscalls e)) else old)"

lemma named_simps [simp]: "named [] = []" "named (e # es) = (if trim (in_pod_name e) = [] then named es else e # named es)"
  by (simp_all add: named_def)

lemma store_syscalls_skip: "trim (in_pod_name e) = [] \<Longrightarrow> store_syscalls e tbl = Some tbl"
  by (simp add: store_syscalls_def)

lemma get_row_fits:
  "fits tbl e \<Longrightarrow> syscalls_get_row tbl e = None \<longleftrightarrow> (\<forall>q \<in> set tbl. sy_pod_name q \<noteq> in_pod_name e)"
  "syscalls_get_row tbl e = Some r \<Longrightarrow> r \<in> set tbl \<and> sy_pod_name r = in_pod_name e \<and>
    sy_pod_namespace r = in_pod_namespace e \<and> sy_arch r = in_arch e"
  by (auto simp: syscalls_get_row_def first_row_filter_None fits_def dest: first_row_filter_Some)

lemma syscalls_of_update:
  "syscalls_of (map (\<lambda>q. if sy_pod_name q = k then q\<lparr>sy_syscalls := s\<rparr> else q) tbl) name =
    (if name = k \<and> k \<in> set (map sy_pod_name tbl) then Some s else syscalls_of tbl name)"
  by (induction tbl) (auto simp: syscalls_of_def)

lemma fits_update:
  "fits (map (\<lambda>q. if sy_pod_name q = k then q\<lparr>sy_syscalls := s\<rparr> else q) tbl) f \<longleftrightarrow> fits tbl f"
  by (induction tbl) (auto simp: fits_def)

lemma store_syscalls_fits:
  assumes "distinct (map sy_pod_name tbl)" and "trim (in_pod_name e) \<noteq> []" and "fits tbl e"
  obtains t where "store_syscalls e tbl = Some t" and "distinct (map sy_pod_name t)"
    and "syscalls_of t name = (if in_pod_name e = name then Some (join_with '','' (in_syscalls e)) else syscalls_of tbl name)"
    and "\<And>f. fits t f \<longleftrightarrow> fits tbl f \<and> same_place e f"
proof (cases "syscalls_get_row tbl e")
  case None
  then have new: "\<forall>q \<in> set tbl. sy_pod_name q \<noteq> in_pod_name e" using get_row_fits(1) [OF assms(3)] by blast
  let ?t = "tbl @ [\<lparr>sy_pod_name = in_pod_name e, sy_pod_namespace = in_pod_namespace e,
      sy_syscalls = join_with '','' (in_syscalls e), sy_arch = in_arch e, sy_time_stamp = in_time_stamp e\<rparr>]"
  have "map_of (map (\<lambda>r. (sy_pod_name r, sy_syscalls r)) tbl) (in_pod_name e) = None"
    using new by (auto simp: map_of_eq_None_iff)
  then show thesis using None new assms(1,2)
    by (intro that [of ?t]) (auto simp: store_syscalls_def Let_def syscalls_of_def map_add_def fits_def same_place_def split: option.split)
next
  case (Some r)
  note r = get_row_fits(2) [OF Some]
  have found: "in_pod_name e \<in> sy_pod_name ` set tbl" using r by (metis image_eqI)
  let ?t = "map (\<lambda>q. if sy_pod_name q = sy_pod_name r then q\<lparr>sy_syscalls := join_with '','' (in_syscalls e)\<rparr> else q) tbl"
  have names: "map sy_pod_name ?t = map sy_pod_name tbl" by simp
  have place: "fits tbl f \<Longrightarrow> same_place e f" for f using r by (auto simp: fits_def same_place_def)
  show thesis
  proof (rule that [of ?t])
    show "store_syscalls e tbl = Some ?t" using Some assms(2) by (simp add: store_syscalls_def)
    show "distinct (map sy_pod_name ?t)" unfolding names by (rule assms(1))
    show "syscalls_of ?t name = (if in_pod_name e = name then Some (join_with '','' (in_syscalls e)) else syscalls_of tbl name)"
      using r found by (auto simp: syscalls_of_update)
    show "fits ?t f \<longleftrightarrow> fits tbl f \<and> same_place e f" for f using fits_update place by blast
  qed
qed

lemma store_syscalls_conflict:
  "trim (in_pod_name e) \<noteq> [] \<Longrightarrow> distinct (map sy_pod_name tbl) \<Longrightarrow> \<not> fits tbl e \<Longrightarrow> store_syscalls e tbl = None"
proof -
  assume "trim (in_pod_name e) \<noteq> []" "distinct (map sy_pod_name tbl)" "\<not> fits tbl e"
  then obtain q where q: "q \<in> set tbl" "sy_pod_name q = in_pod_name e"
    "sy_pod_namespace q = in_pod_namespace e \<longrightarrow> sy_arch q \<noteq> in_arch e" by (auto simp: fits_def)
  have "syscalls_get_row tbl e = None"
  proof (cases "syscalls_get_row tbl e")
    case (Some r)
    note r = get_row_fits(2) [OF Some]
    then have "r = q" using q(1,2) \<open>distinct (map sy_pod_name tbl)\<close> by (metis distinct_map inj_onD)
    then show ?thesis using r q(3) by simp
  qed
  then show "store_syscalls e tbl = None" using q \<open>trim (in_pod_name e) \<noteq> []\<close> by (auto simp: store_syscalls_def Let_def)
qed

lemma store_all_exact:
  "distinct (map sy_pod_name tbl) \<Longrightarrow> case store_all_syscalls w tbl of
     None \<Rightarrow> \<not> batch_fits w tbl
   | Some tbl' \<Rightarrow> batch_fits w tbl \<and> syscalls_of tbl' name = last_posted (named w) name (syscalls_of tbl name)"
proof (induction w arbitrary: tbl)
  case Nil
  then show ?case by (simp add: batch_fits_def)
next
  case (Cons e w)
  show ?case
  proof (cases "trim (in_pod_name e) = []")
    case True
    then have "batch_fits (e # w) tbl = batch_fits w tbl" by (simp add: batch_fits_def)
    then show ?thesis using Cons.IH [OF Cons.prems] True by (simp add: store_syscalls_skip split: option.splits)
  next
    case blank: False
    show ?thesis
    proof (cases "fits tbl e")
      case False
      then show ?thesis using blank Cons.prems by (simp add: store_syscalls_conflict batch_fits_def)
    next
      case True
      obtain t where t: "store_syscalls e tbl = Some t" "distinct (map sy_pod_name t)"
        "syscalls_of t name = (if in_pod_name e = name then Some (join_with '','' (in_syscalls e)) else syscalls_of tbl name)"
        "\<And>f. fits t f \<longleftrightarrow> fits tbl f \<and> same_place e f"
        using store_syscalls_fits [OF Cons.prems blank True] by blast
      have place: "same_place e e" "same_place f e \<Longrightarrow> same_place e f" "same_place e f \<Longrightarrow> same_place f e" for f
        by (auto simp: same_place_def)
      have names: "set (named (e # w)) = insert e (set (named w))" using blank by simp
      have "batch_fits (e # w) tbl \<longleftrightarrow> batch_fits w t"
        unfolding batch_fits_def names t(4) using True place by blast
      then show ?thesis using Cons.IH [OF t(2)] t(1,3) blank by (simp split: option.splits if_splits)
    qed
  qed
qed

text \<open>
  C16: A syscall batch is stored whole or not at all.  Over rows with distinct pod names, it is accepted
  exactly when no entry names a pod that is known, in the table or in the batch, with another
  namespace or architecture; then every pod has the list of its last entry, and all others keep
  theirs.  A single conflicting entry loses the whole batch.
\<close>

theorem syscall_batch_exact:
  assumes "distinct (map sy_pod_name tbl)"
  shows "case create_pod_syscalls True w tbl of
     None \<Rightarrow> \<not> batch_fits w tbl
   | Some tbl' \<Rightarrow> batch_fits w tbl \<and> (\<forall>name. syscalls_of tbl' name = last_posted (named w) name (syscalls_of tbl name))"
proof (cases "store_all_syscalls w tbl")
  case None
  then show ?thesis using store_all_exact [OF assms, of w] by (simp add: create_pod_syscalls_def)
next
  case (Some t)
  then show ?thesis using store_all_exact [OF assms, of w] by (simp add: create_pod_syscalls_def)
qed

definition posted_names :: "string \<Rightarrow> string \<Rightarrow> string list \<Rightarrow> pod_input_syscalls" where
  "posted_names name arch names = \<lparr>in_pod_name = name, in_pod_namespace = [], in_syscalls = names, in_arch = arch, in_time_stamp = 1\<rparr>"

definition stored_names :: "string \<Rightarrow> string \<Rightarrow> string \<Rightarrow> pod_syscalls_row" where
  "stored_names name arch names = \<lparr>sy_pod_name = name, sy_pod_namespace = [], sy_syscalls = names, sy_arch = arch, sy_time_stamp = 0\<rparr>"

text \<open>A pod that moved to a node of the other architecture blocks the batch, and all pods in it.\<close>

theorem syscall_batch_exact_witness:
  "create_pod_syscalls True [posted_names ''api-0'' ''x86_64'' [''read''], posted_names ''db-0'' ''aarch64'' [''read'', ''write'']]
      [stored_names ''db-0'' ''x86_64'' ''read''] = None
    \<and> (\<exists>tbl. create_pod_syscalls True [posted_names ''api-0'' ''x86_64'' [''read''], posted_names ''db-0'' ''x86_64'' [''read'', ''write'']]
        [stored_names ''db-0'' ''x86_64'' ''read''] = Some tbl
      \<and> syscalls_of tbl ''db-0'' = Some ''read,write'' \<and> syscalls_of tbl ''api-0'' = Some ''read'')"
proof -
  let ?tbl = "[stored_names ''db-0'' ''x86_64'' ''read'']"
  have blank: "trim ''db-0'' = ''db-0''" "trim ''api-0'' = ''api-0''" by code_simp+
  have ok: "distinct (map sy_pod_name ?tbl)" by simp
  have "\<not> batch_fits [posted_names ''api-0'' ''x86_64'' [''read''], posted_names ''db-0'' ''aarch64'' [''read'', ''write'']] ?tbl"
    "batch_fits [posted_names ''api-0'' ''x86_64'' [''read''], posted_names ''db-0'' ''x86_64'' [''read'', ''write'']] ?tbl"
    by (simp_all add: batch_fits_def fits_def same_place_def posted_names_def stored_names_def blank)
  then show ?thesis
    using syscall_batch_exact [OF ok, of "[posted_names ''api-0'' ''x86_64'' [''read''], posted_names ''db-0'' ''aarch64'' [''read'', ''write'']]"]
      syscall_batch_exact [OF ok, of "[posted_names ''api-0'' ''x86_64'' [''read''], posted_names ''db-0'' ''x86_64'' [''read'', ''write'']]"]
    by (auto simp: posted_names_def blank split: option.splits)
qed

section \<open>Pods\<close>

lemma details_lookup:
  assumes "add_pod_details True w db = (Answer w', db')" and "trim (dt_pod_name w) \<noteq> []"
    and "d \<in> set (tbl_details db')" and "dt_pod_name d = dt_pod_name w"
  shows "dt_pod_ip d = dt_pod_ip w \<and> dt_is_dead d = dt_is_dead w \<and> dt_node_name d = dt_node_name w"
proof -
  have db': "tbl_details db' = upsert_row dt_pod_name details_changeset (compact_row w) (tbl_details db)"
    using assms(1,2) by (auto simp: add_pod_details_def upsert_pod_details_def Let_def)
  have "d \<in> set (filter (\<lambda>x. dt_pod_name x = dt_pod_name (compact_row w)) (tbl_details db'))"
    using assms(3,4) by (simp add: compact_row_def)
  then have "d = compact_row w \<or> (\<exists>x. d = details_changeset (compact_row w) x)"
    unfolding db' details_upsert.lookup_same by (auto simp: Let_def split: if_splits)
  then show ?thesis by (auto simp: compact_row_def details_changeset_def)
qed

lemma mark_hits:
  assumes "trim pod = pod" and "pod \<noteq> []"
    and "ip = None \<or> (\<exists>a. ip = Some a \<and> trim a = a \<and> a \<noteq> [] \<and> (\<forall>d \<in> set (tbl_details db). dt_pod_name d = pod \<longrightarrow> dt_pod_ip d = a))"
  shows "pod \<notin> dt_pod_name ` set (pods_by_node coll node (snd (mark_pod_dead True pod ip db)))"
proof -
  have tbl: "tbl_details (snd (mark_pod_dead True pod ip db)) =
      map (\<lambda>d. if dt_pod_name d = pod then d\<lparr>dt_is_dead := True\<rparr> else d) (tbl_details db)"
    using assms(3)
  proof (elim disjE exE conjE)
    assume "ip = None"
    then show ?thesis using assms(1,2) by (simp add: mark_pod_dead_def mark_pod_as_dead_def normalise_empty_to_none_def)
  next
    fix a assume a: "ip = Some a" "trim a = a" "a \<noteq> []" "\<forall>d \<in> set (tbl_details db). dt_pod_name d = pod \<longrightarrow> dt_pod_ip d = a"
    have "tbl_details (snd (mark_pod_dead True pod ip db)) =
        map (\<lambda>d. if dt_pod_name d = pod \<and> dt_pod_ip d = a then d\<lparr>dt_is_dead := True\<rparr> else d) (tbl_details db)"
      using a(1-3) assms(1,2) by (simp add: mark_pod_dead_def mark_pod_as_dead_def normalise_empty_to_none_def)
    also have "\<dots> = map (\<lambda>d. if dt_pod_name d = pod then d\<lparr>dt_is_dead := True\<rparr> else d) (tbl_details db)"
      using a(4) by (intro map_cong) auto
    finally show ?thesis .
  qed
  have mark: "dt_pod_name (if dt_pod_name d = pod then d\<lparr>dt_is_dead := True\<rparr> else d) = pod \<longrightarrow>
      dt_is_dead (if dt_pod_name d = pod then d\<lparr>dt_is_dead := True\<rparr> else d)" for d
    by (cases "dt_pod_name d = pod") simp_all
  have "\<forall>d \<in> set (tbl_details (snd (mark_pod_dead True pod ip db))). dt_pod_name d = pod \<longrightarrow> dt_is_dead d"
    unfolding tbl set_map
  proof (intro ballI, elim imageE)
    fix d x
    assume "d = (if dt_pod_name x = pod then x\<lparr>dt_is_dead := True\<rparr> else x)"
    then show "dt_pod_name d = pod \<longrightarrow> dt_is_dead d" using mark [of x] by (simp only:)
  qed
  then show ?thesis unfolding pods_by_node_def set_sort by auto
qed

text \<open>
  A stale mark of death does no harm.  After a pod was recorded with a new address, a mark that names
  the pod and another address changes nothing, and the pod is still listed on its node; a mark that
  names the address, or none, makes the pod dead.
\<close>

theorem stale_mark_harmless:
  assumes "add_pod_details True w db = (Answer w', db')" and "trim (dt_pod_name w) = dt_pod_name w"
    and "dt_pod_name w \<noteq> []" and "\<not> dt_is_dead w" and "trim (dt_pod_ip w) = dt_pod_ip w" and "dt_pod_ip w \<noteq> []"
  shows "(trim ip \<noteq> [] \<and> trim ip \<noteq> dt_pod_ip w \<longrightarrow> mark_pod_dead True (dt_pod_name w) (Some ip) db' = (Answer 0, db')
      \<and> dt_pod_name w \<in> dt_pod_name ` set (pods_by_node coll (dt_node_name w) db'))
    \<and> dt_pod_name w \<notin> dt_pod_name ` set (pods_by_node coll node (snd (mark_pod_dead True (dt_pod_name w) (Some (dt_pod_ip w)) db')))
    \<and> dt_pod_name w \<notin> dt_pod_name ` set (pods_by_node coll node (snd (mark_pod_dead True (dt_pod_name w) None db')))"
proof (intro conjI impI)
  have name: "trim (dt_pod_name w) \<noteq> []" using assms(2,3) by simp
  note found = details_lookup [OF assms(1) name]
  have stored: "\<exists>d \<in> set (tbl_details db'). dt_pod_name d = dt_pod_name w"
  proof -
    have "tbl_details db' = upsert_row dt_pod_name details_changeset (compact_row w) (tbl_details db)"
      using assms(1) name by (auto simp: add_pod_details_def upsert_pod_details_def Let_def)
    then have "set (map dt_pod_name (tbl_details db')) =
        set (map dt_pod_name (tbl_details db) @ (if \<exists>d \<in> set (tbl_details db). dt_pod_name d = dt_pod_name w then [] else [dt_pod_name w]))"
      by (simp only: details_upsert.keys) (simp add: compact_row_def)
    then have "dt_pod_name w \<in> dt_pod_name ` set (tbl_details db')" by (auto split: if_splits intro: rev_image_eqI)
    then show ?thesis by auto
  qed
  show "dt_pod_name w \<in> dt_pod_name ` set (pods_by_node coll (dt_node_name w) db')"
    using stored found assms(4) by (auto simp: pods_by_node_def set_sort image_iff)
  show "mark_pod_dead True (dt_pod_name w) (Some ip) db' = (Answer 0, db')" if "trim ip \<noteq> [] \<and> trim ip \<noteq> dt_pod_ip w"
  proof -
    have "\<not> (dt_pod_name d = dt_pod_name w \<and> dt_pod_ip d = trim ip)" if "d \<in> set (tbl_details db')" for d
      using found [OF that] \<open>trim ip \<noteq> [] \<and> trim ip \<noteq> dt_pod_ip w\<close> by auto
    note other = this
    have "map (\<lambda>d. if dt_pod_name d = dt_pod_name w \<and> dt_pod_ip d = trim ip then d\<lparr>dt_is_dead := True\<rparr> else d) (tbl_details db') = tbl_details db'"
      using other by (intro map_idI) auto
    moreover have "filter (\<lambda>d. dt_pod_name d = dt_pod_name w \<and> dt_pod_ip d = trim ip) (tbl_details db') = []"
      using other by (simp add: filter_empty_conv)
    ultimately show ?thesis using that name
      by (simp add: mark_pod_dead_def mark_pod_as_dead_def assms(2) normalise_empty_to_none_def Let_def)
  qed
  show "dt_pod_name w \<notin> dt_pod_name ` set (pods_by_node coll node (snd (mark_pod_dead True (dt_pod_name w) (Some (dt_pod_ip w)) db')))"
    using found assms(5,6) by (intro mark_hits [OF assms(2,3)]) auto
  show "dt_pod_name w \<notin> dt_pod_name ` set (pods_by_node coll node (snd (mark_pod_dead True (dt_pod_name w) None db')))"
    by (intro mark_hits [OF assms(2,3)]) simp
qed

definition details_row :: "string \<Rightarrow> string \<Rightarrow> pod_details_row" where
  "details_row name ip = \<lparr>dt_pod_name = name, dt_pod_ip = ip, dt_pod_namespace = Some ''shop'', dt_pod_obj = None, dt_time_stamp = 0,
     dt_node_name = ''node-1'', dt_is_dead = False, dt_pod_identity = None, dt_workload_selector_labels = None\<rparr>"

lemma details_row_sel: "dt_pod_name (details_row n i) = n" "dt_pod_ip (details_row n i) = i" "\<not> dt_is_dead (details_row n i)"
  by (simp_all add: details_row_def)

theorem stale_mark_harmless_witness:
  "\<exists>w db. add_pod_details True (details_row ''web-0'' ''10.0.0.8'') (empty_database\<lparr>tbl_details := [details_row ''web-0'' ''10.0.0.4'']\<rparr>) = (Answer w, db)
    \<and> mark_pod_dead True ''web-0'' (Some ''10.0.0.4'') db = (Answer 0, db)"
proof -
  let ?db = "empty_database\<lparr>tbl_details := [details_row ''web-0'' ''10.0.0.4'']\<rparr>"
  have plain: "trim ''web-0'' = ''web-0''" "trim ''10.0.0.8'' = ''10.0.0.8''" "trim ''10.0.0.4'' = ''10.0.0.4''" by code_simp+
  obtain w db where add: "add_pod_details True (details_row ''web-0'' ''10.0.0.8'') ?db = (Answer w, db)"
    using plain by (auto simp: add_pod_details_def details_row_sel upsert_pod_details_def Let_def)
  have "mark_pod_dead True (dt_pod_name (details_row ''web-0'' ''10.0.0.8'')) (Some ''10.0.0.4'') db = (Answer 0, db)"
    using stale_mark_harmless [OF add, of "''10.0.0.4''"] plain by (simp add: details_row_sel)
  then show ?thesis using add by (auto simp: details_row_sel)
qed

section \<open>Where the pod records fall short\<close>

text \<open>A column without a value is not written: a pod that comes back without an identity keeps the old one.\<close>

lemma absent_identity_kept:
  assumes "add_pod_details True w db = (Answer w', db')" and "trim (dt_pod_name w) \<noteq> []"
    and "d \<in> set (tbl_details db)" and "dt_pod_name d = dt_pod_name w" and "dt_pod_identity w = None"
  shows "\<exists>d' \<in> set (tbl_details db'). dt_pod_name d' = dt_pod_name w \<and> dt_pod_identity d' = dt_pod_identity d"
proof -
  have "tbl_details db' = upsert_row dt_pod_name details_changeset (compact_row w) (tbl_details db)"
    using assms(1,2) by (auto simp: add_pod_details_def upsert_pod_details_def Let_def)
  then have "details_changeset (compact_row w) d \<in> set (tbl_details db')"
    using assms(3,4) by (auto simp: upsert_row_def compact_row_def intro!: rev_image_eqI [of d])
  then show ?thesis using assms(4,5)
    by (intro bexI [of _ "details_changeset (compact_row w) d"])
      (simp_all add: details_changeset_def compact_row_def set_some_def)
qed

text \<open>The lookup by address does not look at death: a dead pod's row can answer for the pod that has its address now.\<close>

lemma reused_address_finds_dead:
  "get_pod_by_ip True ''10.0.0.4'' (empty_database\<lparr>tbl_details :=
      [(details_row ''old-0'' ''10.0.0.4'')\<lparr>dt_is_dead := True\<rparr>, details_row ''new-0'' ''10.0.0.4'']\<rparr>) =
    Answer ((details_row ''old-0'' ''10.0.0.4'')\<lparr>dt_is_dead := True\<rparr>)"
  by (simp add: get_pod_by_ip_def answer_row_def pod_by_ip_def first_row_def details_row_def)

section \<open>Pruning\<close>

lemma verdict_pass:
  assumes "mono clock" and "distinct (map av_id tbl)"
  shows "\<exists>gone. snd (run_pass ok clock var n tbl) = filter (\<lambda>v. v \<notin> gone) tbl \<and>
    (\<forall>v \<in> gone. verdict_expired n (clock MAX_BATCHES_PER_PASS) v) \<and>
    ((\<forall>i. ok i) \<longrightarrow> length (filter (verdict_expired n (clock MAX_BATCHES_PER_PASS)) tbl) \<le>
        MAX_BATCHES_PER_PASS * nat (sint (retention_batch_size var)) \<longrightarrow>
      (\<forall>v \<in> set (snd (run_pass ok clock var n tbl)). \<not> verdict_expired n (clock 0) v))"
proof -
  have "\<forall>i j v. i \<le> j \<longrightarrow> verdict_expired n (clock i) v \<longrightarrow> verdict_expired n (clock j) v"
    using monoD [OF assms(1)] by (auto simp: verdict_expired_def intro: less_le_trans)
  from verdict_pruning.pass [where clock = clock and i = 0 and left = MAX_BATCHES_PER_PASS and sofar = 0 and ok = ok and var = var,
      OF this assms(2) prod.collapse [symmetric]]
  show ?thesis unfolding run_pass_def by auto
qed

lemma pod_pass:
  assumes "mono clock" and "distinct (map dt_pod_name tbl)"
  shows "\<exists>gone. snd (run_dead_pod_pass coll ok clock var n tbl) = filter (\<lambda>d. d \<notin> gone) tbl \<and>
    (\<forall>d \<in> gone. pod_expired n (clock MAX_BATCHES_PER_PASS) d) \<and>
    ((\<forall>i. ok i) \<longrightarrow> length (filter (pod_expired n (clock MAX_BATCHES_PER_PASS)) tbl) \<le>
        MAX_BATCHES_PER_PASS * nat (sint (retention_batch_size var)) \<longrightarrow>
      (\<forall>d \<in> set (snd (run_dead_pod_pass coll ok clock var n tbl)). \<not> pod_expired n (clock 0) d))"
proof -
  have "\<forall>i j d. i \<le> j \<longrightarrow> pod_expired n (clock i) d \<longrightarrow> pod_expired n (clock j) d"
    using monoD [OF assms(1)] by (auto simp: pod_expired_def intro: less_le_trans)
  from pod_pruning.pass [where clock = clock and i = 0 and left = MAX_BATCHES_PER_PASS and sofar = 0 and ok = ok and var = var
      and coll = coll, OF this assms(2) prod.collapse [symmetric]]
  show ?thesis unfolding run_dead_pod_pass_def by auto
qed

text \<open>
  C17: Pruning takes what is old and nothing else.  A turn of the background task deletes a pod only if it
  is marked dead and was last recorded before the window (the time of its death is not stored and does
  not count), and a verdict only if it is older than the window; it keeps the order of what it leaves.  When
  the database answers and no more rows are expired than 200 batches hold, no row that was expired at the
  start of its pass is left.
\<close>

theorem pruning_turn:
  assumes "tables_ok db" and "mono clock1" and "mono clock2"
    and "db' = retention_turn coll ok1 clock1 ok2 clock2 days_var batch_var db"
    and "cap = MAX_BATCHES_PER_PASS * nat (sint (retention_batch_size batch_var))"
  shows "(\<exists>gone. tbl_verdicts db' = filter (\<lambda>v. v \<notin> gone) (tbl_verdicts db)
        \<and> (\<forall>v \<in> gone. 0 < retention_days days_var \<and> av_observed_at v + days (retention_days days_var) < clock1 MAX_BATCHES_PER_PASS))
    \<and> (\<exists>gone. tbl_details db' = filter (\<lambda>d. d \<notin> gone) (tbl_details db)
        \<and> (\<forall>d \<in> gone. dt_is_dead d \<and>
          dt_time_stamp d + days (dead_pod_retention_window (retention_days days_var)) < clock2 MAX_BATCHES_PER_PASS))
    \<and> (0 < retention_days days_var \<longrightarrow> (\<forall>i. ok1 i) \<longrightarrow>
        length (filter (verdict_expired (retention_days days_var) (clock1 MAX_BATCHES_PER_PASS)) (tbl_verdicts db)) \<le> cap \<longrightarrow>
        (\<forall>v \<in> set (tbl_verdicts db'). \<not> verdict_expired (retention_days days_var) (clock1 0) v))
    \<and> ((\<forall>i. ok2 i) \<longrightarrow>
        length (filter (pod_expired (dead_pod_retention_window (retention_days days_var)) (clock2 MAX_BATCHES_PER_PASS)) (tbl_details db)) \<le> cap \<longrightarrow>
        (\<forall>d \<in> set (tbl_details db'). \<not> pod_expired (dead_pod_retention_window (retention_days days_var)) (clock2 0) d))"
proof -
  let ?n = "retention_days days_var" and ?m = "dead_pod_retention_window (retention_days days_var)"
  have keys: "distinct (map av_id (tbl_verdicts db))" "distinct (map dt_pod_name (tbl_details db))"
    using assms(1) by (simp_all add: tables_ok_def)
  note V = verdict_pass [OF assms(2) keys(1), of ok1 batch_var ?n] and D = pod_pass [OF assms(3) keys(2), of coll ok2 batch_var ?m]
  have details: "tbl_details db' = snd (run_dead_pod_pass coll ok2 clock2 batch_var ?m (tbl_details db))"
    by (simp add: assms(4) retention_turn_def Let_def)
  have verdicts: "tbl_verdicts db' = (if 0 < ?n then snd (run_pass ok1 clock1 batch_var ?n (tbl_verdicts db)) else tbl_verdicts db)"
    by (simp add: assms(4) retention_turn_def Let_def)
  have "\<exists>gone. tbl_verdicts db' = filter (\<lambda>v. v \<notin> gone) (tbl_verdicts db) \<and>
      (\<forall>v \<in> gone. 0 < ?n \<and> av_observed_at v + days ?n < clock1 MAX_BATCHES_PER_PASS)"
  proof (cases "0 < ?n")
    case True
    then show ?thesis using V unfolding verdicts verdict_expired_def by auto
  next
    case False
    then show ?thesis unfolding verdicts by (intro exI [of _ "{}"]) simp
  qed
  moreover have "\<exists>gone. tbl_details db' = filter (\<lambda>d. d \<notin> gone) (tbl_details db) \<and>
      (\<forall>d \<in> gone. dt_is_dead d \<and> dt_time_stamp d + days ?m < clock2 MAX_BATCHES_PER_PASS)"
    using D unfolding details pod_expired_def by blast
  moreover have "0 < ?n \<Longrightarrow> tbl_verdicts db' = snd (run_pass ok1 clock1 batch_var ?n (tbl_verdicts db))" by (simp add: verdicts)
  ultimately show ?thesis using V D unfolding assms(5) by (simp add: details) blast
qed

definition churned :: database where
  "churned = empty_database\<lparr>tbl_details := [details_row ''web-0'' ''10.0.0.4'', (details_row ''job-1'' ''10.0.0.5'')\<lparr>dt_is_dead := True\<rparr>]\<rparr>"

theorem pruning_turn_witness:
  "\<exists>db'. db' = retention_turn (<) (\<lambda>_. True) (\<lambda>_. days 8) (\<lambda>_. True) (\<lambda>_. days 8) (Some ''0'') None churned
    \<and> tbl_details db' = [details_row ''web-0'' ''10.0.0.4'']"
proof -
  let ?db' = "retention_turn (<) (\<lambda>_. True) (\<lambda>_. days 8) (\<lambda>_. True) (\<lambda>_. days 8) (Some ''0'') None churned"
  have "trim ''0'' = ''0''" by code_simp
  moreover have "parse_unsigned 32 ''0'' = Some 0" by (simp add: parse_unsigned_def dec_val_def)
  ultimately have zero: "retention_days (Some ''0'') = 0" by (simp add: retention_days_def)
  have details: "tbl_details churned = [details_row ''web-0'' ''10.0.0.4'', (details_row ''job-1'' ''10.0.0.5'')\<lparr>dt_is_dead := True\<rparr>]"
    and others: "tbl_traffic churned = []" "tbl_svcs churned = []" "tbl_syscalls churned = []" "tbl_verdicts churned = []"
    by (simp_all add: churned_def empty_database_def)
  have "trim ''web-0'' = ''web-0''" "trim ''job-1'' = ''job-1''" by code_simp+
  then have ok: "tables_ok churned" by (simp add: tables_ok_def details others details_ok_def) (simp add: details_row_def)
  have expired: "pod_expired 7 (days 8) ((details_row ''job-1'' ''10.0.0.5'')\<lparr>dt_is_dead := True\<rparr>)"
    "\<not> pod_expired 7 (days 8) (details_row ''web-0'' ''10.0.0.4'')"
    by (simp_all add: pod_expired_def details_row_def days_def)
  have mono: "mono (\<lambda>_::nat. days 8)" by (simp add: mono_def)
  have window: "dead_pod_retention_window 0 = 7" by (simp add: dead_pod_retention_window_def DEFAULT_DEAD_POD_RETENTION_DAYS_def)
  note turn = pruning_turn [OF ok mono mono refl refl, of "(<)" "\<lambda>_. True" "\<lambda>_. True" "Some ''0''" None, unfolded zero window]
  from turn [THEN conjunct2, THEN conjunct1] obtain gone where gone: "tbl_details ?db' = filter (\<lambda>d. d \<notin> gone) (tbl_details churned)"
    "\<forall>d \<in> gone. dt_is_dead d" by blast
  have "length (filter (pod_expired 7 (days 8)) (tbl_details churned)) \<le> MAX_BATCHES_PER_PASS * nat (sint (retention_batch_size None))"
    by (simp add: details expired MAX_BATCHES_PER_PASS_def retention_batch_size_def DEFAULT_BATCH_SIZE_def)
  then have "\<forall>d \<in> set (tbl_details ?db'). \<not> pod_expired 7 (days 8) d"
    using turn [THEN conjunct2, THEN conjunct2, THEN conjunct2] by simp
  then show ?thesis using gone expired details_row_sel(3) by (auto simp: details split: if_splits)
qed

text \<open>A pod recorded eight days ago that is marked dead right before a turn is gone after it.\<close>

lemma just_died_pruned:
  "tbl_details (retention_turn (<) (\<lambda>_. True) (\<lambda>_. days 8) (\<lambda>_. True) (\<lambda>_. days 8) (Some ''0'') None
     (snd (mark_pod_dead True ''web-0'' None (empty_database\<lparr>tbl_details := [details_row ''web-0'' ''10.0.0.4'']\<rparr>)))) = []"
proof -
  let ?dead = "(details_row ''web-0'' ''10.0.0.4'')\<lparr>dt_is_dead := True\<rparr>"
  have trims: "trim ''0'' = ''0''" "trim ''web-0'' = ''web-0''" by code_simp+
  have zero: "retention_days (Some ''0'') = 0" by (simp add: retention_days_def trims parse_unsigned_def dec_val_def)
  have window: "dead_pod_retention_window 0 = 7" by (simp add: dead_pod_retention_window_def DEFAULT_DEAD_POD_RETENTION_DAYS_def)
  have marked: "tbl_details (snd (mark_pod_dead True ''web-0'' None (empty_database\<lparr>tbl_details := [details_row ''web-0'' ''10.0.0.4'']\<rparr>))) = [?dead]"
    by (simp add: mark_pod_dead_def mark_pod_as_dead_def trims normalise_empty_to_none_def details_row_def Let_def)
  have expired: "pod_expired 7 (days 8) ?dead" by (simp add: pod_expired_def details_row_def days_def)
  have "mono (\<lambda>_::nat. days 8)" by (simp add: mono_def)
  from pod_pass [OF this, of "[?dead]" "(<)" "\<lambda>_. True" None 7] obtain gone
    where "snd (run_dead_pod_pass (<) (\<lambda>_. True) (\<lambda>_. days 8) None 7 [?dead]) = filter (\<lambda>d. d \<notin> gone) [?dead]"
      and "\<forall>d \<in> set (filter (\<lambda>d. d \<notin> gone) [?dead]). \<not> pod_expired 7 (days 8) d"
    by (auto simp: expired MAX_BATCHES_PER_PASS_def retention_batch_size_def DEFAULT_BATCH_SIZE_def)
  then show ?thesis using expired by (auto simp: retention_turn_def zero window marked split: if_splits)
qed

section \<open>The audit queue\<close>

text \<open>
  C36: The audit queue keeps its accounts.  In every run, whatever the order of offers, permits and workers,
  no more flows wait than the capacity and no more are evaluated at once than there are permits; every
  flow offered was dropped, waits, or was handed to a worker, in the order of the offers; and unless
  nothing waits or runs the queue can move on its own.
\<close>

theorem audit_queue_accounts:
  assumes "audit_run (queue_start (audit_queue_capacity cap_var) (audit_inflight_permits permit_var)) acts q"
  shows "length (q_chan q) \<le> audit_queue_capacity cap_var \<and> length (q_running q) \<le> audit_inflight_permits permit_var
    \<and> subseq (received acts @ q_chan q) (offered acts)
    \<and> length (offered acts) = length (received acts) + length (q_chan q) + q_dropped q
    \<and> mset (received acts) = mset (finished acts) + mset (q_running q)
    \<and> (q_chan q \<noteq> [] \<or> q_running q \<noteq> [] \<longrightarrow> (\<exists>a q'. (\<forall>t. a \<noteq> Offer t) \<and> audit_step q a q'))"
proof -
  note run = queue_run [OF assms refl]
  then have ok: "queue_ok (audit_queue_capacity cap_var) (audit_inflight_permits permit_var) q" by blast
  show ?thesis using run queue_can_move [OF ok permits_positive] by (auto simp: queue_ok_def queue_accounts_def)
qed

theorem audit_queue_accounts_witness:
  "\<exists>q. audit_run (queue_start (audit_queue_capacity (Some ''1'')) (audit_inflight_permits None)) [Offer ''a'', Offer ''b''] q
    \<and> q_chan q = [''a''] \<and> q_dropped q = 1 \<and> (\<exists>x q'. (\<forall>t. x \<noteq> Offer t) \<and> audit_step q x q')"
proof -
  have "trim ''1'' = ''1''" by code_simp
  moreover have "parse_unsigned 64 ''1'' = Some 1" by (simp add: parse_unsigned_def dec_val_def)
  ultimately have cap: "audit_queue_capacity (Some ''1'') = 1" by (simp add: audit_queue_capacity_def env_at_least_def)
  let ?start = "queue_start (audit_queue_capacity (Some ''1'')) (audit_inflight_permits None) :: string audit_queue"
  let ?q = "try_enqueue ''b'' (try_enqueue ''a'' ?start)"
  have "audit_run ?start ([] @ [Offer ''a'']) (try_enqueue ''a'' ?start)" by (rule audit_run.Step) (rule audit_run.Start, rule audit_step.Offer)
  then have "audit_run ?start (([] @ [Offer ''a'']) @ [Offer ''b'']) ?q" by (rule audit_run.Step) (rule audit_step.Offer)
  then have run: "audit_run ?start [Offer ''a'', Offer ''b''] ?q" by simp
  have q: "q_chan ?q = [''a'']" "q_dropped ?q = 1" by (simp_all add: try_enqueue_def queue_start_def cap)
  then have "\<exists>x q'. (\<forall>t. x \<noteq> Offer t) \<and> audit_step ?q x q'" using audit_queue_accounts [OF run] by simp
  then show ?thesis using run q by blast
qed

section \<open>Queries\<close>

text \<open>
  The cluster-wide traffic query answers with a window: between 1 and 20000 rows are asked for, and the
  answer has that many or the whole table, newest first; no row left out is newer than one returned.
\<close>

theorem traffic_window:
  assumes "collation coll" and "get_pod_traffic coll True limit db = Answer rows"
  shows "length rows = min (nat (sint (clamp_pod_traffic_limit limit))) (length (tbl_traffic db)) \<and> length rows \<le> 20000
    \<and> (tbl_traffic db \<noteq> [] \<longrightarrow> rows \<noteq> [])
    \<and> sorted_wrt (\<lambda>a b. \<not> newer coll b a) rows
    \<and> (\<exists>rest. mset (tbl_traffic db) = mset rows + rest \<and> (\<forall>x \<in># rest. \<forall>y \<in> set rows. \<not> newer coll x y))"
proof -
  let ?n = "nat (sint (clamp_pod_traffic_limit limit))"
  have n: "1 \<le> ?n" "?n \<le> 20000" using clamp_pod_traffic_limit_bounds [of limit] by simp_all
  have "take ?n (sort_slice (newer coll) (tbl_traffic db)) = rows"
    using assms(2) by (simp add: get_pod_traffic_def answer_rows_def pod_traffic_rows_def)
  note w = strict_order.window [OF collation.newer_order [OF assms(1)] this]
  show ?thesis
  proof (intro conjI impI)
    show "length rows = min ?n (length (tbl_traffic db))" "length rows \<le> 20000" using w(1) n by simp_all
    have "0 < length rows" if "tbl_traffic db \<noteq> []"
      unfolding w(1) using n(1) that by (cases "tbl_traffic db") (auto simp del: zero_less_nat_eq)
    then show "rows \<noteq> []" if "tbl_traffic db \<noteq> []" using that by auto
  qed (rule w(2), rule w(3))
qed

definition timed_row :: "string \<Rightarrow> nat \<Rightarrow> traffic_row" where
  "timed_row uuid t = \<lparr>tf_uuid = uuid, tf_pod_name = Some ''web-0'', tf_pod_namespace = None, tf_pod_ip = None, tf_pod_port = None,
     tf_ip_protocol = None, tf_traffic_type = None, tf_traffic_in_out_ip = None, tf_traffic_in_out_port = None, tf_decision = None,
     tf_time_stamp = t\<rparr>"

theorem traffic_window_witness:
  "\<exists>rows. get_pod_traffic (<) True (Some (- 3)) (empty_database\<lparr>tbl_traffic := [timed_row ''a'' 1, timed_row ''b'' 2]\<rparr>) = Answer rows
    \<and> length rows = 1 \<and> rows = [timed_row ''b'' 2]"
proof -
  let ?db = "empty_database\<lparr>tbl_traffic := [timed_row ''a'' 1, timed_row ''b'' 2]\<rparr>"
  have n: "clamp_pod_traffic_limit (Some (- 3)) = 1" by (simp add: clamp_pod_traffic_limit_def clamp_i64_def)
  have get: "get_pod_traffic (<) True (Some (- 3)) ?db = Answer [timed_row ''b'' 2]"
    by (simp add: get_pod_traffic_def answer_rows_def pod_traffic_rows_def n sort_slice_def newer_def timed_row_def)
  have "length [timed_row ''b'' 2] = min (nat (sint (clamp_pod_traffic_limit (Some (- 3))))) (length (tbl_traffic ?db))"
    using traffic_window [OF collation_C.collation_axioms get] by blast
  then show ?thesis using get by auto
qed

section \<open>The bearer token\<close>

lemma bearer_ok_iff: "bearer_ok req e \<longleftrightarrow> (\<exists>t. hr_authorization req = Some (''Bearer '' @ t) \<and> list_all visible_ascii t \<and> trim t = e)"
proof -
  have visible: "header_to_str h = Some x \<longleftrightarrow> h = x \<and> list_all visible_ascii x" for h x
    by (auto simp: header_to_str_def)
  have prefix: "list_all visible_ascii (''Bearer '' @ t) = list_all visible_ascii t" for t
    by (simp add: visible_ascii_def)
  have "(case x of None \<Rightarrow> False | Some t \<Rightarrow> P t) \<longleftrightarrow> (\<exists>t. x = Some t \<and> P t)" for x :: "string option" and P
    by (cases x) simp_all
  then have "bearer_ok req e \<longleftrightarrow> (\<exists>t. Option.bind (Option.bind (hr_authorization req) header_to_str) (strip_prefix ''Bearer '') = Some t \<and> trim t = e)"
    unfolding bearer_ok_def ct_eq_iff by (simp only:)
  then show ?thesis unfolding bind_eq_Some_conv strip_prefix_Some visible using prefix by blast
qed

text \<open>
  The access check is exact.  With a token configured, a request is passed on exactly when it is a
  preflight or for one of the two open paths, or its \<^verbatim>\<open>Authorization\<close> header is
  \<^verbatim>\<open>Bearer\<close> followed by the token, up to white space around either, and visible ASCII alone; without one
  every request is.
\<close>

theorem bearer_check_exact:
  "require_bearer (auth_token var) req \<longleftrightarrow>
    (case var of None \<Rightarrow> True | Some v \<Rightarrow> trim v = []) \<or>
    hr_method req = ''OPTIONS'' \<or> hr_path req = ''/health'' \<or> hr_path req = ''/metrics'' \<or>
    (\<exists>t. hr_authorization req = Some (''Bearer '' @ t) \<and> list_all visible_ascii t \<and> Some (trim t) = map_option trim var)"
  by (cases var) (auto simp: bearer_ok_iff require_bearer_def auth_token_def is_exempt_def simp del: append_Cons)

end
