(* ===== verification/Text_Split.thy ===== *)
theory Text_Split
  imports Broker_Ingest
begin

text \<open>
  Text as the clients of the broker take it apart: splitting at a separator, in Go and in Rust, the
  letters of \<^verbatim>\<open>to_ascii_lowercase\<close>, and the laws of trimming.
\<close>

section \<open>Splitting\<close>

text \<open>\<^verbatim>\<open>strings.Split\<close> and \<^verbatim>\<open>str::split\<close> with a separator of one character.\<close>

fun split_at :: "char \<Rightarrow> string \<Rightarrow> string list" where
  "split_at c [] = [[]]"
| "split_at c (x # xs) =
     (let rest = split_at c xs in if x = c then [] # rest else (x # hd rest) # tl rest)"

lemma split_at_not_Nil [simp]: "split_at c s \<noteq> []"
  by (cases s) (simp_all add: Let_def)

lemma split_at_plain: "c \<notin> set s \<Longrightarrow> split_at c s = [s]"
  by (induction s) (auto simp: Let_def)

lemma split_at_append: "c \<notin> set s \<Longrightarrow> split_at c (s @ c # t) = s # split_at c t"
  by (induction s) (auto simp: Let_def)

lemma split_join: "xs \<noteq> [] \<Longrightarrow> \<forall>x \<in> set xs. c \<notin> set x \<Longrightarrow> split_at c (join_with [c] xs) = xs"
  by (induction "[c]" xs rule: join_with.induct) (simp_all add: split_at_plain split_at_append)

section \<open>Letters\<close>

definition to_ascii_lowercase :: "string \<Rightarrow> string" where
  "to_ascii_lowercase s = map (\<lambda>c. if 65 \<le> (of_char c :: nat) \<and> (of_char c :: nat) \<le> 90 then char_of (of_char c + (32 :: nat)) else c) s"

definition is_alnum :: "char \<Rightarrow> bool" where
  "is_alnum c = (let n = (of_char c :: nat) in 48 \<le> n \<and> n \<le> 57 \<or> 65 \<le> n \<and> n \<le> 90 \<or> 97 \<le> n \<and> n \<le> 122)"

section \<open>Trimming\<close>

lemma ws_front_take: "ws_front (take n s) \<noteq> 0 \<Longrightarrow> ws_front s \<noteq> 0"
  by (auto simp: ws_front_def split: if_splits)

lemma ws_front_trim_start: "ws_front (trim_start s) = 0"
proof (induction s rule: trim_start.induct)
  case (1 s)
  then show ?case by (cases "ws_front s = 0") (simp_all add: trim_start.simps [of s])
qed

lemma ws_back_trim_end: "ws_back (trim_end s) = 0"
proof (induction s rule: trim_end.induct)
  case (1 s)
  then show ?case by (cases "ws_back s = 0") (simp_all add: trim_end.simps [of s])
qed

lemma trim_end_prefix: "\<exists>n. trim_end s = take n s"
proof (induction s rule: trim_end.induct)
  case (1 s)
  show ?case
  proof (cases "ws_back s = 0")
    case True
    then show ?thesis by (intro exI [of _ "length s"]) (simp add: trim_end.simps [of s])
  next
    case False
    then show ?thesis using 1 by (auto simp: trim_end.simps [of s] intro: exI)
  qed
qed

lemma trim_trim [simp]: "trim (trim s) = trim s"
proof -
  obtain n where n: "trim s = take n (trim_start s)" using trim_end_prefix by (auto simp: trim_def)
  then have "ws_front (trim s) = 0" using ws_front_take [of n "trim_start s"] ws_front_trim_start [of s] by auto
  moreover have "ws_back (trim s) = 0" by (simp add: trim_def ws_back_trim_end)
  ultimately show ?thesis by (simp add: trim_plain)
qed

text \<open>Blanks around a word of visible ASCII characters.\<close>

definition blank_char :: "char \<Rightarrow> bool" where
  "blank_char c = ws1 (of_char c)"

definition visible :: "char \<Rightarrow> bool" where
  "visible c = (let n = (of_char c :: nat) in 33 \<le> n \<and> n \<le> 126)"

lemma trim_start_blank: "\<forall>c \<in> set p. blank_char c \<Longrightarrow> trim_start (p @ s) = trim_start s"
proof (induction p)
  case (Cons c p)
  then have "ws_front (c # p @ s) = 1" by (simp add: ws_front_def blank_char_def)
  then show ?case using Cons by (simp add: trim_start.simps [of "c # p @ s"])
qed simp

lemma trim_end_blank: "\<forall>c \<in> set q. blank_char c \<Longrightarrow> trim_end (s @ q) = trim_end s"
proof (induction q rule: rev_induct)
  case (snoc c q)
  then have "ws_back (s @ q @ [c]) = 1" by (simp add: ws_back_def ws_front_def blank_char_def)
  then show ?case using snoc by (simp add: trim_end.simps [of "s @ q @ [c]"])
qed simp

lemma visible_front: "visible c \<Longrightarrow> ws_front (c # s) = 0"
  by (auto simp: ws_front_def visible_def Let_def ws1_def ws2_def ws3_def)

lemma visible_back: assumes "visible c" shows "ws_back (s @ [c]) = 0"
proof -
  let ?u = "s @ [c]"
  have one: "ws_front (drop (length ?u - 1) ?u) = 0" using visible_front [OF assms, of "[]"] by simp
  have last: "drop (length ?u - k) ?u = drop (length s - (k - 1)) s @ [c]" if "1 \<le> k" "k \<le> length ?u" for k
    using that by (simp add: Suc_diff_le)
  have two: "ws_front (drop (length ?u - 2) ?u) \<noteq> 2" if "2 \<le> length ?u"
    using assms that last [of 2] by (auto simp: ws_front_def ws2_def visible_def Let_def nth_append)
  have three: "ws_front (drop (length ?u - 3) ?u) \<noteq> 3" if "3 \<le> length ?u"
    using assms that last [of 3] by (auto simp: ws_front_def ws3_def visible_def Let_def nth_append)
  show ?thesis using one two three unfolding ws_back_def by auto
qed

lemma trim_padded:
  assumes "s \<noteq> []" and "\<forall>c \<in> set s. visible c" and "\<forall>c \<in> set p. blank_char c" and "\<forall>c \<in> set q. blank_char c"
  shows "trim (p @ s @ q) = s"
proof -
  obtain c t where ct: "s = c # t" using assms(1) by (cases s) auto
  obtain u d where ud: "s = u @ [d]" using assms(1) by (cases s rule: rev_cases) auto
  have "trim_start (p @ s @ q) = s @ q"
    using trim_start_blank [OF assms(3)] visible_front [of c "t @ q"] assms(2) ct by (simp add: trim_start.simps [of "c # t @ q"])
  moreover have "trim_end (s @ q) = s"
    using trim_end_blank [OF assms(4), of s] visible_back [of d u] assms(2) trim_end.simps [of s] unfolding ud by simp
  ultimately show ?thesis by (simp add: trim_def)
qed

end
