(* ===== verification/Advisor_Seccomp.thy ===== *)
theory Advisor_Seccomp
  imports Text_Split
begin

text \<open>
  Seccomp profiles, \<^verbatim>\<open>seccomp.go\<close> in \<^verbatim>\<open>src/advisor/pkg/k8s\<close> and \<^verbatim>\<open>pod_syscall.go\<close> in \<^verbatim>\<open>src/advisor/pkg/api\<close>:
  what the advisor makes of a pod's stored system calls.  The broker's answer, the rendering as JSON
  and the file system are parameters.
\<close>

section \<open>A pod's system calls\<close>

record PodSysCall =
  sc_Syscalls :: "string list"
  sc_Arch :: string

record PodSysCallResponse =
  scr_PodName :: string
  scr_PodNamespace :: string
  scr_Syscalls :: string
  scr_Arch :: string

text \<open>\<open>fetch\<close> is the broker's answer: an error, a status that is not 200 included, or the decoded rows.\<close>

definition GetPodSysCall :: "(string \<Rightarrow> string + PodSysCallResponse list) \<Rightarrow> string \<Rightarrow> string + PodSysCall" where
  "GetPodSysCall fetch podName = (case fetch podName of
     Inl err \<Rightarrow> Inl err
   | Inr [] \<Rightarrow> Inl ''GetPodSysCall: No pod syscall found in database''
   | Inr (r # _) \<Rightarrow> Inr \<lparr>sc_Syscalls = split_at CHR '','' (scr_Syscalls r), sc_Arch = scr_Arch r\<rparr>)"

section \<open>Profiles\<close>

record Rule =
  ru_Names :: "string list"
  ru_Action :: string

record SeccompProfile =
  sp_DefaultAction :: string
  sp_Architectures :: "string list"
  sp_Syscalls :: "Rule list"

record ProfileOptions =
  po_OutputDir :: string
  po_DefaultAction :: string
  po_Architectures :: "string list"

definition ValidSeccompActions :: "string list" where
  "ValidSeccompActions = [''SCMP_ACT_ERRNO'', ''SCMP_ACT_KILL'', ''SCMP_ACT_LOG'']"

definition SeccompArchitectures :: "string \<Rightarrow> string list option" where
  "SeccompArchitectures = [''x86_64'' \<mapsto> [''SCMP_ARCH_X86_64''], ''aarch64'' \<mapsto> [''SCMP_ARCH_ARM64'']]"

text \<open>A missing key of the map is a nil slice.\<close>

definition BuildSeccompProfile :: "string list \<Rightarrow> string \<Rightarrow> string \<Rightarrow> SeccompProfile" where
  "BuildSeccompProfile syscalls arch defaultAction =
     (let defaultAction = (if defaultAction = [] then ''SCMP_ACT_ERRNO'' else defaultAction)
      in \<lparr>sp_DefaultAction = defaultAction,
          sp_Architectures = (case SeccompArchitectures arch of None \<Rightarrow> [] | Some a \<Rightarrow> a),
          sp_Syscalls = [\<lparr>ru_Names = syscalls, ru_Action = ''SCMP_ACT_ALLOW''\<rparr>]\<rparr>)"

text \<open>\<open>config_dir\<close> is the directory of the configuration, if there is one; the text of the error is left out.\<close>

definition NewProfileOptions :: "string option \<Rightarrow> string \<Rightarrow> ProfileOptions option" where
  "NewProfileOptions config_dir defaultAction =
     (if defaultAction \<notin> set ValidSeccompActions then None
      else let outputDir = (case config_dir of None \<Rightarrow> ''seccomp-profiles'' | Some d \<Rightarrow> if d \<noteq> [] then d else ''seccomp-profiles'')
           in Some \<lparr>po_OutputDir = outputDir, po_DefaultAction = defaultAction, po_Architectures = []\<rparr>)"

definition ValidateProfile :: "SeccompProfile \<Rightarrow> string option" where
  "ValidateProfile profile =
     (if sp_DefaultAction profile = [] then Some ''default action is required''
      else if length (sp_Architectures profile) = 0 then Some ''at least one architecture must be specified''
      else if length (sp_Syscalls profile) = 0 then Some ''at least one syscall rule must be specified''
      else None)"

text \<open>The keys of a Go map in the order \<open>walk\<close> in which it is iterated over.\<close>

definition MergeSyscalls :: "(string set \<Rightarrow> string list) \<Rightarrow> string list list \<Rightarrow> string list" where
  "MergeSyscalls walk syscallLists = walk (foldl (\<lambda>m l. foldl (\<lambda>m s. insert s m) m l) {} syscallLists)"

text \<open>
  The loop over the pods, on the files of the output directory by their names.  \<open>marshal\<close> and \<open>write_ok\<close> are the outcomes of
  rendering and of writing; a pod without data or whose file cannot be written is passed over.
\<close>

type_synonym files = "string \<rightharpoonup> bytes"

definition profile_file :: "string \<Rightarrow> string" where
  "profile_file podName = podName @ ''-seccomp.json''"

fun profile_loop :: "(string \<Rightarrow> string + PodSysCallResponse list) \<Rightarrow> (SeccompProfile \<Rightarrow> bytes option) \<Rightarrow> (string \<Rightarrow> bool)
    \<Rightarrow> ProfileOptions \<Rightarrow> string list \<Rightarrow> files \<Rightarrow> files" where
  "profile_loop fetch marshal write_ok opts [] fs = fs"
| "profile_loop fetch marshal write_ok opts (pod # pods) fs =
     (case GetPodSysCall fetch pod of
        Inl err \<Rightarrow> profile_loop fetch marshal write_ok opts pods fs
      | Inr calls \<Rightarrow>
          (case marshal (BuildSeccompProfile (sc_Syscalls calls) (sc_Arch calls) (po_DefaultAction opts)) of
             None \<Rightarrow> profile_loop fetch marshal write_ok opts pods fs
           | Some text \<Rightarrow>
               (let filename = profile_file pod
                in if write_ok filename then profile_loop fetch marshal write_ok opts pods (fs(filename \<mapsto> text))
                   else profile_loop fetch marshal write_ok opts pods fs)))"

text \<open>\<open>None\<close> is the exit of the program when the directory cannot be made.\<close>

definition GenerateSeccompProfile :: "(string \<Rightarrow> string + PodSysCallResponse list) \<Rightarrow> (SeccompProfile \<Rightarrow> bytes option)
    \<Rightarrow> bool \<Rightarrow> (string \<Rightarrow> bool) \<Rightarrow> ProfileOptions \<Rightarrow> string list \<Rightarrow> files \<Rightarrow> files option" where
  "GenerateSeccompProfile fetch marshal mkdir_ok write_ok profileOpts pods fs =
     (let opts = (if po_OutputDir profileOpts = [] then profileOpts\<lparr>po_OutputDir := ''seccomp-profiles''\<rparr> else profileOpts);
          opts = (if po_DefaultAction opts = [] then opts\<lparr>po_DefaultAction := ''SCMP_ACT_ERRNO''\<rparr> else opts)
      in if \<not> mkdir_ok then None else Some (profile_loop fetch marshal write_ok opts pods fs))"

section \<open>Laws\<close>

lemma MergeSyscalls_set:
  assumes "\<And>A. finite A \<Longrightarrow> set (walk A) = A" shows "set (MergeSyscalls walk ls) = \<Union> (set ` set ls)"
proof -
  have inner: "foldl (\<lambda>m s. insert s m) m l = m \<union> set l" for m and l :: "string list" by (induction l arbitrary: m) auto
  have "foldl (\<lambda>m l. foldl (\<lambda>m s. insert s m) m l) m ls = m \<union> \<Union> (set ` set ls)" for m
    by (induction ls arbitrary: m) (auto simp: inner)
  then show ?thesis using assms [of "\<Union> (set ` set ls)"] by (simp add: MergeSyscalls_def)
qed

end
