(* ===== verification/Seccomp_Props.thy ===== *)
theory Seccomp_Props
  imports Broker_State_Props Advisor_Seccomp
begin

text \<open>
  The way of a pod's system calls from the controller's post through the broker's table into the
  advisor's profile.
\<close>

text \<open>What the advisor gets from the broker of the model.\<close>

definition response_of :: "pod_syscalls_row \<Rightarrow> PodSysCallResponse" where
  "response_of r = \<lparr>scr_PodName = sy_pod_name r, scr_PodNamespace = sy_pod_namespace r, scr_Syscalls = sy_syscalls r, scr_Arch = sy_arch r\<rparr>"

definition fetch_syscalls :: "bool \<Rightarrow> database \<Rightarrow> string \<Rightarrow> string + PodSysCallResponse list" where
  "fetch_syscalls ok db name = (case get_pod_syscall_name ok name db of
     Answer rows \<Rightarrow> Inr (map response_of rows)
   | _ \<Rightarrow> Inl ''GetPodSysCall: received non-OK HTTP status code'')"

lemma store_all_fits:
  "distinct (map sy_pod_name tbl) \<Longrightarrow> store_all_syscalls w tbl = Some tbl' \<Longrightarrow>
    distinct (map sy_pod_name tbl') \<and> (\<forall>f. fits tbl' f \<longleftrightarrow> fits tbl f \<and> (\<forall>e \<in> set (named w). same_place e f))"
proof (induction w arbitrary: tbl)
  case (Cons e w)
  then obtain t where t: "store_syscalls e tbl = Some t" "store_all_syscalls w t = Some tbl'"
    by (auto simp: bind_eq_Some_conv)
  show ?case
  proof (cases "trim (in_pod_name e) = []")
    case True
    then have "t = tbl" using t(1) by (simp add: store_syscalls_skip)
    then show ?thesis using Cons.IH [OF Cons.prems(1)] t(2) True by simp
  next
    case blank: False
    then have "fits tbl e" using t(1) Cons.prems(1) store_syscalls_conflict by fastforce
    from store_syscalls_fits [OF Cons.prems(1) blank this] t(1)
    have "distinct (map sy_pod_name t)" "\<And>f. fits t f \<longleftrightarrow> fits tbl f \<and> same_place e f" by (metis option.inject)+
    then show ?thesis using Cons.IH [OF _ t(2)] blank by auto
  qed
qed simp

lemma syscalls_row:
  assumes "distinct (map sy_pod_name tbl)" and "syscalls_of tbl name = Some s" and "tbl_syscalls db = tbl"
  obtains r where "pod_syscalls_by_name name db = [r]" and "sy_pod_name r = name" and "sy_syscalls r = s" and "r \<in> set tbl"
proof -
  have "\<exists>r. filter (\<lambda>r. sy_pod_name r = name) tbl = [r] \<and> sy_pod_name r = name \<and> sy_syscalls r = s \<and> r \<in> set tbl"
    using assms(1,2)
  proof (induction tbl)
    case (Cons a tbl)
    show ?case
    proof (cases "sy_pod_name a = name")
      case True
      then have "filter (\<lambda>r. sy_pod_name r = name) tbl = []" using Cons.prems(1) by (simp add: filter_empty_conv image_iff) metis
      then show ?thesis using True Cons.prems(2) by (simp add: syscalls_of_def)
    next
      case False
      then show ?thesis using Cons by (auto simp: syscalls_of_def)
    qed
  qed (simp add: syscalls_of_def)
  then show thesis using that assms(3) by (auto simp: pod_syscalls_by_name_def)
qed

lemma last_posted_last:
  "last_posted w name old = (case rev (filter (\<lambda>e. in_pod_name e = name) w) of [] \<Rightarrow> old | e # _ \<Rightarrow> Some (join_with '','' (in_syscalls e)))"
proof (induction w arbitrary: old)
  case (Cons a w)
  then show ?case by (cases "rev (filter (\<lambda>e. in_pod_name e = name) w)") simp_all
qed simp

text \<open>
  C21: A profile allows what was posted.  After an accepted batch, the profile the advisor builds for a pod
  with an entry in it lists exactly the names of the pod's last entry, in their order, for the
  architecture of the entry, and is valid; the commas of the stored text do not run into the names.
\<close>

theorem profile_lists_posted_names:
  assumes "tables_ok db" and "add_pods_syscalls ok w db = (Answer (), db')"
    and "filter (\<lambda>e. in_pod_name e = name) w = es @ [e]" and "trim name \<noteq> []"
    and "in_syscalls e \<noteq> []" and "\<forall>s \<in> set (in_syscalls e). CHR '','' \<notin> set s"
    and "in_arch e = ''x86_64'' \<or> in_arch e = ''aarch64''"
  shows "GetPodSysCall (fetch_syscalls True db') name = Inr \<lparr>sc_Syscalls = in_syscalls e, sc_Arch = in_arch e\<rparr>
    \<and> ValidateProfile (BuildSeccompProfile (in_syscalls e) (in_arch e) action) = None
    \<and> map ru_Names (sp_Syscalls (BuildSeccompProfile (in_syscalls e) (in_arch e) action)) = [in_syscalls e]"
proof (intro conjI)
  let ?tbl = "tbl_syscalls db"
  have distinct: "distinct (map sy_pod_name ?tbl)" using assms(1) by (simp add: tables_ok_def)
  obtain tbl' where w: "store_all_syscalls w ?tbl = Some tbl'" and db': "tbl_syscalls db' = tbl'"
    using assms(2) by (auto simp: add_pods_syscalls_def create_pod_syscalls_def split: option.splits if_splits)
  note fits = store_all_fits [OF distinct w]
  have e: "e \<in> set w" "in_pod_name e = name"
    using arg_cong [OF assms(3), of set] by auto
  then have named: "e \<in> set (named w)" using assms(4) by (simp add: named_def)
  have "filter (\<lambda>f. in_pod_name f = name) (named w) = filter (\<lambda>f. in_pod_name f = name) w"
    using assms(4) by (auto simp: named_def intro: filter_cong)
  then have "syscalls_of tbl' name = Some (join_with '','' (in_syscalls e))"
    using store_all_exact [OF distinct, of w name] w assms(3) by (simp add: last_posted_last)
  then obtain r where r: "pod_syscalls_by_name name db' = [r]" "sy_pod_name r = name"
    "sy_syscalls r = join_with '','' (in_syscalls e)" "r \<in> set tbl'"
    using syscalls_row [OF conjunct1 [OF fits] _ db'] by blast
  have "fits tbl' e" using fits store_all_exact [OF distinct, of w name] w named by (auto simp: batch_fits_def)
  then have "sy_arch r = in_arch e" using r(2,4) e(2) by (auto simp: fits_def)
  then show "GetPodSysCall (fetch_syscalls True db') name = Inr \<lparr>sc_Syscalls = in_syscalls e, sc_Arch = in_arch e\<rparr>"
    using r split_join [OF assms(5,6)]
    by (simp add: GetPodSysCall_def fetch_syscalls_def get_pod_syscall_name_def answer_rows_def response_of_def)
  show "ValidateProfile (BuildSeccompProfile (in_syscalls e) (in_arch e) action) = None"
    using assms(7) by (auto simp: ValidateProfile_def BuildSeccompProfile_def SeccompArchitectures_def Let_def)
  show "map ru_Names (sp_Syscalls (BuildSeccompProfile (in_syscalls e) (in_arch e) action)) = [in_syscalls e]"
    by (simp add: BuildSeccompProfile_def Let_def)
qed

theorem profile_lists_posted_names_witness:
  "\<exists>db. add_pods_syscalls True [posted_names ''db-0'' ''aarch64'' [''read'', ''openat'']] empty_database = (Answer (), db)
    \<and> GetPodSysCall (fetch_syscalls True db) ''db-0'' = Inr \<lparr>sc_Syscalls = [''read'', ''openat''], sc_Arch = ''aarch64''\<rparr>"
proof -
  let ?e = "posted_names ''db-0'' ''aarch64'' [''read'', ''openat'']"
  have blank: "trim ''db-0'' = ''db-0''" by code_simp
  have sel: "in_pod_name ?e = ''db-0''" "in_syscalls ?e = [''read'', ''openat'']" "in_arch ?e = ''aarch64''"
    by (simp_all add: posted_names_def)
  obtain db where db: "add_pods_syscalls True [?e] empty_database = (Answer (), db)"
    by (simp add: add_pods_syscalls_def create_pod_syscalls_def store_syscalls_def sel blank empty_database_def
        syscalls_get_row_def first_row_def)
  have "GetPodSysCall (fetch_syscalls True db) ''db-0'' = Inr \<lparr>sc_Syscalls = in_syscalls ?e, sc_Arch = in_arch ?e\<rparr>"
    using profile_lists_posted_names [OF tables_ok_empty db, of "''db-0''" "[]" ?e] by (simp add: sel blank)
  then show ?thesis using db by (auto simp: sel)
qed

end
