(* ===== verification/Pod_Watcher.thy ===== *)
theory Pod_Watcher
  imports Text_Split
begin

text \<open>
  The controller's view of the pods of its node, \<^verbatim>\<open>pod_watcher.rs\<close> and \<^verbatim>\<open>container.rs\<close> in
  \<^verbatim>\<open>src/controller/src\<close>: which pods are watched, by which network namespace, and what is recorded of
  them.  The Kubernetes API, the container runtime, \<^verbatim>\<open>procfs\<close>, the clock and JSON are parameters.
\<close>

section \<open>Pods\<close>

text \<open>The fields of the Kubernetes objects that the controller reads; labels are in the order of their keys.\<close>

type_synonym labels = "(string \<times> string) list"

record owner_reference =
  ow_kind :: string
  ow_name :: string

record pod_condition =
  pc_type :: string
  pc_status :: string
  pc_message :: "string option"

record kube_pod_status =
  ks_conditions :: "pod_condition list option"
  ks_container_ids :: "string option list option"
  ks_pod_ip :: "string option"

record kube_pod =
  kp_name :: "string option"
  kp_generate_name :: "string option"
  kp_namespace :: "string option"
  kp_labels :: "labels option"
  kp_owner_references :: "owner_reference list option"
  kp_status :: "kube_pod_status option"

definition name_any :: "kube_pod \<Rightarrow> string" where
  "name_any p = (case kp_name p of Some n \<Rightarrow> n | None \<Rightarrow> (case kp_generate_name p of Some n \<Rightarrow> n | None \<Rightarrow> []))"

definition should_process_pod :: "string option \<Rightarrow> string list \<Rightarrow> bool" where
  "should_process_pod namespace excluded_namespaces =
     (\<not> (case namespace of None \<Rightarrow> False | Some ns \<Rightarrow> ns \<in> set excluded_namespaces))"

definition parse_excluded_namespaces :: "string \<Rightarrow> string list" where
  "parse_excluded_namespaces s = filter (\<lambda>p. p \<noteq> []) (map trim (split_at CHR '','' s))"

definition parse_lenient_bool :: "string \<Rightarrow> bool \<Rightarrow> bool" where
  "parse_lenient_bool s dflt =
     (let t = to_ascii_lowercase (trim s)
      in if t \<in> {''true'', ''1'', ''yes'', ''on''} then True
         else if t \<in> {''false'', ''0'', ''no'', ''off''} then False
         else dflt)"

definition failed_conditions :: "pod_condition list \<Rightarrow> string" where
  "failed_conditions conds = join_with '',''
     (map (\<lambda>c. case pc_message c of None \<Rightarrow> [] | Some m \<Rightarrow> m)
       (filter (\<lambda>c. pc_type c = ''Ready'' \<and> pc_status c = ''False'') conds))"

text \<open>The container identifiers of a pod, or \<open>None\<close> when it is to be passed over.\<close>

definition pod_unready :: "kube_pod \<Rightarrow> string list option" where
  "pod_unready p = (case kp_status p of
     None \<Rightarrow> None
   | Some status \<Rightarrow>
       if (case ks_conditions status of None \<Rightarrow> False | Some conds \<Rightarrow> failed_conditions conds \<noteq> []) then None
       else (case ks_container_ids status of
         None \<Rightarrow> None
       | Some con_status \<Rightarrow> Some (List.map_filter id con_status)))"

definition is_backed_by_daemonset :: "kube_pod \<Rightarrow> bool" where
  "is_backed_by_daemonset pod = (case kp_owner_references pod of
     None \<Rightarrow> False
   | Some owners \<Rightarrow> list_ex (\<lambda>owner. ow_kind owner = ''DaemonSet'') owners)"

section \<open>Workloads\<close>

text \<open>
  The answers of the API server: \<open>None\<close> is an error; a replica set is known by its owners, the other
  workloads by the labels of their selectors, if they have any.
\<close>

record apiserver =
  ap_replicaset :: "string \<Rightarrow> string \<Rightarrow> owner_reference list option option"
  ap_deployment :: "string \<Rightarrow> string \<Rightarrow> labels option option"
  ap_statefulset :: "string \<Rightarrow> string \<Rightarrow> labels option option"
  ap_daemonset :: "string \<Rightarrow> string \<Rightarrow> labels option option"

definition get_deployment_selector :: "apiserver \<Rightarrow> string \<Rightarrow> string \<Rightarrow> labels option" where
  "get_deployment_selector api deployment_name namespace =
     (case ap_deployment api namespace deployment_name of None \<Rightarrow> None | Some selectors \<Rightarrow> selectors)"

definition get_statefulset_selector :: "apiserver \<Rightarrow> string \<Rightarrow> string \<Rightarrow> labels option" where
  "get_statefulset_selector api statefulset_name namespace =
     (case ap_statefulset api namespace statefulset_name of None \<Rightarrow> None | Some selectors \<Rightarrow> selectors)"

definition get_daemonset_selector :: "apiserver \<Rightarrow> string \<Rightarrow> string \<Rightarrow> labels option" where
  "get_daemonset_selector api daemonset_name namespace =
     (case ap_daemonset api namespace daemonset_name of None \<Rightarrow> None | Some selectors \<Rightarrow> selectors)"

text \<open>The first owner that is a deployment decides.\<close>

definition get_deployment_selector_from_replicaset :: "apiserver \<Rightarrow> string \<Rightarrow> string \<Rightarrow> labels option" where
  "get_deployment_selector_from_replicaset api replicaset_name namespace =
     (case ap_replicaset api namespace replicaset_name of
        Some (Some owners) \<Rightarrow> (case find (\<lambda>owner. ow_kind owner = ''Deployment'') owners of
          None \<Rightarrow> None
        | Some owner \<Rightarrow> get_deployment_selector api (ow_name owner) namespace)
      | _ \<Rightarrow> None)"

text \<open>The first owner that is a deployment with a selector decides.\<close>

fun first_deployment :: "apiserver \<Rightarrow> string \<Rightarrow> owner_reference list \<Rightarrow> (string \<times> labels) option" where
  "first_deployment api namespace [] = None"
| "first_deployment api namespace (owner # owners) =
     (if ow_kind owner = ''Deployment''
      then (case get_deployment_selector api (ow_name owner) namespace of
              Some selectors \<Rightarrow> Some (ow_name owner, selectors)
            | None \<Rightarrow> first_deployment api namespace owners)
      else first_deployment api namespace owners)"

definition get_deployment_name_and_selector_from_replicaset :: "apiserver \<Rightarrow> string \<Rightarrow> string \<Rightarrow> (string \<times> labels) option" where
  "get_deployment_name_and_selector_from_replicaset api replicaset_name namespace =
     (case ap_replicaset api namespace replicaset_name of
        Some (Some owners) \<Rightarrow> first_deployment api namespace owners
      | _ \<Rightarrow> None)"

fun trace_selectors :: "apiserver \<Rightarrow> string \<Rightarrow> owner_reference list \<Rightarrow> labels option" where
  "trace_selectors api namespace [] = None"
| "trace_selectors api namespace (owner # owners) =
     (case (if ow_kind owner = ''ReplicaSet'' then get_deployment_selector_from_replicaset api (ow_name owner) namespace
            else if ow_kind owner = ''Deployment'' then get_deployment_selector api (ow_name owner) namespace
            else if ow_kind owner = ''StatefulSet'' then get_statefulset_selector api (ow_name owner) namespace
            else if ow_kind owner = ''DaemonSet'' then get_daemonset_selector api (ow_name owner) namespace
            else None) of
        Some selectors \<Rightarrow> Some selectors
      | None \<Rightarrow> trace_selectors api namespace owners)"

definition trace_owner_to_workload_with_selectors :: "apiserver \<Rightarrow> kube_pod \<Rightarrow> labels option" where
  "trace_owner_to_workload_with_selectors api pod = (case (kp_owner_references pod, kp_namespace pod) of
     (Some owners, Some namespace) \<Rightarrow> trace_selectors api namespace owners
   | _ \<Rightarrow> None)"

fun trace_name_and_selectors :: "apiserver \<Rightarrow> string \<Rightarrow> owner_reference list \<Rightarrow> string option \<times> labels option" where
  "trace_name_and_selectors api namespace [] = (None, None)"
| "trace_name_and_selectors api namespace (owner # owners) =
     (if ow_kind owner = ''ReplicaSet''
      then (case get_deployment_name_and_selector_from_replicaset api (ow_name owner) namespace of
              Some (name, selectors) \<Rightarrow> (Some name, Some selectors)
            | None \<Rightarrow> trace_name_and_selectors api namespace owners)
      else if ow_kind owner = ''Deployment'' then (Some (ow_name owner), get_deployment_selector api (ow_name owner) namespace)
      else if ow_kind owner = ''StatefulSet'' then (Some (ow_name owner), get_statefulset_selector api (ow_name owner) namespace)
      else if ow_kind owner = ''DaemonSet'' then (Some (ow_name owner), get_daemonset_selector api (ow_name owner) namespace)
      else trace_name_and_selectors api namespace owners)"

definition trace_owner_to_workload_with_selectors_and_name :: "apiserver \<Rightarrow> kube_pod \<Rightarrow> string option \<times> labels option" where
  "trace_owner_to_workload_with_selectors_and_name api pod = (case (kp_owner_references pod, kp_namespace pod) of
     (Some owners, Some namespace) \<Rightarrow> trace_name_and_selectors api namespace owners
   | _ \<Rightarrow> (None, None))"

definition identity_labels :: "string list" where
  "identity_labels = [''app.kubernetes.io/name'', ''app.kubernetes.io/component'', ''k8s-app'', ''app'']"

fun first_label :: "labels \<Rightarrow> string list \<Rightarrow> string option" where
  "first_label ls [] = None"
| "first_label ls (key # keys) = (case map_of ls key of Some v \<Rightarrow> Some v | None \<Rightarrow> first_label ls keys)"

definition extract_pod_identity_and_selectors :: "apiserver \<Rightarrow> kube_pod \<Rightarrow> string option \<times> labels option" where
  "extract_pod_identity_and_selectors api pod =
     (case (case kp_labels pod of None \<Rightarrow> None | Some ls \<Rightarrow> first_label ls identity_labels) of
        Some name \<Rightarrow> (Some name, trace_owner_to_workload_with_selectors api pod)
      | None \<Rightarrow> trace_owner_to_workload_with_selectors_and_name api pod)"

section \<open>Containers\<close>

text \<open>The first match of the regular expression \<^verbatim>\<open>containerd://([0-9a-zA-Z]*)\<close>, anywhere in the text.\<close>

fun parse_container_id :: "string \<Rightarrow> string option" where
  "parse_container_id s =
     (if take 13 s = ''containerd://''
      then (let container_id = takeWhile is_alnum (drop 13 s) in if container_id = [] then None else Some container_id)
      else (case s of [] \<Rightarrow> None | _ # t \<Rightarrow> parse_container_id t))"

declare parse_container_id.simps [simp del]

record Metadata =
  me_name :: string
  me_namespace :: string
  me_uid :: string

record Config =
  co_metadata :: Metadata

record Info =
  in_config :: Config

record PodInspect =
  pi_container_id :: "string option"
  pi_status :: pod_status
  pi_info :: Info
  pi_if_index :: "u32 option"
  pi_namespace_pid :: "u32 option"
  pi_pid :: "u32 option"
  pi_inode_num :: "u64 option"

text \<open>\<^verbatim>\<open>PodInspect::default\<close> with its status.\<close>

definition inspect_default :: "pod_status \<Rightarrow> PodInspect" where
  "inspect_default pod_info = \<lparr>pi_container_id = None, pi_status = pod_info,
     pi_info = \<lparr>in_config = \<lparr>co_metadata = \<lparr>me_name = [], me_namespace = [], me_uid = []\<rparr>\<rparr>\<rparr>,
     pi_if_index = None, pi_namespace_pid = None, pi_pid = None, pi_inode_num = None\<rparr>"

text \<open>
  The runtime: whether its socket answers, the process of a container (\<open>None\<close> for an error), and the
  inode of the network namespace of a process as \<^verbatim>\<open>/proc\<close> has it.
\<close>

record runtime =
  rt_connects :: bool
  rt_task :: "string \<Rightarrow> u32 option"
  rt_netns :: "u32 \<Rightarrow> u64 option"

definition set_container_id :: "string \<Rightarrow> PodInspect \<Rightarrow> PodInspect" where
  "set_container_id container_id p = p\<lparr>pi_container_id := Some container_id\<rparr>"

definition get_pid :: "runtime \<Rightarrow> PodInspect \<Rightarrow> PodInspect" where
  "get_pid rt p = (case pi_container_id p of
     None \<Rightarrow> p
   | Some container_id \<Rightarrow> p\<lparr>pi_pid := rt_task rt container_id\<rparr>)"

definition get_net_namespace_id :: "runtime \<Rightarrow> PodInspect \<Rightarrow> PodInspect" where
  "get_net_namespace_id rt p = (case Option.bind (pi_pid p) (rt_netns rt) of
     None \<Rightarrow> p
   | Some inode \<Rightarrow> p\<lparr>pi_inode_num := Some inode\<rparr>)"

definition get_pod_inspect :: "runtime \<Rightarrow> string \<Rightarrow> PodInspect \<Rightarrow> PodInspect option" where
  "get_pod_inspect rt con_id p = (case parse_container_id con_id of
     None \<Rightarrow> None
   | Some container_id \<Rightarrow>
       if rt_connects rt then Some (get_net_namespace_id rt (get_pid rt (set_container_id container_id p))) else None)"

type_synonym container_map = "u64 \<rightharpoonup> PodInspect"

definition create_pod_info :: "kube_pod \<Rightarrow> string \<Rightarrow> pod_status" where
  "create_pod_info pod ip = \<lparr>pod_name = name_any pod, pod_namespace = kp_namespace pod, pod_ip = ip\<rparr>"

fun process_container_ids :: "runtime \<Rightarrow> string list \<Rightarrow> kube_pod \<Rightarrow> string \<Rightarrow> container_map \<Rightarrow> u64 option \<times> container_map" where
  "process_container_ids rt [] pod ip cmap = (None, cmap)"
| "process_container_ids rt (con_id # con_ids) pod ip cmap =
     (case get_pod_inspect rt con_id (inspect_default (create_pod_info pod ip)) of
        None \<Rightarrow> process_container_ids rt con_ids pod ip cmap
      | Some inspect \<Rightarrow> (case pi_inode_num inspect of
          None \<Rightarrow> process_container_ids rt con_ids pod ip cmap
        | Some inum \<Rightarrow> (Some inum, cmap(inum \<mapsto> inspect))))"

section \<open>The watcher\<close>

record watch_env =
  we_node_name :: string
  we_excluded :: "string list"
  we_ignore_daemonset :: bool
  we_api :: apiserver
  we_runtime :: runtime
  we_json :: "kube_pod \<Rightarrow> json"
  we_now :: nat
  we_inode_open :: bool
  we_ip_open :: bool

text \<open>
  The map of watched namespaces, the rows posted to the broker, and what was sent into the channels of
  inodes and of ignored addresses.  The outcome of a post is only logged.
\<close>

record watcher =
  wa_container_map :: container_map
  wa_posts :: "pod_details_row list"
  wa_inodes :: "u64 list"
  wa_ignored :: "string list"

definition labels_json :: "labels \<Rightarrow> json" where
  "labels_json ls = JObj (map (\<lambda>(k, v). (k, JStr v)) ls)"

definition pod_detail :: "watch_env \<Rightarrow> kube_pod \<Rightarrow> string \<Rightarrow> pod_details_row" where
  "pod_detail env pod ip =
     (let (pod_identity, workload_selector_labels) = extract_pod_identity_and_selectors (we_api env) pod
      in \<lparr>dt_pod_name = name_any pod, dt_pod_ip = ip, dt_pod_namespace = kp_namespace pod,
          dt_pod_obj = Some (we_json env pod), dt_time_stamp = we_now env, dt_node_name = we_node_name env,
          dt_is_dead = False, dt_pod_identity = pod_identity,
          dt_workload_selector_labels = map_option labels_json workload_selector_labels\<rparr>)"

definition update_pods_details :: "watch_env \<Rightarrow> kube_pod \<Rightarrow> watcher \<Rightarrow> string option \<times> watcher" where
  "update_pods_details env pod w = (case kp_status pod of
     None \<Rightarrow> (None, w)
   | Some status \<Rightarrow> (case ks_pod_ip status of
       None \<Rightarrow> (None, w)
     | Some ip \<Rightarrow> (Some ip, w\<lparr>wa_posts := wa_posts w @ [pod_detail env pod ip]\<rparr>)))"

definition process_pod :: "watch_env \<Rightarrow> kube_pod \<Rightarrow> watcher \<Rightarrow> u64 option \<times> watcher" where
  "process_pod env pod w = (case pod_unready pod of
     None \<Rightarrow> (None, w)
   | Some con_ids \<Rightarrow> (case update_pods_details env pod w of
       (None, w) \<Rightarrow> (None, w)
     | (Some ip, w) \<Rightarrow>
         (let w = (if we_ignore_daemonset env \<and> is_backed_by_daemonset pod \<and> we_ip_open env
                   then w\<lparr>wa_ignored := wa_ignored w @ [ip]\<rparr> else w)
          in if should_process_pod (kp_namespace pod) (we_excluded env)
             then (let (inum, cmap) = process_container_ids (we_runtime env) con_ids pod ip (wa_container_map w)
                   in (inum, w\<lparr>wa_container_map := cmap\<rparr>))
             else (None, w))))"

text \<open>What the watch does for an event, and the periodic listing for each pod of the list.\<close>

definition watch_pod :: "watch_env \<Rightarrow> kube_pod \<Rightarrow> watcher \<Rightarrow> watcher" where
  "watch_pod env pod w = (case process_pod env pod w of
     (None, w) \<Rightarrow> w
   | (Some inum, w) \<Rightarrow> if we_inode_open env then w\<lparr>wa_inodes := wa_inodes w @ [inum]\<rparr> else w)"

definition resync_pass :: "watch_env \<Rightarrow> kube_pod list option \<Rightarrow> watcher \<Rightarrow> watcher" where
  "resync_pass env listing w = (case listing of None \<Rightarrow> w | Some pods \<Rightarrow> fold (watch_pod env) pods w)"

definition watcher_start :: watcher where
  "watcher_start = \<lparr>wa_container_map = Map.empty, wa_posts = [], wa_inodes = [], wa_ignored = []\<rparr>"

end
