(* ===== verification/Controller_Client.thy ===== *)
theory Controller_Client
  imports Text_Split Broker_Auth
begin

text \<open>
  The controller's posts to the broker, \<^verbatim>\<open>src/controller/src/client.rs\<close>.  The environment and the
  transport are parameters; the texts of errors are left out.
\<close>

definition trim_end_matches :: "char \<Rightarrow> string \<Rightarrow> string" where
  "trim_end_matches c s = rev (dropWhile ((=) c) (rev s))"

definition trim_start_matches :: "char \<Rightarrow> string \<Rightarrow> string" where
  "trim_start_matches c s = dropWhile ((=) c) s"

definition build_url :: "string \<Rightarrow> string \<Rightarrow> string" where
  "build_url api_endpoint path =
     (let endpoint = trim_end_matches CHR ''/'' api_endpoint;
          p = trim_start_matches CHR ''/'' path
      in endpoint @ ''/'' @ p)"

record client_env =
  ce_API_ENDPOINT :: "string option"
  ce_BROKER_AUTH_TOKEN :: "string option"

definition nonblank_var :: "string option \<Rightarrow> string option" where
  "nonblank_var var = (case map_option trim var of None \<Rightarrow> None | Some s \<Rightarrow> if s = [] then None else Some s)"

definition broker_auth_token :: "client_env \<Rightarrow> string option" where
  "broker_auth_token env = nonblank_var (ce_BROKER_AUTH_TOKEN env)"

record post_request =
  po_url :: string
  po_content_type :: string
  po_body :: bytes
  po_authorization :: "string option"

datatype client_error = EndpointNotSet | NotSerialized | SendFailed | BrokerReturned nat

definition is_success :: "nat \<Rightarrow> bool" where
  "is_success status = (200 \<le> status \<and> status < 300)"

text \<open>The request of a post, and the result of the post; \<open>send\<close> answers with a status or not at all, as
  when the token is no header value.\<close>

definition post_of :: "client_env \<Rightarrow> (json \<Rightarrow> bytes option) \<Rightarrow> json \<Rightarrow> string \<Rightarrow> client_error + post_request" where
  "post_of env to_vec v path = (case nonblank_var (ce_API_ENDPOINT env) of
     None \<Rightarrow> Inl EndpointNotSet
   | Some api_endpoint \<Rightarrow> (case to_vec v of
       None \<Rightarrow> Inl NotSerialized
     | Some json_bytes \<Rightarrow> Inr \<lparr>po_url = build_url api_endpoint path, po_content_type = ''application/json'',
         po_body = json_bytes,
         po_authorization = (case broker_auth_token env of None \<Rightarrow> None | Some token \<Rightarrow> Some (''Bearer '' @ token))\<rparr>))"

definition api_post_call :: "client_env \<Rightarrow> (json \<Rightarrow> bytes option) \<Rightarrow> (post_request \<Rightarrow> nat option) \<Rightarrow> json \<Rightarrow> string \<Rightarrow> client_error + unit" where
  "api_post_call env to_vec send v path = (case post_of env to_vec v path of
     Inl e \<Rightarrow> Inl e
   | Inr request \<Rightarrow> (case send request of
       None \<Rightarrow> Inl SendFailed
     | Some status \<Rightarrow> if \<not> is_success status then Inl (BrokerReturned status) else Inr ()))"

section \<open>Laws\<close>

lemma build_url_slashes:
  "build_url (e @ replicate n CHR ''/'') (replicate m CHR ''/'' @ p) = build_url e p"
proof -
  have drop: "dropWhile ((=) CHR ''/'') (replicate k CHR ''/'' @ t) = dropWhile ((=) CHR ''/'') t" for k t
    by (induction k) simp_all
  show ?thesis by (simp add: build_url_def trim_end_matches_def trim_start_matches_def drop)
qed

lemma nonblank_var_auth_token: "nonblank_var = auth_token"
  by (rule ext) (simp add: nonblank_var_def auth_token_def)

lemma auth_token_trimmed: "auth_token var = Some t \<Longrightarrow> trim t = t"
  by (auto simp: auth_token_def split: option.splits if_splits)

end
