(* ===== verification/Pod_Reconciler.thy ===== *)
theory Pod_Reconciler
  imports Pod_Watcher Controller_Client
begin

text \<open>
  The controller's periodic reconciliation, \<^verbatim>\<open>pod_reconciler.rs\<close>, and its watch of services,
  \<^verbatim>\<open>service_watcher.rs\<close>, both in \<^verbatim>\<open>src/controller/src\<close>.  The answers of the broker and of the API server
  are parameters; \<open>None\<close> is an error.
\<close>

section \<open>Pods that are gone\<close>

type_synonym pod_ident = "string option \<times> string"

definition find_dead_pod_details :: "pod_details_row list \<Rightarrow> pod_ident set \<Rightarrow> pod_details_row list" where
  "find_dead_pod_details db_pods running = filter (\<lambda>p. \<not> (dt_pod_namespace p, dt_pod_name p) \<in> running) db_pods"

definition running_pods :: "kube_pod list \<Rightarrow> pod_ident set" where
  "running_pods pod_list = set (List.map_filter (\<lambda>pod. map_option (\<lambda>n. (kp_namespace pod, n)) (kp_name pod)) pod_list)"

text \<open>
  The request for the broker's list of the node's pods, which is sent with a client of its own and carries no
  token, and what becomes of it at a broker whose token is \<open>token\<close>.
\<close>

definition list_url :: "string \<Rightarrow> string \<Rightarrow> string" where
  "list_url broker_url node_name = trim_end_matches CHR ''/'' broker_url @ ''/pod/list/'' @ node_name"

definition list_request :: "string \<Rightarrow> http_request" where
  "list_request node_name = \<lparr>hr_method = ''GET'', hr_path = ''/pod/list/'' @ node_name, hr_authorization = None\<rparr>"

definition fetch_pods :: "string option \<Rightarrow> (string \<Rightarrow> string \<Rightarrow> bool) \<Rightarrow> bool \<Rightarrow> string \<Rightarrow> database \<Rightarrow> pod_details_row list option" where
  "fetch_pods token coll ok node db =
     (if require_bearer token (list_request node)
      then (case get_pods_by_node coll ok node db of Answer rows \<Rightarrow> Some rows | _ \<Rightarrow> None)
      else None)"

text \<open>The requests to mark a pod dead, its name and address, in their order; an error ends the pass.\<close>

definition reconcile_pods :: "pod_details_row list option \<Rightarrow> kube_pod list option \<Rightarrow> (string \<times> string) list option" where
  "reconcile_pods fetched listing = (case fetched of
     None \<Rightarrow> None
   | Some db_pods \<Rightarrow> (case listing of
       None \<Rightarrow> None
     | Some pod_list \<Rightarrow>
         Some (map (\<lambda>p. (dt_pod_name p, dt_pod_ip p)) (find_dead_pod_details db_pods (running_pods pod_list)))))"

section \<open>Services\<close>

record svc_condition =
  vc_type :: string
  vc_status :: string
  vc_message :: string

record kube_service =
  ks_name :: "string option"
  ks_generate_name :: "string option"
  ks_namespace :: "string option"
  ks_cluster_ip :: "string option option"
  ks_svc_conditions :: "svc_condition list option option"

definition svc_name_any :: "kube_service \<Rightarrow> string" where
  "svc_name_any s = (case ks_name s of Some n \<Rightarrow> n | None \<Rightarrow> (case ks_generate_name s of Some n \<Rightarrow> n | None \<Rightarrow> []))"

definition svc_unready :: "kube_service \<Rightarrow> string option" where
  "svc_unready p = (case ks_svc_conditions p of
     Some (Some conds) \<Rightarrow>
       (let failed = join_with '','' (map vc_message (filter (\<lambda>c. vc_type c = ''Ready'' \<and> vc_status c = ''False'') conds))
        in if failed \<noteq> [] then Some (''Unready Service '' @ svc_name_any p @ '': '' @ failed) else None)
   | _ \<Rightarrow> None)"

definition is_routable_cluster_ip :: "string \<Rightarrow> bool" where
  "is_routable_cluster_ip s = (s \<noteq> [] \<and> s \<noteq> ''None'')"

text \<open>The row posted for a service, if one is.\<close>

definition update_serviceinfo :: "(kube_service \<Rightarrow> json) \<Rightarrow> nat \<Rightarrow> kube_service \<Rightarrow> svc_details_row option" where
  "update_serviceinfo to_json now svc = (case ks_cluster_ip svc of
     Some (Some svc_ip) \<Rightarrow>
       if \<not> is_routable_cluster_ip svc_ip then None
       else Some \<lparr>sv_svc_ip = svc_ip, sv_svc_name = Some (svc_name_any svc), sv_svc_namespace = ks_namespace svc,
              sv_service_spec = Some (to_json svc), sv_time_stamp = now\<rparr>
   | _ \<Rightarrow> None)"

definition watch_service :: "(kube_service \<Rightarrow> json) \<Rightarrow> nat \<Rightarrow> kube_service \<Rightarrow> svc_details_row option" where
  "watch_service to_json now svc = (case svc_unready svc of
     Some reason \<Rightarrow> None
   | None \<Rightarrow> update_serviceinfo to_json now svc)"

text \<open>The controller and the broker agree on the addresses of services.\<close>

lemma posted_service_routable:
  "watch_service to_json now svc = Some row \<Longrightarrow> is_routable_svc_ip (sv_svc_ip row)"
  by (auto simp: watch_service_def update_serviceinfo_def is_routable_cluster_ip_def is_routable_svc_ip_def
      split: option.splits if_splits)

end
