(* ===== verification/Watch_Props.thy ===== *)
theory Watch_Props
  imports Address_Text Broker_State_Props Pod_Reconciler Controller_Client
begin

text \<open>
  The watcher, the reconciliation and the posts of the controller, and their effect in the broker.
\<close>

section \<open>Excluded namespaces\<close>

text \<open>The names of the list are found again, whatever blanks stand around them.\<close>

lemma excluded_namespaces_roundtrip:
  assumes "entries \<noteq> []"
    and "\<forall>(p, n, q) \<in> set entries. (\<forall>c \<in> set p. blank_char c) \<and> (\<forall>c \<in> set q. blank_char c)
      \<and> n \<noteq> [] \<and> (\<forall>c \<in> set n. visible c \<and> c \<noteq> CHR '','')"
  shows "parse_excluded_namespaces (join_with '','' (map (\<lambda>(p, n, q). p @ n @ q) entries)) = map (fst \<circ> snd) entries"
proof -
  let ?f = "\<lambda>(p :: string, n :: string, q :: string). p @ n @ q"
  have comma: "\<not> blank_char CHR '',''" by (simp add: blank_char_def ws1_def)
  have e: "CHR '','' \<notin> set (?f e) \<and> trim (?f e) = fst (snd e) \<and> fst (snd e) \<noteq> []" if "e \<in> set entries" for e
    using bspec [OF assms(2) that] comma by (cases e) (auto simp: trim_padded)
  then have "\<forall>x \<in> set (map ?f entries). CHR '','' \<notin> set x" by auto
  then have split: "split_at CHR '','' (join_with '','' (map ?f entries)) = map ?f entries"
    using assms(1) by (simp add: split_join)
  have "\<forall>e \<in> set entries. trim (?f e) = fst (snd e) \<and> fst (snd e) \<noteq> []" using e by blast
  then have "filter (\<lambda>p. p \<noteq> []) (map trim (map ?f entries)) = map (fst \<circ> snd) entries"
    by (induction entries) (simp_all add: split_def)
  then show ?thesis by (simp only: parse_excluded_namespaces_def split)
qed

section \<open>Watched namespaces\<close>

definition watch_run :: "(watch_env \<times> kube_pod) list \<Rightarrow> watcher \<Rightarrow> watcher" where
  "watch_run evs w = fold (\<lambda>(env, pod). watch_pod env pod) evs w"

lemma watch_run_simps [simp]:
  "watch_run [] w = w" "watch_run (e # evs) w = watch_run evs (watch_pod (fst e) (snd e) w)"
  by (simp_all add: watch_run_def split_def)

lemma watch_run_resync: "resync_pass env (Some pods) w = watch_run (map (Pair env) pods) w"
  by (simp add: resync_pass_def watch_run_def fold_map comp_def)

text \<open>What the watcher does for a pod: its address, and the entry it makes for its namespace.\<close>

definition ready_address :: "kube_pod \<Rightarrow> string option" where
  "ready_address pod = (case pod_unready pod of None \<Rightarrow> None | Some _ \<Rightarrow> Option.bind (kp_status pod) ks_pod_ip)"

fun first_inode :: "runtime \<Rightarrow> string list \<Rightarrow> PodInspect \<Rightarrow> (u64 \<times> PodInspect) option" where
  "first_inode rt [] p = None"
| "first_inode rt (c # cs) p =
     (case Option.bind (get_pod_inspect rt c p) (\<lambda>q. map_option (\<lambda>i. (i, q)) (pi_inode_num q)) of
        Some r \<Rightarrow> Some r
      | None \<Rightarrow> first_inode rt cs p)"

definition entry_of :: "watch_env \<Rightarrow> kube_pod \<Rightarrow> (u64 \<times> PodInspect) option" where
  "entry_of env pod = (case ready_address pod of
     None \<Rightarrow> None
   | Some ip \<Rightarrow> if should_process_pod (kp_namespace pod) (we_excluded env)
       then first_inode (we_runtime env) (the (pod_unready pod)) (inspect_default (create_pod_info pod ip)) else None)"

lemma process_container_ids_first:
  "process_container_ids rt cs pod ip cmap =
     (case first_inode rt cs (inspect_default (create_pod_info pod ip)) of
        None \<Rightarrow> (None, cmap) | Some (i, p) \<Rightarrow> (Some i, cmap(i \<mapsto> p)))"
  by (induction cs) (auto split: option.split)

lemma watch_pod_effect:
  "watch_pod env pod w = (case ready_address pod of
     None \<Rightarrow> w
   | Some ip \<Rightarrow>
      w\<lparr>wa_posts := wa_posts w @ [pod_detail env pod ip],
        wa_ignored := wa_ignored w @ (if we_ignore_daemonset env \<and> is_backed_by_daemonset pod \<and> we_ip_open env then [ip] else []),
        wa_container_map := (case entry_of env pod of None \<Rightarrow> wa_container_map w | Some (i, p) \<Rightarrow> (wa_container_map w)(i \<mapsto> p)),
        wa_inodes := wa_inodes w @ (case entry_of env pod of None \<Rightarrow> [] | Some (i, p) \<Rightarrow> if we_inode_open env then [i] else [])\<rparr>)"
  by (cases w)
    (auto simp: watch_pod_def process_pod_def update_pods_details_def ready_address_def entry_of_def
      process_container_ids_first Let_def split: option.split)

lemma first_inode_entry:
  assumes "first_inode rt cs p = Some (i, q)" shows "pi_inode_num q = Some i \<and> pi_status q = pi_status p"
proof -
  have "get_pod_inspect rt c p = Some q \<Longrightarrow> pi_status q = pi_status p" for c q
    by (auto simp: get_pod_inspect_def get_net_namespace_id_def get_pid_def set_container_id_def split: option.splits if_splits)
  then show ?thesis using assms by (induction cs) (auto simp: bind_eq_Some_conv split: option.splits)
qed

lemma entry_of_pod:
  assumes "entry_of env pod = Some (i, p)"
  shows "\<exists>ip. ready_address pod = Some ip \<and> pi_inode_num p = Some i \<and> pi_status p = create_pod_info pod ip
    \<and> should_process_pod (kp_namespace pod) (we_excluded env)"
  using assms by (auto simp: entry_of_def inspect_default_def dest!: first_inode_entry split: option.splits if_splits)

definition known_pods :: "string set \<Rightarrow> watcher \<Rightarrow> bool" where
  "known_pods excluded w \<longleftrightarrow> dom (wa_container_map w) = set (wa_inodes w) \<and>
     (\<forall>i p. wa_container_map w i = Some p \<longrightarrow> pi_inode_num p = Some i \<and> pod_namespace (pi_status p) \<notin> Some ` excluded \<and>
       (\<exists>d \<in> set (wa_posts w). dt_pod_name d = pod_name (pi_status p) \<and> dt_pod_namespace d = pod_namespace (pi_status p)
         \<and> dt_pod_ip d = pod_ip (pi_status p) \<and> \<not> dt_is_dead d))"

lemma known_pods_step:
  assumes "known_pods excluded w" and "excluded \<subseteq> set (we_excluded env)" and "we_inode_open env"
  shows "known_pods excluded (watch_pod env pod w)"
proof (cases "ready_address pod")
  case None
  then show ?thesis using assms(1) by (simp add: watch_pod_effect)
next
  case (Some ip)
  have d: "dt_pod_name (pod_detail env pod ip) = name_any pod" "dt_pod_namespace (pod_detail env pod ip) = kp_namespace pod"
    "dt_pod_ip (pod_detail env pod ip) = ip" "\<not> dt_is_dead (pod_detail env pod ip)"
    by (simp_all add: pod_detail_def split_def Let_def)
  show ?thesis
  proof (cases "entry_of env pod")
    case None
    then show ?thesis using assms(1) Some unfolding known_pods_def by (simp add: watch_pod_effect)
  next
    case entry: (Some e)
    obtain i p where e: "e = (i, p)" by fastforce
    have p: "pi_inode_num p = Some i" "pi_status p = create_pod_info pod ip" "should_process_pod (kp_namespace pod) (we_excluded env)"
      using entry_of_pod [of env pod i p] entry e Some by auto
    have "kp_namespace pod \<notin> Some ` excluded" using p(3) assms(2) by (auto simp: should_process_pod_def)
    then show ?thesis using assms(1,3) Some entry e p(1,2) d unfolding known_pods_def
      by (auto simp: watch_pod_effect create_pod_info_def)
  qed
qed

lemma known_pods_run:
  "known_pods excluded w \<Longrightarrow> \<forall>(env, pod) \<in> set evs. excluded \<subseteq> set (we_excluded env) \<and> we_inode_open env
    \<Longrightarrow> known_pods excluded (watch_run evs w)"
  by (induction evs arbitrary: w) (auto simp: known_pods_step)

lemma known_pods_start: "known_pods excluded watcher_start"
  by (simp add: known_pods_def watcher_start_def)

lemma built_row_pod:
  "build_traffic_event ins uuid now data pod cache = (Some r, cache') \<Longrightarrow>
    pt_pod_name r = pod_name pod \<and> pt_pod_namespace r = pod_namespace pod \<and> pt_pod_ip r = pod_ip pod"
  by (auto simp: build_traffic_event_def Let_def split: option.splits if_splits)

text \<open>
  C19: Rows are attributed to pods the broker was told of.  After any pod events and listings, whatever the
  runtime and the API server answer, the watched namespaces are exactly the inodes sent to the loader, and
  a row built for an event of one of them carries the name, the namespace and the address of a pod that
  was posted to the broker as alive; no such pod is in an excluded namespace.
\<close>

theorem rows_of_posted_pods:
  assumes "\<forall>(env, pod) \<in> set evs. excluded \<subseteq> set (we_excluded env) \<and> we_inode_open env"
    and "w = watch_run evs watcher_start"
  shows "dom (wa_container_map w) = set (wa_inodes w)
    \<and> (\<forall>p ins uuid now data cache r cache'. wa_container_map w (ne_inum data) = Some p \<longrightarrow>
        build_traffic_event ins uuid now data (pi_status p) cache = (Some r, cache') \<longrightarrow>
        pt_pod_namespace r \<notin> Some ` excluded \<and>
        (\<exists>d \<in> set (wa_posts w). dt_pod_name d = pt_pod_name r \<and> dt_pod_namespace d = pt_pod_namespace r
          \<and> dt_pod_ip d = pt_pod_ip r \<and> \<not> dt_is_dead d))"
  using known_pods_run [OF known_pods_start assms(1)] built_row_pod
  unfolding assms(2) known_pods_def by (metis (no_types, lifting))

text \<open>A pod on the network of its node, and its neighbour.\<close>

definition demo_runtime :: runtime where
  "demo_runtime = \<lparr>rt_connects = True, rt_task = (\<lambda>c. if c = ''a1'' then Some 41 else Some 42),
     rt_netns = (\<lambda>pid. if pid = 41 then Some 4026532001 else Some 4026531840)\<rparr>"

definition demo_api :: apiserver where
  "demo_api = \<lparr>ap_replicaset = (\<lambda>_ _. None), ap_deployment = (\<lambda>_ _. None), ap_statefulset = (\<lambda>_ _. None),
     ap_daemonset = (\<lambda>_ _. Some (Some [(''app'', ''agent'')]))\<rparr>"

definition demo_watch_env :: watch_env where
  "demo_watch_env = \<lparr>we_node_name = ''node-a'', we_excluded = [''kube-system'', ''kguardian''], we_ignore_daemonset = True,
     we_api = demo_api, we_runtime = demo_runtime, we_json = (\<lambda>_. JNull), we_now = 7, we_inode_open = True, we_ip_open = True\<rparr>"

definition demo_watched :: "string \<Rightarrow> string \<Rightarrow> string \<Rightarrow> string \<Rightarrow> kube_pod" where
  "demo_watched ns name ip cid = \<lparr>kp_name = Some name, kp_generate_name = None, kp_namespace = Some ns,
     kp_labels = None, kp_owner_references = None,
     kp_status = Some \<lparr>ks_conditions = None, ks_container_ids = Some [None, Some (''containerd://'' @ cid)], ks_pod_ip = Some ip\<rparr>\<rparr>"

lemma demo_entry:
  "entry_of demo_watch_env (demo_watched ''prod'' ''web-0'' ''10.0.0.4'' ''a1'') =
     Some (4026532001, (inspect_default \<lparr>pod_name = ''web-0'', pod_namespace = Some ''prod'', pod_ip = ''10.0.0.4''\<rparr>)
       \<lparr>pi_container_id := Some ''a1'', pi_pid := Some 41, pi_inode_num := Some 4026532001\<rparr>)"
  by code_simp

definition demo_connection :: network_event_data where
  "demo_connection = \<lparr>ne_inum = 4026532001, ne_saddr = 0x0400000A, ne_sport = 40000, ne_daddr = 0x0700000A,
     ne_dport = 443, ne_kind = 1\<rparr>"

theorem rows_of_posted_pods_witness:
  "\<exists>w p r cache. w = watch_run [(demo_watch_env, demo_watched ''prod'' ''web-0'' ''10.0.0.4'' ''a1'')] watcher_start
    \<and> wa_container_map w (ne_inum demo_connection) = Some p
    \<and> build_traffic_event (\<lambda>m k v. m(k \<mapsto> v)) ''u-1'' 9 demo_connection (pi_status p) Map.empty = (Some r, cache)
    \<and> (\<exists>d \<in> set (wa_posts w). dt_pod_name d = pt_pod_name r \<and> dt_pod_ip d = pt_pod_ip r)"
proof -
  let ?evs = "[(demo_watch_env, demo_watched ''prod'' ''web-0'' ''10.0.0.4'' ''a1'')]"
  let ?w = "watch_run ?evs watcher_start"
  let ?b = "\<lambda>p. build_traffic_event (\<lambda>m k v. m(k \<mapsto> v)) ''u-1'' 9 demo_connection p Map.empty"
  have ready: "ready_address (demo_watched ''prod'' ''web-0'' ''10.0.0.4'' ''a1'') = Some ''10.0.0.4''" by code_simp
  have inum: "ne_inum demo_connection = 4026532001" by (simp add: demo_connection_def)
  obtain p where p: "wa_container_map ?w (ne_inum demo_connection) = Some p"
    and status: "pi_status p = \<lparr>pod_name = ''web-0'', pod_namespace = Some ''prod'', pod_ip = ''10.0.0.4''\<rparr>"
    by (simp add: watch_pod_effect ready demo_entry inum inspect_default_def)
  have "parse_v4 ''10.0.0.4'' = Some [10, 0, 0, 4]" by code_simp
  moreover have "be_bytes (from_be x) = enc32 x" for x
    by (simp add: be_bytes_def from_be_def to_be_def enc32_of_le_nat del: le_nat.simps)
  moreover have "enc32 (ne_daddr demo_connection) = [10, 0, 0, 7]"
    by (simp add: demo_connection_def enc32_bytes word_eq_iff_unsigned)
  ultimately have "''10.0.0.4'' \<noteq> ipv4_string (from_be (ne_daddr demo_connection))"
    using parse_v4_string [of "from_be (ne_daddr demo_connection)"] by force
  then have "fst (?b \<lparr>pod_name = ''web-0'', pod_namespace = Some ''prod'', pod_ip = ''10.0.0.4''\<rparr>) \<noteq> None"
    by (simp add: build_traffic_event_def demo_connection_def KIND_INGRESS_TCP_def KIND_EGRESS_TCP_def Let_def)
  then obtain r cache where r: "?b (pi_status p) = (Some r, cache)" using status by (cases "?b (pi_status p)") auto
  have "\<forall>(env, pod) \<in> set ?evs. {''kube-system''} \<subseteq> set (we_excluded env) \<and> we_inode_open env"
    by (simp add: demo_watch_env_def)
  from rows_of_posted_pods [OF this refl] p r show ?thesis by blast
qed

text \<open>
  Pods on the network of their node have one namespace, and their rows are those of the pod that was processed
  last; an excluded pod does not replace the entry of the pod that had its namespace before.
\<close>

lemma shared_namespace_last_wins:
  assumes "entry_of env p = Some (i, a)" and "entry_of env q = Some (i, b)"
  shows "wa_container_map (watch_run [(env, p), (env, q)] w) i = Some b"
  using entry_of_pod [OF assms(2)] assms(2) by (auto simp: watch_pod_effect)

lemma excluded_pod_keeps_stale_entry:
  assumes "kp_namespace pod = Some ns" and "ns \<in> set (we_excluded env)"
  shows "wa_container_map (watch_pod env pod w) = wa_container_map w"
  using assms by (auto simp: watch_pod_effect entry_of_def should_process_pod_def split: option.split)

end
