(* ===== verification/Reconcile_Props.thy ===== *)
theory Reconcile_Props
  imports Watch_Props
begin

text \<open>
  The repeated passes of the controller and what they do to the broker's tables: the listing of pods, the
  reconciliation, and the token of the posts.
\<close>

section \<open>Repeated upserts\<close>

text \<open>Changes that compose, and that a row makes to itself without effect.\<close>

locale upsert_band = upsert key changes ok
  for key :: "'a \<Rightarrow> string" and changes :: "'a \<Rightarrow> 'a \<Rightarrow> 'a" and ok :: "'a \<Rightarrow> bool" +
  assumes changes_changes: "changes v (changes w d) = changes (changes v w) d"
    and changes_self: "changes w w = w"
begin

lemma fold_changes: "fold changes ws (changes w d) = changes (fold changes ws w) d"
  by (induction ws arbitrary: w) (simp_all add: changes_changes)

lemma fold_changes_again: "fold changes ws (fold changes ws d) = fold changes ws d"
proof (cases ws)
  case (Cons w ws')
  have all: "fold changes ws d = changes (fold changes ws' w) d" for d by (simp add: Cons fold_changes)
  show ?thesis by (simp add: all changes_changes changes_self)
qed simp

lemma fold_changes_first: "fold changes (w # ws) (fold changes ws w) = fold changes ws w"
  by (simp add: fold_changes changes_self)

lemma key_fold: "key (fold changes ws d) = key d"
  by (induction ws arbitrary: d) (simp_all add: key_kept)

lemma lookup_fold:
  "filter (\<lambda>d. key d = k) (fold (upsert_row key changes) ws tbl) =
    (let found = filter (\<lambda>d. key d = k) tbl; posts = filter (\<lambda>w. key w = k) ws
     in if found = [] then (case posts of [] \<Rightarrow> [] | w # rest \<Rightarrow> [fold changes rest w]) else map (fold changes posts) found)"
proof (induction ws arbitrary: tbl)
  case (Cons w ws)
  show ?case
  proof (cases "key w = k")
    case True
    have "filter (\<lambda>d. key d = k) (upsert_row key changes w tbl) =
        (let found = filter (\<lambda>d. key d = k) tbl in if found = [] then [w] else map (changes w) found)"
      using lookup_same [of w tbl] True by simp
    then show ?thesis using True by (simp add: Cons.IH Let_def comp_def)
  next
    case False
    then have "filter (\<lambda>d. key d = k) (upsert_row key changes w tbl) = filter (\<lambda>d. key d = k) tbl" by (metis lookup_other)
    then show ?thesis using False by (simp add: Cons.IH)
  qed
qed (simp add: Let_def)

lemma keys_fold:
  "key ` set ws \<subseteq> key ` set tbl \<Longrightarrow> map key (fold (upsert_row key changes) ws tbl) = map key tbl"
proof (induction ws arbitrary: tbl)
  case (Cons w ws)
  then have "\<exists>d \<in> set tbl. key d = key w" by (auto simp: image_iff)
  then have *: "map key (upsert_row key changes w tbl) = map key tbl" by (simp add: keys)
  then have "key ` set (upsert_row key changes w tbl) = key ` set tbl" by (metis list.set_map)
  then show ?case using Cons * by simp
qed simp

lemma fold_distinct: "distinct (map key tbl) \<Longrightarrow> distinct (map key (fold (upsert_row key changes) ws tbl))"
  by (induction ws arbitrary: tbl) (simp_all add: upsert_distinct)

lemma fold_keys_in: "key ` set ws \<union> key ` set tbl \<subseteq> key ` set (fold (upsert_row key changes) ws tbl)"
proof (induction ws arbitrary: tbl)
  case (Cons w ws)
  have "set (map key (upsert_row key changes w tbl)) = insert (key w) (key ` set tbl)"
    by (cases "\<exists>d \<in> set tbl. key d = key w") (simp_all only: keys if_True if_False, auto simp: rev_image_eqI)
  then show ?case using Cons [of "upsert_row key changes w tbl"] by auto
qed simp

end

lemma keyed_lists_eq:
  "map key a = map key b \<Longrightarrow> distinct (map key a) \<Longrightarrow> \<forall>k. filter (\<lambda>d. key d = k) a = filter (\<lambda>d. key d = k) b \<Longrightarrow> a = b"
proof (induction a arbitrary: b)
  case (Cons x a)
  then obtain y b' where b: "b = y # b'" "key x = key y" "map key a = map key b'" by (cases b) auto
  have fresh: "filter (\<lambda>d. key d = key x) a = []" "filter (\<lambda>d. key d = key x) b' = []"
  proof -
    have "key x \<notin> set (map key a)" using Cons.prems(2) by simp
    then have "\<forall>d \<in> set a. key d \<noteq> key x" "\<forall>d \<in> set b'. key d \<noteq> key x" using b(3) by (metis image_eqI list.set_map)+
    then show "filter (\<lambda>d. key d = key x) a = []" "filter (\<lambda>d. key d = key x) b' = []" by simp_all
  qed
  have "x = y" using Cons.prems(3) [rule_format, of "key x"] fresh b by simp
  moreover have "filter (\<lambda>d. key d = k) a = filter (\<lambda>d. key d = k) b'" for k
    using Cons.prems(3) [rule_format, of k] fresh b by (cases "k = key x") (simp_all split: if_splits)
  ultimately show ?case using Cons.IH [of b'] Cons.prems(2) b by simp
qed simp

context upsert_band begin

lemma upsert_again:
  assumes "distinct (map key tbl)"
  shows "fold (upsert_row key changes) ws (fold (upsert_row key changes) ws tbl) = fold (upsert_row key changes) ws tbl"
proof (rule keyed_lists_eq)
  let ?t = "fold (upsert_row key changes) ws tbl"
  show "map key (fold (upsert_row key changes) ws ?t) = map key ?t" using fold_keys_in [of ws tbl] by (intro keys_fold) auto
  then show "distinct (map key (fold (upsert_row key changes) ws ?t))" using fold_distinct [OF assms] by simp
  show "\<forall>k. filter (\<lambda>d. key d = k) (fold (upsert_row key changes) ws ?t) = filter (\<lambda>d. key d = k) ?t"
  proof
    fix k
    show "filter (\<lambda>d. key d = k) (fold (upsert_row key changes) ws ?t) = filter (\<lambda>d. key d = k) ?t"
      unfolding lookup_fold [of k ws ?t]
      by (simp add: lookup_fold [of k ws tbl] Let_def fold_changes_again comp_def fold_changes changes_self split: list.split)
  qed
qed

end

interpretation details_band: upsert_band dt_pod_name details_changeset details_ok
  by unfold_locales (auto simp: details_changeset_def set_some_def split: option.splits)

section \<open>Listing again\<close>

definition store_posts :: "pod_details_row list \<Rightarrow> database \<Rightarrow> database" where
  "store_posts posts db = fold (\<lambda>d db. snd (add_pod_details True d db)) posts db"

definition posts_of :: "watch_env \<Rightarrow> kube_pod list \<Rightarrow> pod_details_row list" where
  "posts_of env pods = List.map_filter (\<lambda>pod. map_option (pod_detail env pod) (ready_address pod)) pods"

definition untimed :: "pod_details_row \<Rightarrow> pod_details_row" where
  "untimed d = d\<lparr>dt_time_stamp := 0\<rparr>"

lemma map_filter_Cons [simp]: "List.map_filter f (x # xs) = (case f x of None \<Rightarrow> List.map_filter f xs | Some y \<Rightarrow> y # List.map_filter f xs)"
  "List.map_filter f [] = []"
  by (simp_all add: List.map_filter_def split: option.split)

lemma entry_of_ready: "ready_address pod = None \<Longrightarrow> entry_of env pod = None"
  by (simp add: entry_of_def)

lemma resync_pass_posts: "wa_posts (resync_pass env (Some pods) w) = wa_posts w @ posts_of env pods"
  unfolding resync_pass_def option.case
proof (induction pods arbitrary: w)
  case (Cons pod pods)
  show ?case
    by (cases "ready_address pod") (simp_all add: Cons.IH watch_pod_effect [of env pod w] posts_of_def)
qed (simp add: posts_of_def)

lemma resync_pass_map:
  "wa_container_map (resync_pass env (Some pods) w) = wa_container_map w ++ map_of (rev (List.map_filter (entry_of env) pods))"
  unfolding resync_pass_def option.case
proof (induction pods arbitrary: w)
  case (Cons pod pods)
  show ?case
    by (cases "ready_address pod"; cases "entry_of env pod")
      (auto simp: Cons.IH watch_pod_effect [of env pod w] entry_of_ready)
qed simp

lemma store_posts_table:
  "tbl_details (store_posts ps db) =
     fold (upsert_row dt_pod_name details_changeset) (map compact_row (filter (\<lambda>d. trim (dt_pod_name d) \<noteq> []) ps)) (tbl_details db)"
proof (induction ps arbitrary: db)
  case (Cons p ps)
  have "tbl_details (snd (add_pod_details True p db)) = (if trim (dt_pod_name p) = [] then tbl_details db
      else upsert_row dt_pod_name details_changeset (compact_row p) (tbl_details db))"
    by (simp add: add_pod_details_def upsert_pod_details_def Let_def)
  then show ?case using Cons [of "snd (add_pod_details True p db)"] by (simp add: store_posts_def)
qed (simp add: store_posts_def)

lemma untimed_sel: "dt_pod_name (untimed d) = dt_pod_name d" "untimed (details_changeset w d) = details_changeset (untimed w) (untimed d)"
  "untimed (compact_row d) = compact_row (untimed d)"
  by (simp_all add: untimed_def details_changeset_def compact_row_def)

lemma untimed_upsert: "map untimed (upsert_row dt_pod_name details_changeset w tbl) =
    upsert_row dt_pod_name details_changeset (untimed w) (map untimed tbl)"
  by (auto simp: upsert_row_def untimed_sel)

lemma untimed_fold: "map untimed (fold (upsert_row dt_pod_name details_changeset) ws tbl) =
    fold (upsert_row dt_pod_name details_changeset) (map untimed ws) (map untimed tbl)"
  by (induction ws arbitrary: tbl) (simp_all add: untimed_upsert)

lemma untimed_later: "map untimed (posts_of (env\<lparr>we_now := later\<rparr>) pods) = map untimed (posts_of env pods)"
proof -
  have "untimed (pod_detail (env\<lparr>we_now := later\<rparr>) pod ip) = untimed (pod_detail env pod ip)" for pod ip
    by (simp add: pod_detail_def untimed_def split_def Let_def)
  then show ?thesis by (induction pods) (simp_all add: posts_of_def split: option.split)
qed

lemma entry_of_later: "entry_of (env\<lparr>we_now := later\<rparr>) = entry_of env"
  by (rule ext) (simp add: entry_of_def split: option.split)

text \<open>
  C20: Listing the pods again changes nothing.  A second pass over the same pods, at a later time, posts the
  same rows but for their time, leaves the map of watched namespaces as it is, and leaves the broker's
  table of pods as it is but for the time stamps, also when pods share a name or a namespace.
\<close>

theorem resync_idempotent:
  assumes "tables_ok db"
    and "w1 = resync_pass env (Some pods) w" and "w2 = resync_pass (env\<lparr>we_now := later\<rparr>) (Some pods) w1"
    and "wa_posts w1 = wa_posts w @ ps1" and "wa_posts w2 = wa_posts w1 @ ps2"
  shows "wa_container_map w2 = wa_container_map w1 \<and> map untimed ps2 = map untimed ps1
    \<and> map untimed (tbl_details (store_posts ps2 (store_posts ps1 db))) = map untimed (tbl_details (store_posts ps1 db))"
proof (intro conjI)
  have ps: "ps1 = posts_of env pods" "ps2 = posts_of (env\<lparr>we_now := later\<rparr>) pods"
    using assms(2-5) by (simp_all add: resync_pass_posts)
  show "wa_container_map w2 = wa_container_map w1"
    unfolding assms(2,3) resync_pass_map entry_of_later by (auto simp: map_add_def split: option.split)
  show same: "map untimed ps2 = map untimed ps1" unfolding ps by (rule untimed_later)
  let ?f = "\<lambda>ps. map compact_row (filter (\<lambda>d. trim (dt_pod_name d) \<noteq> []) ps)"
  have f: "map untimed (?f ps) = ?f (map untimed ps)" for ps
    by (induction ps) (simp_all add: untimed_sel)
  have "distinct (map dt_pod_name (map untimed (tbl_details db)))" using assms(1) by (simp add: tables_ok_def comp_def untimed_sel)
  from details_band.upsert_again [OF this, of "?f (map untimed ps1)"]
  show "map untimed (tbl_details (store_posts ps2 (store_posts ps1 db))) = map untimed (tbl_details (store_posts ps1 db))"
    by (simp only: store_posts_table untimed_fold f same)
qed

theorem resync_idempotent_witness:
  "let pods = [demo_watched ''prod'' ''web-0'' ''10.0.0.4'' ''a1'', demo_watched ''test'' ''web-0'' ''10.0.0.5'' ''b2''];
       w1 = resync_pass demo_watch_env (Some pods) watcher_start;
       w2 = resync_pass (demo_watch_env\<lparr>we_now := 67\<rparr>) (Some pods) w1
   in length (wa_posts w1) = 2 \<and> wa_container_map w1 4026532001 \<noteq> None \<and> wa_container_map w2 = wa_container_map w1
    \<and> map untimed (tbl_details (store_posts (drop 2 (wa_posts w2)) (store_posts (wa_posts w1) empty_database)))
      = map untimed (tbl_details (store_posts (wa_posts w1) empty_database))"
proof -
  let ?a = "demo_watched ''prod'' ''web-0'' ''10.0.0.4'' ''a1''" and ?b = "demo_watched ''test'' ''web-0'' ''10.0.0.5'' ''b2''"
  let ?w1 = "resync_pass demo_watch_env (Some [?a, ?b]) watcher_start"
  let ?w2 = "resync_pass (demo_watch_env\<lparr>we_now := 67\<rparr>) (Some [?a, ?b]) ?w1"
  have ready: "ready_address ?a = Some ''10.0.0.4''" "ready_address ?b = Some ''10.0.0.5''" by code_simp+
  have entry: "map_option fst (entry_of demo_watch_env ?b) = Some 4026531840" by code_simp
  have start: "wa_posts watcher_start = []" "wa_container_map watcher_start = Map.empty" by (simp_all add: watcher_start_def)
  have len: "length (posts_of env [?a, ?b]) = 2" for env by (simp add: posts_of_def ready)
  have posts: "wa_posts ?w1 = posts_of demo_watch_env [?a, ?b]"
    "wa_posts ?w2 = wa_posts ?w1 @ drop 2 (wa_posts ?w2)"
    by (simp_all add: resync_pass_posts start len)
  have "wa_container_map ?w1 4026532001 \<noteq> None"
    using entry unfolding resync_pass_map by (simp add: demo_entry map_add_def start split: option.splits)
  then show ?thesis
    using resync_idempotent [OF tables_ok_empty refl refl _ posts(2), of "wa_posts ?w1"] posts(1) len start by (simp add: Let_def)
qed

section \<open>Reconciliation\<close>

text \<open>The requests of a pass at the broker; \<open>ok\<close> tells for which pods they succeed.\<close>

definition mark_all :: "(string \<Rightarrow> bool) \<Rightarrow> (string \<times> string) list \<Rightarrow> database \<Rightarrow> database" where
  "mark_all ok marks db = fold (\<lambda>(pod, ip) db. snd (mark_pod_dead (ok pod) pod (Some ip) db)) marks db"

definition kill :: "(pod_details_row \<Rightarrow> bool) \<Rightarrow> pod_details_row \<Rightarrow> pod_details_row" where
  "kill gone d = (if gone d then d\<lparr>dt_is_dead := True\<rparr> else d)"

lemma kill_sel [simp]: "dt_pod_name (kill g d) = dt_pod_name d" "dt_pod_ip (kill g d) = dt_pod_ip d"
  by (simp_all add: kill_def)

lemma kill_none [simp]: "map (kill (\<lambda>d. False)) tbl = tbl"
  by (simp add: kill_def map_idI)

lemma mark_row:
  assumes "distinct (map dt_pod_name (tbl_details db))" and "r \<in> set (tbl_details db)" and "dt_pod_name r = pod" and "dt_pod_ip r = ip"
    and "trim pod = pod" and "pod \<noteq> []" and "trim ip = ip"
  shows "snd (mark_pod_dead ok pod (Some ip) db) = db\<lparr>tbl_details := map (kill (\<lambda>d. ok \<and> dt_pod_name d = pod)) (tbl_details db)\<rparr>"
proof -
  have only: "dt_pod_name d = pod \<longleftrightarrow> dt_pod_name d = pod \<and> dt_pod_ip d = ip" if "d \<in> set (tbl_details db)" for d
    using assms(1-4) that by (metis distinct_map inj_onD)
  have "(if dt_pod_name d = pod \<and> dt_pod_ip d = ip then d\<lparr>dt_is_dead := True\<rparr> else d) = kill (\<lambda>d. dt_pod_name d = pod) d"
    if "d \<in> set (tbl_details db)" for d
    using only [OF that] by (simp add: kill_def)
  then have *: "map (\<lambda>d. if dt_pod_name d = pod \<and> dt_pod_ip d = ip then d\<lparr>dt_is_dead := True\<rparr> else d) (tbl_details db) =
      map (kill (\<lambda>d. dt_pod_name d = pod)) (tbl_details db)" by (rule map_cong [OF refl])
  show ?thesis
  proof (cases ok)
    case True
    have hit: "mark_pod_as_dead True pod (Some ip) (tbl_details db) =
        Some (length (filter (\<lambda>d. dt_pod_name d = pod \<and> (ip = [] \<or> dt_pod_ip d = ip)) (tbl_details db)),
          map (\<lambda>d. if dt_pod_name d = pod \<and> (ip = [] \<or> dt_pod_ip d = ip) then d\<lparr>dt_is_dead := True\<rparr> else d) (tbl_details db))"
      using assms(5-7) by (cases "ip = []") (simp_all add: mark_pod_as_dead_def normalise_empty_to_none_def)
    have "map (\<lambda>d. if dt_pod_name d = pod \<and> (ip = [] \<or> dt_pod_ip d = ip) then d\<lparr>dt_is_dead := True\<rparr> else d) (tbl_details db) =
        map (kill (\<lambda>d. dt_pod_name d = pod)) (tbl_details db)"
      using * by (cases "ip = []") (simp_all add: kill_def [abs_def])
    then show ?thesis using True hit by (simp add: mark_pod_dead_def)
  next
    case False
    then show ?thesis using assms(5-7) by (simp add: mark_pod_dead_def mark_pod_as_dead_def)
  qed
qed

lemma mark_all_rows:
  assumes "distinct (map dt_pod_name (tbl_details db))"
    and "\<forall>(pod, ip) \<in> set marks. (\<exists>r \<in> set (tbl_details db). dt_pod_name r = pod \<and> dt_pod_ip r = ip) \<and> trim pod = pod \<and> pod \<noteq> [] \<and> trim ip = ip"
  shows "mark_all ok marks db =
    db\<lparr>tbl_details := map (kill (\<lambda>d. dt_pod_name d \<in> fst ` set marks \<and> ok (dt_pod_name d))) (tbl_details db)\<rparr>"
  using assms
proof (induction marks arbitrary: db)
  case Nil
  show ?case by (simp add: mark_all_def)
next
  case (Cons m marks)
  obtain pod ip where m: "m = (pod, ip)" by fastforce
  let ?db = "db\<lparr>tbl_details := map (kill (\<lambda>d. ok pod \<and> dt_pod_name d = pod)) (tbl_details db)\<rparr>"
  from Cons.prems(2) m obtain r where r: "r \<in> set (tbl_details db)" "dt_pod_name r = pod" "dt_pod_ip r = ip" "trim pod = pod" "pod \<noteq> []" "trim ip = ip"
    by auto
  have step: "mark_all ok (m # marks) db = mark_all ok marks ?db"
    using mark_row [OF Cons.prems(1) r] by (simp add: mark_all_def m)
  have "distinct (map dt_pod_name (tbl_details ?db))" using Cons.prems(1) by (simp add: comp_def)
  moreover have "\<forall>(pod, ip) \<in> set marks. (\<exists>r \<in> set (tbl_details ?db). dt_pod_name r = pod \<and> dt_pod_ip r = ip) \<and> trim pod = pod \<and> pod \<noteq> [] \<and> trim ip = ip"
    using Cons.prems(2) by fastforce
  ultimately have rest: "mark_all ok marks ?db =
      ?db\<lparr>tbl_details := map (kill (\<lambda>d. dt_pod_name d \<in> fst ` set marks \<and> ok (dt_pod_name d))) (tbl_details ?db)\<rparr>"
    by (rule Cons.IH)
  have "kill (\<lambda>d. dt_pod_name d \<in> fst ` set marks \<and> ok (dt_pod_name d)) (kill (\<lambda>d. ok pod \<and> dt_pod_name d = pod) d) =
      kill (\<lambda>d. dt_pod_name d \<in> fst ` set (m # marks) \<and> ok (dt_pod_name d)) d" for d
    by (auto simp: kill_def m)
  then show ?case unfolding step rest by (simp add: comp_def)
qed

text \<open>
  C18: A reconciliation marks exactly the pods that are gone.  On tables of the broker, with names and addresses
  free of blanks, a pass marks dead the rows of its node that are alive and whose namespace and name are not
  in the listing, as far as their requests succeed, and changes nothing else; a pass without an answer of
  the broker or of the API server marks nothing.
\<close>

theorem reconciliation_exact:
  assumes "tables_ok db"
    and "\<forall>d \<in> set (tbl_details db). trim (dt_pod_name d) = dt_pod_name d \<and> trim (dt_pod_ip d) = dt_pod_ip d"
    and "get_pods_by_node coll True node db = Answer rows"
  shows "\<exists>marks. reconcile_pods (Some rows) (Some listing) = Some marks
    \<and> mark_all ok marks db = db\<lparr>tbl_details :=
        map (\<lambda>d. if dt_node_name d = node \<and> \<not> dt_is_dead d \<and> (dt_pod_namespace d, dt_pod_name d) \<notin> running_pods listing
                    \<and> ok (dt_pod_name d)
                  then d\<lparr>dt_is_dead := True\<rparr> else d) (tbl_details db)\<rparr>
    \<and> reconcile_pods None (Some listing) = None \<and> reconcile_pods (Some rows) None = None"
proof (intro exI conjI)
  let ?gone = "find_dead_pod_details rows (running_pods listing)"
  let ?marks = "map (\<lambda>p. (dt_pod_name p, dt_pod_ip p)) ?gone"
  show "reconcile_pods (Some rows) (Some listing) = Some ?marks" by (simp add: reconcile_pods_def)
  have rows: "d \<in> set rows \<longleftrightarrow> d \<in> set (tbl_details db) \<and> dt_node_name d = node \<and> \<not> dt_is_dead d" for d
    using assms(3) by (auto simp: get_pods_by_node_def answer_rows_def pods_by_node_def set_sort)
  have names: "distinct (map dt_pod_name (tbl_details db))" "\<forall>d \<in> set (tbl_details db). trim (dt_pod_name d) \<noteq> []"
    using assms(1) by (auto simp: tables_ok_def details_ok_def)
  have "\<forall>(pod, ip) \<in> set ?marks. (\<exists>r \<in> set (tbl_details db). dt_pod_name r = pod \<and> dt_pod_ip r = ip) \<and> trim pod = pod \<and> pod \<noteq> [] \<and> trim ip = ip"
    using assms(2) names(2) by (fastforce simp: find_dead_pod_details_def rows)
  note all = mark_all_rows [OF names(1) this, of ok]
  have "kill (\<lambda>d. dt_pod_name d \<in> fst ` set ?marks \<and> ok (dt_pod_name d)) d =
      (if dt_node_name d = node \<and> \<not> dt_is_dead d \<and> (dt_pod_namespace d, dt_pod_name d) \<notin> running_pods listing \<and> ok (dt_pod_name d)
       then d\<lparr>dt_is_dead := True\<rparr> else d)" if d: "d \<in> set (tbl_details db)" for d
  proof -
    have "dt_pod_name d \<in> fst ` set ?marks \<longleftrightarrow> d \<in> set ?gone"
    proof
      assume "dt_pod_name d \<in> fst ` set ?marks"
      then obtain x where x: "x \<in> set ?gone" "dt_pod_name x = dt_pod_name d" by auto
      then have "x \<in> set (tbl_details db)" by (simp add: find_dead_pod_details_def rows)
      then have "x = d" using x(2) d names(1) by (metis distinct_map inj_onD)
      then show "d \<in> set ?gone" using x(1) by simp
    qed (simp add: image_image)
    then show ?thesis using d by (auto simp: kill_def find_dead_pod_details_def rows)
  qed
  then show "mark_all ok ?marks db = db\<lparr>tbl_details :=
        map (\<lambda>d. if dt_node_name d = node \<and> \<not> dt_is_dead d \<and> (dt_pod_namespace d, dt_pod_name d) \<notin> running_pods listing
                    \<and> ok (dt_pod_name d)
                  then d\<lparr>dt_is_dead := True\<rparr> else d) (tbl_details db)\<rparr>"
    unfolding all by (simp cong: map_cong)
qed (simp_all add: reconcile_pods_def split: option.split)

theorem reconciliation_exact_witness:
  "let db = empty_database\<lparr>tbl_details := [details_row ''web-0'' ''10.0.0.4'', details_row ''job-1'' ''10.0.0.5'']\<rparr>
   in \<exists>rows marks. get_pods_by_node (<) True ''node-1'' db = Answer rows
    \<and> reconcile_pods (Some rows) (Some [demo_watched ''shop'' ''web-0'' ''10.0.0.4'' ''a1'', demo_watched ''test'' ''job-1'' ''10.0.0.6'' ''b2'']) = Some marks
    \<and> tbl_details (mark_all (\<lambda>_. True) marks db) = [details_row ''web-0'' ''10.0.0.4'', (details_row ''job-1'' ''10.0.0.5'')\<lparr>dt_is_dead := True\<rparr>]"
proof -
  let ?db = "empty_database\<lparr>tbl_details := [details_row ''web-0'' ''10.0.0.4'', details_row ''job-1'' ''10.0.0.5'']\<rparr>"
  let ?pods = "[demo_watched ''shop'' ''web-0'' ''10.0.0.4'' ''a1'', demo_watched ''test'' ''job-1'' ''10.0.0.6'' ''b2'']"
  have plain: "trim ''web-0'' = ''web-0''" "trim ''job-1'' = ''job-1''" "trim ''10.0.0.4'' = ''10.0.0.4''" "trim ''10.0.0.5'' = ''10.0.0.5''"
    by code_simp+
  have ok: "tables_ok ?db" by (simp add: tables_ok_def empty_database_def details_ok_def details_row_def plain)
  have trimmed: "\<forall>d \<in> set (tbl_details ?db). trim (dt_pod_name d) = dt_pod_name d \<and> trim (dt_pod_ip d) = dt_pod_ip d"
    by (simp add: details_row_sel plain)
  have running: "running_pods ?pods = {(Some ''shop'', ''web-0''), (Some ''test'', ''job-1'')}"
    by (simp add: running_pods_def demo_watched_def)
  obtain rows where rows: "get_pods_by_node (<) True ''node-1'' ?db = Answer rows"
    by (simp add: get_pods_by_node_def answer_rows_def)
  from reconciliation_exact [OF ok trimmed rows, of ?pods "\<lambda>_. True"]
  obtain marks where marks: "reconcile_pods (Some rows) (Some ?pods) = Some marks"
    "tbl_details (mark_all (\<lambda>_. True) marks ?db) = [details_row ''web-0'' ''10.0.0.4'', (details_row ''job-1'' ''10.0.0.5'')\<lparr>dt_is_dead := True\<rparr>]"
    unfolding running by (auto simp: details_row_def)
  then show ?thesis unfolding Let_def using rows by blast
qed

section \<open>The token\<close>

text \<open>The list of pods is asked for without the token.\<close>

lemma fetch_pods_unauthorised:
  assumes "auth_token var \<noteq> None" shows "fetch_pods (auth_token var) coll ok node db = None"
  using assms by (auto simp: fetch_pods_def require_bearer_def is_exempt_def bearer_ok_def list_request_def split: option.split)

text \<open>The paths the controller posts to, and the request as the broker gets it: the bytes of the header arrive as
  they were sent, and it is up to the broker to read them.\<close>

definition post_paths :: "string list" where
  "post_paths = [''pod/spec'', ''pod/mark_dead'', ''svc/spec'', ''pod/traffic/batch'', ''pod/syscalls'']"

definition received_post :: "string \<Rightarrow> post_request \<Rightarrow> http_request" where
  "received_post path r = \<lparr>hr_method = ''POST'', hr_path = ''/'' @ path, hr_authorization = po_authorization r\<rparr>"

text \<open>
  C39: The controller's posts pass the broker's access check exactly when the broker has no token, or both have
  the same and it is visible ASCII, whatever blanks their variables carry; a token with any other byte is taken
  from the environment on both sides, but no request with it ever passes.  Slashes at the end of the endpoint or
  the start of the path do not change the address of the post.  The list of pods is requested without a token:
  at a broker with one the reconciliation always fails and marks nothing.
\<close>

theorem posts_authorised:
  assumes "post_of env to_vec v path = Inr r" and "path \<in> set post_paths"
  shows "(require_bearer (auth_token var) (received_post path r) \<longleftrightarrow>
      auth_token var = None \<or>
      (\<exists>t. auth_token var = Some t \<and> auth_token (ce_BROKER_AUTH_TOKEN env) = Some t \<and> list_all visible_ascii t))
    \<and> (\<exists>endpoint. auth_token (ce_API_ENDPOINT env) = Some endpoint \<and> po_url r = build_url endpoint path
        \<and> build_url (endpoint @ replicate n CHR ''/'') (replicate m CHR ''/'' @ path) = po_url r)
    \<and> (auth_token var \<noteq> None \<longrightarrow> reconcile_pods (fetch_pods (auth_token var) coll ok node db) listing = None)"
proof (intro conjI impI)
  have path: "''/'' @ path \<noteq> ''/health''" "''/'' @ path \<noteq> ''/metrics''" using assms(2) by (auto simp: post_paths_def)
  have header: "po_authorization r = map_option (\<lambda>t. ''Bearer '' @ t) (auth_token (ce_BROKER_AUTH_TOKEN env))"
    using assms(1) by (auto simp: post_of_def broker_auth_token_def nonblank_var_auth_token split: option.splits)
  have "bearer_ok (received_post path r) e \<longleftrightarrow> auth_token (ce_BROKER_AUTH_TOKEN env) = Some e \<and> list_all visible_ascii e" for e
    using auth_token_trimmed [of "ce_BROKER_AUTH_TOKEN env"]
    by (cases "auth_token (ce_BROKER_AUTH_TOKEN env)") (auto simp: bearer_ok_iff received_post_def header)
  then show "require_bearer (auth_token var) (received_post path r) \<longleftrightarrow>
      auth_token var = None \<or>
      (\<exists>t. auth_token var = Some t \<and> auth_token (ce_BROKER_AUTH_TOKEN env) = Some t \<and> list_all visible_ascii t)"
    using path by (cases "auth_token var") (simp_all add: require_bearer_def is_exempt_def received_post_def)
  obtain endpoint where "auth_token (ce_API_ENDPOINT env) = Some endpoint" "po_url r = build_url endpoint path"
    using assms(1) by (auto simp: post_of_def nonblank_var_auth_token split: option.splits)
  then show "\<exists>endpoint. auth_token (ce_API_ENDPOINT env) = Some endpoint \<and> po_url r = build_url endpoint path
      \<and> build_url (endpoint @ replicate n CHR ''/'') (replicate m CHR ''/'' @ path) = po_url r"
    by (auto simp: build_url_slashes)
  show "reconcile_pods (fetch_pods (auth_token var) coll ok node db) listing = None" if "auth_token var \<noteq> None"
    using fetch_pods_unauthorised [OF that] by (simp add: reconcile_pods_def)
qed

definition demo_client_env :: client_env where
  "demo_client_env = \<lparr>ce_API_ENDPOINT = Some ''http://broker:9090/'', ce_BROKER_AUTH_TOKEN = Some '' s3cret ''\<rparr>"

text \<open>A token with an accent, in UTF-8.\<close>

definition accented :: string where
  "accented = ''caf'' @ [CHR 0xC3, CHR 0xA9]"

theorem posts_authorised_witness:
  "\<exists>r r'. post_of demo_client_env (\<lambda>_. Some []) JNull ''pod/spec'' = Inr r
    \<and> require_bearer (Some ''s3cret'') (received_post ''pod/spec'' r) \<and> \<not> require_bearer (Some ''other'') (received_post ''pod/spec'' r)
    \<and> po_url r = ''http://broker:9090/pod/spec''
    \<and> reconcile_pods (fetch_pods (Some ''s3cret'') (<) True ''node-1'' empty_database) (Some []) = None
    \<and> post_of (demo_client_env\<lparr>ce_BROKER_AUTH_TOKEN := Some accented\<rparr>) (\<lambda>_. Some []) JNull ''pod/spec'' = Inr r'
    \<and> \<not> require_bearer (Some accented) (received_post ''pod/spec'' r')"
proof -
  let ?url = "''http://broker:9090/''" and ?env = "demo_client_env\<lparr>ce_BROKER_AUTH_TOKEN := Some accented\<rparr>"
  have tokens: "auth_token (Some '' s3cret '') = Some ''s3cret''" "auth_token (Some ''s3cret'') = Some ''s3cret''"
    "auth_token (Some ''other'') = Some ''other''" "auth_token (Some ?url) = Some ?url"
    "auth_token (Some accented) = Some accented" by code_simp+
  have visible: "list_all visible_ascii ''s3cret''" "\<not> list_all visible_ascii accented" by code_simp+
  obtain r where r: "post_of demo_client_env (\<lambda>_. Some []) JNull ''pod/spec'' = Inr r"
    by (simp add: post_of_def nonblank_var_auth_token demo_client_env_def tokens)
  obtain r' where r': "post_of ?env (\<lambda>_. Some []) JNull ''pod/spec'' = Inr r'"
    by (simp add: post_of_def nonblank_var_auth_token demo_client_env_def tokens)
  have path: "''pod/spec'' \<in> set post_paths" by (simp add: post_paths_def)
  have url: "build_url ?url ''pod/spec'' = ''http://broker:9090/pod/spec''" by code_simp
  have env: "auth_token (ce_BROKER_AUTH_TOKEN demo_client_env) = Some ''s3cret''" "auth_token (ce_API_ENDPOINT demo_client_env) = Some ?url"
    by (simp_all add: demo_client_env_def tokens)
  note s3cret = posts_authorised [OF r path, of "Some ''s3cret''" _ _ "(<)" True "''node-1''" empty_database "Some []", unfolded env tokens]
    and other = posts_authorised [OF r path, of "Some ''other''", unfolded env tokens, THEN conjunct1]
    and accent = posts_authorised [OF r' path, of "Some accented", unfolded tokens, THEN conjunct1]
  have "require_bearer (Some ''s3cret'') (received_post ''pod/spec'' r)" using s3cret visible by blast
  moreover have "\<not> require_bearer (Some ''other'') (received_post ''pod/spec'' r)" using other by simp
  moreover have "po_url r = ''http://broker:9090/pod/spec''" using s3cret url by auto
  moreover have "reconcile_pods (fetch_pods (Some ''s3cret'') (<) True ''node-1'' empty_database) (Some []) = None"
    using s3cret by blast
  moreover have "\<not> require_bearer (Some accented) (received_post ''pod/spec'' r')" using accent visible by simp
  ultimately show ?thesis using r r' by blast
qed

end
