(* ===== verification/Network_Race.thy ===== *)
theory Network_Race
  imports Network_Props Event_Abi
begin

text \<open>
  The network probe on several CPUs at once.  The end of its three reporting programs
  (\<^verbatim>\<open>is_new_connection\<close>, then reserve, fill and submit in \<^verbatim>\<open>network_probe.bpf.c\<close>) is taken apart into the
  accesses to shared maps that another CPU can come between: the lookup, the update of a missing entry
  or the writes to an existing one, and the report.  What a program writes into an existing entry is read
  by no one; here it goes to the entry that is there at the time, if any.
\<close>

section \<open>Tasks and steps\<close>

text \<open>A task has passed the filters of its program, and would report its event.\<close>

datatype report_task =
    Looking network_event_data
  | Missing network_event_data
  | Found network_event_data
  | Announcing network_event_data

record race =
  rc_net :: net_state
  rc_task :: "nat \<Rightarrow> report_task option"

datatype race_act = Begin nat network_event_data | Advance nat bpf_env

definition touch_entry :: "u64 \<Rightarrow> conn_key \<Rightarrow> net_state \<Rightarrow> net_state" where
  "touch_entry now key s = (case connections s key of
     None \<Rightarrow> s
   | Some state \<Rightarrow> s\<lparr>connections := (connections s)(key \<mapsto>
       state\<lparr>cs_last_seen := now, cs_event_count := cs_event_count state + 1\<rparr>)\<rparr>)"

definition add_entry :: "conn_updater \<Rightarrow> u64 \<Rightarrow> conn_key \<Rightarrow> net_state \<Rightarrow> net_state" where
  "add_entry upd now key s =
     s\<lparr>connections := upd (connections s) key \<lparr>cs_first_seen = now, cs_last_seen = now, cs_event_count = 1\<rparr>\<rparr>"

definition set_task :: "nat \<Rightarrow> report_task option \<Rightarrow> race \<Rightarrow> race" where
  "set_task t task st = st\<lparr>rc_task := (rc_task st)(t := task)\<rparr>"

fun race_step :: "conn_updater \<Rightarrow> race_act \<Rightarrow> race \<Rightarrow> race" where
  "race_step upd (Begin t ev) st = (if rc_task st t = None then set_task t (Some (Looking ev)) st else st)"
| "race_step upd (Advance t e) st = (case rc_task st t of
     None \<Rightarrow> st
   | Some (Looking ev) \<Rightarrow>
       set_task t (Some (if connections (rc_net st) (event_key ev) = None then Missing ev else Found ev)) st
   | Some (Missing ev) \<Rightarrow>
       set_task t (Some (Announcing ev)) (st\<lparr>rc_net := add_entry upd (bpf_ktime_get_ns e) (event_key ev) (rc_net st)\<rparr>)
   | Some (Found ev) \<Rightarrow>
       set_task t None (st\<lparr>rc_net := touch_entry (bpf_ktime_get_ns e) (event_key ev) (rc_net st)\<rparr>)
   | Some (Announcing ev) \<Rightarrow>
       set_task t None (st\<lparr>rc_net := report_network_event e ev (rc_net st)\<rparr>))"

definition race_start :: "net_state \<Rightarrow> race" where
  "race_start s = \<lparr>rc_net = s, rc_task = (\<lambda>t. None)\<rparr>"

definition race_run :: "conn_updater \<Rightarrow> race_act list \<Rightarrow> race \<Rightarrow> race" where
  "race_run upd acts st = fold (race_step upd) acts st"

lemma race_run_simps [simp]: "race_run upd [] st = st" "race_run upd (a # acts) st = race_run upd acts (race_step upd a st)"
  by (simp_all add: race_run_def)

text \<open>A task that nothing comes between does what the program does in one step.\<close>

lemma uninterrupted:
  assumes "is_new_connection upd e (event_key ev) s = (isnew, s')"
  shows "race_run upd [Begin t ev, Advance t e, Advance t e, Advance t e] (race_start s) =
    race_start (if isnew then report_network_event e ev s' else s')"
  using assms
  by (cases "connections s (event_key ev)")
    (auto simp: race_start_def set_task_def is_new_connection_def add_entry_def touch_entry_def Let_def fun_eq_iff)

section \<open>Counting\<close>

definition announcing :: "conn_key \<Rightarrow> report_task option \<Rightarrow> nat" where
  "announcing k task = (case task of Some (Announcing ev) \<Rightarrow> if event_key ev = k then 1 else 0 | _ \<Rightarrow> 0)"

definition missing :: "conn_key \<Rightarrow> report_task option \<Rightarrow> nat" where
  "missing k task = (case task of Some (Missing ev) \<Rightarrow> if event_key ev = k then 1 else 0 | _ \<Rightarrow> 0)"

definition tasks_sum :: "(report_task option \<Rightarrow> nat) \<Rightarrow> nat \<Rightarrow> race \<Rightarrow> nat" where
  "tasks_sum f n st = (\<Sum>t<n. f (rc_task st t))"

lemma sum_set_task: "t < n \<Longrightarrow> tasks_sum f n (set_task t task st) + f (rc_task st t) = tasks_sum f n st + f task"
proof -
  assume t: "t < n"
  have "tasks_sum f n (set_task t task st) = f task + (\<Sum>i\<in>{..<n} - {t}. f (((rc_task st)(t := task)) i))"
    using t by (simp add: tasks_sum_def set_task_def sum.remove [of "{..<n}" t])
  moreover have "(\<Sum>i\<in>{..<n} - {t}. f (((rc_task st)(t := task)) i)) = (\<Sum>i\<in>{..<n} - {t}. f (rc_task st i))"
    by (rule sum.cong) auto
  moreover have "tasks_sum f n st = f (rc_task st t) + (\<Sum>i\<in>{..<n} - {t}. f (rc_task st i))"
    using t by (simp add: tasks_sum_def sum.remove [of "{..<n}" t])
  ultimately show ?thesis by simp
qed

lemma tasks_sum_net [simp]: "tasks_sum f n (st\<lparr>rc_net := s\<rparr>) = tasks_sum f n st"
  by (simp add: tasks_sum_def)

lemma set_task_sel [simp]: "rc_net (set_task t task st) = rc_net st" "rc_task (set_task t task st) = (rc_task st)(t := task)"
  by (simp_all add: set_task_def)

lemma tasks_bound:
  "tasks_sum (announcing k) n st + tasks_sum (missing k) n st \<le> n"
proof -
  have "announcing k x + missing k x \<le> 1" for x
    by (simp add: announcing_def missing_def split: option.split report_task.split)
  then have "(\<Sum>t<n. announcing k (rc_task st t) + missing k (rc_task st t)) \<le> (\<Sum>t<n. 1)" by (intro sum_mono) simp
  then show ?thesis by (simp add: tasks_sum_def sum.distrib)
qed

lemma report_counts:
  assumes "env_ok e" and "bpf_ringbuf_reserve e 24 = Some buf"
  shows "reports_for k (report_network_event e ev s) = reports_for k s + (if event_key ev = k then 1 else 0)"
    and "connections (report_network_event e ev s) = connections s"
proof -
  have "length buf = 24" using assms by (simp add: env_ok_def)
  then have "network_event_of_bytes (fill_network_event ev buf) = ev" by (rule network_event_roundtrip)
  then show "reports_for k (report_network_event e ev s) = reports_for k s + (if event_key ev = k then 1 else 0)"
    using assms(2) by (simp add: report_network_event_def layout_simps reports_for_def record_key_def bpf_ringbuf_submit_def)
  show "connections (report_network_event e ev s) = connections s"
    by (simp add: report_network_event_def split: option.split)
qed

section \<open>The invariant\<close>

text \<open>At most \<open>n\<close> tasks, and environments whose ring buffer has room.\<close>

definition fits_race :: "nat \<Rightarrow> race_act \<Rightarrow> bool" where
  "fits_race n a = (case a of
     Begin t ev \<Rightarrow> t < n
   | Advance t e \<Rightarrow> t < n \<and> env_ok e \<and> bpf_ringbuf_reserve e 24 \<noteq> None)"

definition race_ok :: "conn_key \<Rightarrow> nat \<Rightarrow> nat \<Rightarrow> race \<Rightarrow> bool" where
  "race_ok k n r0 st \<longleftrightarrow>
     (if connections (rc_net st) k = None
      then reports_for k (rc_net st) = r0 \<and> tasks_sum (announcing k) n st = 0
      else reports_for k (rc_net st) + tasks_sum (announcing k) n st + tasks_sum (missing k) n st \<le> r0 + n
        \<and> r0 < reports_for k (rc_net st) + tasks_sum (announcing k) n st)"

lemma add_entry_sel [simp]:
  "connections (add_entry upd now key s) = upd (connections s) key \<lparr>cs_first_seen = now, cs_last_seen = now, cs_event_count = 1\<rparr>"
  "reports_for k (add_entry upd now key s) = reports_for k s"
  by (simp_all add: add_entry_def reports_for_def)

lemma touch_entry_sel [simp]:
  "connections (touch_entry now key s) k = None \<longleftrightarrow> connections s k = None"
  "reports_for k (touch_entry now key s) = reports_for k s"
  by (auto simp: touch_entry_def reports_for_def split: option.split)

lemma race_step_ok:
  assumes "retains upd k" and "fits_race n a" and "race_ok k n r0 st"
  shows "race_ok k n r0 (race_step upd a st)"
proof (cases a)
  case (Begin t ev)
  then have t: "t < n" using assms(2) by (simp add: fits_race_def)
  show ?thesis
    using assms(3) sum_set_task [OF t, of "announcing k" "Some (Looking ev)" st] sum_set_task [OF t, of "missing k" "Some (Looking ev)" st]
    by (auto simp: Begin race_ok_def announcing_def missing_def)
next
  case (Advance t e)
  then obtain buf where t: "t < n" and e: "env_ok e" "bpf_ringbuf_reserve e 24 = Some buf"
    using assms(2) by (auto simp: fits_race_def)
  note sums = sum_set_task [OF t, of "announcing k"] sum_set_task [OF t, of "missing k"]
  show ?thesis
  proof (cases "rc_task st t")
    case None
    then show ?thesis using assms(3) by (simp add: Advance)
  next
    case (Some task)
    show ?thesis
    proof (cases task)
      case (Looking ev)
      let ?task = "Some (if connections (rc_net st) (event_key ev) = None then Missing ev else Found ev)"
      have "announcing k ?task = 0" "announcing k (rc_task st t) = 0" "missing k (rc_task st t) = 0"
        "connections (rc_net st) k \<noteq> None \<Longrightarrow> missing k ?task = 0"
        by (auto simp: announcing_def missing_def Some Looking)
      with sums [of ?task st] assms(3) show ?thesis by (auto simp: Advance Some Looking race_ok_def)
    next
      case (Missing ev)
      let ?s = "add_entry upd (bpf_ktime_get_ns e) (event_key ev) (rc_net st)"
      have known: "connections ?s k = None \<longleftrightarrow> event_key ev \<noteq> k \<and> connections (rc_net st) k = None"
        using assms(1) by (cases "event_key ev = k") (simp_all add: retains_def)
      have w: "announcing k (Some (Announcing ev)) = missing k (rc_task st t)" "announcing k (rc_task st t) = 0"
        "missing k (Some (Announcing ev)) = 0" "missing k (rc_task st t) = (if event_key ev = k then 1 else 0)"
        by (simp_all add: announcing_def missing_def Some Missing)
      show ?thesis
        using sums [of "Some (Announcing ev)" "st\<lparr>rc_net := ?s\<rparr>"] assms(3) w known tasks_bound [of k n st]
        by (auto simp: Advance Some Missing race_ok_def split: if_splits)
    next
      case (Found ev)
      have w: "announcing k None = 0" "announcing k (rc_task st t) = 0" "missing k None = 0" "missing k (rc_task st t) = 0"
        by (simp_all add: announcing_def missing_def Some Found)
      show ?thesis
        using sums [of None "st\<lparr>rc_net := touch_entry (bpf_ktime_get_ns e) (event_key ev) (rc_net st)\<rparr>"] assms(3) w
        by (auto simp: Advance Some Found race_ok_def)
    next
      case (Announcing ev)
      let ?s = "report_network_event e ev (rc_net st)"
      have w: "announcing k None = 0" "announcing k (rc_task st t) = (if event_key ev = k then 1 else 0)" "missing k None = 0"
        "missing k (rc_task st t) = 0"
        by (simp_all add: announcing_def missing_def Some Announcing)
      show ?thesis
        using sums [of None "st\<lparr>rc_net := ?s\<rparr>"] assms(3) w report_counts(1) [OF e, where k = k and ev = ev and s = "rc_net st"]
          report_counts(2) [OF e, where ev = ev and s = "rc_net st"]
        by (auto simp: Advance Some Announcing race_ok_def split: if_splits)
    qed
  qed
qed

lemma race_run_ok:
  "retains upd k \<Longrightarrow> \<forall>a \<in> set acts. fits_race n a \<Longrightarrow> race_ok k n r0 st \<Longrightarrow> race_ok k n r0 (race_run upd acts st)"
  by (induction acts arbitrary: st) (simp_all add: race_step_ok)

text \<open>
  C3: racing programs report a connection.  When at most \<open>n\<close> runs of the probe's programs are under way
  at once, in any interleaving of their accesses to the maps, while the table keeps the entry of a connection
  and the ring buffer has room: the connection is reported at most \<open>n\<close> times in all; its entry is in the
  table only if a report of it is made or is about to be made; so when the programs have ended, it has
  been reported at least once if it has an entry.
\<close>

theorem racing_reports:
  assumes "retains upd k" and "connections s k = None" and "\<forall>a \<in> set acts. fits_race n a"
    and "st = race_run upd acts (race_start s)"
  shows "reports_for k (rc_net st) \<le> reports_for k s + n
    \<and> (connections (rc_net st) k \<noteq> None \<and> rc_task st = (\<lambda>t. None) \<longrightarrow> reports_for k s < reports_for k (rc_net st))
    \<and> (connections (rc_net st) k = None \<longrightarrow> reports_for k (rc_net st) = reports_for k s)"
proof -
  have zero: "tasks_sum (announcing k) n (race_start s) = 0"
    by (simp add: tasks_sum_def race_start_def announcing_def)
  have "race_ok k n (reports_for k s) (race_start s)"
    using assms(2) zero by (simp add: race_ok_def) (simp add: race_start_def)
  then have ok: "race_ok k n (reports_for k s) st"
    unfolding assms(4) by (rule race_run_ok [OF assms(1,3)])
  moreover have "tasks_sum (announcing k) n st = 0" if "rc_task st = (\<lambda>t. None)"
    by (simp add: tasks_sum_def that announcing_def)
  ultimately show ?thesis by (auto simp: race_ok_def split: if_splits)
qed

text \<open>Two CPUs that look before either has added the entry: both report.\<close>

definition race_event :: network_event_data where
  "race_event = conn_event 3 4026531840 demo_client"

definition two_lookups :: "race_act list" where
  "two_lookups = (let e = demo_env demo_client 4026531840
     in [Begin 0 race_event, Begin 1 race_event, Advance 0 e, Advance 1 e, Advance 0 e, Advance 1 e, Advance 0 e, Advance 1 e])"

theorem racing_reports_witness:
  "reports_for (event_key race_event) (rc_net (race_run no_evict two_lookups (race_start net_init))) = 2
   \<and> reports_for (event_key race_event) net_init + 2 = 2"
proof -
  let ?k = "event_key race_event"
  let ?st = "race_run no_evict two_lookups (race_start net_init)"
  have empty: "connections net_init = Map.empty" "network_events net_init = []" by (simp_all add: net_init_def)
  have fits: "\<forall>a \<in> set two_lookups. fits_race 2 a"
    by (simp add: two_lookups_def fits_race_def env_ok_def demo_env_def Let_def)
  note bound = racing_reports [OF no_evict_retains [of ?k] _ fits refl, of net_init]
  have "2 \<le> reports_for ?k (rc_net ?st)"
    using report_counts(1) [of "demo_env demo_client 4026531840" "replicate 24 0" ?k race_event]
    by (simp add: two_lookups_def race_start_def set_task_def Let_def empty env_ok_def demo_env_def)
  then show ?thesis using bound by (simp add: empty reports_for_def)
qed

end
