(* ===== verification/Path_Props.thy ===== *)
theory Path_Props
  imports Network_Race Watch_Props Broker_Props
begin

text \<open>
  The whole path of an observation: from a pod that the watcher meets and a datagram of it in the kernel,
  through the controller's row, the broker's table and the advisor's policy, to the evaluator's verdict.
\<close>

section \<open>From a socket to the controller\<close>

text \<open>
  Once the controller has passed a pod's namespace to the network probe, the first datagram of that pod
  to a new, unfiltered destination makes exactly one event arrive at the controller's callback, with
  the addresses and ports of the socket in memory.
\<close>

definition datagram_event :: "u64 \<Rightarrow> sock_common \<Rightarrow> network_event_data" where
  "datagram_event inum skc = \<lparr>ne_inum = inum, ne_saddr = skc_rcv_saddr skc, ne_sport = skc_num skc,
     ne_daddr = skc_daddr skc, ne_dport = bpf_ntohs (skc_dport skc), ne_kind = 3\<rparr>"

lemma datagram_arrives:
  assumes "map_update_ok iupd" and "sock_at (env_offs e) (env_mem e) sk skc inum" and "sk \<noteq> 0"
    and "\<not> should_filter_traffic s (skc_rcv_saddr skc) (skc_daddr skc)"
    and "connections s (udp_key (ucast inum) skc) = None"
    and "env_ok e" and "bpf_ringbuf_reserve e 24 = Some buf"
  shows "map network_callback (network_events (trace_udp_send upd e sk (track_inode iupd (ucast inum) s))) =
    map network_callback (network_events s) @ [Some (datagram_event (ucast inum) skc)]"
proof -
  let ?s = "track_inode iupd (ucast inum) s"
  have "ucast inum \<in> dom (inode_num ?s)"
    using map_update_ok.upd_stored [OF assms(1), of "inode_num s" "ucast inum" 1] by (simp add: track_inode_inum domI)
  moreover have "\<not> should_filter_traffic ?s (skc_rcv_saddr skc) (skc_daddr skc)"
    using assms(4) should_filter_cong [of ?s s] by simp
  moreover have "connections ?s = connections s" "network_events ?s = network_events s"
    by (simp_all add: track_inode_def)
  ultimately have "network_events (trace_udp_send upd e sk ?s) =
      network_events s @ [fill_network_event (conn_event 3 (ucast inum) skc) buf]"
    using assms(3,5,7)
    by (simp add: trace_udp_send_eq get_and_validate_inum_at [OF assms(2)] read_sock_common_at [OF assms(2)]
        net_simps reported_def)
  moreover have "length buf = 24" using assms(6,7) by (simp add: env_ok_def)
  ultimately show ?thesis by (simp add: net_channel.callback_fill conn_event_def datagram_event_def)
qed

text \<open>The second report of an egress connection, as racing programs may make it, yields no second row.\<close>

lemma duplicate_report_no_row:
  assumes "keeps_all ins" and "ne_kind ev \<in> {1, 3}" and "ne_kind ev' \<in> {1, 3}" and "event_key ev' = event_key ev"
    and "build_traffic_event ins uuid now ev pod cache = (Some r, cache')"
  shows "build_traffic_event ins uuid' now' ev' pod cache' = (None, cache')"
proof -
  have same: "ne_kind ev' = ne_kind ev" "ne_daddr ev' = ne_daddr ev" "ne_dport ev' = ne_dport ev"
    using assms(2-4) by (auto simp: event_key_def split: if_splits)
  obtain r0 where r0: "candidate (Traffic ev pod uuid now) = Some r0" "enter_row ins r0 cache = (Some r, cache')"
    using assms(5) by (auto simp: build_traffic_event_eq split: option.splits)
  obtain r1 where r1: "candidate (Traffic ev' pod uuid' now') = Some r1" "row_key r1 = row_key r0"
    using r0(1) same assms(2) by (auto simp: candidate_def row_def row_key_def split: if_splits)
  have "cache' (row_key r0) \<noteq> None" using r0(2) assms(1) by (auto simp: enter_row_def keeps_all_def split: if_splits)
  then show ?thesis using r1 by (auto simp: build_traffic_event_eq enter_row_def)
qed

section \<open>From the controller to the table\<close>

text \<open>A row that no stored row is taken for, and whose key is new in its batch, is inserted.\<close>

lemma new_events_keeps:
  "new_events ok tbl K (xs @ e # ys) = Some new \<Longrightarrow> traffic_content_key e \<notin> K \<union> traffic_content_key ` set xs \<Longrightarrow>
    traffic_get_row tbl e = None \<Longrightarrow> e \<in> set new"
proof (induction xs arbitrary: K new)
  case (Cons x xs)
  show ?case
  proof (cases "traffic_content_key x \<in> K")
    case True
    then show ?thesis using Cons.IH [of K new] Cons.prems by simp
  next
    case False
    then obtain rest where rest: "new_events ok tbl (insert (traffic_content_key x) K) (xs @ e # ys) = Some rest"
      using Cons.prems(1) by (auto simp: Let_def split: if_splits)
    then have "e \<in> set rest" using Cons.IH [OF rest] Cons.prems(2,3) by auto
    then show ?thesis using Cons.prems(1) rest False by (auto simp: Let_def split: if_splits)
  qed
qed (auto simp: Let_def split: if_splits)

lemma batch_keeps_new:
  assumes "create_pod_traffic_batch ok ins_ok tbl (xs @ e # ys) = Some (new, tbl')"
    and "traffic_content_key e \<notin> traffic_content_key ` set xs" and "\<forall>q \<in> set tbl. \<not> same_flow e q"
  shows "e \<in> set tbl'"
proof -
  have *: "new_events ok tbl {} (xs @ e # ys) = Some new"
    using assms(1) by (auto simp: create_pod_traffic_batch_def split: if_splits option.splits)
  have "traffic_get_row tbl e = None" using assms(3) by (simp add: traffic_get_row_None)
  then have "e \<in> set new" using new_events_keeps [OF *] assms(2) by simp
  then show ?thesis using batch_table(1) [OF assms(1)] by simp
qed

lemma served_row:
  assumes "add_pods_batch ok ins_ok enabled (xs @ e # ys) (db, audit) = (Answer n, db', audit')"
    and "traffic_content_key e \<notin> traffic_content_key ` set xs" and "\<forall>q \<in> set (tbl_traffic db). \<not> same_flow e q"
    and "set (tbl_traffic db') \<subseteq> set (tbl_traffic later)" and "tf_pod_name e = Some name"
  shows "advisor_row e \<in> set (map advisor_row (pod_traffic_by_name coll name later))"
proof -
  obtain new tbl' where "create_pod_traffic_batch ok ins_ok (tbl_traffic db) (xs @ e # ys) = Some (new, tbl')" "tbl_traffic db' = tbl'"
    using assms(1) by (auto simp: add_pods_batch_def split: option.splits)
  then have "e \<in> set (tbl_traffic later)" using batch_keeps_new [OF _ assms(2,3)] assms(4) by blast
  then show ?thesis unfolding served_rows using assms(5) by (auto simp: pod_rows_def)
qed

section \<open>From the table to the verdict\<close>

text \<open>
  C1: end to end.  The watcher meets a pod, records it, and passes the inode of its network
  namespace to the network probe; the pod sends its first datagram to a new, unfiltered address that is
  neither a pod nor a service.  Then exactly one event reaches the controller, which finds the pod in its
  map; and when the row it builds is in a post the broker accepts, no stored row being one of the same
  flow, the policy that the advisor generates for the pod from the broker's answer, then or later, allows
  the flow in the evaluator.
\<close>

theorem datagram_to_verdict:
  assumes "entry_of wenv kpod = Some (ucast inum, q)" and "ev = datagram_event (ucast inum) skc"
    and "map_update_ok iupd" and "sock_at (env_offs e) (env_mem e) sk skc inum" and "sk \<noteq> 0"
    and "\<not> should_filter_traffic s (skc_rcv_saddr skc) (skc_daddr skc)"
    and "connections s (udp_key (ucast inum) skc) = None" and "env_ok e" and "bpf_ringbuf_reserve e 24 = Some buf"
    and "build_traffic_event ins uuid now ev (pi_status q) cache = (Some r, cache')"
    and "add_pods_batch ok ins_ok enabled (xs @ broker_row r # ys) (db, audit) = (Answer n, db', audit')"
    and "traffic_content_key (broker_row r) \<notin> traffic_content_key ` set xs"
    and "\<forall>t \<in> set (tbl_traffic db). \<not> same_flow (broker_row r) t" and "set (tbl_traffic db') \<subseteq> set (tbl_traffic later)"
    and "kube_documented k as_selector valid" and "labels_valid valid b d" and "informer_keyed store"
    and "Generate k b (pt_pod_name r) (map advisor_row (pod_traffic_by_name coll (pt_pod_name r) later)) (Some d) = Inr p"
    and "pd_PodIP d = pod_ip (pi_status q)" and "event_port ev \<noteq> 0"
    and "subjectPod flow (event_dir ev) (store_Lookup store) = Some subject" and "pod_Namespace subject = pd_Namespace d"
    and "map_le (pod_Labels (pd_Pod d)) (pod_Labels subject)"
    and "resolve b (ipv4_string (from_be (ne_daddr ev))) = None" and "flow_like ev flow"
  shows "map network_callback (network_events (trace_udp_send upd e sk (track_inode iupd (ucast inum) s))) =
      map network_callback (network_events s) @ [Some ev]
    \<and> wa_container_map (watch_pod wenv kpod w) (ne_inum ev) = Some q
    \<and> map res_Verdict (filter (\<lambda>r. res_Direction r = event_dir ev)
        (Match as_selector flow (audited p uid gen) (store_Lookup store))) = [VerdictAllow]"
proof (intro conjI)
  show "map network_callback (network_events (trace_udp_send upd e sk (track_inode iupd (ucast inum) s))) =
      map network_callback (network_events s) @ [Some ev]"
    unfolding assms(2) by (rule datagram_arrives [OF assms(3-9)])
  obtain ip where "ready_address kpod = Some ip" using entry_of_pod [OF assms(1)] by blast
  then show "wa_container_map (watch_pod wenv kpod w) (ne_inum ev) = Some q"
    by (simp add: watch_pod_effect assms(1,2) datagram_event_def)
  have "tf_pod_name (broker_row r) = Some (pt_pod_name r)" by (simp add: broker_row_def)
  from served_row [OF assms(11-14) this, of coll]
  show "map res_Verdict (filter (\<lambda>r. res_Direction r = event_dir ev)
        (Match as_selector flow (audited p uid gen) (store_Lookup store))) = [VerdictAllow]"
    by (intro observed_flow_allowed [OF assms(15-17,10) _ assms(19,20,18,21-25)]) (simp add: wire_row_broker)
qed

section \<open>A pod that sends one datagram\<close>

definition web_socket :: sock_common where
  "web_socket = demo_client\<lparr>skc_rcv_saddr := 0x0400000A\<rparr>"

definition web_datagram :: network_event_data where
  "web_datagram = datagram_event (ucast (4026532001 :: u32)) web_socket"

lemma web_datagram_sel:
  "ne_kind web_datagram = 3" "ne_daddr web_datagram = 0x0900000A" "ne_dport web_datagram = 443"
  "ne_inum web_datagram = 4026532001"
  by (simp_all add: web_datagram_def datagram_event_def web_socket_def demo_client_def bpf_htons_def)

abbreviation web_kpod :: kube_pod where
  "web_kpod \<equiv> demo_watched ''shop'' ''web-0'' ''10.0.0.4'' ''a1''"

definition web_inspect :: PodInspect where
  "web_inspect = (inspect_default web_status)\<lparr>pi_container_id := Some ''a1'', pi_pid := Some 41, pi_inode_num := Some 4026532001\<rparr>"

lemma web_entry: "entry_of demo_watch_env web_kpod = Some (4026532001, web_inspect)"
  by code_simp

definition web_udp_flow :: Flow where
  "web_udp_flow = web_flow\<lparr>flow_Protocol := ''UDP''\<rparr>"

lemma web_udp_subject: "subjectPod web_udp_flow DirectionEgress (store_Lookup named_store) = Some (shop_pod ''shop'' ''web-0'' ''web'')"
  by (simp add: subjectPod_def web_udp_flow_def web_flow_def shop_found)

lemma web_dir: "event_dir web_datagram = DirectionEgress"
  by (simp add: event_dir_def web_datagram_sel KIND_INGRESS_TCP_def)

lemma web_like: "flow_like web_datagram web_udp_flow"
  by (simp add: flow_like_def web_dir web_datagram_sel web_remote event_port_def event_proto_def KIND_INGRESS_TCP_def
      KIND_EGRESS_UDP_def peerIP_def web_udp_flow_def web_flow_def)

theorem datagram_to_verdict_witness:
  "\<exists>r cache db' p. build_traffic_event (\<lambda>c key v. c(key \<mapsto> v)) ''id'' 0 web_datagram (pi_status web_inspect) Map.empty = (Some r, cache)
    \<and> add_pods_batch (\<lambda>_. True) True False [broker_row r] (empty_database, queue_start 1 1) = (Answer 1, db', queue_start 1 1)
    \<and> Generate lib_kube shop_broker (pt_pod_name r) (map advisor_row (pod_traffic_by_name (<) (pt_pod_name r) db')) (Some shop_web) = Inr p
    \<and> map network_callback (network_events (trace_udp_send no_evict (demo_env web_socket 4026532001) 0x1000
        (track_inode no_evict (ucast (4026532001 :: u32)) net_init))) = [Some web_datagram]
    \<and> map res_Verdict (filter (\<lambda>r. res_Direction r = DirectionEgress)
        (Match (\<lambda>l. Some (map_le l)) web_udp_flow (audited p ''u'' 1) (store_Lookup named_store))) = [VerdictAllow]"
proof -
  let ?b = "build_traffic_event (\<lambda>c key v. c(key \<mapsto> v)) ''id'' 0 web_datagram (pi_status web_inspect) Map.empty"
  have status: "pi_status web_inspect = web_status" by (simp add: web_inspect_def inspect_default_def)
  have "pod_ip web_status \<noteq> ipv4_string (from_be (ne_daddr web_datagram))"
    by (simp add: web_datagram_sel web_status_def web_remote)
  then obtain r cache where r: "?b = (Some r, cache)"
    by (simp add: status build_traffic_event_eq candidate_def enter_row_fresh web_datagram_sel)
  let ?db' = "empty_database\<lparr>tbl_traffic := [broker_row r]\<rparr>"
  have none: "tbl_traffic empty_database = []" by (simp add: empty_database_def)
  have post: "add_pods_batch (\<lambda>_. True) True False ([] @ broker_row r # []) (empty_database, queue_start 1 1) =
      (Answer 1, ?db', queue_start 1 1)"
    by (simp add: add_pods_batch_def create_pod_traffic_batch_def insert_traffic_def traffic_get_row_None none Let_def)
  obtain p where p: "Generate lib_kube shop_broker (pt_pod_name r) (map advisor_row (pod_traffic_by_name (<) (pt_pod_name r) ?db'))
      (Some shop_web) = Inr p"
    using numbers.Generate_policy_of by blast
  have filter: "\<not> should_filter_traffic net_init (skc_rcv_saddr web_socket) (skc_daddr web_socket)"
    by (simp add: should_filter_traffic_def net_init_def web_socket_def demo_client_def localhost_def)
  have subject: "subjectPod web_udp_flow (event_dir web_datagram) (store_Lookup named_store) = Some (shop_pod ''shop'' ''web-0'' ''web'')"
    by (simp add: web_dir web_udp_subject)
  have sock: "sock_at (env_offs (demo_env web_socket 4026532001)) (env_mem (demo_env web_socket 4026532001)) 0x1000 web_socket 4026532001"
    by (simp add: demo_sock_at)
  have entry: "entry_of demo_watch_env web_kpod = Some (ucast (4026532001 :: u32), web_inspect)" by (simp add: web_entry)
  have "map network_callback (network_events (trace_udp_send no_evict (demo_env web_socket 4026532001) 0x1000
        (track_inode no_evict (ucast (4026532001 :: u32)) net_init))) = map network_callback (network_events net_init) @ [Some web_datagram]
    \<and> wa_container_map (watch_pod demo_watch_env web_kpod watcher_start) (ne_inum web_datagram) = Some web_inspect
    \<and> map res_Verdict (filter (\<lambda>r. res_Direction r = event_dir web_datagram)
        (Match (\<lambda>l. Some (map_le l)) web_udp_flow (audited p ''u'' 1) (store_Lookup named_store))) = [VerdictAllow]"
    by (rule datagram_to_verdict [OF entry web_datagram_def lru.map_update_ok_axioms [of "\<lambda>_ _. []"] sock _ filter _ _ _ r post
          _ _ _ lib_documented _ named_store_keyed p _ _ subject, where w = watcher_start])
      (simp_all add: net_init_def status web_dir web_udp_subject web_like none labels_valid_def shop_web_sel web_status_def
        web_datagram_sel web_remote web_unresolved event_port_def KIND_INGRESS_TCP_def)
  then show ?thesis
    using r post p by (intro exI conjI) (auto simp: web_dir net_init_def)
qed

end
