(* ===== verification/Advisor_Promote.thy ===== *)
theory Advisor_Promote
  imports Broker_Tables
begin

text \<open>
  From audit to enforcement, \<^verbatim>\<open>audit.go\<close> and \<^verbatim>\<open>audit_cluster.go\<close> in \<^verbatim>\<open>src/advisor/cmd\<close>: audit policies become
  network policies, a cluster policy one per namespace it selects.  An unstructured object is a record
  of what its accessors read and write, its specification a JSON value.  The API server, YAML, files and the
  compilation of a label selector are parameters; maps of strings are lists with distinct keys, in the
  order in which they are walked.
\<close>

section \<open>Objects and the outside\<close>

record unstructured =
  us_apiVersion :: string
  us_kind :: string
  us_namespace :: string
  us_name :: string
  us_labels :: "(string \<times> string) list"
  us_annotations :: "(string \<times> string) list"
  us_spec :: "json option"

datatype promote_error =
    ObjectNotFound | NotFetched | NotListed | NoName
  | NoSpec string string | NotMarshalled | NotWritten
  | DirNotMade | NotOpened string | NotClosed string
  | BadSelector

text \<open>The flags, and whether the operations on files and writes succeed.\<close>

record promote_env =
  pe_outputDir :: string
  pe_delete :: bool
  pe_marshal :: "unstructured \<Rightarrow> string option"
  pe_mkdir_ok :: bool
  pe_create_ok :: "string \<Rightarrow> bool"
  pe_write_ok :: "string \<Rightarrow> bool"
  pe_close_ok :: "string \<Rightarrow> bool"

record promote_out =
  pw_stdout :: string
  pw_files :: "string \<rightharpoonup> string"

section \<open>One policy\<close>

definition last_applied :: string where
  "last_applied = ''kubectl.kubernetes.io/last-applied-configuration''"

definition clean_annotations :: "(string \<times> string) list \<Rightarrow> (string \<times> string) list" where
  "clean_annotations anns = filter (\<lambda>a. fst a \<noteq> last_applied) anns"

definition promoted_object :: "unstructured \<Rightarrow> promote_error + unstructured" where
  "promoted_object u = (case us_spec u of
     None \<Rightarrow> Inl (NoSpec (us_namespace u) (us_name u))
   | Some spec \<Rightarrow> Inr \<lparr>us_apiVersion = ''networking.k8s.io/v1'', us_kind = ''NetworkPolicy'',
       us_namespace = us_namespace u, us_name = us_name u, us_labels = us_labels u,
       us_annotations = clean_annotations (us_annotations u), us_spec = Some spec\<rparr>)"

definition newline :: string where
  "newline = [CHR 0x0A]"

definition delete_note :: "unstructured \<Rightarrow> string" where
  "delete_note u = ''# After kubectl apply succeeds, retire the audit policy:'' @ newline
     @ ''#   kubectl delete auditnetworkpolicy '' @ us_name u @ '' -n '' @ us_namespace u @ newline"

text \<open>The writer is the text written so far; an error leaves what was written.\<close>

definition write_text :: "promote_env \<Rightarrow> string \<Rightarrow> string \<Rightarrow> promote_error option \<times> string" where
  "write_text env t sofar = (if pe_write_ok env t then (None, sofar @ t) else (Some NotWritten, sofar))"

definition emitPromoted :: "promote_env \<Rightarrow> unstructured \<Rightarrow> string \<Rightarrow> promote_error option \<times> string" where
  "emitPromoted env u sofar = (case promoted_object u of
     Inl e \<Rightarrow> (Some e, sofar)
   | Inr out \<Rightarrow> (case pe_marshal env out of
       None \<Rightarrow> (Some NotMarshalled, sofar)
     | Some raw \<Rightarrow> (case write_text env raw sofar of
         (Some e, t) \<Rightarrow> (Some e, t)
       | (None, t) \<Rightarrow> if pe_delete env then write_text env (delete_note u) t else (None, t))))"

definition promoted_path :: "promote_env \<Rightarrow> unstructured \<Rightarrow> string" where
  "promoted_path env item = pe_outputDir env @ ''/'' @ us_namespace item @ ''-'' @ us_name item @ ''.yaml''"

definition promoteListItem :: "promote_env \<Rightarrow> unstructured \<Rightarrow> nat \<Rightarrow> promote_out \<Rightarrow> promote_error option \<times> promote_out" where
  "promoteListItem env item idx w =
     (if pe_outputDir env \<noteq> []
      then (let path = promoted_path env item
            in if \<not> pe_create_ok env path then (Some (NotOpened path), w)
               else (let (err, t) = emitPromoted env item [];
                         w = w\<lparr>pw_files := (pw_files w)(path \<mapsto> t)\<rparr>
                     in case err of
                          Some e \<Rightarrow> (Some e, w)
                        | None \<Rightarrow> if pe_close_ok env path then (None, w) else (Some (NotClosed path), w)))
      else (let (err, t) = (if idx > 0 then write_text env (''---'' @ newline) (pw_stdout w) else (None, pw_stdout w))
            in case err of
                 Some e \<Rightarrow> (Some e, w\<lparr>pw_stdout := t\<rparr>)
               | None \<Rightarrow> (let (err, t) = emitPromoted env item t in (err, w\<lparr>pw_stdout := t\<rparr>))))"

fun promote_items :: "promote_env \<Rightarrow> unstructured list \<Rightarrow> nat \<Rightarrow> promote_out \<Rightarrow> promote_error option \<times> promote_out" where
  "promote_items env [] idx w = (None, w)"
| "promote_items env (item # items) idx w = (case promoteListItem env item idx w of
     (Some e, w) \<Rightarrow> (Some e, w)
   | (None, w) \<Rightarrow> promote_items env items (idx + 1) w)"

definition emitExpanded :: "promote_env \<Rightarrow> unstructured list \<Rightarrow> promote_out \<Rightarrow> promote_error option \<times> promote_out" where
  "emitExpanded env items w =
     (if pe_outputDir env \<noteq> [] \<and> \<not> pe_mkdir_ok env then (Some DirNotMade, w) else promote_items env items 0 w)"

definition promoteList :: "promote_env \<Rightarrow> unstructured list option \<Rightarrow> promote_out \<Rightarrow> promote_error option \<times> promote_out" where
  "promoteList env listing w = (case listing of
     None \<Rightarrow> (Some NotListed, w)
   | Some items \<Rightarrow> if items = [] then (None, w) else emitExpanded env items w)"

definition promoteOne :: "promote_env \<Rightarrow> promote_error + unstructured \<Rightarrow> promote_out \<Rightarrow> promote_error option \<times> promote_out" where
  "promoteOne env answer w = (case answer of
     Inl e \<Rightarrow> (Some e, w)
   | Inr u \<Rightarrow> (let (err, t) = emitPromoted env u (pw_stdout w) in (err, w\<lparr>pw_stdout := t\<rparr>)))"

text \<open>The API server's answers: the policies of a namespace, or of all for the empty name, and one by name.\<close>

definition runAuditPromote :: "promote_env \<Rightarrow> (string \<Rightarrow> unstructured list option) \<Rightarrow> (string \<Rightarrow> string \<Rightarrow> promote_error + unstructured)
    \<Rightarrow> bool \<Rightarrow> bool \<Rightarrow> string \<Rightarrow> string list \<Rightarrow> promote_out \<Rightarrow> promote_error option \<times> promote_out" where
  "runAuditPromote env list_policies get_policy all allNamespaces namespace args w =
     (if all \<and> allNamespaces then promoteList env (list_policies []) w
      else if all then promoteList env (list_policies namespace) w
      else (case args of
              [name] \<Rightarrow> promoteOne env (get_policy namespace name) w
            | _ \<Rightarrow> (Some NoName, w)))"

section \<open>Label selectors\<close>

record requirement =
  lr_key :: string
  lr_operator :: string
  lr_values :: "string list"

record label_selector =
  ls_matchLabels :: "(string \<times> string) list"
  ls_matchExpressions :: "requirement list"

definition json_string :: "json \<Rightarrow> string option" where
  "json_string j = (case j of JStr s \<Rightarrow> Some s | _ \<Rightarrow> None)"

definition string_of_field :: "(string \<times> json) list \<Rightarrow> string \<Rightarrow> string" where
  "string_of_field m key = (case Option.bind (map_of m key) json_string of None \<Rightarrow> [] | Some s \<Rightarrow> s)"

definition unstructured_requirement :: "(string \<times> json) list \<Rightarrow> requirement" where
  "unstructured_requirement expr = \<lparr>lr_key = string_of_field expr ''key'', lr_operator = string_of_field expr ''operator'',
     lr_values = (case map_of expr ''values'' of Some (JArr vals) \<Rightarrow> List.map_filter json_string vals | _ \<Rightarrow> [])\<rparr>"

definition unstructuredToLabelSelector :: "(string \<times> json) list \<Rightarrow> label_selector" where
  "unstructuredToLabelSelector m =
     \<lparr>ls_matchLabels = (case map_of m ''matchLabels'' of
        Some (JObj ml) \<Rightarrow> List.map_filter (\<lambda>(k, v). map_option (Pair k) (json_string v)) ml
      | _ \<Rightarrow> []),
      ls_matchExpressions = (case map_of m ''matchExpressions'' of
        Some (JArr me) \<Rightarrow> List.map_filter (\<lambda>raw. case raw of JObj expr \<Rightarrow> Some (unstructured_requirement expr) | _ \<Rightarrow> None) me
      | _ \<Rightarrow> [])\<rparr>"

section \<open>Cluster policies\<close>

text \<open>The namespaces of a cluster policy; \<open>list_namespaces\<close> is the answer of the server to the selector sent along.\<close>

definition discoverNamespacesForClusterPolicy :: "(label_selector \<Rightarrow> (labels \<Rightarrow> bool) option)
    \<Rightarrow> (label_selector option \<Rightarrow> (string \<times> labels) list option) \<Rightarrow> unstructured \<Rightarrow> promote_error + string list" where
  "discoverNamespacesForClusterPolicy as_selector list_namespaces cluster =
     (let read = (case us_spec cluster of
            None \<Rightarrow> Inr None
          | Some JNull \<Rightarrow> Inr None
          | Some (JObj m) \<Rightarrow> Inr (map_of m ''namespaceSelector'')
          | Some _ \<Rightarrow> Inl BadSelector);
          list_by = (\<lambda>sel clientFilter. case list_namespaces sel of
            None \<Rightarrow> Inl NotListed
          | Some items \<Rightarrow> Inr (map fst (filter (\<lambda>(name, l). case clientFilter of None \<Rightarrow> True | Some f \<Rightarrow> f l) items)))
      in case read of
           Inl e \<Rightarrow> Inl e
         | Inr None \<Rightarrow> list_by None None
         | Inr (Some JNull) \<Rightarrow> list_by None None
         | Inr (Some (JObj nsSel)) \<Rightarrow>
             (let converted = unstructuredToLabelSelector nsSel
              in case as_selector converted of
                   None \<Rightarrow> Inl BadSelector
                 | Some f \<Rightarrow> list_by (Some converted) (Some f))
         | Inr (Some _) \<Rightarrow> Inl BadSelector)"

definition expandClusterPolicyToNamespaced :: "unstructured \<Rightarrow> string list \<Rightarrow> promote_error + unstructured list" where
  "expandClusterPolicyToNamespaced cluster namespaces = (case us_spec cluster of
     Some (JObj m) \<Rightarrow>
       (let spec = jremove ''namespaceSelector'' m
        in Inr (map (\<lambda>ns. \<lparr>us_apiVersion = ''kguardian.dev/v1alpha1'', us_kind = ''AuditNetworkPolicy'',
             us_namespace = ns, us_name = us_name cluster, us_labels = us_labels cluster,
             us_annotations = clean_annotations (us_annotations cluster), us_spec = Some (JObj spec)\<rparr>) namespaces))
   | _ \<Rightarrow> Inl (NoSpec [] (us_name cluster)))"

definition runAuditPromoteCluster :: "promote_env \<Rightarrow> (label_selector \<Rightarrow> (labels \<Rightarrow> bool) option)
    \<Rightarrow> (label_selector option \<Rightarrow> (string \<times> labels) list option) \<Rightarrow> (string \<Rightarrow> promote_error + unstructured)
    \<Rightarrow> string list \<Rightarrow> string list \<Rightarrow> promote_out \<Rightarrow> promote_error option \<times> promote_out" where
  "runAuditPromoteCluster env as_selector list_namespaces get_cluster targets args w = (case args of
     [name] \<Rightarrow>
       (case get_cluster name of
          Inl e \<Rightarrow> (Some e, w)
        | Inr cluster \<Rightarrow>
            (let emit = (\<lambda>namespaces. case expandClusterPolicyToNamespaced cluster namespaces of
                   Inl e \<Rightarrow> (Some e, w)
                 | Inr items \<Rightarrow> emitExpanded env items w)
             in if targets \<noteq> [] then emit targets
                else (case discoverNamespacesForClusterPolicy as_selector list_namespaces cluster of
                        Inl e \<Rightarrow> (Some e, w)
                      | Inr discovered \<Rightarrow> if discovered = [] then (None, w) else emit discovered)))
   | _ \<Rightarrow> (Some NoName, w))"

end
