(* ===== verification/Promote_Props.thy ===== *)
theory Promote_Props
  imports Advisor_Promote Policy_Props
begin

text \<open>
  The properties of promotion: what \<^verbatim>\<open>audit promote\<close> and \<^verbatim>\<open>audit promote-cluster\<close> write, and that the
  network policies promoted from a cluster policy give, in the evaluator's own semantics, exactly the
  verdicts the cluster policy gave while it was audited.
\<close>

section \<open>What is written\<close>

text \<open>The document of one policy, and documents joined as on the standard output.\<close>

definition document :: "promote_env \<Rightarrow> unstructured \<Rightarrow> string \<Rightarrow> string" where
  "document env u raw = raw @ (if pe_delete env then delete_note u else [])"

definition separator :: string where
  "separator = ''---'' @ newline"

fun joined :: "string list \<Rightarrow> string" where
  "joined [] = []"
| "joined (d # ds) = d @ concat (map (\<lambda>d. separator @ d) ds)"

text \<open>The network policy of an item, and its document.\<close>

definition promoted_as :: "promote_env \<Rightarrow> unstructured \<Rightarrow> unstructured \<Rightarrow> string \<Rightarrow> bool" where
  "promoted_as env u out doc \<longleftrightarrow> promoted_object u = Inr out \<and> (\<exists>raw. pe_marshal env out = Some raw \<and> doc = document env u raw)"

lemma write_text_ok: "write_text env t sofar = (None, t') \<Longrightarrow> t' = sofar @ t"
  by (auto simp: write_text_def split: if_splits)

lemma emitPromoted_ok:
  assumes "emitPromoted env u sofar = (None, t)"
  obtains out doc where "promoted_as env u out doc" and "t = sofar @ doc"
proof -
  obtain out where out: "promoted_object u = Inr out"
    using assms by (cases "promoted_object u") (auto simp: emitPromoted_def)
  obtain raw where raw: "pe_marshal env out = Some raw"
    using assms out by (cases "pe_marshal env out") (auto simp: emitPromoted_def)
  have "t = sofar @ document env u raw"
    using assms by (auto simp: emitPromoted_def out raw document_def write_text_def split: if_splits)
  with out raw that show ?thesis by (auto simp: promoted_as_def)
qed

text \<open>Items written to the standard output, from index \<open>i\<close>: the first item of all has no separator before it.\<close>

lemma promote_items_stdout:
  assumes "promote_items env items i w = (None, w')" and "pe_outputDir env = []"
  shows "\<exists>outs docs. list_all2 (\<lambda>u (out, doc). promoted_as env u out doc) items (zip outs docs)
      \<and> length outs = length items \<and> length docs = length items \<and> pw_files w' = pw_files w
      \<and> pw_stdout w' = pw_stdout w @ (if i = 0 then joined docs else concat (map (\<lambda>d. separator @ d) docs))"
  using assms
proof (induction items arbitrary: i w)
  case Nil
  then show ?case by simp
next
  case (Cons u items)
  obtain w1 where one: "promoteListItem env u i w = (None, w1)" and rest: "promote_items env items (i + 1) w1 = (None, w')"
    using Cons.prems(1) by (auto split: prod.splits option.splits)
  define start where "start = pw_stdout w @ (if i = 0 then [] else separator)"
  obtain t where "emitPromoted env u start = (None, t)" and w1: "w1 = w\<lparr>pw_stdout := t\<rparr>"
    using one Cons.prems(2)
    by (auto simp: promoteListItem_def Let_def write_text_def start_def separator_def split: if_splits prod.splits option.splits)
  then obtain out doc where u: "promoted_as env u out doc" and t: "t = start @ doc"
    by (elim emitPromoted_ok)
  from Cons.IH [OF rest Cons.prems(2)] obtain outs docs where IH:
    "list_all2 (\<lambda>u (out, doc). promoted_as env u out doc) items (zip outs docs)"
    "length outs = length items" "length docs = length items" "pw_files w' = pw_files w1"
    "pw_stdout w' = pw_stdout w1 @ concat (map (\<lambda>d. separator @ d) docs)"
    by auto
  show ?case
    by (rule exI [of _ "out # outs"], rule exI [of _ "doc # docs"]) (use IH u in \<open>simp add: w1 t start_def\<close>)
qed

text \<open>Items written to files: each file is the document of the last item that has its path.\<close>

lemma promote_items_files:
  assumes "promote_items env items i w = (None, w')" and "pe_outputDir env \<noteq> []"
  shows "\<exists>outs docs. list_all2 (\<lambda>u (out, doc). promoted_as env u out doc) items (zip outs docs)
      \<and> length outs = length items \<and> length docs = length items \<and> pw_stdout w' = pw_stdout w
      \<and> pw_files w' = pw_files w ++ map_of (rev (zip (map (promoted_path env) items) docs))"
  using assms
proof (induction items arbitrary: i w)
  case Nil
  then show ?case by simp
next
  case (Cons u items)
  obtain w1 where one: "promoteListItem env u i w = (None, w1)" and rest: "promote_items env items (i + 1) w1 = (None, w')"
    using Cons.prems(1) by (auto split: prod.splits option.splits)
  obtain t where "emitPromoted env u [] = (None, t)" and w1: "w1 = w\<lparr>pw_files := (pw_files w)(promoted_path env u \<mapsto> t)\<rparr>"
    using one Cons.prems(2) by (auto simp: promoteListItem_def Let_def split: if_splits prod.splits option.splits)
  then obtain out doc where u: "promoted_as env u out doc" and t: "t = doc"
    by (elim emitPromoted_ok) simp
  from Cons.IH [OF rest Cons.prems(2)] obtain outs docs where IH:
    "list_all2 (\<lambda>u (out, doc). promoted_as env u out doc) items (zip outs docs)"
    "length outs = length items" "length docs = length items" "pw_stdout w' = pw_stdout w1"
    "pw_files w' = pw_files w1 ++ map_of (rev (zip (map (promoted_path env) items) docs))"
    by auto
  show ?case
    by (rule exI [of _ "out # outs"], rule exI [of _ "doc # docs"])
      (use IH u in \<open>auto simp: w1 t map_add_assoc [symmetric] map_add_def fun_eq_iff split: option.splits\<close>)
qed

text \<open>
  promotion writes every policy.  When the items have been written without an error, each of them
  became a network policy with its name, namespace and specification, and its document is on the
  standard output, in order and with a separator before every one but the first; with an output
  directory each document is in the file of its namespace and name instead, the last one written
  where two items share a path, and the standard output is as before.
\<close>

theorem promoted_output:
  assumes "emitExpanded env items w = (None, w')"
  shows "\<exists>outs docs. list_all2 (\<lambda>u (out, doc). promoted_as env u out doc) items (zip outs docs)
      \<and> length outs = length items \<and> length docs = length items
      \<and> (if pe_outputDir env = []
         then pw_files w' = pw_files w \<and> pw_stdout w' = pw_stdout w @ joined docs
         else pw_stdout w' = pw_stdout w
           \<and> pw_files w' = pw_files w ++ map_of (rev (zip (map (promoted_path env) items) docs)))"
proof -
  have "promote_items env items 0 w = (None, w')"
    using assms by (auto simp: emitExpanded_def split: if_splits)
  then show ?thesis
    using promote_items_stdout [of env items 0 w w'] promote_items_files [of env items 0 w w'] by (cases "pe_outputDir env = []") simp_all
qed

text \<open>Two policies of different namespaces with one path: only the last one is left.\<close>

lemma paths_collide:
  "promoted_path env \<lparr>us_apiVersion = a, us_kind = k, us_namespace = ''prod'', us_name = ''eu-web'', us_labels = l,
      us_annotations = n, us_spec = s\<rparr>
   = promoted_path env \<lparr>us_apiVersion = a, us_kind = k, us_namespace = ''prod-eu'', us_name = ''web'', us_labels = l,
      us_annotations = n, us_spec = s'\<rparr>"
  by (simp add: promoted_path_def)

section \<open>Selectors as JSON and as values\<close>

text \<open>
  How the fields of a label selector that the schema of the resource admits are decoded: the
  correspondence that the Kubernetes types document.
\<close>

definition strings_decode :: "json option \<Rightarrow> string list \<Rightarrow> bool" where
  "strings_decode j vs = (case j of
     None \<Rightarrow> vs = []
   | Some JNull \<Rightarrow> vs = []
   | Some (JArr js) \<Rightarrow> js = map JStr vs
   | _ \<Rightarrow> False)"

definition requirement_decodes :: "json \<Rightarrow> requirement \<Rightarrow> bool" where
  "requirement_decodes j r = (case j of
     JObj e \<Rightarrow> map_of e ''key'' = Some (JStr (lr_key r)) \<and> map_of e ''operator'' = Some (JStr (lr_operator r))
       \<and> strings_decode (map_of e ''values'') (lr_values r)
   | _ \<Rightarrow> False)"

definition selector_decodes :: "(string \<times> json) list \<Rightarrow> label_selector \<Rightarrow> bool" where
  "selector_decodes m sel \<longleftrightarrow>
     (case map_of m ''matchLabels'' of
        None \<Rightarrow> ls_matchLabels sel = []
      | Some JNull \<Rightarrow> ls_matchLabels sel = []
      | Some (JObj ml) \<Rightarrow> ml = map (\<lambda>(k, v). (k, JStr v)) (ls_matchLabels sel)
      | _ \<Rightarrow> False)
   \<and> (case map_of m ''matchExpressions'' of
        None \<Rightarrow> ls_matchExpressions sel = []
      | Some JNull \<Rightarrow> ls_matchExpressions sel = []
      | Some (JArr me) \<Rightarrow> list_all2 requirement_decodes me (ls_matchExpressions sel)
      | _ \<Rightarrow> False)"

lemma map_filter_strings [simp]: "List.map_filter json_string (map JStr vs) = vs"
  by (induction vs) (simp_all add: List.map_filter_simps json_string_def)

lemma map_filter_pairs [simp]:
  "List.map_filter (\<lambda>(k, v). map_option (Pair k) (json_string v)) (map (\<lambda>(k, v). (k, JStr v)) ml) = ml"
  by (induction ml) (auto simp: List.map_filter_simps json_string_def)

lemma requirement_decoded:
  assumes "requirement_decodes j r"
  shows "(case j of JObj expr \<Rightarrow> Some (unstructured_requirement expr) | _ \<Rightarrow> None) = Some r"
  using assms
  by (cases r) (auto simp: requirement_decodes_def strings_decode_def unstructured_requirement_def string_of_field_def
      json_string_def split: json.splits option.splits)

lemma requirements_decoded:
  "list_all2 requirement_decodes me rs \<Longrightarrow>
   List.map_filter (\<lambda>raw. case raw of JObj expr \<Rightarrow> Some (unstructured_requirement expr) | _ \<Rightarrow> None) me = rs"
  by (induction rule: list_all2_induct) (simp_all add: List.map_filter_simps requirement_decoded)

text \<open>The conversion of \<^verbatim>\<open>audit_cluster.go\<close> reads a selector as its decoding does.\<close>

lemma selector_decoded: "selector_decodes m sel \<Longrightarrow> unstructuredToLabelSelector m = sel"
  by (cases sel) (auto simp: selector_decodes_def unstructuredToLabelSelector_def requirements_decoded
      split: json.splits option.splits)

section \<open>Cluster policies and what they promote to\<close>

definition namespaced_spec :: "'s ClusterNetworkPolicySpec \<Rightarrow> 's NetworkPolicySpec" where
  "namespaced_spec c = \<lparr>spec_PodSelector = csp_PodSelector c, spec_PolicyTypes = csp_PolicyTypes c,
     spec_Ingress = csp_Ingress c, spec_Egress = csp_Egress c\<rparr>"

text \<open>The decoders of the two specifications, \<open>dn\<close> and \<open>dc\<close>: one field apart, and the field a selector or absent.\<close>

definition spec_decoders :: "(json \<Rightarrow> label_selector NetworkPolicySpec option)
    \<Rightarrow> (json \<Rightarrow> label_selector ClusterNetworkPolicySpec option) \<Rightarrow> bool" where
  "spec_decoders dn dc \<longleftrightarrow> (\<forall>m c. dc (JObj m) = Some c \<longrightarrow>
     dn (JObj (jremove ''namespaceSelector'' m)) = Some (namespaced_spec c)
   \<and> (case map_of m ''namespaceSelector'' of
        None \<Rightarrow> csp_NamespaceSelector c = None
      | Some JNull \<Rightarrow> csp_NamespaceSelector c = None
      | Some (JObj s) \<Rightarrow> (case csp_NamespaceSelector c of None \<Rightarrow> False | Some sel \<Rightarrow> selector_decodes s sel)
      | _ \<Rightarrow> False))"

text \<open>A cluster policy and a network policy as the evaluator reads them from their objects.\<close>

definition cluster_policy :: "label_selector ClusterNetworkPolicySpec \<Rightarrow> unstructured \<Rightarrow> label_selector AuditClusterNetworkPolicy" where
  "cluster_policy c u = \<lparr>cnp_Name = us_name u, cnp_UID = [], cnp_Generation = 0, cnp_Spec = c\<rparr>"

definition network_policy :: "(json \<Rightarrow> label_selector NetworkPolicySpec option) \<Rightarrow> unstructured \<Rightarrow> label_selector AuditNetworkPolicy option" where
  "network_policy dn u = map_option (\<lambda>spec. \<lparr>np_Namespace = us_namespace u, np_Name = us_name u, np_UID = [],
     np_Generation = 0, np_Spec = spec\<rparr>) (Option.bind (us_spec u) dn)"

text \<open>
  The API server's namespaces: each once, with the labels the evaluator's cache has, and all that
  the selector sent along selects.
\<close>

definition lists_namespaces :: "(label_selector \<Rightarrow> (labels \<Rightarrow> bool) option) \<Rightarrow> Lookup
    \<Rightarrow> (label_selector option \<Rightarrow> (string \<times> labels) list option) \<Rightarrow> bool" where
  "lists_namespaces as_selector lookup list_namespaces \<longleftrightarrow> (\<forall>sel items. list_namespaces sel = Some items \<longrightarrow>
     distinct (map fst items) \<and> (\<forall>(ns, l) \<in> set items. GetNamespaceLabels lookup ns = Some l)
   \<and> (\<forall>ns l. GetNamespaceLabels lookup ns = Some l \<longrightarrow>
        (case sel of None \<Rightarrow> True | Some sel \<Rightarrow> selectorMatchesLabels as_selector sel l) \<longrightarrow> (ns, l) \<in> set items))"

lemma discovered_namespaces:
  assumes "lists_namespaces as_selector lookup list_namespaces" and "spec_decoders dn dc"
    and "us_spec cluster = Some (JObj m)" and "dc (JObj m) = Some c"
    and "discoverNamespacesForClusterPolicy as_selector list_namespaces cluster = Inr nss"
  shows "distinct nss"
    and "ns \<in> set nss \<longleftrightarrow> GetNamespaceLabels lookup ns \<noteq> None \<and> covers_namespace as_selector (cluster_policy c cluster) lookup ns"
proof -
  have field: "case map_of m ''namespaceSelector'' of
        None \<Rightarrow> csp_NamespaceSelector c = None
      | Some JNull \<Rightarrow> csp_NamespaceSelector c = None
      | Some (JObj s) \<Rightarrow> (case csp_NamespaceSelector c of None \<Rightarrow> False | Some sel \<Rightarrow> selector_decodes s sel)
      | _ \<Rightarrow> False"
    using assms(2,4) by (simp add: spec_decoders_def)
  have "distinct nss \<and> (ns \<in> set nss \<longleftrightarrow> GetNamespaceLabels lookup ns \<noteq> None
      \<and> covers_namespace as_selector (cluster_policy c cluster) lookup ns)"
  proof (cases "csp_NamespaceSelector c")
    case None
    then obtain items where items: "list_namespaces None = Some items" "nss = map fst items"
      using field assms(3,5)
      by (auto simp: discoverNamespacesForClusterPolicy_def Let_def split: option.splits json.splits)
    with assms(1) have "distinct (map fst items)" "\<forall>(ns, l) \<in> set items. GetNamespaceLabels lookup ns = Some l"
      "\<forall>ns l. GetNamespaceLabels lookup ns = Some l \<longrightarrow> (ns, l) \<in> set items"
      unfolding lists_namespaces_def by fastforce+
    then show ?thesis using None by (auto simp: items covers_namespace_def cluster_policy_def image_iff) force+
  next
    case (Some sel)
    then obtain j where j: "map_of m ''namespaceSelector'' = Some (JObj j)" "unstructuredToLabelSelector j = sel"
      using field by (auto simp: selector_decoded split: option.splits json.splits)
    then obtain f items where items: "as_selector sel = Some f" "list_namespaces (Some sel) = Some items"
        "nss = map fst (filter (\<lambda>(name, l). f l) items)"
      using assms(3,5) by (auto simp: discoverNamespacesForClusterPolicy_def Let_def split: option.splits)
    with assms(1) have all: "distinct (map fst items)" "\<forall>(ns, l) \<in> set items. GetNamespaceLabels lookup ns = Some l"
      "\<forall>ns l. GetNamespaceLabels lookup ns = Some l \<longrightarrow> f l \<longrightarrow> (ns, l) \<in> set items"
      unfolding lists_namespaces_def selectorMatchesLabels_def by fastforce+
    have "distinct nss"
      using all(1) unfolding items(3) by (rule distinct_map_filter)
    moreover have "ns \<in> set nss \<longleftrightarrow> (\<exists>l. GetNamespaceLabels lookup ns = Some l \<and> f l)"
      using all(2,3) by (auto simp: items(3) image_iff)
    ultimately show ?thesis
      by (auto simp: covers_namespace_def cluster_policy_def Some selectorMatchesLabels_def items(1) split: option.splits)
  qed
  then show "distinct nss" "ns \<in> set nss \<longleftrightarrow> GetNamespaceLabels lookup ns \<noteq> None \<and> covers_namespace as_selector (cluster_policy c cluster) lookup ns"
    by blast+
qed

text \<open>One direction of a cluster policy is that of its rules as a policy of the subject's namespace, if that is covered.\<close>

lemma cluster_direction:
  assumes "subjectPod flow dir lookup = Some pod"
  shows "res_Verdict (match_direction_cluster as_selector flow cp lookup dir) =
    (if covers_namespace as_selector cp lookup (pod_Namespace pod)
     then res_Verdict (match_direction as_selector flow (as_namespaced (pod_Namespace pod) cp) lookup dir)
     else VerdictNotApplicable)"
proof -
  have "evaluateRulesCluster as_selector flow cp dir lookup = evaluateRules as_selector flow (as_namespaced (pod_Namespace pod) cp) dir lookup"
    by (simp add: evaluateRulesCluster_def evaluateRules_def as_namespaced_def Let_def)
  then show ?thesis
    unfolding match_direction_cluster_def match_direction_def covers_namespace_def
    by (simp add: Let_def assms as_namespaced_def split: option.split prod.split)
qed

lemma other_namespace:
  assumes "\<And>pod. subjectPod flow dir lookup = Some pod \<Longrightarrow> pod_Namespace pod \<noteq> np_Namespace p"
  shows "res_Verdict (match_direction as_selector flow p lookup dir) = VerdictNotApplicable"
  using assms by (auto simp: match_direction_def Let_def split: option.split)

lemma expanded_items:
  assumes "expandClusterPolicyToNamespaced cluster nss = Inr items" and "us_spec cluster = Some (JObj m)"
  shows "map us_namespace items = nss" and "u \<in> set items \<Longrightarrow> us_name u = us_name cluster"
    and "u \<in> set items \<Longrightarrow> us_spec u = Some (JObj (jremove ''namespaceSelector'' m))"
  using assms by (auto simp: expandClusterPolicyToNamespaced_def Let_def comp_def)

lemma promoted_object_fields:
  assumes "promoted_object u = Inr out"
  shows "us_spec out = us_spec u" and "us_namespace out = us_namespace u" and "us_name out = us_name u"
  using assms by (auto simp: promoted_object_def split: option.splits)

lemma promoted_as_document:
  "promoted_as env u out doc \<Longrightarrow> \<exists>raw. pe_marshal env out = Some raw \<and> doc = document env out raw"
  by (auto simp: promoted_as_def document_def delete_note_def promoted_object_fields)

lemma expanded_policies:
  assumes "expandClusterPolicyToNamespaced cluster nss = Inr items" and "us_spec cluster = Some (JObj m)"
    and "dn (JObj (jremove ''namespaceSelector'' m)) = Some (namespaced_spec c)"
    and "list_all2 (\<lambda>u (out, doc). promoted_as env u out doc) items (zip outs docs)" and "length outs = length items"
    and "length docs = length items"
  shows "map (network_policy dn) outs = map (\<lambda>ns. Some (as_namespaced ns (cluster_policy c cluster))) nss"
proof -
  have "promoted_object (items ! i) = Inr (outs ! i)" if "i < length items" for i
    using list_all2_nthD [OF assms(4) that] assms(5,6) that by (simp add: promoted_as_def)
  then have "network_policy dn (outs ! i) = Some (as_namespaced (nss ! i) (cluster_policy c cluster))" if "i < length items" for i
    using that expanded_items(2,3) [OF assms(1,2), of "items ! i"] expanded_items(1) [OF assms(1,2)] assms(3)
    by (auto simp: promoted_object_fields [of "items ! i" "outs ! i"] network_policy_def as_namespaced_def cluster_policy_def
        namespaced_spec_def)
  moreover have "length nss = length items" using expanded_items(1) [OF assms(1,2)] by auto
  ultimately show ?thesis using assms(5) by (auto intro!: nth_equalityI)
qed

text \<open>The verdicts for a direction that are about the policy, and not that it does not apply.\<close>

definition applied_verdicts :: "Direction \<Rightarrow> Result list \<Rightarrow> Verdict list" where
  "applied_verdicts dir rs = filter (\<lambda>v. v \<noteq> VerdictNotApplicable) (map res_Verdict (filter (\<lambda>r. res_Direction r = dir) rs))"

lemma applied_verdicts_concat: "applied_verdicts dir (concat rss) = concat (map (applied_verdicts dir) rss)"
  by (induction rss) (simp_all add: applied_verdicts_def)

lemma concat_single:
  assumes "distinct xs" and "\<And>x. x \<in> set xs \<Longrightarrow> x \<noteq> a \<Longrightarrow> f x = []"
  shows "concat (map f xs) = (if a \<in> set xs then f a else [])"
  using assms by (induction xs) auto

lemma verdicts_agree:
  assumes dir: "dir = DirectionIngress \<or> dir = DirectionEgress" and "distinct nss"
    and cover: "\<And>pod. subjectPod flow dir lookup = Some pod \<Longrightarrow>
      pod_Namespace pod \<in> set nss \<longleftrightarrow> covers_namespace as_selector cp lookup (pod_Namespace pod)"
  shows "applied_verdicts dir (concat (map (\<lambda>p. Match as_selector flow p lookup) (map (\<lambda>ns. as_namespaced ns cp) nss)))
    = applied_verdicts dir (MatchCluster as_selector flow cp lookup)"
proof -
  have types: "applies_in (spec_PolicyTypes (np_Spec (as_namespaced ns cp))) (spec_Egress (np_Spec (as_namespaced ns cp)) \<noteq> []) dir
      = applies_in (csp_PolicyTypes (cnp_Spec cp)) (csp_Egress (cnp_Spec cp) \<noteq> []) dir" for ns
    by (simp add: as_namespaced_def)
  let ?v = "\<lambda>ns. applied_verdicts dir (Match as_selector flow (as_namespaced ns cp) lookup)"
  have other: "?v ns = []" if "\<And>pod. subjectPod flow dir lookup = Some pod \<Longrightarrow> pod_Namespace pod \<noteq> ns" for ns
    using other_namespace [of flow dir lookup "as_namespaced ns cp"] that
    by (simp add: applied_verdicts_def filter_Match [OF dir] as_namespaced_def)
  have "concat (map ?v nss) = applied_verdicts dir (MatchCluster as_selector flow cp lookup)"
  proof (cases "subjectPod flow dir lookup")
    case None
    then have "?v ns = []" for ns by (intro other) simp
    then have "concat (map ?v nss) = []" by simp
    with None show ?thesis by (simp add: applied_verdicts_def filter_Match [OF dir] match_direction_cluster_def)
  next
    case (Some pod)
    have "concat (map ?v nss) = (if pod_Namespace pod \<in> set nss then ?v (pod_Namespace pod) else [])"
      by (rule concat_single [OF assms(2) other]) (simp add: Some)
    then show ?thesis
      by (simp add: applied_verdicts_def filter_Match [OF dir] types cluster_direction [OF Some] cover [OF Some])
  qed
  then show ?thesis by (simp add: applied_verdicts_concat comp_def)
qed

text \<open>
  C11: promotion keeps the verdicts.  For a flow whose subject is in a namespace the evaluator knows,
  the network policies that \<^verbatim>\<open>promote-cluster\<close> has written for a cluster policy give together the
  verdicts that the cluster policy gave: in each direction the same one where it applies, and none
  where it does not.
\<close>

theorem promotion_exact:
  assumes "lists_namespaces as_selector lookup list_namespaces" and "spec_decoders dn dc"
    and "get_cluster name = Inr cluster" and "us_spec cluster = Some (JObj m)" and "dc (JObj m) = Some c"
    and "dir = DirectionIngress \<or> dir = DirectionEgress"
    and "\<And>pod. subjectPod flow dir lookup = Some pod \<Longrightarrow> GetNamespaceLabels lookup (pod_Namespace pod) \<noteq> None"
    and "pe_outputDir env = []"
    and "runAuditPromoteCluster env as_selector list_namespaces get_cluster [] [name] w = (None, w')"
  shows "\<exists>outs docs ps. pw_stdout w' = pw_stdout w @ joined docs
    \<and> list_all2 (\<lambda>out doc. \<exists>raw. pe_marshal env out = Some raw \<and> doc = document env out raw) outs docs
    \<and> map (network_policy dn) outs = map Some ps
    \<and> applied_verdicts dir (concat (map (\<lambda>p. Match as_selector flow p lookup) ps))
      = applied_verdicts dir (MatchCluster as_selector flow (cluster_policy c cluster) lookup)"
proof -
  obtain nss where nss: "discoverNamespacesForClusterPolicy as_selector list_namespaces cluster = Inr nss"
    using assms(3,9) by (auto simp: runAuditPromoteCluster_def Let_def split: sum.splits)
  note found = discovered_namespaces [OF assms(1,2,4,5) nss]
  have agree: "applied_verdicts dir (concat (map (\<lambda>p. Match as_selector flow p lookup) (map (\<lambda>ns. as_namespaced ns (cluster_policy c cluster)) nss)))
    = applied_verdicts dir (MatchCluster as_selector flow (cluster_policy c cluster) lookup)"
    by (rule verdicts_agree [OF assms(6) found(1)]) (simp add: found(2) assms(7))
  obtain items where items: "expandClusterPolicyToNamespaced cluster nss = Inr items"
    using assms(4) by (auto simp: expandClusterPolicyToNamespaced_def Let_def)
  have "promote_items env items 0 w = (None, w')"
  proof (cases "nss = []")
    case True
    then have "items = []" using expanded_items(1) [OF items assms(4)] by simp
    with True show ?thesis using assms(3,9) nss by (simp add: runAuditPromoteCluster_def)
  next
    case False
    then show ?thesis using assms(3,8,9) nss items by (simp add: runAuditPromoteCluster_def Let_def emitExpanded_def)
  qed
  from promote_items_stdout [OF this assms(8)] obtain outs docs where out:
    "list_all2 (\<lambda>u (out, doc). promoted_as env u out doc) items (zip outs docs)"
    "length outs = length items" "length docs = length items" "pw_stdout w' = pw_stdout w @ joined docs"
    by auto
  have "list_all2 (\<lambda>out doc. \<exists>raw. pe_marshal env out = Some raw \<and> doc = document env out raw) outs docs"
    unfolding list_all2_conv_all_nth
  proof (intro conjI allI impI)
    fix i assume "i < length outs"
    then have "promoted_as env (items ! i) (outs ! i) (docs ! i)"
      using list_all2_nthD [OF out(1), of i] out(2,3) by simp
    then show "\<exists>raw. pe_marshal env (outs ! i) = Some raw \<and> docs ! i = document env (outs ! i) raw"
      by (rule promoted_as_document)
  qed (simp add: out(2,3))
  moreover have "map (network_policy dn) outs = map Some (map (\<lambda>ns. as_namespaced ns (cluster_policy c cluster)) nss)"
    using expanded_policies [OF items assms(4) _ out(1-3)] assms(2,5) by (simp add: spec_decoders_def comp_def)
  ultimately show ?thesis using out(4) agree by blast
qed

section \<open>A cluster policy of two namespaces\<close>

definition label_match :: "label_selector \<Rightarrow> (labels \<Rightarrow> bool) option" where
  "label_match sel = (if ls_matchExpressions sel = [] then Some (\<lambda>l. list_all (\<lambda>(k, v). l k = Some v) (ls_matchLabels sel)) else None)"

definition read_selector :: "json option \<Rightarrow> label_selector option" where
  "read_selector j = (case j of
     Some (JObj m) \<Rightarrow> if selector_decodes m (unstructuredToLabelSelector m) then Some (unstructuredToLabelSelector m) else None
   | _ \<Rightarrow> None)"

text \<open>Decoders of the policies without rules, which isolate what they select.\<close>

definition read_isolation :: "json \<Rightarrow> label_selector NetworkPolicySpec option" where
  "read_isolation j = (case j of
     JObj m \<Rightarrow>
       (case (read_selector (map_of m ''podSelector''), map_of m ''policyTypes'') of
          (Some sel, Some (JArr ts)) \<Rightarrow> Some \<lparr>spec_PodSelector = sel, spec_PolicyTypes = List.map_filter json_string ts,
            spec_Ingress = [], spec_Egress = []\<rparr>
        | _ \<Rightarrow> None)
   | _ \<Rightarrow> None)"

definition read_cluster_isolation :: "json \<Rightarrow> label_selector ClusterNetworkPolicySpec option" where
  "read_cluster_isolation j = (case j of
     JObj m \<Rightarrow> Option.bind (read_isolation (JObj (jremove ''namespaceSelector'' m))) (\<lambda>n.
       let c = (\<lambda>ns. \<lparr>csp_NamespaceSelector = ns, csp_PodSelector = spec_PodSelector n, csp_PolicyTypes = spec_PolicyTypes n,
         csp_Ingress = spec_Ingress n, csp_Egress = spec_Egress n\<rparr>)
       in case map_of m ''namespaceSelector'' of
            None \<Rightarrow> Some (c None)
          | Some JNull \<Rightarrow> Some (c None)
          | Some sel \<Rightarrow> map_option (\<lambda>sel. c (Some sel)) (read_selector (Some sel)))
   | _ \<Rightarrow> None)"

lemma read_decoders: "spec_decoders read_isolation read_cluster_isolation"
  by (auto simp: spec_decoders_def read_cluster_isolation_def namespaced_spec_def Let_def read_selector_def
      split: option.splits json.splits if_splits bind_splits)

definition two_namespaces :: "(string \<times> labels) list" where
  "two_namespaces = [(''shop'', [''env'' \<mapsto> ''prod'']), (''lab'', [''env'' \<mapsto> ''dev''])]"

definition two_lookup :: Lookup where
  "two_lookup = \<lparr>GetPod = (\<lambda>ns name. if ns = ''shop'' \<and> name = ''web-0'' then Some (shop_pod ns name ''web'') else None),
     GetNamespaceLabels = map_of two_namespaces\<rparr>"

definition isolate_web :: "(string \<times> json) list" where
  "isolate_web = [(''namespaceSelector'', JObj [(''matchLabels'', JObj [(''env'', JStr ''prod'')])]),
     (''podSelector'', JObj [(''matchLabels'', JObj [(''app'', JStr ''web'')])]), (''policyTypes'', JArr [JStr ''Ingress''])]"

definition isolate_cluster :: unstructured where
  "isolate_cluster = \<lparr>us_apiVersion = ''kguardian.dev/v1alpha1'', us_kind = ''AuditClusterNetworkPolicy'', us_namespace = [],
     us_name = ''isolate'', us_labels = [], us_annotations = [(last_applied, ''{}'')], us_spec = Some (JObj isolate_web)\<rparr>"

definition isolate_spec :: "label_selector ClusterNetworkPolicySpec" where
  "isolate_spec = \<lparr>csp_NamespaceSelector = Some \<lparr>ls_matchLabels = [(''env'', ''prod'')], ls_matchExpressions = []\<rparr>,
     csp_PodSelector = \<lparr>ls_matchLabels = [(''app'', ''web'')], ls_matchExpressions = []\<rparr>, csp_PolicyTypes = [DirectionIngress],
     csp_Ingress = [], csp_Egress = []\<rparr>"

definition print_env :: promote_env where
  "print_env = \<lparr>pe_outputDir = [], pe_delete = False, pe_marshal = (\<lambda>u. Some (us_namespace u @ ''/'' @ us_name u @ newline)),
     pe_mkdir_ok = True, pe_create_ok = (\<lambda>p. True), pe_write_ok = (\<lambda>t. True), pe_close_ok = (\<lambda>p. True)\<rparr>"

abbreviation nothing_written :: promote_out where
  "nothing_written \<equiv> \<lparr>pw_stdout = [], pw_files = Map.empty\<rparr>"

lemma isolate_run:
  "runAuditPromoteCluster print_env label_match (\<lambda>sel. Some two_namespaces) (\<lambda>name. Inr isolate_cluster) [] [''isolate''] nothing_written
   = (None, \<lparr>pw_stdout = ''shop/isolate'' @ newline, pw_files = Map.empty\<rparr>)"
proof -
  have found: "discoverNamespacesForClusterPolicy label_match (\<lambda>sel. Some two_namespaces) isolate_cluster = Inr [''shop'']"
    by code_simp
  have spec: "us_spec isolate_cluster = Some (JObj isolate_web)" "us_name isolate_cluster = ''isolate''"
    by (simp_all add: isolate_cluster_def)
  show ?thesis
    by (simp add: runAuditPromoteCluster_def Let_def found expandClusterPolicyToNamespaced_def spec emitExpanded_def print_env_def
        promoteListItem_def emitPromoted_def promoted_object_def write_text_def)
qed

lemma isolate_read: "read_cluster_isolation (JObj isolate_web) = Some isolate_spec"
  by code_simp

theorem promotion_exact_witness:
  "\<exists>outs docs ps. ''shop/isolate'' @ newline = joined docs
    \<and> list_all2 (\<lambda>out doc. \<exists>raw. pe_marshal print_env out = Some raw \<and> doc = document print_env out raw) outs docs
    \<and> map (network_policy read_isolation) outs = map Some ps
    \<and> applied_verdicts DirectionIngress (concat (map (\<lambda>p. Match label_match (shop_flow ''front-0'') p two_lookup) ps)) = [VerdictWouldDeny]"
proof -
  have verdict: "applied_verdicts DirectionIngress
      (MatchCluster label_match (shop_flow ''front-0'') (cluster_policy isolate_spec isolate_cluster) two_lookup) = [VerdictWouldDeny]"
    by code_simp
  have "\<exists>outs docs ps. pw_stdout \<lparr>pw_stdout = ''shop/isolate'' @ newline, pw_files = Map.empty\<rparr> = pw_stdout nothing_written @ joined docs
    \<and> list_all2 (\<lambda>out doc. \<exists>raw. pe_marshal print_env out = Some raw \<and> doc = document print_env out raw) outs docs
    \<and> map (network_policy read_isolation) outs = map Some ps
    \<and> applied_verdicts DirectionIngress (concat (map (\<lambda>p. Match label_match (shop_flow ''front-0'') p two_lookup) ps))
      = applied_verdicts DirectionIngress
          (MatchCluster label_match (shop_flow ''front-0'') (cluster_policy isolate_spec isolate_cluster) two_lookup)"
  proof (rule promotion_exact [OF _ read_decoders _ _ isolate_read _ _ _ isolate_run])
    show "lists_namespaces label_match two_lookup (\<lambda>sel. Some two_namespaces)"
      by (auto simp: lists_namespaces_def two_lookup_def two_namespaces_def split: if_splits)
  qed (auto simp: isolate_cluster_def print_env_def two_lookup_def two_namespaces_def subjectPod_def shop_flow_def shop_pod_def
      split: if_splits)
  then show ?thesis by (simp add: verdict)
qed

definition file_env :: promote_env where
  "file_env = print_env\<lparr>pe_outputDir := ''out'', pe_delete := True\<rparr>"

definition audit_policy :: "string \<Rightarrow> string \<Rightarrow> unstructured" where
  "audit_policy ns name = isolate_cluster\<lparr>us_namespace := ns, us_name := name\<rparr>"

theorem promoted_output_witness:
  "\<exists>w' outs docs. emitExpanded file_env [audit_policy ''prod'' ''eu-web'', audit_policy ''prod-eu'' ''web''] nothing_written = (None, w')
   \<and> list_all2 (\<lambda>u (out, doc). promoted_as file_env u out doc)
       [audit_policy ''prod'' ''eu-web'', audit_policy ''prod-eu'' ''web''] (zip outs docs)
   \<and> pw_files w' = [''out/prod-eu-web.yaml'' \<mapsto> docs ! 1] \<and> pw_stdout w' = []"
proof -
  let ?items = "[audit_policy ''prod'' ''eu-web'', audit_policy ''prod-eu'' ''web'']"
  obtain w' where run: "emitExpanded file_env ?items nothing_written = (None, w')"
    by (simp add: emitExpanded_def promoteListItem_def emitPromoted_def write_text_def promoted_object_def file_env_def print_env_def
        audit_policy_def isolate_cluster_def Let_def)
  have paths: "map (promoted_path file_env) ?items = [''out/prod-eu-web.yaml'', ''out/prod-eu-web.yaml'']"
    by (simp add: promoted_path_def file_env_def audit_policy_def)
  have dir: "pe_outputDir file_env \<noteq> []" by (simp add: file_env_def)
  from promoted_output [OF run] obtain outs docs where
    "list_all2 (\<lambda>u (out, doc). promoted_as file_env u out doc) ?items (zip outs docs)" "length docs = length ?items"
    "pw_stdout w' = []" "pw_files w' = Map.empty ++ map_of (rev (zip (map (promoted_path file_env) ?items) docs))"
    using dir by auto
  moreover from this(2) obtain a b where "docs = [a, b]"
    by (auto simp: length_Suc_conv)
  moreover have "Map.empty ++ map_of (rev (zip [''out/prod-eu-web.yaml'', ''out/prod-eu-web.yaml''] [a, b])) =
      [''out/prod-eu-web.yaml'' \<mapsto> [a, b] ! 1]" for a b :: string
    by simp
  ultimately show ?thesis
    using run unfolding paths by metis
qed

end
