(* ===== verification/Broker_Startup.thy ===== *)
theory Broker_Startup
  imports Broker_Audit Text_Split
begin

text \<open>
  The start of the broker and its check for new versions: \<^verbatim>\<open>main.rs\<close>, \<^verbatim>\<open>conn.rs\<close>, \<^verbatim>\<open>telemetry.rs\<close> and
  \<^verbatim>\<open>version_check.rs\<close> in \<^verbatim>\<open>src/broker/src\<close>.  Variables of the environment are optional strings; the
  database, the pool and the network answer through parameters.
\<close>

section \<open>Configuration\<close>

definition DEFAULT_DB_POOL_MAX_SIZE :: nat where
  "DEFAULT_DB_POOL_MAX_SIZE = 32"

definition DEFAULT_DB_STATEMENT_TIMEOUT_MS :: nat where
  "DEFAULT_DB_STATEMENT_TIMEOUT_MS = 30000"

definition DEFAULT_AUDIT_INFLIGHT_PERMITS :: nat where
  "DEFAULT_AUDIT_INFLIGHT_PERMITS = 16"

definition MIN_POOL_HEADROOM_OVER_PERMITS :: nat where
  "MIN_POOL_HEADROOM_OVER_PERMITS = 8"

definition DEFAULT_DB_MIGRATION_MAX_RETRIES :: nat where
  "DEFAULT_DB_MIGRATION_MAX_RETRIES = 10"

text \<open>A number of 32 bits, at least 1.\<close>

definition env_u32 :: "nat \<Rightarrow> string option \<Rightarrow> nat" where
  "env_u32 dflt var = or_else (map_option (\<lambda>n. max n 1) (Option.bind var (\<lambda>v. parse_unsigned 32 (trim v)))) dflt"

definition reserved_permits :: "string option \<Rightarrow> nat" where
  "reserved_permits var = env_u32 DEFAULT_AUDIT_INFLIGHT_PERMITS var"

definition saturating_add_u32 :: "nat \<Rightarrow> nat \<Rightarrow> nat" where
  "saturating_add_u32 a b = min (a + b) (2 ^ 32 - 1)"

definition pool_size_with_headroom :: "nat \<Rightarrow> nat \<Rightarrow> nat" where
  "pool_size_with_headroom configured permits = max configured (saturating_add_u32 permits MIN_POOL_HEADROOM_OVER_PERMITS)"

definition db_pool_max_size :: "string option \<Rightarrow> nat" where
  "db_pool_max_size var = env_u32 DEFAULT_DB_POOL_MAX_SIZE var"

definition db_statement_timeout_ms :: "string option \<Rightarrow> nat" where
  "db_statement_timeout_ms var = or_else (Option.bind var (\<lambda>v. parse_unsigned 64 (trim v))) DEFAULT_DB_STATEMENT_TIMEOUT_MS"

definition effective_pool_size :: "string option \<Rightarrow> string option \<Rightarrow> nat" where
  "effective_pool_size pool_var permits_var =
     pool_size_with_headroom (db_pool_max_size pool_var) (reserved_permits permits_var)"

text \<open>A string, trimmed, if anything is left of it.\<close>

definition env_text :: "string option \<Rightarrow> string option" where
  "env_text var = (case var of None \<Rightarrow> None | Some v \<Rightarrow> if trim v \<noteq> [] then Some (trim v) else None)"

definition listen_addr :: "string option \<Rightarrow> string" where
  "listen_addr var = or_else (env_text var) ''0.0.0.0:9090''"

definition rust_log :: "string option \<Rightarrow> string" where
  "rust_log var = or_else (env_text var) ''info''"

definition db_migration_max_retries :: "string option \<Rightarrow> nat" where
  "db_migration_max_retries var = env_u32 DEFAULT_DB_MIGRATION_MAX_RETRIES var"

text \<open>The URL of the database; without one the broker panics.\<close>

definition establish_connection :: "string option \<Rightarrow> string option" where
  "establish_connection database_url = env_text database_url"

section \<open>Migrations\<close>

text \<open>
  One attempt: no connection from the pool, or a connection, with the answers to the statement that
  lifts its timeout, to the migrations, and to the statement that sets the timeout again.
\<close>

datatype attempt = NoConnection | Connected nat bool bool bool

text \<open>The timeout of each connection's session (0 for none), and the timeouts the migrations ran under.\<close>

record sessions =
  se_timeout :: "nat \<Rightarrow> nat"
  se_migrated :: "nat list"

definition set_statement_timeout :: "bool \<Rightarrow> nat \<Rightarrow> nat \<Rightarrow> sessions \<Rightarrow> sessions" where
  "set_statement_timeout ok conn ms s = (if ok then s\<lparr>se_timeout := (se_timeout s)(conn := ms)\<rparr> else s)"

definition migrate_attempt :: "nat \<Rightarrow> attempt \<Rightarrow> sessions \<Rightarrow> bool \<times> sessions" where
  "migrate_attempt stmt_timeout_ms a s = (case a of
     NoConnection \<Rightarrow> (False, s)
   | Connected conn lifted migrated restored \<Rightarrow>
       (let s1 = (if stmt_timeout_ms > 0 then set_statement_timeout lifted conn 0 s else s);
            s2 = s1\<lparr>se_migrated := se_migrated s1 @ [se_timeout s1 conn]\<rparr>;
            s3 = (if stmt_timeout_ms > 0 then set_statement_timeout restored conn stmt_timeout_ms s2 else s2)
        in (migrated, s3)))"

datatype startup = Serving nat | Panicked

text \<open>The loop: \<open>left\<close> attempts remain, and \<open>i\<close> have failed, with two seconds of sleep after each.\<close>

fun migrate_loop :: "nat \<Rightarrow> (nat \<Rightarrow> attempt) \<Rightarrow> nat \<Rightarrow> nat \<Rightarrow> sessions \<Rightarrow> startup \<times> sessions" where
  "migrate_loop stmt_timeout_ms attempts i 0 s = (Serving i, s)"
| "migrate_loop stmt_timeout_ms attempts i (Suc left) s =
     (case migrate_attempt stmt_timeout_ms (attempts i) s of
        (True, s') \<Rightarrow> (Serving i, s')
      | (False, s') \<Rightarrow> if left = 0 then (Panicked, s') else migrate_loop stmt_timeout_ms attempts (i + 1) left s')"

text \<open>The pool's customizer gives every connection the timeout when it is opened.\<close>

definition run_startup_migrations :: "string option \<Rightarrow> string option \<Rightarrow> (nat \<Rightarrow> attempt) \<Rightarrow> startup \<times> sessions" where
  "run_startup_migrations timeout_var retries_var attempts =
     (let ms = db_statement_timeout_ms timeout_var
      in migrate_loop ms attempts 0 (db_migration_max_retries retries_var) \<lparr>se_timeout = (\<lambda>c. ms), se_migrated = []\<rparr>)"

section \<open>Health and metrics\<close>

text \<open>The pool's connection, and the answer with the migrations that are pending.\<close>

definition health_check :: "bool \<Rightarrow> 'm list option \<Rightarrow> nat \<times> string" where
  "health_check acquired pending = (case (if acquired then pending else None) of
     Some ms \<Rightarrow> if ms = [] then (200, ''Healthy!'') else (503, ''Database schema not up to date'')
   | None \<Rightarrow> (503, ''Database unavailable''))"

definition metrics_database :: "bool \<Rightarrow> 'm list option \<Rightarrow> bool \<times> bool" where
  "metrics_database acquired pending = (case (if acquired then pending else None) of
     Some ms \<Rightarrow> (True, ms = [])
   | None \<Rightarrow> (False, False))"

section \<open>The version check\<close>

definition telemetry_enabled :: "string option \<Rightarrow> bool" where
  "telemetry_enabled var = (case var of
     None \<Rightarrow> True
   | Some v \<Rightarrow> to_ascii_lowercase (trim v) \<notin> {''false'', ''0'', ''no'', ''off''})"

definition telemetry_endpoint :: "string option \<Rightarrow> string" where
  "telemetry_endpoint var = or_else (env_text var) ''https://version.kguardian.dev/v1/check''"

definition telemetry_interval :: "string option \<Rightarrow> nat" where
  "telemetry_interval var = max (or_else (Option.bind var (\<lambda>v. parse_unsigned 64 (trim v))) (24 * 60 * 60)) (60 * 60)"

definition strip_build_metadata :: "string \<Rightarrow> string" where
  "strip_build_metadata version = takeWhile (\<lambda>c. c \<noteq> CHR ''+'') version"

definition chart_version :: "string option \<Rightarrow> string" where
  "chart_version var = (case var of
     None \<Rightarrow> ''unknown''
   | Some v \<Rightarrow> (let base = strip_build_metadata (trim v) in if base \<noteq> [] then base else ''unknown''))"

definition kube_version :: "string option \<Rightarrow> string" where
  "kube_version var = or_else (env_text var) ''unknown''"

record check_outcome =
  co_latest :: "string \<rightharpoonup> string"
  co_checked_at :: nat

definition update_available :: "string \<Rightarrow> (string \<rightharpoonup> string) option \<Rightarrow> bool" where
  "update_available current_chart latest =
     (if current_chart = ''unknown'' then False
      else or_else (map_option (\<lambda>latest_chart. strip_build_metadata latest_chart \<noteq> strip_build_metadata current_chart)
             (Option.bind latest (\<lambda>l. l ''chart''))) False)"

record version_info =
  vi_broker :: string
  vi_chart :: string
  vi_telemetry_enabled :: bool
  vi_latest :: "(string \<rightharpoonup> string) option"
  vi_checked_at :: "nat option"
  vi_update_available :: bool

definition get_version :: "string \<Rightarrow> string option \<Rightarrow> string option \<Rightarrow> check_outcome option \<Rightarrow> version_info" where
  "get_version broker chart_var enabled_var outcome =
     (let chart = chart_version chart_var
      in \<lparr>vi_broker = broker, vi_chart = chart, vi_telemetry_enabled = telemetry_enabled enabled_var,
          vi_latest = map_option co_latest outcome, vi_checked_at = map_option co_checked_at outcome,
          vi_update_available = update_available chart (map_option co_latest outcome)\<rparr>)"

text \<open>The distinct nodes of pods that are not dead.\<close>

definition live_node_count :: "pod_details_row list \<Rightarrow> nat" where
  "live_node_count tbl = card (set (map dt_node_name (filter (\<lambda>d. \<not> dt_is_dead d) tbl)))"

definition check_params :: "string \<Rightarrow> string option \<Rightarrow> string option \<Rightarrow> string \<Rightarrow> string \<Rightarrow> nat \<Rightarrow> (string \<times> string) list" where
  "check_params broker chart_var kube_var arch install nodes =
     [(''install'', install), (''broker'', broker), (''chart'', chart_version chart_var), (''k8s'', kube_version kube_var),
      (''nodes'', digits nodes), (''arch'', arch)]"

text \<open>
  One turn of the loop: the identifier of this installation, the nodes (none when they cannot be
  counted), and the service's answer to the parameters; a failed check keeps the last outcome.
\<close>

definition run_check :: "string \<Rightarrow> string option \<Rightarrow> string option \<Rightarrow> string \<Rightarrow> string option \<Rightarrow> nat option
    \<Rightarrow> ((string \<times> string) list \<Rightarrow> (string \<rightharpoonup> string) option) \<Rightarrow> nat \<Rightarrow> check_outcome option" where
  "run_check broker chart_var kube_var arch install nodes service now = (case install of
     None \<Rightarrow> None
   | Some i \<Rightarrow> map_option (\<lambda>latest. \<lparr>co_latest = latest, co_checked_at = now\<rparr>)
       (service (check_params broker chart_var kube_var arch i (or_else nodes 0))))"

definition check_turn :: "check_outcome option \<Rightarrow> check_outcome option \<Rightarrow> check_outcome option" where
  "check_turn checked state = (case checked of Some outcome \<Rightarrow> Some outcome | None \<Rightarrow> state)"

text \<open>The task: no check at all when telemetry is disabled.\<close>

definition version_checks :: "string option \<Rightarrow> check_outcome option list \<Rightarrow> check_outcome option \<Rightarrow> check_outcome option" where
  "version_checks enabled_var checks state = (if \<not> telemetry_enabled enabled_var then state else fold check_turn checks state)"

section \<open>The identifier of the installation\<close>

text \<open>
  Several brokers may run \<^verbatim>\<open>get_or_create_install_id\<close> at once on one table.  Each broker is before its
  first query, or before its insertion, or before its second query.  A query for the first row without an
  order returns some row of the table; the number \<open>k\<close> stands for the database's choice.
\<close>

datatype install_phase = Query | InsertFresh | QueryAgain

record install_state =
  is_table :: "string list"
  is_phase :: "nat \<Rightarrow> install_phase"
  is_reported :: "(nat \<times> string) list"

datatype install_step = Proceed nat string nat | Abandon nat

definition any_row :: "nat \<Rightarrow> string list \<Rightarrow> string option" where
  "any_row k tbl = (if tbl = [] then None else Some (tbl ! (k mod length tbl)))"

definition insert_id :: "string \<Rightarrow> string list \<Rightarrow> string list" where
  "insert_id fresh tbl = (if fresh \<in> set tbl then tbl else tbl @ [fresh])"

definition install_report :: "nat \<Rightarrow> string \<Rightarrow> install_state \<Rightarrow> install_state" where
  "install_report b i st = st\<lparr>is_phase := (is_phase st)(b := Query), is_reported := is_reported st @ [(b, i)]\<rparr>"

text \<open>
  The next statement of broker \<open>b\<close>, with \<open>fresh\<close> the identifier it would insert and \<open>k\<close> the choice of row; or
  broker \<open>b\<close> gives up, its statement failed or its connection lost.
\<close>

fun get_or_create_install_id :: "install_step \<Rightarrow> install_state \<Rightarrow> install_state" where
  "get_or_create_install_id (Proceed b fresh k) st = (case is_phase st b of
     Query \<Rightarrow> (case any_row k (is_table st) of
         Some existing \<Rightarrow> install_report b existing st
       | None \<Rightarrow> st\<lparr>is_phase := (is_phase st)(b := InsertFresh)\<rparr>)
   | InsertFresh \<Rightarrow> st\<lparr>is_table := insert_id fresh (is_table st), is_phase := (is_phase st)(b := QueryAgain)\<rparr>
   | QueryAgain \<Rightarrow> (case any_row k (is_table st) of
         Some i \<Rightarrow> install_report b i st
       | None \<Rightarrow> st\<lparr>is_phase := (is_phase st)(b := Query)\<rparr>))"
| "get_or_create_install_id (Abandon b) st = st\<lparr>is_phase := (is_phase st)(b := Query)\<rparr>"

definition install_empty :: install_state where
  "install_empty = \<lparr>is_table = [], is_phase = (\<lambda>b. Query), is_reported = []\<rparr>"

definition install_run :: "install_step list \<Rightarrow> install_state" where
  "install_run steps = fold get_or_create_install_id steps install_empty"

end
