(* ===== verification/Startup_Props.thy ===== *)
theory Startup_Props
  imports Broker_Startup
begin

text \<open>
  The properties of the broker's start: the pool of connections outsizes the audit workers, the
  migrations are retried as often as configured and run without a timeout, and brokers that share a
  database report one identifier unless their first starts race.
\<close>

section \<open>The pool\<close>

lemma parse_narrow: "parse_unsigned 64 s = Some n \<Longrightarrow> parse_unsigned 32 s = (if n < 2 ^ 32 then Some n else None)"
  by (auto simp: parse_unsigned_def Let_def split: if_splits option.splits)

lemma parse_narrow_None: "parse_unsigned 64 s = None \<Longrightarrow> parse_unsigned 32 s = None"
  by (auto simp: parse_unsigned_def Let_def split: if_splits option.splits)

text \<open>\<^verbatim>\<open>main.rs\<close> and \<^verbatim>\<open>audit.rs\<close> read one variable at two widths; below 2 to the 32 they agree.\<close>

lemma permits_agree:
  assumes "audit_inflight_permits var < 2 ^ 32"
  shows "reserved_permits var = audit_inflight_permits var"
proof (cases "Option.bind var (\<lambda>v. parse_unsigned 64 (trim v))")
  case None
  then have "Option.bind var (\<lambda>v. parse_unsigned 32 (trim v)) = None"
    by (cases var) (simp_all add: parse_narrow_None)
  with None show ?thesis
    by (simp add: reserved_permits_def env_u32_def audit_inflight_permits_def env_at_least_def
        DEFAULT_AUDIT_INFLIGHT_PERMITS_def AUDIT_INFLIGHT_PERMITS_def)
next
  case (Some n)
  then have n: "n < 2 ^ 32" using assms by (simp add: audit_inflight_permits_def env_at_least_def)
  with Some have "Option.bind var (\<lambda>v. parse_unsigned 32 (trim v)) = Some n"
    by (cases var) (simp_all add: parse_narrow)
  with Some show ?thesis by (simp add: reserved_permits_def env_u32_def audit_inflight_permits_def env_at_least_def)
qed

text \<open>
  C37: the pool outsizes the audit workers.  Whatever the variables hold, as long as the permits
  leave room for the headroom in 32 bits: at every moment of the audit queue the workers leave at least
  eight of the pool's connections to everything else, and the pool is never below its configured size.
\<close>

theorem pool_headroom:
  assumes "audit_run (queue_start (audit_queue_capacity cap_var) (audit_inflight_permits permits_var)) acts q"
    and "audit_inflight_permits permits_var + 8 < 2 ^ 32"
  shows "length (q_running q) + 8 \<le> effective_pool_size pool_var permits_var
    \<and> db_pool_max_size pool_var \<le> effective_pool_size pool_var permits_var"
proof -
  have "length (q_running q) \<le> audit_inflight_permits permits_var"
    using queue_run [OF assms(1) refl] by (auto simp: queue_ok_def)
  moreover have "reserved_permits permits_var = audit_inflight_permits permits_var"
    using assms(2) by (intro permits_agree) simp
  ultimately show ?thesis
    using assms(2) by (simp add: effective_pool_size_def pool_size_with_headroom_def saturating_add_u32_def MIN_POOL_HEADROOM_OVER_PERMITS_def)
qed

theorem pool_headroom_witness:
  "\<exists>q. audit_run (queue_start (audit_queue_capacity None) (audit_inflight_permits (Some '' 40 ''))) [Offer ''a''] q
    \<and> effective_pool_size (Some ''4'') (Some '' 40 '') = 48 \<and> length (q_running q) + 8 \<le> 48"
proof -
  have trims: "trim '' 40 '' = ''40''" "trim ''4'' = ''4''" by code_simp+
  have parse: "parse_unsigned 64 ''40'' = Some 40" "parse_unsigned 32 ''40'' = Some 40" "parse_unsigned 32 ''4'' = Some 4"
    by (simp_all add: parse_unsigned_def dec_val_def)
  have permits: "audit_inflight_permits (Some '' 40 '') = 40"
    by (simp add: audit_inflight_permits_def env_at_least_def trims parse)
  have size: "effective_pool_size (Some ''4'') (Some '' 40 '') = 48"
    by (simp add: effective_pool_size_def pool_size_with_headroom_def db_pool_max_size_def reserved_permits_def env_u32_def
        trims parse saturating_add_u32_def MIN_POOL_HEADROOM_OVER_PERMITS_def)
  let ?start = "queue_start (audit_queue_capacity None) (audit_inflight_permits (Some '' 40 '')) :: string audit_queue"
  have run: "audit_run ?start [Offer ''a''] (try_enqueue ''a'' ?start)"
    using audit_run.Step [OF audit_run.Start audit_step.Offer, of ?start "''a''"] by simp
  have "length (q_running (try_enqueue ''a'' ?start)) + 8 \<le> 48"
    using pool_headroom [OF run, of "Some ''4''", unfolded size] by (simp add: permits)
  then show ?thesis using run size by blast
qed

text \<open>From there on \<^verbatim>\<open>main.rs\<close> falls back to its default and reserves 24 connections for any number of permits.\<close>

lemma permits_beyond:
  "audit_inflight_permits (Some ''4294967296'') = 4294967296 \<and> effective_pool_size None (Some ''4294967296'') = 32"
proof -
  have "trim ''4294967296'' = ''4294967296''" by code_simp
  moreover have "parse_unsigned 64 ''4294967296'' = Some 4294967296" by (simp add: parse_unsigned_def dec_val_def)
  moreover from this have "parse_unsigned 32 ''4294967296'' = None" by (simp add: parse_narrow)
  ultimately show ?thesis
    by (simp add: audit_inflight_permits_def env_at_least_def effective_pool_size_def pool_size_with_headroom_def db_pool_max_size_def
        reserved_permits_def env_u32_def saturating_add_u32_def MIN_POOL_HEADROOM_OVER_PERMITS_def DEFAULT_DB_POOL_MAX_SIZE_def
        DEFAULT_AUDIT_INFLIGHT_PERMITS_def)
qed

section \<open>Migrations\<close>

definition attempt_migrated :: "attempt \<Rightarrow> bool" where
  "attempt_migrated a = (case a of NoConnection \<Rightarrow> False | Connected conn lifted migrated restored \<Rightarrow> migrated)"

definition timeouts_set :: "attempt \<Rightarrow> bool" where
  "timeouts_set a = (case a of NoConnection \<Rightarrow> True | Connected conn lifted migrated restored \<Rightarrow> lifted \<and> restored)"

lemma migrate_attempt_result: "fst (migrate_attempt ms a s) = attempt_migrated a"
  by (simp add: migrate_attempt_def attempt_migrated_def Let_def split: attempt.split)

lemma migrate_attempt_sessions:
  assumes "se_timeout s = (\<lambda>c. ms)" and "timeouts_set a"
  shows "se_timeout (snd (migrate_attempt ms a s)) = (\<lambda>c. ms)"
    and "set (se_migrated (snd (migrate_attempt ms a s))) \<subseteq> set (se_migrated s) \<union> {0}"
  using assms
  by (auto simp: migrate_attempt_def set_statement_timeout_def timeouts_set_def Let_def split: attempt.splits if_splits)

lemma migrate_loop_result:
  "0 < left \<Longrightarrow> fst (migrate_loop ms attempts i left s) =
    (case find (\<lambda>j. attempt_migrated (attempts j)) [i..<i + left] of Some j \<Rightarrow> Serving j | None \<Rightarrow> Panicked)"
proof (induction ms attempts i left s rule: migrate_loop.induct)
  case (2 ms attempts i left s)
  obtain ok s' where attempt: "migrate_attempt ms (attempts i) s = (ok, s')" by (cases "migrate_attempt ms (attempts i) s")
  then have "ok = attempt_migrated (attempts i)" using migrate_attempt_result [of ms "attempts i" s] by simp
  then show ?case using 2 by (cases ok; cases left) (simp_all add: attempt upt_conv_Cons del: upt_Suc)
qed simp

lemma migrate_loop_sessions:
  assumes "\<And>j. timeouts_set (attempts j)" and "se_timeout s = (\<lambda>c. ms)" and "set (se_migrated s) \<subseteq> {0}"
  shows "se_timeout (snd (migrate_loop ms attempts i left s)) = (\<lambda>c. ms)
    \<and> set (se_migrated (snd (migrate_loop ms attempts i left s))) \<subseteq> {0}"
  using assms(2,3)
proof (induction left arbitrary: i s)
  case (Suc left)
  obtain ok s' where attempt: "migrate_attempt ms (attempts i) s = (ok, s')" by (cases "migrate_attempt ms (attempts i) s")
  have "se_timeout s' = (\<lambda>c. ms)" "set (se_migrated s') \<subseteq> {0}"
    using migrate_attempt_sessions [OF Suc.prems(1) assms(1), of i] Suc.prems(2) by (auto simp: attempt)
  then show ?case using Suc.IH by (cases ok) (simp_all add: attempt)
qed simp

lemma migration_retries_positive: "0 < db_migration_max_retries var"
  by (simp add: db_migration_max_retries_def env_u32_def or_else_def DEFAULT_DB_MIGRATION_MAX_RETRIES_def less_max_iff_disj split: option.split)

text \<open>
  the broker serves only a migrated database.  The start makes at most the configured number of
  attempts, at least one: it serves after the first that migrates, with one sleep for each before it, and
  panics when none does.  When the statements that set timeouts succeed, every migration ran without a
  timeout, and every connection of the pool has the configured one afterwards.
\<close>

theorem startup_migrations:
  assumes "run_startup_migrations timeout_var retries_var attempts = (r, s)"
  shows "r = (case find (\<lambda>j. attempt_migrated (attempts j)) [0..<db_migration_max_retries retries_var] of
        Some j \<Rightarrow> Serving j | None \<Rightarrow> Panicked)
    \<and> ((\<forall>j. timeouts_set (attempts j)) \<longrightarrow>
        se_timeout s = (\<lambda>c. db_statement_timeout_ms timeout_var) \<and> set (se_migrated s) \<subseteq> {0})"
proof -
  let ?ms = "db_statement_timeout_ms timeout_var"
  let ?s = "\<lparr>se_timeout = (\<lambda>c. ?ms), se_migrated = []\<rparr>"
  have run: "migrate_loop ?ms attempts 0 (db_migration_max_retries retries_var) ?s = (r, s)"
    using assms by (simp add: run_startup_migrations_def Let_def)
  have "r = (case find (\<lambda>j. attempt_migrated (attempts j)) [0..<db_migration_max_retries retries_var] of
        Some j \<Rightarrow> Serving j | None \<Rightarrow> Panicked)"
    using migrate_loop_result [OF migration_retries_positive [of retries_var], of ?ms attempts 0 ?s] run by simp
  moreover have "se_timeout s = (\<lambda>c. ?ms) \<and> set (se_migrated s) \<subseteq> {0}" if "\<forall>j. timeouts_set (attempts j)"
    using migrate_loop_sessions [of attempts ?s ?ms 0 "db_migration_max_retries retries_var"] that run by simp
  ultimately show ?thesis by blast
qed

theorem startup_migrations_witness:
  "\<exists>s. run_startup_migrations (Some ''500'') (Some ''3'') (\<lambda>j. if j = 0 then NoConnection else Connected j True (j = 2) True) = (Serving 2, s)
    \<and> se_timeout s 1 = 500 \<and> se_migrated s = [0, 0]"
proof -
  let ?run = "run_startup_migrations (Some ''500'') (Some ''3'') (\<lambda>j. if j = 0 then NoConnection else Connected j True (j = 2) True)"
  have trims: "trim ''500'' = ''500''" "trim ''3'' = ''3''" by code_simp+
  have parse: "parse_unsigned 64 ''500'' = Some 500" "parse_unsigned 32 ''3'' = Some 3" by (simp_all add: parse_unsigned_def dec_val_def)
  have ms: "db_statement_timeout_ms (Some ''500'') = 500" by (simp add: db_statement_timeout_ms_def trims parse)
  have retries: "db_migration_max_retries (Some ''3'') = 3" by (simp add: db_migration_max_retries_def env_u32_def trims parse)
  obtain r s where run: "?run = (r, s)" by (cases ?run)
  have result: "r = Serving 2" and sessions: "se_timeout s = (\<lambda>c. 500)"
    using startup_migrations [OF run] by (simp_all add: ms retries attempt_migrated_def timeouts_set_def upt_rec)
  have "se_migrated (snd ?run) = [0, 0]"
    by (simp add: run_startup_migrations_def ms retries numeral_3_eq_3 migrate_attempt_def set_statement_timeout_def Let_def)
  then show ?thesis using run result sessions by simp
qed

section \<open>The version check\<close>

text \<open>With telemetry disabled nothing is learned, and no update is announced.\<close>

lemma disabled_never_announces:
  "\<not> telemetry_enabled enabled_var \<Longrightarrow>
   \<not> vi_update_available (get_version broker chart_var enabled_var (version_checks enabled_var checks None))"
  by (simp add: version_checks_def get_version_def Let_def update_available_def)

lemma takeWhile_takeWhile: "takeWhile P (takeWhile P s) = takeWhile P s"
  by (induction s) (auto dest: set_takeWhileD)

lemma announced_is_other:
  assumes "vi_update_available (get_version broker chart_var enabled_var state)"
  shows "\<exists>outcome latest. state = Some outcome \<and> co_latest outcome ''chart'' = Some latest
    \<and> strip_build_metadata latest \<noteq> vi_chart (get_version broker chart_var enabled_var state)"
  using assms
  by (cases chart_var; cases state)
    (auto simp: or_else_def get_version_def Let_def update_available_def chart_version_def strip_build_metadata_def takeWhile_takeWhile
      split: if_splits option.splits)

section \<open>The identifier of the installation\<close>

text \<open>What every step keeps: a broker past its insertion meets a row, and what was reported is in the table.\<close>

definition install_ok :: "install_state \<Rightarrow> bool" where
  "install_ok st \<longleftrightarrow> (\<forall>b. is_phase st b = QueryAgain \<longrightarrow> is_table st \<noteq> [])
     \<and> (\<forall>(b, i) \<in> set (is_reported st). i \<in> set (is_table st))"

text \<open>The table is final: it has a row, and no broker that found it empty has still to insert.\<close>

definition install_settled :: "install_state \<Rightarrow> bool" where
  "install_settled st \<longleftrightarrow> is_table st \<noteq> [] \<and> (\<forall>b. is_phase st b \<noteq> InsertFresh)"

text \<open>At no time have two brokers found the table empty and still to insert.\<close>

definition one_inserts :: "install_state \<Rightarrow> bool" where
  "one_inserts st \<longleftrightarrow> (\<forall>b c. is_phase st b = InsertFresh \<longrightarrow> is_phase st c = InsertFresh \<longrightarrow> b = c)"

definition unraced :: "install_step list \<Rightarrow> bool" where
  "unraced steps \<longleftrightarrow> (\<forall>n. one_inserts (install_run (take n steps)))"

lemma any_row_cases: "any_row k tbl = None \<longleftrightarrow> tbl = []" "any_row k tbl = Some i \<Longrightarrow> i \<in> set tbl"
  by (auto simp: any_row_def split: if_splits)

lemma insert_id_set [simp]: "set (insert_id fresh tbl) = insert fresh (set tbl)" "insert_id fresh tbl \<noteq> []"
  by (auto simp: insert_id_def)

lemma install_step_ok: "install_ok st \<Longrightarrow> install_ok (get_or_create_install_id a st)"
  by (cases a) (auto simp: install_ok_def install_report_def any_row_cases(1) dest: any_row_cases(2) split: install_phase.split option.split)

lemma install_step_grows: "set (is_table st) \<subseteq> set (is_table (get_or_create_install_id a st))"
  by (cases a) (auto simp: install_report_def split: install_phase.split option.split)

lemma install_step_settled: "install_settled st \<Longrightarrow>
    install_settled (get_or_create_install_id a st) \<and> is_table (get_or_create_install_id a st) = is_table st"
  by (cases a) (auto simp: install_settled_def install_report_def any_row_cases(1) split: install_phase.split option.split)

lemma install_step_single:
  assumes "length (is_table st) \<le> 1" and "is_table st = [] \<or> install_settled st" and "one_inserts st"
  shows "length (is_table (get_or_create_install_id a st)) \<le> 1
    \<and> (is_table (get_or_create_install_id a st) = [] \<or> install_settled (get_or_create_install_id a st))"
  using assms(2)
proof
  assume empty: "is_table st = []"
  then show ?thesis using assms(3)
    by (cases a) (auto simp: install_settled_def one_inserts_def install_report_def insert_id_def any_row_def
        split: install_phase.split)
qed (use install_step_settled [of st a] assms(1) in auto)

lemma install_run_snoc: "install_run (steps @ [a]) = get_or_create_install_id a (install_run steps)"
  by (simp add: install_run_def)

lemma install_run_ok: "install_ok (install_run steps)"
proof (induction steps rule: rev_induct)
  case Nil
  then show ?case by (simp add: install_run_def install_empty_def install_ok_def)
qed (simp add: install_run_snoc install_step_ok)

lemma install_run_grows: "set (is_table (install_run steps)) \<subseteq> set (is_table (install_run (steps @ later)))"
proof (induction later rule: rev_induct)
  case (snoc a later)
  then show ?case using install_step_grows [of "install_run (steps @ later)" a]
    by (simp add: install_run_snoc flip: append_assoc)
qed simp

lemma install_run_settled:
  "install_settled (install_run steps) \<Longrightarrow> install_settled (install_run (steps @ later))
    \<and> is_table (install_run (steps @ later)) = is_table (install_run steps)"
proof (induction later rule: rev_induct)
  case (snoc a later)
  then show ?case using install_step_settled [of "install_run (steps @ later)" a]
    by (simp add: install_run_snoc flip: append_assoc)
qed simp

lemma install_run_single:
  "unraced steps \<Longrightarrow> length (is_table (install_run steps)) \<le> 1
    \<and> (is_table (install_run steps) = [] \<or> install_settled (install_run steps))"
proof (induction steps rule: rev_induct)
  case Nil
  then show ?case by (simp add: install_run_def install_empty_def)
next
  case (snoc a steps)
  have "unraced steps"
    unfolding unraced_def
  proof
    fix n
    have "take n steps = take (min n (length steps)) (steps @ [a])" by (simp add: min_def)
    then show "one_inserts (install_run (take n steps))" using snoc.prems unfolding unraced_def by metis
  qed
  moreover have "one_inserts (install_run steps)"
    using snoc.prems [unfolded unraced_def, rule_format, of "length steps"] by simp
  ultimately show ?case using install_step_single [of "install_run steps" a] snoc.IH by (simp add: install_run_snoc)
qed

text \<open>
  C38: the identifier of an installation.  However the brokers' statements interleave, whatever identifiers they
  generate, wherever they give up, and whichever row a query picks: every identifier that is reported is and stays
  in the table; once the table has a row and no broker that found it empty has still to insert, it never
  changes; and if no two brokers were ever between finding the table empty and inserting at the same time,
  then from the first report on the table has that one row, and nothing else is reported, by any broker,
  however they interleave later.
\<close>

theorem install_id_agreed:
  "(\<forall>(b, i) \<in> set (is_reported (install_run steps)). i \<in> set (is_table (install_run (steps @ later))))
   \<and> (install_settled (install_run steps) \<longrightarrow> is_table (install_run (steps @ later)) = is_table (install_run steps))
   \<and> (unraced steps \<longrightarrow> (b, i) \<in> set (is_reported (install_run steps)) \<longrightarrow>
        is_table (install_run (steps @ later)) = [i] \<and> (\<forall>(c, j) \<in> set (is_reported (install_run (steps @ later))). j = i))"
proof (intro conjI impI)
  show kept: "\<forall>(b, i) \<in> set (is_reported (install_run steps)). i \<in> set (is_table (install_run (steps @ later)))"
    using install_run_ok [of steps] install_run_grows [of steps later] by (auto simp: install_ok_def)
  show "is_table (install_run (steps @ later)) = is_table (install_run steps)" if "install_settled (install_run steps)"
    using install_run_settled [OF that] by simp
  assume "unraced steps" and reported: "(b, i) \<in> set (is_reported (install_run steps))"
  from reported have "i \<in> set (is_table (install_run steps))" using install_run_ok [of steps] by (auto simp: install_ok_def)
  then have "is_table (install_run steps) = [i]" and "install_settled (install_run steps)"
    using install_run_single [OF \<open>unraced steps\<close>] by (auto simp: le_Suc_eq length_Suc_conv)
  then show table: "is_table (install_run (steps @ later)) = [i]" using install_run_settled by simp
  show "\<forall>(c, j) \<in> set (is_reported (install_run (steps @ later))). j = i"
    using install_run_ok [of "steps @ later"] by (auto simp: install_ok_def table)
qed

text \<open>One broker starts alone, and two more come while it is there.\<close>

definition alone :: "install_step list" where
  "alone = [Proceed 0 [] 0, Proceed 0 ''u0'' 0, Proceed 0 [] 7]"

lemma alone_run:
  "is_reported (install_run alone) = [(0, ''u0'')]"
  "unraced alone"
proof -
  show "is_reported (install_run alone) = [(0, ''u0'')]"
    by (simp add: install_run_def alone_def install_empty_def install_report_def insert_id_def any_row_def)
  have phases: "is_phase (install_run (take n alone)) b = InsertFresh \<Longrightarrow> b = 0" for n b
  proof -
    consider "n = 0" | "n = 1" | "n = 2" | "3 \<le> n" by linarith
    then show "is_phase (install_run (take n alone)) b = InsertFresh \<Longrightarrow> b = 0"
      by cases (auto simp: install_run_def alone_def install_empty_def install_report_def insert_id_def any_row_def
          numeral_2_eq_2 split: if_splits)
  qed
  then show "unraced alone" unfolding unraced_def one_inserts_def by metis
qed

theorem install_id_agreed_witness:
  "is_table (install_run (alone @ [Proceed 1 [] 3, Proceed 2 [] 5])) = [''u0'']
   \<and> list_all (\<lambda>(c, j). j = ''u0'') (is_reported (install_run (alone @ [Proceed 1 [] 3, Proceed 2 [] 5])))"
  using install_id_agreed [of alone "[Proceed 1 [] 3, Proceed 2 [] 5]" 0 "''u0''"] alone_run by (auto simp: list_all_iff)

text \<open>
  Both brokers of a race insert, since the key is the identifier itself: the conflict never arises, the
  table has two rows, and where the two queries that follow pick different rows the two brokers report
  different identifiers, though the comment says that every replica reports the same.
\<close>

definition race :: "install_step list" where
  "race = [Proceed 0 [] 0, Proceed 1 [] 0, Proceed 0 ''u0'' 0, Proceed 0 [] 0, Proceed 1 ''u1'' 0, Proceed 1 [] 1]"

lemma install_race:
  "is_table (install_run race) = [''u0'', ''u1''] \<and> is_reported (install_run race) = [(0, ''u0''), (1, ''u1'')]"
  by (simp add: install_run_def race_def install_empty_def install_report_def insert_id_def any_row_def)

end
