(* ===== verification/Advisor_Pods.thy ===== *)
theory Advisor_Pods
  imports Advisor_Seccomp Advisor_Service
begin

text \<open>
  What the commands of the advisor work on: the choice of pods in \<^verbatim>\<open>pods.go\<close> and \<^verbatim>\<open>generic.go\<close>, the
  namespace of \<^verbatim>\<open>config.go\<close> and the way to the broker of \<^verbatim>\<open>portforward.go\<close> in \<^verbatim>\<open>src/advisor/pkg/k8s\<close>, and
  how \<^verbatim>\<open>seccomp.go\<close> and \<^verbatim>\<open>networkpolicy.go\<close> in \<^verbatim>\<open>src/advisor/cmd\<close> use them.  The API server's answers,
  the environment and the forwarding of a port are parameters.
\<close>

section \<open>Pods\<close>

record cluster_pod =
  cl_namespace :: string
  cl_name :: string
  cl_phase :: string
  cl_conditions :: "(string \<times> string) list"     \<comment> \<open>type and status\<close>

text \<open>The pods of a namespace, or of all for the empty name, and one by namespace and name.\<close>

record clientset =
  cs_list :: "string \<Rightarrow> cluster_pod list option"
  cs_get :: "string \<Rightarrow> string \<Rightarrow> cluster_pod option"

datatype pod_error = ErrNoClientset | ErrRequest | ErrNotRunning string

definition is_running :: "cluster_pod \<Rightarrow> bool" where
  "is_running pod = (cl_phase pod = ''Running'')"

definition getPod :: "clientset option \<Rightarrow> string \<Rightarrow> string \<Rightarrow> pod_error + cluster_pod" where
  "getPod config namespace podName = (case config of
     None \<Rightarrow> Inl ErrNoClientset
   | Some cs \<Rightarrow> (case cs_get cs namespace podName of
       None \<Rightarrow> Inl ErrRequest
     | Some pod \<Rightarrow> if \<not> is_running pod then Inl (ErrNotRunning (cl_phase pod)) else Inr pod))"

definition getPodsInNamespace :: "clientset option \<Rightarrow> string \<Rightarrow> pod_error + cluster_pod list" where
  "getPodsInNamespace config namespace = (case config of
     None \<Rightarrow> Inl ErrNoClientset
   | Some cs \<Rightarrow> (case cs_list cs namespace of
       None \<Rightarrow> Inl ErrRequest
     | Some items \<Rightarrow> Inr (filter is_running items)))"

definition getAllPodsInAllNamespaces :: "clientset option \<Rightarrow> pod_error + cluster_pod list" where
  "getAllPodsInAllNamespaces config = getPodsInNamespace config []"

datatype ModeType = SinglePod | AllPodsInNamespace | AllPodsInAllNamespaces

record GenerateOptions =
  go_Mode :: ModeType
  go_PodName :: string
  go_Namespace :: string

definition GetResource :: "GenerateOptions \<Rightarrow> clientset option \<Rightarrow> cluster_pod list" where
  "GetResource options config = (case go_Mode options of
     SinglePod \<Rightarrow> (case getPod config (go_Namespace options) (go_PodName options) of Inl e \<Rightarrow> [] | Inr pod \<Rightarrow> [pod])
   | AllPodsInNamespace \<Rightarrow> (case getPodsInNamespace config (go_Namespace options) of Inl e \<Rightarrow> [] | Inr pods \<Rightarrow> pods)
   | AllPodsInAllNamespaces \<Rightarrow> (case getAllPodsInAllNamespaces config of Inl e \<Rightarrow> [] | Inr pods \<Rightarrow> pods))"

section \<open>The commands\<close>

text \<open>The options of \<^verbatim>\<open>seccomp\<close>; \<open>None\<close> is the usage text.\<close>

definition seccomp_options :: "bool \<Rightarrow> bool \<Rightarrow> string list \<Rightarrow> string \<Rightarrow> GenerateOptions option" where
  "seccomp_options allNamespaces allInNamespace args namespace =
     (if allNamespaces then Some \<lparr>go_Mode = AllPodsInAllNamespaces, go_PodName = [], go_Namespace = []\<rparr>
      else if allInNamespace then Some \<lparr>go_Mode = AllPodsInNamespace, go_PodName = [], go_Namespace = namespace\<rparr>
      else (case args of
              [pod] \<Rightarrow> Some \<lparr>go_Mode = SinglePod, go_PodName = pod, go_Namespace = namespace\<rparr>
            | _ \<Rightarrow> None))"

definition seccomp_pods :: "GenerateOptions \<Rightarrow> clientset option \<Rightarrow> string list" where
  "seccomp_pods options config = map cl_name (GetResource options config)"

text \<open>The pod names \<^verbatim>\<open>networkpolicy\<close> generates policies for; \<open>None\<close> is an exit with an error.\<close>

definition netpol_pods :: "bool \<Rightarrow> bool \<Rightarrow> string list \<Rightarrow> string \<Rightarrow> clientset option \<Rightarrow> string list option" where
  "netpol_pods allNamespaces allInNamespace args targetNamespace config =
     (if allNamespaces then (case getAllPodsInAllNamespaces config of Inl e \<Rightarrow> None | Inr pods \<Rightarrow> Some (map cl_name pods))
      else if allInNamespace then
        (case getPodsInNamespace config targetNamespace of Inl e \<Rightarrow> None | Inr pods \<Rightarrow> Some (map cl_name pods))
      else (case args of [podName] \<Rightarrow> Some [podName] | _ \<Rightarrow> None))"

text \<open>
  The namespace: that of the environment, of the file's current context, or \<^verbatim>\<open>default\<close>; \<open>None\<close> when no home
  directory is known.  \<open>context_ns\<close> is what the file gives, if it is there and readable.
\<close>

definition GetCurrentNamespace :: "string option \<Rightarrow> string option \<Rightarrow> string option \<Rightarrow> (string \<Rightarrow> bool) \<Rightarrow> string option \<Rightarrow> string option" where
  "GetCurrentNamespace pod_ns_var kubeconfig home exists_file context_ns =
     (let ns = trim (case pod_ns_var of None \<Rightarrow> [] | Some v \<Rightarrow> v)
      in if ns \<noteq> [] then Some ns
         else let path = trim (case kubeconfig of None \<Rightarrow> [] | Some v \<Rightarrow> v)
              in case (if path \<noteq> [] then Some path else map_option (\<lambda>h. h @ ''/.kube/config'') home) of
                   None \<Rightarrow> None
                 | Some file \<Rightarrow>
                     if \<not> exists_file file then Some ''default''
                     else (case context_ns of None \<Rightarrow> Some ''default'' | Some n \<Rightarrow> if n \<noteq> [] then Some n else Some ''default''))"

section \<open>The way to the broker\<close>

fun ready_condition :: "(string \<times> string) list \<Rightarrow> bool" where
  "ready_condition [] = False"
| "ready_condition ((t, v) # cs) = (if t = ''Ready'' then v = ''True'' else ready_condition cs)"

definition IsPodReady :: "cluster_pod option \<Rightarrow> bool" where
  "IsPodReady pod = (case pod of None \<Rightarrow> False | Some p \<Rightarrow> ready_condition (cl_conditions p))"

definition broker_namespace :: "string \<Rightarrow> string option \<Rightarrow> string" where
  "broker_namespace flag env =
     (let fromEnv = trim (case env of None \<Rightarrow> [] | Some v \<Rightarrow> v)
      in if flag \<noteq> [] then flag else if fromEnv \<noteq> [] then fromEnv else ''kguardian'')"

definition broker_service :: "string \<Rightarrow> string" where
  "broker_service flag = (if flag \<noteq> [] then flag else ''broker'')"

datatype forward_error =
    NilConfig | NoService | NoSelectors | PodsNotListed | NoPods | NoReadyPod | NotForwarded

text \<open>What is done to the channels: an error into \<^verbatim>\<open>errChan\<close>, which holds one, and the closing of \<^verbatim>\<open>done\<close>.\<close>

datatype channel_op = SendErr forward_error | CloseDone

text \<open>
  \<open>service\<close> is the selector of the service, \<open>pods\<close> the answer for a selector, and \<open>forwarded\<close> whether the
  forwarding to a pod got ready.
\<close>

definition forward_result :: "bool \<Rightarrow> (string \<Rightarrow> string \<Rightarrow> (string \<times> string) list option) \<Rightarrow> (string \<Rightarrow> (string \<times> string) list \<Rightarrow> cluster_pod list option)
    \<Rightarrow> (cluster_pod \<Rightarrow> bool) \<Rightarrow> string \<Rightarrow> string \<Rightarrow> forward_error option" where
  "forward_result config_ok service pods forwarded ns svc =
     (if \<not> config_ok then Some NilConfig
      else case service ns svc of
        None \<Rightarrow> Some NoService
      | Some selector \<Rightarrow>
          if selector = [] then Some NoSelectors
          else case pods ns selector of
            None \<Rightarrow> Some PodsNotListed
          | Some items \<Rightarrow>
              if items = [] then Some NoPods
              else case find (\<lambda>p. IsPodReady (Some p)) items of
                None \<Rightarrow> Some NoReadyPod
              | Some readyPod \<Rightarrow> if forwarded readyPod then None else Some NotForwarded)"

definition PortForward :: "bool \<Rightarrow> (string \<Rightarrow> string \<Rightarrow> (string \<times> string) list option) \<Rightarrow> (string \<Rightarrow> (string \<times> string) list \<Rightarrow> cluster_pod list option)
    \<Rightarrow> (cluster_pod \<Rightarrow> bool) \<Rightarrow> string \<Rightarrow> string option \<Rightarrow> string \<Rightarrow> channel_op list" where
  "PortForward config_ok service pods forwarded ns_flag ns_env svc_flag =
     (case forward_result config_ok service pods forwarded (broker_namespace ns_flag ns_env) (broker_service svc_flag) of
        Some e \<Rightarrow> [SendErr e, CloseDone]
      | None \<Rightarrow> [CloseDone])"

text \<open>
  The commands wait for the channels.  \<open>seen\<close> are the operations done when a command looks: \<^verbatim>\<open>select\<close> takes any
  case that is ready, and \<^verbatim>\<open>seccomp\<close> waits for \<^verbatim>\<open>done\<close> alone and reads the errors beside its work.
\<close>

datatype command_next = GoOn | ExitWith forward_error

definition netpol_select :: "channel_op list \<Rightarrow> command_next set" where
  "netpol_select seen = (if CloseDone \<in> set seen then {GoOn} else {}) \<union>
     set (List.map_filter (\<lambda>c. case c of SendErr e \<Rightarrow> Some (ExitWith e) | CloseDone \<Rightarrow> None) seen)"

definition seccomp_wait :: "channel_op list \<Rightarrow> command_next set" where
  "seccomp_wait seen = (if CloseDone \<in> set seen then {GoOn} else {})"

section \<open>Laws\<close>

lemma chosen_pods:
  assumes "\<And>ns items p. cs_list cs ns = Some items \<Longrightarrow> p \<in> set items \<Longrightarrow> ns = [] \<or> cl_namespace p = ns"
    and "\<And>ns name p. cs_get cs ns name = Some p \<Longrightarrow> cl_namespace p = ns \<and> cl_name p = name"
    and "pod \<in> set (GetResource options (Some cs))"
  shows "is_running pod \<and> (go_Mode options \<noteq> AllPodsInAllNamespaces \<and> go_Namespace options \<noteq> [] \<longrightarrow> cl_namespace pod = go_Namespace options)
    \<and> (go_Mode options = SinglePod \<longrightarrow> cl_name pod = go_PodName options)"
  using assms(3) assms(1) [of "go_Namespace options" _ pod] assms(2) [of "go_Namespace options" "go_PodName options" pod]
  by (auto simp: GetResource_def getPod_def getPodsInNamespace_def getAllPodsInAllNamespaces_def
      split: ModeType.splits option.splits if_splits)

text \<open>
  After a failure \<^verbatim>\<open>networkpolicy\<close> may still go on when it looks at the channels after both operations,
  and \<^verbatim>\<open>seccomp\<close> always goes on.
\<close>

lemma failed_forward:
  assumes "forward_result config_ok service pods forwarded (broker_namespace ns_flag ns_env) (broker_service svc_flag) = Some e"
  shows "netpol_select (take 1 (PortForward config_ok service pods forwarded ns_flag ns_env svc_flag)) = {ExitWith e}"
    and "netpol_select (PortForward config_ok service pods forwarded ns_flag ns_env svc_flag) = {GoOn, ExitWith e}"
    and "seccomp_wait (PortForward config_ok service pods forwarded ns_flag ns_env svc_flag) = {GoOn}"
  using assms by (auto simp: PortForward_def netpol_select_def seccomp_wait_def List.map_filter_simps)

end
