(* ===== verification/Spec2Isabelle.thy ===== *)
theory Spec2Isabelle
  imports Helper_Props Network_Props Drop_Props Syscall_Props Controller_Props Sender_Props Address_Text Evaluate_Props Advisor_Props Broker_Props Broker_State_Props Seccomp_Props Reconcile_Props Path_Props Promote_Props Startup_Props Advisor_Pods
begin

text \<open>
  A verification library for \<^bold>\<open>kguardian\<close>: its eBPF probes, the part of the controller that configures
  them and consumes their events, the broker, which stores what was observed, the evaluator, which judges
  flows by audit policies, and the advisor, which turns the observed connections into network policies.

  \<^bold>\<open>The program.\<close>  kguardian watches the pods of a Kubernetes node.  Three eBPF objects, written
  in C under \<^verbatim>\<open>src/controller/src/bpf\<close>, run in the kernel: \<^verbatim>\<open>network_probe.bpf.c\<close> reports new TCP and
  UDP connections, \<^verbatim>\<open>netpolicy_drop.bpf.c\<close> infers connections that a network policy drops from
  repeated SYN retransmissions, and \<^verbatim>\<open>syscall.bpf.c\<close> reports system calls.  They share \<^verbatim>\<open>helper.h\<close>
  (the maps of watched namespaces, ignored addresses and allowed syscalls, and two filters) and the
  kernel's declarations in \<^verbatim>\<open>vmlinux.h\<close>.  The controller, in Rust, loads the objects, writes the
  maps, reads the three ring buffers and sends rows to the broker.  A pod is identified by the inode
  number of its network namespace.  The broker, in Rust under \<^verbatim>\<open>src/broker\<close>, drops rows it takes for
  duplicates, keeps the rest in PostgreSQL beside records of pods, services and system calls, hands new
  rows to the evaluator through a bounded queue, stores its verdicts, answers queries and prunes what
  is old.  The evaluator, in Go under \<^verbatim>\<open>src/evaluator\<close>, is handed the flows the
  broker assembles from these rows; it keeps the audit policies and pods of the cluster in caches,
  answers each flow with a verdict per policy and direction, and writes counters of the verdicts to
  the status of the policies.  The advisor, in Go under \<^verbatim>\<open>src/advisor\<close>, reads a pod's stored rows from the
  broker, resolves the remote addresses to services and pods, and generates a Kubernetes or a Cilium
  policy that allows what was observed; from the stored system calls it builds seccomp profiles, and it
  promotes audit policies that have proved themselves to network policies.  The
  controller also watches the pods and services of the cluster: it records them at the broker, finds the
  network namespace of each pod through the container runtime, and marks pods dead that are gone.

  \<^bold>\<open>Theories and sources.\<close>

    \<^item> \<^verbatim>\<open>Prelude\<close>: integer types, little-endian byte strings, reads and writes at an offset, the
      rule collections \<^verbatim>\<open>layout_simps\<close> and \<^verbatim>\<open>bytes_simps\<close>.
    \<^item> \<^verbatim>\<open>CLayout\<close>: C types and their layout (size, alignment, bit-fields, anonymous members, offsets
      of member paths) by the System V rules that both 64-bit targets share, with the proof that
      members of a well-formed type lie inside it, aligned and apart.
    \<^item> \<^verbatim>\<open>Vmlinux_Base\<close>, \<^verbatim>\<open>Vmlinux_Task\<close>, \<^verbatim>\<open>Vmlinux_Net\<close>, \<^verbatim>\<open>Vmlinux_Sock\<close>, \<^verbatim>\<open>Vmlinux_Bpf\<close>: declarations of
      \<^verbatim>\<open>vmlinux.h\<close>, member by member, with their layouts.
    \<^item> \<^verbatim>\<open>Kmem\<close>: kernel memory as bytes that may fault, \<^verbatim>\<open>BPF_CORE_READ\<close> and the access paths the
      probes use.
    \<^item> \<^verbatim>\<open>Bpf_Runtime\<close>: what a run of a program gets from the kernel (record \<open>bpf_env\<close>), the contracts of
      map updates as locales \<open>map_update\<close>, \<open>map_update_ok\<close>, \<open>percpu_update\<close>, \<open>percpu_update_ok\<close>, and ring
      buffers as lists of records, oldest first.
    \<^item> \<^verbatim>\<open>Helper\<close> (\<^verbatim>\<open>helper.h\<close>), \<^verbatim>\<open>Network_Probe\<close>, \<^verbatim>\<open>Netpolicy_Drop\<close>, \<^verbatim>\<open>Syscall_Probe\<close>: one definition per C
      function, on a record with one field per map of the object.
    \<^item> \<^verbatim>\<open>Controller_Feed\<close>, \<^verbatim>\<open>Controller_Loop\<close> (\<^verbatim>\<open>bpf.rs\<close>), \<^verbatim>\<open>Event_Abi\<close> (the \<^verbatim>\<open>repr(C)\<close> structures and the
      callbacks), \<^verbatim>\<open>Controller_Events\<close> (\<^verbatim>\<open>network.rs\<close>), \<^verbatim>\<open>Syscall_Sender\<close> (\<^verbatim>\<open>syscall.rs\<close>): the controller's side.
    \<^item> \<^verbatim>\<open>Go_Net\<close>: what the evaluator uses of Go's package \<^verbatim>\<open>net\<close>; \<^verbatim>\<open>Policy_Matcher\<close> (\<^verbatim>\<open>pkg/matcher\<close>),
      \<^verbatim>\<open>Policy_Store\<close> (\<^verbatim>\<open>pkg/store\<close>), \<^verbatim>\<open>Policy_Status\<close> (\<^verbatim>\<open>pkg/status\<close>), \<^verbatim>\<open>Policy_Server\<close> (\<^verbatim>\<open>pkg/server\<close>): one
      definition per Go function, loops as recursions, nil pointers and errors as \<open>None\<close>.
    \<^item> \<^verbatim>\<open>Policy_Spec\<close>: the semantics of a policy as the matcher's documentation gives it, the contract
      of its lookup as the locale \<open>pod_lookup\<close>, and the agreement of the loops with it; \<^verbatim>\<open>Policy_Store\<close>
      discharges the contract from the keying of the informer (locale \<open>keyed_informer\<close>).
    \<^item> \<^verbatim>\<open>Advisor_Rules\<close> (\<^verbatim>\<open>types.go\<close>, the row loop), \<^verbatim>\<open>Advisor_Policy\<close> (\<^verbatim>\<open>standard_policy.go\<close>), \<^verbatim>\<open>Advisor_Cilium\<close>
      (\<^verbatim>\<open>cilium_policy.go\<close>), \<^verbatim>\<open>Advisor_Service\<close> (\<^verbatim>\<open>generator.go\<close>): the generators of \<^verbatim>\<open>pkg/network\<close> and the
      service around them, with the interface \<^verbatim>\<open>PolicyGenerator\<close> as the locale \<open>policy_generator\<close>.
    \<^item> \<^verbatim>\<open>Advisor_Spec\<close>: the policies as functions of the set of observed connections, and the refinement of
      the rule lists to them under the laws of the library's ports (locale \<open>kube_ports\<close>).
    \<^item> \<^verbatim>\<open>Broker_Tables\<close> (\<^verbatim>\<open>types.rs\<close>, \<^verbatim>\<open>schema.rs\<close>, Rust's strings), \<^verbatim>\<open>Broker_Query\<close> (\<^verbatim>\<open>get.rs\<close>), \<^verbatim>\<open>Broker_Audit\<close>
      (\<^verbatim>\<open>audit.rs\<close>), \<^verbatim>\<open>Broker_Ingest\<close> (\<^verbatim>\<open>add.rs\<close>), \<^verbatim>\<open>Broker_Retention\<close> (\<^verbatim>\<open>retention.rs\<close>), \<^verbatim>\<open>Broker_Auth\<close>
      (\<^verbatim>\<open>auth.rs\<close>): one definition per handler and statement, on a record with one list of rows per table;
      the dispatcher of the audit queue as the step relation \<open>audit_step\<close>.  \<^verbatim>\<open>Broker_Startup\<close> (\<^verbatim>\<open>main.rs\<close>, \<^verbatim>\<open>conn.rs\<close>,
      \<^verbatim>\<open>version_check.rs\<close>, \<^verbatim>\<open>telemetry.rs\<close>): settings, the size of the pool, migrations, the version check; the
      identifier of the installation as interleaved steps of several brokers on one table.
    \<^item> \<^verbatim>\<open>Broker_System\<close>: the broker as a state machine over all writing operations, the invariant of its
      tables, and the contracts of its parts on the model: upserts on a keyed table (locale \<open>upsert\<close>),
      batched pruning (\<open>pruning\<close>), sorted windows (\<open>strict_order\<close>, \<open>collation\<close>).
    \<^item> \<^verbatim>\<open>Text_Split\<close>: splitting and trimming of text; \<^verbatim>\<open>Pod_Watcher\<close> (\<^verbatim>\<open>pod_watcher.rs\<close>, \<^verbatim>\<open>container.rs\<close>), \<^verbatim>\<open>Pod_Reconciler\<close>
      (\<^verbatim>\<open>pod_reconciler.rs\<close>, \<^verbatim>\<open>service_watcher.rs\<close>), \<^verbatim>\<open>Controller_Client\<close> (\<^verbatim>\<open>client.rs\<close>): the controller towards
      Kubernetes and the broker, on a record of what was posted and sent into the channels; \<^verbatim>\<open>Advisor_Seccomp\<close>
      (\<^verbatim>\<open>seccomp.go\<close>, \<^verbatim>\<open>pod_syscall.go\<close>).
    \<^item> \<^verbatim>\<open>Advisor_Promote\<close> (\<^verbatim>\<open>cmd/audit.go\<close>, \<^verbatim>\<open>cmd/audit_cluster.go\<close>): objects as records whose specification is
      JSON; the outputs are the text on the standard output and a map of files.  \<^verbatim>\<open>Advisor_Pods\<close> (\<^verbatim>\<open>pods.go\<close>, \<^verbatim>\<open>generic.go\<close>,
      \<^verbatim>\<open>config.go\<close>, \<^verbatim>\<open>portforward.go\<close> and the commands that use them): what the commands work on.
    \<^item> \<^verbatim>\<open>Network_Correct\<close>, \<^verbatim>\<open>Drop_Correct\<close>: runs of programs, reachable states, invariants, and for the
      drop probe the abstract state machine of a connection attempt.
    \<^item> \<^verbatim>\<open>Network_Race\<close>: the reporting end of the network programs as interleaved accesses of concurrent runs.
    \<^item> \<^verbatim>\<open>Demo\<close>: concrete memory images for the witnesses.
    \<^item> \<^verbatim>\<open>Helper_Props\<close>, \<^verbatim>\<open>Network_Props\<close>, \<^verbatim>\<open>Drop_Props\<close>, \<^verbatim>\<open>Syscall_Props\<close>, \<^verbatim>\<open>Controller_Props\<close>, \<^verbatim>\<open>Event_Abi\<close>,
      \<^verbatim>\<open>Sender_Props\<close>, \<^verbatim>\<open>Address_Text\<close>, \<^verbatim>\<open>Policy_Props\<close>, \<^verbatim>\<open>Status_Props\<close>, \<^verbatim>\<open>Evaluate_Props\<close>, \<^verbatim>\<open>Advisor_Props\<close>,
      \<^verbatim>\<open>Broker_Props\<close>, \<^verbatim>\<open>Broker_State_Props\<close>, \<^verbatim>\<open>Seccomp_Props\<close>, \<^verbatim>\<open>Watch_Props\<close>, \<^verbatim>\<open>Reconcile_Props\<close> (with the locale
      \<open>upsert_band\<close> of repeated upserts), \<^verbatim>\<open>Promote_Props\<close>, \<^verbatim>\<open>Startup_Props\<close>, \<^verbatim>\<open>Path_Props\<close> (the path through all
      components) and this theory: the properties, labelled C1 to C40, and further theorems
      of the same kind without a label.

  \<^bold>\<open>What is shown.\<close>  Through all components: the first datagram of a watched pod reaches the controller as
  one event, and once its row is stored, the policy generated for the pod allows the flow in the
  evaluator.  For every program, what it appends to the ring buffer on every branch, from the
  bytes of the socket or task in memory.  For the network probe: each connection at most once, and at
  most \<open>n\<close> times where \<open>n\<close> runs race, a second report yielding no second row; the
  shape of every record in every reachable state, ordered time stamps; and three ways a connection
  gets lost or misattributed (a full ring buffer, an accept that changes its CPU, the ingress key).
  For the drop probe: it refines a three-phase state machine per attempt; an unanswered attempt is
  reported once, at the third retransmission; an established one never; a report that finds the ring
  full is made later; UDP is never reported.  For the syscall probe: the records are exactly the
  tracked and allowed calls, in order; the allowlist fits its map; what a partial list does.  Runs of the
  nine programs on behalf of pods that are not watched leave no trace.  For
  the shared parts: the filter, byte orders, offsets, the position of \<^verbatim>\<open>sock_common\<close> in every socket
  type.  For the controller: records decode to what was encoded, events are delivered in order and
  without loss while receivers are open, rows have distinct keys, batches are bounded and lose
  nothing below the bound, a failing poll ends the loop after 50 failures; every record the probes can
  produce becomes its row; the syscall sender posts only what was seen, marks as sent only what the broker
  accepted, and one successful pass delivers everything seen.  For the
  evaluator: the policy cache holds a policy exactly when the last event of its name set it; the matcher computes the verdict of
  the reference semantics, once per policy and direction; cluster policies agree with namespaced
  ones; an address the controller prints matches a block \<open>a.b.c.d/p\<close> exactly when its first \<open>p\<close> bits agree;
  a request moves the counters by exactly its results; counters, flushes and statuses are at all times those
  of a ledger kept from the events alone; the list of offenders does not depend on the walk of a map; and what a status patch leaves
  standing after a restart.  For the advisor: a generated policy, audited by the evaluator's matcher,
  allows exactly the flows whose protocol, port and peer come from a usable row; the rows the controller
  writes are usable, those of dropped connections included; the answer of the service does not depend
  on the order of the rows; the two generators agree on ports, blocks and pod labels; the policies promoted
  from a cluster policy give the verdicts it gave in audit, and which documents and files are written.  For the broker:
  for TCP its deduplication does not show in policies, and in which case it loses a connection; the
  tables are well formed and the stored manifests slim at all times; which syscall batches are stored, and how; a stale mark of
  death changes nothing; pruning deletes what was recorded long ago and nothing else, a pod that has just died
  included; the accounts of the audit
  queue; the window of the traffic query; the access check; the connections that the audit workers leave to
  the rest of the broker; how often migrations are tried, and under which timeout; that brokers on one
  database report one identifier, unless their first starts race; and that an audit of stored flows
  sees addresses but not peer pods.  For the controller with the broker: every row carries a pod that was
  recorded and is not in an excluded namespace; a listing of pods can be repeated without effect; a
  reconciliation marks exactly the pods that are gone, except that it fails at a broker with a token, while
  posts with the same token pass if it is visible ASCII; the settings are read whatever blanks they carry.  A seccomp profile lists the posted
  names of its pod.

  \<^bold>\<open>Modelling decisions.\<close>  A run of a program sees one snapshot of kernel memory and, but
  for \<^verbatim>\<open>Network_Race\<close>, is not interleaved with another run on the same map; sequences of runs on any CPU, in any order, are lists
  of pairs of an environment and a program.  The kernel side of \<^verbatim>\<open>bpf_map_update_elem\<close> is a parameter:
  it may fail, and on an LRU map it may evict other keys (locale \<open>map_update\<close>); a property that
  needs an entry to stay says so (\<open>retains\<close>).  \<^verbatim>\<open>bpf_ringbuf_reserve\<close> may return \<^verbatim>\<open>NULL\<close> at any time and
  the bytes it returns are arbitrary.  CO-RE relocation is the parameter \<open>core_offs\<close>; members of the
  local copy of \<^verbatim>\<open>sock_common\<close> are not relocated and keep the offsets of \<^verbatim>\<open>vmlinux.h\<close>.  The keys of the
  hash maps are compared by their members: the trailing padding of \<^verbatim>\<open>struct conn_key\<close> and
  \<^verbatim>\<open>struct conn_attempt\<close> is taken to be cleared by the initializers, as the compiler does.  Byte order
  is little endian, as on both supported targets.  In the evaluator a Go map is walked in an order that
  is an argument, a handler that holds a mutex is one step, and a flush is one step per policy, so
  that requests may be recorded in between (\<open>agg_event\<close>, \<open>agg_do\<close>).  Loops are recursions over the list of their inputs; the
  one counter, in the IPv6 parser, is the number of groups an address has left.  \<^verbatim>\<open>sort.Slice\<close> is an
  insertion sort; its result is determined because the elements differ in their keys.  A table of the
  broker is the list of its rows in the order a query without \<^verbatim>\<open>ORDER BY\<close> meets them, and statements are
  written with the operations of lists: \<^verbatim>\<open>NULL\<close> equals nothing, a violated primary key is an error, a
  transaction is all or nothing, a changeset leaves out absent fields.  Whether the database answers,
  its clock and its order of texts are arguments; the row that the query for the identifier of the installation
  picks is one as well.  The bytes of a header reach the broker as they were sent, and
  \<^verbatim>\<open>HeaderValue::to_str\<close> reads visible ASCII alone.  The decoders of policy specifications are parameters of
  promotion (\<open>spec_decoders\<close>: the two specifications differ by one field), as is the list of namespaces
  (\<open>lists_namespaces\<close>: it may hold more than was selected, and not less).  One request is one step; the 200 batches of a
  pruning pass run without another request in between.

  \<^bold>\<open>Not modelled.\<close>  Loading and attaching the objects (libbpf), the verifier, the rest of
  \<^verbatim>\<open>vmlinux.h\<close>, which no program refers to; in the controller, the Kubernetes and container-runtime
  clients and HTTP, whose answers are parameters, the texts of errors and logging; in the evaluator, label selectors (apimachinery), the informers, JSON, the
  API server's merge and the listening of the server, which are parameters or left out; in the advisor,
  \<^verbatim>\<open>apimachinery\<close> (record \<open>kube\<close> with the documented laws \<open>kube_documented\<close>), YAML, files, the command line and the
  HTTP client; the loading of client configurations, port forwarding itself, and \<^verbatim>\<open>networkpolicies.go\<close>
  and \<^verbatim>\<open>labels.go\<close> in \<^verbatim>\<open>pkg/k8s\<close>, which no command calls; in the broker, the implementation of the connection pool,
  the text of the metrics and the HTTP framework; the flags and task wiring of the programs; the user interface, the
  LLM bridge and the charts.
\<close>

section \<open>Across the probes\<close>

text \<open>
  Runs on behalf of pods that are not watched: the program is handed a socket, or interrupts a task, of a
  namespace that is not in the probe's \<^verbatim>\<open>inode_num\<close> map.  The return probe of an accept does not see the
  listening socket; it belongs to a watched pod when the entry probe has noted its thread.
\<close>

definition untracked_sock :: "'a helper_maps_scheme \<Rightarrow> bpf_env \<Rightarrow> u64 \<Rightarrow> bool" where
  "untracked_sock s e sk \<longleftrightarrow> (\<exists>skc inum. sock_at (env_offs e) (env_mem e) sk skc inum \<and> inode_num s (ucast inum) = None)"

fun net_untracked :: "net_state \<Rightarrow> bpf_env \<times> net_prog \<Rightarrow> bool" where
  "net_untracked s (e, UdpSend sk) = untracked_sock s e sk"
| "net_untracked s (e, TcpSetState sk st) = untracked_sock s e sk"
| "net_untracked s (e, AcceptEntry sk) = untracked_sock s e sk"
| "net_untracked s (e, AcceptExit sk) = (tcp_ctx s (ucast (bpf_get_current_pid_tgid e)) = None)"

fun drop_untracked :: "drop_state \<Rightarrow> bpf_env \<times> drop_prog \<Rightarrow> bool" where
  "drop_untracked s (e, Retransmit sk) = untracked_sock s e sk"
| "drop_untracked s (e, Connect sk) = untracked_sock s e sk"
| "drop_untracked s (e, SetState sk st) = untracked_sock s e sk"
| "drop_untracked s (e, UdpSendmsg sk) = untracked_sock s e sk"

definition sys_untracked :: "syscall_state \<Rightarrow> bpf_env \<times> bytes \<Rightarrow> bool" where
  "sys_untracked s = (\<lambda>(e, ctx). \<exists>inum. task_at (env_offs e) (env_mem e) (bpf_get_current_task e) inum
     \<and> inode_num s (ucast inum) = None)"

lemma untracked_sock_guard: "untracked_sock s e sk \<Longrightarrow> get_and_validate_inum e sk s = None"
  by (auto simp: untracked_sock_def get_and_validate_inum_at domIff)

lemma net_untracked_quiet: "net_untracked s (e, p) \<Longrightarrow> net_prog_run upd pupd e p s = s"
  by (cases p) (auto simp: untracked_sock_guard trace_udp_send_eq trace_tcp_state_change_eq tcp_accept_entry_def tcp_accept_exit_eq)

lemma drop_untracked_quiet: "drop_untracked s (e, p) \<Longrightarrow> drop_prog_run upd e p s = s"
  by (cases p) (auto simp: untracked_sock_guard drop_guard_def trace_tcp_retransmit_eq trace_tcp_connect_eq
      drop_trace_tcp_state_change_eq drop_trace_udp_send_eq)

lemma sys_untracked_quiet: "sys_untracked s (e, ctx) \<Longrightarrow> trace_execve e ctx s = s"
  by (auto simp: sys_untracked_def trace_execve_def read_task_inum_at Let_def)

text \<open>
  C8: pods that are not watched leave no trace.  Any sequence of runs on behalf of pods that are not
  watched, of all nine programs of the three probes, on any CPUs, leaves the maps and the ring buffer of each
  probe as they are.  That covers an accept from its entry to its return, whatever socket it returns: the
  entry of a listening socket that is not watched notes nothing for its thread, and a return without a note
  does nothing.
\<close>

theorem untracked_pods_invisible:
  assumes "list_all (net_untracked s) ps" and "list_all (drop_untracked d) qs" and "list_all (sys_untracked y) rs"
  shows "net_run upd pupd ps s = s \<and> drop_run dupd qs d = d \<and> fold (\<lambda>(e, ctx). trace_execve e ctx) rs y = y"
proof (intro conjI)
  show "net_run upd pupd ps s = s" using assms(1) by (induction ps) (auto simp: net_untracked_quiet)
  show "drop_run dupd qs d = d" using assms(2) by (induction qs) (auto simp: drop_untracked_quiet)
  show "fold (\<lambda>(e, ctx). trace_execve e ctx) rs y = y" using assms(3) by (induction rs) (auto simp: sys_untracked_quiet)
qed

theorem untracked_pods_invisible_witness:
  "net_run no_evict demo_pupd [(demo_env demo_client 4026531840, UdpSend 0x1000),
      (demo_env demo_listener 4026531840, AcceptEntry 0x1000), (demo_env demo_accepted 4026531840, AcceptExit 0x1000)] net_init = net_init
   \<and> drop_run no_evict [(demo_env demo_client 4026531840, Retransmit 0x1000)] drop_init = drop_init
   \<and> trace_execve demo_task_env (demo_ctx 59) (demo_sys Map.empty\<lparr>inode_num := Map.empty\<rparr>) =
       demo_sys Map.empty\<lparr>inode_num := Map.empty\<rparr>"
proof -
  let ?y = "demo_sys Map.empty\<lparr>inode_num := Map.empty\<rparr>"
  have sock: "untracked_sock t (demo_env skc 4026531840) 0x1000" if "inode_num t = Map.empty" for t :: "'a helper_maps_scheme" and skc
    using demo_sock_at [of skc 4026531840] that by (auto simp: untracked_sock_def)
  let ?net = "[(demo_env demo_client 4026531840, UdpSend 0x1000), (demo_env demo_listener 4026531840, AcceptEntry 0x1000),
    (demo_env demo_accepted 4026531840, AcceptExit 0x1000)]"
  have none: "inode_num net_init = Map.empty" "tcp_ctx net_init = Map.empty" "inode_num drop_init = Map.empty"
    by (simp_all add: net_init_def drop_init_def)
  have "list_all (net_untracked net_init) ?net"
    using sock [OF none(1), of demo_client] sock [OF none(1), of demo_listener] by (simp add: none)
  moreover have "list_all (drop_untracked drop_init) [(demo_env demo_client 4026531840, Retransmit 0x1000)]"
    using sock [OF none(3), of demo_client] by simp
  moreover have "list_all (sys_untracked ?y) [(demo_task_env, demo_ctx 59)]"
    using demo_task_at [of 4026531840] by (auto simp: sys_untracked_def)
  ultimately have "net_run no_evict demo_pupd ?net net_init = net_init
      \<and> drop_run no_evict [(demo_env demo_client 4026531840, Retransmit 0x1000)] drop_init = drop_init
      \<and> fold (\<lambda>(e, ctx). trace_execve e ctx) [(demo_task_env, demo_ctx 59)] ?y = ?y"
    by (rule untracked_pods_invisible)
  then show ?thesis by (simp only: fold_simps prod.case id_apply)
qed

text \<open>The rows that the records of the two probes stand for.\<close>

definition traffic_row_of :: "string \<Rightarrow> nat \<Rightarrow> pod_status \<Rightarrow> network_event_data \<Rightarrow> pod_traffic" where
  "traffic_row_of uuid now pod ev =
     \<lparr>pt_uuid = uuid, pt_pod_name = pod_name pod, pt_pod_namespace = pod_namespace pod, pt_pod_ip = pod_ip pod,
      pt_pod_port = Some (if ne_kind ev = 2 then digits (unat (ne_sport ev)) else ''0''),
      pt_ip_protocol = Some (if ne_kind ev = 3 then ''UDP'' else ''TCP''),
      pt_traffic_type = Some (if ne_kind ev = 2 then ''INGRESS'' else ''EGRESS''),
      pt_traffic_in_out_ip = Some (ipv4_string (from_be (ne_daddr ev))),
      pt_traffic_in_out_port = Some (if ne_kind ev = 2 then ''0'' else digits (unat (ne_dport ev))),
      pt_decision = Some ''ALLOW'', pt_time_stamp = now\<rparr>"

definition drop_row_of :: "string \<Rightarrow> nat \<Rightarrow> pod_status \<Rightarrow> policy_drop_event \<Rightarrow> pod_traffic" where
  "drop_row_of uuid now pod ev =
     \<lparr>pt_uuid = uuid, pt_pod_name = pod_name pod, pt_pod_namespace = pod_namespace pod, pt_pod_ip = pod_ip pod,
      pt_pod_port = Some ''0'', pt_ip_protocol = Some ''TCP'', pt_traffic_type = Some ''EGRESS'',
      pt_traffic_in_out_ip = Some (ipv4_string (from_be (pe_daddr ev))),
      pt_traffic_in_out_port = Some (digits (unat (pe_dport ev))),
      pt_decision = Some ''DROP'', pt_time_stamp = now\<rparr>"

text \<open>What a builder answers when it makes the row \<open>r\<close>: nothing when the remote address is the pod's own or
  the row is a duplicate of one in the cache, and else the row, which is then entered.\<close>

definition answer_row :: "cache_updater \<Rightarrow> pod_status \<Rightarrow> pod_traffic \<Rightarrow> traffic_cache \<Rightarrow> pod_traffic option \<times> traffic_cache" where
  "answer_row ins pod r cache =
     (if pt_traffic_in_out_ip r = Some (pod_ip pod) \<or> cache (row_key r) \<noteq> None then (None, cache)
      else (Some r, ins cache (row_key r) ()))"

lemma digits_zero: "digits 0 = ''0''"
  by code_simp

lemma known_kind_row:
  "ne_kind ev \<in> {1, 2, 3} \<Longrightarrow> build_traffic_event ins uuid now ev pod cache = answer_row ins pod (traffic_row_of uuid now pod ev) cache"
  by (auto simp: build_traffic_event_eq candidate_def row_def enter_row_def answer_row_def traffic_row_of_def digits_zero)

lemma tcp_drop_row:
  "pe_protocol ev = 6 \<Longrightarrow> build_policy_drop_event ins uuid now ev pod cache = answer_row ins pod (drop_row_of uuid now pod ev) cache"
  by (auto simp: build_policy_drop_event_eq candidate_def row_def enter_row_def answer_row_def drop_row_of_def
      proto_to_string_def digits_zero)

text \<open>
  C23: the controller can use every record.  In every reachable state of the network probe and of
  the drop probe, each record in the ring buffer passes the callback's length check, and for any pod the
  controller finds for its namespace, \<^verbatim>\<open>build_traffic_event\<close> and \<^verbatim>\<open>build_policy_drop_event\<close> make of its
  event the row that is written out above, unless the remote address is the pod's own or the row's key is
  in the cache: the branches for an unknown kind or another protocol than TCP are never taken.
\<close>

theorem reachable_records_usable:
  assumes "net_reachable upd pupd iupd gupd T s" and "percpu_update pupd zero_ctx" and "map_update iupd"
    and "drop_reachable dupd iupd T d" and "map_update dupd"
  shows "(\<forall>r \<in> set (network_events s). \<exists>ev. network_callback r = Some ev \<and> (\<forall>ins uuid now pod cache.
        build_traffic_event ins uuid now ev pod cache = answer_row ins pod (traffic_row_of uuid now pod ev) cache))
    \<and> (\<forall>r \<in> set (policy_drop_events d). \<exists>ev. policy_drop_callback r = Some ev \<and> (\<forall>ins uuid now pod cache.
        build_policy_drop_event ins uuid now ev pod cache = answer_row ins pod (drop_row_of uuid now pod ev) cache))"
proof (intro conjI ballI)
  fix r assume "r \<in> set (network_events s)"
  then have "record_ok T r" by (rule net_invD(3) [OF net_reachable_inv [OF assms(1-3)]])
  then have r: "length r = 24" "ne_kind (network_event_of_bytes r) \<in> {1, 2, 3}"
    by (simp_all add: record_ok_def Let_def)
  then have "network_callback r = Some (network_event_of_bytes r)"
    by (simp add: network_callback_def network_event_cast_def network_event_of_bytes_def layout_simps)
  with known_kind_row [OF r(2)] show "\<exists>ev. network_callback r = Some ev \<and> (\<forall>ins uuid now pod cache.
      build_traffic_event ins uuid now ev pod cache = answer_row ins pod (traffic_row_of uuid now pod ev) cache)"
    by blast
next
  fix r assume "r \<in> set (policy_drop_events d)"
  then have "drop_record_ok T r" by (rule drop_invD(3) [OF drop_reachable_inv [OF assms(4,5,3)]])
  then have r: "length r = 40" "pe_protocol (policy_drop_event_of_bytes r) = 6"
    by (simp_all add: drop_record_ok_def Let_def)
  then have "policy_drop_callback r = Some (policy_drop_event_of_bytes r)"
    by (simp add: policy_drop_callback_def policy_drop_cast_def policy_drop_event_of_bytes_def layout_simps)
  with tcp_drop_row [OF r(2)] show "\<exists>ev. policy_drop_callback r = Some ev \<and> (\<forall>ins uuid now pod cache.
      build_policy_drop_event ins uuid now ev pod cache = answer_row ins pod (drop_row_of uuid now pod ev) cache)"
    by blast
qed

theorem reachable_records_usable_witness:
  "\<exists>ev r. network_callback (hd (network_events demo_reached)) = Some ev
    \<and> build_traffic_event no_evict ''u1'' 1 ev demo_pod Map.empty = (Some r, Map.empty(row_key r \<mapsto> ()))
    \<and> pt_traffic_in_out_ip r = Some ''10.0.0.9'' \<and> pt_ip_protocol r = Some ''UDP''"
proof -
  let ?r = "hd (network_events demo_reached)" and ?ev = "conn_event 3 4026531840 demo_client"
  have "network_events demo_reached \<noteq> []" by (simp add: demo_reached_events)
  then have "?r \<in> set (network_events demo_reached)" by simp
  moreover have ev: "network_callback ?r = Some ?ev" by (simp add: demo_reached_events net_channel.callback_fill)
  ultimately have built: "build_traffic_event no_evict ''u1'' 1 ?ev demo_pod Map.empty =
      answer_row no_evict demo_pod (traffic_row_of ''u1'' 1 demo_pod ?ev) Map.empty"
    using reachable_records_usable [OF demo_reached_reachable demo_pupd_ok(2) lru.map_update_axioms
        demo_blocked_reachable lru.map_update_axioms, THEN conjunct1] by auto
  have "enc32 0x0900000A = [10, 0, 0, 9]" by (simp add: enc32_bytes)
  moreover have "digits 10 = ''10''" "digits 9 = ''9''" by code_simp+
  ultimately have "ipv4_string (from_be 0x0900000A) = ''10.0.0.9''" using ipv4_text by (simp add: digits_zero)
  then have row: "pt_traffic_in_out_ip (traffic_row_of ''u1'' 1 demo_pod ?ev) = Some ''10.0.0.9''"
    and udp: "pt_ip_protocol (traffic_row_of ''u1'' 1 demo_pod ?ev) = Some ''UDP''"
    by (simp_all add: traffic_row_of_def demo_client_def)
  have "pod_ip demo_pod = ''10.0.0.5''" by (simp add: demo_pod_def)
  with row have "answer_row no_evict demo_pod (traffic_row_of ''u1'' 1 demo_pod ?ev) Map.empty =
      (Some (traffic_row_of ''u1'' 1 demo_pod ?ev), Map.empty(row_key (traffic_row_of ''u1'' 1 demo_pod ?ev) \<mapsto> ()))"
    by (auto simp: answer_row_def lru_update_def fun_eq_iff)
  with built show ?thesis using ev row udp
    by (intro exI [of _ ?ev] exI [of _ "traffic_row_of ''u1'' 1 demo_pod ?ev"] conjI) (simp_all only:)
qed

end
